(* ===== verification/JS_Prelude.thy ===== *)
theory JS_Prelude
  imports Main
begin

text \<open>
  Shared vocabulary of the development: thrown errors as values (\<open>result\<close>), the
  decimal-digit strings that \<^verbatim>\<open>Decimal.ts\<close> reads and prints, the JavaScript string
  methods the sources call, and the collections of simplification rules the component
  theories extend.
\<close>

named_theorems result_simps \<open>evaluation of the error-propagating combinators\<close>
named_theorems decimal_defs \<open>unfolding of the arithmetic of Decimal to natural numbers\<close>

section \<open>Thrown errors\<close>

text \<open>
  A function that may throw returns a value of \<open>'a result\<close>: \<open>Inl\<close> is the thrown error
  (with its message, as the sources build it), \<open>Inr\<close> the returned value. A failed
  \<^verbatim>\<open>assert\<close> is \<open>AssertionError\<close>; an error raised inside a third-party package carries
  the name the package gives it and no message.
\<close>

datatype js_error = Error string | AssertionError | ExternalError string

type_synonym 'a result = "js_error + 'a"

definition rbind :: "'a result \<Rightarrow> ('a \<Rightarrow> 'b result) \<Rightarrow> 'b result" where
  "rbind m f = (case m of Inl e \<Rightarrow> Inl e | Inr x \<Rightarrow> f x)"

definition js_assert :: "bool \<Rightarrow> unit result" where
  "js_assert b = (if b then Inr () else Inl AssertionError)"

fun mapM :: "('a \<Rightarrow> 'b result) \<Rightarrow> 'a list \<Rightarrow> 'b list result" where
  "mapM f [] = Inr []"
| "mapM f (x # xs) = rbind (f x) (\<lambda>y. rbind (mapM f xs) (\<lambda>ys. Inr (y # ys)))"

lemma rbind_simps [simp, result_simps]:
  "rbind (Inl e) f = Inl e"
  "rbind (Inr x) f = f x"
  by (simp_all add: rbind_def)

lemma rbind_eq_Inr_iff: "rbind m f = Inr y \<longleftrightarrow> (\<exists>x. m = Inr x \<and> f x = Inr y)"
  by (cases m) simp_all

lemma rbind_eq_Inl_iff: "rbind m f = Inl e \<longleftrightarrow> m = Inl e \<or> (\<exists>x. m = Inr x \<and> f x = Inl e)"
  by (cases m) simp_all

lemma rbind_assoc: "rbind (rbind m f) g = rbind m (\<lambda>x. rbind (f x) g)"
  by (cases m) simp_all

lemma rbind_cong [fundef_cong]:
  "m = m' \<Longrightarrow> (\<And>x. m' = Inr x \<Longrightarrow> f x = f' x) \<Longrightarrow> rbind m f = rbind m' f'"
  by (cases m') simp_all

lemma js_assert_simps [simp, result_simps]:
  "js_assert True = Inr ()"
  "js_assert False = Inl AssertionError"
  by (simp_all add: js_assert_def)

lemma js_assert_eq_Inr_iff [simp]: "js_assert b = Inr u \<longleftrightarrow> b"
  by (simp add: js_assert_def)

lemma mapM_eq_Inr_iff: "mapM f xs = Inr ys \<longleftrightarrow> list_all2 (\<lambda>x y. f x = Inr y) xs ys"
proof (induction xs arbitrary: ys)
  case Nil
  then show ?case by auto
next
  case (Cons x xs)
  then show ?case by (cases ys) (auto simp: rbind_eq_Inr_iff)
qed

lemma mapM_Inr: "mapM (\<lambda>x. Inr (g x)) xs = Inr (map g xs)"
  by (induction xs) simp_all

section \<open>Rounding down\<close>

lemma div_floor_bounds:
  fixes v q :: nat
  assumes "0 < q"
  shows "v div q * q \<le> v" and "v < v div q * q + q"
proof -
  have "v div q * q + v mod q = v" and "v mod q < q"
    using assms by simp_all
  then show "v div q * q \<le> v" and "v < v div q * q + q"
    by linarith+
qed

lemma div_mult_floor:
  fixes v q D :: nat
  assumes "q dvd D"
  shows "v div D * D + v mod D div q * q = v div q * q"
proof -
  obtain k where D: "D = q * k" using assms by blast
  have m: "v mod D div q = v div q mod k" and d: "v div D = v div q div k"
    by (cases "q = 0"; simp add: D mod_mult2_eq div_mult2_eq)+
  have distrib: "a * (q * k) + b * q = (a * k + b) * q" for a b
    by (simp add: algebra_simps)
  have "v div D * D + v mod D div q * q = (v div q div k * k + v div q mod k) * q"
    unfolding m d unfolding D by (rule distrib)
  then show ?thesis by simp
qed

lemma half_step_rounding:
  fixes v d q r :: nat
  assumes "2 * v = 2 * d + q" and "r \<le> v" and "v < r + q"
  shows "2 * \<bar>int r - int d\<bar> \<le> int q"
  using assms by (cases "r \<le> d") simp_all

section \<open>Decimal digits\<close>

definition is_digit :: "char \<Rightarrow> bool" where
  "is_digit c \<longleftrightarrow> 48 \<le> (of_char c :: nat) \<and> (of_char c :: nat) \<le> 57"

definition digit_value :: "char \<Rightarrow> nat" where
  "digit_value c = of_char c - 48"

definition digit_char :: "nat \<Rightarrow> char" where
  "digit_char d = char_of (48 + d)"

definition digits_value :: "string \<Rightarrow> nat" where
  "digits_value s = foldl (\<lambda>acc c. 10 * acc + digit_value c) 0 s"

fun show_nat :: "nat \<Rightarrow> string" where
  "show_nat n = (if n < 10 then [digit_char n] else show_nat (n div 10) @ [digit_char (n mod 10)])"

declare show_nat.simps [simp del]

lemma digit_value_char [simp]: "d < 10 \<Longrightarrow> digit_value (digit_char d) = d"
  by (simp add: digit_value_def digit_char_def)

lemma is_digit_char [simp]: "d < 10 \<Longrightarrow> is_digit (digit_char d)"
  by (simp add: is_digit_def digit_char_def)

lemma digit_value_less: "is_digit c \<Longrightarrow> digit_value c < 10"
  by (auto simp: is_digit_def digit_value_def)

lemma digits_value_Nil [simp]: "digits_value [] = 0"
  by (simp add: digits_value_def)

lemma digits_value_snoc [simp]: "digits_value (s @ [c]) = 10 * digits_value s + digit_value c"
  by (simp add: digits_value_def)

lemma digits_value_append: "digits_value (s @ t) = digits_value s * 10 ^ length t + digits_value t"
  by (induction t rule: rev_induct)
    (simp_all add: digits_value_snoc algebra_simps flip: append_assoc del: append_assoc)

lemma digits_value_Cons: "digits_value (c # t) = digit_value c * 10 ^ length t + digits_value t"
  using digits_value_append [of "[c]" t] by (simp add: digits_value_def)

lemma digits_value_zeros [simp]: "digits_value (replicate n (CHR ''0'')) = 0"
  by (induction n) (simp_all add: digits_value_Cons digit_value_def)

lemma digits_value_less: "list_all is_digit s \<Longrightarrow> digits_value s < 10 ^ length s"
proof (induction s rule: rev_induct)
  case (snoc c s)
  then have "digits_value s < 10 ^ length s" "digit_value c < 10"
    by (simp_all add: digit_value_less)
  then have "10 * digits_value s + 10 \<le> 10 * 10 ^ length s"
    by simp
  with \<open>digit_value c < 10\<close> show ?case
    by simp
qed simp

lemma show_nat_digits: "list_all is_digit (show_nat n)"
proof (induction n rule: show_nat.induct)
  case (1 n)
  then show ?case by (subst show_nat.simps) simp
qed

lemma show_nat_not_Nil [simp]: "show_nat n \<noteq> []"
  by (subst show_nat.simps) simp

lemma digits_value_show_nat [simp]: "digits_value (show_nat n) = n"
proof (induction n rule: show_nat.induct)
  case (1 n)
  show ?case
  proof (cases "n < 10")
    case True
    then show ?thesis by (subst show_nat.simps) (simp add: digits_value_def)
  next
    case False
    with 1 show ?thesis by (subst show_nat.simps) simp
  qed
qed

lemma length_show_nat_le: "n < 10 ^ k \<Longrightarrow> 0 < k \<Longrightarrow> length (show_nat n) \<le> k"
proof (induction n arbitrary: k rule: show_nat.induct)
  case (1 n)
  show ?case
  proof (cases "n < 10")
    case True
    with 1 show ?thesis by (subst show_nat.simps) simp
  next
    case False
    with 1(2,3) obtain j where k: "k = Suc (Suc j)"
      by (cases k; cases "k - 1") auto
    with 1(2) have "n div 10 < 10 ^ Suc j"
      by (simp add: less_mult_imp_div_less)
    with 1(1) False have "length (show_nat (n div 10)) \<le> Suc j"
      by simp
    with k show ?thesis by (subst show_nat.simps) simp
  qed
qed

section \<open>String methods of JavaScript\<close>

text \<open>
  \<^verbatim>\<open>s.split(c)\<close> for a one-character separator, as the pair the sources destructure
  (\<^verbatim>\<open>const [a, b] = s.split(c)\<close>): the text before the first separator, and what stands
  between it and the next one (\<open>None\<close>, for \<^verbatim>\<open>undefined\<close>, when there is no separator).
\<close>

definition split_first :: "char \<Rightarrow> string \<Rightarrow> string" where
  "split_first c s = takeWhile (\<lambda>x. x \<noteq> c) s"

definition split_second :: "char \<Rightarrow> string \<Rightarrow> string option" where
  "split_second c s = (case dropWhile (\<lambda>x. x \<noteq> c) s of
      [] \<Rightarrow> None
    | _ # rest \<Rightarrow> Some (takeWhile (\<lambda>x. x \<noteq> c) rest))"

definition padStart :: "nat \<Rightarrow> char \<Rightarrow> string \<Rightarrow> string" where
  "padStart n c s = replicate (n - length s) c @ s"

definition trim_trailing_zeros :: "string \<Rightarrow> string" where
  "trim_trailing_zeros s = rev (dropWhile (\<lambda>c. c = CHR ''0'') (rev s))"

lemma split_first_append [simp]:
  "c \<notin> set s \<Longrightarrow> split_first c (s @ c # t) = s"
  "c \<notin> set s \<Longrightarrow> split_first c s = s"
  by (auto simp: split_first_def takeWhile_append takeWhile_eq_all_conv)

lemma split_second_append [simp]:
  assumes "c \<notin> set s" and "c \<notin> set t"
  shows "split_second c (s @ c # t) = Some t"
proof -
  have "dropWhile (\<lambda>x. x \<noteq> c) (s @ c # t) = c # t"
    using assms(1) by (induction s) auto
  then show ?thesis
    using assms(2) by (auto simp: split_second_def takeWhile_eq_all_conv)
qed

lemma split_second_None [simp]: "c \<notin> set s \<Longrightarrow> split_second c s = None"
proof -
  assume "c \<notin> set s"
  then have "dropWhile (\<lambda>x. x \<noteq> c) s = []"
    by (auto simp: dropWhile_eq_Nil_conv)
  then show ?thesis unfolding split_second_def by (simp only: list.case)
qed

lemma length_split_first: "c \<in> set s \<Longrightarrow> length (split_first c s) < length s"
  unfolding split_first_def by (induction s) auto

lemma split_first_not_in: "c \<notin> set (split_first c s)"
  unfolding split_first_def by (auto dest: set_takeWhileD)

lemma digits_value_padStart [simp]: "digits_value (padStart n (CHR ''0'') s) = digits_value s"
  by (simp add: padStart_def digits_value_append)

lemma length_padStart: "length s \<le> n \<Longrightarrow> length (padStart n c s) = n"
  by (simp add: padStart_def)

lemma trim_trailing_zeros_decomp:
  "\<exists>k. s = trim_trailing_zeros s @ replicate k (CHR ''0'')"
proof -
  let ?z = "takeWhile (\<lambda>c. c = CHR ''0'') (rev s)"
  have "?z = replicate (length ?z) (CHR ''0'')"
    by (rule replicate_length_same [symmetric]) (auto dest: set_takeWhileD)
  then have z: "rev ?z = replicate (length ?z) (CHR ''0'')"
    by (metis rev_replicate)
  have "s = rev (?z @ dropWhile (\<lambda>c. c = CHR ''0'') (rev s))"
    by simp
  also have "\<dots> = trim_trailing_zeros s @ rev ?z"
    unfolding trim_trailing_zeros_def rev_append ..
  finally show ?thesis
    using z by metis
qed

lemma set_trim_trailing_zeros: "set (trim_trailing_zeros s) \<subseteq> set s"
  unfolding trim_trailing_zeros_def by (auto dest: set_dropWhileD)

text \<open>\<^verbatim>\<open>s.includes(search)\<close>\<close>

fun text_includes :: "string \<Rightarrow> string \<Rightarrow> bool" where
  "text_includes [] search \<longleftrightarrow> search = []"
| "text_includes (c # text) search \<longleftrightarrow> take (length search) (c # text) = search \<or> text_includes text search"

text \<open>\<^verbatim>\<open>xs.join(sep)\<close>\<close>

fun join :: "string \<Rightarrow> string list \<Rightarrow> string" where
  "join sep [] = []"
| "join sep [x] = x"
| "join sep (x # y # xs) = x @ sep @ join sep (y # xs)"

end
