(* ===== verification/Decimal.thy ===== *)
theory Decimal
  imports JS_Prelude "HOL-Library.Signed_Division"
begin

text \<open>
  The fixed-point numbers of \<^verbatim>\<open>packages/lib-base/src/Decimal.ts\<close>: the class
  \<^verbatim>\<open>Decimal\<close> (parsing, printing, arithmetic, powers, comparison), the class
  \<^verbatim>\<open>Difference\<close> and the class \<^verbatim>\<open>Percent\<close>.

  A \<^verbatim>\<open>Decimal\<close> wraps a \<^verbatim>\<open>BigNumber\<close>, the unbounded integer type of the package
  \<^verbatim>\<open>@ethersproject/bignumber\<close>; HOL's unbounded integers take its place, with
  \<^verbatim>\<open>BigNumber.div\<close> as division truncated towards zero. The private constructor refuses
  negative integers (\<open>new_Decimal\<close>), so the wrapped number is a \<open>nat\<close>, and the one
  operation that can make it negative, \<^verbatim>\<open>sub\<close>, returns a \<open>result\<close>. Every binary operation
  of the class first converts its argument with \<^verbatim>\<open>Decimal.from\<close>, which is the identity on
  a \<^verbatim>\<open>Decimal\<close>; the operations below take the converted argument, and callers that hold
  a \<^verbatim>\<open>Decimalish\<close> convert it with \<open>Decimal_from\<close>.
\<close>

section \<open>Representation and constants\<close>

definition PRECISION :: nat where
  "PRECISION = 8"

definition getDigits :: "nat \<Rightarrow> nat" where
  "getDigits numDigits = 10 ^ numDigits"

definition DIGITS :: nat where
  "DIGITS = getDigits PRECISION"

definition MAX_UINT_256 :: nat where
  "MAX_UINT_256 = 2 ^ 256 - 1"

datatype decimal = Decimal (bigNumber: nat)

definition new_Decimal :: "int \<Rightarrow> decimal result" where
  "new_Decimal n =
     (if n < 0 then Inl (Error ''negatives not supported by Decimal'') else Inr (Decimal (nat n)))"

definition Decimal_INFINITY :: decimal where
  "Decimal_INFINITY = Decimal MAX_UINT_256"

definition Decimal_ZERO :: decimal where
  "Decimal_ZERO = Decimal 0"

definition Decimal_HALF :: decimal where
  "Decimal_HALF = Decimal 50000000"

definition Decimal_ONE :: decimal where
  "Decimal_ONE = Decimal 100000000"

text \<open>
  The string argument of the next two functions reaches the model as the integer it
  denotes, read by \<^verbatim>\<open>BigNumber.from\<close>. \<^verbatim>\<open>TEN.pow\<close> raises on a negative exponent.
\<close>

definition Decimal_fromBigNumberString :: "int \<Rightarrow> decimal result" where
  "Decimal_fromBigNumberString n = new_Decimal n"

definition Decimal_fromBigNumberStringWithPrecision :: "int \<Rightarrow> int \<Rightarrow> decimal result" where
  "Decimal_fromBigNumberStringWithPrecision n precision =
     (if precision < 0 then Inl (ExternalError ''BigNumber.pow'')
      else new_Decimal ((n * int DIGITS) sdiv (10 ^ nat precision)))"

section \<open>Parsing\<close>

text \<open>
  The regular expression \<^verbatim>\<open>/^[0-9]*(\.[0-9]*)?(e[-+]?[0-9]+)?$/\<close>. Each optional part
  starts with a letter the part before it cannot contain, so matching is one greedy pass.
\<close>

definition exponent_format :: "string \<Rightarrow> bool" where
  "exponent_format s =
     (let t = (case s of c # u \<Rightarrow> (if c = CHR ''-'' \<or> c = CHR ''+'' then u else s) | [] \<Rightarrow> s)
      in t \<noteq> [] \<and> list_all is_digit t)"

definition stringRepresentationFormat :: "string \<Rightarrow> bool" where
  "stringRepresentationFormat s =
     (let afterDigits = dropWhile is_digit s;
          afterMantissa = (case afterDigits of
              c # t \<Rightarrow> (if c = CHR ''.'' then dropWhile is_digit t else afterDigits)
            | [] \<Rightarrow> [])
      in case afterMantissa of
           [] \<Rightarrow> True
         | c # t \<Rightarrow> c = CHR ''e'' \<and> exponent_format t)"

lemma split_second_Some_in: "split_second c s = Some t \<Longrightarrow> c \<in> set s"
  by (rule ccontr) simp

text \<open>
  \<^verbatim>\<open>_fromString\<close>. Its \<^verbatim>\<open>split\<close> calls are \<open>split_first\<close> and \<open>split_second\<close>;
  \<open>split_second c s = None\<close> is \<^verbatim>\<open>!s.includes(c)\<close>. The digit strings that are left when the
  format check has passed are read by \<open>digits_value\<close>, for \<^verbatim>\<open>BigNumber.from\<close> (the
  empty characteristic is 0, as in \<^verbatim>\<open>characteristic || 0\<close>).
\<close>

function Decimal_fromString :: "string \<Rightarrow> decimal result" where
  "Decimal_fromString representation =
     (if representation = [] \<or> \<not> stringRepresentationFormat representation
      then Inl (Error (''bad decimal format: \"'' @ representation @ ''\"''))
      else case split_second (CHR ''e'') representation of
        Some exponent \<Rightarrow>
          (let coefficient = split_first (CHR ''e'') representation in
           if take 1 exponent = ''-''
           then rbind (Decimal_fromString coefficient) (\<lambda>d.
                  Inr (Decimal (bigNumber d div 10 ^ digits_value (drop 1 exponent))))
           else (let exponent' = (if take 1 exponent = ''+'' then drop 1 exponent else exponent) in
                 rbind (Decimal_fromString coefficient) (\<lambda>d.
                   Inr (Decimal (bigNumber d * 10 ^ digits_value exponent')))))
      | None \<Rightarrow>
          (case split_second (CHR ''.'') representation of
             None \<Rightarrow> Inr (Decimal (digits_value representation * DIGITS))
           | Some mantissa \<Rightarrow>
               (let characteristic = split_first (CHR ''.'') representation;
                    mantissa' = (if length mantissa < PRECISION
                                 then mantissa @ replicate (PRECISION - length mantissa) (CHR ''0'')
                                 else take PRECISION mantissa)
                in Inr (Decimal (digits_value characteristic * DIGITS + digits_value mantissa')))))"
  by pat_completeness auto

termination
  by (relation "measure length") (auto dest: split_second_Some_in intro: length_split_first)

declare Decimal_fromString.simps [simp del]

text \<open>
  \<^verbatim>\<open>Decimal.from\<close> dispatches on \<^verbatim>\<open>typeof\<close>. A JavaScript number enters the parser only through
  its \<^verbatim>\<open>toString()\<close>, so the model's numbers are those texts (\<^verbatim>\<open>1e-7\<close>, \<^verbatim>\<open>0.005\<close>, \<^verbatim>\<open>NaN\<close>).
  \<open>OtherObject\<close> is an object that is no \<^verbatim>\<open>Decimal\<close>, \<open>OtherType\<close> any value with another
  \<^verbatim>\<open>typeof\<close>, such as \<^verbatim>\<open>undefined\<close>.
\<close>

datatype decimalish = DecimalObject decimal | Number string | Text string | OtherObject | OtherType

definition Decimal_from :: "decimalish \<Rightarrow> decimal result" where
  "Decimal_from decimalish = (case decimalish of
      DecimalObject d \<Rightarrow> Inr d
    | OtherObject \<Rightarrow> Inl (Error ''invalid Decimalish value'')
    | Text s \<Rightarrow> Decimal_fromString s
    | Number s \<Rightarrow> Decimal_fromString s
    | OtherType \<Rightarrow> Decimal_fromString ''0'')"

section \<open>Comparison\<close>

definition Decimal_lt :: "decimal \<Rightarrow> decimal \<Rightarrow> bool" where
  "Decimal_lt this that \<longleftrightarrow> bigNumber this < bigNumber that"

definition Decimal_eq :: "decimal \<Rightarrow> decimal \<Rightarrow> bool" where
  "Decimal_eq this that \<longleftrightarrow> bigNumber this = bigNumber that"

definition Decimal_gt :: "decimal \<Rightarrow> decimal \<Rightarrow> bool" where
  "Decimal_gt this that \<longleftrightarrow> bigNumber this > bigNumber that"

definition Decimal_gte :: "decimal \<Rightarrow> decimal \<Rightarrow> bool" where
  "Decimal_gte this that \<longleftrightarrow> bigNumber this \<ge> bigNumber that"

definition Decimal_lte :: "decimal \<Rightarrow> decimal \<Rightarrow> bool" where
  "Decimal_lte this that \<longleftrightarrow> bigNumber this \<le> bigNumber that"

definition Decimal_min :: "decimal \<Rightarrow> decimal \<Rightarrow> decimal" where
  "Decimal_min a b = (if Decimal_lt a b then a else b)"

definition Decimal_max :: "decimal \<Rightarrow> decimal \<Rightarrow> decimal" where
  "Decimal_max a b = (if Decimal_gt a b then a else b)"

definition Decimal_isZero :: "decimal \<Rightarrow> bool" where
  "Decimal_isZero this \<longleftrightarrow> bigNumber this = 0"

definition Decimal_zero :: "decimal \<Rightarrow> decimal option" where
  "Decimal_zero this = (if Decimal_isZero this then Some this else None)"

definition Decimal_nonZero :: "decimal \<Rightarrow> decimal option" where
  "Decimal_nonZero this = (if \<not> Decimal_isZero this then Some this else None)"

definition Decimal_infinite :: "decimal \<Rightarrow> decimal option" where
  "Decimal_infinite this = (if Decimal_eq this Decimal_INFINITY then Some this else None)"

definition Decimal_finite :: "decimal \<Rightarrow> decimal option" where
  "Decimal_finite this = (if \<not> Decimal_eq this Decimal_INFINITY then Some this else None)"

definition Decimal_absoluteValue :: "decimal \<Rightarrow> decimal" where
  "Decimal_absoluteValue this = this"

section \<open>Arithmetic\<close>

definition Decimal_add :: "decimal \<Rightarrow> decimal \<Rightarrow> decimal" where
  "Decimal_add this addend = Decimal (bigNumber this + bigNumber addend)"

definition Decimal_sub :: "decimal \<Rightarrow> decimal \<Rightarrow> decimal result" where
  "Decimal_sub this subtrahend = new_Decimal (int (bigNumber this) - int (bigNumber subtrahend))"

definition Decimal_mul :: "decimal \<Rightarrow> decimal \<Rightarrow> decimal" where
  "Decimal_mul this multiplier = Decimal (bigNumber this * bigNumber multiplier div DIGITS)"

definition Decimal_div :: "decimal \<Rightarrow> decimal \<Rightarrow> decimal" where
  "Decimal_div this divider =
     (if Decimal_isZero divider then Decimal_INFINITY
      else Decimal (bigNumber this * DIGITS div bigNumber divider))"

definition Decimal_divCeil :: "decimal \<Rightarrow> decimal \<Rightarrow> decimal" where
  "Decimal_divCeil this divider =
     (if Decimal_isZero divider then Decimal_INFINITY
      else Decimal ((bigNumber this * DIGITS + (bigNumber divider - 1)) div bigNumber divider))"

definition Decimal_mulDiv :: "decimal \<Rightarrow> decimal \<Rightarrow> decimal \<Rightarrow> decimal" where
  "Decimal_mulDiv this multiplier divider =
     (if Decimal_isZero divider then Decimal_INFINITY
      else Decimal (bigNumber this * bigNumber multiplier div bigNumber divider))"

definition roundedMul :: "nat \<Rightarrow> nat \<Rightarrow> nat" where
  "roundedMul x y = (x * y + bigNumber Decimal_HALF) div DIGITS"

text \<open>
  \<^verbatim>\<open>pow\<close>: the loop keeps \<open>x\<close> and \<open>y\<close>; the exponent is an integer below \<open>2\<^sup>3\<^sup>2\<close> after the
  assertions, where \<^verbatim>\<open>exponent >>>= 1\<close> is \<open>div 2\<close> and \<^verbatim>\<open>exponent & 1\<close> is its parity. (The
  first assertion, \<^verbatim>\<open>Number.isInteger\<close>, holds by the type of the parameter.)
\<close>

fun pow_loop :: "nat \<Rightarrow> nat \<Rightarrow> nat \<Rightarrow> nat \<times> nat" where
  "pow_loop exponent x y =
     (if exponent > 1
      then pow_loop (exponent div 2) (roundedMul x x) (if odd exponent then roundedMul x y else y)
      else (x, y))"

declare pow_loop.simps [simp del]

definition Decimal_pow :: "decimal \<Rightarrow> int \<Rightarrow> decimal result" where
  "Decimal_pow this exponent =
     rbind (js_assert (0 \<le> exponent \<and> exponent \<le> 0xffffffff)) (\<lambda>_.
       if exponent = 0 then Inr Decimal_ONE
       else if exponent = 1 then Inr this
       else (let (x, y) = pow_loop (nat exponent) (bigNumber this) DIGITS
             in Inr (Decimal (roundedMul x y))))"

section \<open>Printing\<close>

text \<open>
  The text of infinity is one code unit, the sign for infinity. Strings of the model are over
  the 256 letters of \<open>char\<close>; all other texts of the library are ASCII, and the letter 236
  stands for that sign.
\<close>

definition infinity_sign :: char where
  "infinity_sign = char_of (236::nat)"

definition toStringWithAutomaticPrecision :: "decimal \<Rightarrow> string" where
  "toStringWithAutomaticPrecision this =
     (let characteristic = bigNumber this div DIGITS;
          mantissa = bigNumber this mod DIGITS
      in if mantissa = 0 then show_nat characteristic
         else (let paddedMantissa = padStart PRECISION (CHR ''0'') (show_nat mantissa);
                   trimmedMantissa = trim_trailing_zeros paddedMantissa
               in show_nat characteristic @ ''.'' @ trimmedMantissa))"

definition Decimal_roundUp :: "decimal \<Rightarrow> nat \<Rightarrow> nat" where
  "Decimal_roundUp this precision =
     (let halfDigit = getDigits (PRECISION - 1 - precision) * 5 in bigNumber this + halfDigit)"

definition toStringWithPrecision :: "decimal \<Rightarrow> int \<Rightarrow> string result" where
  "toStringWithPrecision this precision =
     (if precision < 0 then Inl (Error ''precision must not be negative'')
      else (let value = (if precision < int PRECISION then Decimal_roundUp this (nat precision)
                         else bigNumber this);
                characteristic = value div DIGITS;
                mantissa = value mod DIGITS
            in if precision = 0 then Inr (show_nat characteristic)
               else (let paddedMantissa = padStart PRECISION (CHR ''0'') (show_nat mantissa);
                         trimmedMantissa = take (nat precision) paddedMantissa
                     in Inr (show_nat characteristic @ ''.'' @ trimmedMantissa))))"

definition Decimal_toString :: "decimal \<Rightarrow> int option \<Rightarrow> string result" where
  "Decimal_toString this precision =
     (if Decimal_infinite this \<noteq> None then Inr [infinity_sign]
      else case precision of
             Some p \<Rightarrow> toStringWithPrecision this p
           | None \<Rightarrow> Inr (toStringWithAutomaticPrecision this))"

text \<open>
  \<^verbatim>\<open>replace(/(\d)(?=(\d{3})+(?!\d))/g, "$1,")\<close>: a comma follows every digit after which
  the run of digits has a positive length divisible by three.
\<close>

fun group_thousands :: "string \<Rightarrow> string" where
  "group_thousands [] = []"
| "group_thousands (c # rest) =
     (let n = length (takeWhile is_digit rest) in
      if is_digit c \<and> 0 < n \<and> n mod 3 = 0 then c # CHR '','' # group_thousands rest
      else c # group_thousands rest)"

definition Decimal_prettify :: "decimal \<Rightarrow> int \<Rightarrow> string result" where
  "Decimal_prettify this precision =
     rbind (Decimal_toString this (Some precision)) (\<lambda>s.
       let characteristic = split_first (CHR ''.'') s;
           prettyCharacteristic = group_thousands characteristic
       in Inr (case split_second (CHR ''.'') s of
                 Some mantissa \<Rightarrow> prettyCharacteristic @ ''.'' @ mantissa
               | None \<Rightarrow> prettyCharacteristic))"

definition magnitudes :: "string list" where
  "magnitudes = ['''', ''K'', ''M'', ''B'', ''T'']"

definition Decimal_shorten :: "decimal \<Rightarrow> string result" where
  "Decimal_shorten this =
     rbind (Decimal_toString this (Some 0)) (\<lambda>s0.
       let characteristicLength = length s0;
           magnitude = min ((characteristicLength - 1) div 3) (length magnitudes - 1);
           precision = max (3 * (int magnitude + 1) - int characteristicLength) 0;
           normalized = Decimal_div this (Decimal (getDigits (PRECISION + 3 * magnitude)))
       in rbind (Decimal_prettify normalized precision) (\<lambda>s.
            Inr (s @ magnitudes ! magnitude)))"

section \<open>Difference\<close>

datatype sign = NoSign | PlusSign | MinusSign

fun sign_text :: "sign \<Rightarrow> string" where
  "sign_text NoSign = ''''"
| "sign_text PlusSign = ''+''"
| "sign_text MinusSign = ''-''"

datatype difference = Difference (number: "(sign \<times> decimal) option")

definition Difference_between :: "decimalish option \<Rightarrow> decimalish option \<Rightarrow> difference result" where
  "Difference_between d1 d2 = (case (d1, d2) of
      (Some x, Some y) \<Rightarrow>
        rbind (Decimal_from x) (\<lambda>d1. rbind (Decimal_from y) (\<lambda>d2.
          if Decimal_infinite d1 \<noteq> None \<and> Decimal_infinite d2 \<noteq> None then Inr (Difference None)
          else if Decimal_infinite d1 \<noteq> None then Inr (Difference (Some (PlusSign, d1)))
          else if Decimal_infinite d2 \<noteq> None then Inr (Difference (Some (MinusSign, d2)))
          else if Decimal_gt d1 d2
            then rbind (Decimal_sub d1 d2) (\<lambda>d. Inr (Difference (Some (PlusSign, d))))
          else if Decimal_gt d2 d1
            then rbind (Decimal_sub d2 d1) (\<lambda>d. Inr (Difference (Some (MinusSign, d))))
          else Inr (Difference (Some (NoSign, Decimal_ZERO)))))
    | _ \<Rightarrow> Inr (Difference None))"

definition Difference_toString :: "difference \<Rightarrow> int option \<Rightarrow> string result" where
  "Difference_toString this precision = (case number this of
      None \<Rightarrow> Inr ''N/A''
    | Some (sign, absoluteValue) \<Rightarrow>
        rbind (Decimal_toString absoluteValue precision) (\<lambda>s. Inr (sign_text sign @ s)))"

text \<open>An absent \<^verbatim>\<open>precision\<close> reaches \<^verbatim>\<open>Decimal.prettify\<close> as \<^verbatim>\<open>undefined\<close>, so its default 2 applies.\<close>

definition Difference_prettify :: "difference \<Rightarrow> int option \<Rightarrow> string result" where
  "Difference_prettify this precision = (case number this of
      None \<Rightarrow> Difference_toString this None
    | Some (sign, absoluteValue) \<Rightarrow>
        rbind (Decimal_prettify absoluteValue (case precision of Some p \<Rightarrow> p | None \<Rightarrow> 2))
          (\<lambda>s. Inr (sign_text sign @ s)))"

definition Difference_mul :: "difference \<Rightarrow> decimal \<Rightarrow> difference" where
  "Difference_mul this multiplier =
     Difference (map_option (\<lambda>(sign, d). (sign, Decimal_mul d multiplier)) (number this))"

definition Difference_absoluteValue :: "difference \<Rightarrow> decimal option" where
  "Difference_absoluteValue this = map_option snd (number this)"

definition Difference_nonZero :: "difference \<Rightarrow> difference option" where
  "Difference_nonZero this = (case Difference_absoluteValue this of
      Some d \<Rightarrow> (if Decimal_nonZero d \<noteq> None then Some this else None) | None \<Rightarrow> None)"

definition Difference_positive :: "difference \<Rightarrow> difference option" where
  "Difference_positive this =
     (if map_option fst (number this) = Some PlusSign then Some this else None)"

definition Difference_negative :: "difference \<Rightarrow> difference option" where
  "Difference_negative this =
     (if map_option fst (number this) = Some MinusSign then Some this else None)"

definition Difference_infinite :: "difference \<Rightarrow> difference option" where
  "Difference_infinite this = (case Difference_absoluteValue this of
      Some d \<Rightarrow> (if Decimal_infinite d \<noteq> None then Some this else None) | None \<Rightarrow> None)"

definition Difference_finite :: "difference \<Rightarrow> difference option" where
  "Difference_finite this = (case Difference_absoluteValue this of
      Some d \<Rightarrow> (if Decimal_finite d \<noteq> None then Some this else None) | None \<Rightarrow> None)"

section \<open>Percent\<close>

text \<open>
  \<^verbatim>\<open>Percent\<close> is generic in its ratio; the library instantiates it with \<^verbatim>\<open>Decimal\<close> and with
  \<^verbatim>\<open>Difference\<close>, both of which have all the optional members it looks for.
\<close>

datatype ratio = DecimalRatio decimal | DifferenceRatio difference

fun ratio_infinite :: "ratio \<Rightarrow> bool" where
  "ratio_infinite (DecimalRatio d) = (Decimal_infinite d \<noteq> None)"
| "ratio_infinite (DifferenceRatio d) = (Difference_infinite d \<noteq> None)"

fun ratio_mul :: "ratio \<Rightarrow> decimal \<Rightarrow> ratio" where
  "ratio_mul (DecimalRatio d) m = DecimalRatio (Decimal_mul d m)"
| "ratio_mul (DifferenceRatio d) m = DifferenceRatio (Difference_mul d m)"

fun ratio_absoluteValue :: "ratio \<Rightarrow> decimal option" where
  "ratio_absoluteValue (DecimalRatio d) = Some (Decimal_absoluteValue d)"
| "ratio_absoluteValue (DifferenceRatio d) = Difference_absoluteValue d"

fun ratio_toString :: "ratio \<Rightarrow> int option \<Rightarrow> string result" where
  "ratio_toString (DecimalRatio d) p = Decimal_toString d p"
| "ratio_toString (DifferenceRatio d) p = Difference_toString d p"

datatype percent = Percent (percent_ratio: ratio)

definition new_Percent :: "ratio \<Rightarrow> percent" where
  "new_Percent ratio =
     Percent (if ratio_infinite ratio then ratio else ratio_mul ratio (Decimal (100 * DIGITS)))"

definition Percent_nonZeroish :: "percent \<Rightarrow> nat \<Rightarrow> percent option result" where
  "Percent_nonZeroish this precision =
     (case ratio_absoluteValue (percent_ratio this) of
        None \<Rightarrow> Inr None
      | Some d \<Rightarrow>
          rbind (Decimal_fromString (''0.'' @ replicate precision (CHR ''0'') @ ''5'')) (\<lambda>zeroish.
            Inr (if Decimal_gte d zeroish then Some this else None)))"

definition Percent_toString :: "percent \<Rightarrow> int \<Rightarrow> string result" where
  "Percent_toString this precision =
     rbind (ratio_toString (percent_ratio this) (Some precision)) (\<lambda>s.
       Inr (s @ (if ratio_absoluteValue (percent_ratio this) \<noteq> None
                   \<and> \<not> ratio_infinite (percent_ratio this) then ''%'' else '''')))"

definition Percent_prettify :: "percent \<Rightarrow> string result" where
  "Percent_prettify this = (case ratio_absoluteValue (percent_ratio this) of
      None \<Rightarrow> Percent_toString this 2
    | Some d \<Rightarrow>
        (if Decimal_gte d (Decimal (1000 * DIGITS)) then Percent_toString this 0
         else if Decimal_gte d (Decimal (10 * DIGITS)) then Percent_toString this 1
         else Percent_toString this 2))"

section \<open>Decimals as a linear order\<close>

instantiation decimal :: linorder
begin

definition less_eq_decimal :: "decimal \<Rightarrow> decimal \<Rightarrow> bool" where
  "less_eq_decimal a b \<longleftrightarrow> bigNumber a \<le> bigNumber b"

definition less_decimal :: "decimal \<Rightarrow> decimal \<Rightarrow> bool" where
  "less_decimal a b \<longleftrightarrow> bigNumber a < bigNumber b"

instance
  by standard (auto simp: less_eq_decimal_def less_decimal_def intro: decimal.expand)

end

lemma Decimal_order_simps [simp]:
  "Decimal_lt a b \<longleftrightarrow> a < b"
  "Decimal_gt a b \<longleftrightarrow> b < a"
  "Decimal_lte a b \<longleftrightarrow> a \<le> b"
  "Decimal_gte a b \<longleftrightarrow> b \<le> a"
  "Decimal_eq a b \<longleftrightarrow> a = b"
  by (auto simp: Decimal_lt_def Decimal_gt_def Decimal_lte_def Decimal_gte_def Decimal_eq_def
      less_eq_decimal_def less_decimal_def intro: decimal.expand)

lemma Decimal_le_iff [simp]:
  "Decimal m \<le> Decimal n \<longleftrightarrow> m \<le> n"
  "Decimal m < Decimal n \<longleftrightarrow> m < n"
  by (simp_all add: less_eq_decimal_def less_decimal_def)

lemma Decimal_min_max [simp]:
  "Decimal_min a b = min a b"
  "Decimal_max a b = max a b"
  by (auto simp: Decimal_min_def Decimal_max_def min_def max_def)

lemma Decimal_isZero_iff [simp]: "Decimal_isZero d \<longleftrightarrow> d = Decimal_ZERO"
  by (cases d) (simp add: Decimal_isZero_def Decimal_ZERO_def)

lemma Decimal_zero_finite_simps [simp]:
  "Decimal_zero d = None \<longleftrightarrow> d \<noteq> Decimal_ZERO"
  "Decimal_nonZero d = None \<longleftrightarrow> d = Decimal_ZERO"
  "Decimal_infinite d = None \<longleftrightarrow> d \<noteq> Decimal_INFINITY"
  "Decimal_finite d = None \<longleftrightarrow> d = Decimal_INFINITY"
  by (auto simp: Decimal_zero_def Decimal_nonZero_def Decimal_infinite_def Decimal_finite_def)

lemma Decimal_ZERO_le [simp]: "Decimal_ZERO \<le> d"
  by (cases d) (simp add: Decimal_ZERO_def)

lemma Decimal_ZERO_less_iff: "Decimal_ZERO < d \<longleftrightarrow> d \<noteq> Decimal_ZERO"
  by (cases d) (auto simp: Decimal_ZERO_def)

lemma Decimal_absoluteValue_id [simp]: "Decimal_absoluteValue d = d"
  by (simp add: Decimal_absoluteValue_def)

lemma DIGITS_eq: "DIGITS = 100000000"
  by (simp add: DIGITS_def getDigits_def PRECISION_def)

lemma DIGITS_pos [simp]: "0 < DIGITS"
  by (simp add: DIGITS_eq)

lemmas decimal_unfold = Decimal_ZERO_def Decimal_ONE_def Decimal_HALF_def Decimal_INFINITY_def
  MAX_UINT_256_def DIGITS_eq PRECISION_def getDigits_def
  less_eq_decimal_def less_decimal_def

lemmas decimal_ops = Decimal_add_def Decimal_sub_def Decimal_mul_def Decimal_div_def
  Decimal_divCeil_def Decimal_mulDiv_def new_Decimal_def

section \<open>Laws of the arithmetic\<close>

lemma new_Decimal_simps [simp]:
  "new_Decimal (int n) = Inr (Decimal n)"
  "i < 0 \<Longrightarrow> new_Decimal i = Inl (Error ''negatives not supported by Decimal'')"
  by (simp_all add: new_Decimal_def)

lemma bigNumber_ops [simp]:
  "bigNumber (Decimal_add a b) = bigNumber a + bigNumber b"
  "bigNumber (Decimal_mul a b) = bigNumber a * bigNumber b div DIGITS"
  "bigNumber Decimal_ZERO = 0"
  by (simp_all add: decimal_ops Decimal_ZERO_def)

lemma Decimal_sub_ok: "b \<le> a \<Longrightarrow> Decimal_sub a b = Inr (Decimal (bigNumber a - bigNumber b))"
  by (simp add: Decimal_sub_def new_Decimal_def less_eq_decimal_def nat_diff_distrib)

lemma Decimal_sub_throws:
  "a < b \<Longrightarrow> Decimal_sub a b = Inl (Error ''negatives not supported by Decimal'')"
  by (simp add: Decimal_sub_def less_decimal_def)

lemma Decimal_sub_eq_Inr_iff:
  "Decimal_sub a b = Inr c \<longleftrightarrow> b \<le> a \<and> c = Decimal (bigNumber a - bigNumber b)"
  by (cases "b \<le> a") (auto simp: Decimal_sub_ok Decimal_sub_throws not_le)

lemma Decimal_sub_add: "Decimal_sub a b = Inr c \<Longrightarrow> Decimal_add b c = a"
  by (cases a) (auto simp: Decimal_sub_eq_Inr_iff Decimal_add_def less_eq_decimal_def)

lemma Decimal_add_sub [simp]: "Decimal_sub (Decimal_add a b) a = Inr b"
  by (cases b) (auto simp: Decimal_sub_eq_Inr_iff less_eq_decimal_def)

lemma Decimal_sub_ZERO [simp]: "Decimal_sub a Decimal_ZERO = Inr a"
  by (simp add: Decimal_sub_ok)

lemma Decimal_sub_self [simp]: "Decimal_sub a a = Inr Decimal_ZERO"
  by (simp add: Decimal_sub_ok Decimal_ZERO_def)

lemma Decimal_add_commute: "Decimal_add a b = Decimal_add b a"
  and Decimal_add_assoc: "Decimal_add (Decimal_add a b) c = Decimal_add a (Decimal_add b c)"
  by (simp_all add: Decimal_add_def)

lemma Decimal_add_ZERO [simp]:
  "Decimal_add a Decimal_ZERO = a" "Decimal_add Decimal_ZERO a = a"
  by (cases a; simp add: Decimal_add_def)+

lemma Decimal_add_mono: "a \<le> a' \<Longrightarrow> b \<le> b' \<Longrightarrow> Decimal_add a b \<le> Decimal_add a' b'"
  by (simp add: less_eq_decimal_def)

lemma Decimal_le_add [simp]: "a \<le> Decimal_add a b" "b \<le> Decimal_add a b"
  by (simp_all add: less_eq_decimal_def)

lemma Decimal_mul_mono: "a \<le> a' \<Longrightarrow> b \<le> b' \<Longrightarrow> Decimal_mul a b \<le> Decimal_mul a' b'"
  by (simp add: less_eq_decimal_def div_le_mono mult_le_mono)

lemma Decimal_mul_ONE [simp]: "Decimal_mul a Decimal_ONE = a" "Decimal_mul Decimal_ONE a = a"
  by (cases a; simp add: Decimal_mul_def Decimal_ONE_def DIGITS_eq)+

lemma Decimal_mul_ZERO [simp]:
  "Decimal_mul a Decimal_ZERO = Decimal_ZERO" "Decimal_mul Decimal_ZERO a = Decimal_ZERO"
  by (simp_all add: Decimal_mul_def Decimal_ZERO_def)

lemma Decimal_mul_le: "b \<le> Decimal_ONE \<Longrightarrow> Decimal_mul a b \<le> a"
  using Decimal_mul_mono [of a a b Decimal_ONE] by simp

lemma Decimal_div_ZERO [simp]: "Decimal_div a Decimal_ZERO = Decimal_INFINITY"
  "Decimal_mulDiv a b Decimal_ZERO = Decimal_INFINITY"
  "Decimal_divCeil a Decimal_ZERO = Decimal_INFINITY"
  by (simp_all add: Decimal_div_def Decimal_mulDiv_def Decimal_divCeil_def)

lemma Decimal_div_ONE [simp]: "Decimal_div a Decimal_ONE = a"
  by (cases a) (simp add: Decimal_div_def Decimal_ONE_def DIGITS_eq Decimal_ZERO_def)

lemma Decimal_div_mono: "a \<le> a' \<Longrightarrow> Decimal_div a b \<le> Decimal_div a' b"
  by (simp add: Decimal_div_def less_eq_decimal_def div_le_mono)

lemma Decimal_div_mul_le:
  assumes "b \<noteq> Decimal_ZERO"
  shows "Decimal_mul (Decimal_div a b) b \<le> a"
proof -
  have "bigNumber a * DIGITS div bigNumber b * bigNumber b div DIGITS \<le> bigNumber a * DIGITS div DIGITS"
    by (intro div_le_mono div_times_less_eq_dividend)
  with assms show ?thesis by (simp add: Decimal_div_def less_eq_decimal_def)
qed

text \<open>
  \<^verbatim>\<open>_divCeil\<close> rounds up: the result is the least decimal whose product with the divider,
  taken exactly, reaches the dividend.
\<close>

lemma div_ceil_bounds:
  fixes n d :: nat
  assumes "0 < d"
  shows "n \<le> (n + (d - 1)) div d * d" and "(n + (d - 1)) div d * d < n + d"
proof -
  define q where "q = (n + (d - 1)) div d"
  define r where "r = (n + (d - 1)) mod d"
  have "n + (d - 1) = q * d + r"
    unfolding q_def r_def by (rule div_mult_mod_eq [symmetric])
  moreover have "r < d"
    using assms by (simp add: r_def)
  ultimately have "n \<le> q * d \<and> q * d < n + d"
    using assms by linarith
  then show "n \<le> (n + (d - 1)) div d * d" and "(n + (d - 1)) div d * d < n + d"
    unfolding q_def by (rule conjunct1, rule conjunct2)
qed

lemma Decimal_divCeil_bounds:
  assumes "b \<noteq> Decimal_ZERO"
  shows "bigNumber a * DIGITS \<le> bigNumber (Decimal_divCeil a b) * bigNumber b"
    and "bigNumber (Decimal_divCeil a b) * bigNumber b < bigNumber a * DIGITS + bigNumber b"
proof -
  have "0 < bigNumber b"
    using assms by (cases b) (simp add: Decimal_ZERO_def)
  from div_ceil_bounds [OF this, of "bigNumber a * DIGITS"]
  show "bigNumber a * DIGITS \<le> bigNumber (Decimal_divCeil a b) * bigNumber b"
    and "bigNumber (Decimal_divCeil a b) * bigNumber b < bigNumber a * DIGITS + bigNumber b"
    using assms by (simp_all only: Decimal_divCeil_def Decimal_isZero_iff if_False decimal.sel)
qed

section \<open>Powers\<close>

lemma roundedMul_mono: "x \<le> x' \<Longrightarrow> y \<le> y' \<Longrightarrow> roundedMul x y \<le> roundedMul x' y'"
  unfolding roundedMul_def by (intro div_le_mono add_right_mono mult_le_mono)

lemma roundedMul_DIGITS [simp]: "roundedMul x DIGITS = x" "roundedMul DIGITS x = x"
  by (simp_all add: roundedMul_def DIGITS_eq Decimal_HALF_def)

lemma roundedMul_le:
  assumes "y \<le> DIGITS" shows "roundedMul x y \<le> x"
  using roundedMul_mono [OF order_refl assms, of x] by simp

lemma roundedMul_commute: "roundedMul x y = roundedMul y x"
  by (simp add: roundedMul_def mult.commute)

lemma pow_loop_le:
  assumes "x \<le> DIGITS" and "pow_loop e x y = (x', y')"
  shows "x' \<le> x \<and> y' \<le> y"
  using assms
proof (induction e x y rule: pow_loop.induct)
  case (1 e x y)
  show ?case
  proof (cases "e > 1")
    case True
    have x: "roundedMul x x \<le> x" and y: "roundedMul x y \<le> y"
      using "1.prems"(1) roundedMul_le [of x] by (simp_all add: roundedMul_commute [of x y])
    from True "1.prems" have loop: "pow_loop (e div 2) (roundedMul x x)
        (if odd e then roundedMul x y else y) = (x', y')"
      by (simp add: pow_loop.simps [of e])
    have "x' \<le> roundedMul x x \<and> y' \<le> (if odd e then roundedMul x y else y)"
      using "1.IH" [OF True _ loop] x "1.prems"(1) by (meson order_trans)
    with x y show ?thesis by (auto split: if_splits)
  next
    case False
    with "1.prems" show ?thesis by (simp add: pow_loop.simps [of e])
  qed
qed

lemma pow_loop_mono:
  "x \<le> x' \<Longrightarrow> y \<le> y' \<Longrightarrow> fst (pow_loop e x y) \<le> fst (pow_loop e x' y')
     \<and> snd (pow_loop e x y) \<le> snd (pow_loop e x' y')"
proof (induction e x y arbitrary: x' y' rule: pow_loop.induct)
  case (1 e x y)
  show ?case
  proof (cases "e > 1")
    case True
    have "roundedMul x x \<le> roundedMul x' x'"
      and "(if odd e then roundedMul x y else y) \<le> (if odd e then roundedMul x' y' else y')"
      using "1.prems" by (auto intro: roundedMul_mono)
    from "1.IH" [OF True this] True show ?thesis
      by (simp add: pow_loop.simps [of e])
  next
    case False
    with "1.prems" show ?thesis by (simp add: pow_loop.simps [of e])
  qed
qed

lemma Decimal_pow_unfold:
  assumes "1 < n" and "n \<le> 0xffffffff"
  shows "Decimal_pow d n = Inr (Decimal (roundedMul (fst (pow_loop (nat n) (bigNumber d) DIGITS))
           (snd (pow_loop (nat n) (bigNumber d) DIGITS))))"
  using assms by (simp add: Decimal_pow_def split_def Let_def)

lemma Decimal_pow_defined_iff: "(\<exists>p. Decimal_pow d n = Inr p) \<longleftrightarrow> 0 \<le> n \<and> n \<le> 0xffffffff"
  by (auto simp: Decimal_pow_def rbind_eq_Inr_iff Let_def split: prod.splits)

lemma Decimal_pow_in_range: "0 \<le> n \<Longrightarrow> n \<le> 0xffffffff \<Longrightarrow> \<exists>p. Decimal_pow d n = Inr p"
  by (simp add: Decimal_pow_defined_iff)

lemma Decimal_pow_le_base:
  assumes "Decimal_pow d n = Inr p" and "d \<le> Decimal_ONE" and "1 \<le> n"
  shows "p \<le> d"
proof (cases "n = 1")
  case True
  with assms(1) show ?thesis by (simp add: Decimal_pow_def)
next
  case False
  have n: "1 < n" "n \<le> 0xffffffff"
    using assms(1,3) False Decimal_pow_defined_iff [of d n] by auto
  obtain x y where xy: "pow_loop (nat n) (bigNumber d) DIGITS = (x, y)"
    by (cases "pow_loop (nat n) (bigNumber d) DIGITS")
  have "bigNumber d \<le> DIGITS"
    using assms(2) by (simp add: less_eq_decimal_def Decimal_ONE_def DIGITS_eq)
  from pow_loop_le [OF this xy] have "x \<le> bigNumber d" "y \<le> DIGITS"
    by auto
  then have "roundedMul x y \<le> bigNumber d"
    using roundedMul_le [of y x] by linarith
  then show ?thesis
    using assms(1) xy by (auto simp: Decimal_pow_unfold [OF n] less_eq_decimal_def)
qed

lemma Decimal_pow_le_ONE:
  assumes "Decimal_pow d n = Inr p" and "d \<le> Decimal_ONE"
  shows "p \<le> Decimal_ONE"
proof (cases "n = 0")
  case True
  with assms(1) show ?thesis by (simp add: Decimal_pow_def)
next
  case False
  with assms(1) have "1 \<le> n"
    using Decimal_pow_defined_iff [of d n] by auto
  with Decimal_pow_le_base [OF assms] assms(2) show ?thesis by (meson order_trans)
qed

lemma Decimal_pow_mono:
  assumes "Decimal_pow d n = Inr p" and "Decimal_pow d' n = Inr p'" and "d \<le> d'"
  shows "p \<le> p'"
proof (cases "n = 0 \<or> n = 1")
  case True
  with assms show ?thesis by (auto simp: Decimal_pow_def)
next
  case False
  have n: "1 < n" "n \<le> 0xffffffff"
    using assms(1) False Decimal_pow_defined_iff [of d n] by auto
  have "bigNumber d \<le> bigNumber d'"
    using assms(3) by (simp add: less_eq_decimal_def)
  from pow_loop_mono [OF this order_refl, of "nat n" DIGITS] assms(1,2)
  show ?thesis by (auto simp: Decimal_pow_unfold [OF n] intro: roundedMul_mono)
qed

section \<open>Interpolated decimals\<close>

text \<open>\<^verbatim>\<open>`${d}`\<close> in a template literal calls \<^verbatim>\<open>d.toString()\<close>, which does not throw.\<close>

definition Decimal_text :: "decimal \<Rightarrow> string" where
  "Decimal_text d = (case Decimal_toString d None of Inr s \<Rightarrow> s | Inl _ \<Rightarrow> [])"

lemma Decimal_toString_None: "Decimal_toString d None = Inr (Decimal_text d)"
  by (simp add: Decimal_text_def Decimal_toString_def)

end
