(* ===== verification/Decimal_Accuracy.thy ===== *)
theory Decimal_Accuracy
  imports Decimal Complex_Main
begin

text \<open>
  How far \<^verbatim>\<open>Decimal.pow\<close> is from the real power it approximates. Every \<^verbatim>\<open>roundedMul\<close> is off
  by at most half a unit of the eighth digit; square-and-multiply accumulates these errors, and for a
  base of at most 1 the sum stays below half a unit per step of the exponent.
\<close>

abbreviation ulp_scale :: real where
  "ulp_scale \<equiv> real DIGITS"

lemma roundedMul_error: "\<bar>real (roundedMul x y) - real x * real y / ulp_scale\<bar> \<le> 1 / 2"
proof -
  let ?n = "x * y + 50000000" and ?q = "(x * y + 50000000) div 100000000"
  have "?q * 100000000 \<le> ?n" "?n < ?q * 100000000 + 100000000"
    by (rule div_floor_bounds, simp)+
  then have "real (?q * 100000000) \<le> real ?n" "real ?n < real (?q * 100000000 + 100000000)"
    by (simp_all only: of_nat_le_iff of_nat_less_iff)
  then have "\<bar>real ?q - real (x * y) / 100000000\<bar> \<le> 1 / 2"
    by (simp add: abs_le_iff field_simps)
  then show ?thesis
    by (simp add: roundedMul_def Decimal_HALF_def DIGITS_eq)
qed

text \<open>\<open>approximates r a e x\<close>: \<open>x\<close> is the scaled power \<open>r\<^sup>a\<close> up to \<open>e\<close> units.\<close>

definition approximates :: "real \<Rightarrow> nat \<Rightarrow> real \<Rightarrow> nat \<Rightarrow> bool" where
  "approximates r a e x \<longleftrightarrow> \<bar>real x - ulp_scale * r ^ a\<bar> \<le> e \<and> x \<le> DIGITS"

lemma approximates_mult:
  assumes r: "0 \<le> r" "r \<le> 1" and x: "approximates r a ex x" and y: "approximates r b ey y"
  shows "approximates r (a + b) (ex + ey + 1 / 2) (roundedMul x y)"
proof -
  let ?X = "ulp_scale * r ^ a" and ?Y = "ulp_scale * r ^ b"
  have D: "0 < ulp_scale" by simp
  have y1: "real y / ulp_scale \<le> 1" "0 \<le> real y / ulp_scale"
    using y D by (simp_all add: approximates_def)
  have pow: "r ^ a \<le> 1" "0 \<le> r ^ a"
    using r by (simp_all add: power_le_one)
  have "real x * real y / ulp_scale - ulp_scale * r ^ (a + b)
      = (real x - ?X) * (real y / ulp_scale) + r ^ a * (real y - ?Y)"
    using D by (simp add: field_simps power_add)
  also have "\<bar>\<dots>\<bar> \<le> \<bar>real x - ?X\<bar> * (real y / ulp_scale) + r ^ a * \<bar>real y - ?Y\<bar>"
    using y1 pow by (intro order_trans [OF abs_triangle_ineq]) (simp add: abs_mult)
  also have "\<dots> \<le> ex * 1 + 1 * ey"
    using x y y1 pow by (intro add_mono mult_mono) (auto simp: approximates_def)
  finally have "\<bar>real x * real y / ulp_scale - ulp_scale * r ^ (a + b)\<bar> \<le> ex + ey"
    by simp
  with roundedMul_error [of x y]
  have "\<bar>real (roundedMul x y) - ulp_scale * r ^ (a + b)\<bar> \<le> ex + ey + 1 / 2"
    by linarith
  moreover have "roundedMul x y \<le> DIGITS"
    using x y roundedMul_le [of y x] by (simp add: approximates_def)
  ultimately show ?thesis by (simp add: approximates_def)
qed

lemma approximates_weaken: "approximates r a e x \<Longrightarrow> e \<le> e' \<Longrightarrow> approximates r a e' x"
  by (auto simp: approximates_def)

lemma pow_loop_approximates:
  assumes r: "0 \<le> r" "r \<le> 1"
  shows "approximates r a ((real a - 1) / 2) x \<Longrightarrow> approximates r b (real b / 2) y \<Longrightarrow> 0 < e
    \<Longrightarrow> pow_loop e x y = (x', y')
    \<Longrightarrow> approximates r (a * e + b) (real (a * e + b) / 2) (roundedMul x' y')"
proof (induction e x y arbitrary: a b rule: pow_loop.induct)
  case (1 e x y)
  show ?case
  proof (cases "e > 1")
    case True
    let ?y = "if odd e then roundedMul x y else y" and ?b = "if odd e then a + b else b"
    have xx: "approximates r (a + a) ((real (a + a) - 1) / 2) (roundedMul x x)"
      using approximates_mult [OF r "1.prems"(1) "1.prems"(1)]
      by (rule approximates_weaken) (simp add: field_simps)
    have yy: "approximates r ?b (real ?b / 2) ?y"
    proof (cases "odd e")
      case True
      have "approximates r (a + b) (real (a + b) / 2) (roundedMul x y)"
        using approximates_mult [OF r "1.prems"(1) "1.prems"(2)]
        by (rule approximates_weaken) (simp add: field_simps)
      with True show ?thesis by simp
    next
      case False
      with "1.prems"(2) show ?thesis by simp
    qed
    have loop: "pow_loop (e div 2) (roundedMul x x) ?y = (x', y')"
      using True "1.prems"(4) by (simp add: pow_loop.simps [of e])
    have half: "0 < e div 2"
      using True by simp
    have total: "(a + a) * (e div 2) + ?b = a * e + b"
    proof (cases "odd e")
      case True
      then obtain k where "e = 2 * k + 1" by (rule oddE)
      then show ?thesis by (simp add: algebra_simps)
    next
      case False
      then obtain k where "e = 2 * k" by auto
      then show ?thesis by (simp add: algebra_simps)
    qed
    from "1.IH" [OF True xx yy half loop] show ?thesis by (simp only: total)
  next
    case False
    with "1.prems" have e: "e = 1" "x' = x" "y' = y"
      by (simp_all add: pow_loop.simps [of e])
    show ?thesis
      using approximates_mult [OF r "1.prems"(1) "1.prems"(2)]
      unfolding e mult_1_right by (rule approximates_weaken) (simp add: field_simps)
  qed
qed

text \<open>
  C27. \<^verbatim>\<open>pow\<close> by repeated squaring: for a base of at most 1 (such as the minute decay factor) and an
  exponent \<open>n\<close> in the range the assertion admits, the result exists and differs from the real power by
  at most \<open>n / 2\<close> units of the eighth digit.
\<close>

theorem Decimal_pow_accurate:
  assumes "d \<le> Decimal_ONE" and "0 \<le> n" and "n \<le> 0xffffffff"
  shows "\<exists>p. Decimal_pow d n = Inr p
     \<and> \<bar>real (bigNumber p) - ulp_scale * (real (bigNumber d) / ulp_scale) ^ nat n\<bar> \<le> real_of_int n / 2"
proof -
  let ?r = "real (bigNumber d) / ulp_scale"
  have dD: "bigNumber d \<le> DIGITS"
    using assms(1) by (simp add: less_eq_decimal_def Decimal_ONE_def DIGITS_eq)
  then have r: "0 \<le> ?r" "?r \<le> 1"
    by simp_all
  consider "n = 0" | "n = 1" | "1 < n" using assms(2) by linarith
  then show ?thesis
  proof cases
    case 1
    then show ?thesis by (simp add: Decimal_pow_def Decimal_ONE_def DIGITS_eq)
  next
    case 2
    then show ?thesis by (simp add: Decimal_pow_def)
  next
    case 3
    obtain x y where xy: "pow_loop (nat n) (bigNumber d) DIGITS = (x, y)"
      by (cases "pow_loop (nat n) (bigNumber d) DIGITS")
    have "approximates ?r 1 ((real 1 - 1) / 2) (bigNumber d)" "approximates ?r 0 (real 0 / 2) DIGITS"
      using dD by (simp_all add: approximates_def)
    from pow_loop_approximates [OF r this _ xy] 3
    have "\<bar>real (roundedMul x y) - ulp_scale * ?r ^ nat n\<bar> \<le> real (nat n) / 2"
      by (simp add: approximates_def)
    with xy 3 assms(3) show ?thesis by (simp add: Decimal_pow_unfold)
  qed
qed

theorem Decimal_pow_accurate_witness:
  "\<exists>p. Decimal_pow (Decimal 99903775) 1000 = Inr p
     \<and> \<bar>real (bigNumber p) - ulp_scale * (real (bigNumber (Decimal 99903775)) / ulp_scale) ^ nat 1000\<bar>
         \<le> real_of_int 1000 / 2"
  by (rule Decimal_pow_accurate) (simp_all add: Decimal_ONE_def)

end
