(* ===== verification/Decimal_Text.thy ===== *)
theory Decimal_Text
  imports Decimal
begin

text \<open>
  Parsing and printing of \<^verbatim>\<open>Decimal\<close>: which texts are read and what they denote, printing
  and reading back, rounding of the printed digits, and the grouping of thousands.
\<close>

section \<open>Which texts are read\<close>

abbreviation digits :: "string \<Rightarrow> bool" where
  "digits s \<equiv> list_all is_digit s"

lemma special_not_digit [simp]:
  "\<not> is_digit (CHR ''.'')" "\<not> is_digit (CHR ''e'')" "\<not> is_digit (CHR ''-'')"
  "\<not> is_digit (CHR ''+'')" "\<not> is_digit (CHR '','')"
  by (simp_all add: is_digit_def)

lemma digits_no_special:
  assumes "digits s"
  shows "CHR ''.'' \<notin> set s" "CHR ''e'' \<notin> set s" "CHR ''-'' \<notin> set s" "CHR ''+'' \<notin> set s"
    "CHR '','' \<notin> set s"
  using assms by (auto simp: list_all_iff)

lemma dropWhile_digits [simp]: "digits s \<Longrightarrow> dropWhile is_digit (s @ t) = dropWhile is_digit t"
  by (induction s) auto

lemma dropWhile_digits' [simp]: "digits s \<Longrightarrow> dropWhile is_digit s = []"
  by (induction s) auto

lemma takeWhile_digits [simp]: "digits s \<Longrightarrow> takeWhile is_digit s = s"
  by (induction s) auto

lemma digits_replicate_0 [simp]: "digits (replicate n (CHR ''0''))"
  by (induction n) (simp_all add: is_digit_def)

lemma format_integer: "digits c \<Longrightarrow> stringRepresentationFormat c"
  by (simp add: stringRepresentationFormat_def)

lemma format_fraction: "digits c \<Longrightarrow> digits m \<Longrightarrow> stringRepresentationFormat (c @ CHR ''.'' # m)"
  by (simp add: stringRepresentationFormat_def)

text \<open>The value of a text without exponent, and the truncation of its digits.\<close>

lemma fromString_integer:
  assumes "digits c" and "c \<noteq> []"
  shows "Decimal_fromString c = Inr (Decimal (digits_value c * DIGITS))"
  using assms digits_no_special [OF assms(1)]
  by (simp add: Decimal_fromString.simps [of c] format_integer)

definition mantissa_value :: "string \<Rightarrow> nat" where
  "mantissa_value m = digits_value (if length m < PRECISION
     then m @ replicate (PRECISION - length m) (CHR ''0'') else take PRECISION m)"

lemma fromString_fraction:
  assumes "digits c" and "digits m"
  shows "Decimal_fromString (c @ CHR ''.'' # m) =
     Inr (Decimal (digits_value c * DIGITS + mantissa_value m))"
  using assms digits_no_special [OF assms(1)] digits_no_special [OF assms(2)]
  by (simp add: Decimal_fromString.simps [of "c @ CHR ''.'' # m"] format_fraction mantissa_value_def
      Let_def)

lemma mantissa_value_bounds:
  assumes "digits m"
  shows "mantissa_value m * 10 ^ length m \<le> digits_value m * DIGITS"
    and "digits_value m * DIGITS < (mantissa_value m + 1) * 10 ^ length m"
proof -
  have "mantissa_value m * 10 ^ length m \<le> digits_value m * DIGITS
      \<and> digits_value m * DIGITS < (mantissa_value m + 1) * 10 ^ length m"
  proof (cases "length m < PRECISION")
    case True
    then have "(10::nat) ^ (PRECISION - length m) * 10 ^ length m = DIGITS"
      by (simp add: DIGITS_def getDigits_def flip: power_add)
    with True have "mantissa_value m * 10 ^ length m = digits_value m * DIGITS"
      by (simp add: mantissa_value_def digits_value_append mult.assoc)
    then show ?thesis by simp
  next
    case False
    let ?h = "take PRECISION m" and ?t = "drop PRECISION m"
    have len: "length m = PRECISION + length ?t"
      using False by simp
    have split: "digits_value m = mantissa_value m * 10 ^ length ?t + digits_value ?t"
      using False digits_value_append [of ?h ?t] by (simp add: mantissa_value_def)
    have "digits ?t"
      using assms by (auto simp: list_all_iff dest: in_set_dropD)
    then have "digits_value ?t < 10 ^ length ?t"
      by (rule digits_value_less)
    then have "mantissa_value m * 10 ^ length ?t \<le> digits_value m"
      "digits_value m < (mantissa_value m + 1) * 10 ^ length ?t"
      unfolding split by simp_all
    then have "mantissa_value m * 10 ^ length ?t * DIGITS \<le> digits_value m * DIGITS"
      "digits_value m * DIGITS < (mantissa_value m + 1) * 10 ^ length ?t * DIGITS"
      by simp_all
    moreover have "(10::nat) ^ length m = 10 ^ length ?t * DIGITS"
      by (subst len) (simp add: power_add DIGITS_def getDigits_def)
    ultimately show ?thesis
      by (simp only: mult.assoc)
  qed
  then show "mantissa_value m * 10 ^ length m \<le> digits_value m * DIGITS"
    and "digits_value m * DIGITS < (mantissa_value m + 1) * 10 ^ length m"
    by simp_all
qed

lemma mantissa_value_pad:
  assumes "length m + k = PRECISION"
  shows "mantissa_value m = digits_value (m @ replicate k (CHR ''0''))"
proof -
  have "k = PRECISION - length m"
    using assms by simp
  with assms show ?thesis
    by (cases "k = 0") (simp_all add: mantissa_value_def)
qed

section \<open>Printing and reading back\<close>

lemma digits_padStart: "digits s \<Longrightarrow> digits (padStart n (CHR ''0'') s)"
  by (simp add: padStart_def)

lemma digits_trim: "digits s \<Longrightarrow> digits (trim_trailing_zeros s)"
  using set_trim_trailing_zeros [of s] by (auto simp: list_all_iff)

lemma padded_mantissa:
  assumes "mantissa < DIGITS"
  shows "length (padStart PRECISION (CHR ''0'') (show_nat mantissa)) = PRECISION"
    and "digits (padStart PRECISION (CHR ''0'') (show_nat mantissa))"
proof -
  have "length (show_nat mantissa) \<le> PRECISION"
    using assms by (intro length_show_nat_le) (simp_all add: DIGITS_def getDigits_def PRECISION_def)
  then show "length (padStart PRECISION (CHR ''0'') (show_nat mantissa)) = PRECISION"
    by (rule length_padStart)
  show "digits (padStart PRECISION (CHR ''0'') (show_nat mantissa))"
    by (intro digits_padStart show_nat_digits)
qed

lemma mantissa_value_trimmed:
  assumes "mantissa < DIGITS"
  shows "mantissa_value (trim_trailing_zeros (padStart PRECISION (CHR ''0'') (show_nat mantissa)))
           = mantissa"
proof -
  let ?p = "padStart PRECISION (CHR ''0'') (show_nat mantissa)"
  obtain k where k: "?p = trim_trailing_zeros ?p @ replicate k (CHR ''0'')"
    using trim_trailing_zeros_decomp by blast
  then have "length (trim_trailing_zeros ?p) + k = PRECISION"
    using padded_mantissa(1) [OF assms] by (metis length_append length_replicate)
  then have "mantissa_value (trim_trailing_zeros ?p)
      = digits_value (trim_trailing_zeros ?p @ replicate k (CHR ''0''))"
    by (rule mantissa_value_pad)
  also have "\<dots> = mantissa"
    using k by simp
  finally show ?thesis .
qed

lemma fromString_automatic: "Decimal_fromString (toStringWithAutomaticPrecision d) = Inr d"
proof (cases "bigNumber d mod DIGITS = 0")
  case True
  then have "Decimal_fromString (toStringWithAutomaticPrecision d)
      = Inr (Decimal (bigNumber d div DIGITS * DIGITS))"
    by (simp add: toStringWithAutomaticPrecision_def fromString_integer show_nat_digits)
  with True show ?thesis
    by (metis add.right_neutral decimal.collapse div_mult_mod_eq)
next
  case False
  have lt: "bigNumber d mod DIGITS < DIGITS" by simp
  show ?thesis
    using False fromString_fraction [OF show_nat_digits digits_trim [OF padded_mantissa(2) [OF lt]]]
    by (simp add: toStringWithAutomaticPrecision_def Let_def mantissa_value_trimmed)
qed

text \<open>
  C1. Printing a finite \<^verbatim>\<open>Decimal\<close> with automatic precision and parsing the text gives the
  same \<^verbatim>\<open>Decimal\<close> back, for every value: no digit is lost.
\<close>

theorem Decimal_toString_fromString:
  assumes "d \<noteq> Decimal_INFINITY"
  shows "rbind (Decimal_toString d None) Decimal_fromString = Inr d"
  using assms by (simp add: Decimal_toString_def fromString_automatic)

theorem Decimal_toString_fromString_witness:
  "Decimal 12345678900000001 \<noteq> Decimal_INFINITY
   \<and> rbind (Decimal_toString (Decimal 12345678900000001) None) Decimal_fromString
       = Inr (Decimal 12345678900000001)"
proof -
  have h: "Decimal 12345678900000001 \<noteq> Decimal_INFINITY"
    by (simp add: Decimal_INFINITY_def MAX_UINT_256_def)
  show ?thesis using h Decimal_toString_fromString [OF h] by simp
qed

text \<open>
  A text \<^verbatim>\<open>c.m\<close> of decimal digits is read as its value truncated to 8 fractional digits: the
  result is the largest \<^verbatim>\<open>Decimal\<close> that is not above the value the text denotes.
\<close>

theorem Decimal_fromString_truncates:
  assumes "digits c" and "digits m"
  shows "\<exists>d. Decimal_fromString (c @ ''.'' @ m) = Inr d
     \<and> bigNumber d * 10 ^ length m \<le> digits_value (c @ m) * DIGITS
     \<and> digits_value (c @ m) * DIGITS < (bigNumber d + 1) * 10 ^ length m"
  using assms mantissa_value_bounds [OF assms(2)]
  by (simp add: fromString_fraction digits_value_append algebra_simps)

theorem Decimal_fromString_truncates_witness:
  "digits ''1'' \<and> digits ''123456789123''
   \<and> (\<exists>d. Decimal_fromString (''1'' @ ''.'' @ ''123456789123'') = Inr d
     \<and> bigNumber d * 10 ^ length ''123456789123'' \<le> digits_value (''1'' @ ''123456789123'') * DIGITS
     \<and> digits_value (''1'' @ ''123456789123'') * DIGITS
         < (bigNumber d + 1) * 10 ^ length ''123456789123'')"
proof -
  have h: "digits ''1''" "digits ''123456789123''"
    by (simp_all add: is_digit_def)
  show ?thesis using h Decimal_fromString_truncates [OF h] by blast
qed

section \<open>Scientific notation\<close>

lemma format_decomp:
  assumes "stringRepresentationFormat s"
  obtains c f x where "s = c @ f @ x" and "digits c" and "f = [] \<or> (\<exists>m. f = CHR ''.'' # m \<and> digits m)"
    and "x = [] \<or> (\<exists>t. x = CHR ''e'' # t \<and> exponent_format t)"
proof -
  define a where "a = dropWhile is_digit s"
  have s: "s = takeWhile is_digit s @ a" and c: "digits (takeWhile is_digit s)"
    by (auto simp: a_def list_all_iff dest: set_takeWhileD)
  show thesis
  proof (cases "\<exists>t. a = CHR ''.'' # t")
    case True
    then obtain t where t: "a = CHR ''.'' # t" by blast
    define x where "x = dropWhile is_digit t"
    have m: "t = takeWhile is_digit t @ x" "digits (takeWhile is_digit t)"
      by (auto simp: x_def list_all_iff dest: set_takeWhileD)
    have "x = [] \<or> (\<exists>t. x = CHR ''e'' # t \<and> exponent_format t)"
      using assms t by (auto simp: stringRepresentationFormat_def Let_def a_def x_def split: list.splits)
    moreover have "s = takeWhile is_digit s @ (CHR ''.'' # takeWhile is_digit t) @ x"
      using s t m(1) by simp
    ultimately show thesis
      using that [of "takeWhile is_digit s" "CHR ''.'' # takeWhile is_digit t" x] c m(2) by blast
  next
    case False
    then have "a = [] \<or> (\<exists>t. a = CHR ''e'' # t \<and> exponent_format t)"
      using assms by (auto simp: stringRepresentationFormat_def Let_def a_def split: list.splits if_splits)
    with s c that [of "takeWhile is_digit s" "[]" a] show thesis by simp
  qed
qed

lemma format_exponent:
  assumes "digits c" and "f = [] \<or> (\<exists>m. f = CHR ''.'' # m \<and> digits m)" and "exponent_format t"
  shows "stringRepresentationFormat (c @ f @ CHR ''e'' # t)"
  using assms by (auto simp: stringRepresentationFormat_def)

lemma format_coefficient:
  assumes "stringRepresentationFormat s"
  shows "stringRepresentationFormat (split_first (CHR ''e'') s)"
  using assms
proof (cases rule: format_decomp)
  case (1 c f x)
  have no_e: "CHR ''e'' \<notin> set (c @ f)"
    using 1 by (auto dest: digits_no_special)
  have "split_first (CHR ''e'') s = c @ f"
  proof (cases "x = []")
    case True
    with no_e 1(1) show ?thesis by (simp del: set_append)
  next
    case False
    then obtain t where "s = (c @ f) @ CHR ''e'' # t"
      using 1 by auto
    then show ?thesis
      using split_first_append(1) [OF no_e] by metis
  qed
  with 1 show ?thesis
    using format_fraction format_integer by auto
qed

lemma fromString_plain_ok:
  assumes "s \<noteq> []" and "stringRepresentationFormat s" and "CHR ''e'' \<notin> set s"
  shows "\<exists>d. Decimal_fromString s = Inr d"
  using assms by (simp add: Decimal_fromString.simps [of s] Let_def split: option.splits)

lemma fromString_exponent_ok:
  assumes "stringRepresentationFormat s" and "CHR ''e'' \<in> set s" and "hd s \<noteq> CHR ''e''"
  shows "\<exists>d. Decimal_fromString s = Inr d"
proof -
  let ?c = "split_first (CHR ''e'') s"
  have "?c \<noteq> []"
    using assms(2,3) by (cases s) (auto simp: split_first_def)
  then obtain d where "Decimal_fromString ?c = Inr d"
    using fromString_plain_ok [OF _ format_coefficient [OF assms(1)] split_first_not_in] by blast
  then show ?thesis
    using assms by (auto simp: Decimal_fromString.simps [of s] Let_def split: option.splits)
qed

lemma fromString_no_coefficient:
  assumes "hd s = CHR ''e''" and "s \<noteq> []"
  shows "\<exists>e. Decimal_fromString s = Inl e"
proof -
  have "split_first (CHR ''e'') s = []"
    using assms by (cases s) (simp_all add: split_first_def)
  moreover have "split_second (CHR ''e'') s \<noteq> None"
    using assms by (cases s) (simp_all add: split_second_def)
  moreover have "Decimal_fromString [] = Inl (Error ''bad decimal format: \"\"'')"
    by (simp add: Decimal_fromString.simps [of "[]"])
  ultimately show ?thesis
    using assms by (auto simp: Decimal_fromString.simps [of s] Let_def)
qed

text \<open>
  \<^verbatim>\<open>Decimal.from\<close> accepts exactly the non-empty texts of the documented format that have a
  coefficient; on every other text it throws.
\<close>

theorem Decimal_fromString_accepts:
  "(\<exists>d. Decimal_fromString s = Inr d)
     \<longleftrightarrow> s \<noteq> [] \<and> stringRepresentationFormat s \<and> hd s \<noteq> CHR ''e''"
proof (cases "s \<noteq> [] \<and> stringRepresentationFormat s")
  case True
  then show ?thesis
    using fromString_plain_ok fromString_exponent_ok fromString_no_coefficient
    by (metis sum.distinct(1))
next
  case False
  then show ?thesis by (auto simp: Decimal_fromString.simps [of s])
qed

lemma fromString_exponent:
  assumes "stringRepresentationFormat (c @ CHR ''e'' # t)" and "CHR ''e'' \<notin> set c" and "CHR ''e'' \<notin> set t"
  shows "Decimal_fromString (c @ CHR ''e'' # t) = rbind (Decimal_fromString c) (\<lambda>d.
     Inr (Decimal (if take 1 t = ''-'' then bigNumber d div 10 ^ digits_value (drop 1 t)
       else bigNumber d * 10 ^ digits_value (if take 1 t = ''+'' then drop 1 t else t))))"
  using assms by (simp add: Decimal_fromString.simps [of "c @ CHR ''e'' # t"] Let_def)

text \<open>
  A negative exponent divides: reading \<^verbatim>\<open>c.me-k\<close> gives the value of the whole text truncated to
  8 fractional digits, because truncating twice is truncating once.
\<close>

theorem Decimal_fromString_negative_exponent:
  assumes "digits c" and "digits m" and "digits k" and "k \<noteq> []"
  shows "\<exists>d. Decimal_fromString (c @ ''.'' @ m @ ''e-'' @ k) = Inr d
     \<and> bigNumber d * (10 ^ length m * 10 ^ digits_value k) \<le> digits_value (c @ m) * DIGITS
     \<and> digits_value (c @ m) * DIGITS < (bigNumber d + 1) * (10 ^ length m * 10 ^ digits_value k)"
proof -
  let ?E = "10 ^ digits_value k :: nat" and ?L = "10 ^ length m :: nat"
  let ?v = "digits_value (c @ m) * DIGITS"
  define b where "b = digits_value c * DIGITS + mantissa_value m"
  have plain: "Decimal_fromString (c @ CHR ''.'' # m) = Inr (Decimal b)"
    using assms by (simp add: fromString_fraction b_def)
  have b: "b * ?L \<le> ?v" "?v < (b + 1) * ?L"
    using mantissa_value_bounds [OF assms(2)] by (simp_all add: b_def digits_value_append algebra_simps)
  have "exponent_format (CHR ''-'' # k)"
    using assms by (simp add: exponent_format_def)
  then have "stringRepresentationFormat ((c @ CHR ''.'' # m) @ CHR ''e'' # CHR ''-'' # k)"
    using format_exponent [of c "CHR ''.'' # m" "CHR ''-'' # k"] assms by simp
  from fromString_exponent [OF this] have
    read: "Decimal_fromString (c @ ''.'' @ m @ ''e-'' @ k) = Inr (Decimal (b div ?E))"
    using plain digits_no_special [OF assms(1)] digits_no_special [OF assms(2)]
      digits_no_special [OF assms(3)] by simp
  have "b div ?E * ?E \<le> b" "b < (b div ?E + 1) * ?E"
    using div_floor_bounds [of ?E b] by (simp_all add: algebra_simps)
  then have "b div ?E * ?E * ?L \<le> b * ?L" "(b + 1) * ?L \<le> (b div ?E + 1) * ?E * ?L"
    by (simp_all only: mult_le_mono1 Suc_eq_plus1 [symmetric] Suc_leI)
  with b have "b div ?E * ?E * ?L \<le> ?v" "?v < (b div ?E + 1) * ?E * ?L"
    by linarith+
  with read show ?thesis
    by (simp only: decimal.sel mult.assoc mult.commute [of ?L] sum.inject
        ex_simps simp_thms)
qed

theorem Decimal_fromString_negative_exponent_witness:
  "\<exists>d. Decimal_fromString (''123456789'' @ ''.'' @ ''123456789'' @ ''e-'' @ ''10'') = Inr d
     \<and> bigNumber d * (10 ^ length ''123456789'' * 10 ^ digits_value ''10'')
         \<le> digits_value (''123456789'' @ ''123456789'') * DIGITS
     \<and> digits_value (''123456789'' @ ''123456789'') * DIGITS
         < (bigNumber d + 1) * (10 ^ length ''123456789'' * 10 ^ digits_value ''10'')"
  by (rule Decimal_fromString_negative_exponent) (simp_all add: is_digit_def)

lemmas parse_eval = Decimal_fromString.simps stringRepresentationFormat_def exponent_format_def
  is_digit_def split_second_def split_first_def Let_def digits_value_append digits_value_Cons
  digit_value_def DIGITS_eq PRECISION_def

text \<open>
  A positive exponent scales the already truncated coefficient: digits beyond the eighth
  fractional place are lost although the value would have room for them. \<^verbatim>\<open>1.234567891e1\<close> and
  \<^verbatim>\<open>12.34567891\<close> denote the same number and are read as different ones.
\<close>

theorem Decimal_fromString_exponent_loses_digits:
  "Decimal_fromString ''1.234567891e1'' = Inr (Decimal 1234567890)
   \<and> Decimal_fromString ''12.34567891'' = Inr (Decimal 1234567891)"
  by (simp add: parse_eval)

section \<open>Rounding to a precision\<close>

lemma digits_value_take:
  assumes "digits s" and "k \<le> length s"
  shows "digits_value (take k s) = digits_value s div 10 ^ (length s - k)"
proof -
  have "digits (drop k s)"
    using assms(1) by (auto simp: list_all_iff dest: in_set_dropD)
  then have "digits_value (drop k s) < 10 ^ (length s - k)"
    using digits_value_less by fastforce
  moreover have "digits_value s = digits_value (take k s) * 10 ^ (length s - k) + digits_value (drop k s)"
    using digits_value_append [of "take k s" "drop k s"] by simp
  ultimately show ?thesis by simp
qed

lemma mantissa_value_take_padded:
  assumes "mantissa < DIGITS" and "k \<le> PRECISION"
  shows "mantissa_value (take k (padStart PRECISION (CHR ''0'') (show_nat mantissa)))
     = mantissa div 10 ^ (PRECISION - k) * 10 ^ (PRECISION - k)"
proof -
  let ?p = "padStart PRECISION (CHR ''0'') (show_nat mantissa)"
  note p = padded_mantissa [OF assms(1)]
  have "length (take k ?p) + (PRECISION - k) = PRECISION"
    using p(1) assms(2) by simp
  from mantissa_value_pad [OF this]
  have "mantissa_value (take k ?p) = digits_value (take k ?p) * 10 ^ (PRECISION - k)"
    by (simp add: digits_value_append)
  also have "digits_value (take k ?p) = mantissa div 10 ^ (PRECISION - k)"
    using digits_value_take [OF p(2), of k] p(1) assms(2) by simp
  finally show ?thesis .
qed

definition printed_value :: "decimal \<Rightarrow> nat \<Rightarrow> nat" where
  "printed_value d p = (if p < PRECISION then Decimal_roundUp d p else bigNumber d)"

lemma fromString_toStringWithPrecision:
  "rbind (toStringWithPrecision d (int p)) Decimal_fromString =
     Inr (Decimal (printed_value d p div 10 ^ (PRECISION - p) * 10 ^ (PRECISION - p)))"
proof -
  let ?v = "printed_value d p" and ?q = "10 ^ (PRECISION - p) :: nat"
  have v: "(if int p < int PRECISION then Decimal_roundUp d (nat (int p)) else bigNumber d) = ?v"
    by (simp add: printed_value_def)
  have q: "?q dvd DIGITS"
    by (simp add: DIGITS_def getDigits_def le_imp_power_dvd)
  show ?thesis
  proof (cases "p = 0")
    case True
    then show ?thesis
      using v by (simp add: toStringWithPrecision_def Let_def fromString_integer show_nat_digits
          DIGITS_def getDigits_def printed_value_def)
  next
    case False
    let ?p = "padStart PRECISION (CHR ''0'') (show_nat (?v mod DIGITS))"
    have lt: "?v mod DIGITS < DIGITS" by simp
    have dig: "digits (take p ?p)"
      using padded_mantissa(2) [OF lt] by (auto simp: list_all_iff dest: in_set_takeD)
    have "take p ?p = take (min p PRECISION) ?p"
      using padded_mantissa(1) [OF lt] by (cases "p \<le> PRECISION") simp_all
    then have "mantissa_value (take p ?p) = ?v mod DIGITS div ?q * ?q"
      using mantissa_value_take_padded [OF lt, of "min p PRECISION"]
      by (cases "p \<le> PRECISION") simp_all
    then have "digits_value (show_nat (?v div DIGITS)) * DIGITS + mantissa_value (take p ?p) = ?v div ?q * ?q"
      using div_mult_floor [OF q] by simp
    with False v fromString_fraction [OF show_nat_digits dig, of "?v div DIGITS"]
    show ?thesis by (simp add: toStringWithPrecision_def Let_def)
  qed
qed

text \<open>
  Printing with a precision \<open>p\<close> rounds half up: the printed text denotes a multiple of
  \<open>10\<^sup>-\<^sup>p\<close> that is at most half such a step away from the number (and is exact from 8 digits on).
\<close>

theorem Decimal_toStringWithPrecision_rounds:
  "\<exists>r. rbind (toStringWithPrecision d (int p)) Decimal_fromString = Inr r
     \<and> 10 ^ (PRECISION - p) dvd bigNumber r
     \<and> 2 * \<bar>int (bigNumber r) - int (bigNumber d)\<bar> \<le> (if p < PRECISION then 10 ^ (PRECISION - p) else 0)"
proof -
  let ?q = "10 ^ (PRECISION - p) :: nat"
  let ?r = "printed_value d p div ?q * ?q"
  have "2 * \<bar>int ?r - int (bigNumber d)\<bar> \<le> (if p < PRECISION then int ?q else 0)"
  proof (cases "p < PRECISION")
    case True
    then have "PRECISION - p = Suc (PRECISION - 1 - p)" by simp
    then have "?q = 2 * (getDigits (PRECISION - 1 - p) * 5)"
      by (simp add: getDigits_def)
    with True have "2 * printed_value d p = 2 * bigNumber d + ?q"
      by (simp add: printed_value_def Decimal_roundUp_def Let_def)
    moreover have "?r \<le> printed_value d p" "printed_value d p < ?r + ?q"
      by (rule div_floor_bounds, simp)+
    ultimately show ?thesis using True half_step_rounding by (simp only: if_True)
  next
    case False
    then show ?thesis by (simp add: printed_value_def)
  qed
  then show ?thesis
    by (cases "p < PRECISION") (simp_all add: fromString_toStringWithPrecision printed_value_def)
qed

section \<open>Grouping thousands\<close>

lemma group_thousands_no_comma: "CHR '','' \<notin> set s \<Longrightarrow> filter (\<lambda>c. c \<noteq> CHR '','') (group_thousands s) = s"
  by (induction s) (auto simp: Let_def)

lemma group_thousands_short: "digits s \<Longrightarrow> length s \<le> 3 \<Longrightarrow> group_thousands s = s"
proof (induction s)
  case (Cons c s)
  then have "length s \<le> 2" by simp
  then have "\<not> (0 < length s \<and> length s mod 3 = 0)" by (cases "length s") auto
  with Cons show ?case by (simp add: Let_def)
qed simp

lemma group_thousands_append:
  assumes "digits u" and "u \<noteq> []" and "digits v" and "length v = 3"
  shows "group_thousands (u @ v) = group_thousands u @ CHR '','' # v"
  using assms(1,2)
proof (induction u)
  case (Cons c u)
  show ?case
  proof (cases "u = []")
    case True
    with Cons.prems assms group_thousands_short [of v] show ?thesis by (simp add: Let_def)
  next
    case False
    with Cons assms(3,4) show ?thesis by (simp add: Let_def)
  qed
qed simp

text \<open>
  \<^verbatim>\<open>prettify\<close> groups the integer digits in threes from the right: a run of more than three digits
  is the grouping of all but its last three, a comma, and those three. The single left-to-right pass
  of the regular expression computes this right-to-left definition.
\<close>

theorem group_thousands_from_right:
  assumes "digits s"
  shows "group_thousands s = (if length s \<le> 3 then s
     else group_thousands (take (length s - 3) s) @ '','' @ drop (length s - 3) s)"
proof (cases "length s \<le> 3")
  case True
  with assms group_thousands_short show ?thesis by simp
next
  case False
  let ?n = "length s - 3"
  have "digits (take ?n s)" "digits (drop ?n s)"
    using assms by (auto simp: list_all_iff dest: in_set_takeD in_set_dropD)
  moreover have "take ?n s \<noteq> []" "length (drop ?n s) = 3"
    using False by auto
  ultimately show ?thesis
    using False group_thousands_append [of "take ?n s" "drop ?n s"] by simp
qed

theorem group_thousands_from_right_witness:
  "digits ''1234567'' \<and> group_thousands ''1234567'' = ''1,234,567''"
proof -
  have h: "digits ''1234567''" "digits ''1234''"
    by (simp_all add: is_digit_def)
  show ?thesis
    using h group_thousands_from_right [OF h(1)] group_thousands_from_right [OF h(2)]
    by (simp add: group_thousands_short)
qed

end
