(* ===== verification/Constants.thy ===== *)
theory Constants
  imports Decimal_Text
begin

text \<open>
  The protocol constants of \<^verbatim>\<open>packages/lib-base/src/constants.ts\<close>: the record of constants, the
  defaults, and how a deployment's configuration overrides them.
\<close>

record constants =
  CRITICAL_COLLATERAL_RATIO :: decimal
  MINIMUM_COLLATERAL_RATIO :: decimal
  HCHF_LIQUIDATION_RESERVE :: decimal
  HCHF_MINIMUM_NET_DEBT :: decimal
  HCHF_MINIMUM_DEBT :: decimal
  MINIMUM_BORROWING_RATE :: decimal
  MAXIMUM_BORROWING_RATE :: decimal
  MINIMUM_REDEMPTION_RATE :: decimal
  MINUTE_DECAY_FACTOR :: decimal
  BETA :: decimal

text \<open>
  The default values. The sources write them as number or string literals; \<open>default_literals\<close> below
  shows that each is what \<^verbatim>\<open>Decimal.from\<close> reads from its literal.
\<close>

definition defaults :: constants where
  "defaults = \<lparr>
     CRITICAL_COLLATERAL_RATIO = Decimal 150000000,
     MINIMUM_COLLATERAL_RATIO = Decimal 110000000,
     HCHF_LIQUIDATION_RESERVE = Decimal 2000000000,
     HCHF_MINIMUM_NET_DEBT = Decimal 178000000000,
     HCHF_MINIMUM_DEBT = Decimal_add (Decimal 2000000000) (Decimal 178000000000),
     MINIMUM_BORROWING_RATE = Decimal 500000,
     MAXIMUM_BORROWING_RATE = Decimal 5000000,
     MINIMUM_REDEMPTION_RATE = Decimal 500000,
     MINUTE_DECAY_FACTOR = Decimal 99903775,
     BETA = Decimal 200000000\<rparr>"

text \<open>
  \<^verbatim>\<open>getConstants\<close>: every key of the defaults, in the order \<^verbatim>\<open>defaults\<close> lists them, takes the
  configured text if there is a non-empty one (the empty text is falsy) and the default otherwise.
\<close>

definition constant_for :: "(string \<rightharpoonup> string) \<Rightarrow> string \<Rightarrow> decimal \<Rightarrow> decimal result" where
  "constant_for configuration key defaultValue = (case configuration key of
      Some configurationValue \<Rightarrow>
        (if configurationValue \<noteq> [] then Decimal_from (Text configurationValue) else Inr defaultValue)
    | None \<Rightarrow> Inr defaultValue)"

definition getConstants :: "(string \<rightharpoonup> string) \<Rightarrow> constants \<Rightarrow> constants result" where
  "getConstants configuration defaultValues =
     rbind (constant_for configuration ''BETA'' (BETA defaultValues)) (\<lambda>beta.
     rbind (constant_for configuration ''CRITICAL_COLLATERAL_RATIO'' (CRITICAL_COLLATERAL_RATIO defaultValues)) (\<lambda>ccr.
     rbind (constant_for configuration ''HCHF_LIQUIDATION_RESERVE'' (HCHF_LIQUIDATION_RESERVE defaultValues)) (\<lambda>reserve.
     rbind (constant_for configuration ''HCHF_MINIMUM_DEBT'' (HCHF_MINIMUM_DEBT defaultValues)) (\<lambda>minDebt.
     rbind (constant_for configuration ''HCHF_MINIMUM_NET_DEBT'' (HCHF_MINIMUM_NET_DEBT defaultValues)) (\<lambda>minNetDebt.
     rbind (constant_for configuration ''MAXIMUM_BORROWING_RATE'' (MAXIMUM_BORROWING_RATE defaultValues)) (\<lambda>maxBorrow.
     rbind (constant_for configuration ''MINIMUM_BORROWING_RATE'' (MINIMUM_BORROWING_RATE defaultValues)) (\<lambda>minBorrow.
     rbind (constant_for configuration ''MINIMUM_COLLATERAL_RATIO'' (MINIMUM_COLLATERAL_RATIO defaultValues)) (\<lambda>mcr.
     rbind (constant_for configuration ''MINIMUM_REDEMPTION_RATE'' (MINIMUM_REDEMPTION_RATE defaultValues)) (\<lambda>minRedeem.
     rbind (constant_for configuration ''MINUTE_DECAY_FACTOR'' (MINUTE_DECAY_FACTOR defaultValues)) (\<lambda>decay.
     Inr \<lparr>CRITICAL_COLLATERAL_RATIO = ccr, MINIMUM_COLLATERAL_RATIO = mcr,
          HCHF_LIQUIDATION_RESERVE = reserve, HCHF_MINIMUM_NET_DEBT = minNetDebt,
          HCHF_MINIMUM_DEBT = minDebt, MINIMUM_BORROWING_RATE = minBorrow,
          MAXIMUM_BORROWING_RATE = maxBorrow, MINIMUM_REDEMPTION_RATE = minRedeem,
          MINUTE_DECAY_FACTOR = decay, BETA = beta\<rparr>))))))))))"

text \<open>
  \<^verbatim>\<open>getConstantsFromJsonObjectString\<close>. \<^verbatim>\<open>JSON.parse\<close> is the argument \<open>parse\<close>, with \<open>None\<close> for a
  syntax error, which is caught (and logged) so that the defaults apply.
\<close>

definition getConstantsFromJsonObjectString ::
  "(string \<Rightarrow> (string \<rightharpoonup> string) option) \<Rightarrow> string option \<Rightarrow> constants result" where
  "getConstantsFromJsonObjectString parse jsonObjectString =
     (let configuration = (case jsonObjectString of
          Some text \<Rightarrow> (if text \<noteq> [] then (case parse text of Some c \<Rightarrow> c | None \<Rightarrow> Map.empty)
                        else Map.empty)
        | None \<Rightarrow> Map.empty)
      in getConstants configuration defaults)"

lemma default_literals:
  "Decimal_from (Number ''1.5'') = Inr (CRITICAL_COLLATERAL_RATIO defaults)"
  "Decimal_from (Number ''1.1'') = Inr (MINIMUM_COLLATERAL_RATIO defaults)"
  "Decimal_from (Number ''20'') = Inr (HCHF_LIQUIDATION_RESERVE defaults)"
  "Decimal_from (Number ''1780'') = Inr (HCHF_MINIMUM_NET_DEBT defaults)"
  "Decimal_from (Number ''0.005'') = Inr (MINIMUM_BORROWING_RATE defaults)"
  "Decimal_from (Number ''0.05'') = Inr (MAXIMUM_BORROWING_RATE defaults)"
  "Decimal_from (Number ''0.005'') = Inr (MINIMUM_REDEMPTION_RATE defaults)"
  "Decimal_from (Text ''0.999037758833783000'') = Inr (MINUTE_DECAY_FACTOR defaults)"
  "Decimal_from (Number ''2'') = Inr (BETA defaults)"
  by (simp_all add: Decimal_from_def defaults_def parse_eval)

text \<open>The literals of the class constants of \<^verbatim>\<open>Decimal\<close> and of small numbers used by the callers.\<close>

lemma number_literals [simp]:
  "Decimal_from (Number ''0'') = Inr Decimal_ZERO"
  "Decimal_from (Number ''1'') = Inr Decimal_ONE"
  "Decimal_from (Number ''0.5'') = Inr Decimal_HALF"
  "Decimal_from (Number ''100'') = Inr (Decimal 10000000000)"
  "Decimal_from OtherType = Inr Decimal_ZERO"
  by (simp_all add: Decimal_from_def parse_eval decimal_unfold)

lemma Decimal_from_object [simp]: "Decimal_from (DecimalObject d) = Inr d"
  by (simp add: Decimal_from_def)

lemma getConstants_empty [simp]: "getConstants Map.empty c = Inr c"
  by (simp add: getConstants_def constant_for_def)

lemma constant_for_bad:
  "constant_for configuration key v = Inl e
     \<longleftrightarrow> (\<exists>t. configuration key = Some t \<and> t \<noteq> [] \<and> Decimal_fromString t = Inl e)"
  by (auto simp: constant_for_def Decimal_from_def split: option.splits)

text \<open>
  A configuration text that is absent, empty or not valid JSON yields exactly the default
  constants; it never throws.
\<close>

theorem getConstantsFromJson_malformed_gives_defaults:
  assumes "case jsonObjectString of None \<Rightarrow> True | Some text \<Rightarrow> text = [] \<or> parse text = None"
  shows "getConstantsFromJsonObjectString parse jsonObjectString = Inr defaults"
  using assms by (auto simp: getConstantsFromJsonObjectString_def split: option.splits)

theorem getConstantsFromJson_malformed_gives_defaults_witness:
  "getConstantsFromJsonObjectString (\<lambda>_. None) (Some ''{ BETA'') = Inr defaults"
  by (rule getConstantsFromJson_malformed_gives_defaults) simp

end
