(* ===== verification/Trove.thy ===== *)
theory Trove
  imports Constants
begin

text \<open>
  Troves, the collateralised debt positions of \<^verbatim>\<open>packages/lib-base/src/Trove.ts\<close>: changes between
  trove states and their application, the normalisation of transaction parameters, and the subclasses
  \<^verbatim>\<open>UserTrove\<close> and \<^verbatim>\<open>TroveWithPendingRedistribution\<close>, which are record extensions here.
\<close>

section \<open>Parameters and changes\<close>

record 'a creation_params =
  create_depositCollateral :: 'a
  create_borrowHCHF :: 'a

record 'a closure_params =
  close_withdrawCollateral :: 'a
  close_repayHCHF :: "'a option"

record 'a adjustment_params =
  depositCollateral :: "'a option"
  withdrawCollateral :: "'a option"
  borrowHCHF :: "'a option"
  repayHCHF :: "'a option"

text \<open>
  The TypeScript type of adjustments excludes a deposit together with a withdrawal, and a borrowing
  together with a repayment, and asks for at least one property.
\<close>

definition valid_adjustment :: "'a adjustment_params \<Rightarrow> bool" where
  "valid_adjustment p \<longleftrightarrow>
     (depositCollateral p = None \<or> withdrawCollateral p = None) \<and>
     (borrowHCHF p = None \<or> repayHCHF p = None) \<and>
     (depositCollateral p \<noteq> None \<or> withdrawCollateral p \<noteq> None \<or> borrowHCHF p \<noteq> None \<or> repayHCHF p \<noteq> None)"

datatype 'a collateral_change = DepositCollateral 'a | WithdrawCollateral 'a

datatype 'a debt_change = BorrowHCHF 'a | RepayHCHF 'a

record trove =
  trove_constants :: constants
  collateral :: decimal
  debt :: decimal

datatype creation_error = MissingLiquidationReserve

datatype zero_field = ZeroCollateral | ZeroDebt

datatype trove_change =
    InvalidCreation trove creation_error
  | Creation "decimal creation_params"
  | Closure "decimal closure_params"
  | Adjustment "decimal adjustment_params" "zero_field option"

section \<open>Normalising transaction parameters\<close>

text \<open>
  A parameter object is the list of its own entries, \<open>None\<close> being a property whose value is
  \<^verbatim>\<open>undefined\<close>. \<^verbatim>\<open>Object.fromEntries\<close> lets a later entry win.
\<close>

type_synonym entries = "(string \<times> decimalish option) list"

definition definedEntries :: "entries \<Rightarrow> (string \<times> decimalish) list" where
  "definedEntries params = concat (map (\<lambda>(k, v). case v of Some x \<Rightarrow> [(k, x)] | None \<Rightarrow> []) params)"

definition quote :: "string \<Rightarrow> string" where
  "quote k = [CHR 0x27] @ k @ [CHR 0x27]"

definition allowedTroveCreationKeys :: "string list" where
  "allowedTroveCreationKeys = [''depositCollateral'', ''borrowHCHF'']"

definition checkAllowedTroveCreationKeys :: "(string \<times> 'a) list \<Rightarrow> unit result" where
  "checkAllowedTroveCreationKeys entries =
     (let badKeys = map (\<lambda>(k, _). quote k) (filter (\<lambda>(k, _). k \<notin> set allowedTroveCreationKeys) entries)
      in if length badKeys > 0
         then Inl (Error (''TroveCreationParams: property '' @ join '', '' badKeys @ '' not allowed''))
         else Inr ())"

definition decimalize :: "string \<times> decimalish \<Rightarrow> (string \<times> decimal) result" where
  "decimalize kv = (case kv of (k, v) \<Rightarrow> rbind (Decimal_from v) (\<lambda>d. Inr (k, d)))"

definition fromEntries :: "(string \<times> 'a) list \<Rightarrow> string \<rightharpoonup> 'a" where
  "fromEntries entries = map_of (rev entries)"

definition troveCreationParamsFromEntries :: "(string \<times> decimal) list \<Rightarrow> decimal creation_params result" where
  "troveCreationParamsFromEntries entries =
     (let params = fromEntries entries;
          missingKeys = map quote (filter (\<lambda>k. params k = None) allowedTroveCreationKeys)
      in if length missingKeys > 0
         then Inl (Error (''TroveCreationParams: property '' @ join '', '' missingKeys @ '' missing''))
         else Inr \<lparr>create_depositCollateral = the (params ''depositCollateral''),
                   create_borrowHCHF = the (params ''borrowHCHF'')\<rparr>)"

definition normalizeTroveCreation :: "entries \<Rightarrow> decimal creation_params result" where
  "normalizeTroveCreation params =
     (let defined = definedEntries params in
      rbind (checkAllowedTroveCreationKeys defined) (\<lambda>_.
      rbind (mapM decimalize defined) troveCreationParamsFromEntries))"

definition allowedTroveAdjustmentKeys :: "string list" where
  "allowedTroveAdjustmentKeys =
     [''depositCollateral'', ''withdrawCollateral'', ''borrowHCHF'', ''repayHCHF'']"

definition checkAllowedTroveAdjustmentKeys :: "(string \<times> 'a) list \<Rightarrow> unit result" where
  "checkAllowedTroveAdjustmentKeys entries =
     (let badKeys = map (\<lambda>(k, _). quote k) (filter (\<lambda>(k, _). k \<notin> set allowedTroveAdjustmentKeys) entries)
      in if length badKeys > 0
         then Inl (Error (''TroveAdjustmentParams: property '' @ join '', '' badKeys @ '' not allowed''))
         else Inr ())"

definition collateralChangeFrom :: "(string \<rightharpoonup> 'a) \<Rightarrow> 'a collateral_change option result" where
  "collateralChangeFrom params = (case (params ''depositCollateral'', params ''withdrawCollateral'') of
      (Some _, Some _) \<Rightarrow> Inl (Error (''TroveAdjustmentParams: '' @ quote ''depositCollateral'' @ '' and ''
          @ quote ''withdrawCollateral'' @ '' can'' @ [CHR 0x27] @ ''t be present at the same time''))
    | (Some d, None) \<Rightarrow> Inr (Some (DepositCollateral d))
    | (None, Some w) \<Rightarrow> Inr (Some (WithdrawCollateral w))
    | (None, None) \<Rightarrow> Inr None)"

definition debtChangeFrom :: "(string \<rightharpoonup> 'a) \<Rightarrow> 'a debt_change option result" where
  "debtChangeFrom params = (case (params ''borrowHCHF'', params ''repayHCHF'') of
      (Some _, Some _) \<Rightarrow> Inl (Error (''TroveAdjustmentParams: '' @ quote ''borrowHCHF'' @ '' and ''
          @ quote ''repayHCHF'' @ '' can'' @ [CHR 0x27] @ ''t be present at the same time''))
    | (Some b, None) \<Rightarrow> Inr (Some (BorrowHCHF b))
    | (None, Some r) \<Rightarrow> Inr (Some (RepayHCHF r))
    | (None, None) \<Rightarrow> Inr None)"

text \<open>The object literals \<^verbatim>\<open>{ ...collateralChange, ...debtChange }\<close>, \<^verbatim>\<open>{ depositCollateral }\<close>, etc.\<close>

definition adjustment_of ::
  "'a collateral_change option \<Rightarrow> 'a debt_change option \<Rightarrow> 'a adjustment_params" where
  "adjustment_of c d = \<lparr>
     depositCollateral = (case c of Some (DepositCollateral x) \<Rightarrow> Some x | _ \<Rightarrow> None),
     withdrawCollateral = (case c of Some (WithdrawCollateral x) \<Rightarrow> Some x | _ \<Rightarrow> None),
     borrowHCHF = (case d of Some (BorrowHCHF x) \<Rightarrow> Some x | _ \<Rightarrow> None),
     repayHCHF = (case d of Some (RepayHCHF x) \<Rightarrow> Some x | _ \<Rightarrow> None)\<rparr>"

definition troveAdjustmentParamsFromEntries :: "(string \<times> 'a) list \<Rightarrow> 'a adjustment_params result" where
  "troveAdjustmentParamsFromEntries entries =
     (let params = fromEntries entries in
      rbind (collateralChangeFrom params) (\<lambda>collateralChange.
      rbind (debtChangeFrom params) (\<lambda>debtChange.
        if collateralChange \<noteq> None \<or> debtChange \<noteq> None
        then Inr (adjustment_of collateralChange debtChange)
        else Inl (Error ''TroveAdjustmentParams: must include at least one non-zero parameter''))))"

definition normalizeTroveAdjustment :: "entries \<Rightarrow> decimal adjustment_params result" where
  "normalizeTroveAdjustment params =
     (let defined = definedEntries params in
      rbind (checkAllowedTroveAdjustmentKeys defined) (\<lambda>_.
      rbind (mapM decimalize defined) (\<lambda>decimalized.
        troveAdjustmentParamsFromEntries (filter (\<lambda>(_, v). \<not> Decimal_isZero v) decimalized))))"

section \<open>Fees on a borrowed amount\<close>

definition applyFee :: "decimal \<Rightarrow> decimal \<Rightarrow> decimal" where
  "applyFee borrowingRate debtIncrease =
     Decimal_mul debtIncrease (Decimal_add Decimal_ONE borrowingRate)"

definition unapplyFee :: "decimal \<Rightarrow> decimal \<Rightarrow> decimal" where
  "unapplyFee borrowingRate debtIncrease =
     Decimal_divCeil debtIncrease (Decimal_add Decimal_ONE borrowingRate)"

section \<open>The class Trove\<close>

definition NOMINAL_COLLATERAL_RATIO_PRECISION :: decimal where
  "NOMINAL_COLLATERAL_RATIO_PRECISION = Decimal 10000000000"

definition new_Trove :: "constants \<Rightarrow> decimal \<Rightarrow> decimal \<Rightarrow> trove" where
  "new_Trove constants' collateral' debt' =
     \<lparr>trove_constants = constants', collateral = collateral', debt = debt'\<rparr>"

definition empty_Trove :: "constants \<Rightarrow> trove" where
  "empty_Trove constants' = new_Trove constants' Decimal_ZERO Decimal_ZERO"

definition Trove_isEmpty :: "'x trove_scheme \<Rightarrow> bool" where
  "Trove_isEmpty this \<longleftrightarrow> Decimal_isZero (collateral this) \<and> Decimal_isZero (debt this)"

definition Trove_netDebt :: "'x trove_scheme \<Rightarrow> decimal result" where
  "Trove_netDebt this =
     (let reserve = HCHF_LIQUIDATION_RESERVE (trove_constants this) in
      if Decimal_lt (debt this) reserve
      then Inl (Error (''netDebt should not be used when debt < '' @ Decimal_text reserve))
      else Decimal_sub (debt this) reserve)"

definition Trove_nominalCollateralRatio :: "'x trove_scheme \<Rightarrow> decimal" where
  "Trove_nominalCollateralRatio this =
     Decimal_mulDiv (collateral this) NOMINAL_COLLATERAL_RATIO_PRECISION (debt this)"

definition Trove_collateralRatio :: "'x trove_scheme \<Rightarrow> decimal \<Rightarrow> decimal" where
  "Trove_collateralRatio this price = Decimal_mulDiv (collateral this) price (debt this)"

definition Trove_collateralRatioIsBelowMinimum :: "'x trove_scheme \<Rightarrow> decimal \<Rightarrow> bool" where
  "Trove_collateralRatioIsBelowMinimum this price \<longleftrightarrow>
     Decimal_lt (Trove_collateralRatio this price) (MINIMUM_COLLATERAL_RATIO (trove_constants this))"

definition Trove_collateralRatioIsBelowCritical :: "'x trove_scheme \<Rightarrow> decimal \<Rightarrow> bool" where
  "Trove_collateralRatioIsBelowCritical this price \<longleftrightarrow>
     Decimal_lt (Trove_collateralRatio this price) (CRITICAL_COLLATERAL_RATIO (trove_constants this))"

definition Trove_isOpenableInRecoveryMode :: "'x trove_scheme \<Rightarrow> decimal \<Rightarrow> bool" where
  "Trove_isOpenableInRecoveryMode this price \<longleftrightarrow>
     Decimal_gte (Trove_collateralRatio this price) (CRITICAL_COLLATERAL_RATIO (trove_constants this))"

definition Trove_toString :: "'x trove_scheme \<Rightarrow> string" where
  "Trove_toString this =
     ''{ collateral: '' @ Decimal_text (collateral this) @ '', debt: '' @ Decimal_text (debt this) @ '' }''"

definition Trove_equals :: "'x trove_scheme \<Rightarrow> 'y trove_scheme \<Rightarrow> bool" where
  "Trove_equals this that \<longleftrightarrow>
     Decimal_eq (collateral this) (collateral that) \<and> Decimal_eq (debt this) (debt that)"

definition Trove_add :: "'x trove_scheme \<Rightarrow> 'y trove_scheme \<Rightarrow> trove" where
  "Trove_add this that = new_Trove (trove_constants this)
     (Decimal_add (collateral this) (collateral that)) (Decimal_add (debt this) (debt that))"

definition Trove_addCollateral :: "'x trove_scheme \<Rightarrow> decimal \<Rightarrow> trove" where
  "Trove_addCollateral this c =
     new_Trove (trove_constants this) (Decimal_add (collateral this) c) (debt this)"

definition Trove_addDebt :: "'x trove_scheme \<Rightarrow> decimal \<Rightarrow> trove" where
  "Trove_addDebt this d =
     new_Trove (trove_constants this) (collateral this) (Decimal_add (debt this) d)"

text \<open>\<^verbatim>\<open>a.gt(b) ? a.sub(b) : Decimal.ZERO\<close>; \<open>sub_or_zero_sub\<close> below shows that this \<^verbatim>\<open>sub\<close> does not throw.\<close>

definition sub_or_zero :: "decimal \<Rightarrow> decimal \<Rightarrow> decimal" where
  "sub_or_zero a b = (if Decimal_gt a b then Decimal (bigNumber a - bigNumber b) else Decimal_ZERO)"

definition Trove_subtract :: "'x trove_scheme \<Rightarrow> 'y trove_scheme \<Rightarrow> trove" where
  "Trove_subtract this that = new_Trove (trove_constants this)
     (sub_or_zero (collateral this) (collateral that)) (sub_or_zero (debt this) (debt that))"

definition Trove_subtractCollateral :: "'x trove_scheme \<Rightarrow> decimal \<Rightarrow> trove" where
  "Trove_subtractCollateral this c =
     new_Trove (trove_constants this) (sub_or_zero (collateral this) c) (debt this)"

definition Trove_subtractDebt :: "'x trove_scheme \<Rightarrow> decimal \<Rightarrow> trove" where
  "Trove_subtractDebt this d =
     new_Trove (trove_constants this) (collateral this) (sub_or_zero (debt this) d)"

definition Trove_multiply :: "'x trove_scheme \<Rightarrow> decimal \<Rightarrow> trove" where
  "Trove_multiply this multiplier = new_Trove (trove_constants this)
     (Decimal_mul (collateral this) multiplier) (Decimal_mul (debt this) multiplier)"

definition Trove_setCollateral :: "'x trove_scheme \<Rightarrow> decimal \<Rightarrow> trove" where
  "Trove_setCollateral this c = new_Trove (trove_constants this) c (debt this)"

definition Trove_setDebt :: "'x trove_scheme \<Rightarrow> decimal \<Rightarrow> trove" where
  "Trove_setDebt this d = new_Trove (trove_constants this) (collateral this) d"

section \<open>Changes between troves\<close>

definition Trove_debtChange :: "trove \<Rightarrow> trove \<Rightarrow> decimal \<Rightarrow> decimal debt_change result" where
  "Trove_debtChange this that borrowingRate =
     (if Decimal_gt (debt that) (debt this)
      then rbind (Decimal_sub (debt that) (debt this)) (\<lambda>d. Inr (BorrowHCHF (unapplyFee borrowingRate d)))
      else rbind (Decimal_sub (debt this) (debt that)) (\<lambda>d. Inr (RepayHCHF d)))"

definition Trove_collateralChange :: "trove \<Rightarrow> trove \<Rightarrow> decimal collateral_change result" where
  "Trove_collateralChange this that =
     (if Decimal_gt (collateral that) (collateral this)
      then rbind (Decimal_sub (collateral that) (collateral this)) (\<lambda>d. Inr (DepositCollateral d))
      else rbind (Decimal_sub (collateral this) (collateral that)) (\<lambda>d. Inr (WithdrawCollateral d)))"

definition rate_or_default :: "trove \<Rightarrow> decimal option \<Rightarrow> decimal" where
  "rate_or_default this borrowingRate =
     (case borrowingRate of Some r \<Rightarrow> r | None \<Rightarrow> MINIMUM_BORROWING_RATE (trove_constants this))"

definition Trove_whatChanged :: "trove \<Rightarrow> trove \<Rightarrow> decimal option \<Rightarrow> trove_change option result" where
  "Trove_whatChanged this that borrowingRate' =
     (let borrowingRate = rate_or_default this borrowingRate' in
      if Decimal_eq (collateral this) (collateral that) \<and> Decimal_eq (debt this) (debt that) then Inr None
      else if Trove_isEmpty this then
        (if Decimal_lt (debt that) (HCHF_LIQUIDATION_RESERVE (trove_constants this))
         then Inr (Some (InvalidCreation that MissingLiquidationReserve))
         else rbind (Trove_netDebt that) (\<lambda>netDebt.
           Inr (Some (Creation \<lparr>create_depositCollateral = collateral that,
                                create_borrowHCHF = unapplyFee borrowingRate netDebt\<rparr>))))
      else if Trove_isEmpty that then
        rbind (Trove_netDebt this) (\<lambda>netDebt.
          Inr (Some (Closure (if Decimal_nonZero netDebt \<noteq> None
             then \<lparr>close_withdrawCollateral = collateral this, close_repayHCHF = Some netDebt\<rparr>
             else \<lparr>close_withdrawCollateral = collateral this, close_repayHCHF = None\<rparr>))))
      else if Decimal_eq (collateral this) (collateral that) then
        rbind (Trove_debtChange this that borrowingRate) (\<lambda>d.
          Inr (Some (Adjustment (adjustment_of None (Some d))
            (if Decimal_zero (debt that) \<noteq> None then Some ZeroDebt else None))))
      else if Decimal_eq (debt this) (debt that) then
        rbind (Trove_collateralChange this that) (\<lambda>c.
          Inr (Some (Adjustment (adjustment_of (Some c) None)
            (if Decimal_zero (collateral that) \<noteq> None then Some ZeroCollateral else None))))
      else
        rbind (Trove_debtChange this that borrowingRate) (\<lambda>d.
        rbind (Trove_collateralChange this that) (\<lambda>c.
          Inr (Some (Adjustment (adjustment_of (Some c) (Some d))
            (if Decimal_zero (debt that) \<noteq> None then Some ZeroDebt
             else if Decimal_zero (collateral that) \<noteq> None then Some ZeroCollateral else None))))))"

definition or_zero :: "decimal option \<Rightarrow> decimal" where
  "or_zero d = (case d of Some x \<Rightarrow> x | None \<Rightarrow> Decimal_ZERO)"

definition apply_adjustment ::
  "trove \<Rightarrow> decimal adjustment_params \<Rightarrow> zero_field option \<Rightarrow> decimal \<Rightarrow> trove" where
  "apply_adjustment this params setToZero borrowingRate =
     (let collateralDecrease = or_zero (withdrawCollateral params);
          collateralIncrease = or_zero (depositCollateral params);
          debtDecrease = or_zero (repayHCHF params);
          debtIncrease = (case borrowHCHF params of Some b \<Rightarrow> applyFee borrowingRate b | None \<Rightarrow> Decimal_ZERO)
      in case setToZero of
           Some ZeroCollateral \<Rightarrow>
             Trove_subtractDebt (Trove_addDebt (Trove_setCollateral this Decimal_ZERO) debtIncrease) debtDecrease
         | Some ZeroDebt \<Rightarrow>
             Trove_subtractCollateral
               (Trove_addCollateral (Trove_setDebt this Decimal_ZERO) collateralIncrease) collateralDecrease
         | None \<Rightarrow>
             Trove_subtract (Trove_add this (new_Trove (trove_constants this) collateralIncrease debtIncrease))
               (new_Trove (trove_constants this) collateralDecrease debtDecrease))"

definition Trove_apply :: "trove \<Rightarrow> trove_change option \<Rightarrow> decimal option \<Rightarrow> trove result" where
  "Trove_apply this change borrowingRate' =
     (let borrowingRate = rate_or_default this borrowingRate' in
      case change of
        None \<Rightarrow> Inr this
      | Some (InvalidCreation invalidTrove _) \<Rightarrow>
          (if \<not> Trove_isEmpty this then Inl (Error (''Can'' @ [CHR 0x27] @ ''t create onto existing Trove''))
           else Inr invalidTrove)
      | Some (Creation params) \<Rightarrow>
          (if \<not> Trove_isEmpty this then Inl (Error (''Can'' @ [CHR 0x27] @ ''t create onto existing Trove''))
           else Inr (new_Trove (trove_constants this) (create_depositCollateral params)
                  (Decimal_add (HCHF_LIQUIDATION_RESERVE (trove_constants this))
                     (applyFee borrowingRate (create_borrowHCHF params)))))
      | Some (Closure _) \<Rightarrow>
          (if Trove_isEmpty this then Inl (Error (''Can'' @ [CHR 0x27] @ ''t close empty Trove''))
           else Inr (empty_Trove (trove_constants this)))
      | Some (Adjustment params setToZero) \<Rightarrow>
          Inr (apply_adjustment this params setToZero borrowingRate))"

definition Trove_create :: "constants \<Rightarrow> entries \<Rightarrow> decimal option \<Rightarrow> trove result" where
  "Trove_create constants' params borrowingRate =
     rbind (normalizeTroveCreation params) (\<lambda>normalized.
       Trove_apply (empty_Trove constants') (Some (Creation normalized)) borrowingRate)"

definition Trove_recreate :: "trove \<Rightarrow> decimal option \<Rightarrow> decimal creation_params result" where
  "Trove_recreate that borrowingRate =
     rbind (Trove_whatChanged (empty_Trove (trove_constants that)) that borrowingRate) (\<lambda>change.
       case change of Some (Creation params) \<Rightarrow> Inr params | _ \<Rightarrow> Inl AssertionError)"

definition Trove_adjust :: "trove \<Rightarrow> entries \<Rightarrow> decimal option \<Rightarrow> trove result" where
  "Trove_adjust this params borrowingRate =
     rbind (normalizeTroveAdjustment params) (\<lambda>normalized.
       Trove_apply this (Some (Adjustment normalized None)) borrowingRate)"

definition Trove_adjustTo :: "trove \<Rightarrow> trove \<Rightarrow> decimal option \<Rightarrow> decimal adjustment_params result" where
  "Trove_adjustTo this that borrowingRate =
     rbind (Trove_whatChanged this that borrowingRate) (\<lambda>change.
       case change of Some (Adjustment params _) \<Rightarrow> Inr params | _ \<Rightarrow> Inl AssertionError)"

section \<open>Troves with an owner\<close>

datatype user_trove_status = NonExistent | Open | ClosedByOwner | ClosedByLiquidation | ClosedByRedemption

fun status_text :: "user_trove_status \<Rightarrow> string" where
  "status_text NonExistent = ''nonExistent''"
| "status_text Open = ''open''"
| "status_text ClosedByOwner = ''closedByOwner''"
| "status_text ClosedByLiquidation = ''closedByLiquidation''"
| "status_text ClosedByRedemption = ''closedByRedemption''"

record user_trove = trove +
  ownerAddress :: string
  status :: user_trove_status

definition new_UserTrove ::
  "constants \<Rightarrow> string \<Rightarrow> user_trove_status \<Rightarrow> decimal \<Rightarrow> decimal \<Rightarrow> user_trove" where
  "new_UserTrove constants' owner status' collateral' debt' =
     \<lparr>trove_constants = constants', collateral = collateral', debt = debt',
      ownerAddress = owner, status = status'\<rparr>"

definition UserTrove_equals :: "'x user_trove_scheme \<Rightarrow> 'y user_trove_scheme \<Rightarrow> bool" where
  "UserTrove_equals this that \<longleftrightarrow>
     Trove_equals this that \<and> ownerAddress this = ownerAddress that \<and> status this = status that"

definition UserTrove_toString :: "'x user_trove_scheme \<Rightarrow> string" where
  "UserTrove_toString this =
     ''{ ownerAddress: \"'' @ ownerAddress this @ ''\"''
     @ '', collateral: '' @ Decimal_text (collateral this)
     @ '', debt: '' @ Decimal_text (debt this)
     @ '', status: \"'' @ status_text (status this) @ ''\" }''"

record pending_trove = user_trove +
  stake :: decimal
  snapshotOfTotalRedistributed :: trove

definition new_PendingTrove ::
  "constants \<Rightarrow> string \<Rightarrow> user_trove_status \<Rightarrow> decimal \<Rightarrow> decimal \<Rightarrow> decimal \<Rightarrow> trove \<Rightarrow> pending_trove" where
  "new_PendingTrove constants' owner status' collateral' debt' stake' snapshot =
     \<lparr>trove_constants = constants', collateral = collateral', debt = debt',
      ownerAddress = owner, status = status', stake = stake', snapshotOfTotalRedistributed = snapshot\<rparr>"

text \<open>The constructor call with the last four arguments left out, that is, at their defaults.\<close>

definition empty_PendingTrove :: "constants \<Rightarrow> string \<Rightarrow> user_trove_status \<Rightarrow> pending_trove" where
  "empty_PendingTrove constants' owner status' =
     new_PendingTrove constants' owner status' Decimal_ZERO Decimal_ZERO Decimal_ZERO (empty_Trove constants')"

definition applyRedistribution :: "pending_trove \<Rightarrow> trove \<Rightarrow> user_trove" where
  "applyRedistribution this totalRedistributed =
     (let afterRedistribution = Trove_add this
            (Trove_multiply (Trove_subtract totalRedistributed (snapshotOfTotalRedistributed this)) (stake this))
      in new_UserTrove (trove_constants this) (ownerAddress this) (status this)
           (collateral afterRedistribution) (debt afterRedistribution))"

definition PendingTrove_equals :: "pending_trove \<Rightarrow> pending_trove \<Rightarrow> bool" where
  "PendingTrove_equals this that \<longleftrightarrow>
     UserTrove_equals this that \<and> Decimal_eq (stake this) (stake that) \<and>
     Trove_equals (snapshotOfTotalRedistributed this) (snapshotOfTotalRedistributed that)"

section \<open>Laws of the operations\<close>

lemma new_Trove_simps [simp]:
  "trove_constants (new_Trove k c d) = k" "collateral (new_Trove k c d) = c" "debt (new_Trove k c d) = d"
  by (simp_all add: new_Trove_def)

lemma empty_Trove_simps [simp]:
  "trove_constants (empty_Trove k) = k" "collateral (empty_Trove k) = Decimal_ZERO"
  "debt (empty_Trove k) = Decimal_ZERO" "Trove_isEmpty (empty_Trove k)"
  by (simp_all add: empty_Trove_def Trove_isEmpty_def)

lemma trove_eqI:
  "trove_constants t = trove_constants u \<Longrightarrow> collateral t = collateral u \<Longrightarrow> debt t = debt u \<Longrightarrow> t = (u :: trove)"
  by simp

lemma sub_or_zero_sub: "Decimal_gt a b \<Longrightarrow> Decimal_sub a b = Inr (sub_or_zero a b)"
  by (simp add: sub_or_zero_def Decimal_sub_ok)

lemma sub_or_zero_eq: "sub_or_zero a b = Decimal (bigNumber a - bigNumber b)"
  by (simp add: sub_or_zero_def Decimal_ZERO_def less_decimal_def)

lemma sub_or_zero_ZERO [simp]: "sub_or_zero a Decimal_ZERO = a"
  by (cases a) (simp add: sub_or_zero_eq)

lemmas trove_ops = Trove_add_def Trove_addCollateral_def Trove_addDebt_def Trove_subtract_def
  Trove_subtractCollateral_def Trove_subtractDebt_def Trove_multiply_def Trove_setCollateral_def
  Trove_setDebt_def

lemma Trove_subtract_add: "Trove_subtract (Trove_add t u) u = new_Trove (trove_constants t) (collateral t) (debt t)"
  by (simp add: trove_ops sub_or_zero_eq)

lemma Trove_netDebt_ok:
  "HCHF_LIQUIDATION_RESERVE (trove_constants t) \<le> debt t \<Longrightarrow>
   Trove_netDebt t = Inr (Decimal (bigNumber (debt t) - bigNumber (HCHF_LIQUIDATION_RESERVE (trove_constants t))))"
  by (simp add: Trove_netDebt_def Decimal_sub_ok Let_def)

lemma Trove_netDebt_throws:
  "debt t < HCHF_LIQUIDATION_RESERVE (trove_constants t) \<Longrightarrow> \<exists>m. Trove_netDebt t = Inl (Error m)"
  by (simp add: Trove_netDebt_def Let_def)

lemma Trove_netDebt_InlD:
  "Trove_netDebt t = Inl e \<Longrightarrow> debt t < HCHF_LIQUIDATION_RESERVE (trove_constants t)"
  by (rule ccontr) (simp add: Trove_netDebt_ok)

section \<open>Charging and removing the borrowing fee\<close>

definition fee_slack :: "decimal \<Rightarrow> nat" where
  "fee_slack rate = (DIGITS + bigNumber rate - 1) div DIGITS"

lemma fee_slack_ZERO [simp]: "fee_slack Decimal_ZERO = 0"
  by (simp add: fee_slack_def DIGITS_eq)

lemma fee_slack_le_ONE: "rate \<le> Decimal_ONE \<Longrightarrow> fee_slack rate \<le> 1"
  by (simp add: fee_slack_def Decimal_ONE_def less_eq_decimal_def DIGITS_eq)

lemma fee_factor:
  "bigNumber (Decimal_add Decimal_ONE rate) = DIGITS + bigNumber rate"
  "Decimal_add Decimal_ONE rate \<noteq> Decimal_ZERO"
  by (simp_all add: Decimal_add_def Decimal_ONE_def DIGITS_eq Decimal_ZERO_def)

lemma applyFee_unapplyFee:
  "x \<le> applyFee rate (unapplyFee rate x)"
  "bigNumber (applyFee rate (unapplyFee rate x)) \<le> bigNumber x + fee_slack rate"
proof -
  let ?f = "Decimal_add Decimal_ONE rate" and ?b = "unapplyFee rate x"
  note b = Decimal_divCeil_bounds [OF fee_factor(2), of x rate, folded unapplyFee_def]
  have "bigNumber x * DIGITS div DIGITS \<le> bigNumber ?b * bigNumber ?f div DIGITS"
    by (rule div_le_mono) (rule b(1))
  then show "x \<le> applyFee rate ?b"
    by (simp add: applyFee_def less_eq_decimal_def)
  have "bigNumber ?b * bigNumber ?f \<le> bigNumber x * DIGITS + (DIGITS + bigNumber rate - 1)"
    using b(2) DIGITS_pos unfolding fee_factor(1) by linarith
  then have "bigNumber ?b * bigNumber ?f div DIGITS
      \<le> (bigNumber x * DIGITS + (DIGITS + bigNumber rate - 1)) div DIGITS"
    by (rule div_le_mono)
  also have "\<dots> = bigNumber x + fee_slack rate"
    unfolding fee_slack_def by (rule div_mult_self3) simp
  finally show "bigNumber (applyFee rate ?b) \<le> bigNumber x + fee_slack rate"
    by (simp add: applyFee_def)
qed

lemma unapplyFee_ZERO_iff: "unapplyFee rate x = Decimal_ZERO \<longleftrightarrow> x = Decimal_ZERO"
proof
  assume "unapplyFee rate x = Decimal_ZERO"
  with applyFee_unapplyFee(1) [of x rate] have "x \<le> Decimal_ZERO"
    by (simp add: applyFee_def)
  then show "x = Decimal_ZERO" by (metis Decimal_ZERO_le antisym)
next
  assume "x = Decimal_ZERO"
  then show "unapplyFee rate x = Decimal_ZERO"
    by (simp add: unapplyFee_def Decimal_divCeil_def fee_factor(2))
      (simp add: Decimal_ZERO_def Decimal_ONE_def)
qed

lemma applyFee_unapplyFee_ZERO [simp]: "applyFee rate (unapplyFee rate Decimal_ZERO) = Decimal_ZERO"
  using unapplyFee_ZERO_iff [of rate Decimal_ZERO] by (simp add: applyFee_def)

text \<open>
  C25. Removing the borrowing fee from a debt increase and charging it again never falls short of the
  wanted increase and overshoots it by at most one unit of the eighth digit for rates up to 100\%
  (not at all for a zero rate), so a trove is never given less debt than was asked for.
\<close>

theorem unapplyFee_applyFee_tight:
  assumes "rate \<le> Decimal_ONE"
  shows "x \<le> applyFee rate (unapplyFee rate x)
     \<and> bigNumber (applyFee rate (unapplyFee rate x)) \<le> bigNumber x + 1
     \<and> (rate = Decimal_ZERO \<longrightarrow> applyFee rate (unapplyFee rate x) = x)"
proof -
  have "applyFee rate (unapplyFee rate x) = x" if "rate = Decimal_ZERO"
    using applyFee_unapplyFee [where x = x and rate = rate] that
    by (auto simp: less_eq_decimal_def intro: decimal.expand)
  then show ?thesis
    using applyFee_unapplyFee [where x = x and rate = rate] fee_slack_le_ONE [OF assms] by auto
qed

theorem unapplyFee_applyFee_tight_witness:
  "Decimal 1000000007 \<le> applyFee (Decimal 500000) (unapplyFee (Decimal 500000) (Decimal 1000000007))
   \<and> bigNumber (applyFee (Decimal 500000) (unapplyFee (Decimal 500000) (Decimal 1000000007)))
       \<le> bigNumber (Decimal 1000000007) + 1
   \<and> applyFee Decimal_ZERO (unapplyFee Decimal_ZERO (Decimal 1000000007)) = Decimal 1000000007"
  using unapplyFee_applyFee_tight [of "Decimal 500000" "Decimal 1000000007"]
    unapplyFee_applyFee_tight [of Decimal_ZERO "Decimal 1000000007"]
  by (simp add: Decimal_ONE_def)

section \<open>Applying the change between two troves\<close>

lemma Trove_debtChange_eq:
  "Trove_debtChange t u rate = Inr (if debt t < debt u
     then BorrowHCHF (unapplyFee rate (Decimal (bigNumber (debt u) - bigNumber (debt t))))
     else RepayHCHF (Decimal (bigNumber (debt t) - bigNumber (debt u))))"
  by (simp add: Trove_debtChange_def Decimal_sub_ok)

lemma Trove_collateralChange_eq:
  "Trove_collateralChange t u = Inr (if collateral t < collateral u
     then DepositCollateral (Decimal (bigNumber (collateral u) - bigNumber (collateral t)))
     else WithdrawCollateral (Decimal (bigNumber (collateral t) - bigNumber (collateral u))))"
  by (simp add: Trove_collateralChange_def Decimal_sub_ok)

text \<open>\<open>reaches rate t u v\<close>: \<open>v\<close> is the trove \<open>u\<close> asked for, up to the slack of the borrowing fee.\<close>

definition reaches :: "decimal \<Rightarrow> trove \<Rightarrow> trove \<Rightarrow> trove \<Rightarrow> bool" where
  "reaches rate t u v \<longleftrightarrow> trove_constants v = trove_constants u \<and> collateral v = collateral u
     \<and> debt u \<le> debt v \<and> bigNumber (debt v) \<le> bigNumber (debt u) + fee_slack rate
     \<and> (debt u \<le> debt t \<longrightarrow> debt v = debt u)"

lemma reaches_refl [simp]: "reaches rate t u u"
  by (simp add: reaches_def)

text \<open>The debt that results from applying a debt change, with nothing else to round.\<close>

definition debt_after :: "decimal \<Rightarrow> decimal \<Rightarrow> decimal debt_change \<Rightarrow> decimal" where
  "debt_after rate d c = (case c of
      BorrowHCHF b \<Rightarrow> Decimal_add d (applyFee rate b) | RepayHCHF r \<Rightarrow> sub_or_zero d r)"

lemma debt_after_change:
  assumes "Trove_debtChange t u rate = Inr c"
  shows "debt u \<le> debt_after rate (debt t) c"
    and "bigNumber (debt_after rate (debt t) c) \<le> bigNumber (debt u) + fee_slack rate"
    and "debt u \<le> debt t \<Longrightarrow> debt_after rate (debt t) c = debt u"
proof -
  let ?v = "debt_after rate (debt t) c"
  have "debt u \<le> ?v \<and> bigNumber ?v \<le> bigNumber (debt u) + fee_slack rate \<and> (debt u \<le> debt t \<longrightarrow> ?v = debt u)"
  proof (cases "debt t < debt u")
    case True
    let ?x = "Decimal (bigNumber (debt u) - bigNumber (debt t))"
    have "?v = Decimal_add (debt t) (applyFee rate (unapplyFee rate ?x))"
      using assms True by (auto simp: Trove_debtChange_eq debt_after_def)
    moreover have "bigNumber (debt t) < bigNumber (debt u)"
      using True by (simp add: less_decimal_def)
    ultimately show ?thesis
      using True applyFee_unapplyFee [where x = ?x and rate = rate] by (auto simp: less_eq_decimal_def)
  next
    case False
    then have "?v = debt u"
      using assms by (cases "debt u")
        (auto simp: Trove_debtChange_eq debt_after_def sub_or_zero_eq less_decimal_def)
    then show ?thesis by simp
  qed
  then show "debt u \<le> ?v" "bigNumber ?v \<le> bigNumber (debt u) + fee_slack rate"
    "debt u \<le> debt t \<Longrightarrow> ?v = debt u"
    by simp_all
qed

lemma collateral_after_change:
  assumes "Trove_collateralChange t u = Inr c"
  shows "sub_or_zero (Decimal_add (collateral t) (or_zero (depositCollateral (adjustment_of (Some c) d))))
           (or_zero (withdrawCollateral (adjustment_of (Some c) d))) = collateral u"
  using assms by (cases "collateral u")
    (auto simp: Trove_collateralChange_eq adjustment_of_def or_zero_def sub_or_zero_eq
      less_decimal_def Decimal_add_def)

lemma no_collateral_change [simp]:
  "depositCollateral (adjustment_of None d) = None" "withdrawCollateral (adjustment_of None d) = None"
  "or_zero None = Decimal_ZERO" "or_zero (Some x) = x"
  by (simp_all add: adjustment_of_def or_zero_def)

lemma no_debt_change [simp]:
  "borrowHCHF (adjustment_of c None) = None" "repayHCHF (adjustment_of c None) = None"
  by (simp_all add: adjustment_of_def)

text \<open>The three ways an adjustment is applied, on a change of the debt, of the collateral, of both.\<close>

lemma debt_fields:
  "sub_or_zero (Decimal_add d (case borrowHCHF (adjustment_of c (Some x)) of
       Some b \<Rightarrow> applyFee rate b | None \<Rightarrow> Decimal_ZERO)) (or_zero (repayHCHF (adjustment_of c (Some x))))
     = debt_after rate d x"
  by (cases x) (simp_all add: adjustment_of_def debt_after_def)

lemma debt_after_to_ZERO:
  assumes "Trove_debtChange t u rate = Inr c" and "debt u = Decimal_ZERO"
  shows "debt_after rate (debt t) c = Decimal_ZERO"
  using debt_after_change(3) [OF assms(1)] assms(2) by simp

lemma apply_debt_adjustment:
  assumes "trove_constants t = trove_constants u" and "Trove_debtChange t u rate = Inr d"
    and "collateral t = collateral u"
  shows "reaches rate t u (apply_adjustment t (adjustment_of None (Some d))
           (if debt u = Decimal_ZERO then Some ZeroDebt else None) rate)"
  using assms debt_after_change [OF assms(2)] debt_fields [where d = "debt t" and c = None and x = d and rate = rate]
  by (simp add: apply_adjustment_def reaches_def trove_ops Let_def)

lemma apply_collateral_adjustment:
  assumes "trove_constants t = trove_constants u" and "Trove_collateralChange t u = Inr c"
    and "debt t = debt u"
  shows "reaches rate t u (apply_adjustment t (adjustment_of (Some c) None)
           (if collateral u = Decimal_ZERO then Some ZeroCollateral else None) rate)"
  using assms collateral_after_change [OF assms(2), of None]
  by (simp add: apply_adjustment_def reaches_def trove_ops Let_def)

lemma apply_both_adjustment:
  assumes "trove_constants t = trove_constants u" and "Trove_collateralChange t u = Inr c"
    and "Trove_debtChange t u rate = Inr d"
  shows "reaches rate t u (apply_adjustment t (adjustment_of (Some c) (Some d))
           (if debt u = Decimal_ZERO then Some ZeroDebt
            else if collateral u = Decimal_ZERO then Some ZeroCollateral else None) rate)"
  using assms collateral_after_change [OF assms(2), of "Some d"] debt_after_change [OF assms(3)]
    debt_fields [where d = "debt t" and c = "Some c" and x = d and rate = rate]
  by (simp add: apply_adjustment_def reaches_def trove_ops Let_def)

lemma apply_creation:
  assumes "trove_constants t = trove_constants u" and "Trove_isEmpty t"
    and "HCHF_LIQUIDATION_RESERVE (trove_constants t) \<le> debt u" and "Trove_netDebt u = Inr n"
  shows "reaches rate t u (new_Trove (trove_constants t) (collateral u)
     (Decimal_add (HCHF_LIQUIDATION_RESERVE (trove_constants t)) (applyFee rate (unapplyFee rate n))))"
proof -
  let ?R = "HCHF_LIQUIDATION_RESERVE (trove_constants t)"
  have n: "n = Decimal (bigNumber (debt u) - bigNumber ?R)"
    using assms Trove_netDebt_ok [of u] by simp
  have R: "bigNumber ?R \<le> bigNumber (debt u)"
    using assms(3) by (simp add: less_eq_decimal_def)
  have "Decimal_add ?R (applyFee rate (unapplyFee rate n)) = debt u" if "debt u \<le> debt t"
  proof -
    have u0: "debt u = Decimal_ZERO"
      using that assms(2) by (metis Decimal_ZERO_le Decimal_isZero_iff Trove_isEmpty_def antisym)
    with R n have "n = Decimal_ZERO" and "?R = Decimal_ZERO"
      by (simp_all add: Decimal_ZERO_def decimal.expand)
    with u0 show ?thesis by simp
  qed
  then show ?thesis
    using assms(1) n R applyFee_unapplyFee [where x = n and rate = rate]
    by (auto simp: reaches_def less_eq_decimal_def)
qed

lemma apply_whatChanged_reaches:
  assumes "trove_constants t = trove_constants u" and "Trove_whatChanged t u rate = Inr change"
  shows "\<exists>v. Trove_apply t change rate = Inr v \<and> reaches (rate_or_default t rate) t u v"
proof -
  let ?r = "rate_or_default t rate"
  let ?R = "HCHF_LIQUIDATION_RESERVE (trove_constants t)"
  consider (same) "collateral t = collateral u" "debt t = debt u"
    | (creation) "Trove_isEmpty t" "\<not> (collateral t = collateral u \<and> debt t = debt u)"
    | (closure) "\<not> Trove_isEmpty t" "Trove_isEmpty u"
    | (debt) "\<not> Trove_isEmpty t" "\<not> Trove_isEmpty u" "collateral t = collateral u" "debt t \<noteq> debt u"
    | (coll) "\<not> Trove_isEmpty t" "\<not> Trove_isEmpty u" "collateral t \<noteq> collateral u" "debt t = debt u"
    | (both) "\<not> Trove_isEmpty t" "\<not> Trove_isEmpty u" "collateral t \<noteq> collateral u" "debt t \<noteq> debt u"
    by blast
  then show ?thesis
  proof cases
    case same
    with assms(1) have "t = u" by (simp add: trove_eqI)
    with assms(2) show ?thesis
      by (simp add: Trove_whatChanged_def Trove_apply_def)
  next
    case creation
    show ?thesis
    proof (cases "debt u < ?R")
      case True
      with creation assms(2) show ?thesis
        by (auto simp: Trove_whatChanged_def Trove_apply_def)
    next
      case False
      then obtain n where n: "Trove_netDebt u = Inr n"
        using assms(1) Trove_netDebt_ok [of u] by simp
      from apply_creation [OF assms(1) creation(1) _ n, of ?r] False creation assms(2) n
      show ?thesis by (auto simp: Trove_whatChanged_def Trove_apply_def)
    qed
  next
    case closure
    then have "u = empty_Trove (trove_constants t)"
      using assms(1) by (intro trove_eqI) (simp_all add: Trove_isEmpty_def)
    with closure assms(2) show ?thesis
      by (auto simp: Trove_whatChanged_def Trove_apply_def rbind_eq_Inr_iff Trove_isEmpty_def)
  next
    case debt
    obtain d where d: "Trove_debtChange t u ?r = Inr d"
      by (simp add: Trove_debtChange_eq)
    from apply_debt_adjustment [OF assms(1) d debt(3)] debt assms(2) d
    show ?thesis by (auto simp: Trove_whatChanged_def Trove_apply_def)
  next
    case coll
    obtain c where c: "Trove_collateralChange t u = Inr c"
      by (simp add: Trove_collateralChange_eq)
    from apply_collateral_adjustment [OF assms(1) c coll(4), of ?r] coll assms(2) c
    show ?thesis by (auto simp: Trove_whatChanged_def Trove_apply_def)
  next
    case both
    obtain c d where c: "Trove_collateralChange t u = Inr c" and d: "Trove_debtChange t u ?r = Inr d"
      by (simp add: Trove_collateralChange_eq Trove_debtChange_eq)
    from apply_both_adjustment [OF assms(1) c d] both assms(2) c d
    show ?thesis by (auto simp: Trove_whatChanged_def Trove_apply_def)
  qed
qed

text \<open>
  C26. Applying to a trove the change computed towards another one yields that other trove: its
  collateral exactly, its debt never less and at most the rounding slack of the borrowing fee more
  (exactly, when the debt does not grow). \<^verbatim>\<open>apply\<close> does not throw on a change that \<^verbatim>\<open>whatChanged\<close>
  returned.
\<close>

theorem Trove_apply_whatChanged:
  assumes "trove_constants t = trove_constants u" and "Trove_whatChanged t u rate = Inr change"
  shows "\<exists>v. Trove_apply t change rate = Inr v \<and> reaches (rate_or_default t rate) t u v"
  using assms by (rule apply_whatChanged_reaches)

definition sample_trove :: trove where
  "sample_trove = new_Trove defaults (Decimal 1000000000000) (Decimal 200000000000)"

definition sample_target :: trove where
  "sample_target = new_Trove defaults (Decimal 900000000000) (Decimal 250000000007)"

lemma sample_whatChanged:
  "Trove_whatChanged sample_trove sample_target None = Inr (Some (Adjustment
     (adjustment_of (Some (WithdrawCollateral (Decimal 100000000000)))
                    (Some (BorrowHCHF (Decimal 49751243789)))) None))"
  by (simp add: Trove_whatChanged_def sample_trove_def sample_target_def Trove_isEmpty_def
      Trove_debtChange_eq Trove_collateralChange_eq rate_or_default_def defaults_def unapplyFee_def
      Decimal_divCeil_def Decimal_add_def decimal_unfold)

theorem Trove_apply_whatChanged_witness:
  "\<exists>v. Trove_apply sample_trove (Some (Adjustment
     (adjustment_of (Some (WithdrawCollateral (Decimal 100000000000)))
                    (Some (BorrowHCHF (Decimal 49751243789)))) None)) None = Inr v
     \<and> reaches (rate_or_default sample_trove None) sample_trove sample_target v"
proof (rule Trove_apply_whatChanged)
  show "trove_constants sample_trove = trove_constants sample_target"
    by (simp add: sample_trove_def sample_target_def)
qed (rule sample_whatChanged)

text \<open>
  Between troves of the same deployment, \<^verbatim>\<open>whatChanged\<close> throws in exactly one situation: the
  change would close a trove whose debt is below the liquidation reserve.
\<close>

theorem Trove_whatChanged_throws_iff:
  assumes "trove_constants t = trove_constants u"
  shows "(\<exists>e. Trove_whatChanged t u rate = Inl e) \<longleftrightarrow>
     \<not> Trove_isEmpty t \<and> Trove_isEmpty u \<and> debt t < HCHF_LIQUIDATION_RESERVE (trove_constants t)"
proof -
  have "\<exists>e. Trove_netDebt t = Inl e" if "debt t < HCHF_LIQUIDATION_RESERVE (trove_constants t)"
    using Trove_netDebt_throws [OF that] by blast
  then show ?thesis
    using assms by (auto simp: Trove_whatChanged_def Let_def Trove_debtChange_eq Trove_collateralChange_eq
        Trove_isEmpty_def rbind_eq_Inl_iff dest: Trove_netDebt_InlD)
qed

theorem Trove_whatChanged_throws_iff_witness:
  "(\<exists>e. Trove_whatChanged (new_Trove defaults (Decimal 5) (Decimal 7)) (empty_Trove defaults) None = Inl e) \<longleftrightarrow>
     \<not> Trove_isEmpty (new_Trove defaults (Decimal 5) (Decimal 7)) \<and> Trove_isEmpty (empty_Trove defaults)
     \<and> debt (new_Trove defaults (Decimal 5) (Decimal 7))
         < HCHF_LIQUIDATION_RESERVE (trove_constants (new_Trove defaults (Decimal 5) (Decimal 7)))"
  by (rule Trove_whatChanged_throws_iff) simp

section \<open>Normalised parameters\<close>

definition creation_entries :: "decimal creation_params \<Rightarrow> entries" where
  "creation_entries p = [(''depositCollateral'', Some (DecimalObject (create_depositCollateral p))),
     (''borrowHCHF'', Some (DecimalObject (create_borrowHCHF p)))]"

definition adjustment_entries :: "decimal adjustment_params \<Rightarrow> entries" where
  "adjustment_entries p = [(''depositCollateral'', map_option DecimalObject (depositCollateral p)),
     (''withdrawCollateral'', map_option DecimalObject (withdrawCollateral p)),
     (''borrowHCHF'', map_option DecimalObject (borrowHCHF p)),
     (''repayHCHF'', map_option DecimalObject (repayHCHF p))]"

definition nonzero_adjustment :: "decimal adjustment_params \<Rightarrow> bool" where
  "nonzero_adjustment p \<longleftrightarrow> depositCollateral p \<noteq> Some Decimal_ZERO \<and> withdrawCollateral p \<noteq> Some Decimal_ZERO
     \<and> borrowHCHF p \<noteq> Some Decimal_ZERO \<and> repayHCHF p \<noteq> Some Decimal_ZERO"

lemma normalizeTroveCreation_entries [simp]: "normalizeTroveCreation (creation_entries p) = Inr p"
  by (simp add: normalizeTroveCreation_def creation_entries_def definedEntries_def decimalize_def
      checkAllowedTroveCreationKeys_def allowedTroveCreationKeys_def troveCreationParamsFromEntries_def
      fromEntries_def Let_def)

lemma normalizeTroveAdjustment_entries:
  assumes "valid_adjustment p" and "nonzero_adjustment p"
  shows "normalizeTroveAdjustment (adjustment_entries p) = Inr p"
proof -
  obtain a b c d where p: "p = \<lparr>depositCollateral = a, withdrawCollateral = b, borrowHCHF = c, repayHCHF = d\<rparr>"
    by (cases p)
  show ?thesis
    using assms unfolding p
    by (cases a; cases b; cases c; cases d)
      (simp_all add: normalizeTroveAdjustment_def adjustment_entries_def definedEntries_def decimalize_def
        checkAllowedTroveAdjustmentKeys_def allowedTroveAdjustmentKeys_def troveAdjustmentParamsFromEntries_def
        fromEntries_def collateralChangeFrom_def debtChangeFrom_def valid_adjustment_def
        nonzero_adjustment_def adjustment_of_def Let_def)
qed

end
