(* ===== verification/Trove_Transactions.thy ===== *)
theory Trove_Transactions
  imports Trove
begin

text \<open>
  Properties of the transaction-level operations of \<^verbatim>\<open>Trove.ts\<close>: what parameter normalisation
  guarantees, that \<^verbatim>\<open>create\<close> and \<^verbatim>\<open>adjust\<close> undo \<^verbatim>\<open>recreate\<close> and \<^verbatim>\<open>adjustTo\<close>, the
  thresholds on the collateral ratio, and the redistribution of liquidated troves.
\<close>

section \<open>What normalisation guarantees\<close>

lemma fromEntries_value: "fromEntries xs k = Some v \<Longrightarrow> (k, v) \<in> set xs"
  by (auto simp: fromEntries_def dest: map_of_SomeD)

lemma paramsFromEntries_valid:
  assumes "troveAdjustmentParamsFromEntries xs = Inr p"
  shows "valid_adjustment p"
    and "depositCollateral p = fromEntries xs ''depositCollateral''"
    and "withdrawCollateral p = fromEntries xs ''withdrawCollateral''"
    and "borrowHCHF p = fromEntries xs ''borrowHCHF''"
    and "repayHCHF p = fromEntries xs ''repayHCHF''"
  using assms
  by (cases "fromEntries xs ''depositCollateral''"; cases "fromEntries xs ''withdrawCollateral''";
      cases "fromEntries xs ''borrowHCHF''"; cases "fromEntries xs ''repayHCHF''";
      auto simp: troveAdjustmentParamsFromEntries_def collateralChangeFrom_def debtChangeFrom_def
        valid_adjustment_def adjustment_of_def Let_def)+

lemma checkAllowedTroveAdjustmentKeys_ok:
  "checkAllowedTroveAdjustmentKeys xs = Inr u \<Longrightarrow> fst ` set xs \<subseteq> set allowedTroveAdjustmentKeys"
  by (auto simp: checkAllowedTroveAdjustmentKeys_def Let_def filter_empty_conv split: if_splits)

lemma normalizeTroveAdjustment_valid:
  assumes "normalizeTroveAdjustment params = Inr p"
  shows "valid_adjustment p" and "nonzero_adjustment p"
    and "checkAllowedTroveAdjustmentKeys (definedEntries params) = Inr ()"
proof -
  obtain ds where p: "troveAdjustmentParamsFromEntries (filter (\<lambda>(_, v). \<not> Decimal_isZero v) ds) = Inr p"
    using assms by (auto simp: normalizeTroveAdjustment_def Let_def rbind_eq_Inr_iff)
  have "fromEntries (filter (\<lambda>(_, v). \<not> Decimal_isZero v) ds) k \<noteq> Some Decimal_ZERO" for k
    by (auto dest: fromEntries_value)
  then show "valid_adjustment p" and "nonzero_adjustment p"
    using paramsFromEntries_valid [OF p] by (simp_all add: nonzero_adjustment_def)
  show "checkAllowedTroveAdjustmentKeys (definedEntries params) = Inr ()"
    using assms by (auto simp: normalizeTroveAdjustment_def Let_def rbind_eq_Inr_iff)
qed

text \<open>
  The parameters \<^verbatim>\<open>_normalizeTroveAdjustment\<close> returns satisfy the constraints of their type (no
  deposit with a withdrawal, no borrowing with a repayment, at least one of the four) and contain
  no zero amount; an object with an unknown defined property is rejected.
\<close>

theorem normalizeTroveAdjustment_sound:
  assumes "normalizeTroveAdjustment params = Inr p"
  shows "valid_adjustment p \<and> nonzero_adjustment p
     \<and> (\<forall>(k, v) \<in> set params. v \<noteq> None \<longrightarrow> k \<in> set allowedTroveAdjustmentKeys)"
proof -
  have "k \<in> set allowedTroveAdjustmentKeys" if "(k, Some x) \<in> set params" for k x
  proof -
    have "(k, x) \<in> set (definedEntries params)"
      using that by (force simp: definedEntries_def)
    then show ?thesis
      using checkAllowedTroveAdjustmentKeys_ok [OF normalizeTroveAdjustment_valid(3) [OF assms]]
      by (metis fst_conv image_eqI subsetD)
  qed
  then show ?thesis
    using normalizeTroveAdjustment_valid [OF assms] by auto
qed

theorem normalizeTroveAdjustment_sound_witness:
  "valid_adjustment \<lparr>depositCollateral = Some Decimal_ONE, withdrawCollateral = None, borrowHCHF = None, repayHCHF = None\<rparr>
   \<and> nonzero_adjustment \<lparr>depositCollateral = Some Decimal_ONE, withdrawCollateral = None, borrowHCHF = None, repayHCHF = None\<rparr>
   \<and> ''repayHCHF'' \<in> set allowedTroveAdjustmentKeys"
proof -
  have "normalizeTroveAdjustment [(''depositCollateral'', Some (Number ''1'')), (''repayHCHF'', Some (Number ''0''))] =
      Inr \<lparr>depositCollateral = Some Decimal_ONE, withdrawCollateral = None, borrowHCHF = None, repayHCHF = None\<rparr>"
    by (simp add: normalizeTroveAdjustment_def definedEntries_def decimalize_def
      checkAllowedTroveAdjustmentKeys_def allowedTroveAdjustmentKeys_def troveAdjustmentParamsFromEntries_def
      fromEntries_def collateralChangeFrom_def debtChangeFrom_def adjustment_of_def Let_def
      Decimal_ONE_def Decimal_ZERO_def)
  from normalizeTroveAdjustment_sound [OF this] show ?thesis by simp
qed

section \<open>Recreating and adjusting\<close>

lemma creation_branch:
  "(case ch of Some (Creation p) \<Rightarrow> Inr p | _ \<Rightarrow> Inl AssertionError) = Inr params \<Longrightarrow> ch = Some (Creation params)"
  by (cases ch) (auto split: trove_change.split_asm)

lemma adjustment_branch:
  "(case ch of Some (Adjustment p z) \<Rightarrow> Inr p | _ \<Rightarrow> Inl AssertionError) = Inr params
     \<Longrightarrow> \<exists>z. ch = Some (Adjustment params z)"
  by (cases ch) (auto split: trove_change.split_asm)

text \<open>
  \<^verbatim>\<open>Trove.create\<close> undoes \<^verbatim>\<open>Trove.recreate\<close>: opening a trove with the parameters computed for a
  given trove succeeds and produces that trove, up to the rounding slack of the fee on its debt.
\<close>

theorem Trove_create_recreate:
  assumes "Trove_recreate that rate = Inr params"
  shows "\<exists>v. Trove_create (trove_constants that) (creation_entries params) rate = Inr v
     \<and> reaches (rate_or_default that rate) (empty_Trove (trove_constants that)) that v"
proof -
  let ?e = "empty_Trove (trove_constants that)"
  have "Trove_whatChanged ?e that rate = Inr (Some (Creation params))"
    using assms by (auto simp: Trove_recreate_def rbind_eq_Inr_iff dest: creation_branch)
  from apply_whatChanged_reaches [OF _ this] show ?thesis
    by (simp add: Trove_create_def rate_or_default_def cong: option.case_cong)
qed

lemma sample_recreate:
  "Trove_recreate sample_target None =
     Inr \<lparr>create_depositCollateral = Decimal 900000000000, create_borrowHCHF = Decimal 246766169162\<rparr>"
  by (simp add: Trove_recreate_def Trove_whatChanged_def sample_target_def rate_or_default_def
      Trove_netDebt_ok defaults_def unapplyFee_def Decimal_divCeil_def Decimal_add_def decimal_unfold)

theorem Trove_create_recreate_witness:
  "\<exists>v. Trove_create (trove_constants sample_target) (creation_entries
        \<lparr>create_depositCollateral = Decimal 900000000000, create_borrowHCHF = Decimal 246766169162\<rparr>) None = Inr v
     \<and> reaches (rate_or_default sample_target None) (empty_Trove (trove_constants sample_target)) sample_target v"
  by (rule Trove_create_recreate [OF sample_recreate])

lemma apply_without_setToZero:
  assumes "trove_constants t = trove_constants u"
    and "c = None \<and> collateral t = collateral u \<or> (\<exists>x. c = Some x \<and> Trove_collateralChange t u = Inr x)"
    and "d = None \<and> debt t = debt u \<or> (\<exists>x. d = Some x \<and> Trove_debtChange t u rate = Inr x)"
  shows "reaches rate t u (apply_adjustment t (adjustment_of c d) None rate)"
proof -
  let ?p = "adjustment_of c d"
  have "sub_or_zero (Decimal_add (collateral t) (or_zero (depositCollateral ?p))) (or_zero (withdrawCollateral ?p))
      = collateral u"
    using assms(2) collateral_after_change [of t u _ d] by auto
  moreover have "\<exists>x. sub_or_zero (Decimal_add (debt t) (case borrowHCHF ?p of
       Some b \<Rightarrow> applyFee rate b | None \<Rightarrow> Decimal_ZERO)) (or_zero (repayHCHF ?p)) = x
      \<and> debt u \<le> x \<and> bigNumber x \<le> bigNumber (debt u) + fee_slack rate \<and> (debt u \<le> debt t \<longrightarrow> x = debt u)"
    using assms(3) debt_after_change [of t u rate] debt_fields [where d = "debt t" and c = c and rate = rate] by auto
  ultimately show ?thesis
    using assms(1) by (simp add: apply_adjustment_def reaches_def trove_ops Let_def)
qed

lemma difference_ZERO_iff: "a \<noteq> b \<Longrightarrow> Decimal (bigNumber a - bigNumber b) = Decimal_ZERO \<longleftrightarrow> a < b"
  by (auto simp: Decimal_ZERO_def less_decimal_def intro: decimal.expand le_neq_implies_less)

lemma collateralChange_proper:
  assumes "Trove_collateralChange t u = Inr c" and "collateral t \<noteq> collateral u"
  shows "valid_adjustment (adjustment_of (Some c) None) \<and> nonzero_adjustment (adjustment_of (Some c) None)"
  using assms by (cases "collateral t < collateral u")
    (auto simp: Trove_collateralChange_eq valid_adjustment_def nonzero_adjustment_def adjustment_of_def
      difference_ZERO_iff dest: sym)

lemma debtChange_proper:
  assumes "Trove_debtChange t u rate = Inr d" and "debt t \<noteq> debt u"
  shows "valid_adjustment (adjustment_of None (Some d)) \<and> nonzero_adjustment (adjustment_of None (Some d))"
  using assms by (cases "debt t < debt u")
    (auto simp: Trove_debtChange_eq valid_adjustment_def nonzero_adjustment_def adjustment_of_def
      unapplyFee_ZERO_iff difference_ZERO_iff dest: sym)

lemma adjustment_of_valid:
  assumes "Trove_whatChanged t u rate = Inr (Some (Adjustment p z))"
  shows "\<exists>c d. p = adjustment_of c d \<and> valid_adjustment p \<and> nonzero_adjustment p
     \<and> (c = None \<and> collateral t = collateral u \<or> (\<exists>x. c = Some x \<and> Trove_collateralChange t u = Inr x))
     \<and> (d = None \<and> debt t = debt u \<or> (\<exists>x. d = Some x \<and> Trove_debtChange t u (rate_or_default t rate) = Inr x))"
proof -
  obtain c d where c: "Trove_collateralChange t u = Inr c"
    and d: "Trove_debtChange t u (rate_or_default t rate) = Inr d"
    by (simp add: Trove_collateralChange_eq Trove_debtChange_eq)
  note c_ok = collateralChange_proper [OF c] and d_ok = debtChange_proper [OF d]
  consider "p = adjustment_of None (Some d)" "collateral t = collateral u" "debt t \<noteq> debt u"
    | "p = adjustment_of (Some c) None" "collateral t \<noteq> collateral u" "debt t = debt u"
    | "p = adjustment_of (Some c) (Some d)" "collateral t \<noteq> collateral u" "debt t \<noteq> debt u"
    using assms c d by (auto simp: Trove_whatChanged_def Let_def rbind_eq_Inr_iff split: if_splits)
  then show ?thesis
  proof cases
    case 1
    with d d_ok show ?thesis by blast
  next
    case 2
    with c c_ok show ?thesis by blast
  next
    case 3
    with c_ok d_ok have "valid_adjustment p" "nonzero_adjustment p"
      by (auto simp: valid_adjustment_def nonzero_adjustment_def adjustment_of_def
          split: collateral_change.splits debt_change.splits)
    with 3 c d show ?thesis by blast
  qed
qed

text \<open>
  \<^verbatim>\<open>adjust\<close> undoes \<^verbatim>\<open>adjustTo\<close>: the parameters computed to turn one trove into another pass
  normalisation unchanged and produce that other trove, up to the rounding slack of the fee.
\<close>

theorem Trove_adjust_adjustTo:
  assumes "trove_constants t = trove_constants u" and "Trove_adjustTo t u rate = Inr params"
  shows "\<exists>v. Trove_adjust t (adjustment_entries params) rate = Inr v
     \<and> reaches (rate_or_default t rate) t u v"
proof -
  obtain z where "Trove_whatChanged t u rate = Inr (Some (Adjustment params z))"
    using assms(2) by (auto simp: Trove_adjustTo_def rbind_eq_Inr_iff dest: adjustment_branch)
  from adjustment_of_valid [OF this] obtain c d where params: "params = adjustment_of c d"
    and "valid_adjustment params" "nonzero_adjustment params"
    and c: "c = None \<and> collateral t = collateral u \<or> (\<exists>x. c = Some x \<and> Trove_collateralChange t u = Inr x)"
    and d: "d = None \<and> debt t = debt u \<or> (\<exists>x. d = Some x \<and> Trove_debtChange t u (rate_or_default t rate) = Inr x)"
    by blast
  then have "Trove_adjust t (adjustment_entries params) rate
      = Inr (apply_adjustment t params None (rate_or_default t rate))"
    by (simp add: Trove_adjust_def normalizeTroveAdjustment_entries Trove_apply_def)
  with apply_without_setToZero [OF assms(1) c d] params show ?thesis by simp
qed

theorem Trove_adjust_adjustTo_witness:
  "\<exists>v. Trove_adjust sample_trove (adjustment_entries
       (adjustment_of (Some (WithdrawCollateral (Decimal 100000000000))) (Some (BorrowHCHF (Decimal 49751243789))))) None = Inr v
     \<and> reaches (rate_or_default sample_trove None) sample_trove sample_target v"
proof (rule Trove_adjust_adjustTo)
  show "trove_constants sample_trove = trove_constants sample_target"
    by (simp add: sample_trove_def sample_target_def)
  show "Trove_adjustTo sample_trove sample_target None = Inr (adjustment_of
      (Some (WithdrawCollateral (Decimal 100000000000))) (Some (BorrowHCHF (Decimal 49751243789))))"
    by (simp add: Trove_adjustTo_def sample_whatChanged)
qed

section \<open>Collateral ratio\<close>

lemma collateralRatio_mono:
  assumes "price \<le> price'"
  shows "Trove_collateralRatio t price \<le> Trove_collateralRatio t price'"
  using assms by (simp add: Trove_collateralRatio_def Decimal_mulDiv_def less_eq_decimal_def div_le_mono)

lemma collateralRatio_no_debt: "debt t = Decimal_ZERO \<Longrightarrow> Trove_collateralRatio t price = Decimal_INFINITY"
  by (simp add: Trove_collateralRatio_def)

text \<open>
  The thresholds on the collateral ratio: a trove can be opened in recovery mode exactly if it is
  not below the critical ratio, a rising price never makes a trove undercollateralised, and a trove
  without debt is below neither threshold (for thresholds up to \<open>2\<^sup>2\<^sup>5\<^sup>6 - 1\<close> units).
\<close>

theorem collateralRatio_thresholds:
  assumes "price \<le> price'"
  shows "(Trove_isOpenableInRecoveryMode t price \<longleftrightarrow> \<not> Trove_collateralRatioIsBelowCritical t price)
     \<and> (Trove_collateralRatioIsBelowMinimum t price' \<longrightarrow> Trove_collateralRatioIsBelowMinimum t price)
     \<and> (Trove_collateralRatioIsBelowCritical t price' \<longrightarrow> Trove_collateralRatioIsBelowCritical t price)
     \<and> (debt t = Decimal_ZERO \<and> MINIMUM_COLLATERAL_RATIO (trove_constants t) \<le> Decimal_INFINITY
          \<longrightarrow> \<not> Trove_collateralRatioIsBelowMinimum t price)
     \<and> (debt t = Decimal_ZERO \<and> CRITICAL_COLLATERAL_RATIO (trove_constants t) \<le> Decimal_INFINITY
          \<longrightarrow> \<not> Trove_collateralRatioIsBelowCritical t price)"
  using collateralRatio_mono [OF assms, of t]
  by (auto simp: Trove_isOpenableInRecoveryMode_def Trove_collateralRatioIsBelowCritical_def
      Trove_collateralRatioIsBelowMinimum_def collateralRatio_no_debt)

theorem collateralRatio_thresholds_witness:
  "(Trove_isOpenableInRecoveryMode sample_trove Decimal_ONE \<longleftrightarrow> \<not> Trove_collateralRatioIsBelowCritical sample_trove Decimal_ONE)
     \<and> \<not> Trove_collateralRatioIsBelowMinimum (empty_Trove defaults) Decimal_ONE
     \<and> \<not> Trove_collateralRatioIsBelowCritical (empty_Trove defaults) Decimal_ONE"
proof -
  have le: "Decimal_ONE \<le> Decimal 200000000"
    by (simp add: Decimal_ONE_def)
  have "MINIMUM_COLLATERAL_RATIO defaults \<le> Decimal_INFINITY" "CRITICAL_COLLATERAL_RATIO defaults \<le> Decimal_INFINITY"
    by (simp_all add: defaults_def decimal_unfold)
  with collateralRatio_thresholds [OF le, of sample_trove] collateralRatio_thresholds [OF le, of "empty_Trove defaults"]
  show ?thesis by simp
qed

section \<open>Redistribution\<close>

lemma applyRedistribution_simps [simp]:
  "trove_constants (applyRedistribution p tot) = trove_constants p"
  "ownerAddress (applyRedistribution p tot) = ownerAddress p"
  "status (applyRedistribution p tot) = status p"
  "collateral (applyRedistribution p tot) = Decimal_add (collateral p)
     (Decimal_mul (sub_or_zero (collateral tot) (collateral (snapshotOfTotalRedistributed p))) (stake p))"
  "debt (applyRedistribution p tot) = Decimal_add (debt p)
     (Decimal_mul (sub_or_zero (debt tot) (debt (snapshotOfTotalRedistributed p))) (stake p))"
  by (simp_all add: applyRedistribution_def new_UserTrove_def trove_ops Let_def)

lemma sub_or_zero_self [simp]: "sub_or_zero a a = Decimal_ZERO"
  by (simp add: sub_or_zero_def)

lemma sub_or_zero_mono: "a \<le> b \<Longrightarrow> sub_or_zero a c \<le> sub_or_zero b c"
  by (simp add: sub_or_zero_eq less_eq_decimal_def)

text \<open>
  Applying pending redistributions never lowers a trove's collateral or debt, changes neither when
  nothing was redistributed since the snapshot or the trove has no stake, and grows with the totals.
\<close>

theorem applyRedistribution_monotone:
  assumes "collateral tot \<le> collateral tot'" and "debt tot \<le> debt tot'"
  shows "collateral p \<le> collateral (applyRedistribution p tot)
     \<and> debt p \<le> debt (applyRedistribution p tot)
     \<and> collateral (applyRedistribution p tot) \<le> collateral (applyRedistribution p tot')
     \<and> debt (applyRedistribution p tot) \<le> debt (applyRedistribution p tot')
     \<and> (stake p = Decimal_ZERO \<or> Trove_equals tot (snapshotOfTotalRedistributed p) \<longrightarrow>
          collateral (applyRedistribution p tot) = collateral p \<and> debt (applyRedistribution p tot) = debt p)"
  using assms
  by (auto simp: Trove_equals_def intro!: Decimal_add_mono Decimal_mul_mono sub_or_zero_mono)

definition sample_pending :: pending_trove where
  "sample_pending = new_PendingTrove defaults ''0xabc'' Open (Decimal 1000000000000) (Decimal 200000000000)
     (Decimal 1000000000000) (empty_Trove defaults)"

theorem applyRedistribution_monotone_witness:
  "collateral sample_pending \<le> collateral (applyRedistribution sample_pending sample_trove)
     \<and> debt sample_pending \<le> debt (applyRedistribution sample_pending sample_trove)
     \<and> collateral (applyRedistribution sample_pending sample_trove) \<le> collateral (applyRedistribution sample_pending (Trove_add sample_trove sample_trove))
     \<and> debt (applyRedistribution sample_pending sample_trove) \<le> debt (applyRedistribution sample_pending (Trove_add sample_trove sample_trove))"
  using applyRedistribution_monotone [of sample_trove "Trove_add sample_trove sample_trove" sample_pending]
  by (simp add: trove_ops)

end
