(* ===== verification/Redemption.thy ===== *)
theory Redemption
  imports Trove
begin

text \<open>
  The redemption preview of \<^verbatim>\<open>packages/lib-base/src/redemptionDetails.ts\<close>: the loop that
  pays off troves, lowest collateral ratio first, with the HCHF to redeem, and the details computed from
  its totals. The three mutable variables of the function are the fields of \<open>redemption_state\<close>.
\<close>

section \<open>The model\<close>

record redemption_options =
  sortedTroves :: "trove list"
  totalHchf :: decimal
  totalHbar :: decimal
  requestedHchf :: decimal
  redemptionFee :: decimal
  liquidationReserve :: decimal
  price :: decimal

record redemption_state =
  remainingHchf :: decimal
  receivedHbarBeforeFee :: decimal
  redeemedSoFar :: decimal

record redemption_details =
  redeemedHchf :: decimal
  receivedHbar :: decimal
  redemptionFeeInHbar :: decimal
  slippage :: percent

definition redeem_from_trove ::
  "decimal \<Rightarrow> decimal \<Rightarrow> trove \<Rightarrow> redemption_state \<Rightarrow> redemption_state result" where
  "redeem_from_trove reserve price' trove s =
     rbind (Decimal_sub (debt trove) reserve) (\<lambda>usableTroveDebt.
       let usableTroveCollateral = Decimal_div usableTroveDebt price' in
       if Decimal_lte usableTroveDebt (remainingHchf s)
       then rbind (Decimal_sub (remainingHchf s) usableTroveDebt) (\<lambda>remaining.
              Inr \<lparr>remainingHchf = remaining,
                   receivedHbarBeforeFee = Decimal_add (receivedHbarBeforeFee s) usableTroveCollateral,
                   redeemedSoFar = Decimal_add (redeemedSoFar s) usableTroveDebt\<rparr>)
       else (let paidOfDebtInCollateralCurrency = Decimal_div (remainingHchf s) price' in
             Inr \<lparr>remainingHchf = Decimal_ZERO,
                  receivedHbarBeforeFee =
                    Decimal_add (receivedHbarBeforeFee s) paidOfDebtInCollateralCurrency,
                  redeemedSoFar = Decimal_add (redeemedSoFar s) (remainingHchf s)\<rparr>))"

fun redemption_loop ::
  "decimal \<Rightarrow> decimal \<Rightarrow> trove list \<Rightarrow> redemption_state \<Rightarrow> redemption_state result" where
  "redemption_loop reserve price' [] s = Inr s"
| "redemption_loop reserve price' (trove # troves) s =
     (if Decimal_isZero (remainingHchf s) then Inr s
      else rbind (redeem_from_trove reserve price' trove s) (redemption_loop reserve price' troves))"

definition getRedemptionDetails :: "redemption_options \<Rightarrow> redemption_details option result" where
  "getRedemptionDetails options =
     rbind (redemption_loop (liquidationReserve options) (price options) (sortedTroves options)
              \<lparr>remainingHchf = requestedHchf options, receivedHbarBeforeFee = Decimal_ZERO,
               redeemedSoFar = Decimal_ZERO\<rparr>) (\<lambda>s.
     let feeInHbar = Decimal_mul (receivedHbarBeforeFee s) (redemptionFee options) in
     rbind (Decimal_sub (receivedHbarBeforeFee s) feeInHbar) (\<lambda>receivedHbarAfterFee.
     let receivedHbarPerHchf = Decimal_div receivedHbarAfterFee (redeemedSoFar s);
         targetHbarPerHchf = Decimal_div (totalHbar options) (totalHchf options);
         receivedToTargetHbarPerHchfRatio = Decimal_div receivedHbarPerHchf targetHbarPerHchf
     in if Decimal_lt Decimal_ONE receivedToTargetHbarPerHchfRatio then Inr None
        else rbind (Decimal_sub Decimal_ONE receivedToTargetHbarPerHchfRatio) (\<lambda>slip.
          Inr (Some \<lparr>redeemedHchf = redeemedSoFar s, receivedHbar = receivedHbarAfterFee,
                     redemptionFeeInHbar = feeInHbar,
                     slippage = new_Percent (DecimalRatio slip)\<rparr>))))"

section \<open>What the loop accumulates\<close>

text \<open>The debt of a list of troves that can be redeemed, in units of the last digit.\<close>

definition redeemable :: "decimal \<Rightarrow> trove list \<Rightarrow> nat" where
  "redeemable reserve troves = (\<Sum>t\<leftarrow>troves. bigNumber (debt t) - bigNumber reserve)"

lemma redeemable_simps [simp]:
  "redeemable r [] = 0"
  "redeemable r (t # ts) = (bigNumber (debt t) - bigNumber r) + redeemable r ts"
  by (simp_all add: redeemable_def)

text \<open>
  \<open>hbar_for p n x y\<close>: \<open>y\<close> is the collateral for \<open>x\<close> of debt at price \<open>p\<close>, rounded down at most \<open>n\<close> times.
\<close>

definition hbar_for :: "decimal \<Rightarrow> nat \<Rightarrow> nat \<Rightarrow> nat \<Rightarrow> bool" where
  "hbar_for p n x y \<longleftrightarrow>
     y * bigNumber p \<le> x * DIGITS \<and> x * DIGITS \<le> y * bigNumber p + n * bigNumber p"

lemma hbar_for_div:
  assumes "p \<noteq> Decimal_ZERO"
  shows "hbar_for p 1 (bigNumber x) (bigNumber (Decimal_div x p))"
proof -
  have "0 < bigNumber p"
    using assms by (cases p) (simp add: Decimal_ZERO_def)
  from div_floor_bounds [OF this, of "bigNumber x * DIGITS"] assms show ?thesis
    by (simp add: hbar_for_def Decimal_div_def)
qed

lemma hbar_for_add: "hbar_for p m x y \<Longrightarrow> hbar_for p n x' y' \<Longrightarrow> hbar_for p (m + n) (x + x') (y + y')"
  by (simp add: hbar_for_def add_mult_distrib)

lemma hbar_for_zero [simp]: "hbar_for p 0 0 0"
  by (simp add: hbar_for_def)

lemma hbar_for_more: "hbar_for p m x y \<Longrightarrow> m \<le> n \<Longrightarrow> hbar_for p n x y"
  by (auto simp: hbar_for_def intro: order_trans add_left_mono mult_le_mono1)

text \<open>One iteration moves \<open>min remaining usable\<close> from the remaining to the redeemed amount.\<close>

lemma redeem_from_trove_ok:
  assumes "reserve \<le> debt t" and "p \<noteq> Decimal_ZERO"
  obtains s' where "redeem_from_trove reserve p t s = Inr s'"
    and "bigNumber (remainingHchf s') = bigNumber (remainingHchf s) - (bigNumber (debt t) - bigNumber reserve)"
    and "bigNumber (redeemedSoFar s') =
           bigNumber (redeemedSoFar s) + min (bigNumber (remainingHchf s)) (bigNumber (debt t) - bigNumber reserve)"
    and "\<And>n. hbar_for p n (bigNumber (redeemedSoFar s)) (bigNumber (receivedHbarBeforeFee s)) \<Longrightarrow>
           hbar_for p (n + 1) (bigNumber (redeemedSoFar s')) (bigNumber (receivedHbarBeforeFee s'))"
proof -
  define u where "u = Decimal (bigNumber (debt t) - bigNumber reserve)"
  have sub: "Decimal_sub (debt t) reserve = Inr u"
    using assms(1) by (simp add: u_def Decimal_sub_ok)
  show thesis
  proof (cases "u \<le> remainingHchf s")
    case True
    let ?s = "\<lparr>remainingHchf = Decimal (bigNumber (remainingHchf s) - bigNumber u),
      receivedHbarBeforeFee = Decimal_add (receivedHbarBeforeFee s) (Decimal_div u p),
      redeemedSoFar = Decimal_add (redeemedSoFar s) u\<rparr>"
    have "redeem_from_trove reserve p t s = Inr ?s"
      using True sub by (simp add: redeem_from_trove_def Decimal_sub_ok)
    from that [OF this] True hbar_for_add [OF _ hbar_for_div [OF assms(2), of u]] show thesis
      by (simp add: u_def less_eq_decimal_def min_absorb2)
  next
    case False
    let ?s = "\<lparr>remainingHchf = Decimal_ZERO,
      receivedHbarBeforeFee = Decimal_add (receivedHbarBeforeFee s) (Decimal_div (remainingHchf s) p),
      redeemedSoFar = Decimal_add (redeemedSoFar s) (remainingHchf s)\<rparr>"
    have "redeem_from_trove reserve p t s = Inr ?s"
      using False sub by (simp add: redeem_from_trove_def)
    from that [OF this] False hbar_for_add [OF _ hbar_for_div [OF assms(2), of "remainingHchf s"]] show thesis
      by (simp add: u_def less_eq_decimal_def min_absorb1)
  qed
qed

lemma redemption_loop_ok:
  assumes "\<forall>t\<in>set ts. reserve \<le> debt t" and "p \<noteq> Decimal_ZERO"
    and "hbar_for p n (bigNumber (redeemedSoFar s)) (bigNumber (receivedHbarBeforeFee s))"
  shows "\<exists>s'. redemption_loop reserve p ts s = Inr s'
    \<and> bigNumber (remainingHchf s') = bigNumber (remainingHchf s) - redeemable reserve ts
    \<and> bigNumber (redeemedSoFar s') =
        bigNumber (redeemedSoFar s) + min (bigNumber (remainingHchf s)) (redeemable reserve ts)
    \<and> hbar_for p (n + length ts) (bigNumber (redeemedSoFar s')) (bigNumber (receivedHbarBeforeFee s'))"
  using assms(1,3)
proof (induction ts arbitrary: s n)
  case Nil
  then show ?case by simp
next
  case (Cons t ts)
  show ?case
  proof (cases "remainingHchf s = Decimal_ZERO")
    case True
    with Cons.prems(2) show ?thesis by (auto intro: hbar_for_more)
  next
    case False
    have "reserve \<le> debt t" using Cons.prems(1) by simp
    from redeem_from_trove_ok [OF this assms(2), where s = s]
    obtain s1 where s1: "redeem_from_trove reserve p t s = Inr s1"
      "bigNumber (remainingHchf s1) = bigNumber (remainingHchf s) - (bigNumber (debt t) - bigNumber reserve)"
      "bigNumber (redeemedSoFar s1) =
         bigNumber (redeemedSoFar s) + min (bigNumber (remainingHchf s)) (bigNumber (debt t) - bigNumber reserve)"
      "hbar_for p (n + 1) (bigNumber (redeemedSoFar s1)) (bigNumber (receivedHbarBeforeFee s1))"
      using Cons.prems(2) by metis
    from Cons.IH [OF _ s1(4)] Cons.prems(1) False s1(1-3) show ?thesis
      by (auto simp: min_def)
  qed
qed

lemma slippage_range:
  "\<exists>x. new_Percent (DecimalRatio (Decimal (bigNumber Decimal_ONE - n))) = Percent (DecimalRatio x)
     \<and> x \<le> Decimal (100 * DIGITS)"
proof -
  let ?r = "Decimal (bigNumber Decimal_ONE - n)"
  have "?r \<le> Decimal_ONE" "?r \<noteq> Decimal_INFINITY"
    by (auto simp: decimal_unfold)
  then show ?thesis
    using Decimal_mul_mono [OF _ order_refl, of ?r Decimal_ONE "Decimal (100 * DIGITS)"]
    by (simp add: new_Percent_def)
qed

text \<open>A trove reached by the loop with less debt than the reserve makes the subtraction throw.\<close>

lemma redemption_loop_throws:
  assumes "\<forall>t\<in>set xs. reserve \<le> debt t" and "p \<noteq> Decimal_ZERO"
    and "redeemable reserve xs < bigNumber (remainingHchf s)" and "debt t < reserve"
  shows "redemption_loop reserve p (xs @ t # ys) s = Inl (Error ''negatives not supported by Decimal'')"
  using assms(1,3)
proof (induction xs arbitrary: s)
  case Nil
  then show ?case
    using assms(4) by (auto simp: redeem_from_trove_def Decimal_sub_throws)
next
  case (Cons x xs)
  have "reserve \<le> debt x" and nz: "remainingHchf s \<noteq> Decimal_ZERO"
    using Cons.prems by auto
  from redeem_from_trove_ok [OF this(1) assms(2), where s = s]
  obtain s1 where "redeem_from_trove reserve p x s = Inr s1"
    and "bigNumber (remainingHchf s1) = bigNumber (remainingHchf s) - (bigNumber (debt x) - bigNumber reserve)"
    by metis
  with Cons nz show ?case by simp
qed

section \<open>Properties\<close>

text \<open>What a redeemer gets per HCHF, compared with the collateral per HCHF of the whole system.\<close>

definition received_to_average :: "redemption_options \<Rightarrow> redemption_details \<Rightarrow> decimal" where
  "received_to_average options d =
     Decimal_div (Decimal_div (receivedHbar d) (redeemedHchf d)) (Decimal_div (totalHbar options) (totalHchf options))"

lemma getRedemptionDetails_ok:
  assumes "\<forall>t\<in>set (sortedTroves options). liquidationReserve options \<le> debt t"
    and "price options \<noteq> Decimal_ZERO" and "redemptionFee options \<le> Decimal_ONE"
  shows "\<exists>d. getRedemptionDetails options = Inr (if Decimal_ONE < received_to_average options d then None else Some d)
    \<and> bigNumber (redeemedHchf d) =
        min (bigNumber (requestedHchf options)) (redeemable (liquidationReserve options) (sortedTroves options))
    \<and> hbar_for (price options) (length (sortedTroves options)) (bigNumber (redeemedHchf d))
        (bigNumber (receivedHbar d) + bigNumber (redemptionFeeInHbar d))
    \<and> redemptionFeeInHbar d =
        Decimal_mul (Decimal_add (receivedHbar d) (redemptionFeeInHbar d)) (redemptionFee options)
    \<and> slippage d = new_Percent (DecimalRatio (Decimal (DIGITS - bigNumber (received_to_average options d))))
    \<and> (\<exists>x. slippage d = Percent (DecimalRatio x) \<and> x \<le> Decimal (100 * DIGITS))"
proof -
  let ?s = "\<lparr>remainingHchf = requestedHchf options, receivedHbarBeforeFee = Decimal_ZERO,
               redeemedSoFar = Decimal_ZERO\<rparr>"
  from redemption_loop_ok [OF assms(1,2), of 0 ?s]
  obtain s where s: "redemption_loop (liquidationReserve options) (price options) (sortedTroves options) ?s = Inr s"
    "bigNumber (redeemedSoFar s) =
       min (bigNumber (requestedHchf options)) (redeemable (liquidationReserve options) (sortedTroves options))"
    "hbar_for (price options) (length (sortedTroves options)) (bigNumber (redeemedSoFar s))
       (bigNumber (receivedHbarBeforeFee s))"
    by auto
  let ?fee = "Decimal_mul (receivedHbarBeforeFee s) (redemptionFee options)"
  have "?fee \<le> receivedHbarBeforeFee s"
    by (rule Decimal_mul_le) (rule assms(3))
  then obtain a where a: "Decimal_sub (receivedHbarBeforeFee s) ?fee = Inr a"
    by (simp add: Decimal_sub_ok)
  have sum: "Decimal_add a ?fee = receivedHbarBeforeFee s"
    using Decimal_sub_add [OF a] by (simp add: Decimal_add_commute)
  then have sum': "bigNumber a + bigNumber ?fee = bigNumber (receivedHbarBeforeFee s)"
    by (metis bigNumber_ops(1))
  let ?d = "\<lparr>redeemedHchf = redeemedSoFar s, receivedHbar = a, redemptionFeeInHbar = ?fee, slippage = new_Percent (DecimalRatio (Decimal
    (DIGITS - bigNumber (Decimal_div (Decimal_div a (redeemedSoFar s)) (Decimal_div (totalHbar options) (totalHchf options))))))\<rparr>"
  have one: "bigNumber Decimal_ONE = DIGITS" by (simp add: decimal_unfold)
  have "getRedemptionDetails options = Inr (if Decimal_ONE < received_to_average options ?d then None else Some ?d)"
    using s(1) a by (simp add: getRedemptionDetails_def received_to_average_def Let_def Decimal_sub_ok one)
  moreover have "\<exists>x. slippage ?d = Percent (DecimalRatio x) \<and> x \<le> Decimal (100 * DIGITS)"
    using slippage_range one by simp
  ultimately show ?thesis
    using s(2,3) sum sum' by (intro exI [of _ ?d]) (simp add: received_to_average_def)
qed

text \<open>
  C2. For troves that carry at least the liquidation reserve, a nonzero price and a fee of at most 100\%, the
  preview does not throw, and it gives details unless the redeemer gets more per HCHF than the system holds on average. The HCHF redeemed is the smaller of the requested amount
  and the redeemable debt of all troves, the HBAR paid out and the HBAR kept as fee together are worth at most
  the redeemed HCHF and fall short of it by at most one unit of the eighth digit per trove, the fee is that
  share of the sum, and the slippage is what is missing to the average, between 0 and 100\%.
\<close>

theorem getRedemptionDetails_redeems_min:
  assumes "\<forall>t\<in>set (sortedTroves options). liquidationReserve options \<le> debt t"
    and "price options \<noteq> Decimal_ZERO" and "redemptionFee options \<le> Decimal_ONE"
  shows "\<exists>d. getRedemptionDetails options = Inr (if Decimal_ONE < received_to_average options d then None else Some d)
    \<and> bigNumber (redeemedHchf d) =
        min (bigNumber (requestedHchf options)) (redeemable (liquidationReserve options) (sortedTroves options))
    \<and> hbar_for (price options) (length (sortedTroves options)) (bigNumber (redeemedHchf d))
        (bigNumber (receivedHbar d) + bigNumber (redemptionFeeInHbar d))
    \<and> redemptionFeeInHbar d =
        Decimal_mul (Decimal_add (receivedHbar d) (redemptionFeeInHbar d)) (redemptionFee options)
    \<and> slippage d = new_Percent (DecimalRatio (Decimal (DIGITS - bigNumber (received_to_average options d))))
    \<and> (\<exists>x. slippage d = Percent (DecimalRatio x) \<and> x \<le> Decimal (100 * DIGITS))"
  using assms by (rule getRedemptionDetails_ok)

text \<open>Three troves: the first is paid off, the second in part, the third is not reached.\<close>

definition sample_redemption :: redemption_options where
  "sample_redemption =
     \<lparr>sortedTroves = map (\<lambda>d. new_Trove defaults (Decimal (d * 100 * DIGITS)) (Decimal (d * DIGITS))) [300, 500, 250],
      totalHchf = Decimal (900 * DIGITS), totalHbar = Decimal (90000 * DIGITS),
      requestedHchf = Decimal (350 * DIGITS), redemptionFee = Decimal 500000,
      liquidationReserve = Decimal (200 * DIGITS), price = Decimal 5000000\<rparr>"

lemmas sample_redemption_eval = sample_redemption_def getRedemptionDetails_def redeem_from_trove_def
  new_Trove_def decimal_ops decimal_unfold

lemma sample_redemption_gives_details:
  "getRedemptionDetails sample_redemption =
     Inr (Some \<lparr>redeemedHchf = Decimal 35000000000, receivedHbar = Decimal 696500000000,
                redemptionFeeInHbar = Decimal 3500000000,
                slippage = Percent (DecimalRatio (Decimal 8010000000))\<rparr>)"
  by (simp add: sample_redemption_eval new_Percent_def Decimal_lt_def Decimal_lte_def)

theorem getRedemptionDetails_redeems_min_witness:
  "\<exists>d. getRedemptionDetails sample_redemption = Inr (Some d)
    \<and> bigNumber (redeemedHchf d) = min (bigNumber (requestedHchf sample_redemption))
        (redeemable (liquidationReserve sample_redemption) (sortedTroves sample_redemption))
    \<and> hbar_for (price sample_redemption) (length (sortedTroves sample_redemption)) (bigNumber (redeemedHchf d))
        (bigNumber (receivedHbar d) + bigNumber (redemptionFeeInHbar d))"
proof -
  have "\<forall>t\<in>set (sortedTroves sample_redemption). liquidationReserve sample_redemption \<le> debt t"
    and "price sample_redemption \<noteq> Decimal_ZERO" and "redemptionFee sample_redemption \<le> Decimal_ONE"
    by (simp_all add: sample_redemption_def decimal_unfold new_Trove_def)
  from getRedemptionDetails_redeems_min [OF this] sample_redemption_gives_details show ?thesis
    by (auto split: if_splits)
qed

text \<open>
  If the troves before \<open>t\<close> cannot absorb the requested amount and the debt of \<open>t\<close> is below the liquidation
  reserve, the preview throws the error of the decimal constructor instead of skipping the trove.
\<close>

theorem getRedemptionDetails_throws_below_reserve:
  assumes "sortedTroves options = xs @ t # ys"
    and "\<forall>x\<in>set xs. liquidationReserve options \<le> debt x"
    and "redeemable (liquidationReserve options) xs < bigNumber (requestedHchf options)"
    and "debt t < liquidationReserve options" and "price options \<noteq> Decimal_ZERO"
  shows "getRedemptionDetails options = Inl (Error ''negatives not supported by Decimal'')"
  using redemption_loop_throws [OF assms(2,5) _ assms(4)] assms(1,3)
  by (simp add: getRedemptionDetails_def)

definition underfunded_redemption :: redemption_options where
  "underfunded_redemption = sample_redemption
     \<lparr>sortedTroves := [new_Trove defaults (Decimal (1000 * DIGITS)) (Decimal (250 * DIGITS)),
                       new_Trove defaults (Decimal (1000 * DIGITS)) (Decimal (150 * DIGITS))]\<rparr>"

theorem getRedemptionDetails_throws_below_reserve_witness:
  "getRedemptionDetails underfunded_redemption = Inl (Error ''negatives not supported by Decimal'')"
  by (rule getRedemptionDetails_throws_below_reserve
        [of _ "[new_Trove defaults (Decimal (1000 * DIGITS)) (Decimal (250 * DIGITS))]"
            "new_Trove defaults (Decimal (1000 * DIGITS)) (Decimal (150 * DIGITS))" "[]"])
    (simp_all add: underfunded_redemption_def sample_redemption_def decimal_unfold)

end
