(* ===== verification/Fees.thy ===== *)
theory Fees
  imports Constants
begin

text \<open>
  The fee calculator of \<^verbatim>\<open>packages/lib-base/src/Fees.ts\<close>. Dates are milliseconds
  (\<^verbatim>\<open>Date.getTime()\<close>); \<^verbatim>\<open>toLocaleString\<close>, which depends on the user's locale, is an argument of
  the one function that prints a date.
\<close>

record fees =
  baseRateWithoutDecay :: decimal
  minuteDecayFactor :: decimal
  beta :: decimal
  lastFeeOperation :: int
  timeOfLatestBlock :: int
  recoveryMode :: bool
  fees_constants :: constants

definition new_Fees ::
  "decimalish \<Rightarrow> decimalish \<Rightarrow> decimalish \<Rightarrow> int \<Rightarrow> int \<Rightarrow> bool \<Rightarrow> constants \<Rightarrow> fees result" where
  "new_Fees baseRateWithoutDecay' minuteDecayFactor' beta' lastFeeOperation' timeOfLatestBlock'
     recoveryMode' constants' =
     rbind (Decimal_from baseRateWithoutDecay') (\<lambda>base.
     rbind (Decimal_from minuteDecayFactor') (\<lambda>decay.
     rbind (Decimal_from beta') (\<lambda>b.
     rbind (js_assert (Decimal_lt decay Decimal_ONE)) (\<lambda>_.
     Inr \<lparr>baseRateWithoutDecay = base, minuteDecayFactor = decay, beta = b,
          lastFeeOperation = lastFeeOperation', timeOfLatestBlock = timeOfLatestBlock',
          recoveryMode = recoveryMode', fees_constants = constants'\<rparr>))))"

definition Fees_setRecoveryMode :: "fees \<Rightarrow> bool \<Rightarrow> fees result" where
  "Fees_setRecoveryMode this recoveryMode' =
     new_Fees (DecimalObject (baseRateWithoutDecay this)) (DecimalObject (minuteDecayFactor this))
       (DecimalObject (beta this)) (lastFeeOperation this) (timeOfLatestBlock this)
       recoveryMode' (fees_constants this)"

definition Fees_equals :: "fees \<Rightarrow> fees \<Rightarrow> bool" where
  "Fees_equals this that \<longleftrightarrow>
     Decimal_eq (baseRateWithoutDecay this) (baseRateWithoutDecay that) \<and>
     Decimal_eq (minuteDecayFactor this) (minuteDecayFactor that) \<and>
     Decimal_eq (beta this) (beta that) \<and>
     lastFeeOperation this = lastFeeOperation that \<and>
     timeOfLatestBlock this = timeOfLatestBlock that \<and>
     recoveryMode this = recoveryMode that"

definition Fees_toString :: "(int \<Rightarrow> string) \<Rightarrow> fees \<Rightarrow> string result" where
  "Fees_toString toLocaleString this =
     rbind (Decimal_toString (baseRateWithoutDecay this) None) (\<lambda>base.
       Inr (''{ baseRateWithoutDecay: '' @ base
         @ '', lastFeeOperation: \"'' @ toLocaleString (lastFeeOperation this) @ ''\"''
         @ '', recoveryMode: '' @ (if recoveryMode this then ''true'' else ''false'') @ '' } ''))"

definition minutesSinceLastFeeOperation :: "fees \<Rightarrow> int option \<Rightarrow> int" where
  "minutesSinceLastFeeOperation this when' =
     (let when_time = (case when' of Some t \<Rightarrow> t | None \<Rightarrow> timeOfLatestBlock this);
          milliseconds = max (when_time - lastFeeOperation this) 0
      in milliseconds div 60000)"

definition Fees_baseRate :: "fees \<Rightarrow> int option \<Rightarrow> decimal result" where
  "Fees_baseRate this when' =
     rbind (Decimal_pow (minuteDecayFactor this) (minutesSinceLastFeeOperation this when')) (\<lambda>p.
       Inr (Decimal_mul p (baseRateWithoutDecay this)))"

definition Fees_borrowingRate :: "fees \<Rightarrow> int option \<Rightarrow> decimal result" where
  "Fees_borrowingRate this when' =
     (if recoveryMode this then Inr Decimal_ZERO
      else rbind (Fees_baseRate this when') (\<lambda>baseRate.
        Inr (Decimal_min (Decimal_add (MINIMUM_BORROWING_RATE (fees_constants this)) baseRate)
               (MAXIMUM_BORROWING_RATE (fees_constants this)))))"

definition Fees_redemptionRate :: "fees \<Rightarrow> decimalish \<Rightarrow> int option \<Rightarrow> decimal result" where
  "Fees_redemptionRate this redeemedFractionOfSupply when' =
     rbind (Decimal_from redeemedFractionOfSupply) (\<lambda>fraction.
     rbind (Fees_baseRate this when') (\<lambda>baseRate.
       let baseRate' = (if Decimal_nonZero fraction \<noteq> None
                        then Decimal_add (Decimal_div fraction (beta this)) baseRate
                        else baseRate)
       in Inr (Decimal_min (Decimal_add (MINIMUM_REDEMPTION_RATE (fees_constants this)) baseRate')
                 Decimal_ONE)))"

section \<open>Invariant\<close>

definition fees_inv :: "fees \<Rightarrow> bool" where
  "fees_inv f \<longleftrightarrow> minuteDecayFactor f < Decimal_ONE"

lemma new_Fees_inv: "new_Fees a b c t u r k = Inr f \<Longrightarrow> fees_inv f"
  by (auto simp: new_Fees_def rbind_eq_Inr_iff fees_inv_def)

lemma Fees_setRecoveryMode_eq: "fees_inv f \<Longrightarrow> Fees_setRecoveryMode f r = Inr (f\<lparr>recoveryMode := r\<rparr>)"
  by (simp add: Fees_setRecoveryMode_def new_Fees_def fees_inv_def)

lemma Fees_equals_iff: "fees_constants f = fees_constants g \<Longrightarrow> Fees_equals f g \<longleftrightarrow> f = g"
  by (cases f; cases g) (auto simp: Fees_equals_def)

lemma Fees_equals_refl [simp]: "Fees_equals f f"
  by (simp add: Fees_equals_def)

section \<open>Decay of the base rate\<close>

lemma minutes_nonneg [simp]: "0 \<le> minutesSinceLastFeeOperation f w"
  by (simp add: minutesSinceLastFeeOperation_def pos_imp_zdiv_nonneg_iff Let_def)

lemma minutes_clamped:
  "t < lastFeeOperation f + 60000 \<Longrightarrow> minutesSinceLastFeeOperation f (Some t) = 0"
  by (cases "t \<le> lastFeeOperation f") (simp_all add: minutesSinceLastFeeOperation_def max_def)

lemma Fees_baseRate_exists:
  assumes "minutesSinceLastFeeOperation f w \<le> 0xffffffff"
  shows "\<exists>r. Fees_baseRate f w = Inr r"
  using Decimal_pow_in_range [OF minutes_nonneg assms, of "minuteDecayFactor f"]
  by (auto simp: Fees_baseRate_def)

lemma Fees_baseRate_le:
  assumes "Fees_baseRate f w = Inr r" and "fees_inv f"
  shows "r \<le> baseRateWithoutDecay f"
proof -
  obtain p where p: "Decimal_pow (minuteDecayFactor f) (minutesSinceLastFeeOperation f w) = Inr p"
    and r: "r = Decimal_mul p (baseRateWithoutDecay f)"
    using assms(1) by (auto simp: Fees_baseRate_def rbind_eq_Inr_iff)
  have "p \<le> Decimal_ONE"
    using Decimal_pow_le_ONE [OF p] assms(2) by (simp add: fees_inv_def)
  then show ?thesis
    using Decimal_mul_mono [of p Decimal_ONE "baseRateWithoutDecay f" "baseRateWithoutDecay f"] r by simp
qed

text \<open>
  The base rate only decays: it is never above the rate recorded at the last fee operation, and a
  query for a time before that operation (or within its first minute) returns that rate undecayed.
\<close>

theorem Fees_baseRate_decays:
  assumes "fees_inv f" and "Fees_baseRate f (Some t) = Inr r"
  shows "r \<le> baseRateWithoutDecay f
     \<and> (t < lastFeeOperation f + 60000 \<longrightarrow> r = baseRateWithoutDecay f)"
  using assms Fees_baseRate_le [OF assms(2,1)] minutes_clamped [of t f]
  by (auto simp: Fees_baseRate_def Decimal_pow_def)

definition sample_fees :: fees where
  "sample_fees = \<lparr>baseRateWithoutDecay = Decimal 1000000, minuteDecayFactor = Decimal 99903775,
     beta = Decimal 200000000, lastFeeOperation = 0, timeOfLatestBlock = 120000,
     recoveryMode = False, fees_constants = defaults\<rparr>"

lemma sample_fees_inv: "fees_inv sample_fees"
  by (simp add: fees_inv_def sample_fees_def Decimal_ONE_def)

lemma sample_fees_baseRate:
  "Fees_baseRate sample_fees (Some 120000) = Inr (Decimal 998076)"
  by (simp add: Fees_baseRate_def sample_fees_def minutesSinceLastFeeOperation_def Decimal_pow_def
      pow_loop.simps roundedMul_def Decimal_mul_def decimal_unfold)

theorem Fees_baseRate_decays_witness:
  "Decimal 998076 \<le> baseRateWithoutDecay sample_fees
   \<and> Fees_baseRate sample_fees (Some 30000) = Inr (baseRateWithoutDecay sample_fees)"
proof -
  obtain r where r: "Fees_baseRate sample_fees (Some 30000) = Inr r"
    using Fees_baseRate_exists [of sample_fees "Some 30000"]
    by (auto simp: minutesSinceLastFeeOperation_def sample_fees_def)
  with Fees_baseRate_decays [OF sample_fees_inv sample_fees_baseRate]
    Fees_baseRate_decays [OF sample_fees_inv r]
  show ?thesis by (simp add: sample_fees_def)
qed

section \<open>Rates\<close>

text \<open>
  Outside recovery mode the borrowing rate lies between the smaller of the two configured bounds
  and \<^verbatim>\<open>MAXIMUM_BORROWING_RATE\<close>; it is computed whenever fewer than \<open>2\<^sup>3\<^sup>2\<close> minutes have passed
  since the last fee operation. In recovery mode it is zero.
\<close>

theorem Fees_borrowingRate_bounds:
  assumes "minutesSinceLastFeeOperation f w \<le> 0xffffffff"
  shows "\<exists>r. Fees_borrowingRate f w = Inr r
     \<and> (if recoveryMode f then r = Decimal_ZERO
        else min (MINIMUM_BORROWING_RATE (fees_constants f)) (MAXIMUM_BORROWING_RATE (fees_constants f)) \<le> r
           \<and> r \<le> MAXIMUM_BORROWING_RATE (fees_constants f))"
proof (cases "recoveryMode f")
  case True
  then show ?thesis by (simp add: Fees_borrowingRate_def)
next
  case False
  obtain b where "Fees_baseRate f w = Inr b"
    using Fees_baseRate_exists [OF assms] by blast
  moreover have "min m M \<le> min (Decimal_add m b) M" for m M
    by (intro min.mono Decimal_le_add order_refl)
  ultimately show ?thesis
    using False by (simp add: Fees_borrowingRate_def del: min.bounded_iff)
qed

theorem Fees_borrowingRate_bounds_witness:
  "\<exists>r. Fees_borrowingRate sample_fees None = Inr r
     \<and> (if recoveryMode sample_fees then r = Decimal_ZERO
        else min (MINIMUM_BORROWING_RATE (fees_constants sample_fees))
                 (MAXIMUM_BORROWING_RATE (fees_constants sample_fees)) \<le> r
           \<and> r \<le> MAXIMUM_BORROWING_RATE (fees_constants sample_fees))"
  by (rule Fees_borrowingRate_bounds) (simp add: minutesSinceLastFeeOperation_def sample_fees_def)

lemma Fees_redemptionRate_eq:
  assumes "Fees_baseRate f w = Inr b"
  shows "Fees_redemptionRate f (DecimalObject x) w = Inr (min (Decimal_add (MINIMUM_REDEMPTION_RATE (fees_constants f))
     (if x = Decimal_ZERO then b else Decimal_add (Decimal_div x (beta f)) b)) Decimal_ONE)"
  using assms by (simp add: Fees_redemptionRate_def Let_def)

text \<open>
  The redemption rate never exceeds one and never falls below the smaller of one and the minimum
  redemption rate; redeeming a larger fraction of the supply never lowers it.
\<close>

theorem Fees_redemptionRate_monotone:
  assumes "x \<le> y" and "Fees_redemptionRate f (DecimalObject x) w = Inr r"
  shows "\<exists>s. Fees_redemptionRate f (DecimalObject y) w = Inr s \<and> r \<le> s \<and> s \<le> Decimal_ONE
     \<and> min (MINIMUM_REDEMPTION_RATE (fees_constants f)) Decimal_ONE \<le> r"
proof -
  obtain b where b: "Fees_baseRate f w = Inr b"
    using assms(2) by (auto simp: Fees_redemptionRate_def rbind_eq_Inr_iff)
  let ?m = "MINIMUM_REDEMPTION_RATE (fees_constants f)"
  let ?c = "\<lambda>z. if z = Decimal_ZERO then b else Decimal_add (Decimal_div z (beta f)) b"
  have "?c x \<le> ?c y"
  proof (cases "x = Decimal_ZERO")
    case True
    then show ?thesis by simp
  next
    case False
    with assms(1) have "y \<noteq> Decimal_ZERO"
      by (metis Decimal_ZERO_le antisym)
    with False show ?thesis
      by (simp add: Decimal_add_mono Decimal_div_mono assms(1))
  qed
  then have le: "min (Decimal_add ?m (?c x)) Decimal_ONE \<le> min (Decimal_add ?m (?c y)) Decimal_ONE"
    by (intro min.mono Decimal_add_mono order_refl)
  have lower: "min ?m Decimal_ONE \<le> min (Decimal_add ?m (?c x)) Decimal_ONE"
    by (intro min.mono Decimal_le_add order_refl)
  have r: "r = min (Decimal_add ?m (?c x)) Decimal_ONE"
    using assms(2) unfolding Fees_redemptionRate_eq [OF b] by (simp only: sum.inject)
  show ?thesis
    unfolding r Fees_redemptionRate_eq [OF b] using le lower min.cobounded2 by blast
qed

theorem Fees_redemptionRate_monotone_witness:
  "\<exists>s. Fees_redemptionRate sample_fees (DecimalObject (Decimal 2000000)) (Some 120000) = Inr s
     \<and> Decimal 1998076 \<le> s \<and> s \<le> Decimal_ONE
     \<and> min (MINIMUM_REDEMPTION_RATE (fees_constants sample_fees)) Decimal_ONE \<le> Decimal 1998076"
proof (rule Fees_redemptionRate_monotone)
  show "Decimal 1000000 \<le> Decimal 2000000" by simp
  show "Fees_redemptionRate sample_fees (DecimalObject (Decimal 1000000)) (Some 120000) = Inr (Decimal 1998076)"
    unfolding Fees_redemptionRate_eq [OF sample_fees_baseRate]
    by (simp add: sample_fees_def defaults_def Decimal_div_def Decimal_add_def
        decimal_unfold min_def)
qed

end
