(* ===== verification/Deposits.thy ===== *)
theory Deposits
  imports Constants
begin

text \<open>
  The two accounts a user tops up and draws down: the stability deposit of
  \<^verbatim>\<open>packages/lib-base/src/StabilityDeposit.ts\<close> and the HLQT stake of
  \<^verbatim>\<open>packages/lib-base/src/HLQTStake.ts\<close>. Both have the operations \<^verbatim>\<open>whatChanged\<close> (the change that
  leads to a wanted amount) and \<^verbatim>\<open>apply\<close> (the amount after a change) with the same contract; the
  locale \<open>adjustable_amount\<close> states the contract and what it implies, and each class is shown to
  satisfy it.
\<close>

section \<open>Stability deposits\<close>

datatype 'a stability_change = DepositHCHF 'a | WithdrawHCHF 'a bool

record stability_deposit =
  initialHCHF :: decimal
  currentHCHF :: decimal
  sd_collateralGain :: decimal
  hlqtReward :: decimal
  frontendTag :: string

definition new_StabilityDeposit ::
  "decimal \<Rightarrow> decimal \<Rightarrow> decimal \<Rightarrow> decimal \<Rightarrow> string \<Rightarrow> stability_deposit result" where
  "new_StabilityDeposit initial current gain reward tag =
     (if Decimal_gt current initial
      then Inl (Error (''currentHCHF can'' @ [CHR 0x27] @ ''t be greater than initialHCHF''))
      else Inr \<lparr>initialHCHF = initial, currentHCHF = current, sd_collateralGain = gain,
                hlqtReward = reward, frontendTag = tag\<rparr>)"

definition StabilityDeposit_isEmpty :: "stability_deposit \<Rightarrow> bool" where
  "StabilityDeposit_isEmpty this \<longleftrightarrow>
     Decimal_isZero (initialHCHF this) \<and> Decimal_isZero (currentHCHF this) \<and>
     Decimal_isZero (sd_collateralGain this) \<and> Decimal_isZero (hlqtReward this)"

definition StabilityDeposit_toString :: "stability_deposit \<Rightarrow> string" where
  "StabilityDeposit_toString this =
     ''{ initialHCHF: '' @ Decimal_text (initialHCHF this)
     @ '', currentHCHF: '' @ Decimal_text (currentHCHF this)
     @ '', collateralGain: '' @ Decimal_text (sd_collateralGain this)
     @ '', hlqtReward: '' @ Decimal_text (hlqtReward this)
     @ '', frontendTag: \"'' @ frontendTag this @ ''\" }''"

definition StabilityDeposit_equals :: "stability_deposit \<Rightarrow> stability_deposit \<Rightarrow> bool" where
  "StabilityDeposit_equals this that \<longleftrightarrow>
     Decimal_eq (initialHCHF this) (initialHCHF that) \<and>
     Decimal_eq (currentHCHF this) (currentHCHF that) \<and>
     Decimal_eq (sd_collateralGain this) (sd_collateralGain that) \<and>
     Decimal_eq (hlqtReward this) (hlqtReward that) \<and>
     frontendTag this = frontendTag that"

definition StabilityDeposit_whatChanged ::
  "stability_deposit \<Rightarrow> decimalish \<Rightarrow> decimal stability_change option result" where
  "StabilityDeposit_whatChanged this thatHCHF' =
     rbind (Decimal_from thatHCHF') (\<lambda>thatHCHF.
       if Decimal_lt thatHCHF (currentHCHF this)
       then rbind (Decimal_sub (currentHCHF this) thatHCHF) (\<lambda>d.
              Inr (Some (WithdrawHCHF d (Decimal_isZero thatHCHF))))
       else if Decimal_gt thatHCHF (currentHCHF this)
       then rbind (Decimal_sub thatHCHF (currentHCHF this)) (\<lambda>d. Inr (Some (DepositHCHF d)))
       else Inr None)"

definition StabilityDeposit_apply ::
  "stability_deposit \<Rightarrow> decimalish stability_change option \<Rightarrow> decimal result" where
  "StabilityDeposit_apply this change = (case change of
      None \<Rightarrow> Inr (currentHCHF this)
    | Some (WithdrawHCHF withdrawHCHF withdrawAllHCHF) \<Rightarrow>
        (if withdrawAllHCHF then Inr Decimal_ZERO
         else rbind (Decimal_from withdrawHCHF) (\<lambda>w.
           if Decimal_lte (currentHCHF this) w then Inr Decimal_ZERO
           else Decimal_sub (currentHCHF this) w))
    | Some (DepositHCHF depositHCHF) \<Rightarrow>
        rbind (Decimal_from depositHCHF) (\<lambda>d. Inr (Decimal_add (currentHCHF this) d)))"

section \<open>HLQT stakes\<close>

datatype 'a stake_change = StakeHLQT 'a | UnstakeHLQT 'a bool

record hlqt_stake =
  stakedHLQT :: decimal
  hs_collateralGain :: decimal
  hchfGain :: decimal

definition new_HLQTStake :: "decimal \<Rightarrow> decimal \<Rightarrow> decimal \<Rightarrow> hlqt_stake" where
  "new_HLQTStake staked collGain gain =
     \<lparr>stakedHLQT = staked, hs_collateralGain = collGain, hchfGain = gain\<rparr>"

definition empty_HLQTStake :: hlqt_stake where
  "empty_HLQTStake = new_HLQTStake Decimal_ZERO Decimal_ZERO Decimal_ZERO"

definition HLQTStake_isEmpty :: "hlqt_stake \<Rightarrow> bool" where
  "HLQTStake_isEmpty this \<longleftrightarrow>
     Decimal_isZero (stakedHLQT this) \<and> Decimal_isZero (hs_collateralGain this) \<and> Decimal_isZero (hchfGain this)"

definition HLQTStake_toString :: "hlqt_stake \<Rightarrow> string" where
  "HLQTStake_toString this =
     ''{ stakedHLQT: '' @ Decimal_text (stakedHLQT this)
     @ '', collateralGain: '' @ Decimal_text (hs_collateralGain this)
     @ '', hchfGain: '' @ Decimal_text (hchfGain this) @ '' }''"

definition HLQTStake_equals :: "hlqt_stake \<Rightarrow> hlqt_stake \<Rightarrow> bool" where
  "HLQTStake_equals this that \<longleftrightarrow>
     Decimal_eq (stakedHLQT this) (stakedHLQT that) \<and>
     Decimal_eq (hs_collateralGain this) (hs_collateralGain that) \<and>
     Decimal_eq (hchfGain this) (hchfGain that)"

definition HLQTStake_whatChanged :: "hlqt_stake \<Rightarrow> decimalish \<Rightarrow> decimal stake_change option result" where
  "HLQTStake_whatChanged this thatStakedHLQT' =
     rbind (Decimal_from thatStakedHLQT') (\<lambda>thatStakedHLQT.
       if Decimal_lt thatStakedHLQT (stakedHLQT this)
       then rbind (Decimal_sub (stakedHLQT this) thatStakedHLQT) (\<lambda>d.
              Inr (Some (UnstakeHLQT d (Decimal_isZero thatStakedHLQT))))
       else if Decimal_gt thatStakedHLQT (stakedHLQT this)
       then rbind (Decimal_sub thatStakedHLQT (stakedHLQT this)) (\<lambda>d. Inr (Some (StakeHLQT d)))
       else Inr None)"

definition HLQTStake_apply :: "hlqt_stake \<Rightarrow> decimalish stake_change option \<Rightarrow> decimal result" where
  "HLQTStake_apply this change = (case change of
      None \<Rightarrow> Inr (stakedHLQT this)
    | Some (UnstakeHLQT unstakeHLQT unstakeAllHLQT) \<Rightarrow>
        (if unstakeAllHLQT then Inr Decimal_ZERO
         else rbind (Decimal_from unstakeHLQT) (\<lambda>u.
           if Decimal_lte (stakedHLQT this) u then Inr Decimal_ZERO
           else Decimal_sub (stakedHLQT this) u))
    | Some (StakeHLQT stakeHLQT) \<Rightarrow>
        rbind (Decimal_from stakeHLQT) (\<lambda>s. Inr (Decimal_add (stakedHLQT this) s)))"

section \<open>The contract of an adjustable amount\<close>

text \<open>
  \<open>amount\<close> reads the account, \<open>what\<close> computes the change to a wanted amount, \<open>app\<close> the amount after a
  change; \<open>increase\<close> and \<open>decrease\<close> build changes, the flag of \<open>decrease\<close> asking for everything.
\<close>

locale adjustable_amount =
  fixes amount :: "'s \<Rightarrow> decimal"
    and what :: "'s \<Rightarrow> decimalish \<Rightarrow> 'c option result"
    and app :: "'s \<Rightarrow> 'd option \<Rightarrow> decimal result"
    and increase :: "decimal \<Rightarrow> 'c"
    and decrease :: "decimal \<Rightarrow> bool \<Rightarrow> 'c"
    and given :: "'c \<Rightarrow> 'd"
  assumes what_less: "y < amount s \<Longrightarrow>
      what s (DecimalObject y) = Inr (Some (decrease (Decimal (bigNumber (amount s) - bigNumber y)) (y = Decimal_ZERO)))"
    and what_greater: "amount s < y \<Longrightarrow>
      what s (DecimalObject y) = Inr (Some (increase (Decimal (bigNumber y - bigNumber (amount s)))))"
    and what_same: "what s (DecimalObject (amount s)) = Inr None"
    and what_bad: "Decimal_from x = Inl e \<Longrightarrow> what s x = Inl e"
    and what_conv: "Decimal_from x = Inr y \<Longrightarrow> what s x = what s (DecimalObject y)"
    and app_none: "app s None = Inr (amount s)"
    and app_increase: "app s (Some (given (increase d))) = Inr (Decimal_add (amount s) d)"
    and app_decrease: "app s (Some (given (decrease d entire))) =
      (if entire \<or> amount s \<le> d then Inr Decimal_ZERO else Decimal_sub (amount s) d)"
begin

lemma what_None_iff: "Decimal_from x = Inr y \<Longrightarrow> what s x = Inr None \<longleftrightarrow> y = amount s"
  using what_less [of y s] what_greater [of s y] what_same [of s] what_conv [of x y s]
  by (cases "y < amount s"; cases "amount s < y") auto

lemma app_what:
  assumes "Decimal_from x = Inr y"
  shows "\<exists>c. what s x = Inr c \<and> app s (map_option given c) = Inr y"
proof -
  consider "y < amount s" | "amount s < y" | "y = amount s" by force
  then show ?thesis
  proof cases
    case 1
    then have lt: "bigNumber y < bigNumber (amount s)"
      by (simp add: less_decimal_def)
    have "app s (Some (given (decrease (Decimal (bigNumber (amount s) - bigNumber y)) (y = Decimal_ZERO)))) = Inr y"
      using lt by (cases y) (auto simp: app_decrease less_eq_decimal_def Decimal_sub_ok Decimal_ZERO_def)
    with 1 show ?thesis
      using what_less what_conv [OF assms] by simp
  next
    case 2
    then have "Decimal_add (amount s) (Decimal (bigNumber y - bigNumber (amount s))) = y"
      by (cases y) (simp add: Decimal_add_def less_decimal_def)
    with 2 show ?thesis
      using what_greater what_conv [OF assms] by (simp add: app_increase)
  next
    case 3
    then show ?thesis
      using what_same what_conv [OF assms] by (simp add: app_none)
  qed
qed

lemma decrease_total: "\<exists>y. app s (Some (given (decrease d entire))) = Inr y \<and> y \<le> amount s"
  by (auto simp: app_decrease Decimal_sub_ok less_eq_decimal_def)

end

interpretation stability: adjustable_amount currentHCHF StabilityDeposit_whatChanged StabilityDeposit_apply
  DepositHCHF WithdrawHCHF "map_stability_change DecimalObject"
  by unfold_locales
    (auto simp: StabilityDeposit_whatChanged_def StabilityDeposit_apply_def Decimal_sub_ok)

interpretation staking: adjustable_amount stakedHLQT HLQTStake_whatChanged HLQTStake_apply
  StakeHLQT UnstakeHLQT "map_stake_change DecimalObject"
  by unfold_locales (auto simp: HLQTStake_whatChanged_def HLQTStake_apply_def Decimal_sub_ok)

section \<open>Properties of the two accounts\<close>

text \<open>
  For every wanted amount that can be read, a stability deposit computes a change whose application
  yields exactly that amount; there is no change exactly if the amount is the current one.
\<close>

theorem StabilityDeposit_apply_whatChanged:
  assumes "Decimal_from wanted = Inr y"
  shows "\<exists>change. StabilityDeposit_whatChanged sd wanted = Inr change
     \<and> StabilityDeposit_apply sd (map_option (map_stability_change DecimalObject) change) = Inr y
     \<and> (change = None \<longleftrightarrow> y = currentHCHF sd)"
  using stability.app_what [OF assms] stability.what_None_iff [OF assms] by fastforce

theorem StabilityDeposit_apply_whatChanged_witness:
  "\<exists>change. StabilityDeposit_whatChanged \<lparr>initialHCHF = Decimal 7, currentHCHF = Decimal 5, sd_collateralGain = Decimal 0,
        hlqtReward = Decimal 0, frontendTag = ''''\<rparr> (Number ''1'') = Inr change
     \<and> StabilityDeposit_apply \<lparr>initialHCHF = Decimal 7, currentHCHF = Decimal 5, sd_collateralGain = Decimal 0,
        hlqtReward = Decimal 0, frontendTag = ''''\<rparr> (map_option (map_stability_change DecimalObject) change) = Inr Decimal_ONE
     \<and> (change = None \<longleftrightarrow> Decimal_ONE = currentHCHF \<lparr>initialHCHF = Decimal 7, currentHCHF = Decimal 5,
        sd_collateralGain = Decimal 0, hlqtReward = Decimal 0, frontendTag = ''''\<rparr>)"
  by (rule StabilityDeposit_apply_whatChanged) simp

text \<open>
  The same contract for HLQT stakes, together with its safe side: no unstaking, however large the
  amount asked for, throws or leaves more than was staked.
\<close>

theorem HLQTStake_apply_whatChanged:
  assumes "Decimal_from wanted = Inr y"
  shows "(\<exists>change. HLQTStake_whatChanged st wanted = Inr change
       \<and> HLQTStake_apply st (map_option (map_stake_change DecimalObject) change) = Inr y
       \<and> (change = None \<longleftrightarrow> y = stakedHLQT st))
     \<and> (\<exists>z. HLQTStake_apply st (Some (UnstakeHLQT (DecimalObject d) entire)) = Inr z \<and> z \<le> stakedHLQT st)"
  using staking.app_what [OF assms] staking.what_None_iff [OF assms] staking.decrease_total [of st d entire]
  by fastforce

theorem HLQTStake_apply_whatChanged_witness:
  "(\<exists>change. HLQTStake_whatChanged empty_HLQTStake (Number ''0.5'') = Inr change
       \<and> HLQTStake_apply empty_HLQTStake (map_option (map_stake_change DecimalObject) change) = Inr Decimal_HALF
       \<and> (change = None \<longleftrightarrow> Decimal_HALF = stakedHLQT empty_HLQTStake))
     \<and> (\<exists>z. HLQTStake_apply empty_HLQTStake (Some (UnstakeHLQT (DecimalObject Decimal_ONE) False)) = Inr z
          \<and> z \<le> stakedHLQT empty_HLQTStake)"
  by (rule HLQTStake_apply_whatChanged) simp

definition stability_deposit_inv :: "stability_deposit \<Rightarrow> bool" where
  "stability_deposit_inv sd \<longleftrightarrow> currentHCHF sd \<le> initialHCHF sd"

lemma new_StabilityDeposit_ok_iff:
  "(\<exists>sd. new_StabilityDeposit i c g r t = Inr sd \<and> stability_deposit_inv sd) \<longleftrightarrow> c \<le> i"
  by (auto simp: new_StabilityDeposit_def stability_deposit_inv_def)

lemma StabilityDeposit_equals_iff [simp]: "StabilityDeposit_equals a b \<longleftrightarrow> a = b"
  by (cases a; cases b) (auto simp: StabilityDeposit_equals_def)

lemma HLQTStake_equals_iff [simp]: "HLQTStake_equals a b \<longleftrightarrow> a = b"
  by (cases a; cases b) (auto simp: HLQTStake_equals_def)

end
