(* ===== verification/Store.thy ===== *)
theory Store
  imports Trove Fees Deposits "HOL-Library.AList" "HOL-Library.Sublist"
begin

text \<open>
  The data store of \<^verbatim>\<open>packages/lib-base/src/HLiquityStore.ts\<close>: the state read from the ledger, the state
  derived from it, the reducers that keep the previous object when nothing changed, the loading and updating
  of the store, and the listeners it notifies.

  JavaScript compares objects by identity (\<^verbatim>\<open>===\<close>), and the store depends on it: \<^verbatim>\<open>difference\<close> reports a field
  as changed if it holds another object, equal or not. An \<open>object\<close> is therefore an identity with its content;
  the classes stored are immutable, so the content never changes. Numbers, strings and booleans are compared
  by value. The identities of objects a function creates are arguments of it (\<open>ids\<close>), so every statement
  holds for any choice. Console output (\<^verbatim>\<open>_logUpdate\<close>) is not part of the model.
\<close>

section \<open>Objects with identity\<close>

datatype 'a object = Object (identity: nat) (content: 'a)

definition strictEquals :: "'a \<Rightarrow> 'a \<Rightarrow> bool" where
  "strictEquals a b \<longleftrightarrow> a = b"

definition sameObject :: "'a object \<Rightarrow> 'a object \<Rightarrow> bool" where
  "sameObject a b \<longleftrightarrow> identity a = identity b"

definition on_content :: "('a \<Rightarrow> 'a \<Rightarrow> bool) \<Rightarrow> 'a object \<Rightarrow> 'a object \<Rightarrow> bool" where
  "on_content eq a b \<longleftrightarrow> eq (content a) (content b)"

datatype js_value = ObjectReference nat | NumberValue int | StringValue string | BooleanValue bool | UndefinedValue

type_synonym js_object = "(string \<times> js_value) list"

definition reference :: "'a object \<Rightarrow> js_value" where
  "reference x = ObjectReference (identity x)"

section \<open>State\<close>

datatype frontend_status = Unregistered | Registered decimal

definition frontendStatusEquals :: "frontend_status \<Rightarrow> frontend_status \<Rightarrow> bool" where
  "frontendStatusEquals a b = (case a of
      Unregistered \<Rightarrow> (case b of Unregistered \<Rightarrow> True | Registered _ \<Rightarrow> False)
    | Registered x \<Rightarrow> (case b of Unregistered \<Rightarrow> False | Registered y \<Rightarrow> Decimal_eq x y))"

definition showFrontendStatus :: "frontend_status \<Rightarrow> string" where
  "showFrontendStatus x = (case x of
      Unregistered \<Rightarrow> ''{ status: \"unregistered\" }''
    | Registered rate \<Rightarrow> ''{ status: \"registered\", kickbackRate: '' @ Decimal_text rate @ '' }'')"

record base_state =
  frontend :: "frontend_status object"
  ownFrontend :: "frontend_status object"
  numberOfTroves :: int
  accountBalance :: "decimal object"
  hchfBalance :: "decimal object"
  hchfTokenAddress :: string
  hlqtTokenAddress :: string
  hlqtBalance :: "decimal object"
  uniTokenBalance :: "decimal object"
  uniTokenAllowance :: "decimal object"
  remainingLiquidityMiningHLQTReward :: "decimal object"
  liquidityMiningStake :: "decimal object"
  totalStakedUniTokens :: "decimal object"
  liquidityMiningHLQTReward :: "decimal object"
  collateralSurplusBalance :: "decimal object"
  price :: "decimal object"
  hchfInStabilityPool :: "decimal object"
  total :: "trove object"
  totalRedistributed :: "trove object"
  troveBeforeRedistribution :: "pending_trove object"
  stabilityDeposit :: "stability_deposit object"
  remainingStabilityPoolHLQTReward :: "decimal object"
  feesInNormalMode :: "fees object"
  hlqtStake :: "hlqt_stake object"
  totalStakedHLQT :: "decimal object"
  riskiestTroveBeforeRedistribution :: "pending_trove object"
  userHasAssociatedWithHchf :: bool
  userHasAssociatedWithHlqt :: bool
  userHasAssociatedWithLpToken :: bool
  hchfTokenAllowanceOfHchfContract :: "decimal object"
  hlqtTokenAllowanceOfHlqtContract :: "decimal object"

text \<open>\<^verbatim>\<open>Partial<LiquityStoreBaseState>\<close>: a field left out and a field that is \<^verbatim>\<open>undefined\<close> are treated alike.\<close>

record base_state_update =
  new_frontend :: "frontend_status object option"
  new_ownFrontend :: "frontend_status object option"
  new_numberOfTroves :: "int option"
  new_accountBalance :: "decimal object option"
  new_hchfBalance :: "decimal object option"
  new_hchfTokenAddress :: "string option"
  new_hlqtTokenAddress :: "string option"
  new_hlqtBalance :: "decimal object option"
  new_uniTokenBalance :: "decimal object option"
  new_uniTokenAllowance :: "decimal object option"
  new_remainingLiquidityMiningHLQTReward :: "decimal object option"
  new_liquidityMiningStake :: "decimal object option"
  new_totalStakedUniTokens :: "decimal object option"
  new_liquidityMiningHLQTReward :: "decimal object option"
  new_collateralSurplusBalance :: "decimal object option"
  new_price :: "decimal object option"
  new_hchfInStabilityPool :: "decimal object option"
  new_total :: "trove object option"
  new_totalRedistributed :: "trove object option"
  new_troveBeforeRedistribution :: "pending_trove object option"
  new_stabilityDeposit :: "stability_deposit object option"
  new_remainingStabilityPoolHLQTReward :: "decimal object option"
  new_feesInNormalMode :: "fees object option"
  new_hlqtStake :: "hlqt_stake object option"
  new_totalStakedHLQT :: "decimal object option"
  new_riskiestTroveBeforeRedistribution :: "pending_trove object option"
  new_userHasAssociatedWithHchf :: "bool option"
  new_userHasAssociatedWithHlqt :: "bool option"
  new_userHasAssociatedWithLpToken :: "bool option"
  new_hchfTokenAllowanceOfHchfContract :: "decimal object option"
  new_hlqtTokenAllowanceOfHlqtContract :: "decimal object option"

record derived_state =
  trove :: "user_trove object"
  fees :: "fees object"
  borrowingRate :: "decimal object"
  redemptionRate :: "decimal object"
  haveUndercollateralizedTroves :: bool

section \<open>Reducers\<close>

definition updateIfChanged :: "('a \<Rightarrow> 'a \<Rightarrow> bool) \<Rightarrow> 'a \<Rightarrow> 'a option \<Rightarrow> 'a" where
  "updateIfChanged equals prev next' = (case next' of
      Some n \<Rightarrow> (if \<not> equals prev n then n else prev) | None \<Rightarrow> prev)"

definition silentlyUpdateIfChanged :: "('a \<Rightarrow> 'a \<Rightarrow> bool) \<Rightarrow> 'a \<Rightarrow> 'a option \<Rightarrow> 'a" where
  "silentlyUpdateIfChanged equals prev next' = (case next' of
      Some n \<Rightarrow> (if \<not> equals prev n then n else prev) | None \<Rightarrow> prev)"

definition updateFees :: "fees object \<Rightarrow> fees object option \<Rightarrow> fees object" where
  "updateFees prev next' = (case next' of
      Some n \<Rightarrow> (if \<not> Fees_equals (content n) (content prev) then n else prev) | None \<Rightarrow> prev)"

definition reduce :: "base_state \<Rightarrow> base_state_update \<Rightarrow> base_state" where
  "reduce baseState baseStateUpdate = \<lparr>
     frontend = updateIfChanged (on_content frontendStatusEquals)
       (frontend baseState) (new_frontend baseStateUpdate),
     ownFrontend = updateIfChanged (on_content frontendStatusEquals)
       (ownFrontend baseState) (new_ownFrontend baseStateUpdate),
     numberOfTroves = updateIfChanged strictEquals
       (numberOfTroves baseState) (new_numberOfTroves baseStateUpdate),
     accountBalance = updateIfChanged (on_content Decimal_eq)
       (accountBalance baseState) (new_accountBalance baseStateUpdate),
     hchfBalance = updateIfChanged (on_content Decimal_eq)
       (hchfBalance baseState) (new_hchfBalance baseStateUpdate),
     hchfTokenAddress = updateIfChanged strictEquals
       (hchfTokenAddress baseState) (new_hchfTokenAddress baseStateUpdate),
     hlqtTokenAddress = updateIfChanged strictEquals
       (hlqtTokenAddress baseState) (new_hlqtTokenAddress baseStateUpdate),
     hlqtBalance = updateIfChanged (on_content Decimal_eq)
       (hlqtBalance baseState) (new_hlqtBalance baseStateUpdate),
     uniTokenBalance = updateIfChanged (on_content Decimal_eq)
       (uniTokenBalance baseState) (new_uniTokenBalance baseStateUpdate),
     uniTokenAllowance = updateIfChanged (on_content Decimal_eq)
       (uniTokenAllowance baseState) (new_uniTokenAllowance baseStateUpdate),
     remainingLiquidityMiningHLQTReward = silentlyUpdateIfChanged (on_content Decimal_eq)
       (remainingLiquidityMiningHLQTReward baseState) (new_remainingLiquidityMiningHLQTReward baseStateUpdate),
     liquidityMiningStake = updateIfChanged (on_content Decimal_eq)
       (liquidityMiningStake baseState) (new_liquidityMiningStake baseStateUpdate),
     totalStakedUniTokens = updateIfChanged (on_content Decimal_eq)
       (totalStakedUniTokens baseState) (new_totalStakedUniTokens baseStateUpdate),
     liquidityMiningHLQTReward = silentlyUpdateIfChanged (on_content Decimal_eq)
       (liquidityMiningHLQTReward baseState) (new_liquidityMiningHLQTReward baseStateUpdate),
     collateralSurplusBalance = updateIfChanged (on_content Decimal_eq)
       (collateralSurplusBalance baseState) (new_collateralSurplusBalance baseStateUpdate),
     price = updateIfChanged (on_content Decimal_eq)
       (price baseState) (new_price baseStateUpdate),
     hchfInStabilityPool = updateIfChanged (on_content Decimal_eq)
       (hchfInStabilityPool baseState) (new_hchfInStabilityPool baseStateUpdate),
     total = updateIfChanged (on_content Trove_equals)
       (total baseState) (new_total baseStateUpdate),
     totalRedistributed = updateIfChanged (on_content Trove_equals)
       (totalRedistributed baseState) (new_totalRedistributed baseStateUpdate),
     troveBeforeRedistribution = updateIfChanged (on_content PendingTrove_equals)
       (troveBeforeRedistribution baseState) (new_troveBeforeRedistribution baseStateUpdate),
     stabilityDeposit = updateIfChanged (on_content StabilityDeposit_equals)
       (stabilityDeposit baseState) (new_stabilityDeposit baseStateUpdate),
     remainingStabilityPoolHLQTReward = silentlyUpdateIfChanged (on_content Decimal_eq)
       (remainingStabilityPoolHLQTReward baseState) (new_remainingStabilityPoolHLQTReward baseStateUpdate),
     feesInNormalMode = silentlyUpdateIfChanged (on_content Fees_equals)
       (feesInNormalMode baseState) (new_feesInNormalMode baseStateUpdate),
     hlqtStake = updateIfChanged (on_content HLQTStake_equals)
       (hlqtStake baseState) (new_hlqtStake baseStateUpdate),
     totalStakedHLQT = updateIfChanged (on_content Decimal_eq)
       (totalStakedHLQT baseState) (new_totalStakedHLQT baseStateUpdate),
     riskiestTroveBeforeRedistribution = silentlyUpdateIfChanged (on_content PendingTrove_equals)
       (riskiestTroveBeforeRedistribution baseState) (new_riskiestTroveBeforeRedistribution baseStateUpdate),
     userHasAssociatedWithHchf = updateIfChanged strictEquals
       (userHasAssociatedWithHchf baseState) (new_userHasAssociatedWithHchf baseStateUpdate),
     userHasAssociatedWithHlqt = updateIfChanged strictEquals
       (userHasAssociatedWithHlqt baseState) (new_userHasAssociatedWithHlqt baseStateUpdate),
     userHasAssociatedWithLpToken = updateIfChanged strictEquals
       (userHasAssociatedWithLpToken baseState) (new_userHasAssociatedWithLpToken baseStateUpdate),
     hchfTokenAllowanceOfHchfContract = updateIfChanged sameObject
       (hchfTokenAllowanceOfHchfContract baseState) (new_hchfTokenAllowanceOfHchfContract baseStateUpdate),
     hlqtTokenAllowanceOfHlqtContract = updateIfChanged sameObject
       (hlqtTokenAllowanceOfHlqtContract baseState) (new_hlqtTokenAllowanceOfHlqtContract baseStateUpdate)\<rparr>"

definition derive :: "(string \<Rightarrow> nat) \<Rightarrow> base_state \<Rightarrow> derived_state result" where
  "derive ids b =
     rbind (Fees_setRecoveryMode (content (feesInNormalMode b))
              (Trove_collateralRatioIsBelowCritical (content (total b)) (content (price b)))) (\<lambda>fees'.
     rbind (Fees_borrowingRate fees' None) (\<lambda>borrowingRate'.
     rbind (Fees_redemptionRate fees' (DecimalObject Decimal_ZERO) None) (\<lambda>redemptionRate'.
     Inr \<lparr>trove = Object (ids ''trove'')
            (applyRedistribution (content (troveBeforeRedistribution b)) (content (totalRedistributed b))),
          fees = Object (ids ''fees'') fees',
          borrowingRate = Object (ids ''borrowingRate'') borrowingRate',
          redemptionRate = Object (ids ''redemptionRate'') redemptionRate',
          haveUndercollateralizedTroves = Trove_collateralRatioIsBelowMinimum
            (applyRedistribution (content (riskiestTroveBeforeRedistribution b)) (content (totalRedistributed b)))
            (content (price b))\<rparr>)))"

definition reduceDerived :: "derived_state \<Rightarrow> derived_state \<Rightarrow> derived_state" where
  "reduceDerived derivedState derivedStateUpdate = \<lparr>
     trove = updateIfChanged (on_content UserTrove_equals) (trove derivedState) (Some (trove derivedStateUpdate)),
     fees = updateFees (fees derivedState) (Some (fees derivedStateUpdate)),
     borrowingRate = silentlyUpdateIfChanged (on_content Decimal_eq)
       (borrowingRate derivedState) (Some (borrowingRate derivedStateUpdate)),
     redemptionRate = silentlyUpdateIfChanged (on_content Decimal_eq)
       (redemptionRate derivedState) (Some (redemptionRate derivedStateUpdate)),
     haveUndercollateralizedTroves = updateIfChanged strictEquals
       (haveUndercollateralizedTroves derivedState) (Some (haveUndercollateralizedTroves derivedStateUpdate))\<rparr>"

section \<open>The state object\<close>

definition default_Fees :: "constants \<Rightarrow> fees" where
  "default_Fees constants' = \<lparr>baseRateWithoutDecay = Decimal_ZERO, minuteDecayFactor = Decimal_ZERO,
     beta = Decimal_ZERO, lastFeeOperation = 0, timeOfLatestBlock = 0, recoveryMode = False,
     fees_constants = constants'\<rparr>"

definition empty_StabilityDeposit :: stability_deposit where
  "empty_StabilityDeposit = \<lparr>initialHCHF = Decimal_ZERO, currentHCHF = Decimal_ZERO,
     sd_collateralGain = Decimal_ZERO, hlqtReward = Decimal_ZERO, frontendTag = ''''\<rparr>"

definition default_base_state :: "(string \<Rightarrow> nat) \<Rightarrow> constants \<Rightarrow> base_state" where
  "default_base_state ids constants' = \<lparr>
     frontend = Object (ids ''frontend'') (Registered Decimal_ZERO),
     ownFrontend = Object (ids ''ownFrontend'') (Registered Decimal_ZERO),
     numberOfTroves = 0,
     accountBalance = Object (ids ''accountBalance'') Decimal_ZERO,
     hchfBalance = Object (ids ''hchfBalance'') Decimal_ZERO,
     hchfTokenAddress = '''',
     hlqtTokenAddress = '''',
     hlqtBalance = Object (ids ''hlqtBalance'') Decimal_ZERO,
     uniTokenBalance = Object (ids ''uniTokenBalance'') Decimal_ZERO,
     uniTokenAllowance = Object (ids ''uniTokenAllowance'') Decimal_ZERO,
     remainingLiquidityMiningHLQTReward = Object (ids ''remainingLiquidityMiningHLQTReward'') Decimal_ZERO,
     liquidityMiningStake = Object (ids ''liquidityMiningStake'') Decimal_ZERO,
     totalStakedUniTokens = Object (ids ''totalStakedUniTokens'') Decimal_ZERO,
     liquidityMiningHLQTReward = Object (ids ''liquidityMiningHLQTReward'') Decimal_ZERO,
     collateralSurplusBalance = Object (ids ''collateralSurplusBalance'') Decimal_ZERO,
     price = Object (ids ''price'') Decimal_ZERO,
     hchfInStabilityPool = Object (ids ''hchfInStabilityPool'') Decimal_ZERO,
     total = Object (ids ''total'') (empty_Trove constants'),
     totalRedistributed = Object (ids ''totalRedistributed'') (empty_Trove constants'),
     troveBeforeRedistribution = Object (ids ''troveBeforeRedistribution'') (empty_PendingTrove constants' '''' NonExistent),
     stabilityDeposit = Object (ids ''stabilityDeposit'') empty_StabilityDeposit,
     remainingStabilityPoolHLQTReward = Object (ids ''remainingStabilityPoolHLQTReward'') Decimal_ZERO,
     feesInNormalMode = Object (ids ''_feesInNormalMode'') (default_Fees constants'),
     hlqtStake = Object (ids ''hlqtStake'') empty_HLQTStake,
     totalStakedHLQT = Object (ids ''totalStakedHLQT'') Decimal_ZERO,
     riskiestTroveBeforeRedistribution = Object (ids ''_riskiestTroveBeforeRedistribution'') (empty_PendingTrove constants' '''' NonExistent),
     userHasAssociatedWithHchf = False,
     userHasAssociatedWithHlqt = False,
     userHasAssociatedWithLpToken = False,
     hchfTokenAllowanceOfHchfContract = Object (ids ''hchfTokenAllowanceOfHchfContract'') Decimal_ZERO,
     hlqtTokenAllowanceOfHlqtContract = Object (ids ''hlqtTokenAllowanceOfHlqtContract'') Decimal_ZERO\<rparr>"

definition default_derived_state :: "(string \<Rightarrow> nat) \<Rightarrow> constants \<Rightarrow> derived_state" where
  "default_derived_state ids constants' = \<lparr>
     trove = Object (ids ''trove'') (new_UserTrove constants' '''' NonExistent Decimal_ZERO Decimal_ZERO),
     fees = Object (ids ''fees'') (default_Fees constants'),
     borrowingRate = Object (ids ''borrowingRate'') Decimal_ZERO,
     redemptionRate = Object (ids ''redemptionRate'') Decimal_ZERO,
     haveUndercollateralizedTroves = False\<rparr>"

definition base_entries :: "base_state \<Rightarrow> js_object" where
  "base_entries b = [
     (''frontend'', reference (frontend b)),
     (''ownFrontend'', reference (ownFrontend b)),
     (''numberOfTroves'', NumberValue (numberOfTroves b)),
     (''accountBalance'', reference (accountBalance b)),
     (''hchfBalance'', reference (hchfBalance b)),
     (''hchfTokenAddress'', StringValue (hchfTokenAddress b)),
     (''hlqtTokenAddress'', StringValue (hlqtTokenAddress b)),
     (''hlqtBalance'', reference (hlqtBalance b)),
     (''uniTokenBalance'', reference (uniTokenBalance b)),
     (''uniTokenAllowance'', reference (uniTokenAllowance b)),
     (''remainingLiquidityMiningHLQTReward'', reference (remainingLiquidityMiningHLQTReward b)),
     (''liquidityMiningStake'', reference (liquidityMiningStake b)),
     (''totalStakedUniTokens'', reference (totalStakedUniTokens b)),
     (''liquidityMiningHLQTReward'', reference (liquidityMiningHLQTReward b)),
     (''collateralSurplusBalance'', reference (collateralSurplusBalance b)),
     (''price'', reference (price b)),
     (''hchfInStabilityPool'', reference (hchfInStabilityPool b)),
     (''total'', reference (total b)),
     (''totalRedistributed'', reference (totalRedistributed b)),
     (''troveBeforeRedistribution'', reference (troveBeforeRedistribution b)),
     (''stabilityDeposit'', reference (stabilityDeposit b)),
     (''remainingStabilityPoolHLQTReward'', reference (remainingStabilityPoolHLQTReward b)),
     (''_feesInNormalMode'', reference (feesInNormalMode b)),
     (''hlqtStake'', reference (hlqtStake b)),
     (''totalStakedHLQT'', reference (totalStakedHLQT b)),
     (''_riskiestTroveBeforeRedistribution'', reference (riskiestTroveBeforeRedistribution b)),
     (''userHasAssociatedWithHchf'', BooleanValue (userHasAssociatedWithHchf b)),
     (''userHasAssociatedWithHlqt'', BooleanValue (userHasAssociatedWithHlqt b)),
     (''userHasAssociatedWithLpToken'', BooleanValue (userHasAssociatedWithLpToken b)),
     (''hchfTokenAllowanceOfHchfContract'', reference (hchfTokenAllowanceOfHchfContract b)),
     (''hlqtTokenAllowanceOfHlqtContract'', reference (hlqtTokenAllowanceOfHlqtContract b))]"

definition derived_entries :: "derived_state \<Rightarrow> js_object" where
  "derived_entries d = [
     (''trove'', reference (trove d)),
     (''fees'', reference (fees d)),
     (''borrowingRate'', reference (borrowingRate d)),
     (''redemptionRate'', reference (redemptionRate d)),
     (''haveUndercollateralizedTroves'', BooleanValue (haveUndercollateralizedTroves d))]"

definition object_assign :: "js_object \<Rightarrow> js_object \<Rightarrow> js_object" where
  "object_assign target source = fold (\<lambda>(k, v). AList.update k v) source target"

text \<open>\<^verbatim>\<open>difference(a, b)\<close>: the entries of \<open>a\<close> whose value is not the one \<open>b\<close> has under that key.\<close>

definition state_difference :: "js_object \<Rightarrow> js_object \<Rightarrow> js_object" where
  "state_difference a b = filter (\<lambda>(key, value). map_of b key \<noteq> Some value) a"

section \<open>The store\<close>

text \<open>
  A subclass adds state of a type \<open>'e\<close>, which it reduces with an update of a type \<open>'u\<close>; its entries are
  the properties \<^verbatim>\<open>Object.assign\<close> copies. A listener is the function object \<^verbatim>\<open>subscribe\<close> wraps it into,
  known by its identity; \<^verbatim>\<open>_listeners\<close>, a \<^verbatim>\<open>Set\<close>, is the list of its elements in insertion order. What a
  listener does when it is called is an argument of the model: the subscriptions it adds and removes, in order,
  and the error it throws, if any. The public interface offers nothing else that changes the store
  synchronously.
\<close>

record listener_params =
  newState :: js_object
  oldState :: js_object
  stateChange :: js_object

datatype listener_action = Add nat | Delete nat

type_synonym callback = "listener_params \<Rightarrow> listener_action list \<times> js_error option"

record ('e, 'u) store_subclass =
  reduceExtra :: "'e \<Rightarrow> 'u \<Rightarrow> 'e"
  extra_entries :: "'e \<Rightarrow> js_object"

record 'e store =
  loaded :: bool
  baseState :: "base_state option"
  derivedState :: "derived_state option"
  extraState :: "'e option"
  updateTimeoutId :: "nat option"
  listeners :: "nat list"
  store_constants :: constants

definition new_Store :: "constants \<Rightarrow> 'e store" where
  "new_Store constants' = \<lparr>loaded = False, baseState = None, derivedState = None, extraState = None,
     updateTimeoutId = None, listeners = [], store_constants = constants'\<rparr>"

definition store_state :: "('e, 'u) store_subclass \<Rightarrow> (string \<Rightarrow> nat) \<Rightarrow> 'e store \<Rightarrow> js_object" where
  "store_state c ids s =
     (let defaultState = base_entries (default_base_state ids (store_constants s))
                       @ derived_entries (default_derived_state ids (store_constants s))
      in object_assign (object_assign (object_assign defaultState
           (case baseState s of Some b \<Rightarrow> base_entries b | None \<Rightarrow> []))
           (case derivedState s of Some d \<Rightarrow> derived_entries d | None \<Rightarrow> []))
           (case extraState s of Some e \<Rightarrow> extra_entries c e | None \<Rightarrow> []))"

definition apply_action :: "listener_action \<Rightarrow> nat list \<Rightarrow> nat list" where
  "apply_action a ls = (case a of
      Add l \<Rightarrow> (if l \<in> set ls then ls else ls @ [l]) | Delete l \<Rightarrow> filter (\<lambda>x. x \<noteq> l) ls)"

text \<open>
  \<^verbatim>\<open>_notify\<close>: \<open>snapshot\<close> is what is left of the copy of \<^verbatim>\<open>_listeners\<close>, \<open>ls\<close> the set itself. The result is the
  set afterwards, the listeners called, in order, and the error that ended the iteration.
\<close>

fun notify_loop :: "(nat \<Rightarrow> callback) \<Rightarrow> listener_params \<Rightarrow> nat list \<Rightarrow> nat list
    \<Rightarrow> nat list \<times> nat list \<times> js_error option" where
  "notify_loop call params [] ls = (ls, [], None)"
| "notify_loop call params (l # snapshot) ls =
     (if l \<in> set ls
      then (let (actions, err) = call l params; ls' = fold apply_action actions ls in
            case err of
              Some e \<Rightarrow> (ls', [l], Some e)
            | None \<Rightarrow> (let (ls'', called, err') = notify_loop call params snapshot ls'
                       in (ls'', l # called, err')))
      else notify_loop call params snapshot ls)"

definition notify_listeners :: "(nat \<Rightarrow> callback) \<Rightarrow> listener_params \<Rightarrow> nat list
    \<Rightarrow> nat list \<times> nat list \<times> js_error option" where
  "notify_listeners call params ls = notify_loop call params ls ls"

definition subscribe :: "('e, 'u) store_subclass \<Rightarrow> (string \<Rightarrow> nat) \<Rightarrow> (nat \<Rightarrow> callback) \<Rightarrow> nat \<Rightarrow> 'e store
    \<Rightarrow> 'e store \<times> js_error option" where
  "subscribe c ids call uniqueListener s =
     (let s' = s\<lparr>listeners := apply_action (Add uniqueListener) (listeners s)\<rparr>;
          currentState = store_state c ids s';
          (actions, err) = call uniqueListener
            \<lparr>newState = currentState, oldState = currentState, stateChange = []\<rparr>
      in (s'\<lparr>listeners := fold apply_action actions (listeners s')\<rparr>, err))"

definition unsubscribe :: "nat \<Rightarrow> 'e store \<Rightarrow> 'e store" where
  "unsubscribe uniqueListener s = s\<lparr>listeners := apply_action (Delete uniqueListener) (listeners s)\<rparr>"

text \<open>
  An operation that throws keeps the assignments made before the error, so \<^verbatim>\<open>_update\<close> and \<^verbatim>\<open>_load\<close> return the
  store together with a \<open>result\<close>: the parameters the listeners were given and the listeners called.
\<close>

definition store_update :: "('e, 'u) store_subclass \<Rightarrow> (string \<Rightarrow> nat) \<Rightarrow> (nat \<Rightarrow> callback) \<Rightarrow>
    base_state_update option \<Rightarrow> 'u option \<Rightarrow> 'e store \<Rightarrow> 'e store \<times> (listener_params \<times> nat list) result" where
  "store_update c ids call baseStateUpdate extraStateUpdate s =
     (case (baseState s, derivedState s) of
        (Some base, Some derived) \<Rightarrow>
          (let oldState' = store_state c ids s;
               base' = (case baseStateUpdate of Some u \<Rightarrow> reduce base u | None \<Rightarrow> base);
               s1 = s\<lparr>baseState := Some base'\<rparr>
           in case derive ids base' of
                Inl e \<Rightarrow> (s1, Inl e)
              | Inr d \<Rightarrow>
                  (let s2 = s1\<lparr>derivedState := Some (reduceDerived derived d)\<rparr> in
                   if extraStateUpdate \<noteq> None \<and> extraState s2 = None then (s2, Inl AssertionError)
                   else (let s3 = s2\<lparr>extraState := (case (extraState s2, extraStateUpdate) of
                                 (Some e, Some u) \<Rightarrow> Some (reduceExtra c e u) | (x, _) \<Rightarrow> x)\<rparr>;
                             params = \<lparr>newState = store_state c ids s3, oldState = oldState',
                               stateChange = state_difference (store_state c ids s3) oldState'\<rparr>;
                             (ls, called, err) = notify_listeners call params (listeners s3);
                             s4 = s3\<lparr>listeners := ls\<rparr>
                         in case err of Some e \<Rightarrow> (s4, Inl e) | None \<Rightarrow> (s4, Inr (params, called)))))
      | _ \<Rightarrow> (s, Inl AssertionError))"

text \<open>\<open>onLoaded\<close> is the callback of that name, with the effects a listener can have.\<close>

definition load :: "('e, 'u) store_subclass \<Rightarrow> (string \<Rightarrow> nat) \<Rightarrow> (nat \<Rightarrow> callback) \<Rightarrow>
    (listener_action list \<times> js_error option) option \<Rightarrow> base_state \<Rightarrow> 'e option \<Rightarrow> 'e store
    \<Rightarrow> 'e store \<times> (listener_params \<times> nat list) result" where
  "load c ids call onLoaded base extra s =
     (if loaded s then (s, Inl AssertionError)
      else (let s1 = s\<lparr>baseState := Some base\<rparr> in
            case derive ids base of
              Inl e \<Rightarrow> (s1, Inl e)
            | Inr d \<Rightarrow>
                (let s2 = s1\<lparr>derivedState := Some d, extraState := extra, loaded := True\<rparr>;
                     (actions, err) = (case onLoaded of Some r \<Rightarrow> r | None \<Rightarrow> ([], None));
                     s3 = s2\<lparr>listeners := fold apply_action actions (listeners s2)\<rparr>
                 in case err of Some e \<Rightarrow> (s3, Inl e) | None \<Rightarrow> store_update c ids call None None s3)))"

text \<open>
  \<^verbatim>\<open>start\<close> runs the subclass's \<^verbatim>\<open>_doStart\<close> and returns a function that stops it; the model of that function is
  the list of timers it clears.
\<close>

definition cancelUpdateIfScheduled :: "'e store \<Rightarrow> nat list" where
  "cancelUpdateIfScheduled s = (case updateTimeoutId s of Some t \<Rightarrow> [t] | None \<Rightarrow> [])"

section \<open>Detection of changes\<close>

text \<open>
  What the reducers rely on: the comparison given for a field is an equivalence. \<open>equal_content\<close> is the same
  contract for the content of object fields, and gives the first for the objects.
\<close>

locale change_detection =
  fixes same :: "'a \<Rightarrow> 'a \<Rightarrow> bool"
  assumes same_refl: "same x x"
    and same_sym: "same x y \<Longrightarrow> same y x"
    and same_trans: "same x y \<Longrightarrow> same y z \<Longrightarrow> same x z"
begin

lemma updated_same: "same (updateIfChanged same prev next') (case_option prev id next')"
  by (cases next') (auto simp: updateIfChanged_def same_refl)

lemma updated_keeps: "same prev (case_option prev id next') \<Longrightarrow> updateIfChanged same prev next' = prev"
  by (cases next') (auto simp: updateIfChanged_def)

lemma updated_changes: "\<not> same prev n \<Longrightarrow> updateIfChanged same prev (Some n) = n"
  by (simp add: updateIfChanged_def)

lemma updated_Some: "same (updateIfChanged same prev (Some n)) n"
  using updated_same [of prev "Some n"] by simp

lemma same_iff: "same x y \<Longrightarrow> same x z \<longleftrightarrow> same y z"
  by (blast intro: same_sym same_trans)

end

locale equal_content =
  fixes equals :: "'a \<Rightarrow> 'a \<Rightarrow> bool"
  assumes equals_refl: "equals x x"
    and equals_sym: "equals x y \<Longrightarrow> equals y x"
    and equals_trans: "equals x y \<Longrightarrow> equals y z \<Longrightarrow> equals x z"

sublocale equal_content \<subseteq> change_detection "on_content equals"
  by unfold_locales (auto simp: on_content_def intro: equals_refl equals_sym equals_trans)

interpretation decimal_field: equal_content Decimal_eq
  by unfold_locales auto

interpretation trove_field: equal_content "Trove_equals :: trove \<Rightarrow> trove \<Rightarrow> bool"
  by unfold_locales (auto simp: Trove_equals_def)

interpretation user_trove_field: equal_content "UserTrove_equals :: user_trove \<Rightarrow> user_trove \<Rightarrow> bool"
  by unfold_locales (auto simp: UserTrove_equals_def Trove_equals_def)

interpretation pending_trove_field: equal_content PendingTrove_equals
  by unfold_locales (auto simp: PendingTrove_equals_def UserTrove_equals_def Trove_equals_def)

interpretation fees_field: equal_content Fees_equals
  by unfold_locales (auto simp: Fees_equals_def)

interpretation deposit_field: equal_content StabilityDeposit_equals
  by unfold_locales auto

interpretation stake_field: equal_content HLQTStake_equals
  by unfold_locales auto

lemma frontendStatusEquals_iff [simp]: "frontendStatusEquals a b \<longleftrightarrow> a = b"
  by (cases a; cases b) (auto simp: frontendStatusEquals_def)

interpretation frontend_field: equal_content frontendStatusEquals
  by unfold_locales auto

interpretation primitive_field: change_detection strictEquals
  by unfold_locales (auto simp: strictEquals_def)

interpretation reference_field: change_detection sameObject
  by unfold_locales (auto simp: sameObject_def)

lemma silentlyUpdateIfChanged_eq [simp]: "silentlyUpdateIfChanged = updateIfChanged"
  by (intro ext) (simp add: silentlyUpdateIfChanged_def updateIfChanged_def)

lemma updateFees_eq: "updateFees prev next' = updateIfChanged (on_content Fees_equals) prev next'"
  using fees_field.equals_sym
  by (auto simp: updateFees_def updateIfChanged_def on_content_def split: option.split)

lemmas updated_same = decimal_field.updated_same trove_field.updated_same pending_trove_field.updated_same
  fees_field.updated_same deposit_field.updated_same stake_field.updated_same frontend_field.updated_same
  reference_field.updated_same primitive_field.updated_same

lemmas updated_keeps = decimal_field.updated_keeps trove_field.updated_keeps pending_trove_field.updated_keeps
  fees_field.updated_keeps deposit_field.updated_keeps stake_field.updated_keeps frontend_field.updated_keeps
  reference_field.updated_keeps primitive_field.updated_keeps

section \<open>Reducing a partial update\<close>

text \<open>
  The specification of \<^verbatim>\<open>_reduce\<close>: \<open>overlay\<close> takes every field the update has, and \<open>state_equal\<close> compares two
  states with the comparison each field is given.
\<close>

definition overlay :: "base_state \<Rightarrow> base_state_update \<Rightarrow> base_state" where
  "overlay b u = \<lparr>
     frontend = case_option (frontend b) id (new_frontend u),
     ownFrontend = case_option (ownFrontend b) id (new_ownFrontend u),
     numberOfTroves = case_option (numberOfTroves b) id (new_numberOfTroves u),
     accountBalance = case_option (accountBalance b) id (new_accountBalance u),
     hchfBalance = case_option (hchfBalance b) id (new_hchfBalance u),
     hchfTokenAddress = case_option (hchfTokenAddress b) id (new_hchfTokenAddress u),
     hlqtTokenAddress = case_option (hlqtTokenAddress b) id (new_hlqtTokenAddress u),
     hlqtBalance = case_option (hlqtBalance b) id (new_hlqtBalance u),
     uniTokenBalance = case_option (uniTokenBalance b) id (new_uniTokenBalance u),
     uniTokenAllowance = case_option (uniTokenAllowance b) id (new_uniTokenAllowance u),
     remainingLiquidityMiningHLQTReward = case_option (remainingLiquidityMiningHLQTReward b) id (new_remainingLiquidityMiningHLQTReward u),
     liquidityMiningStake = case_option (liquidityMiningStake b) id (new_liquidityMiningStake u),
     totalStakedUniTokens = case_option (totalStakedUniTokens b) id (new_totalStakedUniTokens u),
     liquidityMiningHLQTReward = case_option (liquidityMiningHLQTReward b) id (new_liquidityMiningHLQTReward u),
     collateralSurplusBalance = case_option (collateralSurplusBalance b) id (new_collateralSurplusBalance u),
     price = case_option (price b) id (new_price u),
     hchfInStabilityPool = case_option (hchfInStabilityPool b) id (new_hchfInStabilityPool u),
     total = case_option (total b) id (new_total u),
     totalRedistributed = case_option (totalRedistributed b) id (new_totalRedistributed u),
     troveBeforeRedistribution = case_option (troveBeforeRedistribution b) id (new_troveBeforeRedistribution u),
     stabilityDeposit = case_option (stabilityDeposit b) id (new_stabilityDeposit u),
     remainingStabilityPoolHLQTReward = case_option (remainingStabilityPoolHLQTReward b) id (new_remainingStabilityPoolHLQTReward u),
     feesInNormalMode = case_option (feesInNormalMode b) id (new_feesInNormalMode u),
     hlqtStake = case_option (hlqtStake b) id (new_hlqtStake u),
     totalStakedHLQT = case_option (totalStakedHLQT b) id (new_totalStakedHLQT u),
     riskiestTroveBeforeRedistribution = case_option (riskiestTroveBeforeRedistribution b) id (new_riskiestTroveBeforeRedistribution u),
     userHasAssociatedWithHchf = case_option (userHasAssociatedWithHchf b) id (new_userHasAssociatedWithHchf u),
     userHasAssociatedWithHlqt = case_option (userHasAssociatedWithHlqt b) id (new_userHasAssociatedWithHlqt u),
     userHasAssociatedWithLpToken = case_option (userHasAssociatedWithLpToken b) id (new_userHasAssociatedWithLpToken u),
     hchfTokenAllowanceOfHchfContract = case_option (hchfTokenAllowanceOfHchfContract b) id (new_hchfTokenAllowanceOfHchfContract u),
     hlqtTokenAllowanceOfHlqtContract = case_option (hlqtTokenAllowanceOfHlqtContract b) id (new_hlqtTokenAllowanceOfHlqtContract u)\<rparr>"

definition state_equal :: "base_state \<Rightarrow> base_state \<Rightarrow> bool" where
  "state_equal a b \<longleftrightarrow>
     (on_content frontendStatusEquals) (frontend a) (frontend b) \<and>
     (on_content frontendStatusEquals) (ownFrontend a) (ownFrontend b) \<and>
     strictEquals (numberOfTroves a) (numberOfTroves b) \<and>
     (on_content Decimal_eq) (accountBalance a) (accountBalance b) \<and>
     (on_content Decimal_eq) (hchfBalance a) (hchfBalance b) \<and>
     strictEquals (hchfTokenAddress a) (hchfTokenAddress b) \<and>
     strictEquals (hlqtTokenAddress a) (hlqtTokenAddress b) \<and>
     (on_content Decimal_eq) (hlqtBalance a) (hlqtBalance b) \<and>
     (on_content Decimal_eq) (uniTokenBalance a) (uniTokenBalance b) \<and>
     (on_content Decimal_eq) (uniTokenAllowance a) (uniTokenAllowance b) \<and>
     (on_content Decimal_eq) (remainingLiquidityMiningHLQTReward a) (remainingLiquidityMiningHLQTReward b) \<and>
     (on_content Decimal_eq) (liquidityMiningStake a) (liquidityMiningStake b) \<and>
     (on_content Decimal_eq) (totalStakedUniTokens a) (totalStakedUniTokens b) \<and>
     (on_content Decimal_eq) (liquidityMiningHLQTReward a) (liquidityMiningHLQTReward b) \<and>
     (on_content Decimal_eq) (collateralSurplusBalance a) (collateralSurplusBalance b) \<and>
     (on_content Decimal_eq) (price a) (price b) \<and>
     (on_content Decimal_eq) (hchfInStabilityPool a) (hchfInStabilityPool b) \<and>
     (on_content Trove_equals) (total a) (total b) \<and>
     (on_content Trove_equals) (totalRedistributed a) (totalRedistributed b) \<and>
     (on_content PendingTrove_equals) (troveBeforeRedistribution a) (troveBeforeRedistribution b) \<and>
     (on_content StabilityDeposit_equals) (stabilityDeposit a) (stabilityDeposit b) \<and>
     (on_content Decimal_eq) (remainingStabilityPoolHLQTReward a) (remainingStabilityPoolHLQTReward b) \<and>
     (on_content Fees_equals) (feesInNormalMode a) (feesInNormalMode b) \<and>
     (on_content HLQTStake_equals) (hlqtStake a) (hlqtStake b) \<and>
     (on_content Decimal_eq) (totalStakedHLQT a) (totalStakedHLQT b) \<and>
     (on_content PendingTrove_equals) (riskiestTroveBeforeRedistribution a) (riskiestTroveBeforeRedistribution b) \<and>
     strictEquals (userHasAssociatedWithHchf a) (userHasAssociatedWithHchf b) \<and>
     strictEquals (userHasAssociatedWithHlqt a) (userHasAssociatedWithHlqt b) \<and>
     strictEquals (userHasAssociatedWithLpToken a) (userHasAssociatedWithLpToken b) \<and>
     sameObject (hchfTokenAllowanceOfHchfContract a) (hchfTokenAllowanceOfHchfContract b) \<and>
     sameObject (hlqtTokenAllowanceOfHlqtContract a) (hlqtTokenAllowanceOfHlqtContract b)"

lemma reduce_overlay: "state_equal (reduce b u) (overlay b u)"
  unfolding state_equal_def reduce_def overlay_def
  by (simp only: base_state.select_convs silentlyUpdateIfChanged_eq updated_same simp_thms)

lemma reduce_keeps: "state_equal b (overlay b u) \<Longrightarrow> reduce b u = b"
  unfolding state_equal_def reduce_def overlay_def
  by (cases b) (simp only: base_state.select_convs silentlyUpdateIfChanged_eq updated_keeps simp_thms)

section \<open>The derived state\<close>

definition derived_equal :: "derived_state \<Rightarrow> derived_state \<Rightarrow> bool" where
  "derived_equal a b \<longleftrightarrow> on_content UserTrove_equals (trove a) (trove b) \<and>
     on_content Fees_equals (fees a) (fees b) \<and>
     on_content Decimal_eq (borrowingRate a) (borrowingRate b) \<and>
     on_content Decimal_eq (redemptionRate a) (redemptionRate b) \<and>
     strictEquals (haveUndercollateralizedTroves a) (haveUndercollateralizedTroves b)"

interpretation derived: change_detection derived_equal
proof
  show "derived_equal x x" for x
    by (simp add: derived_equal_def user_trove_field.same_refl fees_field.same_refl
        decimal_field.same_refl primitive_field.same_refl)
  show "derived_equal x y \<Longrightarrow> derived_equal y x" for x y
    by (simp add: derived_equal_def user_trove_field.same_sym fees_field.same_sym
        decimal_field.same_sym primitive_field.same_sym)
  show "derived_equal x y \<Longrightarrow> derived_equal y z \<Longrightarrow> derived_equal x z" for x y z
    unfolding derived_equal_def
    by (blast intro: user_trove_field.same_trans fees_field.same_trans
        decimal_field.same_trans primitive_field.same_trans)
qed

lemma reduceDerived_equal: "derived_equal (reduceDerived d n) n"
  by (simp add: derived_equal_def reduceDerived_def updateFees_eq user_trove_field.updated_Some
      fees_field.updated_Some decimal_field.updated_Some primitive_field.updated_Some)

lemma reduceDerived_keeps: "derived_equal d n \<Longrightarrow> reduceDerived d n = d"
  by (cases d) (simp add: derived_equal_def reduceDerived_def updateFees_eq user_trove_field.updated_keeps
      fees_field.updated_keeps decimal_field.updated_keeps primitive_field.updated_keeps)

text \<open>The identities given to the new objects are the only freedom in \<open>derive\<close>.\<close>

lemma derive_ids: "derive ids b = Inr n \<Longrightarrow> \<exists>n'. derive ids' b = Inr n' \<and> derived_equal n' n"
  by (auto simp: derive_def rbind_eq_Inr_iff derived_equal_def on_content_def strictEquals_def
      UserTrove_equals_def Trove_equals_def)

section \<open>Entries of the state object\<close>

lemma distinct_keys [simp]: "distinct (map fst (base_entries b @ derived_entries d))"
  by (simp add: base_entries_def derived_entries_def)

lemma keys_base: "map fst (base_entries b) = map fst (base_entries b')"
  and keys_derived: "map fst (derived_entries d) = map fst (derived_entries d')"
  by (simp_all add: base_entries_def derived_entries_def)

lemma object_assign_skip:
  "k \<notin> fst ` set source \<Longrightarrow> object_assign ((k, v) # target) source = (k, v) # object_assign target source"
  unfolding object_assign_def by (induction source arbitrary: target) auto

lemma object_assign_replace:
  "map fst target = map fst source \<Longrightarrow> distinct (map fst source) \<Longrightarrow>
   object_assign (target @ rest) source = source @ rest"
proof (induction source arbitrary: target)
  case Nil
  then show ?case by (simp add: object_assign_def)
next
  case (Cons kv source)
  then obtain v w target' where t: "target = (fst kv, v) # target'" and kv: "kv = (fst kv, w)"
    by (cases target; cases kv) auto
  have "object_assign (target @ rest) (kv # source) = object_assign (kv # target' @ rest) source"
    unfolding t by (subst (1 2) kv) (simp add: object_assign_def)
  also have "\<dots> = kv # object_assign (target' @ rest) source"
    using Cons.prems(2) object_assign_skip [of "fst kv" source "snd kv"] by simp
  finally show ?case
    using Cons.IH [of target'] Cons.prems t by simp
qed

lemma object_assign_append:
  "set (map fst source) \<inter> set (map fst first) = {} \<Longrightarrow>
   object_assign (first @ target) source = first @ object_assign target source"
  by (induction first) (auto simp: object_assign_skip)

lemma object_assign_Nil [simp]: "object_assign target [] = target"
  by (simp add: object_assign_def)

text \<open>Once loaded, a store without extra state shows its base and derived state and no default.\<close>

lemma store_state_loaded:
  assumes "baseState s = Some b" and "derivedState s = Some d" and "extraState s = None"
  shows "store_state c ids s = base_entries b @ derived_entries d"
proof -
  let ?b = "base_entries (default_base_state ids (store_constants s))"
  let ?d = "derived_entries (default_derived_state ids (store_constants s))"
  have "object_assign (?b @ ?d) (base_entries b) = base_entries b @ ?d"
    by (rule object_assign_replace [OF keys_base]) (use distinct_keys [of b d] in simp)
  moreover have "object_assign (base_entries b @ ?d) (derived_entries d) = base_entries b @ object_assign ?d (derived_entries d)"
    by (rule object_assign_append) (use distinct_keys [of b d] in auto)
  moreover have "object_assign (?d @ []) (derived_entries d) = derived_entries d @ []"
    by (rule object_assign_replace [OF keys_derived]) (use distinct_keys [of b d] in simp)
  ultimately show ?thesis
    using assms by (simp add: store_state_def)
qed

lemma distinct_object_assign:
  "distinct (map fst target) \<Longrightarrow> distinct (map fst (object_assign target source))"
  unfolding object_assign_def by (induction source arbitrary: target) (auto simp: distinct_update)

lemma distinct_store_state: "distinct (map fst (store_state c ids s))"
  by (simp only: store_state_def Let_def distinct_object_assign distinct_keys)

lemma state_difference_self: "distinct (map fst x) \<Longrightarrow> state_difference x x = []"
  by (auto simp: state_difference_def filter_empty_conv)

lemma state_difference_same_keys:
  "map fst x = map fst y \<Longrightarrow> distinct (map fst y) \<Longrightarrow>
   state_difference x y = map fst (filter (\<lambda>(a, b). snd a \<noteq> snd b) (zip x y))"
proof -
  have "filter (\<lambda>(k, v). map_of (ys @ y) k \<noteq> Some v) x = map fst (filter (\<lambda>(a, b). snd a \<noteq> snd b) (zip x y))"
    if "map fst x = map fst y" "distinct (map fst (ys @ y))" for ys
    using that
  proof (induction x arbitrary: y ys)
    case Nil
    then show ?case by simp
  next
    case (Cons a x)
    then obtain b y' where y: "y = b # y'" "fst a = fst b" "map fst x = map fst y'"
      by (cases y) auto
    have "map_of (ys @ y) (fst a) = Some (snd b)"
    proof -
      have "map_of ys (fst a) = None" and "map_of y' (fst a) = None"
        using Cons.prems(2) y by (auto simp: map_of_eq_None_iff)
      then show ?thesis by (simp add: y(1,2) map_add_def)
    qed
    then show ?case
      using Cons.IH [OF y(3), of "ys @ [b]"] Cons.prems(2) y by (auto simp: split_def)
  qed
  from this [of "[]"] show "map fst x = map fst y \<Longrightarrow> distinct (map fst y) \<Longrightarrow> ?thesis"
    by (simp add: state_difference_def)
qed

section \<open>Updating the store\<close>

lemma update_success:
  assumes "store_update c ids call bu eu s = (s', Inr (p, called))"
  obtains b d n s3 ls where "baseState s = Some b" and "derivedState s = Some d"
    and "derive ids (case_option b (reduce b) bu) = Inr n"
    and "s3 = s\<lparr>baseState := Some (case_option b (reduce b) bu), derivedState := Some (reduceDerived d n),
           extraState := (case (extraState s, eu) of (Some e, Some u) \<Rightarrow> Some (reduceExtra c e u) | (x, _) \<Rightarrow> x)\<rparr>"
    and "s' = s3\<lparr>listeners := ls\<rparr>"
    and "p = \<lparr>newState = store_state c ids s3, oldState = store_state c ids s,
              stateChange = state_difference (store_state c ids s3) (store_state c ids s)\<rparr>"
    and "notify_listeners call p (listeners s) = (ls, called, None)"
proof -
  obtain b d where bd: "baseState s = Some b" "derivedState s = Some d"
    using assms by (auto simp: store_update_def split: option.split_asm)
  obtain n where n: "derive ids (case_option b (reduce b) bu) = Inr n"
    using assms bd by (auto simp: store_update_def Let_def split: sum.split_asm)
  show thesis
    using assms bd n that [OF bd n refl]
    by (auto simp: store_update_def Let_def split: if_split_asm prod.split_asm option.split_asm)
qed

lemma update_success_plain:
  assumes "store_update c ids call bu None s = (s', Inr (p, called))"
  obtains b d n s3 ls where "baseState s = Some b" and "derivedState s = Some d"
    and "derive ids (case_option b (reduce b) bu) = Inr n"
    and "s3 = s\<lparr>baseState := Some (case_option b (reduce b) bu), derivedState := Some (reduceDerived d n)\<rparr>"
    and "s' = s3\<lparr>listeners := ls\<rparr>"
    and "p = \<lparr>newState = store_state c ids s3, oldState = store_state c ids s,
              stateChange = state_difference (store_state c ids s3) (store_state c ids s)\<rparr>"
    and "notify_listeners call p (listeners s) = (ls, called, None)"
proof -
  have extra: "(case (extraState s, None) of (Some e, Some u) \<Rightarrow> Some (reduceExtra c e u) | (x, _) \<Rightarrow> x) = extraState s"
    and keep: "s\<lparr>baseState := x, derivedState := y, extraState := extraState s\<rparr> = s\<lparr>baseState := x, derivedState := y\<rparr>"
    for x y by (simp_all split: option.split)
  from assms show thesis
    by (rule update_success) (rule that, simp_all only: extra keep)
qed

definition consistent :: "'e store \<Rightarrow> bool" where
  "consistent s = (case (baseState s, derivedState s) of
      (Some b, Some d) \<Rightarrow> (case derive (\<lambda>_. 0) b of Inr n \<Rightarrow> derived_equal d n | Inl _ \<Rightarrow> False)
    | _ \<Rightarrow> False)"

lemma consistentI:
  assumes "baseState s = Some b" "derivedState s = Some d" "derive ids b = Inr n" "derived_equal d n"
  shows "consistent s"
  using derive_ids [OF assms(3), of "\<lambda>_. 0"] derived.same_trans [OF assms(4)] derived.same_sym assms(1,2)
  by (fastforce simp: consistent_def)

lemma consistentE:
  assumes "consistent s"
  obtains b d n where "baseState s = Some b" and "derivedState s = Some d" and "derive ids b = Inr n"
    and "derived_equal d n"
proof -
  obtain b d n where "baseState s = Some b" "derivedState s = Some d" "derive (\<lambda>_. 0) b = Inr n" "derived_equal d n"
    using assms by (auto simp: consistent_def split: option.split_asm sum.split_asm)
  then show thesis
    using derive_ids [of "\<lambda>_. 0" b n ids] derived.same_trans derived.same_sym that by metis
qed

lemma update_consistent:
  assumes "store_update c ids call bu eu s = (s', Inr r)"
  shows "consistent s'"
proof -
  obtain p called where r: "r = (p, called)" by (cases r)
  from assms [unfolded r] show ?thesis
  proof (rule update_success)
    fix b d n s3 ls
    assume "derive ids (case_option b (reduce b) bu) = Inr n" and "s' = s3\<lparr>listeners := ls\<rparr>"
      and "s3 = s\<lparr>baseState := Some (case_option b (reduce b) bu), derivedState := Some (reduceDerived d n),
           extraState := (case (extraState s, eu) of (Some e, Some u) \<Rightarrow> Some (reduceExtra c e u) | (x, _) \<Rightarrow> x)\<rparr>"
    then show ?thesis
      by (intro consistentI [OF _ _ _ reduceDerived_equal]) auto
  qed
qed

text \<open>An object and the one that may replace it agree: the same identity means the same content.\<close>

definition coherent :: "'a object \<Rightarrow> 'a object option \<Rightarrow> bool" where
  "coherent prev next' = (case next' of
      Some n \<Rightarrow> identity prev = identity n \<longrightarrow> content prev = content n | None \<Rightarrow> True)"

definition coherent_update :: "base_state \<Rightarrow> base_state_update \<Rightarrow> bool" where
  "coherent_update b u \<longleftrightarrow>
     coherent (frontend b) (new_frontend u) \<and>
     coherent (ownFrontend b) (new_ownFrontend u) \<and>
     coherent (accountBalance b) (new_accountBalance u) \<and>
     coherent (hchfBalance b) (new_hchfBalance u) \<and>
     coherent (hlqtBalance b) (new_hlqtBalance u) \<and>
     coherent (uniTokenBalance b) (new_uniTokenBalance u) \<and>
     coherent (uniTokenAllowance b) (new_uniTokenAllowance u) \<and>
     coherent (remainingLiquidityMiningHLQTReward b) (new_remainingLiquidityMiningHLQTReward u) \<and>
     coherent (liquidityMiningStake b) (new_liquidityMiningStake u) \<and>
     coherent (totalStakedUniTokens b) (new_totalStakedUniTokens u) \<and>
     coherent (liquidityMiningHLQTReward b) (new_liquidityMiningHLQTReward u) \<and>
     coherent (collateralSurplusBalance b) (new_collateralSurplusBalance u) \<and>
     coherent (price b) (new_price u) \<and>
     coherent (hchfInStabilityPool b) (new_hchfInStabilityPool u) \<and>
     coherent (total b) (new_total u) \<and>
     coherent (totalRedistributed b) (new_totalRedistributed u) \<and>
     coherent (troveBeforeRedistribution b) (new_troveBeforeRedistribution u) \<and>
     coherent (stabilityDeposit b) (new_stabilityDeposit u) \<and>
     coherent (remainingStabilityPoolHLQTReward b) (new_remainingStabilityPoolHLQTReward u) \<and>
     coherent (feesInNormalMode b) (new_feesInNormalMode u) \<and>
     coherent (hlqtStake b) (new_hlqtStake u) \<and>
     coherent (totalStakedHLQT b) (new_totalStakedHLQT u) \<and>
     coherent (riskiestTroveBeforeRedistribution b) (new_riskiestTroveBeforeRedistribution u)"

definition coherent_derived :: "derived_state \<Rightarrow> derived_state \<Rightarrow> bool" where
  "coherent_derived d n \<longleftrightarrow> coherent (trove d) (Some (trove n)) \<and> coherent (fees d) (Some (fees n)) \<and>
     coherent (borrowingRate d) (Some (borrowingRate n)) \<and> coherent (redemptionRate d) (Some (redemptionRate n))"

text \<open>For every field, by its key: whether two states differ there, by the field's own comparison.\<close>

definition base_changes :: "base_state \<Rightarrow> base_state \<Rightarrow> (string \<times> bool) list" where
  "base_changes a b = [
     (''frontend'', \<not> (on_content frontendStatusEquals) (frontend a) (frontend b)),
     (''ownFrontend'', \<not> (on_content frontendStatusEquals) (ownFrontend a) (ownFrontend b)),
     (''numberOfTroves'', \<not> strictEquals (numberOfTroves a) (numberOfTroves b)),
     (''accountBalance'', \<not> (on_content Decimal_eq) (accountBalance a) (accountBalance b)),
     (''hchfBalance'', \<not> (on_content Decimal_eq) (hchfBalance a) (hchfBalance b)),
     (''hchfTokenAddress'', \<not> strictEquals (hchfTokenAddress a) (hchfTokenAddress b)),
     (''hlqtTokenAddress'', \<not> strictEquals (hlqtTokenAddress a) (hlqtTokenAddress b)),
     (''hlqtBalance'', \<not> (on_content Decimal_eq) (hlqtBalance a) (hlqtBalance b)),
     (''uniTokenBalance'', \<not> (on_content Decimal_eq) (uniTokenBalance a) (uniTokenBalance b)),
     (''uniTokenAllowance'', \<not> (on_content Decimal_eq) (uniTokenAllowance a) (uniTokenAllowance b)),
     (''remainingLiquidityMiningHLQTReward'', \<not> (on_content Decimal_eq) (remainingLiquidityMiningHLQTReward a) (remainingLiquidityMiningHLQTReward b)),
     (''liquidityMiningStake'', \<not> (on_content Decimal_eq) (liquidityMiningStake a) (liquidityMiningStake b)),
     (''totalStakedUniTokens'', \<not> (on_content Decimal_eq) (totalStakedUniTokens a) (totalStakedUniTokens b)),
     (''liquidityMiningHLQTReward'', \<not> (on_content Decimal_eq) (liquidityMiningHLQTReward a) (liquidityMiningHLQTReward b)),
     (''collateralSurplusBalance'', \<not> (on_content Decimal_eq) (collateralSurplusBalance a) (collateralSurplusBalance b)),
     (''price'', \<not> (on_content Decimal_eq) (price a) (price b)),
     (''hchfInStabilityPool'', \<not> (on_content Decimal_eq) (hchfInStabilityPool a) (hchfInStabilityPool b)),
     (''total'', \<not> (on_content Trove_equals) (total a) (total b)),
     (''totalRedistributed'', \<not> (on_content Trove_equals) (totalRedistributed a) (totalRedistributed b)),
     (''troveBeforeRedistribution'', \<not> (on_content PendingTrove_equals) (troveBeforeRedistribution a) (troveBeforeRedistribution b)),
     (''stabilityDeposit'', \<not> (on_content StabilityDeposit_equals) (stabilityDeposit a) (stabilityDeposit b)),
     (''remainingStabilityPoolHLQTReward'', \<not> (on_content Decimal_eq) (remainingStabilityPoolHLQTReward a) (remainingStabilityPoolHLQTReward b)),
     (''_feesInNormalMode'', \<not> (on_content Fees_equals) (feesInNormalMode a) (feesInNormalMode b)),
     (''hlqtStake'', \<not> (on_content HLQTStake_equals) (hlqtStake a) (hlqtStake b)),
     (''totalStakedHLQT'', \<not> (on_content Decimal_eq) (totalStakedHLQT a) (totalStakedHLQT b)),
     (''_riskiestTroveBeforeRedistribution'', \<not> (on_content PendingTrove_equals) (riskiestTroveBeforeRedistribution a) (riskiestTroveBeforeRedistribution b)),
     (''userHasAssociatedWithHchf'', \<not> strictEquals (userHasAssociatedWithHchf a) (userHasAssociatedWithHchf b)),
     (''userHasAssociatedWithHlqt'', \<not> strictEquals (userHasAssociatedWithHlqt a) (userHasAssociatedWithHlqt b)),
     (''userHasAssociatedWithLpToken'', \<not> strictEquals (userHasAssociatedWithLpToken a) (userHasAssociatedWithLpToken b)),
     (''hchfTokenAllowanceOfHchfContract'', \<not> sameObject (hchfTokenAllowanceOfHchfContract a) (hchfTokenAllowanceOfHchfContract b)),
     (''hlqtTokenAllowanceOfHlqtContract'', \<not> sameObject (hlqtTokenAllowanceOfHlqtContract a) (hlqtTokenAllowanceOfHlqtContract b))]"

definition derived_changes :: "derived_state \<Rightarrow> derived_state \<Rightarrow> (string \<times> bool) list" where
  "derived_changes a b = [
     (''trove'', \<not> on_content UserTrove_equals (trove a) (trove b)),
     (''fees'', \<not> on_content Fees_equals (fees a) (fees b)),
     (''borrowingRate'', \<not> on_content Decimal_eq (borrowingRate a) (borrowingRate b)),
     (''redemptionRate'', \<not> on_content Decimal_eq (redemptionRate a) (redemptionRate b)),
     (''haveUndercollateralizedTroves'',
       \<not> strictEquals (haveUndercollateralizedTroves a) (haveUndercollateralizedTroves b))]"

context equal_content
begin

lemma reported_iff:
  assumes "coherent prev next'"
  shows "reference (updateIfChanged (on_content equals) prev next') = reference prev
    \<longleftrightarrow> on_content equals prev (case_option prev id next')"
  using assms by (auto simp: coherent_def updateIfChanged_def reference_def on_content_def equals_refl
      split: option.split_asm)

lemma reported_Some_iff:
  "coherent prev (Some n) \<Longrightarrow> reference (updateIfChanged (on_content equals) prev (Some n)) = reference prev
    \<longleftrightarrow> on_content equals prev n"
  using reported_iff [of prev "Some n"] by simp

end

lemma reported_reference:
  "reference (updateIfChanged sameObject prev next') = reference prev \<longleftrightarrow> sameObject prev (case_option prev id next')"
  by (auto simp: sameObject_def updateIfChanged_def reference_def split: option.split)

lemma reported_primitive:
  "updateIfChanged strictEquals prev next' = prev \<longleftrightarrow> strictEquals prev (case_option prev id next')"
  by (auto simp: strictEquals_def updateIfChanged_def split: option.split)

lemmas reported = decimal_field.reported_iff trove_field.reported_iff pending_trove_field.reported_iff
  fees_field.reported_iff deposit_field.reported_iff stake_field.reported_iff frontend_field.reported_iff
  reported_reference reported_primitive

text \<open>The keys a comparison of two lists with the same keys reports.\<close>

definition reported_keys :: "js_object \<Rightarrow> js_object \<Rightarrow> (string \<times> bool) list" where
  "reported_keys x y = map (\<lambda>(a, b). (fst a, snd a \<noteq> snd b)) (zip x y)"

lemma state_difference_keys:
  "map fst x = map fst y \<Longrightarrow> distinct (map fst y) \<Longrightarrow>
   map fst (state_difference x y) = map fst (filter snd (reported_keys x y))"
  by (simp add: state_difference_same_keys reported_keys_def filter_map o_def split_def)

lemma reported_base:
  "coherent_update b u \<Longrightarrow> reported_keys (base_entries (reduce b u)) (base_entries b) = base_changes b (overlay b u)"
  unfolding coherent_update_def base_entries_def base_changes_def reduce_def overlay_def reported_keys_def
  by (simp only: base_state.select_convs zip.simps(1) zip_Cons_Cons list.map prod.case fst_conv snd_conv
      js_value.inject silentlyUpdateIfChanged_eq reported)

lemma reported_derived:
  "coherent_derived d n \<Longrightarrow> reported_keys (derived_entries (reduceDerived d n)) (derived_entries d) = derived_changes d n"
  by (simp add: coherent_derived_def derived_entries_def derived_changes_def reduceDerived_def reported_keys_def
      updateFees_eq user_trove_field.reported_Some_iff fees_field.reported_Some_iff decimal_field.reported_Some_iff
      reported_primitive)

section \<open>Notifying the listeners\<close>

definition after_calls :: "(nat \<Rightarrow> callback) \<Rightarrow> listener_params \<Rightarrow> nat list \<Rightarrow> nat list \<Rightarrow> nat list" where
  "after_calls call p called ls = fold (\<lambda>l. fold apply_action (fst (call l p))) called ls"

lemma after_calls_simps [simp]:
  "after_calls call p [] ls = ls"
  "after_calls call p (l # called) ls = after_calls call p called (fold apply_action (fst (call l p)) ls)"
  by (simp_all add: after_calls_def)

lemma apply_action_keeps: "l \<in> set ls \<Longrightarrow> a \<noteq> Delete l \<Longrightarrow> l \<in> set (apply_action a ls)"
  by (cases a) (auto simp: apply_action_def)

lemma apply_actions_keep: "l \<in> set ls \<Longrightarrow> Delete l \<notin> set as \<Longrightarrow> l \<in> set (fold apply_action as ls)"
  by (induction as arbitrary: ls) (auto simp: apply_action_keeps)

lemma apply_actions_distinct: "distinct ls \<Longrightarrow> distinct (fold apply_action as ls)"
  by (induction as arbitrary: ls) (auto simp: apply_action_def split: listener_action.split)

lemma notify_loop_spec:
  assumes "notify_loop call p snapshot ls = (ls', called, err)"
  shows "subseq called snapshot \<and> ls' = after_calls call p called ls
    \<and> (\<forall>xs l ys. called = xs @ l # ys \<longrightarrow> l \<in> set (after_calls call p xs ls))
    \<and> (err = None \<longrightarrow> (\<forall>l\<in>set snapshot \<inter> set ls. l \<notin> set called \<longrightarrow>
          (\<exists>c\<in>set called. Delete l \<in> set (fst (call c p)))))"
  using assms
proof (induction snapshot arbitrary: ls called)
  case Nil
  then show ?case by auto
next
  case (Cons h snapshot)
  show ?case
  proof (cases "h \<in> set ls")
    case False
    with Cons.prems have "notify_loop call p snapshot ls = (ls', called, err)"
      by simp
    from Cons.IH [OF this] False show ?thesis by auto
  next
    case True
    obtain as e where call: "call h p = (as, e)" by (cases "call h p")
    show ?thesis
    proof (cases e)
      case (Some x)
      with Cons.prems True call show ?thesis
        by (auto simp: Cons_eq_append_conv)
    next
      case None
      obtain called' where rec: "notify_loop call p snapshot (fold apply_action as ls) = (ls', called', err)"
        and called: "called = h # called'"
        using Cons.prems True call None by (auto split: prod.split_asm)
      note IH = Cons.IH [OF rec]
      have turn: "l \<in> set (after_calls call p xs ls)" if "called = xs @ l # ys" for xs l ys
        using that IH True call called by (cases xs) auto
      have gone: "\<exists>c\<in>set called. Delete l \<in> set (fst (call c p))"
        if "err = None" "l \<in> set (h # snapshot)" "l \<in> set ls" "l \<notin> set called" for l
        using that IH call called apply_actions_keep [of l ls as] by auto
      from IH call called turn gone show ?thesis by auto
    qed
  qed
qed

lemma notify_loop_distinct:
  "notify_loop call p snapshot ls = (ls', called, err) \<Longrightarrow> distinct ls \<Longrightarrow> distinct ls'"
proof -
  assume a: "notify_loop call p snapshot ls = (ls', called, err)" and "distinct ls"
  have "distinct (after_calls call p called ls)" if "distinct ls" for called and ls
    using that by (induction called arbitrary: ls) (auto simp: apply_actions_distinct)
  with notify_loop_spec [OF a] \<open>distinct ls\<close> show "distinct ls'" by simp
qed

end
