(* ===== verification/Store_Lifecycle.thy ===== *)
theory Store_Lifecycle
  imports Store
begin

text \<open>
  The life of a store (\<^verbatim>\<open>packages/lib-base/src/HLiquityStore.ts\<close>): the states that loading, updating,
  subscribing and unsubscribing can reach, the invariant of those states, and the properties of what listeners
  are told.
\<close>

section \<open>Reachable stores\<close>

inductive reachable_store :: "('e, 'u) store_subclass \<Rightarrow> constants \<Rightarrow> 'e store \<Rightarrow> bool"
  for c :: "('e, 'u) store_subclass" and k :: constants where
  constructed: "reachable_store c k (new_Store k)"
| loading: "reachable_store c k s \<Longrightarrow> load c ids call onLoaded base extra s = (s', r) \<Longrightarrow> reachable_store c k s'"
| updating: "reachable_store c k s \<Longrightarrow> store_update c ids call bu eu s = (s', r) \<Longrightarrow> reachable_store c k s'"
| subscribing: "reachable_store c k s \<Longrightarrow> subscribe c ids call l s = (s', e) \<Longrightarrow> reachable_store c k s'"
| unsubscribing: "reachable_store c k s \<Longrightarrow> reachable_store c k (unsubscribe l s)"

inductive_cases reachable_storeE: "reachable_store c k s"

definition store_inv :: "'e store \<Rightarrow> bool" where
  "store_inv s \<longleftrightarrow> distinct (listeners s) \<and> updateTimeoutId s = None
     \<and> (loaded s \<longleftrightarrow> derivedState s \<noteq> None)
     \<and> (derivedState s \<noteq> None \<longrightarrow> baseState s \<noteq> None)
     \<and> (\<not> loaded s \<longrightarrow> extraState s = None)"

lemma new_Store_inv: "store_inv (new_Store k)"
  by (simp add: store_inv_def new_Store_def)

lemma update_inv:
  assumes "store_inv s" and "store_update c ids call bu eu s = (s', r)"
  shows "store_inv s'"
proof (cases "baseState s = None \<or> derivedState s = None")
  case True
  with assms show ?thesis
    by (auto simp: store_update_def split: option.split_asm)
next
  case False
  then obtain b d where bd: "baseState s = Some b" "derivedState s = Some d" by auto
  with assms show ?thesis
    by (auto simp: store_update_def store_inv_def Let_def notify_listeners_def notify_loop_distinct
        split: sum.split_asm if_split_asm prod.split_asm option.split_asm)
qed

lemma load_inv:
  assumes "store_inv s" and "load c ids call onLoaded base extra s = (s', r)"
  shows "store_inv s'"
proof (cases "loaded s")
  case True
  with assms show ?thesis by (simp add: load_def)
next
  case unloaded: False
  show ?thesis
  proof (cases "derive ids base")
    case (Inl e)
    with assms unloaded show ?thesis by (auto simp: load_def store_inv_def)
  next
    case (Inr d)
    obtain actions err where onLoaded: "(case onLoaded of Some r \<Rightarrow> r | None \<Rightarrow> ([], None)) = (actions, err)"
      by (cases "case onLoaded of Some r \<Rightarrow> r | None \<Rightarrow> ([], None)")
    define s3 where "s3 = s\<lparr>baseState := Some base, derivedState := Some d, extraState := extra, loaded := True,
      listeners := fold apply_action actions (listeners s)\<rparr>"
    have inv: "store_inv s3"
      using assms(1) by (simp add: s3_def store_inv_def apply_actions_distinct)
    have "load c ids call onLoaded base extra s =
        (case err of Some e \<Rightarrow> (s3, Inl e) | None \<Rightarrow> store_update c ids call None None s3)"
      using unloaded Inr onLoaded by (cases err) (simp_all add: load_def s3_def Let_def)
    with assms(2) inv update_inv [OF inv] show ?thesis
      by (auto split: option.split_asm)
  qed
qed

lemma subscribe_inv:
  assumes "store_inv s" and "subscribe c ids call l s = (s', e)"
  shows "store_inv s'"
proof -
  obtain actions where s': "s' = s\<lparr>listeners := fold apply_action (Add l # actions) (listeners s)\<rparr>"
    using assms(2) by (auto simp: subscribe_def Let_def split: prod.split_asm)
  have "distinct (fold apply_action (Add l # actions) (listeners s))"
    using assms(1) by (intro apply_actions_distinct) (simp add: store_inv_def)
  with assms(1) s' show ?thesis by (simp add: store_inv_def)
qed

lemma unsubscribe_inv: "store_inv s \<Longrightarrow> store_inv (unsubscribe l s)"
  by (simp add: unsubscribe_def store_inv_def apply_action_def)

lemma reachable_inv: "reachable_store c k s \<Longrightarrow> store_inv s"
  by (induction rule: reachable_store.induct)
    (blast intro: new_Store_inv load_inv update_inv subscribe_inv unsubscribe_inv)+

lemma load_consistent: "load c ids call onLoaded base extra s = (s', Inr r) \<Longrightarrow> consistent s'"
  by (auto simp: load_def Let_def split_def intro: update_consistent
      split: if_split_asm sum.split_asm option.split_asm)

section \<open>A loaded sample store\<close>

text \<open>A store without extra state, loaded with the default base state, and a listener that does nothing.\<close>

definition plain :: "(unit, unit) store_subclass" where
  "plain = \<lparr>reduceExtra = (\<lambda>_ u. u), extra_entries = (\<lambda>_. [])\<rparr>"

definition silent :: "nat \<Rightarrow> callback" where
  "silent l p = ([], None)"

definition sample_base :: base_state where
  "sample_base = default_base_state (\<lambda>_. 0) defaults"

definition sample_derived :: "(string \<Rightarrow> nat) \<Rightarrow> derived_state" where
  "sample_derived ids = (default_derived_state ids defaults)
     \<lparr>borrowingRate := Object (ids ''borrowingRate'') (Decimal 500000),
      redemptionRate := Object (ids ''redemptionRate'') (Decimal 500000)\<rparr>"

definition sample_store :: "unit store" where
  "sample_store = (new_Store defaults)
     \<lparr>baseState := Some sample_base, derivedState := Some (sample_derived (\<lambda>_. 0)), loaded := True, listeners := [7]\<rparr>"

lemma sample_fees_rates:
  "Fees_setRecoveryMode (default_Fees defaults) False = Inr (default_Fees defaults)"
  "Fees_borrowingRate (default_Fees defaults) None = Inr (Decimal 500000)"
  "Fees_redemptionRate (default_Fees defaults) (DecimalObject Decimal_ZERO) None = Inr (Decimal 500000)"
  by (simp_all add: Fees_setRecoveryMode_def new_Fees_def default_Fees_def Fees_borrowingRate_def
      Fees_redemptionRate_def Fees_baseRate_def minutesSinceLastFeeOperation_def Decimal_pow_def defaults_def
      Decimal_add_def decimal_unfold min_def)

lemma sample_troves:
  "Trove_collateralRatio (empty_Trove k) p = Decimal_INFINITY"
  "applyRedistribution (empty_PendingTrove k a st) (empty_Trove k) = new_UserTrove k a st Decimal_ZERO Decimal_ZERO"
  "Trove_collateralRatio (new_UserTrove k a st c Decimal_ZERO) p = Decimal_INFINITY"
  "trove_constants (new_UserTrove k a st c d) = k"
  by (simp_all add: Trove_collateralRatio_def applyRedistribution_def empty_PendingTrove_def new_PendingTrove_def
      trove_ops new_UserTrove_def)

lemma INFINITY_above_thresholds:
  "Decimal_INFINITY < CRITICAL_COLLATERAL_RATIO defaults \<longleftrightarrow> False"
  "Decimal_INFINITY < MINIMUM_COLLATERAL_RATIO defaults \<longleftrightarrow> False"
  by (simp_all add: defaults_def decimal_unfold)

lemma derive_sample: "derive ids sample_base = Inr (sample_derived ids)"
  by (simp add: derive_def sample_base_def sample_derived_def default_base_state_def default_derived_state_def
      Trove_collateralRatioIsBelowCritical_def Trove_collateralRatioIsBelowMinimum_def sample_troves INFINITY_above_thresholds sample_fees_rates)

lemma sample_store_fields [simp]:
  "baseState sample_store = Some sample_base" "derivedState sample_store = Some (sample_derived (\<lambda>_. 0))"
  "extraState sample_store = None" "loaded sample_store" "listeners sample_store = [7]"
  by (simp_all add: sample_store_def new_Store_def)

lemma sample_store_consistent: "consistent sample_store"
  by (simp add: consistent_def derive_sample derived.same_refl)

lemma update_sample:
  assumes "derive ids (case_option sample_base (reduce sample_base) bu) = Inr n"
  shows "\<exists>p. store_update plain ids silent bu None sample_store =
    (sample_store\<lparr>baseState := Some (case_option sample_base (reduce sample_base) bu),
                  derivedState := Some (reduceDerived (sample_derived (\<lambda>_. 0)) n)\<rparr>, Inr (p, [7]))"
  using assms by (simp add: store_update_def notify_listeners_def silent_def Let_def)

section \<open>What the store promises\<close>

text \<open>
  C4. \<^verbatim>\<open>_reduce\<close> implements the overlay of a partial update: the reduced state compares equal, field by field, with
  the state that takes every field of the update and keeps the others, and if the update changes nothing the
  result is the previous state itself, object for object.
\<close>

theorem reduce_refines_overlay:
  "state_equal (reduce b u) (overlay b u) \<and> (state_equal b (overlay b u) \<longrightarrow> reduce b u = b)"
  using reduce_overlay reduce_keeps by blast

definition no_fields :: base_state_update where
  "no_fields = \<lparr>
     new_frontend = None,
     new_ownFrontend = None,
     new_numberOfTroves = None,
     new_accountBalance = None,
     new_hchfBalance = None,
     new_hchfTokenAddress = None,
     new_hlqtTokenAddress = None,
     new_hlqtBalance = None,
     new_uniTokenBalance = None,
     new_uniTokenAllowance = None,
     new_remainingLiquidityMiningHLQTReward = None,
     new_liquidityMiningStake = None,
     new_totalStakedUniTokens = None,
     new_liquidityMiningHLQTReward = None,
     new_collateralSurplusBalance = None,
     new_price = None,
     new_hchfInStabilityPool = None,
     new_total = None,
     new_totalRedistributed = None,
     new_troveBeforeRedistribution = None,
     new_stabilityDeposit = None,
     new_remainingStabilityPoolHLQTReward = None,
     new_feesInNormalMode = None,
     new_hlqtStake = None,
     new_totalStakedHLQT = None,
     new_riskiestTroveBeforeRedistribution = None,
     new_userHasAssociatedWithHchf = None,
     new_userHasAssociatedWithHlqt = None,
     new_userHasAssociatedWithLpToken = None,
     new_hchfTokenAllowanceOfHchfContract = None,
     new_hlqtTokenAllowanceOfHlqtContract = None\<rparr>"

text \<open>Price and total fetched again, as new objects with the values they had.\<close>

definition refetched :: base_state_update where
  "refetched = no_fields\<lparr>new_price := Some (Object 1 Decimal_ZERO),
     new_total := Some (Object 2 (empty_Trove defaults))\<rparr>"

lemma refetched_equal: "state_equal sample_base (overlay sample_base refetched)"
  by (simp add: state_equal_def overlay_def refetched_def no_fields_def sample_base_def default_base_state_def on_content_def
      strictEquals_def sameObject_def Trove_equals_def PendingTrove_equals_def UserTrove_equals_def)

theorem reduce_refines_overlay_witness:
  "reduce sample_base refetched = sample_base"
  using reduce_refines_overlay [of sample_base refetched] refetched_equal by blast

text \<open>
  An update that brings nothing new (no update at all, or one whose fields all compare equal to the stored
  ones) leaves a store whose derived state is up to date exactly as it is, every object included: only the
  listeners' own subscriptions can change. They are given the same state twice, with no entry marked as changed.
\<close>

theorem update_without_news:
  assumes "consistent s" and "store_update c ids call bu None s = (s', Inr (p, called))"
    and "\<forall>b u. baseState s = Some b \<longrightarrow> bu = Some u \<longrightarrow> state_equal b (overlay b u)"
  shows "(\<exists>ls. s' = s\<lparr>listeners := ls\<rparr>) \<and> newState p = oldState p \<and> stateChange p = []"
proof -
  from assms(1) obtain b d n where bd: "baseState s = Some b" "derivedState s = Some d"
    and n: "derive ids b = Inr n" and eq: "derived_equal d n"
    by (rule consistentE)
  have b: "case_option b (reduce b) bu = b"
    using assms(3) bd(1) reduce_keeps by (cases bu) auto
  from assms(2) obtain b' d' n' s3 ls where u: "baseState s = Some b'" "derivedState s = Some d'"
      "derive ids (case_option b' (reduce b') bu) = Inr n'"
    and s3: "s3 = s\<lparr>baseState := Some (case_option b' (reduce b') bu), derivedState := Some (reduceDerived d' n')\<rparr>"
    and s': "s' = s3\<lparr>listeners := ls\<rparr>"
    and p: "p = \<lparr>newState = store_state c ids s3, oldState = store_state c ids s,
              stateChange = state_difference (store_state c ids s3) (store_state c ids s)\<rparr>"
    by (rule update_success_plain)
  have bd': "b' = b" "d' = d"
    using u(1,2) bd by simp_all
  have "n' = n"
    using u(3) n unfolding bd' b by simp
  then have "s3 = s\<lparr>baseState := Some b, derivedState := Some d\<rparr>"
    unfolding s3 bd' b by (simp add: reduceDerived_keeps [OF eq])
  then have "s3 = s"
    using bd by simp
  then show ?thesis
    using s' p by (auto simp: state_difference_self distinct_store_state)
qed

theorem update_without_news_witness:
  "\<exists>s p. store_update plain (\<lambda>_. 1) silent (Some refetched) None sample_store = (s, Inr (p, [7]))
     \<and> (\<exists>ls. s = sample_store\<lparr>listeners := ls\<rparr>) \<and> newState p = oldState p \<and> stateChange p = []"
proof -
  have "derive (\<lambda>_. 1) (case_option sample_base (reduce sample_base) (Some refetched)) = Inr (sample_derived (\<lambda>_. 1))"
    by (simp add: reduce_keeps [OF refetched_equal] derive_sample)
  from update_sample [OF this] obtain s p where
    up: "store_update plain (\<lambda>_. 1) silent (Some refetched) None sample_store = (s, Inr (p, [7]))"
    by blast
  have "\<forall>b u. baseState sample_store = Some b \<longrightarrow> Some refetched = Some u \<longrightarrow> state_equal b (overlay b u)"
    using refetched_equal by simp
  from update_without_news [OF sample_store_consistent up this] up show ?thesis by blast
qed

text \<open>
  C28. Which fields listeners are told about: after an update of a store without extra state, the keys of
  \<^verbatim>\<open>stateChange\<close> are the base fields in which the overlay of the update differs from the old state, and the
  derived fields in which the freshly derived values differ from the old ones, each by the comparison of the field. That is a comparison by value for all
  fields but the two allowances \<^verbatim>\<open>hchfTokenAllowanceOfHchfContract\<close> and \<^verbatim>\<open>hlqtTokenAllowanceOfHlqtContract\<close>, which are compared by identity: an
  allowance that was fetched again is reported even if its amount is the same.
\<close>

theorem update_reports_changes:
  assumes "baseState s = Some b" and "derivedState s = Some d" and "extraState s = None"
    and "coherent_update b u" and "derive ids (reduce b u) = Inr n" and "coherent_derived d n"
    and "store_update c ids call (Some u) None s = (s', Inr (p, called))"
  shows "map fst (stateChange p) = map fst (filter snd (base_changes b (overlay b u) @ derived_changes d n))"
proof -
  from assms(7) obtain b' d' n' s3 where u: "baseState s = Some b'" "derivedState s = Some d'"
      "derive ids (case_option b' (reduce b') (Some u)) = Inr n'"
    and s3: "s3 = s\<lparr>baseState := Some (case_option b' (reduce b') (Some u)), derivedState := Some (reduceDerived d' n')\<rparr>"
    and p: "p = \<lparr>newState = store_state c ids s3, oldState = store_state c ids s,
              stateChange = state_difference (store_state c ids s3) (store_state c ids s)\<rparr>"
    by (rule update_success_plain)
  have new: "store_state c ids s3 = base_entries (reduce b u) @ derived_entries (reduceDerived d n)"
    using u assms(1-3,5) s3 by (intro store_state_loaded) simp_all
  have old: "store_state c ids s = base_entries b @ derived_entries d"
    using assms(1-3) by (rule store_state_loaded)
  have zip: "reported_keys (base_entries (reduce b u) @ x) (base_entries b @ y) =
      reported_keys (base_entries (reduce b u)) (base_entries b) @ reported_keys x y" for x y
    unfolding reported_keys_def using arg_cong [OF keys_base, of length "reduce b u" b] by simp
  have "map fst (stateChange p) = map fst (filter snd (reported_keys (store_state c ids s3) (store_state c ids s)))"
    unfolding p new old using keys_base [of "reduce b u" b] keys_derived [of "reduceDerived d n" d]
    by (simp add: state_difference_keys [OF _ distinct_keys])
  then show ?thesis
    by (simp add: new old zip reported_base [OF assms(4)] reported_derived [OF assms(6)])
qed

text \<open>A new price, everything else as it was.\<close>

definition new_price_update :: base_state_update where
  "new_price_update = refetched\<lparr>new_price := Some (Object 1 (Decimal 5000000))\<rparr>"

lemma reduce_sample_price: "reduce sample_base new_price_update = sample_base\<lparr>price := Object 1 (Decimal 5000000)\<rparr>"
  by (simp add: reduce_def new_price_update_def refetched_def no_fields_def updateIfChanged_def on_content_def
      sample_base_def default_base_state_def Decimal_ZERO_def Trove_equals_def)

lemma derive_sample_price:
  "derive ids (reduce sample_base new_price_update) = Inr (sample_derived ids)"
  unfolding reduce_sample_price
  by (simp add: derive_def sample_base_def sample_derived_def default_base_state_def default_derived_state_def
      Trove_collateralRatioIsBelowCritical_def Trove_collateralRatioIsBelowMinimum_def sample_troves
      INFINITY_above_thresholds sample_fees_rates)

theorem update_reports_changes_witness:
  "\<exists>s p. store_update plain (\<lambda>_. 1) silent (Some new_price_update) None sample_store = (s, Inr (p, [7]))
     \<and> map fst (stateChange p) = [''price'']"
proof -
  have n: "derive (\<lambda>_. 1) (reduce sample_base new_price_update) = Inr (sample_derived (\<lambda>_. 1))"
    by (rule derive_sample_price)
  with update_sample [of "\<lambda>_. 1" "Some new_price_update"] obtain s p where
    up: "store_update plain (\<lambda>_. 1) silent (Some new_price_update) None sample_store = (s, Inr (p, [7]))"
    by auto
  have co: "coherent_update sample_base new_price_update"
    by (simp add: coherent_update_def new_price_update_def refetched_def no_fields_def coherent_def
        sample_base_def default_base_state_def)
  have cd: "coherent_derived (sample_derived (\<lambda>_. 0)) (sample_derived (\<lambda>_. 1))"
    by (simp add: coherent_derived_def coherent_def sample_derived_def default_derived_state_def)
  have "map fst (filter snd (base_changes sample_base (overlay sample_base new_price_update)
      @ derived_changes (sample_derived (\<lambda>_. 0)) (sample_derived (\<lambda>_. 1)))) = [''price'']"
    by (simp add: base_changes_def derived_changes_def overlay_def new_price_update_def refetched_def no_fields_def
        sample_base_def default_base_state_def sample_derived_def default_derived_state_def on_content_def
        strictEquals_def sameObject_def Trove_equals_def PendingTrove_equals_def UserTrove_equals_def
        Decimal_ZERO_def)
  with update_reports_changes [OF _ _ _ co n cd up] up show ?thesis by auto
qed

text \<open>
  The two token allowances are compared by object identity, unlike every other amount: fetching the HCHF
  allowance again with the value it had marks it as changed, although no value in the state differs.
\<close>

theorem refetched_allowance_reported:
  assumes "consistent s" and "baseState s = Some b" and "extraState s = None"
    and "i \<noteq> identity (hchfTokenAllowanceOfHchfContract b)"
    and "store_update c ids call (Some (no_fields\<lparr>new_hchfTokenAllowanceOfHchfContract :=
           Some (Object i (content (hchfTokenAllowanceOfHchfContract b)))\<rparr>)) None s = (s', Inr (p, called))"
  shows "map fst (stateChange p) = [''hchfTokenAllowanceOfHchfContract'']"
proof -
  let ?u = "no_fields\<lparr>new_hchfTokenAllowanceOfHchfContract :=
    Some (Object i (content (hchfTokenAllowanceOfHchfContract b)))\<rparr>"
  let ?b = "b\<lparr>hchfTokenAllowanceOfHchfContract := Object i (content (hchfTokenAllowanceOfHchfContract b))\<rparr>"
  from assms(1) obtain b' d n where bd: "baseState s = Some b'" "derivedState s = Some d"
    and n: "derive ids b' = Inr n" and eq: "derived_equal d n"
    by (rule consistentE)
  have b: "reduce b ?u = ?b"
    using assms(4) by (simp add: reduce_def no_fields_def updateIfChanged_def sameObject_def)
  have "derive ids ?b = Inr n"
    using n bd assms(2) by (simp add: derive_def)
  from assms(5) obtain b1 d1 n1 s3 where u: "baseState s = Some b1" "derivedState s = Some d1"
      "derive ids (case_option b1 (reduce b1) (Some ?u)) = Inr n1"
    and s3: "s3 = s\<lparr>baseState := Some (case_option b1 (reduce b1) (Some ?u)), derivedState := Some (reduceDerived d1 n1)\<rparr>"
    and p: "p = \<lparr>newState = store_state c ids s3, oldState = store_state c ids s,
              stateChange = state_difference (store_state c ids s3) (store_state c ids s)\<rparr>"
    by (rule update_success_plain)
  have new: "store_state c ids s3 = base_entries ?b @ derived_entries d"
    using u assms(2,3) bd s3 b \<open>derive ids ?b = Inr n\<close> reduceDerived_keeps [OF eq]
    by (intro store_state_loaded) simp_all
  have old: "store_state c ids s = base_entries b @ derived_entries d"
    using assms(2,3) bd by (intro store_state_loaded) simp_all
  have "map fst (stateChange p) = map fst (filter snd (reported_keys (store_state c ids s3) (store_state c ids s)))"
    unfolding p new old using keys_base [of ?b b] by (simp add: state_difference_keys [OF _ distinct_keys])
  then show ?thesis
    using assms(4) unfolding new old
    by (simp add: reported_keys_def base_entries_def derived_entries_def reference_def)
qed

theorem refetched_allowance_reported_witness:
  "\<exists>s p. store_update plain (\<lambda>_. 1) silent (Some (no_fields\<lparr>new_hchfTokenAllowanceOfHchfContract :=
       Some (Object 5 (content (hchfTokenAllowanceOfHchfContract sample_base)))\<rparr>)) None sample_store = (s, Inr (p, [7]))
     \<and> map fst (stateChange p) = [''hchfTokenAllowanceOfHchfContract'']"
proof -
  let ?u = "no_fields\<lparr>new_hchfTokenAllowanceOfHchfContract :=
       Some (Object 5 (content (hchfTokenAllowanceOfHchfContract sample_base)))\<rparr>"
  have "reduce sample_base ?u = sample_base\<lparr>hchfTokenAllowanceOfHchfContract := Object 5 Decimal_ZERO\<rparr>"
    by (simp add: reduce_def no_fields_def updateIfChanged_def sameObject_def sample_base_def default_base_state_def)
  then have "derive (\<lambda>_. 1) (reduce sample_base ?u) = derive (\<lambda>_. 1) sample_base"
    by (simp add: derive_def)
  with update_sample [of "\<lambda>_. 1" "Some ?u"] obtain s p where
    up: "store_update plain (\<lambda>_. 1) silent (Some ?u) None sample_store = (s, Inr (p, [7]))"
    by (auto simp: derive_sample)
  have "5 \<noteq> identity (hchfTokenAllowanceOfHchfContract sample_base)"
    by (simp add: sample_base_def default_base_state_def)
  from refetched_allowance_reported [OF sample_store_consistent _ _ this up] up show ?thesis by auto
qed

text \<open>
  C29. Every store that can be reached from its constructor, through operations that succeed or throw, keeps its
  invariant: it has derived state exactly if it is loaded, then has base state too, no listener is registered
  twice. Such a store can be loaded only once and updated only after that (the assertions of \<^verbatim>\<open>_load\<close> and
  \<^verbatim>\<open>_update\<close> fail and leave it as it is), and stopping it never clears a timer.
\<close>

theorem reachable_store_inv:
  assumes "reachable_store c k s"
  shows "store_inv s
    \<and> (loaded s \<longrightarrow> load c ids call onLoaded base extra s = (s, Inl AssertionError))
    \<and> (\<not> loaded s \<longrightarrow> store_update c ids call bu eu s = (s, Inl AssertionError))
    \<and> cancelUpdateIfScheduled s = []"
  using reachable_inv [OF assms]
  by (auto simp: load_def store_update_def store_inv_def cancelUpdateIfScheduled_def split: option.split)

theorem reachable_store_inv_witness:
  "\<exists>s :: unit store. reachable_store plain defaults s \<and> listeners s = [3] \<and> store_inv s
    \<and> store_update plain (\<lambda>_. 1) silent None None s = (s, Inl AssertionError)
    \<and> cancelUpdateIfScheduled s = []"
proof -
  let ?s = "fst (subscribe plain (\<lambda>_. 1) silent 3 (new_Store defaults))"
  have r: "reachable_store plain defaults ?s"
    by (rule reachable_store.subscribing [OF reachable_store.constructed prod.collapse [symmetric]])
  have "\<not> loaded ?s" and "listeners ?s = [3]"
    by (simp_all add: subscribe_def new_Store_def silent_def apply_action_def Let_def)
  with r reachable_store_inv [OF r, where ids = "\<lambda>_. 1" and call = silent and bu = None and eu = None]
  show ?thesis by blast
qed

text \<open>
  C5. The derived state follows the base state: whenever loading or updating returns normally, whatever the store
  went through before (an error that left new base state beside old derived state included), the derived state
  holds the values derived from the base state of that moment.
\<close>

theorem derived_state_follows:
  assumes "store_update c ids call bu eu s = (s', Inr r) \<or> load c ids call onLoaded base extra s = (s', Inr r)"
  shows "\<exists>b d n. baseState s' = Some b \<and> derivedState s' = Some d \<and> derive ids' b = Inr n \<and> derived_equal d n"
proof -
  have "consistent s'"
    using assms update_consistent load_consistent by blast
  then show ?thesis by (rule consistentE [of _ ids']) blast
qed

theorem derived_state_follows_witness:
  "\<exists>s r. load plain (\<lambda>_. 1) silent None sample_base None (new_Store defaults :: unit store) = (s, Inr r)
     \<and> (\<exists>b d n. baseState s = Some b \<and> derivedState s = Some d \<and> derive (\<lambda>_. 2) b = Inr n \<and> derived_equal d n)"
proof -
  obtain s r where "load plain (\<lambda>_. 1) silent None sample_base None (new_Store defaults :: unit store) = (s, Inr r)"
    by (simp add: load_def new_Store_def store_update_def derive_sample notify_listeners_def Let_def)
  then show ?thesis
    using derived_state_follows [where ids' = "\<lambda>_. 2" and s' = s and r = r] by blast
qed

text \<open>
  Notification. The listeners called are, in order, among those registered when it began; each is still
  registered when its turn comes, given what the listeners called before it have done to the set; a
  registered listener is passed over only if a listener called earlier removed it; listeners added meanwhile
  are not called. If a listener throws, the rest are not called.
\<close>

theorem notify_calls_registered:
  assumes "notify_listeners call p ls = (ls', called, err)"
  shows "subseq called ls \<and> ls' = after_calls call p called ls
    \<and> (\<forall>xs l ys. called = xs @ l # ys \<longrightarrow> l \<in> set (after_calls call p xs ls))
    \<and> (err = None \<longrightarrow> (\<forall>l\<in>set ls. l \<notin> set called \<longrightarrow> (\<exists>c\<in>set called. Delete l \<in> set (fst (call c p)))))"
  using notify_loop_spec [of call p ls ls ls' called err] assms by (simp add: notify_listeners_def)

text \<open>Listener 1 subscribes 9 and removes 2; listener 2 would be next.\<close>

definition meddler :: "nat \<Rightarrow> callback" where
  "meddler l p = (if l = 1 then ([Add 9, Delete 2], None) else ([], None))"

definition no_change :: listener_params where
  "no_change = \<lparr>newState = [], oldState = [], stateChange = []\<rparr>"

theorem notify_calls_registered_witness:
  "notify_listeners meddler no_change [1, 2, 3] = ([1, 3, 9], [1, 3], None)
   \<and> subseq [1, 3] [1, 2, 3 :: nat] \<and> [1, 3, 9] = after_calls meddler no_change [1, 3] [1, 2, 3]
   \<and> 3 \<in> set (after_calls meddler no_change [1] [1, 2, 3])
   \<and> (\<exists>c\<in>set [1, 3]. Delete 2 \<in> set (fst (meddler c no_change)))"
proof -
  have n: "notify_listeners meddler no_change [1, 2, 3] = ([1, 3, 9], [1, 3], None)"
    by (simp add: notify_listeners_def meddler_def apply_action_def)
  note p = notify_calls_registered [OF this]
  have "[1, 3] = [1] @ 3 # ([] :: nat list)" "(2 :: nat) \<in> set [1, 2, 3]" "(2 :: nat) \<notin> set [1, 3]"
    by simp_all
  with n p show ?thesis by blast
qed

end
