(* ===== verification/Cached_Readable.thy ===== *)
theory Cached_Readable
  imports Store
begin

text \<open>
  The caching reader of \<^verbatim>\<open>packages/lib-base/src/_CachedReadableLiquity.ts\<close>. The underlying reader and the cache
  are given to its constructor; they are records of functions here, one per method of \<^verbatim>\<open>ReadableLiquity\<close>
  (\<^verbatim>\<open>packages/lib-base/src/ReadableLiquity.ts\<close>). A reader's promise is a \<open>result\<close> (\<open>Inl\<close> the
  rejection), a cache answers with an \<open>option\<close> (\<open>None\<close> is \<^verbatim>\<open>undefined\<close>). \<open>'x\<close> stands for the extra
  parameters every method passes on.
\<close>

section \<open>The reader and the cache\<close>

datatype sorted_by = AscendingCollateralRatio | DescendingCollateralRatio

record listing_params =
  listing_first :: int
  listing_sortedBy :: sorted_by
  listing_startingAt :: "int option"
  listing_before :: bool

text \<open>The overloads of \<^verbatim>\<open>getTroves\<close>: troves before redistribution, or troves with their current values.\<close>

datatype trove_listing = Before "pending_trove list" | Current "user_trove list"

record 'x reader =
  getTotalRedistributed :: "'x \<Rightarrow> trove result"
  getTroveBeforeRedistribution :: "string option \<Rightarrow> 'x \<Rightarrow> pending_trove result"
  getTrove :: "string option \<Rightarrow> 'x \<Rightarrow> user_trove result"
  getNumberOfTroves :: "'x \<Rightarrow> int result"
  getPrice :: "'x \<Rightarrow> decimal result"
  getTotal :: "'x \<Rightarrow> trove result"
  getStabilityDeposit :: "string option \<Rightarrow> 'x \<Rightarrow> stability_deposit result"
  getRemainingStabilityPoolHLQTReward :: "'x \<Rightarrow> decimal result"
  getHCHFInStabilityPool :: "'x \<Rightarrow> decimal result"
  getHCHFBalance :: "string option \<Rightarrow> 'x \<Rightarrow> decimal result"
  getHCHFTokenAddress :: "'x \<Rightarrow> string result"
  getHLQTTokenAddress :: "'x \<Rightarrow> string result"
  getHLQTBalance :: "string option \<Rightarrow> 'x \<Rightarrow> decimal result"
  getUniTokenBalance :: "string option \<Rightarrow> 'x \<Rightarrow> decimal result"
  getUniTokenAllowance :: "string option \<Rightarrow> 'x \<Rightarrow> decimal result"
  getRemainingLiquidityMiningHLQTReward :: "'x \<Rightarrow> decimal result"
  getLiquidityMiningStake :: "string option \<Rightarrow> 'x \<Rightarrow> decimal result"
  getTotalStakedUniTokens :: "'x \<Rightarrow> decimal result"
  getLiquidityMiningHLQTReward :: "string option \<Rightarrow> 'x \<Rightarrow> decimal result"
  getCollateralSurplusBalance :: "string option \<Rightarrow> 'x \<Rightarrow> decimal result"
  getTroves :: "listing_params \<Rightarrow> 'x \<Rightarrow> trove_listing result"
  getFees :: "'x \<Rightarrow> fees result"
  getHLQTStake :: "string option \<Rightarrow> 'x \<Rightarrow> hlqt_stake result"
  getTotalStakedHLQT :: "'x \<Rightarrow> decimal result"
  getFrontendStatus :: "string option \<Rightarrow> 'x \<Rightarrow> frontend_status result"
  getHchfTokenAllowanceOfHchfContract :: "string option \<Rightarrow> 'x \<Rightarrow> decimal result"
  getHlqtTokenAllowanceOfHlqtContract :: "string option \<Rightarrow> 'x \<Rightarrow> decimal result"

record 'x read_cache =
  cached_getTotalRedistributed :: "'x \<Rightarrow> trove option"
  cached_getTroveBeforeRedistribution :: "string option \<Rightarrow> 'x \<Rightarrow> pending_trove option"
  cached_getNumberOfTroves :: "'x \<Rightarrow> int option"
  cached_getPrice :: "'x \<Rightarrow> decimal option"
  cached_getTotal :: "'x \<Rightarrow> trove option"
  cached_getStabilityDeposit :: "string option \<Rightarrow> 'x \<Rightarrow> stability_deposit option"
  cached_getRemainingStabilityPoolHLQTReward :: "'x \<Rightarrow> decimal option"
  cached_getHCHFInStabilityPool :: "'x \<Rightarrow> decimal option"
  cached_getHCHFBalance :: "string option \<Rightarrow> 'x \<Rightarrow> decimal option"
  cached_getHCHFTokenAddress :: "'x \<Rightarrow> string option"
  cached_getHLQTTokenAddress :: "'x \<Rightarrow> string option"
  cached_getHLQTBalance :: "string option \<Rightarrow> 'x \<Rightarrow> decimal option"
  cached_getUniTokenBalance :: "string option \<Rightarrow> 'x \<Rightarrow> decimal option"
  cached_getUniTokenAllowance :: "string option \<Rightarrow> 'x \<Rightarrow> decimal option"
  cached_getRemainingLiquidityMiningHLQTReward :: "'x \<Rightarrow> decimal option"
  cached_getLiquidityMiningStake :: "string option \<Rightarrow> 'x \<Rightarrow> decimal option"
  cached_getTotalStakedUniTokens :: "'x \<Rightarrow> decimal option"
  cached_getLiquidityMiningHLQTReward :: "string option \<Rightarrow> 'x \<Rightarrow> decimal option"
  cached_getCollateralSurplusBalance :: "string option \<Rightarrow> 'x \<Rightarrow> decimal option"
  cached_getTroves :: "listing_params \<Rightarrow> 'x \<Rightarrow> trove_listing option"
  cached_getFees :: "'x \<Rightarrow> fees option"
  cached_getHLQTStake :: "string option \<Rightarrow> 'x \<Rightarrow> hlqt_stake option"
  cached_getTotalStakedHLQT :: "'x \<Rightarrow> decimal option"
  cached_getFrontendStatus :: "string option \<Rightarrow> 'x \<Rightarrow> frontend_status option"
  cached_getHchfTokenAllowanceOfHchfContract :: "string option \<Rightarrow> 'x \<Rightarrow> decimal option"
  cached_getHlqtTokenAllowanceOfHlqtContract :: "string option \<Rightarrow> 'x \<Rightarrow> decimal option"

text \<open>\<^verbatim>\<open>cached ?? read\<close>.\<close>

definition or_read :: "'a option \<Rightarrow> 'a result \<Rightarrow> 'a result" where
  "or_read cached read = (case cached of Some v \<Rightarrow> Inr v | None \<Rightarrow> read)"

definition Cached_getTotalRedistributed :: "'x reader \<Rightarrow> 'x read_cache \<Rightarrow> 'x \<Rightarrow> trove result" where
  "Cached_getTotalRedistributed readable cache extraParams =
     or_read (cached_getTotalRedistributed cache extraParams)
       (getTotalRedistributed readable extraParams)"

definition Cached_getTroveBeforeRedistribution :: "'x reader \<Rightarrow> 'x read_cache \<Rightarrow> string option \<Rightarrow> 'x \<Rightarrow> pending_trove result" where
  "Cached_getTroveBeforeRedistribution readable cache address extraParams =
     or_read (cached_getTroveBeforeRedistribution cache address extraParams)
       (getTroveBeforeRedistribution readable address extraParams)"

definition Cached_getNumberOfTroves :: "'x reader \<Rightarrow> 'x read_cache \<Rightarrow> 'x \<Rightarrow> int result" where
  "Cached_getNumberOfTroves readable cache extraParams =
     or_read (cached_getNumberOfTroves cache extraParams)
       (getNumberOfTroves readable extraParams)"

definition Cached_getPrice :: "'x reader \<Rightarrow> 'x read_cache \<Rightarrow> 'x \<Rightarrow> decimal result" where
  "Cached_getPrice readable cache extraParams =
     or_read (cached_getPrice cache extraParams)
       (getPrice readable extraParams)"

definition Cached_getTotal :: "'x reader \<Rightarrow> 'x read_cache \<Rightarrow> 'x \<Rightarrow> trove result" where
  "Cached_getTotal readable cache extraParams =
     or_read (cached_getTotal cache extraParams)
       (getTotal readable extraParams)"

definition Cached_getStabilityDeposit :: "'x reader \<Rightarrow> 'x read_cache \<Rightarrow> string option \<Rightarrow> 'x \<Rightarrow> stability_deposit result" where
  "Cached_getStabilityDeposit readable cache address extraParams =
     or_read (cached_getStabilityDeposit cache address extraParams)
       (getStabilityDeposit readable address extraParams)"

definition Cached_getRemainingStabilityPoolHLQTReward :: "'x reader \<Rightarrow> 'x read_cache \<Rightarrow> 'x \<Rightarrow> decimal result" where
  "Cached_getRemainingStabilityPoolHLQTReward readable cache extraParams =
     or_read (cached_getRemainingStabilityPoolHLQTReward cache extraParams)
       (getRemainingStabilityPoolHLQTReward readable extraParams)"

definition Cached_getHCHFInStabilityPool :: "'x reader \<Rightarrow> 'x read_cache \<Rightarrow> 'x \<Rightarrow> decimal result" where
  "Cached_getHCHFInStabilityPool readable cache extraParams =
     or_read (cached_getHCHFInStabilityPool cache extraParams)
       (getHCHFInStabilityPool readable extraParams)"

definition Cached_getHCHFBalance :: "'x reader \<Rightarrow> 'x read_cache \<Rightarrow> string option \<Rightarrow> 'x \<Rightarrow> decimal result" where
  "Cached_getHCHFBalance readable cache address extraParams =
     or_read (cached_getHCHFBalance cache address extraParams)
       (getHCHFBalance readable address extraParams)"

definition Cached_getHCHFTokenAddress :: "'x reader \<Rightarrow> 'x read_cache \<Rightarrow> 'x \<Rightarrow> string result" where
  "Cached_getHCHFTokenAddress readable cache extraParams =
     or_read (cached_getHCHFTokenAddress cache extraParams)
       (getHCHFTokenAddress readable extraParams)"

definition Cached_getHLQTTokenAddress :: "'x reader \<Rightarrow> 'x read_cache \<Rightarrow> 'x \<Rightarrow> string result" where
  "Cached_getHLQTTokenAddress readable cache extraParams =
     or_read (cached_getHLQTTokenAddress cache extraParams)
       (getHLQTTokenAddress readable extraParams)"

definition Cached_getHLQTBalance :: "'x reader \<Rightarrow> 'x read_cache \<Rightarrow> string option \<Rightarrow> 'x \<Rightarrow> decimal result" where
  "Cached_getHLQTBalance readable cache address extraParams =
     or_read (cached_getHLQTBalance cache address extraParams)
       (getHLQTBalance readable address extraParams)"

definition Cached_getUniTokenBalance :: "'x reader \<Rightarrow> 'x read_cache \<Rightarrow> string option \<Rightarrow> 'x \<Rightarrow> decimal result" where
  "Cached_getUniTokenBalance readable cache address extraParams =
     or_read (cached_getUniTokenBalance cache address extraParams)
       (getUniTokenBalance readable address extraParams)"

definition Cached_getUniTokenAllowance :: "'x reader \<Rightarrow> 'x read_cache \<Rightarrow> string option \<Rightarrow> 'x \<Rightarrow> decimal result" where
  "Cached_getUniTokenAllowance readable cache address extraParams =
     or_read (cached_getUniTokenAllowance cache address extraParams)
       (getUniTokenAllowance readable address extraParams)"

definition Cached_getRemainingLiquidityMiningHLQTReward :: "'x reader \<Rightarrow> 'x read_cache \<Rightarrow> 'x \<Rightarrow> decimal result" where
  "Cached_getRemainingLiquidityMiningHLQTReward readable cache extraParams =
     or_read (cached_getRemainingLiquidityMiningHLQTReward cache extraParams)
       (getRemainingLiquidityMiningHLQTReward readable extraParams)"

definition Cached_getLiquidityMiningStake :: "'x reader \<Rightarrow> 'x read_cache \<Rightarrow> string option \<Rightarrow> 'x \<Rightarrow> decimal result" where
  "Cached_getLiquidityMiningStake readable cache address extraParams =
     or_read (cached_getLiquidityMiningStake cache address extraParams)
       (getLiquidityMiningStake readable address extraParams)"

definition Cached_getTotalStakedUniTokens :: "'x reader \<Rightarrow> 'x read_cache \<Rightarrow> 'x \<Rightarrow> decimal result" where
  "Cached_getTotalStakedUniTokens readable cache extraParams =
     or_read (cached_getTotalStakedUniTokens cache extraParams)
       (getTotalStakedUniTokens readable extraParams)"

definition Cached_getLiquidityMiningHLQTReward :: "'x reader \<Rightarrow> 'x read_cache \<Rightarrow> string option \<Rightarrow> 'x \<Rightarrow> decimal result" where
  "Cached_getLiquidityMiningHLQTReward readable cache address extraParams =
     or_read (cached_getLiquidityMiningHLQTReward cache address extraParams)
       (getLiquidityMiningHLQTReward readable address extraParams)"

definition Cached_getCollateralSurplusBalance :: "'x reader \<Rightarrow> 'x read_cache \<Rightarrow> string option \<Rightarrow> 'x \<Rightarrow> decimal result" where
  "Cached_getCollateralSurplusBalance readable cache address extraParams =
     or_read (cached_getCollateralSurplusBalance cache address extraParams)
       (getCollateralSurplusBalance readable address extraParams)"

definition Cached_getFees :: "'x reader \<Rightarrow> 'x read_cache \<Rightarrow> 'x \<Rightarrow> fees result" where
  "Cached_getFees readable cache extraParams =
     or_read (cached_getFees cache extraParams)
       (getFees readable extraParams)"

definition Cached_getHLQTStake :: "'x reader \<Rightarrow> 'x read_cache \<Rightarrow> string option \<Rightarrow> 'x \<Rightarrow> hlqt_stake result" where
  "Cached_getHLQTStake readable cache address extraParams =
     or_read (cached_getHLQTStake cache address extraParams)
       (getHLQTStake readable address extraParams)"

definition Cached_getTotalStakedHLQT :: "'x reader \<Rightarrow> 'x read_cache \<Rightarrow> 'x \<Rightarrow> decimal result" where
  "Cached_getTotalStakedHLQT readable cache extraParams =
     or_read (cached_getTotalStakedHLQT cache extraParams)
       (getTotalStakedHLQT readable extraParams)"

definition Cached_getFrontendStatus :: "'x reader \<Rightarrow> 'x read_cache \<Rightarrow> string option \<Rightarrow> 'x \<Rightarrow> frontend_status result" where
  "Cached_getFrontendStatus readable cache address extraParams =
     or_read (cached_getFrontendStatus cache address extraParams)
       (getFrontendStatus readable address extraParams)"

definition Cached_getHchfTokenAllowanceOfHchfContract :: "'x reader \<Rightarrow> 'x read_cache \<Rightarrow> string option \<Rightarrow> 'x \<Rightarrow> decimal result" where
  "Cached_getHchfTokenAllowanceOfHchfContract readable cache address extraParams =
     or_read (cached_getHchfTokenAllowanceOfHchfContract cache address extraParams)
       (getHchfTokenAllowanceOfHchfContract readable address extraParams)"

definition Cached_getHlqtTokenAllowanceOfHlqtContract :: "'x reader \<Rightarrow> 'x read_cache \<Rightarrow> string option \<Rightarrow> 'x \<Rightarrow> decimal result" where
  "Cached_getHlqtTokenAllowanceOfHlqtContract readable cache address extraParams =
     or_read (cached_getHlqtTokenAllowanceOfHlqtContract cache address extraParams)
       (getHlqtTokenAllowanceOfHlqtContract readable address extraParams)"


definition Cached_getTrove :: "'x reader \<Rightarrow> 'x read_cache \<Rightarrow> string option \<Rightarrow> 'x \<Rightarrow> user_trove result" where
  "Cached_getTrove readable cache address extraParams =
     rbind (Cached_getTroveBeforeRedistribution readable cache address extraParams) (\<lambda>troveBeforeRedistribution.
     rbind (Cached_getTotalRedistributed readable cache extraParams) (\<lambda>totalRedistributed.
     Inr (applyRedistribution troveBeforeRedistribution totalRedistributed)))"

text \<open>
  The query passed on always asks for the troves before redistribution. Both reads are started at once and
  a rejection of either rejects the whole; the model looks at the listing first. A \<open>Current\<close> answer to such a
  query has no \<^verbatim>\<open>applyRedistribution\<close> method: it is returned as it is, or the call of the missing method throws.
\<close>

definition Cached_getTroves :: "'x reader \<Rightarrow> 'x read_cache \<Rightarrow> listing_params \<Rightarrow> 'x \<Rightarrow> trove_listing result" where
  "Cached_getTroves readable cache params extraParams =
     (let query = params\<lparr>listing_before := True\<rparr> in
      rbind (or_read (cached_getTroves cache query extraParams) (getTroves readable query extraParams)) (\<lambda>troves.
      if listing_before params then Inr troves
      else rbind (Cached_getTotalRedistributed readable cache extraParams) (\<lambda>redistributed.
        case troves of
          Before ts \<Rightarrow> Inr (Current (map (\<lambda>trove'. applyRedistribution trove' redistributed) ts))
        | Current [] \<Rightarrow> Inr (Current [])
        | Current _ \<Rightarrow> Inl (ExternalError ''TypeError''))))"

definition Cached_reader :: "'x reader \<Rightarrow> 'x read_cache \<Rightarrow> 'x reader" where
  "Cached_reader readable cache = \<lparr>
     getTotalRedistributed = Cached_getTotalRedistributed readable cache,
     getTroveBeforeRedistribution = Cached_getTroveBeforeRedistribution readable cache,
     getTrove = Cached_getTrove readable cache,
     getNumberOfTroves = Cached_getNumberOfTroves readable cache,
     getPrice = Cached_getPrice readable cache,
     getTotal = Cached_getTotal readable cache,
     getStabilityDeposit = Cached_getStabilityDeposit readable cache,
     getRemainingStabilityPoolHLQTReward = Cached_getRemainingStabilityPoolHLQTReward readable cache,
     getHCHFInStabilityPool = Cached_getHCHFInStabilityPool readable cache,
     getHCHFBalance = Cached_getHCHFBalance readable cache,
     getHCHFTokenAddress = Cached_getHCHFTokenAddress readable cache,
     getHLQTTokenAddress = Cached_getHLQTTokenAddress readable cache,
     getHLQTBalance = Cached_getHLQTBalance readable cache,
     getUniTokenBalance = Cached_getUniTokenBalance readable cache,
     getUniTokenAllowance = Cached_getUniTokenAllowance readable cache,
     getRemainingLiquidityMiningHLQTReward = Cached_getRemainingLiquidityMiningHLQTReward readable cache,
     getLiquidityMiningStake = Cached_getLiquidityMiningStake readable cache,
     getTotalStakedUniTokens = Cached_getTotalStakedUniTokens readable cache,
     getLiquidityMiningHLQTReward = Cached_getLiquidityMiningHLQTReward readable cache,
     getCollateralSurplusBalance = Cached_getCollateralSurplusBalance readable cache,
     getTroves = Cached_getTroves readable cache,
     getFees = Cached_getFees readable cache,
     getHLQTStake = Cached_getHLQTStake readable cache,
     getTotalStakedHLQT = Cached_getTotalStakedHLQT readable cache,
     getFrontendStatus = Cached_getFrontendStatus readable cache,
     getHchfTokenAllowanceOfHchfContract = Cached_getHchfTokenAllowanceOfHchfContract readable cache,
     getHlqtTokenAllowanceOfHlqtContract = Cached_getHlqtTokenAllowanceOfHlqtContract readable cache\<rparr>"

section \<open>Transparency\<close>

text \<open>A cache agrees with a reader if what it answers is what the reader would answer.\<close>

definition cache_agrees :: "'x reader \<Rightarrow> 'x read_cache \<Rightarrow> bool" where
  "cache_agrees r c \<longleftrightarrow>
     (\<forall>x v. cached_getTotalRedistributed c x = Some v \<longrightarrow> getTotalRedistributed r x = Inr v) \<and>
     (\<forall>a x v. cached_getTroveBeforeRedistribution c a x = Some v \<longrightarrow> getTroveBeforeRedistribution r a x = Inr v) \<and>
     (\<forall>x v. cached_getNumberOfTroves c x = Some v \<longrightarrow> getNumberOfTroves r x = Inr v) \<and>
     (\<forall>x v. cached_getPrice c x = Some v \<longrightarrow> getPrice r x = Inr v) \<and>
     (\<forall>x v. cached_getTotal c x = Some v \<longrightarrow> getTotal r x = Inr v) \<and>
     (\<forall>a x v. cached_getStabilityDeposit c a x = Some v \<longrightarrow> getStabilityDeposit r a x = Inr v) \<and>
     (\<forall>x v. cached_getRemainingStabilityPoolHLQTReward c x = Some v \<longrightarrow> getRemainingStabilityPoolHLQTReward r x = Inr v) \<and>
     (\<forall>x v. cached_getHCHFInStabilityPool c x = Some v \<longrightarrow> getHCHFInStabilityPool r x = Inr v) \<and>
     (\<forall>a x v. cached_getHCHFBalance c a x = Some v \<longrightarrow> getHCHFBalance r a x = Inr v) \<and>
     (\<forall>x v. cached_getHCHFTokenAddress c x = Some v \<longrightarrow> getHCHFTokenAddress r x = Inr v) \<and>
     (\<forall>x v. cached_getHLQTTokenAddress c x = Some v \<longrightarrow> getHLQTTokenAddress r x = Inr v) \<and>
     (\<forall>a x v. cached_getHLQTBalance c a x = Some v \<longrightarrow> getHLQTBalance r a x = Inr v) \<and>
     (\<forall>a x v. cached_getUniTokenBalance c a x = Some v \<longrightarrow> getUniTokenBalance r a x = Inr v) \<and>
     (\<forall>a x v. cached_getUniTokenAllowance c a x = Some v \<longrightarrow> getUniTokenAllowance r a x = Inr v) \<and>
     (\<forall>x v. cached_getRemainingLiquidityMiningHLQTReward c x = Some v \<longrightarrow> getRemainingLiquidityMiningHLQTReward r x = Inr v) \<and>
     (\<forall>a x v. cached_getLiquidityMiningStake c a x = Some v \<longrightarrow> getLiquidityMiningStake r a x = Inr v) \<and>
     (\<forall>x v. cached_getTotalStakedUniTokens c x = Some v \<longrightarrow> getTotalStakedUniTokens r x = Inr v) \<and>
     (\<forall>a x v. cached_getLiquidityMiningHLQTReward c a x = Some v \<longrightarrow> getLiquidityMiningHLQTReward r a x = Inr v) \<and>
     (\<forall>a x v. cached_getCollateralSurplusBalance c a x = Some v \<longrightarrow> getCollateralSurplusBalance r a x = Inr v) \<and>
     (\<forall>x v. cached_getFees c x = Some v \<longrightarrow> getFees r x = Inr v) \<and>
     (\<forall>a x v. cached_getHLQTStake c a x = Some v \<longrightarrow> getHLQTStake r a x = Inr v) \<and>
     (\<forall>x v. cached_getTotalStakedHLQT c x = Some v \<longrightarrow> getTotalStakedHLQT r x = Inr v) \<and>
     (\<forall>a x v. cached_getFrontendStatus c a x = Some v \<longrightarrow> getFrontendStatus r a x = Inr v) \<and>
     (\<forall>a x v. cached_getHchfTokenAllowanceOfHchfContract c a x = Some v \<longrightarrow> getHchfTokenAllowanceOfHchfContract r a x = Inr v) \<and>
     (\<forall>a x v. cached_getHlqtTokenAllowanceOfHlqtContract c a x = Some v \<longrightarrow> getHlqtTokenAllowanceOfHlqtContract r a x = Inr v) \<and>
     (\<forall>q x v. listing_before q \<longrightarrow> cached_getTroves c q x = Some v \<longrightarrow> getTroves r q x = Inr v)"

definition listing_before_only :: "trove_listing result \<Rightarrow> bool" where
  "listing_before_only l = (case l of Inr (Current _) \<Rightarrow> False | _ \<Rightarrow> True)"

lemma or_read_agrees: "(\<And>v. c = Some v \<Longrightarrow> r = Inr v) \<Longrightarrow> or_read c r = r"
  by (cases c) (auto simp: or_read_def)

lemma cached_getters_agree:
  assumes "cache_agrees r c"
  shows "Cached_getTotalRedistributed r c = getTotalRedistributed r"
    and "Cached_getTroveBeforeRedistribution r c = getTroveBeforeRedistribution r"
    and "Cached_getNumberOfTroves r c = getNumberOfTroves r"
    and "Cached_getPrice r c = getPrice r"
    and "Cached_getTotal r c = getTotal r"
    and "Cached_getStabilityDeposit r c = getStabilityDeposit r"
    and "Cached_getRemainingStabilityPoolHLQTReward r c = getRemainingStabilityPoolHLQTReward r"
    and "Cached_getHCHFInStabilityPool r c = getHCHFInStabilityPool r"
    and "Cached_getHCHFBalance r c = getHCHFBalance r"
    and "Cached_getHCHFTokenAddress r c = getHCHFTokenAddress r"
    and "Cached_getHLQTTokenAddress r c = getHLQTTokenAddress r"
    and "Cached_getHLQTBalance r c = getHLQTBalance r"
    and "Cached_getUniTokenBalance r c = getUniTokenBalance r"
    and "Cached_getUniTokenAllowance r c = getUniTokenAllowance r"
    and "Cached_getRemainingLiquidityMiningHLQTReward r c = getRemainingLiquidityMiningHLQTReward r"
    and "Cached_getLiquidityMiningStake r c = getLiquidityMiningStake r"
    and "Cached_getTotalStakedUniTokens r c = getTotalStakedUniTokens r"
    and "Cached_getLiquidityMiningHLQTReward r c = getLiquidityMiningHLQTReward r"
    and "Cached_getCollateralSurplusBalance r c = getCollateralSurplusBalance r"
    and "Cached_getFees r c = getFees r"
    and "Cached_getHLQTStake r c = getHLQTStake r"
    and "Cached_getTotalStakedHLQT r c = getTotalStakedHLQT r"
    and "Cached_getFrontendStatus r c = getFrontendStatus r"
    and "Cached_getHchfTokenAllowanceOfHchfContract r c = getHchfTokenAllowanceOfHchfContract r"
    and "Cached_getHlqtTokenAllowanceOfHlqtContract r c = getHlqtTokenAllowanceOfHlqtContract r"
  using assms
  by (auto simp: cache_agrees_def Cached_getTotalRedistributed_def Cached_getTroveBeforeRedistribution_def
      Cached_getNumberOfTroves_def Cached_getPrice_def Cached_getTotal_def Cached_getStabilityDeposit_def
      Cached_getRemainingStabilityPoolHLQTReward_def Cached_getHCHFInStabilityPool_def
      Cached_getHCHFBalance_def Cached_getHCHFTokenAddress_def Cached_getHLQTTokenAddress_def
      Cached_getHLQTBalance_def Cached_getUniTokenBalance_def Cached_getUniTokenAllowance_def
      Cached_getRemainingLiquidityMiningHLQTReward_def Cached_getLiquidityMiningStake_def
      Cached_getTotalStakedUniTokens_def Cached_getLiquidityMiningHLQTReward_def
      Cached_getCollateralSurplusBalance_def Cached_getFees_def Cached_getHLQTStake_def
      Cached_getTotalStakedHLQT_def Cached_getFrontendStatus_def
      Cached_getHchfTokenAllowanceOfHchfContract_def Cached_getHlqtTokenAllowanceOfHlqtContract_def intro!:
      ext or_read_agrees)

text \<open>
  The contract of a reader: its current troves are its troves before redistribution with its redistributed
  totals applied, one by one and in listings.
\<close>

locale consistent_reader =
  fixes r :: "'x reader"
  assumes getTrove_redistributes: "getTrove r a x = rbind (getTroveBeforeRedistribution r a x) (\<lambda>t.
      rbind (getTotalRedistributed r x) (\<lambda>red. Inr (applyRedistribution t red)))"
    and getTroves_before: "listing_before q \<Longrightarrow> listing_before_only (getTroves r q x)"
    and getTroves_redistributes: "\<not> listing_before q \<Longrightarrow> getTroves r q x =
      rbind (getTroves r (q\<lparr>listing_before := True\<rparr>) x) (\<lambda>l.
      rbind (getTotalRedistributed r x) (\<lambda>red.
      case l of Before ts \<Rightarrow> Inr (Current (map (\<lambda>t. applyRedistribution t red) ts)) | Current ts \<Rightarrow> Inr (Current ts)))"
begin

lemma cached_getTrove: "cache_agrees r c \<Longrightarrow> Cached_getTrove r c = getTrove r"
  by (intro ext) (simp add: Cached_getTrove_def cached_getters_agree getTrove_redistributes)

lemma cached_getTroves:
  assumes "cache_agrees r c"
  shows "Cached_getTroves r c = getTroves r"
proof (intro ext)
  fix q :: listing_params and x
  let ?q = "q\<lparr>listing_before := True\<rparr>"
  have read: "or_read (cached_getTroves c ?q x) (getTroves r ?q x) = getTroves r ?q x"
    using assms by (intro or_read_agrees) (simp add: cache_agrees_def)
  have before: "listing_before_only (getTroves r ?q x)"
    by (rule getTroves_before) simp
  show "Cached_getTroves r c q x = getTroves r q x"
  proof (cases "listing_before q")
    case True
    then have q: "?q = q"
      by (cases q) simp
    show ?thesis
      unfolding Cached_getTroves_def Let_def read unfolding q using True
      by (cases "getTroves r q x") simp_all
  next
    case False
    have "Cached_getTroves r c q x = rbind (getTroves r ?q x) (\<lambda>l. rbind (getTotalRedistributed r x) (\<lambda>red.
        case l of Before ts \<Rightarrow> Inr (Current (map (\<lambda>t. applyRedistribution t red) ts)) | Current ts \<Rightarrow> Inr (Current ts)))"
      using False read before
      by (cases "getTotalRedistributed r x"; cases "getTroves r ?q x")
        (auto simp: Cached_getTroves_def cached_getters_agree [OF assms] listing_before_only_def Let_def
          split: trove_listing.split_asm)
    with False show ?thesis by (simp add: getTroves_redistributes)
  qed
qed

lemma cached_transparent: "cache_agrees r c \<Longrightarrow> Cached_reader r c = r"
  by (simp add: Cached_reader_def cached_getters_agree cached_getTrove cached_getTroves)

end

text \<open>
  C24. Caching is transparent: with a cache that only answers what the reader would answer, every method of the
  caching reader, those that combine two reads included, returns (or rejects with) what the reader itself does.
\<close>

theorem Cached_reader_transparent:
  assumes "consistent_reader r" and "cache_agrees r c"
  shows "Cached_reader r c = r"
  using assms by (rule consistent_reader.cached_transparent)

text \<open>A reader over a fixed ledger with one trove, and a cache that knows the price and that trove.\<close>

definition ledger_trove :: pending_trove where
  "ledger_trove = new_PendingTrove defaults ''0xA'' Open (Decimal (1000 * DIGITS)) (Decimal (300 * DIGITS))
     (Decimal DIGITS) (empty_Trove defaults)"

definition ledger_redistributed :: trove where
  "ledger_redistributed = new_Trove defaults (Decimal 5) (Decimal 7)"

definition sample_reader :: "unit reader" where
  "sample_reader = \<lparr>
     getTotalRedistributed = (\<lambda>_. Inr ledger_redistributed),
     getTroveBeforeRedistribution = (\<lambda>_ _. Inr ledger_trove),
     getTrove = (\<lambda>_ _. Inr (applyRedistribution ledger_trove ledger_redistributed)),
     getNumberOfTroves = (\<lambda>_. Inr 1),
     getPrice = (\<lambda>_. Inr Decimal_ONE),
     getTotal = (\<lambda>_. Inr ledger_redistributed),
     getStabilityDeposit = (\<lambda>_ _. Inr empty_StabilityDeposit),
     getRemainingStabilityPoolHLQTReward = (\<lambda>_. Inr Decimal_ONE),
     getHCHFInStabilityPool = (\<lambda>_. Inr Decimal_ONE),
     getHCHFBalance = (\<lambda>_ _. Inr Decimal_ONE),
     getHCHFTokenAddress = (\<lambda>_. Inr ''0xB''),
     getHLQTTokenAddress = (\<lambda>_. Inr ''0xB''),
     getHLQTBalance = (\<lambda>_ _. Inr Decimal_ONE),
     getUniTokenBalance = (\<lambda>_ _. Inr Decimal_ONE),
     getUniTokenAllowance = (\<lambda>_ _. Inr Decimal_ONE),
     getRemainingLiquidityMiningHLQTReward = (\<lambda>_. Inr Decimal_ONE),
     getLiquidityMiningStake = (\<lambda>_ _. Inr Decimal_ONE),
     getTotalStakedUniTokens = (\<lambda>_. Inr Decimal_ONE),
     getLiquidityMiningHLQTReward = (\<lambda>_ _. Inr Decimal_ONE),
     getCollateralSurplusBalance = (\<lambda>_ _. Inr Decimal_ONE),
     getTroves = (\<lambda>q _. Inr (if listing_before q then Before [ledger_trove]
       else Current [applyRedistribution ledger_trove ledger_redistributed])),
     getFees = (\<lambda>_. Inr (default_Fees defaults)),
     getHLQTStake = (\<lambda>_ _. Inr empty_HLQTStake),
     getTotalStakedHLQT = (\<lambda>_. Inr Decimal_ONE),
     getFrontendStatus = (\<lambda>_ _. Inr Unregistered),
     getHchfTokenAllowanceOfHchfContract = (\<lambda>_ _. Inr Decimal_ONE),
     getHlqtTokenAllowanceOfHlqtContract = (\<lambda>_ _. Inr Decimal_ONE)\<rparr>"

definition sample_cache :: "unit read_cache" where
  "sample_cache = \<lparr>
     cached_getTotalRedistributed = (\<lambda>_. None),
     cached_getTroveBeforeRedistribution = (\<lambda>a _. if a = Some ''0xA'' then Some ledger_trove else None),
     cached_getNumberOfTroves = (\<lambda>_. None),
     cached_getPrice = (\<lambda>_. Some Decimal_ONE),
     cached_getTotal = (\<lambda>_. None),
     cached_getStabilityDeposit = (\<lambda>_ _. None),
     cached_getRemainingStabilityPoolHLQTReward = (\<lambda>_. None),
     cached_getHCHFInStabilityPool = (\<lambda>_. None),
     cached_getHCHFBalance = (\<lambda>_ _. None),
     cached_getHCHFTokenAddress = (\<lambda>_. None),
     cached_getHLQTTokenAddress = (\<lambda>_. None),
     cached_getHLQTBalance = (\<lambda>_ _. None),
     cached_getUniTokenBalance = (\<lambda>_ _. None),
     cached_getUniTokenAllowance = (\<lambda>_ _. None),
     cached_getRemainingLiquidityMiningHLQTReward = (\<lambda>_. None),
     cached_getLiquidityMiningStake = (\<lambda>_ _. None),
     cached_getTotalStakedUniTokens = (\<lambda>_. None),
     cached_getLiquidityMiningHLQTReward = (\<lambda>_ _. None),
     cached_getCollateralSurplusBalance = (\<lambda>_ _. None),
     cached_getTroves = (\<lambda>_ _. None),
     cached_getFees = (\<lambda>_. None),
     cached_getHLQTStake = (\<lambda>_ _. None),
     cached_getTotalStakedHLQT = (\<lambda>_. None),
     cached_getFrontendStatus = (\<lambda>_ _. None),
     cached_getHchfTokenAllowanceOfHchfContract = (\<lambda>_ _. None),
     cached_getHlqtTokenAllowanceOfHlqtContract = (\<lambda>_ _. None)\<rparr>"

theorem Cached_reader_transparent_witness:
  "Cached_reader sample_reader sample_cache = sample_reader"
proof (rule Cached_reader_transparent)
  show "consistent_reader sample_reader"
    by unfold_locales (auto simp: sample_reader_def listing_before_only_def)
  show "cache_agrees sample_reader sample_cache"
    by (auto simp: cache_agrees_def sample_reader_def sample_cache_def split: if_split_asm)
qed

end
