(* ===== verification/Mirror_Node.thy ===== *)
theory Mirror_Node
  imports JS_Prelude
begin

text \<open>
  The client of the Hedera mirror node, \<^verbatim>\<open>packages/mirror-node/src/mirror_node.ts\<close>: the request for the
  tokens an account is associated with, and the polling loop that waits until an association or
  dissociation has become visible.

  The function \<^verbatim>\<open>fetch\<close> is passed in by the caller and is an argument here: it maps a URL to a response or
  to an error. Account and token ids are the strings their \<^verbatim>\<open>toString()\<close> returns. \<^verbatim>\<open>JSON.stringify\<close> of the
  diagnostic object, which is only part of an error message, is an argument as well.
\<close>

section \<open>Reading the tokens of an account\<close>

record response =
  response_ok :: bool
  response_status :: nat
  response_text :: string
  response_tokens :: "string list result"

datatype account = AccountIdString string | EvmAddress string

record fetch_options =
  tokenIds :: "string list"
  apiBaseUrl :: string
  account_of :: account

text \<open>\<^verbatim>\<open>evmAddress.replace(/^0x/, '')\<close>\<close>

definition strip_0x :: "string \<Rightarrow> string" where
  "strip_0x s = (if take 2 s = ''0x'' then drop 2 s else s)"

definition accountAddressUrlSegment :: "account \<Rightarrow> string" where
  "accountAddressUrlSegment a = (case a of AccountIdString s \<Rightarrow> s | EvmAddress s \<Rightarrow> strip_0x s)"

definition tokenFilter :: "string list \<Rightarrow> string" where
  "tokenFilter ids = ''?'' @ join ''&'' (map (\<lambda>i. ''token.id[]='' @ i) ids)"

definition tokens_url :: "fetch_options \<Rightarrow> string" where
  "tokens_url options = apiBaseUrl options @ ''/accounts/'' @ accountAddressUrlSegment (account_of options)
     @ ''/tokens'' @ tokenFilter (tokenIds options)"

definition fetchTokens ::
  "(string \<Rightarrow> response result) \<Rightarrow> (response \<Rightarrow> string) \<Rightarrow> fetch_options \<Rightarrow> string list result" where
  "fetchTokens fetch stringify options =
     rbind (fetch (tokens_url options)) (\<lambda>response'.
       if \<not> response_ok response'
       then Inl (Error (''tokens api responded with '' @ show_nat (response_status response') @ '': `''
              @ response_text response' @ ''` for account '' @ accountAddressUrlSegment (account_of options)
              @ ''. received: '' @ stringify response'))
       else response_tokens response')"

section \<open>Waiting for a token state\<close>

definition getAttemptWaitTime :: "nat \<Rightarrow> nat" where
  "getAttemptWaitTime attemptNumber =
     (if attemptNumber < 5 then 2000 else if attemptNumber < 10 then 4000 else 8000)"

definition has_required :: "string list \<Rightarrow> string list \<Rightarrow> string list \<Rightarrow> bool" where
  "has_required associations dissociations tokens \<longleftrightarrow>
     list_all (\<lambda>i. i \<in> set tokens) associations \<and> list_all (\<lambda>i. i \<notin> set tokens) dissociations"

text \<open>
  The loop may poll for ever, so it has fuel: \<open>None\<close> is a loop that is still polling. \<open>read n\<close> is the outcome of
  the read in attempt \<open>n\<close>; a failed read leaves \<open>tokens\<close> as it was. The result is the tokens, the number of
  attempts made and the milliseconds waited.
\<close>

fun wait_loop :: "nat \<Rightarrow> (nat \<Rightarrow> string list result) \<Rightarrow> string list \<Rightarrow> string list \<Rightarrow> nat \<Rightarrow> nat \<Rightarrow> string list
    \<Rightarrow> (string list \<times> nat \<times> nat) option" where
  "wait_loop 0 read associations dissociations attempt waited tokens = None"
| "wait_loop (Suc fuel) read associations dissociations attempt waited tokens =
     (let waited' = waited + getAttemptWaitTime attempt;
          tokens' = (case read attempt of Inr ts \<Rightarrow> ts | Inl _ \<Rightarrow> tokens)
      in if has_required associations dissociations tokens' then Some (tokens', attempt + 1, waited')
         else wait_loop fuel read associations dissociations (attempt + 1) waited' tokens')"

definition waitForTokenState :: "nat \<Rightarrow> (nat \<Rightarrow> string list result) \<Rightarrow> string list option \<Rightarrow> string list option
    \<Rightarrow> (string list \<times> nat \<times> nat) option" where
  "waitForTokenState fuel read requiredAssociations requiredDissociations =
     wait_loop fuel read (case_option [] id requiredAssociations) (case_option [] id requiredDissociations) 0 0 []"

section \<open>Properties\<close>

text \<open>The tokens known after an attempt: the latest successful read up to it.\<close>

fun known_tokens :: "(nat \<Rightarrow> string list result) \<Rightarrow> nat \<Rightarrow> string list" where
  "known_tokens read 0 = (case read 0 of Inr ts \<Rightarrow> ts | Inl _ \<Rightarrow> [])"
| "known_tokens read (Suc n) = (case read (Suc n) of Inr ts \<Rightarrow> ts | Inl _ \<Rightarrow> known_tokens read n)"

definition wait_until :: "nat \<Rightarrow> nat" where
  "wait_until n = (\<Sum>i<n. getAttemptWaitTime i)"

lemma wait_until_Suc [simp]: "wait_until 0 = 0" "wait_until (Suc n) = wait_until n + getAttemptWaitTime n"
  by (simp_all add: wait_until_def)

lemma wait_loop_step:
  assumes "tokens = (if attempt = 0 then [] else known_tokens read (attempt - 1))"
  shows "(case read attempt of Inr ts \<Rightarrow> ts | Inl _ \<Rightarrow> tokens) = known_tokens read attempt"
  using assms by (cases attempt) auto

lemma wait_loop_returns:
  assumes "tokens = (if attempt = 0 then [] else known_tokens read (attempt - 1))" and "waited = wait_until attempt"
    and "attempt \<le> k" and "has_required as ds (known_tokens read k)"
    and "\<forall>j. attempt \<le> j \<longrightarrow> j < k \<longrightarrow> \<not> has_required as ds (known_tokens read j)" and "k - attempt < fuel"
  shows "wait_loop fuel read as ds attempt waited tokens = Some (known_tokens read k, k + 1, wait_until (k + 1))"
  using assms
proof (induction fuel arbitrary: attempt waited tokens)
  case 0
  then show ?case by simp
next
  case (Suc fuel)
  have step: "wait_loop (Suc fuel) read as ds attempt waited tokens =
      (if has_required as ds (known_tokens read attempt)
       then Some (known_tokens read attempt, attempt + 1, waited + getAttemptWaitTime attempt)
       else wait_loop fuel read as ds (attempt + 1) (waited + getAttemptWaitTime attempt) (known_tokens read attempt))"
    by (simp only: wait_loop.simps Let_def wait_loop_step [OF Suc.prems(1)])
  show ?case
  proof (cases "attempt = k")
    case True
    with Suc.prems(2,4) show ?thesis unfolding step by simp
  next
    case False
    then have lt: "attempt < k" using Suc.prems(3) by simp
    have "\<not> has_required as ds (known_tokens read attempt)"
      using Suc.prems(5) lt by simp
    moreover have "wait_loop fuel read as ds (attempt + 1) (waited + getAttemptWaitTime attempt) (known_tokens read attempt)
        = Some (known_tokens read k, k + 1, wait_until (k + 1))"
      using Suc.prems(2-6) lt by (intro Suc.IH) auto
    ultimately show ?thesis
      unfolding step by simp
  qed
qed

lemma wait_loop_sound:
  "wait_loop fuel read as ds attempt waited tokens = Some (ts, n, w) \<Longrightarrow> has_required as ds ts"
  by (induction fuel arbitrary: attempt waited tokens) (auto simp: Let_def split: if_split_asm)

lemma wait_until_bound: "wait_until n \<le> 8000 * n"
  by (induction n) (simp_all add: getAttemptWaitTime_def)

text \<open>
  C40. Waiting for a token state ends as soon as it can: if the tokens known after attempt \<open>k\<close> (those of the
  latest read that did not fail) are the first to meet the requirements, then with fuel for \<open>k + 1\<close> attempts the
  loop returns exactly those tokens after \<open>k + 1\<close> attempts and at most 8 seconds per attempt; and whenever it
  returns, all required associations are present and no required dissociation is.
\<close>

theorem waitForTokenState_returns:
  assumes "has_required (case_option [] id as) (case_option [] id ds) (known_tokens read k)"
    and "\<forall>j<k. \<not> has_required (case_option [] id as) (case_option [] id ds) (known_tokens read j)"
    and "k < fuel"
  shows "waitForTokenState fuel read as ds = Some (known_tokens read k, k + 1, wait_until (k + 1))
    \<and> wait_until (k + 1) \<le> 8000 * (k + 1)
    \<and> (waitForTokenState fuel' read as ds = Some (ts, n, w) \<longrightarrow>
         has_required (case_option [] id as) (case_option [] id ds) ts)"
  using wait_loop_returns [of "[]" 0 read 0 k "case_option [] id as" "case_option [] id ds" fuel] assms
    wait_until_bound [of "k + 1"] wait_loop_sound
  by (auto simp: waitForTokenState_def)

text \<open>The first read fails, the second does not show the token yet, the third does.\<close>

definition sample_reads :: "nat \<Rightarrow> string list result" where
  "sample_reads n = (if n = 0 then Inl (Error ''offline'') else if n = 1 then Inr [] else Inr [''0.0.7''])"

theorem waitForTokenState_returns_witness:
  "waitForTokenState 3 sample_reads (Some [''0.0.7'']) None = Some ([''0.0.7''], 3, 6000)"
proof -
  have "waitForTokenState 3 sample_reads (Some [''0.0.7'']) None = Some (known_tokens sample_reads 2, 2 + 1, wait_until (2 + 1))"
    by (rule waitForTokenState_returns [THEN conjunct1])
      (auto simp: sample_reads_def has_required_def numeral_2_eq_2 less_Suc_eq)
  then show ?thesis
    by (simp add: sample_reads_def numeral_2_eq_2 getAttemptWaitTime_def)
qed

end
