(* ===== verification/Hashgraph_Read.thy ===== *)
theory Hashgraph_Read
  imports Store_Lifecycle Cached_Readable Mirror_Node
begin

text \<open>
  The reading half of \<^verbatim>\<open>packages/lib-hashgraph/src/HashgraphLiquity.ts\<close>: the methods of
  \<^verbatim>\<open>ReadableLiquity\<close>, the snapshot of the ledger for the store (\<^verbatim>\<open>fetchStoreValues\<close>) and \<^verbatim>\<open>refresh\<close>.

  The contracts are reached through remote calls, so their view functions are arguments: the record
  \<open>contracts\<close> has one field per call in the source, from the call's arguments and the block tag (\<open>None\<close> is
  an absent tag, the latest block) to a natural number, the \<^verbatim>\<open>uint256\<close> returned, or an error. Counts and
  timestamps, which the source reads with \<^verbatim>\<open>parseInt\<close>, are the integers themselves (numbers below \<open>2\<^sup>5\<^sup>3\<close>).
\<close>

section \<open>The contracts and the client\<close>

datatype block_tag = BlockNumber int | BlockName string

record backend_trove =
  bt_status :: nat
  bt_coll :: nat
  bt_debt :: nat
  bt_stake :: nat

record combined_trove =
  ct_owner :: string
  ct_debt :: nat
  ct_coll :: nat
  ct_stake :: nat
  ct_snapshotETH :: nat
  ct_snapshotHCHFDebt :: nat

record contracts =
  collSurplusPool_getCollateral :: "string \<Rightarrow> block_tag option \<Rightarrow> nat result"
  troveManager_L_ETH :: "block_tag option \<Rightarrow> nat result"
  troveManager_L_HCHFDebt :: "block_tag option \<Rightarrow> nat result"
  troveManager_Troves :: "string \<Rightarrow> block_tag option \<Rightarrow> backend_trove result"
  troveManager_rewardSnapshots :: "string \<Rightarrow> block_tag option \<Rightarrow> (nat \<times> nat) result"
  troveManager_getTroveOwnersCount :: "block_tag option \<Rightarrow> nat result"
  troveManager_lastFeeOperationTime :: "block_tag option \<Rightarrow> nat result"
  troveManager_baseRate :: "block_tag option \<Rightarrow> nat result"
  priceFeed_fetchPrice :: "block_tag option \<Rightarrow> nat result"
  activePool_getETH :: "block_tag option \<Rightarrow> nat result"
  activePool_getHCHFDebt :: "block_tag option \<Rightarrow> nat result"
  defaultPool_getETH :: "block_tag option \<Rightarrow> nat result"
  defaultPool_getHCHFDebt :: "block_tag option \<Rightarrow> nat result"
  stabilityPool_deposits :: "string \<Rightarrow> block_tag option \<Rightarrow> (nat \<times> string) result"
  stabilityPool_getCompoundedHCHFDeposit :: "string \<Rightarrow> block_tag option \<Rightarrow> nat result"
  stabilityPool_getDepositorETHGain :: "string \<Rightarrow> block_tag option \<Rightarrow> nat result"
  stabilityPool_getDepositorHLQTGain :: "string \<Rightarrow> block_tag option \<Rightarrow> nat result"
  stabilityPool_getTotalHCHFDeposits :: "block_tag option \<Rightarrow> nat result"
  stabilityPool_frontEnds :: "string \<Rightarrow> block_tag option \<Rightarrow> (bool \<times> nat) result"
  communityIssuance_totalHLQTIssued :: "block_tag option \<Rightarrow> nat result"
  hchfToken_balanceOf :: "string \<Rightarrow> block_tag option \<Rightarrow> nat result"
  hchfToken_getTokenAddress :: "block_tag option \<Rightarrow> string result"
  hchfToken_tokenAddress :: "block_tag option \<Rightarrow> string result"
  hlqtToken_balanceOf :: "string \<Rightarrow> block_tag option \<Rightarrow> nat result"
  hlqtToken_getTokenAddress :: "block_tag option \<Rightarrow> string result"
  hlqtToken_tokenAddress :: "block_tag option \<Rightarrow> string result"
  erc20_balanceOf :: "string \<Rightarrow> string \<Rightarrow> block_tag option \<Rightarrow> nat result"
  erc20_allowance :: "string \<Rightarrow> string \<Rightarrow> string \<Rightarrow> block_tag option \<Rightarrow> nat result"
  unipool_uniToken :: "block_tag option \<Rightarrow> string result"
  unipool_rewardPerToken :: "string \<Rightarrow> block_tag option \<Rightarrow> nat result"
  unipool_totalSupply :: "block_tag option \<Rightarrow> nat result"
  unipool_rewardRate :: "block_tag option \<Rightarrow> nat result"
  unipool_periodFinish :: "block_tag option \<Rightarrow> nat result"
  unipool_lastUpdateTime :: "block_tag option \<Rightarrow> nat result"
  unipool_balanceOf :: "string \<Rightarrow> block_tag option \<Rightarrow> nat result"
  unipool_earned :: "string \<Rightarrow> block_tag option \<Rightarrow> nat result"
  multiTroveGetter_getMultipleSortedTroves :: "int \<Rightarrow> int \<Rightarrow> block_tag option \<Rightarrow> combined_trove list result"
  hlqtStaking_stakes :: "string \<Rightarrow> block_tag option \<Rightarrow> nat result"
  hlqtStaking_getPendingETHGain :: "string \<Rightarrow> block_tag option \<Rightarrow> nat result"
  hlqtStaking_getPendingHCHFGain :: "string \<Rightarrow> block_tag option \<Rightarrow> nat result"
  hlqtStaking_totalHLQTStaked :: "block_tag option \<Rightarrow> nat result"
  web3_getBalance :: "string \<Rightarrow> block_tag option \<Rightarrow> nat result"
  web3_getBlock_timestamp :: "block_tag option \<Rightarrow> nat result"

record client =
  userAccountAddress :: string
  userAccountIdString :: string
  frontendAddress :: string
  totalStabilityPoolHlqtReward :: decimal
  mirrorNodeBaseUrl :: string
  client_constants :: constants
  hchfTokenContractAddress :: string
  hlqtTokenContractAddress :: string
  saucerSwapPoolAddress :: string

definition AddressZero :: string where
  "AddressZero = ''0x0000000000000000000000000000000000000000''"

definition decimalify :: "nat \<Rightarrow> decimal result" where
  "decimalify n = Decimal_fromBigNumberString (int n)"

definition getAddressOrUserAddress :: "client \<Rightarrow> string option \<Rightarrow> string" where
  "getAddressOrUserAddress this address =
     (case address of Some a \<Rightarrow> (if a \<noteq> [] then a else userAccountAddress this) | None \<Rightarrow> userAccountAddress this)"

text \<open>
  The status codes of \<^verbatim>\<open>BackendTroveStatus\<close> (\<^verbatim>\<open>trove_status.ts\<close>), 0 to 4 in the order of the
  enumeration.
\<close>

definition userTroveStatusFrom :: "nat \<Rightarrow> user_trove_status result" where
  "userTroveStatusFrom backendStatus =
     (if backendStatus = 0 then Inr NonExistent
      else if backendStatus = 1 then Inr Open
      else if backendStatus = 2 then Inr ClosedByOwner
      else if backendStatus = 3 then Inr ClosedByLiquidation
      else if backendStatus = 4 then Inr ClosedByRedemption
      else Inl (Error (''invalid backendStatus '' @ show_nat backendStatus)))"

text \<open>A call followed by \<^verbatim>\<open>decimalify\<close>.\<close>

definition read_decimal :: "nat result \<Rightarrow> decimal result" where
  "read_decimal r = rbind r decimalify"

section \<open>Readers\<close>

definition Hashgraph_getCollateralSurplusBalance ::
  "client \<Rightarrow> contracts \<Rightarrow> string option \<Rightarrow> block_tag option \<Rightarrow> decimal result" where
  "Hashgraph_getCollateralSurplusBalance this k address blockTag =
     read_decimal (collSurplusPool_getCollateral k (getAddressOrUserAddress this address) blockTag)"

definition Hashgraph_getTotalRedistributed :: "client \<Rightarrow> contracts \<Rightarrow> block_tag option \<Rightarrow> trove result" where
  "Hashgraph_getTotalRedistributed this k blockTag =
     rbind (troveManager_L_ETH k blockTag) (\<lambda>collateralResult.
     rbind (troveManager_L_HCHFDebt k blockTag) (\<lambda>debtResult.
     rbind (decimalify collateralResult) (\<lambda>collateral'.
     rbind (decimalify debtResult) (\<lambda>debt'.
     Inr (new_Trove (client_constants this) collateral' debt')))))"

definition Hashgraph_getTroveBeforeRedistribution ::
  "client \<Rightarrow> contracts \<Rightarrow> string option \<Rightarrow> block_tag option \<Rightarrow> pending_trove result" where
  "Hashgraph_getTroveBeforeRedistribution this k address blockTag =
     (let owner = getAddressOrUserAddress this address in
      rbind (troveManager_Troves k owner blockTag) (\<lambda>troveResult.
      rbind (troveManager_rewardSnapshots k owner blockTag) (\<lambda>(snapshotETH, snapshotDebt).
      rbind (userTroveStatusFrom (bt_status troveResult)) (\<lambda>userTroveStatus.
      if bt_status troveResult = 1
      then rbind (decimalify snapshotETH) (\<lambda>sc.
           rbind (decimalify snapshotDebt) (\<lambda>sd.
           rbind (decimalify (bt_coll troveResult)) (\<lambda>c.
           rbind (decimalify (bt_debt troveResult)) (\<lambda>d.
           rbind (decimalify (bt_stake troveResult)) (\<lambda>st.
           Inr (new_PendingTrove (client_constants this) owner userTroveStatus c d st
                  (new_Trove (client_constants this) sc sd)))))))
      else Inr (empty_PendingTrove (client_constants this) owner userTroveStatus)))))"

definition Hashgraph_getTrove :: "client \<Rightarrow> contracts \<Rightarrow> string option \<Rightarrow> user_trove result" where
  "Hashgraph_getTrove this k address =
     rbind (Hashgraph_getTroveBeforeRedistribution this k address None) (\<lambda>trove'.
     rbind (Hashgraph_getTotalRedistributed this k None) (\<lambda>redistributed.
     Inr (applyRedistribution trove' redistributed)))"

definition Hashgraph_getNumberOfTroves :: "contracts \<Rightarrow> block_tag option \<Rightarrow> int result" where
  "Hashgraph_getNumberOfTroves k blockTag =
     rbind (troveManager_getTroveOwnersCount k blockTag) (\<lambda>n. Inr (int n))"

definition Hashgraph_getPrice :: "contracts \<Rightarrow> block_tag option \<Rightarrow> decimal result" where
  "Hashgraph_getPrice k blockTag = read_decimal (priceFeed_fetchPrice k blockTag)"

definition Hashgraph_getTotal :: "client \<Rightarrow> contracts \<Rightarrow> block_tag option \<Rightarrow> trove result" where
  "Hashgraph_getTotal this k blockTag =
     rbind (read_decimal (activePool_getETH k blockTag)) (\<lambda>activeCollateral.
     rbind (read_decimal (activePool_getHCHFDebt k blockTag)) (\<lambda>activeDebt.
     rbind (read_decimal (defaultPool_getETH k blockTag)) (\<lambda>liquidatedCollateral.
     rbind (read_decimal (defaultPool_getHCHFDebt k blockTag)) (\<lambda>closedDebt.
     let activePool = new_Trove (client_constants this) activeCollateral activeDebt;
         defaultPool = new_Trove (client_constants this) liquidatedCollateral closedDebt
     in Inr (Trove_add activePool defaultPool)))))"

definition Hashgraph_getStabilityDeposit ::
  "client \<Rightarrow> contracts \<Rightarrow> string option \<Rightarrow> block_tag option \<Rightarrow> stability_deposit result" where
  "Hashgraph_getStabilityDeposit this k address blockTag =
     (let owner = getAddressOrUserAddress this address in
      rbind (stabilityPool_deposits k owner blockTag) (\<lambda>(initialValue, tag).
      rbind (read_decimal (stabilityPool_getCompoundedHCHFDeposit k owner blockTag)) (\<lambda>current.
      rbind (read_decimal (stabilityPool_getDepositorETHGain k owner blockTag)) (\<lambda>gain.
      rbind (read_decimal (stabilityPool_getDepositorHLQTGain k owner blockTag)) (\<lambda>reward.
      rbind (decimalify initialValue) (\<lambda>initial.
      new_StabilityDeposit initial current gain reward tag))))))"

definition Hashgraph_getRemainingStabilityPoolHLQTReward ::
  "client \<Rightarrow> contracts \<Rightarrow> block_tag option \<Rightarrow> decimal result" where
  "Hashgraph_getRemainingStabilityPoolHLQTReward this k blockTag =
     rbind (read_decimal (communityIssuance_totalHLQTIssued k blockTag)) (\<lambda>totalHlqtIssued.
     Decimal_sub (totalStabilityPoolHlqtReward this) totalHlqtIssued)"

definition Hashgraph_getHCHFInStabilityPool :: "contracts \<Rightarrow> block_tag option \<Rightarrow> decimal result" where
  "Hashgraph_getHCHFInStabilityPool k blockTag = read_decimal (stabilityPool_getTotalHCHFDeposits k blockTag)"

definition Hashgraph_getHCHFBalance ::
  "client \<Rightarrow> contracts \<Rightarrow> string option \<Rightarrow> block_tag option \<Rightarrow> decimal result" where
  "Hashgraph_getHCHFBalance this k address blockTag =
     read_decimal (hchfToken_balanceOf k (getAddressOrUserAddress this address) blockTag)"

definition Hashgraph_getHCHFTokenAddress :: "contracts \<Rightarrow> block_tag option \<Rightarrow> string result" where
  "Hashgraph_getHCHFTokenAddress k blockTag = hchfToken_getTokenAddress k blockTag"

definition Hashgraph_getHLQTTokenAddress :: "contracts \<Rightarrow> block_tag option \<Rightarrow> string result" where
  "Hashgraph_getHLQTTokenAddress k blockTag = hlqtToken_getTokenAddress k blockTag"

definition Hashgraph_getHchfTokenAllowanceOfHchfContract ::
  "client \<Rightarrow> contracts \<Rightarrow> string option \<Rightarrow> block_tag option \<Rightarrow> decimal result" where
  "Hashgraph_getHchfTokenAllowanceOfHchfContract this k address blockTag =
     rbind (Hashgraph_getHCHFTokenAddress k blockTag) (\<lambda>tokenAddress.
     read_decimal (erc20_allowance k tokenAddress (getAddressOrUserAddress this address)
       (hchfTokenContractAddress this) blockTag))"

definition Hashgraph_getHLQTBalance ::
  "client \<Rightarrow> contracts \<Rightarrow> string option \<Rightarrow> block_tag option \<Rightarrow> decimal result" where
  "Hashgraph_getHLQTBalance this k address blockTag =
     read_decimal (hlqtToken_balanceOf k (getAddressOrUserAddress this address) blockTag)"

definition Hashgraph_getHlqtTokenAllowanceOfHlqtContract ::
  "client \<Rightarrow> contracts \<Rightarrow> string option \<Rightarrow> block_tag option \<Rightarrow> decimal result" where
  "Hashgraph_getHlqtTokenAllowanceOfHlqtContract this k address blockTag =
     rbind (Hashgraph_getHLQTTokenAddress k blockTag) (\<lambda>tokenAddress.
     read_decimal (erc20_allowance k tokenAddress (getAddressOrUserAddress this address)
       (hlqtTokenContractAddress this) blockTag))"

definition Hashgraph_getUniTokenBalance ::
  "client \<Rightarrow> contracts \<Rightarrow> string option \<Rightarrow> block_tag option \<Rightarrow> decimal result" where
  "Hashgraph_getUniTokenBalance this k address blockTag =
     rbind (unipool_uniToken k None) (\<lambda>uniTokenAddress.
     read_decimal (erc20_balanceOf k uniTokenAddress (getAddressOrUserAddress this address) blockTag))"

definition Hashgraph_getLPReward ::
  "client \<Rightarrow> contracts \<Rightarrow> string option \<Rightarrow> block_tag option \<Rightarrow> decimal result" where
  "Hashgraph_getLPReward this k address blockTag =
     read_decimal (unipool_rewardPerToken k (getAddressOrUserAddress this address) blockTag)"

definition Hashgraph_getUniTokenAllowance ::
  "client \<Rightarrow> contracts \<Rightarrow> string option \<Rightarrow> block_tag option \<Rightarrow> decimal result" where
  "Hashgraph_getUniTokenAllowance this k address blockTag =
     rbind (unipool_uniToken k None) (\<lambda>uniTokenAddress.
     read_decimal (erc20_allowance k uniTokenAddress (getAddressOrUserAddress this address)
       (saucerSwapPoolAddress this) blockTag))"

text \<open>The seconds are a JavaScript number, which \<^verbatim>\<open>mul\<close> converts through its text.\<close>

definition Hashgraph_getRemainingLiquidityMiningHLQTReward ::
  "contracts \<Rightarrow> block_tag option \<Rightarrow> decimal result" where
  "Hashgraph_getRemainingLiquidityMiningHLQTReward k blockTag =
     rbind (read_decimal (unipool_totalSupply k blockTag)) (\<lambda>totalSupply.
     rbind (read_decimal (unipool_rewardRate k blockTag)) (\<lambda>rewardRate.
     rbind (unipool_periodFinish k blockTag) (\<lambda>periodFinish.
     rbind (unipool_lastUpdateTime k blockTag) (\<lambda>lastUpdateTime.
     rbind (web3_getBlock_timestamp k blockTag) (\<lambda>blockTimestamp.
     let since = (if Decimal_eq totalSupply Decimal_ZERO then lastUpdateTime else blockTimestamp);
         seconds = max 0 (int periodFinish - int since)
     in rbind (Decimal_from (Number (show_nat (nat seconds)))) (\<lambda>m.
        Inr (Decimal_mul rewardRate m)))))))"

definition Hashgraph_getLiquidityMiningStake ::
  "client \<Rightarrow> contracts \<Rightarrow> string option \<Rightarrow> block_tag option \<Rightarrow> decimal result" where
  "Hashgraph_getLiquidityMiningStake this k address blockTag =
     read_decimal (unipool_balanceOf k (getAddressOrUserAddress this address) blockTag)"

definition Hashgraph_getTotalStakedUniTokens :: "contracts \<Rightarrow> block_tag option \<Rightarrow> decimal result" where
  "Hashgraph_getTotalStakedUniTokens k blockTag = read_decimal (unipool_totalSupply k blockTag)"

definition Hashgraph_getLiquidityMiningHLQTReward ::
  "client \<Rightarrow> contracts \<Rightarrow> string option \<Rightarrow> block_tag option \<Rightarrow> decimal result" where
  "Hashgraph_getLiquidityMiningHLQTReward this k address blockTag =
     read_decimal (unipool_earned k (getAddressOrUserAddress this address) blockTag)"

definition expectPositiveInt :: "string \<Rightarrow> int option \<Rightarrow> unit result" where
  "expectPositiveInt key value = (case value of
      Some v \<Rightarrow> (if v < 0 then Inl (Error (key @ '' must not be negative'')) else Inr ())
    | None \<Rightarrow> Inr ())"

definition trove_from_backend :: "client \<Rightarrow> combined_trove \<Rightarrow> pending_trove result" where
  "trove_from_backend this backendTrove =
     rbind (decimalify (ct_snapshotETH backendTrove)) (\<lambda>sc.
     rbind (decimalify (ct_snapshotHCHFDebt backendTrove)) (\<lambda>sd.
     rbind (decimalify (ct_coll backendTrove)) (\<lambda>c.
     rbind (decimalify (ct_debt backendTrove)) (\<lambda>d.
     rbind (decimalify (ct_stake backendTrove)) (\<lambda>st.
     Inr (new_PendingTrove (client_constants this) (ct_owner backendTrove) Open c d st
            (new_Trove (client_constants this) sc sd)))))))"

text \<open>
  \<^verbatim>\<open>first\<close> and \<^verbatim>\<open>startingAt\<close> are integers here, and \<^verbatim>\<open>sortedBy\<close> is one of its two values, so the checks of
  these two things cannot fail. The two reads are started at once; the model looks at the listing first.
\<close>

definition Hashgraph_getTroves ::
  "client \<Rightarrow> contracts \<Rightarrow> listing_params \<Rightarrow> block_tag option \<Rightarrow> trove_listing result" where
  "Hashgraph_getTroves this k params blockTag =
     rbind (expectPositiveInt ''first'' (Some (listing_first params))) (\<lambda>_.
     rbind (expectPositiveInt ''startingAt'' (listing_startingAt params)) (\<lambda>_.
     let startingAt = (case listing_startingAt params of Some i \<Rightarrow> i | None \<Rightarrow> 0);
         startIdx = (case listing_sortedBy params of
             DescendingCollateralRatio \<Rightarrow> startingAt | AscendingCollateralRatio \<Rightarrow> - (startingAt + 1))
     in rbind (multiTroveGetter_getMultipleSortedTroves k startIdx (listing_first params) blockTag) (\<lambda>backendTroves.
        rbind (if listing_before params then Inr None
               else rbind (Hashgraph_getTotalRedistributed this k blockTag) (\<lambda>t. Inr (Some t))) (\<lambda>redistributed.
        rbind (mapM (trove_from_backend this) backendTroves) (\<lambda>troves.
        case redistributed of
          Some t \<Rightarrow> Inr (Current (map (\<lambda>trove'. applyRedistribution trove' t) troves))
        | None \<Rightarrow> Inr (Before troves))))))"

definition Hashgraph_getFees :: "client \<Rightarrow> contracts \<Rightarrow> block_tag option \<Rightarrow> fees result" where
  "Hashgraph_getFees this k blockTag =
     rbind (troveManager_lastFeeOperationTime k blockTag) (\<lambda>lastFeeOperationTime.
     rbind (troveManager_baseRate k blockTag) (\<lambda>baseRateResult.
     rbind (Hashgraph_getTotal this k blockTag) (\<lambda>total'.
     rbind (Hashgraph_getPrice k blockTag) (\<lambda>price'.
     rbind (web3_getBlock_timestamp k blockTag) (\<lambda>blockTimestamp.
     rbind (decimalify baseRateResult) (\<lambda>base.
     new_Fees (DecimalObject base) (DecimalObject (MINUTE_DECAY_FACTOR (client_constants this)))
       (DecimalObject (BETA (client_constants this))) (int lastFeeOperationTime * 1000) (int blockTimestamp * 1000)
       (Trove_collateralRatioIsBelowCritical total' price') (client_constants this)))))))"

definition Hashgraph_getHLQTStake ::
  "client \<Rightarrow> contracts \<Rightarrow> string option \<Rightarrow> block_tag option \<Rightarrow> hlqt_stake result" where
  "Hashgraph_getHLQTStake this k address blockTag =
     (let owner = getAddressOrUserAddress this address in
      rbind (read_decimal (hlqtStaking_stakes k owner blockTag)) (\<lambda>staked.
      rbind (read_decimal (hlqtStaking_getPendingETHGain k owner blockTag)) (\<lambda>gain.
      rbind (read_decimal (hlqtStaking_getPendingHCHFGain k owner blockTag)) (\<lambda>hchf.
      Inr (new_HLQTStake staked gain hchf)))))"

definition Hashgraph_getTotalStakedHLQT :: "contracts \<Rightarrow> block_tag option \<Rightarrow> decimal result" where
  "Hashgraph_getTotalStakedHLQT k blockTag = read_decimal (hlqtStaking_totalHLQTStaked k blockTag)"

definition Hashgraph_getFrontendStatus ::
  "client \<Rightarrow> contracts \<Rightarrow> string option \<Rightarrow> block_tag option \<Rightarrow> frontend_status result" where
  "Hashgraph_getFrontendStatus this k address blockTag =
     rbind (stabilityPool_frontEnds k (case address of Some a \<Rightarrow> a | None \<Rightarrow> frontendAddress this) blockTag)
       (\<lambda>(registered, kickbackRate).
         if registered then rbind (decimalify kickbackRate) (\<lambda>r. Inr (Registered r)) else Inr Unregistered)"

section \<open>The snapshot for the store\<close>

text \<open>
  The mirror node's \<^verbatim>\<open>fetch\<close>, and the conversion \<^verbatim>\<open>TokenId.fromSolidityAddress(a).toString()\<close> of the Hashgraph
  SDK, are arguments.
\<close>

record mirror =
  mirror_fetch :: "string \<Rightarrow> response result"
  mirror_stringify :: "response \<Rightarrow> string"
  tokenIdString :: "string \<Rightarrow> string result"

definition getTokenIds :: "contracts \<Rightarrow> mirror \<Rightarrow> string list result" where
  "getTokenIds k m =
     rbind (hchfToken_tokenAddress k None) (\<lambda>hchfTokenAddress'.
     rbind (hlqtToken_tokenAddress k None) (\<lambda>hlqtTokenAddress'.
     rbind (unipool_uniToken k None) (\<lambda>lpTokenAddress.
     mapM (tokenIdString m) [hchfTokenAddress', hlqtTokenAddress', lpTokenAddress])))"

definition tokenAssociations :: "client \<Rightarrow> contracts \<Rightarrow> mirror \<Rightarrow> bool list result" where
  "tokenAssociations this k m =
     rbind (getTokenIds k m) (\<lambda>ids.
     let associated = (case fetchTokens (mirror_fetch m) (mirror_stringify m)
             \<lparr>tokenIds = ids, apiBaseUrl = mirrorNodeBaseUrl this,
              account_of = AccountIdString (userAccountIdString this)\<rparr> of
           Inr tokens \<Rightarrow> tokens | Inl _ \<Rightarrow> [])
     in Inr (map (\<lambda>i. i \<in> set associated) ids))"

record user_values =
  uv_accountBalance :: decimal
  uv_hchfBalance :: decimal
  uv_hchfTokenAddress :: string
  uv_hlqtTokenAddress :: string
  uv_hlqtBalance :: decimal
  uv_uniTokenBalance :: decimal
  uv_uniTokenAllowance :: decimal
  uv_liquidityMiningStake :: decimal
  uv_liquidityMiningHLQTReward :: decimal
  uv_collateralSurplusBalance :: decimal
  uv_troveBeforeRedistribution :: pending_trove
  uv_stabilityDeposit :: stability_deposit
  uv_hlqtStake :: hlqt_stake
  uv_ownFrontend :: frontend_status
  uv_hchfTokenAllowance :: decimal
  uv_hlqtTokenAllowance :: decimal

definition no_user_values :: "client \<Rightarrow> user_values" where
  "no_user_values this = \<lparr>uv_accountBalance = Decimal_ZERO, uv_hchfBalance = Decimal_ZERO,
     uv_hchfTokenAddress = ''0x'', uv_hlqtTokenAddress = ''0x'', uv_hlqtBalance = Decimal_ZERO,
     uv_uniTokenBalance = Decimal_ZERO, uv_uniTokenAllowance = Decimal_ZERO,
     uv_liquidityMiningStake = Decimal_ZERO, uv_liquidityMiningHLQTReward = Decimal_ZERO,
     uv_collateralSurplusBalance = Decimal_ZERO,
     uv_troveBeforeRedistribution = empty_PendingTrove (client_constants this) AddressZero NonExistent,
     uv_stabilityDeposit = empty_StabilityDeposit\<lparr>frontendTag := AddressZero\<rparr>,
     uv_hlqtStake = empty_HLQTStake, uv_ownFrontend = Unregistered,
     uv_hchfTokenAllowance = Decimal_ZERO, uv_hlqtTokenAllowance = Decimal_ZERO\<rparr>"

definition fetch_user_values :: "client \<Rightarrow> contracts \<Rightarrow> block_tag option \<Rightarrow> user_values result" where
  "fetch_user_values this k blockTag =
     (let user = userAccountAddress this in
      if user = [] then Inr (no_user_values this)
      else
      rbind (rbind (web3_getBalance k user blockTag) (\<lambda>n. Decimal_fromBigNumberStringWithPrecision (int n) 18)) (\<lambda>v1.
      rbind (Hashgraph_getHCHFBalance this k (Some user) blockTag) (\<lambda>v2.
      rbind (Hashgraph_getHCHFTokenAddress k blockTag) (\<lambda>v3.
      rbind (Hashgraph_getHLQTTokenAddress k blockTag) (\<lambda>v4.
      rbind (Hashgraph_getHLQTBalance this k (Some user) blockTag) (\<lambda>v5.
      rbind (Hashgraph_getUniTokenBalance this k (Some user) blockTag) (\<lambda>v6.
      rbind (Hashgraph_getUniTokenAllowance this k (Some user) blockTag) (\<lambda>v7.
      rbind (Hashgraph_getLiquidityMiningStake this k (Some user) blockTag) (\<lambda>v8.
      rbind (Hashgraph_getLiquidityMiningHLQTReward this k (Some user) blockTag) (\<lambda>v9.
      rbind (Hashgraph_getCollateralSurplusBalance this k (Some user) blockTag) (\<lambda>v10.
      rbind (Hashgraph_getTroveBeforeRedistribution this k (Some user) blockTag) (\<lambda>v11.
      rbind (Hashgraph_getStabilityDeposit this k (Some user) blockTag) (\<lambda>v12.
      rbind (Hashgraph_getHLQTStake this k (Some user) blockTag) (\<lambda>v13.
      rbind (Hashgraph_getFrontendStatus this k (Some user) blockTag) (\<lambda>v14.
      rbind (Hashgraph_getHchfTokenAllowanceOfHchfContract this k (Some user) blockTag) (\<lambda>v15.
      rbind (Hashgraph_getHlqtTokenAllowanceOfHlqtContract this k (Some user) blockTag) (\<lambda>v16.
      Inr \<lparr>uv_accountBalance = v1, uv_hchfBalance = v2, uv_hchfTokenAddress = v3, uv_hlqtTokenAddress = v4,
           uv_hlqtBalance = v5, uv_uniTokenBalance = v6, uv_uniTokenAllowance = v7, uv_liquidityMiningStake = v8,
           uv_liquidityMiningHLQTReward = v9, uv_collateralSurplusBalance = v10,
           uv_troveBeforeRedistribution = v11, uv_stabilityDeposit = v12, uv_hlqtStake = v13,
           uv_ownFrontend = v14, uv_hchfTokenAllowance = v15, uv_hlqtTokenAllowance = v16\<rparr>)))))))))))))))))"

text \<open>
  The promises of \<^verbatim>\<open>promiseAllValues\<close> are read in the order of its argument; any rejection rejects the whole
  (which one is reported does not matter to its callers). The extra state is the object with the block tag and
  the block's time.
\<close>

definition fetchStoreValues :: "client \<Rightarrow> contracts \<Rightarrow> mirror \<Rightarrow> (string \<Rightarrow> nat) \<Rightarrow> block_tag option
    \<Rightarrow> (base_state \<times> js_object) result" where
  "fetchStoreValues this k m ids blockTag =
     rbind (tokenAssociations this k m) (\<lambda>associations.
     rbind (web3_getBlock_timestamp k blockTag) (\<lambda>blockTimestamp.
     rbind (Hashgraph_getRemainingLiquidityMiningHLQTReward k blockTag) (\<lambda>calculateRemainingHLQT.
     rbind (troveManager_lastFeeOperationTime k blockTag) (\<lambda>lastFeeOperationTime.
     rbind (troveManager_baseRate k blockTag) (\<lambda>baseRateResult.
     rbind (Hashgraph_getPrice k blockTag) (\<lambda>price'.
     rbind (Hashgraph_getNumberOfTroves k blockTag) (\<lambda>numberOfTroves'.
     rbind (Hashgraph_getTotalRedistributed this k blockTag) (\<lambda>totalRedistributed'.
     rbind (Hashgraph_getTotal this k blockTag) (\<lambda>total'.
     rbind (Hashgraph_getHCHFInStabilityPool k blockTag) (\<lambda>hchfInStabilityPool'.
     rbind (Hashgraph_getTotalStakedHLQT k blockTag) (\<lambda>totalStakedHLQT'.
     rbind (userTroveStatusFrom 0) (\<lambda>riskiestStatus.
     rbind (Hashgraph_getTotalStakedUniTokens k blockTag) (\<lambda>totalStakedUniTokens'.
     rbind (Hashgraph_getRemainingStabilityPoolHLQTReward this k blockTag) (\<lambda>remainingStabilityPoolHLQTReward'.
     rbind (if frontendAddress this \<noteq> []
            then Hashgraph_getFrontendStatus this k (Some (frontendAddress this)) blockTag
            else Inr Unregistered) (\<lambda>frontend'.
     rbind (fetch_user_values this k blockTag) (\<lambda>user.
     rbind (decimalify baseRateResult) (\<lambda>baseRateWithoutDecay'.
     rbind (new_Fees (DecimalObject baseRateWithoutDecay')
              (DecimalObject (MINUTE_DECAY_FACTOR (client_constants this)))
              (DecimalObject (BETA (client_constants this))) (int lastFeeOperationTime * 1000)
              (int blockTimestamp * 1000) False (client_constants this)) (\<lambda>feesInNormalMode'.
     Inr (\<lparr>frontend = Object (ids ''frontend'') frontend',
           ownFrontend = Object (ids ''ownFrontend'') (uv_ownFrontend user),
           numberOfTroves = numberOfTroves',
           accountBalance = Object (ids ''accountBalance'') (uv_accountBalance user),
           hchfBalance = Object (ids ''hchfBalance'') (uv_hchfBalance user),
           hchfTokenAddress = uv_hchfTokenAddress user,
           hlqtTokenAddress = uv_hlqtTokenAddress user,
           hlqtBalance = Object (ids ''hlqtBalance'') (uv_hlqtBalance user),
           uniTokenBalance = Object (ids ''uniTokenBalance'') (uv_uniTokenBalance user),
           uniTokenAllowance = Object (ids ''uniTokenAllowance'') (uv_uniTokenAllowance user),
           remainingLiquidityMiningHLQTReward =
             Object (ids ''remainingLiquidityMiningHLQTReward'') calculateRemainingHLQT,
           liquidityMiningStake = Object (ids ''liquidityMiningStake'') (uv_liquidityMiningStake user),
           totalStakedUniTokens = Object (ids ''totalStakedUniTokens'') totalStakedUniTokens',
           liquidityMiningHLQTReward =
             Object (ids ''liquidityMiningHLQTReward'') (uv_liquidityMiningHLQTReward user),
           collateralSurplusBalance =
             Object (ids ''collateralSurplusBalance'') (uv_collateralSurplusBalance user),
           price = Object (ids ''price'') price',
           hchfInStabilityPool = Object (ids ''hchfInStabilityPool'') hchfInStabilityPool',
           total = Object (ids ''total'') total',
           totalRedistributed = Object (ids ''totalRedistributed'') totalRedistributed',
           troveBeforeRedistribution =
             Object (ids ''troveBeforeRedistribution'') (uv_troveBeforeRedistribution user),
           stabilityDeposit = Object (ids ''stabilityDeposit'') (uv_stabilityDeposit user),
           remainingStabilityPoolHLQTReward =
             Object (ids ''remainingStabilityPoolHLQTReward'') remainingStabilityPoolHLQTReward',
           feesInNormalMode = Object (ids ''_feesInNormalMode'') feesInNormalMode',
           hlqtStake = Object (ids ''hlqtStake'') (uv_hlqtStake user),
           totalStakedHLQT = Object (ids ''totalStakedHLQT'') totalStakedHLQT',
           riskiestTroveBeforeRedistribution = Object (ids ''_riskiestTroveBeforeRedistribution'')
             (empty_PendingTrove (client_constants this) (userAccountAddress this) riskiestStatus),
           userHasAssociatedWithHchf = associations ! 0,
           userHasAssociatedWithHlqt = associations ! 1,
           userHasAssociatedWithLpToken = associations ! 2,
           hchfTokenAllowanceOfHchfContract =
             Object (ids ''hchfTokenAllowanceOfHchfContract'') (uv_hchfTokenAllowance user),
           hlqtTokenAllowanceOfHlqtContract =
             Object (ids ''hlqtTokenAllowanceOfHlqtContract'') (uv_hlqtTokenAllowance user)\<rparr>,
          [(''blockTag'', case blockTag of
              None \<Rightarrow> UndefinedValue | Some (BlockNumber n) \<Rightarrow> NumberValue n | Some (BlockName s) \<Rightarrow> StringValue s),
           (''blockTimestamp'', NumberValue (int blockTimestamp))])))))))))))))))))))"

definition update_of :: "base_state \<Rightarrow> base_state_update" where
  "update_of b = \<lparr>
     new_frontend = Some (frontend b),
     new_ownFrontend = Some (ownFrontend b),
     new_numberOfTroves = Some (numberOfTroves b),
     new_accountBalance = Some (accountBalance b),
     new_hchfBalance = Some (hchfBalance b),
     new_hchfTokenAddress = Some (hchfTokenAddress b),
     new_hlqtTokenAddress = Some (hlqtTokenAddress b),
     new_hlqtBalance = Some (hlqtBalance b),
     new_uniTokenBalance = Some (uniTokenBalance b),
     new_uniTokenAllowance = Some (uniTokenAllowance b),
     new_remainingLiquidityMiningHLQTReward = Some (remainingLiquidityMiningHLQTReward b),
     new_liquidityMiningStake = Some (liquidityMiningStake b),
     new_totalStakedUniTokens = Some (totalStakedUniTokens b),
     new_liquidityMiningHLQTReward = Some (liquidityMiningHLQTReward b),
     new_collateralSurplusBalance = Some (collateralSurplusBalance b),
     new_price = Some (price b),
     new_hchfInStabilityPool = Some (hchfInStabilityPool b),
     new_total = Some (total b),
     new_totalRedistributed = Some (totalRedistributed b),
     new_troveBeforeRedistribution = Some (troveBeforeRedistribution b),
     new_stabilityDeposit = Some (stabilityDeposit b),
     new_remainingStabilityPoolHLQTReward = Some (remainingStabilityPoolHLQTReward b),
     new_feesInNormalMode = Some (feesInNormalMode b),
     new_hlqtStake = Some (hlqtStake b),
     new_totalStakedHLQT = Some (totalStakedHLQT b),
     new_riskiestTroveBeforeRedistribution = Some (riskiestTroveBeforeRedistribution b),
     new_userHasAssociatedWithHchf = Some (userHasAssociatedWithHchf b),
     new_userHasAssociatedWithHlqt = Some (userHasAssociatedWithHlqt b),
     new_userHasAssociatedWithLpToken = Some (userHasAssociatedWithLpToken b),
     new_hchfTokenAllowanceOfHchfContract = Some (hchfTokenAllowanceOfHchfContract b),
     new_hlqtTokenAllowanceOfHlqtContract = Some (hlqtTokenAllowanceOfHlqtContract b)\<rparr>"

section \<open>Refreshing the store\<close>

definition hashgraph_subclass :: "(js_object, js_object) store_subclass" where
  "hashgraph_subclass = \<lparr>reduceExtra = object_assign, extra_entries = id\<rparr>"

text \<open>
  \<^verbatim>\<open>_doStart\<close> and \<^verbatim>\<open>refresh\<close> hand a snapshot to \<^verbatim>\<open>_update\<close> if the store is loaded, to \<^verbatim>\<open>_load\<close> otherwise;
  \<open>store_snapshot\<close> is that step. \<^verbatim>\<open>refresh\<close> reports an error of the reads or of the step on the console
  and returns the state in any case; \<^verbatim>\<open>_doStart\<close> leaves the rejection unhandled.
\<close>

definition store_snapshot :: "(string \<Rightarrow> nat) \<Rightarrow> (nat \<Rightarrow> callback) \<Rightarrow> (listener_action list \<times> js_error option) option
    \<Rightarrow> base_state \<times> js_object \<Rightarrow> js_object store \<Rightarrow> js_object store \<times> (listener_params \<times> nat list) result" where
  "store_snapshot ids call onLoaded values s =
     (if loaded s
      then store_update hashgraph_subclass ids call (Some (update_of (fst values))) (Some (snd values)) s
      else load hashgraph_subclass ids call onLoaded (fst values) (Some (snd values)) s)"

definition doStart :: "client \<Rightarrow> contracts \<Rightarrow> mirror \<Rightarrow> (string \<Rightarrow> nat) \<Rightarrow> (nat \<Rightarrow> callback)
    \<Rightarrow> (listener_action list \<times> js_error option) option \<Rightarrow> js_object store \<Rightarrow> js_object store" where
  "doStart this k m ids call onLoaded s = (case fetchStoreValues this k m ids None of
      Inr values \<Rightarrow> fst (store_snapshot ids call onLoaded values s) | Inl _ \<Rightarrow> s)"

definition refresh :: "client \<Rightarrow> contracts \<Rightarrow> mirror \<Rightarrow> (string \<Rightarrow> nat) \<Rightarrow> (nat \<Rightarrow> callback)
    \<Rightarrow> (listener_action list \<times> js_error option) option \<Rightarrow> js_object store \<Rightarrow> js_object store \<times> js_object" where
  "refresh this k m ids call onLoaded s =
     (let s' = (case fetchStoreValues this k m ids None of
          Inr values \<Rightarrow> fst (store_snapshot ids call onLoaded values s) | Inl _ \<Rightarrow> s)
      in (s', store_state hashgraph_subclass ids s'))"

section \<open>The client as a reader\<close>

text \<open>The methods called without options, that is, at the latest block.\<close>

definition Hashgraph_reader :: "client \<Rightarrow> contracts \<Rightarrow> unit reader" where
  "Hashgraph_reader this k = \<lparr>
     getTotalRedistributed = (\<lambda>_. Hashgraph_getTotalRedistributed this k None),
     getTroveBeforeRedistribution = (\<lambda>a _. Hashgraph_getTroveBeforeRedistribution this k a None),
     getTrove = (\<lambda>a _. Hashgraph_getTrove this k a),
     getNumberOfTroves = (\<lambda>_. Hashgraph_getNumberOfTroves k None),
     getPrice = (\<lambda>_. Hashgraph_getPrice k None),
     getTotal = (\<lambda>_. Hashgraph_getTotal this k None),
     getStabilityDeposit = (\<lambda>a _. Hashgraph_getStabilityDeposit this k a None),
     getRemainingStabilityPoolHLQTReward = (\<lambda>_. Hashgraph_getRemainingStabilityPoolHLQTReward this k None),
     getHCHFInStabilityPool = (\<lambda>_. Hashgraph_getHCHFInStabilityPool k None),
     getHCHFBalance = (\<lambda>a _. Hashgraph_getHCHFBalance this k a None),
     getHCHFTokenAddress = (\<lambda>_. Hashgraph_getHCHFTokenAddress k None),
     getHLQTTokenAddress = (\<lambda>_. Hashgraph_getHLQTTokenAddress k None),
     getHLQTBalance = (\<lambda>a _. Hashgraph_getHLQTBalance this k a None),
     getUniTokenBalance = (\<lambda>a _. Hashgraph_getUniTokenBalance this k a None),
     getUniTokenAllowance = (\<lambda>a _. Hashgraph_getUniTokenAllowance this k a None),
     getRemainingLiquidityMiningHLQTReward = (\<lambda>_. Hashgraph_getRemainingLiquidityMiningHLQTReward k None),
     getLiquidityMiningStake = (\<lambda>a _. Hashgraph_getLiquidityMiningStake this k a None),
     getTotalStakedUniTokens = (\<lambda>_. Hashgraph_getTotalStakedUniTokens k None),
     getLiquidityMiningHLQTReward = (\<lambda>a _. Hashgraph_getLiquidityMiningHLQTReward this k a None),
     getCollateralSurplusBalance = (\<lambda>a _. Hashgraph_getCollateralSurplusBalance this k a None),
     getTroves = (\<lambda>q _. Hashgraph_getTroves this k q None),
     getFees = (\<lambda>_. Hashgraph_getFees this k None),
     getHLQTStake = (\<lambda>a _. Hashgraph_getHLQTStake this k a None),
     getTotalStakedHLQT = (\<lambda>_. Hashgraph_getTotalStakedHLQT k None),
     getFrontendStatus = (\<lambda>a _. Hashgraph_getFrontendStatus this k a None),
     getHchfTokenAllowanceOfHchfContract = (\<lambda>a _. Hashgraph_getHchfTokenAllowanceOfHchfContract this k a None),
     getHlqtTokenAllowanceOfHlqtContract = (\<lambda>a _. Hashgraph_getHlqtTokenAllowanceOfHlqtContract this k a None)\<rparr>"

section \<open>Laws of the readers\<close>

lemma decimalify_eq [simp]: "decimalify n = Inr (Decimal n)"
  by (simp add: decimalify_def Decimal_fromBigNumberString_def)

definition listed_trove :: "client \<Rightarrow> combined_trove \<Rightarrow> pending_trove" where
  "listed_trove this c = new_PendingTrove (client_constants this) (ct_owner c) Open (Decimal (ct_coll c))
     (Decimal (ct_debt c)) (Decimal (ct_stake c))
     (new_Trove (client_constants this) (Decimal (ct_snapshotETH c)) (Decimal (ct_snapshotHCHFDebt c)))"

lemma trove_from_backend_eq [simp]: "trove_from_backend this = (\<lambda>c. Inr (listed_trove this c))"
  by (intro ext) (simp add: trove_from_backend_def listed_trove_def)

lemma getTroves_before_eq:
  "listing_before q \<Longrightarrow> Hashgraph_getTroves this k q t =
     rbind (expectPositiveInt ''first'' (Some (listing_first q))) (\<lambda>_.
     rbind (expectPositiveInt ''startingAt'' (listing_startingAt q)) (\<lambda>_.
     let s = (case listing_startingAt q of Some i \<Rightarrow> i | None \<Rightarrow> 0) in
     rbind (multiTroveGetter_getMultipleSortedTroves k (case listing_sortedBy q of
         DescendingCollateralRatio \<Rightarrow> s | AscendingCollateralRatio \<Rightarrow> - (s + 1)) (listing_first q) t) (\<lambda>cs.
     Inr (Before (map (listed_trove this) cs)))))"
  by (simp add: Hashgraph_getTroves_def mapM_Inr Let_def)

interpretation hashgraph: consistent_reader "Hashgraph_reader this k" for this k
proof
  fix a x
  show "getTrove (Hashgraph_reader this k) a x = rbind (getTroveBeforeRedistribution (Hashgraph_reader this k) a x) (\<lambda>t.
      rbind (getTotalRedistributed (Hashgraph_reader this k) x) (\<lambda>red. Inr (applyRedistribution t red)))"
    by (simp add: Hashgraph_reader_def Hashgraph_getTrove_def)
next
  fix q :: listing_params and x
  assume "listing_before q"
  then show "listing_before_only (getTroves (Hashgraph_reader this k) q x)"
    by (auto simp: Hashgraph_reader_def getTroves_before_eq listing_before_only_def Let_def rbind_eq_Inr_iff
        split: sum.split trove_listing.split)
next
  fix q :: listing_params and x
  assume "\<not> listing_before q"
  then show "getTroves (Hashgraph_reader this k) q x =
      rbind (getTroves (Hashgraph_reader this k) (q\<lparr>listing_before := True\<rparr>) x) (\<lambda>l.
      rbind (getTotalRedistributed (Hashgraph_reader this k) x) (\<lambda>red.
      case l of Before ts \<Rightarrow> Inr (Current (map (\<lambda>t. applyRedistribution t red) ts)) | Current ts \<Rightarrow> Inr (Current ts)))"
    by (cases "listing_sortedBy q")
      (simp_all add: Hashgraph_reader_def Hashgraph_getTroves_def mapM_Inr rbind_assoc Let_def comp_def)
qed

end
