(* ===== verification/Hashgraph_Ledger.thy ===== *)
theory Hashgraph_Ledger
  imports Hashgraph_Read
begin

text \<open>
  Properties of the reading half of the Hashgraph client (\<^verbatim>\<open>packages/lib-hashgraph/src/HashgraphLiquity.ts\<close>): listings of
  troves, rewards, and what \<^verbatim>\<open>refresh\<close> does to the store.
\<close>

section \<open>A sample ledger\<close>

definition sample_listing :: "combined_trove list" where
  "sample_listing =
     [\<lparr>ct_owner = ''0xA'', ct_debt = 20, ct_coll = 100, ct_stake = 10, ct_snapshotETH = 0, ct_snapshotHCHFDebt = 0\<rparr>,
      \<lparr>ct_owner = ''0xB'', ct_debt = 50, ct_coll = 100, ct_stake = 10, ct_snapshotETH = 0, ct_snapshotHCHFDebt = 0\<rparr>]"

definition sample_contracts :: contracts where
  "sample_contracts = \<lparr>
     collSurplusPool_getCollateral = (\<lambda>_ _. Inr 0),
     troveManager_L_ETH = (\<lambda>_. Inr 0),
     troveManager_L_HCHFDebt = (\<lambda>_. Inr 0),
     troveManager_Troves = (\<lambda>_ _. Inr \<lparr>bt_status = 1, bt_coll = 100000000000, bt_debt = 200000000000, bt_stake = 100000000000\<rparr>),
     troveManager_rewardSnapshots = (\<lambda>_ _. Inr (0, 0)),
     troveManager_getTroveOwnersCount = (\<lambda>_. Inr 2),
     troveManager_lastFeeOperationTime = (\<lambda>_. Inr 60),
     troveManager_baseRate = (\<lambda>_. Inr 1000000),
     priceFeed_fetchPrice = (\<lambda>_. Inr 5000000),
     activePool_getETH = (\<lambda>_. Inr 100000000000),
     activePool_getHCHFDebt = (\<lambda>_. Inr 200000000000),
     defaultPool_getETH = (\<lambda>_. Inr 0),
     defaultPool_getHCHFDebt = (\<lambda>_. Inr 0),
     stabilityPool_deposits = (\<lambda>_ _. Inr (0, AddressZero)),
     stabilityPool_getCompoundedHCHFDeposit = (\<lambda>_ _. Inr 0),
     stabilityPool_getDepositorETHGain = (\<lambda>_ _. Inr 0),
     stabilityPool_getDepositorHLQTGain = (\<lambda>_ _. Inr 0),
     stabilityPool_getTotalHCHFDeposits = (\<lambda>_. Inr 0),
     stabilityPool_frontEnds = (\<lambda>_ _. Inr (False, 0)),
     communityIssuance_totalHLQTIssued = (\<lambda>_. Inr 0),
     hchfToken_balanceOf = (\<lambda>_ _. Inr 0),
     hchfToken_getTokenAddress = (\<lambda>_. Inr ''0xT''),
     hchfToken_tokenAddress = (\<lambda>_. Inr ''0xT''),
     hlqtToken_balanceOf = (\<lambda>_ _. Inr 0),
     hlqtToken_getTokenAddress = (\<lambda>_. Inr ''0xT''),
     hlqtToken_tokenAddress = (\<lambda>_. Inr ''0xT''),
     erc20_balanceOf = (\<lambda>_ _ _. Inr 0),
     erc20_allowance = (\<lambda>_ _ _ _. Inr 0),
     unipool_uniToken = (\<lambda>_. Inr ''0xT''),
     unipool_rewardPerToken = (\<lambda>_ _. Inr 0),
     unipool_totalSupply = (\<lambda>_. Inr 1),
     unipool_rewardRate = (\<lambda>_. Inr 7),
     unipool_periodFinish = (\<lambda>_. Inr 200),
     unipool_lastUpdateTime = (\<lambda>_. Inr 0),
     unipool_balanceOf = (\<lambda>_ _. Inr 0),
     unipool_earned = (\<lambda>_ _. Inr 0),
     multiTroveGetter_getMultipleSortedTroves = (\<lambda>i n _. Inr (if 0 \<le> i then take (nat n) (drop (nat i) sample_listing)
       else take (nat n) (drop (nat (- (i + 1))) (rev sample_listing)))),
     hlqtStaking_stakes = (\<lambda>_ _. Inr 0),
     hlqtStaking_getPendingETHGain = (\<lambda>_ _. Inr 0),
     hlqtStaking_getPendingHCHFGain = (\<lambda>_ _. Inr 0),
     hlqtStaking_totalHLQTStaked = (\<lambda>_. Inr 0),
     web3_getBalance = (\<lambda>_ _. Inr 0),
     web3_getBlock_timestamp = (\<lambda>_. Inr 180)\<rparr>"

definition sample_client :: client where
  "sample_client = \<lparr>userAccountAddress = ''0xA'', userAccountIdString = ''0.0.1'', frontendAddress = '''',
     totalStabilityPoolHlqtReward = Decimal_ONE, mirrorNodeBaseUrl = ''https://mirror'', client_constants = defaults,
     hchfTokenContractAddress = ''0xH'', hlqtTokenContractAddress = ''0xL'', saucerSwapPoolAddress = ''0xS''\<rparr>"

definition sample_mirror :: mirror where
  "sample_mirror = \<lparr>mirror_fetch = (\<lambda>_. Inl (Error ''offline'')), mirror_stringify = (\<lambda>_. []), tokenIdString = Inr\<rparr>"

section \<open>Listings\<close>

text \<open>
  What the contract \<^verbatim>\<open>MultiTroveGetter\<close> documents of the indices into the list of troves that the ledger keeps: a non-negative start index counts
  from the head of the list, a negative one, \<open>-1\<close> first, from its tail. Nothing is said of the order of that list here.
\<close>

definition lists_troves :: "contracts \<Rightarrow> block_tag option \<Rightarrow> combined_trove list \<Rightarrow> bool" where
  "lists_troves k t troves \<longleftrightarrow> (\<forall>i n. multiTroveGetter_getMultipleSortedTroves k i n t =
     Inr (if 0 \<le> i then take (nat n) (drop (nat i) troves) else take (nat n) (drop (nat (- (i + 1))) (rev troves))))"

text \<open>
  Paging through the troves: with non-negative \<^verbatim>\<open>first\<close> and \<^verbatim>\<open>startingAt\<close>, the listing before redistribution is
  the requested page of the ledger's list, from its tail up if ascending ratios and from its head down if descending ones are asked for;
  a negative number is rejected.
\<close>

theorem getTroves_pages:
  assumes "lists_troves k t troves" and "listing_before q"
  shows "Hashgraph_getTroves this k q t =
    (if listing_first q < 0 then Inl (Error ''first must not be negative'')
     else if (case listing_startingAt q of Some i \<Rightarrow> i < 0 | None \<Rightarrow> False)
       then Inl (Error ''startingAt must not be negative'')
     else Inr (Before (map (listed_trove this) (take (nat (listing_first q))
       (drop (nat (case_option 0 id (listing_startingAt q)))
         (if listing_sortedBy q = AscendingCollateralRatio then rev troves else troves))))))"
  using assms
  by (cases "listing_sortedBy q"; cases "listing_startingAt q")
    (auto simp: getTroves_before_eq lists_troves_def expectPositiveInt_def Let_def)

theorem getTroves_pages_witness:
  "Hashgraph_getTroves sample_client sample_contracts
     \<lparr>listing_first = 1, listing_sortedBy = AscendingCollateralRatio, listing_startingAt = None, listing_before = True\<rparr> None
   = Inr (Before [listed_trove sample_client (sample_listing ! 1)])"
proof -
  have "lists_troves sample_contracts None sample_listing"
    by (simp add: lists_troves_def sample_contracts_def)
  from getTroves_pages [OF this, of "\<lparr>listing_first = 1, listing_sortedBy = AscendingCollateralRatio,
      listing_startingAt = None, listing_before = True\<rparr>" sample_client]
  show ?thesis by (simp add: sample_listing_def)
qed

section \<open>Rewards\<close>

lemma Decimal_from_seconds: "Decimal_from (Number (show_nat n)) = Inr (Decimal (n * DIGITS))"
  using fromString_integer [of "show_nat n"] by (simp add: Decimal_from_def digits_value_show_nat show_nat_digits)

text \<open>
  The remaining liquidity mining reward is the reward rate times the seconds left of the reward period,
  exactly: counted from the last update if nothing is staked, from the block's time otherwise, and zero after
  the end of the period.
\<close>

theorem remainingLiquidityMiningReward_exact:
  assumes "unipool_totalSupply k t = Inr supply" and "unipool_rewardRate k t = Inr rate"
    and "unipool_periodFinish k t = Inr finish" and "unipool_lastUpdateTime k t = Inr updated"
    and "web3_getBlock_timestamp k t = Inr now"
  shows "Hashgraph_getRemainingLiquidityMiningHLQTReward k t =
    Inr (Decimal (rate * (finish - (if supply = 0 then updated else now))))"
proof -
  have "rate * (n * DIGITS) div DIGITS = rate * n" for n
    by (simp flip: mult.assoc)
  with assms show ?thesis
    by (simp add: Hashgraph_getRemainingLiquidityMiningHLQTReward_def read_decimal_def Decimal_from_seconds
        Decimal_mul_def Decimal_ZERO_def Let_def nat_diff_distrib' max_def DIGITS_eq)
qed

theorem remainingLiquidityMiningReward_exact_witness:
  "Hashgraph_getRemainingLiquidityMiningHLQTReward sample_contracts None = Inr (Decimal 140)"
  using remainingLiquidityMiningReward_exact [of sample_contracts None 1 7 200 0 180]
  by (simp add: sample_contracts_def)

section \<open>Refreshing\<close>

lemma overlay_update_of: "overlay b0 (update_of b) = b"
  by (cases b) (simp add: overlay_def update_of_def)

lemma state_equal_refl: "state_equal b b"
  by (simp add: state_equal_def decimal_field.same_refl trove_field.same_refl pending_trove_field.same_refl
      fees_field.same_refl deposit_field.same_refl stake_field.same_refl frontend_field.same_refl
      reference_field.same_refl primitive_field.same_refl)

lemma load_base:
  assumes "load c ids call onLoaded base extra s = (s', Inr r)"
  shows "baseState s' = Some base"
proof -
  have "\<exists>s3. store_update c ids call None None s3 = (s', Inr r) \<and> baseState s3 = Some base"
    using assms by (auto simp: load_def Let_def intro!: exI conjI
        split: if_split_asm sum.split_asm prod.split_asm option.split_asm)
  then obtain s3 where up: "store_update c ids call None None s3 = (s', Inr r)" and base: "baseState s3 = Some base"
    by blast
  obtain p called where r: "r = (p, called)" by (cases r)
  from up [unfolded r] show ?thesis
    by (rule update_success_plain) (use base in auto)
qed

lemma store_snapshot_base:
  assumes "store_snapshot ids call onLoaded (b, e) s = (s', Inr r)"
  shows "\<exists>b'. baseState s' = Some b' \<and> state_equal b' b"
proof (cases "loaded s")
  case True
  obtain p called where r: "r = (p, called)" by (cases r)
  from True assms have "store_update hashgraph_subclass ids call (Some (update_of b)) (Some e) s = (s', Inr (p, called))"
    by (simp add: store_snapshot_def r)
  then obtain b0 where "baseState s' = Some (reduce b0 (update_of b))"
    by (rule update_success) auto
  then show ?thesis
    using reduce_overlay [of b0 "update_of b"] by (auto simp: overlay_update_of)
next
  case False
  with assms load_base [of hashgraph_subclass ids call onLoaded b "Some e" s s' r] show ?thesis
    by (auto simp: store_snapshot_def state_equal_refl)
qed

lemma store_snapshot_reachable:
  assumes "reachable_store hashgraph_subclass k s" and "store_snapshot ids call onLoaded values s = (s', r)"
  shows "reachable_store hashgraph_subclass k s'"
  using assms reachable_store.loading reachable_store.updating
  by (auto simp: store_snapshot_def split: if_split_asm)

text \<open>
  \<^verbatim>\<open>refresh\<close> keeps the store sound and makes it show the ledger: it stays a reachable store, it is left as it was
  if a read fails, and if the reads and the step succeed its base state compares equal, field by field, with the
  snapshot just read, and its derived state is the one derived from it; the state it returns is the store's.
\<close>

theorem refresh_shows_ledger:
  assumes "reachable_store hashgraph_subclass (client_constants this) s"
    and "refresh this k m ids call onLoaded s = (s', st)"
  shows "reachable_store hashgraph_subclass (client_constants this) s'
    \<and> st = store_state hashgraph_subclass ids s'
    \<and> (\<forall>err. fetchStoreValues this k m ids None = Inl err \<longrightarrow> s' = s)
    \<and> (\<forall>b e r. fetchStoreValues this k m ids None = Inr (b, e) \<longrightarrow>
         store_snapshot ids call onLoaded (b, e) s = (s', Inr r) \<longrightarrow>
         (\<exists>b'. baseState s' = Some b' \<and> state_equal b' b) \<and> consistent s')"
proof -
  have "reachable_store hashgraph_subclass (client_constants this) s'"
    using assms store_snapshot_reachable [OF assms(1)]
    by (auto simp: refresh_def Let_def split: sum.split_asm) (metis prod.collapse)
  moreover have "consistent s'" if "store_snapshot ids call onLoaded (b, e) s = (s', Inr r)" for b e r
    using that by (auto simp: store_snapshot_def intro: update_consistent load_consistent split: if_split_asm)
  ultimately show ?thesis
    using assms(2) store_snapshot_base by (auto simp: refresh_def Let_def split: sum.split_asm)
qed

lemma fetchStoreValues_riskiest:
  assumes "fetchStoreValues this k m ids t = Inr (b, e)"
  shows "content (riskiestTroveBeforeRedistribution b) =
    empty_PendingTrove (client_constants this) (userAccountAddress this) NonExistent"
  using assms by (auto simp: fetchStoreValues_def rbind_eq_Inr_iff userTroveStatusFrom_def)

lemma getTroveBeforeRedistribution_own:
  "userAccountAddress this \<noteq> [] \<Longrightarrow> Hashgraph_getTroveBeforeRedistribution this k (Some (userAccountAddress this)) t
     = Hashgraph_getTroveBeforeRedistribution this k None t"
  by (simp add: Hashgraph_getTroveBeforeRedistribution_def getAddressOrUserAddress_def)

lemma fetch_user_trove:
  assumes "fetch_user_values this k t = Inr u" and "userAccountAddress this \<noteq> []"
  shows "Hashgraph_getTroveBeforeRedistribution this k None t = Inr (uv_troveBeforeRedistribution u)"
  using assms by (auto simp: fetch_user_values_def rbind_eq_Inr_iff Let_def getTroveBeforeRedistribution_own)

lemma fetchStoreValues_reads:
  assumes "fetchStoreValues this k m ids t = Inr (b, e)"
  shows "Hashgraph_getPrice k t = Inr (content (price b))"
    and "Hashgraph_getTotal this k t = Inr (content (total b))"
    and "Hashgraph_getTotalRedistributed this k t = Inr (content (totalRedistributed b))"
    and "userAccountAddress this \<noteq> [] \<Longrightarrow>
      Hashgraph_getTroveBeforeRedistribution this k None t = Inr (content (troveBeforeRedistribution b))"
    and "Hashgraph_getFees this k t = Inr ((content (feesInNormalMode b))
      \<lparr>recoveryMode := Trove_collateralRatioIsBelowCritical (content (total b)) (content (price b))\<rparr>)"
    and "Hashgraph_getNumberOfTroves k t = Inr (numberOfTroves b)"
  using assms by (auto simp: fetchStoreValues_def Hashgraph_getFees_def new_Fees_def rbind_eq_Inr_iff fetch_user_trove)

lemma getTotal_constants: "Hashgraph_getTotal this k t = Inr x \<Longrightarrow> trove_constants x = client_constants this"
  by (auto simp: Hashgraph_getTotal_def rbind_eq_Inr_iff Let_def Trove_add_def)

lemma applyRedistribution_equals:
  "PendingTrove_equals p q \<Longrightarrow> Trove_equals x y \<Longrightarrow> UserTrove_equals (applyRedistribution p x) (applyRedistribution q y)"
  by (simp add: PendingTrove_equals_def UserTrove_equals_def Trove_equals_def applyRedistribution_def new_UserTrove_def
      trove_ops)

lemma belowCritical_equals:
  "Trove_equals x y \<Longrightarrow> trove_constants x = trove_constants y \<Longrightarrow>
   Trove_collateralRatioIsBelowCritical x p = Trove_collateralRatioIsBelowCritical y p"
  by (simp add: Trove_collateralRatioIsBelowCritical_def Trove_collateralRatio_def Trove_equals_def)

lemma snapshot_matches_readers:
  assumes "fetchStoreValues this k m ids None = Inr (b, e)" and "userAccountAddress this \<noteq> []"
    and "store_snapshot ids call onLoaded (b, e) s = (s', Inr r)"
    and "\<forall>x. baseState s' = Some x \<longrightarrow> trove_constants (content (total x)) = client_constants this"
  shows "\<exists>d t f. derivedState s' = Some d \<and> Hashgraph_getTrove this k None = Inr t
    \<and> UserTrove_equals (content (trove d)) t \<and> Hashgraph_getFees this k None = Inr f
    \<and> Fees_equals (content (fees d)) f"
proof -
  note reads = fetchStoreValues_reads [OF assms(1)]
  obtain b' where b': "baseState s' = Some b'" "state_equal b' b"
    using store_snapshot_base [OF assms(3)] by blast
  have "consistent s'"
    using assms(3) by (auto simp: store_snapshot_def intro: update_consistent load_consistent split: if_split_asm)
  then obtain d n where d: "derivedState s' = Some d" and n: "derive ids b' = Inr n" and eq: "derived_equal d n"
    by (rule consistentE [of s' ids]) (use b' in auto)
  have same: "PendingTrove_equals (content (troveBeforeRedistribution b')) (content (troveBeforeRedistribution b))"
    "Trove_equals (content (totalRedistributed b')) (content (totalRedistributed b))"
    "Trove_equals (content (total b')) (content (total b))" "content (price b') = content (price b)"
    "Fees_equals (content (feesInNormalMode b')) (content (feesInNormalMode b))"
    using b'(2) by (simp_all add: state_equal_def on_content_def)
  have "trove_constants (content (total b')) = trove_constants (content (total b))"
    using assms(4) b'(1) getTotal_constants [OF reads(2)] by simp
  then have recovery: "Trove_collateralRatioIsBelowCritical (content (total b')) p =
      Trove_collateralRatioIsBelowCritical (content (total b)) p" for p
    using same(3) by (rule belowCritical_equals [rotated])
  have "UserTrove_equals (content (trove n)) (applyRedistribution (content (troveBeforeRedistribution b))
      (content (totalRedistributed b)))"
    using n applyRedistribution_equals [OF same(1,2)] by (auto simp: derive_def rbind_eq_Inr_iff)
  moreover have "Fees_equals (content (fees n)) ((content (feesInNormalMode b))
      \<lparr>recoveryMode := Trove_collateralRatioIsBelowCritical (content (total b)) (content (price b))\<rparr>)"
    using n same(4,5) by (auto simp: derive_def rbind_eq_Inr_iff recovery Fees_setRecoveryMode_def new_Fees_def
        Fees_equals_def)
  ultimately show ?thesis
    using d eq reads assms(2)
    by (auto simp: derived_equal_def on_content_def Hashgraph_getTrove_def UserTrove_equals_def Trove_equals_def
        Fees_equals_def)
qed

text \<open>
  The flag for undercollateralised troves can never be raised by the ledger: the snapshot always contains an
  empty trove in place of the riskiest one, whose collateral ratio is infinite, so after every successful
  step \<^verbatim>\<open>haveUndercollateralizedTroves\<close> is false, whatever the contracts answer.
\<close>

theorem refresh_never_undercollateralized:
  assumes "fetchStoreValues this k m ids None = Inr (b, e)"
    and "store_snapshot ids call onLoaded (b, e) s = (s', Inr r)"
    and "\<forall>b. baseState s' = Some b \<longrightarrow> MINIMUM_COLLATERAL_RATIO
           (trove_constants (content (riskiestTroveBeforeRedistribution b))) \<le> Decimal_INFINITY"
  shows "\<exists>d. derivedState s' = Some d \<and> \<not> haveUndercollateralizedTroves d"
proof -
  obtain b' where b': "baseState s' = Some b'" "state_equal b' b"
    using store_snapshot_base [OF assms(2)] by blast
  have "consistent s'"
    using assms(2) by (auto simp: store_snapshot_def intro: update_consistent load_consistent split: if_split_asm)
  then obtain d n where d: "derivedState s' = Some d" and n: "derive ids b' = Inr n" and eq: "derived_equal d n"
    by (rule consistentE [of s' ids]) (use b' in auto)
  let ?t = "content (riskiestTroveBeforeRedistribution b')"
  have "PendingTrove_equals ?t (empty_PendingTrove (client_constants this) (userAccountAddress this) NonExistent)"
    using b'(2) fetchStoreValues_riskiest [OF assms(1)] by (simp add: state_equal_def on_content_def)
  then have "debt (applyRedistribution ?t x) = Decimal_ZERO" for x
    by (simp add: PendingTrove_equals_def UserTrove_equals_def Trove_equals_def empty_PendingTrove_def
        new_PendingTrove_def applyRedistribution_def new_UserTrove_def trove_ops)
  moreover have "trove_constants (applyRedistribution ?t x) = trove_constants ?t" for x
    by (simp add: applyRedistribution_def new_UserTrove_def Let_def)
  ultimately have "\<not> haveUndercollateralizedTroves n"
    using n assms(3) b'(1) by (auto simp: derive_def rbind_eq_Inr_iff Trove_collateralRatioIsBelowMinimum_def
        Trove_collateralRatio_def)
  then show ?thesis
    using d eq by (auto simp: derived_equal_def strictEquals_def)
qed

lemmas sample_ledger_eval = sample_client_def sample_contracts_def sample_mirror_def fetchStoreValues_def
  tokenAssociations_def getTokenIds_def fetchTokens_def fetch_user_values_def read_decimal_def
  Hashgraph_getRemainingLiquidityMiningHLQTReward_def Hashgraph_getPrice_def Hashgraph_getNumberOfTroves_def
  Hashgraph_getTotalRedistributed_def Hashgraph_getTotal_def Hashgraph_getHCHFInStabilityPool_def
  Hashgraph_getTotalStakedHLQT_def Hashgraph_getTotalStakedUniTokens_def
  Hashgraph_getRemainingStabilityPoolHLQTReward_def Hashgraph_getHCHFBalance_def
  Hashgraph_getHCHFTokenAddress_def Hashgraph_getHLQTTokenAddress_def Hashgraph_getHLQTBalance_def
  Hashgraph_getUniTokenBalance_def Hashgraph_getUniTokenAllowance_def Hashgraph_getLiquidityMiningStake_def
  Hashgraph_getLiquidityMiningHLQTReward_def Hashgraph_getCollateralSurplusBalance_def
  Hashgraph_getTroveBeforeRedistribution_def Hashgraph_getStabilityDeposit_def Hashgraph_getHLQTStake_def
  Hashgraph_getFrontendStatus_def Hashgraph_getHchfTokenAllowanceOfHchfContract_def
  Hashgraph_getHlqtTokenAllowanceOfHlqtContract_def userTroveStatusFrom_def getAddressOrUserAddress_def
  Decimal_from_seconds Decimal_fromBigNumberStringWithPrecision_def new_StabilityDeposit_def new_Fees_def
  Decimal_sub_ok defaults_def decimal_unfold fees_inv_def minutesSinceLastFeeOperation_def empty_PendingTrove_def
  new_PendingTrove_def new_Decimal_def

text \<open>The rates can be derived unless the last fee operation lies \<open>2\<^sup>3\<^sup>2\<close> minutes back.\<close>

lemma derive_exists:
  assumes "fees_inv (content (feesInNormalMode b))"
    and "minutesSinceLastFeeOperation (content (feesInNormalMode b)) None \<le> 0xffffffff"
  shows "\<exists>n. derive ids b = Inr n"
proof -
  let ?r = "Trove_collateralRatioIsBelowCritical (content (total b)) (content (price b))"
  let ?f = "content (feesInNormalMode b)\<lparr>recoveryMode := ?r\<rparr>"
  have "minutesSinceLastFeeOperation ?f None \<le> 0xffffffff"
    using assms(2) by (simp add: minutesSinceLastFeeOperation_def)
  then obtain rate where "Fees_baseRate ?f None = Inr rate"
    using Fees_baseRate_exists by blast
  then show ?thesis
    by (cases ?r) (simp_all add: derive_def Fees_setRecoveryMode_eq [OF assms(1)] Fees_borrowingRate_def
        Fees_redemptionRate_def Let_def)
qed

lemma sample_fetch:
  assumes "tokenIdString m = Inr"
  shows "\<exists>b e. fetchStoreValues sample_client sample_contracts m ids None = Inr (b, e)
     \<and> content (price b) = Decimal 5000000 \<and> trove_constants (content (riskiestTroveBeforeRedistribution b)) = defaults
     \<and> fees_inv (content (feesInNormalMode b))
     \<and> minutesSinceLastFeeOperation (content (feesInNormalMode b)) None \<le> 0xffffffff"
  using assms by (simp add: sample_ledger_eval Let_def)

definition no_identity :: "string \<Rightarrow> nat" where
  "no_identity _ = 0"

lemma sample_snapshot_with:
  assumes "tokenIdString m = Inr"
  shows "\<exists>b e s r n. fetchStoreValues sample_client sample_contracts m no_identity None = Inr (b, e)
     \<and> store_snapshot no_identity silent None (b, e) (new_Store defaults) = (s, Inr r)
     \<and> content (price b) = Decimal 5000000
     \<and> baseState s = Some b \<and> trove_constants (content (riskiestTroveBeforeRedistribution b)) = defaults
     \<and> derive no_identity b = Inr n \<and> derivedState s = Some n \<and> listeners s = []"
proof -
  obtain b e n where b: "fetchStoreValues sample_client sample_contracts m no_identity None = Inr (b, e)"
    "content (price b) = Decimal 5000000" "trove_constants (content (riskiestTroveBeforeRedistribution b)) = defaults"
    and n: "derive no_identity b = Inr n"
    using sample_fetch [OF assms, of no_identity] derive_exists by metis
  have "reduceDerived n n = n"
    by (simp add: reduceDerived_keeps derived.same_refl)
  then have "\<exists>s r. store_snapshot no_identity silent None (b, e) (new_Store defaults) = (s, Inr r) \<and> baseState s = Some b
      \<and> derivedState s = Some n \<and> listeners s = []"
    by (simp add: store_snapshot_def new_Store_def load_def n store_update_def notify_listeners_def Let_def)
  with b n show ?thesis by blast
qed

lemma sample_snapshot:
  "\<exists>b e s r. fetchStoreValues sample_client sample_contracts sample_mirror no_identity None = Inr (b, e)
     \<and> store_snapshot no_identity silent None (b, e) (new_Store defaults) = (s, Inr r)
     \<and> content (price b) = Decimal 5000000
     \<and> baseState s = Some b \<and> trove_constants (content (riskiestTroveBeforeRedistribution b)) = defaults"
  using sample_snapshot_with [of sample_mirror] by (auto simp: sample_mirror_def)

theorem refresh_shows_ledger_witness:
  "\<exists>s b. reachable_store hashgraph_subclass defaults s \<and> baseState s = Some b \<and> consistent s
     \<and> fst (refresh sample_client sample_contracts sample_mirror no_identity silent None (new_Store defaults)) = s"
proof -
  obtain b e s r where fetch: "fetchStoreValues sample_client sample_contracts sample_mirror no_identity None = Inr (b, e)"
    and snap: "store_snapshot no_identity silent None (b, e) (new_Store defaults) = (s, Inr r)"
    using sample_snapshot by metis
  have k: "client_constants sample_client = defaults"
    by (simp add: sample_client_def)
  have start: "reachable_store hashgraph_subclass (client_constants sample_client) (new_Store defaults)"
    unfolding k by (rule reachable_store.constructed)
  have "refresh sample_client sample_contracts sample_mirror no_identity silent None (new_Store defaults)
      = (s, store_state hashgraph_subclass no_identity s)"
    by (simp add: refresh_def fetch snap)
  with refresh_shows_ledger [OF start this] fetch snap show ?thesis
    unfolding k by fastforce
qed

theorem refresh_never_undercollateralized_witness:
  "\<exists>b e s r d. fetchStoreValues sample_client sample_contracts sample_mirror no_identity None = Inr (b, e)
     \<and> store_snapshot no_identity silent None (b, e) (new_Store defaults) = (s, Inr r)
     \<and> derivedState s = Some d \<and> \<not> haveUndercollateralizedTroves d"
proof -
  obtain b e s r where f: "fetchStoreValues sample_client sample_contracts sample_mirror no_identity None = Inr (b, e)"
    and snap: "store_snapshot no_identity silent None (b, e) (new_Store defaults) = (s, Inr r)"
    and b: "baseState s = Some b" "trove_constants (content (riskiestTroveBeforeRedistribution b)) = defaults"
    using sample_snapshot by metis
  have "\<forall>b. baseState s = Some b \<longrightarrow> MINIMUM_COLLATERAL_RATIO
      (trove_constants (content (riskiestTroveBeforeRedistribution b))) \<le> Decimal_INFINITY"
    using b by (simp add: defaults_def decimal_unfold)
  from refresh_never_undercollateralized [OF f snap this] f snap show ?thesis by blast
qed

end
