(* ===== verification/Hashgraph_Hints.thy ===== *)
theory Hashgraph_Hints
  imports Hashgraph_Read
begin

text \<open>
  The search for the position of a trove in the contracts' sorted list
  (\<^verbatim>\<open>packages/lib-hashgraph/src/hints.ts\<close> and \<^verbatim>\<open>findHintsForNominalCollateralRatio\<close> of
  \<^verbatim>\<open>HashgraphLiquity.ts\<close>). The contracts \<^verbatim>\<open>HintHelpers\<close> and \<^verbatim>\<open>SortedTroves\<close> are arguments, like the other
  contracts; the seed drawn from \<^verbatim>\<open>Math.random()\<close> is an argument too.
\<close>

section \<open>Numbers\<close>

text \<open>
  A natural number as a JavaScript number: rounded to 53 significant bits, ties to even. Seeds are hashes
  of 256 bits, so this rounding does happen.
\<close>

fun bit_length :: "nat \<Rightarrow> nat" where
  "bit_length n = (if n = 0 then 0 else Suc (bit_length (n div 2)))"

declare bit_length.simps [simp del]

definition js_number :: "nat \<Rightarrow> nat" where
  "js_number n =
     (let e = bit_length n - 53; q = n div 2 ^ e; r = n mod 2 ^ e
      in if 2 * r < 2 ^ e \<or> (2 * r = 2 ^ e \<and> even q) then q * 2 ^ e else (q + 1) * 2 ^ e)"

text \<open>
  \<^verbatim>\<open>Math.ceil(10 * Math.sqrt(n))\<close> is the least number whose square is at least \<open>100 n\<close>. (The two roundings of the
  floating-point computation do not reach the next integer as long as \<open>n\<close> is below \<open>2\<^sup>4\<^sup>0\<close>.)
\<close>

function ceil_sqrt_from :: "nat \<Rightarrow> nat \<Rightarrow> nat" where
  "ceil_sqrt_from n m = (if n \<le> m * m then m else ceil_sqrt_from n (m + 1))"
  by pat_completeness auto

termination
proof (relation "measure (\<lambda>(n, m). n - m)")
  fix n m :: nat
  assume "\<not> n \<le> m * m"
  then have "m < n"
    by (cases m) auto
  then show "((n, m + 1), n, m) \<in> measure (\<lambda>(n, m). n - m)"
    by simp
qed simp

declare ceil_sqrt_from.simps [simp del]

definition totalNumberOfTrials :: "nat \<Rightarrow> nat" where
  "totalNumberOfTrials numberOfTroves' = ceil_sqrt_from (100 * numberOfTroves') 0"

section \<open>Trials\<close>

definition maxNumberOfTrialsAtOnce :: nat where
  "maxNumberOfTrialsAtOnce = 2500"

text \<open>The generator, as the list of the numbers it yields.\<close>

function generateTrials :: "nat \<Rightarrow> nat list" where
  "generateTrials total' =
     (if total' = 0 then []
      else (let numberOfTrials = min total' maxNumberOfTrialsAtOnce
            in numberOfTrials # generateTrials (total' - numberOfTrials)))"
  by pat_completeness auto

termination
  by (relation "measure id") (auto simp: maxNumberOfTrialsAtOnce_def)

declare generateTrials.simps [simp del]

section \<open>The search\<close>

record approx_hint =
  hintAddress :: string
  hint_diff :: nat
  latestRandomSeed :: nat

record redemption_hints =
  firstRedemptionHint :: string
  partialRedemptionHintNICR :: nat
  truncatedHCHFamount :: nat

record hint_contracts =
  sortedTroves_getFirst :: "string result"
  sortedTroves_findInsertPosition :: "nat \<Rightarrow> string \<Rightarrow> string \<Rightarrow> (string \<times> string) result"
  hintHelpers_getApproxHint :: "nat \<Rightarrow> nat \<Rightarrow> nat \<Rightarrow> approx_hint result"
  hintHelpers_getRedemptionHints :: "nat \<Rightarrow> nat \<Rightarrow> nat \<Rightarrow> redemption_hints result"

record hint_search =
  search_seed :: nat
  search_results :: "(decimal \<times> string) list"

definition collectApproxHint :: "hint_contracts \<Rightarrow> decimal \<Rightarrow> hint_search \<Rightarrow> nat \<Rightarrow> hint_search result" where
  "collectApproxHint h nominalCollateralRatio previous numberOfTrials =
     rbind (hintHelpers_getApproxHint h (bigNumber nominalCollateralRatio) numberOfTrials (search_seed previous))
       (\<lambda>approxHintResult.
     rbind (decimalify (hint_diff approxHintResult)) (\<lambda>diff.
     Inr \<lparr>search_seed = js_number (latestRandomSeed approxHintResult),
          search_results = search_results previous @ [(diff, hintAddress approxHintResult)]\<rparr>))"

text \<open>\<^verbatim>\<open>restOfTrials.reduce\<close> with the promises chained\<close>

fun collectApproxHints :: "hint_contracts \<Rightarrow> decimal \<Rightarrow> hint_search \<Rightarrow> nat list \<Rightarrow> hint_search result" where
  "collectApproxHints h nominalCollateralRatio state [] = Inr state"
| "collectApproxHints h nominalCollateralRatio state (numberOfTrials # restOfTrials) =
     rbind (collectApproxHint h nominalCollateralRatio state numberOfTrials) (\<lambda>state'.
       collectApproxHints h nominalCollateralRatio state' restOfTrials)"

text \<open>\<^verbatim>\<open>results.reduce\<close> without an initial value, which throws on an empty array\<close>

definition closest_hint :: "(decimal \<times> string) list \<Rightarrow> (decimal \<times> string) result" where
  "closest_hint results = (case results of
      [] \<Rightarrow> Inl (ExternalError ''TypeError'')
    | r # rs \<Rightarrow> Inr (foldl (\<lambda>a b. if Decimal_lt (fst a) (fst b) then a else b) r rs))"

definition findHintsForNominalCollateralRatio ::
  "contracts \<Rightarrow> hint_contracts \<Rightarrow> nat \<Rightarrow> decimal \<Rightarrow> (string \<times> string) result" where
  "findHintsForNominalCollateralRatio k h seed nominalCollateralRatio =
     rbind (Hashgraph_getNumberOfTroves k None) (\<lambda>numberOfTroves'.
     if numberOfTroves' = 0 then Inr (AddressZero, AddressZero)
     else if Decimal_infinite nominalCollateralRatio \<noteq> None
     then rbind (sortedTroves_getFirst h) (\<lambda>first'. Inr (AddressZero, first'))
     else
       rbind (collectApproxHints h nominalCollateralRatio \<lparr>search_seed = seed, search_results = []\<rparr>
                (generateTrials (totalNumberOfTrials (nat numberOfTroves')))) (\<lambda>state.
       rbind (closest_hint (search_results state)) (\<lambda>(_, hintAddress').
       sortedTroves_findInsertPosition h (bigNumber nominalCollateralRatio) hintAddress' hintAddress')))"

section \<open>Properties of the trials\<close>

lemma bit_length_bound: "n < 2 ^ bit_length n"
proof (induction n rule: bit_length.induct)
  case (1 n)
  then show ?case
    by (cases "n = 0") (simp_all add: bit_length.simps [of n])
qed

lemma bit_length_le: "n < 2 ^ k \<Longrightarrow> bit_length n \<le> k"
proof (induction n arbitrary: k rule: bit_length.induct)
  case (1 n)
  show ?case
  proof (cases "n = 0")
    case False
    with 1(2) have "0 < k"
      by (cases k) auto
    then obtain j where k: "k = Suc j" by (cases k) auto
    with 1(2) have "n div 2 < 2 ^ j" by auto
    with 1(1) False k show ?thesis
      by (simp add: bit_length.simps [of n])
  qed (simp add: bit_length.simps)
qed

lemma js_number_exact: "n < 2 ^ 53 \<Longrightarrow> js_number n = n"
  using bit_length_le [of n 53] by (simp add: js_number_def)

lemma ceil_sqrt_from_spec:
  "m = 0 \<or> (m - 1) * (m - 1) < n \<Longrightarrow>
   n \<le> ceil_sqrt_from n m * ceil_sqrt_from n m \<and>
   (ceil_sqrt_from n m = 0 \<or> (ceil_sqrt_from n m - 1) * (ceil_sqrt_from n m - 1) < n)"
proof (induction n m rule: ceil_sqrt_from.induct)
  case (1 n m)
  show ?case
  proof (cases "n \<le> m * m")
    case True
    with 1(2) show ?thesis by (simp add: ceil_sqrt_from.simps [of n m])
  next
    case False
    with 1(1) show ?thesis by (simp add: ceil_sqrt_from.simps [of n m])
  qed
qed

lemma totalNumberOfTrials_pos: "0 < n \<Longrightarrow> 0 < totalNumberOfTrials n"
  using ceil_sqrt_from_spec [of 0 "100 * n"] by (cases "totalNumberOfTrials n") (auto simp: totalNumberOfTrials_def)

lemma generateTrials_Nil_iff: "generateTrials n = [] \<longleftrightarrow> n = 0"
  by (subst generateTrials.simps) (simp add: Let_def)

lemma generateTrials_sum: "sum_list (generateTrials n) = n"
  by (induction n rule: generateTrials.induct) (subst generateTrials.simps, auto simp: Let_def)

lemma generateTrials_bounds: "x \<in> set (generateTrials n) \<Longrightarrow> 0 < x \<and> x \<le> maxNumberOfTrialsAtOnce"
proof (induction n rule: generateTrials.induct)
  case (1 n)
  then show ?case
    by (subst (asm) (2) generateTrials.simps) (auto simp: Let_def maxNumberOfTrialsAtOnce_def split: if_split_asm)
qed

lemma generateTrials_length: "length (generateTrials n) = (n + 2499) div 2500"
proof (induction n rule: generateTrials.induct)
  case (1 n)
  show ?case
  proof (cases "n = 0")
    case False
    let ?k = "min n maxNumberOfTrialsAtOnce"
    have "length (generateTrials n) = Suc ((n - ?k + 2499) div 2500)"
      using False 1 [OF False refl] by (subst generateTrials.simps) (simp add: Let_def)
    then show ?thesis
      using False by (cases "n \<le> 2500") (auto simp: maxNumberOfTrialsAtOnce_def min_def)
  qed (simp add: generateTrials.simps)
qed

section \<open>What the search returns\<close>

lemma foldl_closest:
  fixes r :: "decimal \<times> string"
  defines "c \<equiv> (\<lambda>a b. if Decimal_lt (fst a) (fst b) then a else b)"
  shows "foldl c r rs \<in> set (r # rs) \<and> (\<forall>x\<in>set (r # rs). fst (foldl c r rs) \<le> fst x)"
proof (induction rs arbitrary: r)
  case (Cons x rs)
  have "fst (c r x) \<le> fst r" "fst (c r x) \<le> fst x" "c r x \<in> {r, x}"
    by (auto simp: c_def)
  with Cons.IH [of "c r x"] show ?case
    by (auto intro: order_trans)
qed simp

lemma closest_hint_spec:
  assumes "closest_hint results = Inr r"
  shows "r \<in> set results \<and> (\<forall>x\<in>set results. fst r \<le> fst x)"
proof (cases results)
  case Nil
  with assms show ?thesis by (simp add: closest_hint_def)
next
  case (Cons x xs)
  with assms foldl_closest [of x xs] show ?thesis by (simp add: closest_hint_def)
qed

lemma closest_hint_exists: "results \<noteq> [] \<Longrightarrow> \<exists>r. closest_hint results = Inr r"
  by (cases results) (simp_all add: closest_hint_def)

text \<open>An entry of the results is the answer of a call with the given number of trials.\<close>

definition answers :: "hint_contracts \<Rightarrow> decimal \<Rightarrow> nat \<Rightarrow> decimal \<times> string \<Rightarrow> bool" where
  "answers h nicr n result \<longleftrightarrow> (\<exists>seed r. hintHelpers_getApproxHint h (bigNumber nicr) n seed = Inr r
     \<and> result = (Decimal (hint_diff r), hintAddress r))"

lemma collectApproxHints_answers:
  assumes "collectApproxHints h nicr state trials = Inr state'"
  shows "\<exists>new. search_results state' = search_results state @ new \<and> list_all2 (answers h nicr) trials new"
  using assms
proof (induction trials arbitrary: state)
  case (Cons n trials)
  then obtain r where r: "hintHelpers_getApproxHint h (bigNumber nicr) n (search_seed state) = Inr r"
    and rest: "collectApproxHints h nicr \<lparr>search_seed = js_number (latestRandomSeed r),
        search_results = search_results state @ [(Decimal (hint_diff r), hintAddress r)]\<rparr> trials = Inr state'"
    by (auto simp: collectApproxHint_def rbind_eq_Inr_iff)
  from Cons.IH [OF rest] r show ?case
    by (auto simp: answers_def)
qed simp

lemma collectApproxHints_exists:
  assumes "\<And>n seed. \<exists>r. hintHelpers_getApproxHint h (bigNumber nicr) n seed = Inr r"
  shows "\<exists>state'. collectApproxHints h nicr state trials = Inr state'"
proof (induction trials arbitrary: state)
  case (Cons n trials)
  obtain r where "hintHelpers_getApproxHint h (bigNumber nicr) n (search_seed state) = Inr r"
    using assms by blast
  with Cons show ?case by (simp add: collectApproxHint_def)
qed simp

text \<open>
  The search spends the intended effort: for \<open>n > 0\<close> troves and a finite ratio, the calls made carry numbers of trials
  that sum up to \<open>\<lceil>10 \<surd>n\<rceil>\<close>, each between 1 and 2500 and so in as few calls as possible, and the position returned is
  the one \<^verbatim>\<open>findInsertPosition\<close> gives from an answer whose difference is the smallest of all.
\<close>

theorem findHints_effort:
  assumes "troveManager_getTroveOwnersCount k None = Inr n" and "0 < n"
    and "Decimal_infinite nicr = None"
    and "findHintsForNominalCollateralRatio k h seed nicr = Inr pos"
  shows "\<exists>trials results diff a. list_all2 (answers h nicr) trials results
    \<and> (\<forall>m. 100 * n \<le> m * m \<longleftrightarrow> sum_list trials \<le> m)
    \<and> (\<forall>x\<in>set trials. 0 < x \<and> x \<le> 2500) \<and> length trials = (sum_list trials + 2499) div 2500
    \<and> (diff, a) \<in> set results \<and> (\<forall>(diff', a')\<in>set results. diff \<le> diff')
    \<and> sortedTroves_findInsertPosition h (bigNumber nicr) a a = Inr pos"
proof -
  let ?total = "totalNumberOfTrials n"
  obtain state r where state: "collectApproxHints h nicr \<lparr>search_seed = seed, search_results = []\<rparr>
        (generateTrials ?total) = Inr state"
    and r: "closest_hint (search_results state) = Inr r"
    and pos: "sortedTroves_findInsertPosition h (bigNumber nicr) (snd r) (snd r) = Inr pos"
    using assms by (auto simp: findHintsForNominalCollateralRatio_def Hashgraph_getNumberOfTroves_def rbind_eq_Inr_iff)
  have spec: "100 * n \<le> ?total * ?total" "?total = 0 \<or> (?total - 1) * (?total - 1) < 100 * n"
    using ceil_sqrt_from_spec [of 0 "100 * n"] by (simp_all add: totalNumberOfTrials_def)
  have least: "100 * n \<le> m * m \<longleftrightarrow> sum_list (generateTrials ?total) \<le> m" for m
  proof
    assume le: "100 * n \<le> m * m"
    show "sum_list (generateTrials ?total) \<le> m"
    proof (rule ccontr)
      assume "\<not> sum_list (generateTrials ?total) \<le> m"
      then have "m \<le> ?total - 1" "?total \<noteq> 0"
        by (simp_all add: generateTrials_sum)
      then have "m * m < 100 * n"
        using spec(2) mult_le_mono [of m "?total - 1" m "?total - 1"] by linarith
      with le show False by simp
    qed
  next
    assume "sum_list (generateTrials ?total) \<le> m"
    then show "100 * n \<le> m * m"
      using spec(1) mult_le_mono [of ?total m ?total m] by (simp add: generateTrials_sum)
  qed
  show ?thesis
    using collectApproxHints_answers [OF state] closest_hint_spec [OF r] pos least
      generateTrials_bounds [of _ ?total] generateTrials_length [of ?total] generateTrials_sum [of ?total]
    by (intro exI [of _ "generateTrials ?total"] exI [of _ "search_results state"] exI [of _ "fst r"] exI [of _ "snd r"])
      (auto simp: maxNumberOfTrialsAtOnce_def split_beta)
qed

text \<open>
  What \<^verbatim>\<open>SortedTroves\<close> documents: the list is sorted by descending nominal ratio, and a position is valid if the
  troves up to its left neighbour have at least the given ratio and those from its right neighbour on at most
  that; the zero address stands for either end.
\<close>

definition valid_insert_position :: "(string \<times> nat) list \<Rightarrow> nat \<Rightarrow> string \<times> string \<Rightarrow> bool" where
  "valid_insert_position troves nicr pos \<longleftrightarrow> list_ex (\<lambda>i.
     fst pos = (if i = 0 then AddressZero else fst (troves ! (i - 1)))
     \<and> snd pos = (if i = length troves then AddressZero else fst (troves ! i))
     \<and> list_all (\<lambda>t. nicr \<le> snd t) (take i troves) \<and> list_all (\<lambda>t. snd t \<le> nicr) (drop i troves))
     [0..<Suc (length troves)]"

definition sorted_troves :: "contracts \<Rightarrow> hint_contracts \<Rightarrow> (string \<times> nat) list \<Rightarrow> bool" where
  "sorted_troves k h troves \<longleftrightarrow>
     troveManager_getTroveOwnersCount k None = Inr (length troves)
     \<and> sortedTroves_getFirst h = Inr (if troves = [] then AddressZero else fst (hd troves))
     \<and> (\<forall>nicr p n. \<exists>pos. sortedTroves_findInsertPosition h nicr p n = Inr pos \<and> valid_insert_position troves nicr pos)
     \<and> (\<forall>nicr n seed. \<exists>r. hintHelpers_getApproxHint h nicr n seed = Inr r)
     \<and> list_all (\<lambda>t. snd t \<le> bigNumber Decimal_INFINITY) troves"

lemma findHints_valid:
  assumes "sorted_troves k h troves"
  shows "\<exists>pos. findHintsForNominalCollateralRatio k h seed nicr = Inr pos
    \<and> valid_insert_position troves (bigNumber nicr) pos"
proof -
  have count: "Hashgraph_getNumberOfTroves k None = Inr (int (length troves))"
    using assms by (simp add: sorted_troves_def Hashgraph_getNumberOfTroves_def)
  consider (none) "troves = []" | (infinite) "troves \<noteq> []" "Decimal_infinite nicr \<noteq> None"
    | (finite) "troves \<noteq> []" "Decimal_infinite nicr = None"
    by blast
  then show ?thesis
  proof cases
    case none
    then show ?thesis
      by (simp add: findHintsForNominalCollateralRatio_def count valid_insert_position_def)
  next
    case infinite
    then have "nicr = Decimal_INFINITY"
      by (auto simp: Decimal_infinite_def Decimal_eq_def intro: decimal.expand split: if_split_asm)
    with infinite assms show ?thesis
      by (simp add: findHintsForNominalCollateralRatio_def count sorted_troves_def valid_insert_position_def
          hd_conv_nth upt_conv_Cons)
  next
    case finite
    then have "generateTrials (totalNumberOfTrials (length troves)) \<noteq> []"
      using totalNumberOfTrials_pos [of "length troves"] by (simp add: generateTrials_Nil_iff)
    moreover obtain state where state: "collectApproxHints h nicr \<lparr>search_seed = seed, search_results = []\<rparr>
        (generateTrials (totalNumberOfTrials (length troves))) = Inr state"
      using assms collectApproxHints_exists [of h nicr] unfolding sorted_troves_def by blast
    ultimately obtain r where "closest_hint (search_results state) = Inr r"
      using collectApproxHints_answers [OF state] closest_hint_exists [of "search_results state"] by fastforce
    moreover obtain pos where "sortedTroves_findInsertPosition h (bigNumber nicr) (snd r) (snd r) = Inr pos"
        "valid_insert_position troves (bigNumber nicr) pos"
      using assms unfolding sorted_troves_def by blast
    ultimately show ?thesis
      using finite state by (simp add: findHintsForNominalCollateralRatio_def count split_beta)
  qed
qed

end
