(* ===== verification/Hashgraph_Populate.thy ===== *)
theory Hashgraph_Populate
  imports Hashgraph_Hints
begin

text \<open>
  The transactions of the Hashgraph client: \<^verbatim>\<open>populate...\<close> of
  \<^verbatim>\<open>packages/lib-hashgraph/src/HashgraphLiquity.ts\<close>, \<^verbatim>\<open>gas.ts\<close> and the transaction builder of
  \<^verbatim>\<open>contract_functions.ts\<close>. Each method reads what it needs, computes the arguments of the contract's function and
  returns a populated transaction, which is sent later (theory \<open>Hashgraph_Send\<close>).

  The reads of one method see one state of the ledger. \<^verbatim>\<open>Hbar.fromString\<close> of the SDK is an argument, from the text
  to the number of tinybars.
\<close>

section \<open>Transactions\<close>

datatype abi_value = Uint256 nat | AddressValue string | BoolValue bool | AddressArray "string list"

datatype contract_name =
  BorrowerOperations | TroveManager | StabilityPool | HLQTStaking | SaucerSwapPool | ERC20Token string

record contract_execute =
  contractId :: contract_name
  tinybars :: nat
  gas :: nat
  functionName :: string
  functionParameters :: "abi_value list option"

definition TypedContractExecuteTransaction ::
  "contract_name \<Rightarrow> string \<Rightarrow> abi_value list option \<Rightarrow> nat option \<Rightarrow> nat \<Rightarrow> contract_execute" where
  "TypedContractExecuteTransaction contract name params hbar gas' = \<lparr>
     contractId = contract,
     tinybars = (case hbar of Some t \<Rightarrow> t | None \<Rightarrow> 0),
     gas = gas',
     functionName = name,
     functionParameters = params\<rparr>"

definition gasForPotentialLastFeeOperationTimeUpdate :: nat where
  "gasForPotentialLastFeeOperationTimeUpdate = 10000"

definition gasForPotentialListTraversal :: nat where
  "gasForPotentialListTraversal = 25000"

definition gasForHLQTIssuance :: nat where
  "gasForHLQTIssuance = 50000"

definition gasForUnipoolRewardUpdate :: nat where
  "gasForUnipoolRewardUpdate = 20000"

text \<open>\<^verbatim>\<open>Decimal.from(0.005)\<close> and \<^verbatim>\<open>Decimal.from(0.001)\<close>\<close>

definition defaultBorrowingRateSlippageTolerance :: decimal where
  "defaultBorrowingRateSlippageTolerance = Decimal 500000"

definition defaultRedemptionRateSlippageTolerance :: decimal where
  "defaultRedemptionRateSlippageTolerance = Decimal 100000"

definition redeemMaxIterations :: nat where
  "redeemMaxIterations = 70"

text \<open>
  What a transaction reports once it is mined. The four amounts of the stability pool are collateral gain, loss,
  HLQT reward and new deposit.
\<close>

datatype details =
  NoDetails
| TroveCreationDetails "decimal creation_params" decimal user_trove
| TroveClosureDetails decimal decimal
| TroveAdjustmentDetails "decimal adjustment_params" decimal user_trove
| LiquidationDetails decimal decimal "string list" "Trove.trove"
| StabilityDepositChangeDetails "decimal stability_change" decimal decimal decimal decimal
| StabilityPoolGainsWithdrawalDetails decimal decimal decimal decimal
| CollateralGainTransferDetails decimal decimal decimal decimal "Trove.trove"
| RedemptionDetails decimal decimal decimal decimal

text \<open>
  The closures \<^verbatim>\<open>getDetails\<close>, by what they do: three refresh the store first (and read from it, or from the trove they
  captured), the others return constants.
\<close>

datatype details_closure =
  Immediately details
| CreationAfterRefresh "decimal creation_params"
| AdjustmentAfterRefresh "decimal adjustment_params"
| ClosureAfterRefresh user_trove

record populated_transaction =
  rawPopulatedTransaction :: contract_execute
  gasLimit :: nat
  gasHeadroom :: nat
  getDetails :: details_closure

definition getPopulatedHashgraphLiquityTransaction ::
  "contract_execute \<Rightarrow> details_closure \<Rightarrow> nat \<Rightarrow> populated_transaction" where
  "getPopulatedHashgraphLiquityTransaction raw details' gasLimit' =
     \<lparr>rawPopulatedTransaction = raw, gasLimit = gasLimit', gasHeadroom = 0, getDetails = details'\<rparr>"

text \<open>Truth values of optional amounts: objects are true, the number 0, \<^verbatim>\<open>NaN\<close> and the empty text are not.\<close>

definition truthy :: "decimalish option \<Rightarrow> bool" where
  "truthy d = (case d of
      None \<Rightarrow> False
    | Some (DecimalObject _) \<Rightarrow> True
    | Some OtherObject \<Rightarrow> True
    | Some (Number s) \<Rightarrow> s \<noteq> ''0'' \<and> s \<noteq> ''NaN''
    | Some (Text s) \<Rightarrow> s \<noteq> []
    | Some OtherType \<Rightarrow> False)"

text \<open>What a population has at hand: the client, the ledger, a random seed, and \<^verbatim>\<open>Hbar.fromString\<close>.\<close>

record population =
  pop_client :: client
  pop_contracts :: contracts
  pop_hints :: hint_contracts
  pop_seed :: nat
  hbarFromString :: "string \<Rightarrow> nat result"

definition findHints :: "population \<Rightarrow> 'x trove_scheme \<Rightarrow> (string \<times> string) result" where
  "findHints p t = findHintsForNominalCollateralRatio (pop_contracts p) (pop_hints p) (pop_seed p)
     (Trove_nominalCollateralRatio t)"

section \<open>Troves\<close>

definition populateOpenTrove ::
  "population \<Rightarrow> entries \<Rightarrow> decimalish option \<Rightarrow> populated_transaction result" where
  "populateOpenTrove p params maxBorrowingRate =
     rbind (normalizeTroveCreation params) (\<lambda>normalized.
     rbind (Hashgraph_getFees (pop_client p) (pop_contracts p) None) (\<lambda>fees'.
     rbind (Fees_borrowingRate fees' None) (\<lambda>rate.
     rbind (Trove_create (client_constants (pop_client p)) (creation_entries normalized) (Some rate)) (\<lambda>newTrove.
     rbind (case maxBorrowingRate of
              Some m \<Rightarrow> Decimal_from m
            | None \<Rightarrow> Inr (Decimal_add rate defaultBorrowingRateSlippageTolerance)) (\<lambda>finalMaxBorrowingRate.
     rbind (findHints p newTrove) (\<lambda>hints.
     rbind (Decimal_toString (create_depositCollateral normalized) None) (\<lambda>text.
     rbind (hbarFromString p text) (\<lambda>hbar.
     let gas' = 3000000 + gasForPotentialLastFeeOperationTimeUpdate + gasForPotentialListTraversal;
         raw = TypedContractExecuteTransaction BorrowerOperations ''openTrove''
           (Some [Uint256 (bigNumber finalMaxBorrowingRate), Uint256 (bigNumber (create_borrowHCHF normalized)),
                  AddressValue (fst hints), AddressValue (snd hints)]) (Some hbar) gas'
     in Inr (getPopulatedHashgraphLiquityTransaction raw (CreationAfterRefresh normalized) gas')))))))))"

text \<open>
  The trove and the fees of \<^verbatim>\<open>this.state\<close>: those of the derived state, and the defaults as long as there is none. Neither is part of the extra state.
\<close>

definition state_trove :: "'e store \<Rightarrow> user_trove" where
  "state_trove s = (case derivedState s of
      Some d \<Rightarrow> content (trove d) | None \<Rightarrow> new_UserTrove (store_constants s) '''' NonExistent Decimal_ZERO Decimal_ZERO)"

definition state_fees :: "'e store \<Rightarrow> fees" where
  "state_fees s = (case derivedState s of Some d \<Rightarrow> content (fees d) | None \<Rightarrow> default_Fees (store_constants s))"

text \<open>Both agree with the defaults of the state object.\<close>

lemma state_of_derived:
  "state_trove s = content (trove (case derivedState s of Some d \<Rightarrow> d | None \<Rightarrow> default_derived_state ids (store_constants s)))"
  "state_fees s = content (fees (case derivedState s of Some d \<Rightarrow> d | None \<Rightarrow> default_derived_state ids (store_constants s)))"
  by (simp_all add: state_trove_def state_fees_def default_derived_state_def split: option.split)

definition populateCloseTrove :: "'e store \<Rightarrow> populated_transaction" where
  "populateCloseTrove s =
     (let gas' = 3000000;
          raw = TypedContractExecuteTransaction BorrowerOperations ''closeTrove'' None None gas'
      in getPopulatedHashgraphLiquityTransaction raw (ClosureAfterRefresh (state_trove s)) gas')"

definition populateAdjustTrove ::
  "population \<Rightarrow> entries \<Rightarrow> decimalish option \<Rightarrow> string option \<Rightarrow> populated_transaction result" where
  "populateAdjustTrove p params maxBorrowingRate from' =
     (let address = getAddressOrUserAddress (pop_client p) from' in
     rbind (normalizeTroveAdjustment params) (\<lambda>normalized.
     rbind (Hashgraph_getTrove (pop_client p) (pop_contracts p) (Some address)) (\<lambda>t.
     rbind (if borrowHCHF normalized \<noteq> None
            then rbind (Hashgraph_getFees (pop_client p) (pop_contracts p) None) (\<lambda>f. Inr (Some f))
            else Inr None) (\<lambda>fees'.
     rbind (case fees' of Some f \<Rightarrow> rbind (Fees_borrowingRate f None) (\<lambda>r. Inr (Some r)) | None \<Rightarrow> Inr None) (\<lambda>rate.
     rbind (Trove_adjust (trove.truncate t) (adjustment_entries normalized) rate) (\<lambda>finalTrove.
     rbind (if truthy maxBorrowingRate then Decimal_from (the maxBorrowingRate)
            else (case rate of
                Some r \<Rightarrow> Inr (Decimal_add r defaultBorrowingRateSlippageTolerance)
              | None \<Rightarrow> Inr Decimal_ZERO)) (\<lambda>finalMaxBorrowingRate.
     rbind (findHints p finalTrove) (\<lambda>hints.
     rbind (case depositCollateral normalized of
              Some d \<Rightarrow> rbind (Decimal_toString d None) (hbarFromString p)
            | None \<Rightarrow> Inr 0) (\<lambda>hbar.
     let gas' = 3000000 + gasForPotentialListTraversal
           + (if borrowHCHF normalized \<noteq> None then gasForPotentialLastFeeOperationTimeUpdate else 0);
         raw = TypedContractExecuteTransaction BorrowerOperations ''adjustTrove''
           (Some [Uint256 (bigNumber finalMaxBorrowingRate),
                  Uint256 (bigNumber (or_zero (withdrawCollateral normalized))),
                  Uint256 (bigNumber (case borrowHCHF normalized of
                      Some b \<Rightarrow> b | None \<Rightarrow> or_zero (repayHCHF normalized))),
                  BoolValue (borrowHCHF normalized \<noteq> None),
                  AddressValue (fst hints), AddressValue (snd hints)]) (Some hbar) gas'
     in Inr (getPopulatedHashgraphLiquityTransaction raw (AdjustmentAfterRefresh normalized) gas'))))))))))"

definition populateDepositCollateral :: "population \<Rightarrow> decimalish \<Rightarrow> string option \<Rightarrow> populated_transaction result" where
  "populateDepositCollateral p amount from' =
     populateAdjustTrove p [(''depositCollateral'', Some amount)] None from'"

definition populateWithdrawCollateral :: "population \<Rightarrow> decimalish \<Rightarrow> string option \<Rightarrow> populated_transaction result" where
  "populateWithdrawCollateral p amount from' =
     populateAdjustTrove p [(''withdrawCollateral'', Some amount)] None from'"

definition populateBorrowHCHF :: "population \<Rightarrow> decimalish \<Rightarrow> string option \<Rightarrow> populated_transaction result" where
  "populateBorrowHCHF p amount from' = populateAdjustTrove p [(''borrowHCHF'', Some amount)] None from'"

definition populateRepayHCHF :: "population \<Rightarrow> decimalish \<Rightarrow> string option \<Rightarrow> populated_transaction result" where
  "populateRepayHCHF p amount from' = populateAdjustTrove p [(''repayHCHF'', Some amount)] None from'"

definition populateClaimCollateralSurplus :: populated_transaction where
  "populateClaimCollateralSurplus =
     (let gas' = 3000000;
          raw = TypedContractExecuteTransaction BorrowerOperations ''claimCollateral'' None None gas'
      in getPopulatedHashgraphLiquityTransaction raw (Immediately NoDetails) gas')"

definition populateSetPrice :: "decimalish \<Rightarrow> populated_transaction result" where
  "populateSetPrice price' = Inl (Error
     ''setPrice() is not implemented. amend HashgraphLiquity::populateSetPrice to implement it.'')"

section \<open>Liquidation\<close>

datatype liquidation_target = OneAddress string | Addresses "string list"

definition populateLiquidate :: "population \<Rightarrow> liquidation_target \<Rightarrow> populated_transaction" where
  "populateLiquidate p addressOrAddresses =
     (let gas' = 3000000 + gasForHLQTIssuance;
          raw = (case addressOrAddresses of
              Addresses as \<Rightarrow> TypedContractExecuteTransaction TroveManager ''batchLiquidateTroves''
                (Some [AddressArray as]) None gas'
            | OneAddress a \<Rightarrow> TypedContractExecuteTransaction TroveManager ''liquidate''
                (Some [AddressValue a]) None gas');
          details' = LiquidationDetails Decimal_ZERO Decimal_ZERO
            (case addressOrAddresses of Addresses as \<Rightarrow> as | OneAddress a \<Rightarrow> [a])
            (empty_Trove (client_constants (pop_client p)))
      in getPopulatedHashgraphLiquityTransaction raw (Immediately details') gas')"

text \<open>The number of troves is a JavaScript number, converted through its text.\<close>

definition populateLiquidateUpTo :: "population \<Rightarrow> string \<Rightarrow> populated_transaction result" where
  "populateLiquidateUpTo p maximumNumberOfTrovesToLiquidate =
     rbind (Decimal_from (Number maximumNumberOfTrovesToLiquidate)) (\<lambda>n.
     let gas' = 3000000 + gasForHLQTIssuance;
         raw = TypedContractExecuteTransaction TroveManager ''liquidateTroves'' (Some [Uint256 (bigNumber n)]) None gas';
         details' = LiquidationDetails Decimal_ZERO Decimal_ZERO [] (empty_Trove (client_constants (pop_client p)))
     in Inr (getPopulatedHashgraphLiquityTransaction raw (Immediately details') gas'))"

section \<open>The stability pool\<close>

definition populateDepositHCHFInStabilityPool ::
  "population \<Rightarrow> decimalish \<Rightarrow> string option \<Rightarrow> populated_transaction result" where
  "populateDepositHCHFInStabilityPool p amount frontendTag' =
     (let frontendAddress' = (case frontendTag' of Some a \<Rightarrow> a | None \<Rightarrow> frontendAddress (pop_client p)) in
     rbind (Decimal_from amount) (\<lambda>a.
     let gas' = 3000000 + gasForHLQTIssuance;
         raw = TypedContractExecuteTransaction StabilityPool ''provideToSP''
           (Some [Uint256 (bigNumber a), AddressValue frontendAddress']) None gas';
         details' = StabilityDepositChangeDetails (WithdrawHCHF Decimal_ZERO False)
           Decimal_ZERO Decimal_ZERO Decimal_ZERO Decimal_ZERO
     in Inr (getPopulatedHashgraphLiquityTransaction raw (Immediately details') gas')))"

definition populateWithdrawHCHFFromStabilityPool :: "decimalish \<Rightarrow> populated_transaction result" where
  "populateWithdrawHCHFFromStabilityPool amount =
     rbind (Decimal_from amount) (\<lambda>a.
     let gas' = 3000000 + gasForHLQTIssuance;
         raw = TypedContractExecuteTransaction StabilityPool ''withdrawFromSP'' (Some [Uint256 (bigNumber a)]) None gas';
         details' = StabilityPoolGainsWithdrawalDetails Decimal_ZERO Decimal_ZERO Decimal_ZERO Decimal_ZERO
     in Inr (getPopulatedHashgraphLiquityTransaction raw (Immediately details') gas'))"

definition populateWithdrawGainsFromStabilityPool :: "populated_transaction result" where
  "populateWithdrawGainsFromStabilityPool =
     rbind (Decimal_from (Number ''0'')) (\<lambda>a.
     let gas' = 3000000 + gasForHLQTIssuance;
         raw = TypedContractExecuteTransaction StabilityPool ''withdrawFromSP'' (Some [Uint256 (bigNumber a)]) None gas';
         details' = StabilityPoolGainsWithdrawalDetails Decimal_ZERO Decimal_ZERO Decimal_ZERO Decimal_ZERO
     in Inr (getPopulatedHashgraphLiquityTransaction raw (Immediately details') gas'))"

definition populateTransferCollateralGainToTrove ::
  "population \<Rightarrow> string option \<Rightarrow> populated_transaction result" where
  "populateTransferCollateralGainToTrove p from' =
     (let address = getAddressOrUserAddress (pop_client p) from' in
     rbind (Hashgraph_getTrove (pop_client p) (pop_contracts p) (Some address)) (\<lambda>initialTrove.
     rbind (Hashgraph_getStabilityDeposit (pop_client p) (pop_contracts p) (Some address) None) (\<lambda>stabilityDeposit'.
     let finalTrove = Trove_addCollateral initialTrove (sd_collateralGain stabilityDeposit') in
     rbind (findHints p finalTrove) (\<lambda>hints.
     let gas' = 3000000 + gasForHLQTIssuance;
         raw = TypedContractExecuteTransaction StabilityPool ''withdrawETHGainToTrove''
           (Some [AddressValue (fst hints), AddressValue (snd hints)]) None gas';
         details' = CollateralGainTransferDetails Decimal_ZERO Decimal_ZERO Decimal_ZERO Decimal_ZERO finalTrove
     in Inr (getPopulatedHashgraphLiquityTransaction raw (Immediately details') gas')))))"

section \<open>Redemption\<close>

record populated_redemption = populated_transaction +
  attemptedHCHFAmount :: decimal
  redeemableHCHFAmount :: decimal
  isTruncated :: bool
  redemption_maxRate :: "decimal option"

text \<open>
  What the closure \<^verbatim>\<open>populateRedemption\<close> captures: fees and total of the ledger, the first hint, and the constants.
  The record of a populated redemption keeps the maximum rate it was made with, which its method
  \<^verbatim>\<open>increaseAmountByMinimumNetDebt\<close> captures.
\<close>

record redemption_context =
  rc_fees :: fees
  rc_total :: "Trove.trove"
  rc_firstRedemptionHint :: string
  rc_constants :: constants

definition defaultMaxRedemptionRate :: "redemption_context \<Rightarrow> decimal \<Rightarrow> decimal result" where
  "defaultMaxRedemptionRate c amount =
     rbind (Fees_redemptionRate (rc_fees c) (DecimalObject (Decimal_div amount (debt (rc_total c)))) None) (\<lambda>r.
     Inr (Decimal_min (Decimal_add r defaultRedemptionRateSlippageTolerance) Decimal_ONE))"

definition populateRedemption ::
  "redemption_context \<Rightarrow> decimal \<Rightarrow> decimal option \<Rightarrow> decimal \<Rightarrow> string \<Rightarrow> string \<Rightarrow> decimal \<Rightarrow> populated_redemption result" where
  "populateRedemption c attempted maxRedemptionRate truncatedAmount upperHint lowerHint hintNICR =
     rbind (case maxRedemptionRate of Some m \<Rightarrow> Inr m | None \<Rightarrow> defaultMaxRedemptionRate c truncatedAmount)
       (\<lambda>maxRedemptionRateOrDefault.
     rbind (Decimal_from (Number (show_nat redeemMaxIterations))) (\<lambda>iterations.
     let gas' = 3000000 + gasForPotentialLastFeeOperationTimeUpdate;
         raw = TypedContractExecuteTransaction TroveManager ''redeemCollateral''
           (Some [Uint256 (bigNumber truncatedAmount), AddressValue (rc_firstRedemptionHint c),
                  AddressValue upperHint, AddressValue lowerHint, Uint256 (bigNumber hintNICR),
                  Uint256 (bigNumber iterations), Uint256 (bigNumber maxRedemptionRateOrDefault)]) None gas'
     in Inr \<lparr>rawPopulatedTransaction = raw, gasLimit = gas', gasHeadroom = 0,
             getDetails = Immediately (RedemptionDetails Decimal_ZERO attempted Decimal_ZERO Decimal_ZERO),
             attemptedHCHFAmount = attempted, redeemableHCHFAmount = truncatedAmount,
             isTruncated = Decimal_lt truncatedAmount attempted, redemption_maxRate = maxRedemptionRate\<rparr>))"

definition increaseAmountByMinimumNetDebt ::
  "redemption_context \<Rightarrow> populated_redemption \<Rightarrow> decimalish option \<Rightarrow> populated_redemption result" where
  "increaseAmountByMinimumNetDebt c r newMaxRedemptionRate =
     (if isTruncated r
      then rbind (if truthy newMaxRedemptionRate
                  then rbind (Decimal_from (the newMaxRedemptionRate)) (\<lambda>m. Inr (Some m))
                  else Inr (redemption_maxRate r)) (\<lambda>resolvedMaxRedemptionRate.
           let attempted = Decimal_add (redeemableHCHFAmount r) (HCHF_MINIMUM_NET_DEBT (rc_constants c))
           in populateRedemption c attempted resolvedMaxRedemptionRate attempted AddressZero AddressZero Decimal_ZERO)
      else Inl (Error (''PopulatedRedemption: increaseAmountByMinimumNetDebt() can only be called ''
             @ ''when amount is truncated'')))"

definition populateRedeemHCHF ::
  "population \<Rightarrow> decimalish \<Rightarrow> decimalish option \<Rightarrow> (redemption_context \<times> populated_redemption) result" where
  "populateRedeemHCHF p amount maxRedemptionRate =
     rbind (Decimal_from amount) (\<lambda>attempted.
     rbind (Hashgraph_getFees (pop_client p) (pop_contracts p) None) (\<lambda>fees'.
     rbind (Hashgraph_getTotal (pop_client p) (pop_contracts p) None) (\<lambda>total'.
     rbind (Hashgraph_getPrice (pop_contracts p) None) (\<lambda>price'.
     rbind (hintHelpers_getRedemptionHints (pop_hints p) (bigNumber attempted) (bigNumber price') redeemMaxIterations)
       (\<lambda>redemptionHintsResult.
     rbind (decimalify (partialRedemptionHintNICR redemptionHintsResult)) (\<lambda>nicr.
     rbind (if Decimal_eq nicr Decimal_ZERO then Inr (AddressZero, AddressZero)
            else findHintsForNominalCollateralRatio (pop_contracts p) (pop_hints p) (pop_seed p) nicr) (\<lambda>hints.
     rbind (decimalify (truncatedHCHFamount redemptionHintsResult)) (\<lambda>truncatedAmount.
     let c = \<lparr>rc_fees = fees', rc_total = total',
              rc_firstRedemptionHint = firstRedemptionHint redemptionHintsResult,
              rc_constants = client_constants (pop_client p)\<rparr>
     in if Decimal_isZero truncatedAmount
        then Inl (Error (''redeemHCHF: amount too low to redeem (try at least ''
               @ Decimal_text (HCHF_MINIMUM_NET_DEBT (client_constants (pop_client p))) @ '')''))
        else rbind (if truthy maxRedemptionRate
                    then rbind (Decimal_from (the maxRedemptionRate)) (\<lambda>m. Inr (Some m)) else Inr None) (\<lambda>maxRate.
             rbind (populateRedemption c attempted maxRate truncatedAmount (fst hints) (snd hints) nicr) (\<lambda>r.
             Inr (c, r)))))))))))"

section \<open>Staking, frontends and liquidity mining\<close>

text \<open>A call with one amount, the shape of the following methods.\<close>

definition amount_call :: "contract_name \<Rightarrow> string \<Rightarrow> nat \<Rightarrow> decimalish \<Rightarrow> populated_transaction result" where
  "amount_call contract name gas' amount =
     rbind (Decimal_from amount) (\<lambda>a.
     let raw = TypedContractExecuteTransaction contract name (Some [Uint256 (bigNumber a)]) None gas'
     in Inr (getPopulatedHashgraphLiquityTransaction raw (Immediately NoDetails) gas'))"

definition populateStakeHLQT :: "decimalish \<Rightarrow> populated_transaction result" where
  "populateStakeHLQT amount = amount_call HLQTStaking ''stake'' 3000000 amount"

definition populateUnstakeHLQT :: "decimalish \<Rightarrow> populated_transaction result" where
  "populateUnstakeHLQT amount = amount_call HLQTStaking ''unstake'' 3000000 amount"

definition populateWithdrawGainsFromStaking :: "populated_transaction result" where
  "populateWithdrawGainsFromStaking = populateUnstakeHLQT (DecimalObject Decimal_ZERO)"

definition populateRegisterFrontend :: "decimalish \<Rightarrow> populated_transaction result" where
  "populateRegisterFrontend kickbackRate = amount_call StabilityPool ''registerFrontEnd'' 3000000 kickbackRate"

definition populateApproveUniTokens :: "population \<Rightarrow> decimalish option \<Rightarrow> populated_transaction result" where
  "populateApproveUniTokens p allowance =
     (if \<not> truthy allowance
      then Inl (Error ''infinite approvals are disallowed. pass an allowance value to approve.'')
      else
     rbind (unipool_uniToken (pop_contracts p) None) (\<lambda>uniTokenAddress.
     rbind (Decimal_from (the allowance)) (\<lambda>a.
     let gas' = 3000000;
         raw = TypedContractExecuteTransaction (ERC20Token uniTokenAddress) ''approve''
           (Some [AddressValue (saucerSwapPoolAddress (pop_client p)), Uint256 (bigNumber a)]) None gas'
     in Inr (getPopulatedHashgraphLiquityTransaction raw (Immediately NoDetails) gas'))))"

definition populateStakeUniTokens :: "decimalish \<Rightarrow> populated_transaction result" where
  "populateStakeUniTokens amount = amount_call SaucerSwapPool ''stake'' (3000000 + gasForUnipoolRewardUpdate) amount"

definition populateUnstakeUniTokens :: "decimalish \<Rightarrow> populated_transaction result" where
  "populateUnstakeUniTokens amount = amount_call SaucerSwapPool ''withdraw'' (3000000 + gasForUnipoolRewardUpdate) amount"

definition populateWithdrawHLQTRewardFromLiquidityMining :: populated_transaction where
  "populateWithdrawHLQTRewardFromLiquidityMining =
     (let gas' = 3000000 + gasForUnipoolRewardUpdate;
          raw = TypedContractExecuteTransaction SaucerSwapPool ''claimReward'' None None gas'
      in getPopulatedHashgraphLiquityTransaction raw (Immediately NoDetails) gas')"

definition populateExitLiquidityMining :: populated_transaction where
  "populateExitLiquidityMining =
     (let gas' = 3000000 + gasForUnipoolRewardUpdate;
          raw = TypedContractExecuteTransaction SaucerSwapPool ''withdrawAndClaim'' None None gas'
      in getPopulatedHashgraphLiquityTransaction raw (Immediately NoDetails) gas')"

section \<open>The interface\<close>

text \<open>
  The operations of \<^verbatim>\<open>PopulatableLiquity\<close> as data, with their arguments (optional ones as options), and
  \<^verbatim>\<open>asPopulatable\<close> of \<^verbatim>\<open>populatable.ts\<close>, which maps each to its method. The fields a redemption has beyond those of
  other transactions are dropped.
\<close>

datatype liquity_action =
  Action_openTrove entries "decimalish option"
| Action_closeTrove
| Action_adjustTrove entries "decimalish option"
| Action_depositCollateral decimalish
| Action_withdrawCollateral decimalish
| Action_borrowHCHF decimalish
| Action_repayHCHF decimalish
| Action_claimCollateralSurplus
| Action_setPrice decimalish
| Action_liquidate liquidation_target
| Action_liquidateUpTo string
| Action_depositHCHFInStabilityPool decimalish "string option"
| Action_withdrawHCHFFromStabilityPool decimalish
| Action_withdrawGainsFromStabilityPool
| Action_transferCollateralGainToTrove
| Action_redeemHCHF decimalish "decimalish option"
| Action_stakeHLQT decimalish
| Action_unstakeHLQT decimalish
| Action_withdrawGainsFromStaking
| Action_registerFrontend decimalish
| Action_approveUniTokens "decimalish option"
| Action_stakeUniTokens decimalish
| Action_unstakeUniTokens decimalish
| Action_withdrawHLQTRewardFromLiquidityMining
| Action_exitLiquidityMining

fun asPopulatable :: "population \<Rightarrow> 'e store \<Rightarrow> liquity_action \<Rightarrow> populated_transaction result" where
  "asPopulatable p s (Action_openTrove params m) = populateOpenTrove p params m"
| "asPopulatable p s Action_closeTrove = Inr (populateCloseTrove s)"
| "asPopulatable p s (Action_adjustTrove params m) = populateAdjustTrove p params m None"
| "asPopulatable p s (Action_depositCollateral a) = populateDepositCollateral p a None"
| "asPopulatable p s (Action_withdrawCollateral a) = populateWithdrawCollateral p a None"
| "asPopulatable p s (Action_borrowHCHF a) = populateBorrowHCHF p a None"
| "asPopulatable p s (Action_repayHCHF a) = populateRepayHCHF p a None"
| "asPopulatable p s Action_claimCollateralSurplus = Inr populateClaimCollateralSurplus"
| "asPopulatable p s (Action_setPrice a) = populateSetPrice a"
| "asPopulatable p s (Action_liquidate t) = Inr (populateLiquidate p t)"
| "asPopulatable p s (Action_liquidateUpTo n) = populateLiquidateUpTo p n"
| "asPopulatable p s (Action_depositHCHFInStabilityPool a t) = populateDepositHCHFInStabilityPool p a t"
| "asPopulatable p s (Action_withdrawHCHFFromStabilityPool a) = populateWithdrawHCHFFromStabilityPool a"
| "asPopulatable p s Action_withdrawGainsFromStabilityPool = populateWithdrawGainsFromStabilityPool"
| "asPopulatable p s Action_transferCollateralGainToTrove = populateTransferCollateralGainToTrove p None"
| "asPopulatable p s (Action_redeemHCHF a m) = rbind (populateRedeemHCHF p a m) (\<lambda>(c, r).
     Inr (populated_transaction.truncate r))"
| "asPopulatable p s (Action_stakeHLQT a) = populateStakeHLQT a"
| "asPopulatable p s (Action_unstakeHLQT a) = populateUnstakeHLQT a"
| "asPopulatable p s Action_withdrawGainsFromStaking = populateWithdrawGainsFromStaking"
| "asPopulatable p s (Action_registerFrontend a) = populateRegisterFrontend a"
| "asPopulatable p s (Action_approveUniTokens a) = populateApproveUniTokens p a"
| "asPopulatable p s (Action_stakeUniTokens a) = populateStakeUniTokens a"
| "asPopulatable p s (Action_unstakeUniTokens a) = populateUnstakeUniTokens a"
| "asPopulatable p s Action_withdrawHLQTRewardFromLiquidityMining = Inr populateWithdrawHLQTRewardFromLiquidityMining"
| "asPopulatable p s Action_exitLiquidityMining = Inr populateExitLiquidityMining"

end
