(* ===== verification/Hashgraph_Transactions.thy ===== *)
theory Hashgraph_Transactions
  imports Hashgraph_Populate Hashgraph_Ledger Trove_Transactions
begin

text \<open>
  Properties of the populated transactions: their calls fit the interfaces of the contracts
  (\<^verbatim>\<open>packages/lib-hashgraph/abi\<close>), they say what the caller asked for, and their hints are valid.
\<close>

section \<open>The interfaces of the contracts\<close>

text \<open>The entries of the functions called: name, types of the inputs, and whether the function is payable.\<close>

datatype abi_type = UINT256 | ADDRESS | BOOL | ADDRESSES

record abi_function =
  abi_name :: string
  abi_inputs :: "abi_type list"
  abi_payable :: bool

definition BorrowerOperations_adjustTrove :: abi_function where
  "BorrowerOperations_adjustTrove = \<lparr>abi_name = ''adjustTrove'', abi_inputs = [UINT256, UINT256, UINT256, BOOL, ADDRESS, ADDRESS], abi_payable = True\<rparr>"

definition BorrowerOperations_claimCollateral :: abi_function where
  "BorrowerOperations_claimCollateral = \<lparr>abi_name = ''claimCollateral'', abi_inputs = [], abi_payable = False\<rparr>"

definition BorrowerOperations_closeTrove :: abi_function where
  "BorrowerOperations_closeTrove = \<lparr>abi_name = ''closeTrove'', abi_inputs = [], abi_payable = False\<rparr>"

definition BorrowerOperations_openTrove :: abi_function where
  "BorrowerOperations_openTrove = \<lparr>abi_name = ''openTrove'', abi_inputs = [UINT256, UINT256, ADDRESS, ADDRESS], abi_payable = True\<rparr>"

definition TroveManager_batchLiquidateTroves :: abi_function where
  "TroveManager_batchLiquidateTroves = \<lparr>abi_name = ''batchLiquidateTroves'', abi_inputs = [ADDRESSES], abi_payable = False\<rparr>"

definition TroveManager_liquidate :: abi_function where
  "TroveManager_liquidate = \<lparr>abi_name = ''liquidate'', abi_inputs = [ADDRESS], abi_payable = False\<rparr>"

definition TroveManager_liquidateTroves :: abi_function where
  "TroveManager_liquidateTroves = \<lparr>abi_name = ''liquidateTroves'', abi_inputs = [UINT256], abi_payable = False\<rparr>"

definition TroveManager_redeemCollateral :: abi_function where
  "TroveManager_redeemCollateral = \<lparr>abi_name = ''redeemCollateral'', abi_inputs = [UINT256, ADDRESS, ADDRESS, ADDRESS, UINT256, UINT256, UINT256], abi_payable = False\<rparr>"

definition StabilityPool_provideToSP :: abi_function where
  "StabilityPool_provideToSP = \<lparr>abi_name = ''provideToSP'', abi_inputs = [UINT256, ADDRESS], abi_payable = False\<rparr>"

definition StabilityPool_registerFrontEnd :: abi_function where
  "StabilityPool_registerFrontEnd = \<lparr>abi_name = ''registerFrontEnd'', abi_inputs = [UINT256], abi_payable = False\<rparr>"

definition StabilityPool_withdrawETHGainToTrove :: abi_function where
  "StabilityPool_withdrawETHGainToTrove = \<lparr>abi_name = ''withdrawETHGainToTrove'', abi_inputs = [ADDRESS, ADDRESS], abi_payable = False\<rparr>"

definition StabilityPool_withdrawFromSP :: abi_function where
  "StabilityPool_withdrawFromSP = \<lparr>abi_name = ''withdrawFromSP'', abi_inputs = [UINT256], abi_payable = False\<rparr>"

definition HLQTStaking_stake :: abi_function where
  "HLQTStaking_stake = \<lparr>abi_name = ''stake'', abi_inputs = [UINT256], abi_payable = False\<rparr>"

definition HLQTStaking_unstake :: abi_function where
  "HLQTStaking_unstake = \<lparr>abi_name = ''unstake'', abi_inputs = [UINT256], abi_payable = False\<rparr>"

definition Unipool_claimReward :: abi_function where
  "Unipool_claimReward = \<lparr>abi_name = ''claimReward'', abi_inputs = [], abi_payable = False\<rparr>"

definition Unipool_stake :: abi_function where
  "Unipool_stake = \<lparr>abi_name = ''stake'', abi_inputs = [UINT256], abi_payable = False\<rparr>"

definition Unipool_withdraw :: abi_function where
  "Unipool_withdraw = \<lparr>abi_name = ''withdraw'', abi_inputs = [UINT256], abi_payable = False\<rparr>"

definition Unipool_withdrawAndClaim :: abi_function where
  "Unipool_withdrawAndClaim = \<lparr>abi_name = ''withdrawAndClaim'', abi_inputs = [], abi_payable = False\<rparr>"

definition IERC20_approve :: abi_function where
  "IERC20_approve = \<lparr>abi_name = ''approve'', abi_inputs = [ADDRESS, UINT256], abi_payable = False\<rparr>"

fun contract_abi :: "contract_name \<Rightarrow> abi_function list" where
  "contract_abi BorrowerOperations = [BorrowerOperations_adjustTrove, BorrowerOperations_claimCollateral, BorrowerOperations_closeTrove, BorrowerOperations_openTrove]"
| "contract_abi TroveManager = [TroveManager_batchLiquidateTroves, TroveManager_liquidate, TroveManager_liquidateTroves, TroveManager_redeemCollateral]"
| "contract_abi StabilityPool = [StabilityPool_provideToSP, StabilityPool_registerFrontEnd, StabilityPool_withdrawETHGainToTrove, StabilityPool_withdrawFromSP]"
| "contract_abi HLQTStaking = [HLQTStaking_stake, HLQTStaking_unstake]"
| "contract_abi SaucerSwapPool = [Unipool_claimReward, Unipool_stake, Unipool_withdraw, Unipool_withdrawAndClaim]"
| "contract_abi (ERC20Token a) = [IERC20_approve]"

fun abi_value_type :: "abi_value \<Rightarrow> abi_type" where
  "abi_value_type (Uint256 _) = UINT256"
| "abi_value_type (AddressValue _) = ADDRESS"
| "abi_value_type (BoolValue _) = BOOL"
| "abi_value_type (AddressArray _) = ADDRESSES"

text \<open>A call fits if the contract has such a function and no hbar is sent to one that is not payable.\<close>

definition fits_abi :: "contract_execute \<Rightarrow> bool" where
  "fits_abi tx \<longleftrightarrow> list_ex (\<lambda>f. abi_name f = functionName tx
     \<and> abi_inputs f = map abi_value_type (case functionParameters tx of Some vs \<Rightarrow> vs | None \<Rightarrow> [])
     \<and> (abi_payable f \<or> tinybars tx = 0)) (contract_abi (contractId tx))"

lemmas abi_entries = BorrowerOperations_adjustTrove_def BorrowerOperations_claimCollateral_def BorrowerOperations_closeTrove_def BorrowerOperations_openTrove_def TroveManager_batchLiquidateTroves_def TroveManager_liquidate_def TroveManager_liquidateTroves_def TroveManager_redeemCollateral_def StabilityPool_provideToSP_def StabilityPool_registerFrontEnd_def StabilityPool_withdrawETHGainToTrove_def StabilityPool_withdrawFromSP_def HLQTStaking_stake_def HLQTStaking_unstake_def Unipool_claimReward_def Unipool_stake_def Unipool_withdraw_def Unipool_withdrawAndClaim_def IERC20_approve_def

lemmas gas_defs = gasForPotentialLastFeeOperationTimeUpdate_def gasForPotentialListTraversal_def gasForHLQTIssuance_def
  gasForUnipoolRewardUpdate_def

lemmas populate_defs = populateCloseTrove_def populateDepositCollateral_def populateWithdrawCollateral_def populateBorrowHCHF_def populateRepayHCHF_def
  populateClaimCollateralSurplus_def populateSetPrice_def populateLiquidate_def populateLiquidateUpTo_def
  populateDepositHCHFInStabilityPool_def populateWithdrawHCHFFromStabilityPool_def
  populateWithdrawGainsFromStabilityPool_def populateTransferCollateralGainToTrove_def
  populateStakeHLQT_def populateUnstakeHLQT_def populateWithdrawGainsFromStaking_def populateRegisterFrontend_def
  populateApproveUniTokens_def populateStakeUniTokens_def populateUnstakeUniTokens_def
  populateWithdrawHLQTRewardFromLiquidityMining_def populateExitLiquidityMining_def amount_call_def

lemmas built_transaction = getPopulatedHashgraphLiquityTransaction_def TypedContractExecuteTransaction_def

definition fitting :: "populated_transaction \<Rightarrow> bool" where
  "fitting tx \<longleftrightarrow> fits_abi (rawPopulatedTransaction tx) \<and> gasLimit tx = gas (rawPopulatedTransaction tx)
     \<and> 3000000 \<le> gasLimit tx \<and> gasLimit tx \<le> 3050000 \<and> gasHeadroom tx = 0"

lemmas fitting_simps = fitting_def fits_abi_def abi_entries gas_defs built_transaction

lemma populateOpenTrove_fitting: "populateOpenTrove p params m = Inr tx \<Longrightarrow> fitting tx"
  by (auto simp: populateOpenTrove_def rbind_eq_Inr_iff fitting_simps Let_def)

lemma populateAdjustTrove_fitting: "populateAdjustTrove p params m a = Inr tx \<Longrightarrow> fitting tx"
  by (auto simp: populateAdjustTrove_def rbind_eq_Inr_iff fitting_simps Let_def)

lemma populateRedeemHCHF_fitting: "populateRedeemHCHF p a m = Inr (c, r) \<Longrightarrow> fitting (populated_transaction.truncate r)"
  by (auto simp: populateRedeemHCHF_def populateRedemption_def rbind_eq_Inr_iff fitting_simps Let_def
      populated_transaction.truncate_def split: if_split_asm)

text \<open>
  C12. Every transaction the client offers fits the interface of the contract it calls: the contract has a function of
  that name, the arguments have the types of its inputs in their order, hbar is sent only to payable functions; the gas
  limit announced is the one set, and lies between 3,000,000 and 3,050,000.
\<close>

theorem asPopulatable_fits:
  assumes "asPopulatable p s a = Inr tx"
  shows "fitting tx"
  using assms
  by (cases a)
    (auto simp: populate_defs rbind_eq_Inr_iff fitting_simps Let_def split: liquidation_target.split if_split_asm
      dest: populateOpenTrove_fitting [unfolded fitting_simps] populateAdjustTrove_fitting [unfolded fitting_simps]
        populateRedeemHCHF_fitting [unfolded fitting_simps])

section \<open>What the calls mean\<close>

text \<open>
  What the SDK documents of \<^verbatim>\<open>Hbar.fromString\<close>: a number of hbars with up to eight decimals, read exactly.
\<close>

definition reads_hbars :: "population \<Rightarrow> bool" where
  "reads_hbars p \<longleftrightarrow> (\<forall>d. d \<noteq> Decimal_INFINITY \<longrightarrow> hbarFromString p (Decimal_text d) = Inr (bigNumber d))"

text \<open>
  The amounts that a call carries, if it is one of \<^verbatim>\<open>openTrove\<close> or \<^verbatim>\<open>adjustTrove\<close>: for the former the maximal rate, the requested amount and the hbars sent; for the
  latter the maximal rate, the withdrawal, the change of the debt, whether it is an increase, and the hbars sent.
\<close>

definition opening_call :: "contract_execute \<Rightarrow> (nat \<times> nat \<times> nat) option" where
  "opening_call tx = (case functionParameters tx of
      Some [Uint256 maxFee, Uint256 amount, AddressValue upper, AddressValue lower] \<Rightarrow>
        (if contractId tx = BorrowerOperations \<and> functionName tx = ''openTrove'' then Some (maxFee, amount, tinybars tx) else None)
    | _ \<Rightarrow> None)"

definition adjusting_call :: "contract_execute \<Rightarrow> (nat \<times> nat \<times> nat \<times> bool \<times> nat) option" where
  "adjusting_call tx = (case functionParameters tx of
      Some [Uint256 maxFee, Uint256 withdrawal, Uint256 change, BoolValue isDebtIncrease, AddressValue upper, AddressValue lower] \<Rightarrow>
        (if contractId tx = BorrowerOperations \<and> functionName tx = ''adjustTrove''
         then Some (maxFee, withdrawal, change, isDebtIncrease, tinybars tx) else None)
    | _ \<Rightarrow> None)"

fun position_hints :: "abi_value list \<Rightarrow> string \<times> string" where
  "position_hints [AddressValue upper, AddressValue lower] = (upper, lower)"
| "position_hints (v # vs) = position_hints vs"
| "position_hints [] = (AddressZero, AddressZero)"

lemma findHints_valid_position:
  assumes "sorted_troves (pop_contracts p) (pop_hints p) troves" and "findHints p t = Inr hints"
  shows "valid_insert_position troves (bigNumber (Trove_nominalCollateralRatio t)) hints"
  using findHints_valid [OF assms(1), of "pop_seed p" "Trove_nominalCollateralRatio t"] assms(2)
  by (auto simp: findHints_def)

text \<open>
  C8. The transaction that \<^verbatim>\<open>populateOpenTrove\<close> builds with the default maximum rate asks for the trove that the client previews with \<^verbatim>\<open>Trove.create\<close>: it is a
  call of \<^verbatim>\<open>openTrove\<close> that sends the collateral of that trove, requests the amount that together with its fee at the current rate and the liquidation reserve is the
  debt of that trove, and accepts rates up to the current one plus the tolerance; its hints are a valid position in the sorted list for the ratio of that trove.
\<close>

theorem populateOpenTrove_opens:
  assumes "populateOpenTrove p params None = Inr tx" and "reads_hbars p"
    and "normalizeTroveCreation params = Inr normalized" and "create_depositCollateral normalized \<noteq> Decimal_INFINITY"
    and "sorted_troves (pop_contracts p) (pop_hints p) troves"
  shows "\<exists>f rate t. Hashgraph_getFees (pop_client p) (pop_contracts p) None = Inr f \<and> Fees_borrowingRate f None = Inr rate
    \<and> Trove_create (client_constants (pop_client p)) params (Some rate) = Inr t
    \<and> opening_call (rawPopulatedTransaction tx) =
        Some (bigNumber rate + bigNumber defaultBorrowingRateSlippageTolerance, bigNumber (create_borrowHCHF normalized), bigNumber (collateral t))
    \<and> collateral t = create_depositCollateral normalized
    \<and> debt t = Decimal_add (HCHF_LIQUIDATION_RESERVE (client_constants (pop_client p))) (applyFee rate (create_borrowHCHF normalized))
    \<and> valid_insert_position troves (bigNumber (Trove_nominalCollateralRatio t))
        (position_hints (the (functionParameters (rawPopulatedTransaction tx))))"
proof -
  obtain f rate t hints where reads: "Hashgraph_getFees (pop_client p) (pop_contracts p) None = Inr f"
      "Fees_borrowingRate f None = Inr rate"
      "Trove_create (client_constants (pop_client p)) (creation_entries normalized) (Some rate) = Inr t"
      "findHints p t = Inr hints"
    and raw: "rawPopulatedTransaction tx = TypedContractExecuteTransaction BorrowerOperations ''openTrove''
      (Some [Uint256 (bigNumber (Decimal_add rate defaultBorrowingRateSlippageTolerance)),
             Uint256 (bigNumber (create_borrowHCHF normalized)), AddressValue (fst hints), AddressValue (snd hints)])
      (Some (bigNumber (create_depositCollateral normalized)))
      (3000000 + gasForPotentialLastFeeOperationTimeUpdate + gasForPotentialListTraversal)"
    using assms(1-4) by (auto simp: populateOpenTrove_def rbind_eq_Inr_iff Decimal_toString_None reads_hbars_def
        getPopulatedHashgraphLiquityTransaction_def Let_def)
  have t: "t = new_Trove (client_constants (pop_client p)) (create_depositCollateral normalized)
      (Decimal_add (HCHF_LIQUIDATION_RESERVE (client_constants (pop_client p)))
        (applyFee rate (create_borrowHCHF normalized)))"
    using reads(3) by (simp add: Trove_create_def Trove_apply_def rate_or_default_def)
  have "Trove_create (client_constants (pop_client p)) params (Some rate) = Inr t"
    using reads(3) assms(3) by (simp add: Trove_create_def)
  moreover have "position_hints (the (functionParameters (rawPopulatedTransaction tx))) = hints"
    by (simp add: raw TypedContractExecuteTransaction_def)
  ultimately show ?thesis
    using reads findHints_valid_position [OF assms(5) reads(4)] t
    by (auto simp: raw opening_call_def TypedContractExecuteTransaction_def Decimal_add_def)
qed

lemma Trove_adjust_entries:
  assumes "normalizeTroveAdjustment params = Inr n"
  shows "Trove_adjust t (adjustment_entries n) rate = Inr (apply_adjustment t n None (rate_or_default t rate))"
    and "Trove_adjust t params rate = Inr (apply_adjustment t n None (rate_or_default t rate))"
  using assms normalizeTroveAdjustment_entries [OF normalizeTroveAdjustment_valid(1,2) [OF assms]]
  by (simp_all add: Trove_adjust_def Trove_apply_def)

lemma populateAdjustTrove_call:
  assumes "populateAdjustTrove p params None from = Inr tx" and "reads_hbars p"
    and "normalizeTroveAdjustment params = Inr n" and "depositCollateral n \<noteq> Some Decimal_INFINITY"
    and "Hashgraph_getTrove (pop_client p) (pop_contracts p) (Some (getAddressOrUserAddress (pop_client p) from)) = Inr t"
  obtains rate hints where "if borrowHCHF n = None then rate = None
      else rbind (Hashgraph_getFees (pop_client p) (pop_contracts p) None) (\<lambda>f. Fees_borrowingRate f None) = Inr (the rate)
        \<and> rate \<noteq> None"
    and "findHints p (apply_adjustment (trove.truncate t) n None (rate_or_default (trove.truncate t) rate)) = Inr hints"
    and "rawPopulatedTransaction tx = TypedContractExecuteTransaction BorrowerOperations ''adjustTrove''
      (Some [Uint256 (bigNumber (case rate of Some r \<Rightarrow> Decimal_add r defaultBorrowingRateSlippageTolerance | None \<Rightarrow> Decimal_ZERO)),
             Uint256 (bigNumber (or_zero (withdrawCollateral n))),
             Uint256 (bigNumber (case borrowHCHF n of Some b \<Rightarrow> b | None \<Rightarrow> or_zero (repayHCHF n))),
             BoolValue (borrowHCHF n \<noteq> None), AddressValue (fst hints), AddressValue (snd hints)])
      (Some (bigNumber (or_zero (depositCollateral n))))
      (3000000 + gasForPotentialListTraversal
         + (if borrowHCHF n \<noteq> None then gasForPotentialLastFeeOperationTimeUpdate else 0))"
proof -
  have hbar: "(case depositCollateral n of Some d \<Rightarrow> rbind (Decimal_toString d None) (hbarFromString p) | None \<Rightarrow> Inr 0)
      = Inr (bigNumber (or_zero (depositCollateral n)))"
    using assms(2,4) by (cases "depositCollateral n") (auto simp: reads_hbars_def Decimal_toString_None or_zero_def)
  note unfolded = assms(1) [unfolded populateAdjustTrove_def Let_def assms(3,5) rbind_simps hbar
      Trove_adjust_entries(1) [OF assms(3)]]
  show thesis
  proof (cases "borrowHCHF n")
    case None
    with unfolded show thesis
      by (auto simp: rbind_eq_Inr_iff truthy_def getPopulatedHashgraphLiquityTransaction_def intro!: that [of None])
  next
    case (Some b)
    with unfolded obtain f r hints where "Hashgraph_getFees (pop_client p) (pop_contracts p) None = Inr f"
      "Fees_borrowingRate f None = Inr r"
      "findHints p (apply_adjustment (trove.truncate t) n None (rate_or_default (trove.truncate t) (Some r))) = Inr hints"
      "tx = getPopulatedHashgraphLiquityTransaction (TypedContractExecuteTransaction BorrowerOperations ''adjustTrove''
        (Some [Uint256 (bigNumber (Decimal_add r defaultBorrowingRateSlippageTolerance)),
               Uint256 (bigNumber (or_zero (withdrawCollateral n))), Uint256 (bigNumber b), BoolValue True,
               AddressValue (fst hints), AddressValue (snd hints)])
        (Some (bigNumber (or_zero (depositCollateral n))))
        (3000000 + gasForPotentialListTraversal + gasForPotentialLastFeeOperationTimeUpdate))
        (AdjustmentAfterRefresh n) (3000000 + gasForPotentialListTraversal + gasForPotentialLastFeeOperationTimeUpdate)"
      by (auto simp: rbind_eq_Inr_iff truthy_def)
    with Some show thesis
      by (intro that [of "Some r" hints]) (simp_all add: getPopulatedHashgraphLiquityTransaction_def)
  qed
qed


section \<open>Redemptions and liquidations\<close>

definition wellformed_redemption :: "redemption_context \<Rightarrow> populated_redemption \<Rightarrow> bool" where
  "wellformed_redemption c r \<longleftrightarrow>
     (isTruncated r \<longleftrightarrow> redeemableHCHFAmount r < attemptedHCHFAmount r)
     \<and> (\<exists>upper lower nicr maxRate. functionParameters (rawPopulatedTransaction r) =
          Some [Uint256 (bigNumber (redeemableHCHFAmount r)), AddressValue (rc_firstRedemptionHint c),
                AddressValue upper, AddressValue lower, Uint256 nicr, Uint256 (70 * DIGITS), Uint256 (bigNumber maxRate)]
        \<and> (case redemption_maxRate r of
             Some m \<Rightarrow> maxRate = m
           | None \<Rightarrow> maxRate \<le> Decimal_ONE
               \<and> (\<exists>rate. Fees_redemptionRate (rc_fees c)
                    (DecimalObject (Decimal_div (redeemableHCHFAmount r) (debt (rc_total c)))) None = Inr rate
                    \<and> rate \<le> maxRate)))"

lemma redemptionRate_le_ONE: "Fees_redemptionRate f x w = Inr r \<Longrightarrow> r \<le> Decimal_ONE"
  by (auto simp: Fees_redemptionRate_def rbind_eq_Inr_iff Let_def)

lemma iterations_scaled: "Decimal_from (Number (show_nat redeemMaxIterations)) = Inr (Decimal (70 * DIGITS))"
  using Decimal_from_seconds [of redeemMaxIterations] by (simp add: redeemMaxIterations_def)

lemma defaultMaxRedemptionRate_bounds:
  assumes "defaultMaxRedemptionRate c a = Inr m"
  shows "m \<le> Decimal_ONE"
    and "\<exists>rate. Fees_redemptionRate (rc_fees c) (DecimalObject (Decimal_div a (debt (rc_total c)))) None = Inr rate \<and> rate \<le> m"
proof -
  obtain rate where rate: "Fees_redemptionRate (rc_fees c) (DecimalObject (Decimal_div a (debt (rc_total c)))) None = Inr rate"
    and m: "m = min (Decimal_add rate defaultRedemptionRateSlippageTolerance) Decimal_ONE"
    using assms by (auto simp: defaultMaxRedemptionRate_def rbind_eq_Inr_iff)
  have "rate \<le> Decimal_add rate defaultRedemptionRateSlippageTolerance"
    by (simp add: less_eq_decimal_def Decimal_add_def)
  then show "m \<le> Decimal_ONE" and "\<exists>rate. Fees_redemptionRate (rc_fees c)
      (DecimalObject (Decimal_div a (debt (rc_total c)))) None = Inr rate \<and> rate \<le> m"
    using rate redemptionRate_le_ONE [OF rate] by (simp_all add: m)
qed

lemma populateRedemption_wellformed:
  assumes "populateRedemption c attempted maxRate truncated upper lower nicr = Inr r"
  shows "wellformed_redemption c r" and "attemptedHCHFAmount r = attempted" and "redeemableHCHFAmount r = truncated"
    and "redemption_maxRate r = maxRate"
proof -
  obtain m where m: "(case maxRate of Some m \<Rightarrow> Inr m | None \<Rightarrow> defaultMaxRedemptionRate c truncated) = Inr m"
    and r: "functionParameters (rawPopulatedTransaction r) =
        Some [Uint256 (bigNumber truncated), AddressValue (rc_firstRedemptionHint c), AddressValue upper,
              AddressValue lower, Uint256 (bigNumber nicr), Uint256 (70 * DIGITS), Uint256 (bigNumber m)]"
      "attemptedHCHFAmount r = attempted" "redeemableHCHFAmount r = truncated" "redemption_maxRate r = maxRate"
      "isTruncated r \<longleftrightarrow> truncated < attempted"
    using assms by (auto simp: populateRedemption_def rbind_eq_Inr_iff iterations_scaled
        TypedContractExecuteTransaction_def Let_def)
  show "wellformed_redemption c r"
    using m r defaultMaxRedemptionRate_bounds [of c truncated m]
    unfolding wellformed_redemption_def r by (cases maxRate) auto
  show "attemptedHCHFAmount r = attempted" and "redeemableHCHFAmount r = truncated" and "redemption_maxRate r = maxRate"
    by (simp_all add: r)
qed

text \<open>
  A redemption asks for what the ledger can redeem. The amount sent is the truncated amount, which is not zero (a redemption
  that would be empty is refused), it is marked as truncated exactly if it is below the attempted one, and the maximum rate
  is the one given or else at most one and at least the current rate for that amount. A truncated redemption can be raised
  by the minimum net debt, which gives a redemption of the same kind that is not truncated; one that is not
  truncated cannot be raised.
\<close>

theorem populateRedeemHCHF_terms:
  assumes "populateRedeemHCHF p amount maxRate = Inr (c, r)"
  shows "wellformed_redemption c r \<and> Decimal_from amount = Inr (attemptedHCHFAmount r)
    \<and> redeemableHCHFAmount r \<noteq> Decimal_ZERO
    \<and> (\<forall>m r'. increaseAmountByMinimumNetDebt c r m = Inr r' \<longrightarrow> isTruncated r \<and> \<not> isTruncated r'
         \<and> wellformed_redemption c r'
         \<and> redeemableHCHFAmount r' = Decimal_add (redeemableHCHFAmount r) (HCHF_MINIMUM_NET_DEBT (rc_constants c)))"
proof -
  obtain attempted m truncated u l nicr where pop: "populateRedemption c attempted m truncated u l nicr = Inr r"
    and "Decimal_from amount = Inr attempted" and "truncated \<noteq> Decimal_ZERO"
    using assms by (auto simp: populateRedeemHCHF_def rbind_eq_Inr_iff Let_def split: if_split_asm)
  moreover have "isTruncated r \<and> \<not> isTruncated r' \<and> wellformed_redemption c r'
      \<and> redeemableHCHFAmount r' = Decimal_add (redeemableHCHFAmount r) (HCHF_MINIMUM_NET_DEBT (rc_constants c))"
    if "increaseAmountByMinimumNetDebt c r m' = Inr r'" for m' r'
  proof -
    let ?a = "Decimal_add (redeemableHCHFAmount r) (HCHF_MINIMUM_NET_DEBT (rc_constants c))"
    note increase = that
    obtain x where "isTruncated r"
      and r': "populateRedemption c ?a x ?a AddressZero AddressZero Decimal_ZERO = Inr r'"
      using increase by (auto simp: increaseAmountByMinimumNetDebt_def rbind_eq_Inr_iff Let_def split: if_split_asm)
    with populateRedemption_wellformed [OF r'] show ?thesis
      by (auto simp: wellformed_redemption_def)
  qed
  ultimately show ?thesis
    using populateRedemption_wellformed [OF pop] by auto
qed

text \<open>
  Numbers of things are passed as amounts: \<^verbatim>\<open>liquidateUpTo(n)\<close> asks the contract to liquidate up to \<open>n\<close> times \<open>10\<^sup>8\<close> troves, and
  every redemption allows 70 times \<open>10\<^sup>8\<close> iterations, although the hints were asked for with 70.
\<close>

theorem counts_passed_as_amounts:
  "(\<exists>tx. populateLiquidateUpTo p (show_nat n) = Inr tx
     \<and> functionParameters (rawPopulatedTransaction tx) = Some [Uint256 (n * 10 ^ 8)])
   \<and> (populateRedemption c attempted maxRate truncated upper lower nicr = Inr r \<longrightarrow>
       the (functionParameters (rawPopulatedTransaction r)) ! 5 = Uint256 (redeemMaxIterations * 10 ^ 8))"
proof -
  have "populateLiquidateUpTo p (show_nat n) = Inr tx \<Longrightarrow>
      functionParameters (rawPopulatedTransaction tx) = Some [Uint256 (n * 10 ^ 8)]" for tx
    by (auto simp: populateLiquidateUpTo_def Decimal_from_seconds built_transaction DIGITS_eq Let_def)
  moreover have "\<exists>tx. populateLiquidateUpTo p (show_nat n) = Inr tx"
    by (simp add: populateLiquidateUpTo_def Decimal_from_seconds Let_def)
  ultimately show ?thesis
    using populateRedemption_wellformed(1) [of c attempted maxRate truncated upper lower nicr r]
    by (auto simp: wellformed_redemption_def redeemMaxIterations_def DIGITS_eq)
qed

section \<open>A sample population\<close>

definition sample_sorted :: "(string \<times> nat) list" where
  "sample_sorted = [(''0xA'', 500000000), (''0xB'', 200000000)]"

definition sample_position :: "nat \<Rightarrow> string \<times> string" where
  "sample_position nicr = (if 500000000 < nicr then (AddressZero, ''0xA'')
     else if 200000000 < nicr then (''0xA'', ''0xB'') else (''0xB'', AddressZero))"

definition sample_hints :: hint_contracts where
  "sample_hints = \<lparr>sortedTroves_getFirst = Inr ''0xA'',
     sortedTroves_findInsertPosition = (\<lambda>nicr _ _. Inr (sample_position nicr)),
     hintHelpers_getApproxHint = (\<lambda>nicr n seed. Inr \<lparr>hintAddress = ''0xA'', hint_diff = 3, latestRandomSeed = seed + 1\<rparr>),
     hintHelpers_getRedemptionHints = (\<lambda>a price n. Inr \<lparr>firstRedemptionHint = ''0xB'',
       partialRedemptionHintNICR = 0, truncatedHCHFamount = min a 180000000000\<rparr>)\<rparr>"

definition sample_population :: population where
  "sample_population = \<lparr>pop_client = sample_client, pop_contracts = sample_contracts, pop_hints = sample_hints,
     pop_seed = 1, hbarFromString = (\<lambda>s. rbind (Decimal_fromString s) (\<lambda>d. Inr (bigNumber d)))\<rparr>"

lemma sample_population_simps [simp]:
  "pop_client sample_population = sample_client" "pop_contracts sample_population = sample_contracts"
  "pop_hints sample_population = sample_hints" "client_constants sample_client = defaults"
  by (simp_all add: sample_population_def sample_client_def)

lemma sample_sorted_troves: "sorted_troves sample_contracts sample_hints sample_sorted"
  by (simp add: sorted_troves_def sample_hints_def sample_contracts_def sample_sorted_def sample_position_def
      valid_insert_position_def upt_rec Decimal_INFINITY_def MAX_UINT_256_def)

lemma sample_reads_hbars: "reads_hbars sample_population"
  by (auto simp: reads_hbars_def sample_population_def Decimal_text_def Decimal_toString_def Decimal_infinite_def
      fromString_automatic)

lemma sample_rate:
  "\<exists>f rate. Hashgraph_getFees sample_client sample_contracts None = Inr f \<and> Fees_borrowingRate f None = Inr rate"
proof -
  have "\<exists>f. Hashgraph_getFees sample_client sample_contracts None = Inr f
      \<and> minutesSinceLastFeeOperation f None \<le> 0xffffffff"
    by (simp add: sample_ledger_eval Hashgraph_getFees_def Let_def)
  then obtain f where "Hashgraph_getFees sample_client sample_contracts None = Inr f"
    "minutesSinceLastFeeOperation f None \<le> 0xffffffff" by blast
  then show ?thesis
    using Fees_baseRate_exists [of f None] by (auto simp: Fees_borrowingRate_def)
qed

definition sample_opening :: entries where
  "sample_opening = [(''depositCollateral'', Some (Number ''50000'')), (''borrowHCHF'', Some (Number ''2000''))]"

lemma sample_opening_normalized: "normalizeTroveCreation sample_opening =
    Inr \<lparr>create_depositCollateral = Decimal 5000000000000, create_borrowHCHF = Decimal 200000000000\<rparr>"
  by (simp add: normalizeTroveCreation_def sample_opening_def definedEntries_def decimalize_def
      checkAllowedTroveCreationKeys_def allowedTroveCreationKeys_def troveCreationParamsFromEntries_def
      fromEntries_def Decimal_from_def parse_eval split_first_def split_second_def Let_def)

lemma populateOpenTrove_exists:
  assumes "normalizeTroveCreation params = Inr n" and "create_depositCollateral n \<noteq> Decimal_INFINITY"
    and "Hashgraph_getFees (pop_client p) (pop_contracts p) None = Inr f" and "Fees_borrowingRate f None = Inr rate"
    and "sorted_troves (pop_contracts p) (pop_hints p) troves" and "reads_hbars p"
    and "maxRate = None \<or> maxRate = Some (DecimalObject m)"
  shows "\<exists>tx. populateOpenTrove p params maxRate = Inr tx"
proof -
  obtain t where t: "Trove_create (client_constants (pop_client p)) (creation_entries n) (Some rate) = Inr t"
    by (simp add: Trove_create_def Trove_apply_def)
  obtain hints where "findHints p t = Inr hints"
    using findHints_valid [OF assms(5)] unfolding findHints_def by blast
  with t assms(1-4,6,7) show ?thesis
    by (auto simp: populateOpenTrove_def Decimal_toString_None reads_hbars_def Let_def)
qed

lemma sample_open_exists: "\<exists>tx. populateOpenTrove sample_population sample_opening None = Inr tx"
proof -
  obtain f rate where "Hashgraph_getFees sample_client sample_contracts None = Inr f" "Fees_borrowingRate f None = Inr rate"
    using sample_rate by blast
  then show ?thesis
    using sample_sorted_troves sample_reads_hbars populateOpenTrove_exists [OF sample_opening_normalized]
    by (simp add: Decimal_INFINITY_def MAX_UINT_256_def)
qed

theorem asPopulatable_fits_witness:
  "\<exists>tx. asPopulatable sample_population (new_Store defaults :: unit store) (Action_openTrove sample_opening None) = Inr tx
     \<and> fitting tx"
proof -
  obtain tx where "asPopulatable sample_population (new_Store defaults :: unit store) (Action_openTrove sample_opening None)
      = Inr tx"
    using sample_open_exists by auto
  from asPopulatable_fits [OF this] this show ?thesis by blast
qed

theorem populateOpenTrove_opens_witness:
  "\<exists>tx rate t. populateOpenTrove sample_population sample_opening None = Inr tx
     \<and> Trove_create defaults sample_opening (Some rate) = Inr t \<and> collateral t = Decimal 5000000000000
     \<and> opening_call (rawPopulatedTransaction tx) =
         Some (bigNumber rate + bigNumber defaultBorrowingRateSlippageTolerance, 200000000000, 5000000000000)
     \<and> valid_insert_position sample_sorted (bigNumber (Trove_nominalCollateralRatio t))
         (position_hints (the (functionParameters (rawPopulatedTransaction tx))))"
proof -
  obtain tx where tx: "populateOpenTrove sample_population sample_opening None = Inr tx"
    using sample_open_exists by blast
  from populateOpenTrove_opens [OF tx sample_reads_hbars sample_opening_normalized, of sample_sorted] sample_sorted_troves
  obtain f rate t where "Trove_create defaults sample_opening (Some rate) = Inr t" "collateral t = Decimal 5000000000000"
    "opening_call (rawPopulatedTransaction tx) =
       Some (bigNumber rate + bigNumber defaultBorrowingRateSlippageTolerance, 200000000000, 5000000000000)"
    "valid_insert_position sample_sorted (bigNumber (Trove_nominalCollateralRatio t))
       (position_hints (the (functionParameters (rawPopulatedTransaction tx))))"
    by (auto simp: Decimal_INFINITY_def MAX_UINT_256_def)
  then show ?thesis
    by (intro exI [of _ tx] exI [of _ rate] exI [of _ t] conjI tx)
qed

definition sample_repayment :: "decimal adjustment_params" where
  "sample_repayment = \<lparr>depositCollateral = None, withdrawCollateral = None, borrowHCHF = None,
     repayHCHF = Some (Decimal 10000000000)\<rparr>"

lemma sample_repayment_normalized:
  "normalizeTroveAdjustment [(''repayHCHF'', Some (Number ''100''))] = Inr sample_repayment"
  by (simp add: normalizeTroveAdjustment_def sample_repayment_def definedEntries_def decimalize_def
      checkAllowedTroveAdjustmentKeys_def allowedTroveAdjustmentKeys_def troveAdjustmentParamsFromEntries_def
      fromEntries_def collateralChangeFrom_def debtChangeFrom_def adjustment_of_def Let_def
      Decimal_from_def parse_eval split_first_def split_second_def Decimal_ZERO_def)

lemma sample_user_trove:
  "\<exists>t. Hashgraph_getTrove sample_client sample_contracts (Some (getAddressOrUserAddress sample_client None)) = Inr t
     \<and> debt t = Decimal 200000000000 \<and> collateral t = Decimal 100000000000"
  by (simp add: Hashgraph_getTrove_def sample_ledger_eval applyRedistribution_def new_UserTrove_def trove_ops
      Decimal_add_def Decimal_mul_def Let_def)

lemma sample_adjust_exists:
  "\<exists>tx. populateAdjustTrove sample_population [(''repayHCHF'', Some (Number ''100''))] None None = Inr tx"
proof -
  obtain t where t: "Hashgraph_getTrove sample_client sample_contracts (Some (getAddressOrUserAddress sample_client None)) = Inr t"
    using sample_user_trove by blast
  let ?t' = "apply_adjustment (trove.truncate t) sample_repayment None (rate_or_default (trove.truncate t) None)"
  obtain hints where "findHints sample_population ?t' = Inr hints"
    using findHints_valid [OF sample_sorted_troves] unfolding findHints_def by auto blast
  then show ?thesis
    using t sample_repayment_normalized Trove_adjust_entries(1) [OF sample_repayment_normalized, of "trove.truncate t" None]
    by (simp add: populateAdjustTrove_def truthy_def sample_repayment_def Let_def)
qed


lemma sample_redemption:
  "\<exists>c r. populateRedeemHCHF sample_population (Number ''5000'') (Some (Number ''0.05'')) = Inr (c, r)
     \<and> redeemableHCHFAmount r = Decimal 180000000000 \<and> attemptedHCHFAmount r = Decimal 500000000000"
proof -
  obtain f rate where f: "Hashgraph_getFees sample_client sample_contracts None = Inr f"
    using sample_rate by blast
  have total: "\<exists>t. Hashgraph_getTotal sample_client sample_contracts None = Inr t"
    and price: "Hashgraph_getPrice sample_contracts None = Inr (Decimal 5000000)"
    by (simp_all add: Hashgraph_getTotal_def Hashgraph_getPrice_def sample_contracts_def read_decimal_def Let_def)
  then obtain t where total: "Hashgraph_getTotal sample_client sample_contracts None = Inr t" by blast
  have "Decimal_from (Number ''5000'') = Inr (Decimal 500000000000)" "Decimal_from (Number ''0.05'') = Inr (Decimal 5000000)"
    by (simp_all add: Decimal_from_def parse_eval split_first_def split_second_def)
  with f total price show ?thesis
    by (simp add: populateRedeemHCHF_def populateRedemption_def sample_hints_def truthy_def iterations_scaled Let_def
        Decimal_ZERO_def)
qed

theorem populateRedeemHCHF_terms_witness:
  "\<exists>c r. populateRedeemHCHF sample_population (Number ''5000'') (Some (Number ''0.05'')) = Inr (c, r)
     \<and> isTruncated r \<and> redeemableHCHFAmount r \<noteq> Decimal_ZERO \<and> wellformed_redemption c r"
proof -
  obtain c r where r: "populateRedeemHCHF sample_population (Number ''5000'') (Some (Number ''0.05'')) = Inr (c, r)"
    "redeemableHCHFAmount r = Decimal 180000000000" "attemptedHCHFAmount r = Decimal 500000000000"
    using sample_redemption by blast
  from populateRedeemHCHF_terms [OF r(1)] r show ?thesis
    by (auto simp: wellformed_redemption_def less_decimal_def)
qed

theorem counts_passed_as_amounts_witness:
  "(\<exists>tx. populateLiquidateUpTo sample_population ''5'' = Inr tx
     \<and> functionParameters (rawPopulatedTransaction tx) = Some [Uint256 500000000])
   \<and> (\<exists>c r. populateRedemption c Decimal_ONE (Some Decimal_ONE) Decimal_ONE ''0xA'' ''0xB'' Decimal_ZERO = Inr r
       \<and> the (functionParameters (rawPopulatedTransaction r)) ! 5 = Uint256 7000000000)"
proof -
  obtain c r where "populateRedemption c Decimal_ONE (Some Decimal_ONE) Decimal_ONE ''0xA'' ''0xB'' Decimal_ZERO = Inr r"
    by (simp add: populateRedemption_def iterations_scaled Let_def)
  moreover note counts_passed_as_amounts [of sample_population 5 c Decimal_ONE "Some Decimal_ONE" Decimal_ONE "''0xA''" "''0xB''"
      Decimal_ZERO r]
  moreover have "show_nat 5 = ''5''"
    by code_simp
  ultimately show ?thesis by (auto simp: redeemMaxIterations_def)
qed

theorem findHints_effort_witness:
  "\<exists>trials results diff a. sum_list trials = 15 \<and> list_all2 (answers sample_hints Decimal_ONE) trials results
     \<and> (diff, a) \<in> set results \<and> length trials = 1
     \<and> sortedTroves_findInsertPosition sample_hints (bigNumber Decimal_ONE) a a = Inr (''0xB'', AddressZero)"
proof -
  have "troveManager_getTroveOwnersCount sample_contracts None = Inr 2"
    by (simp add: sample_contracts_def)
  moreover have "Decimal_infinite Decimal_ONE = None"
    by (simp add: Decimal_infinite_def Decimal_ONE_def Decimal_INFINITY_def MAX_UINT_256_def)
  moreover have "findHintsForNominalCollateralRatio sample_contracts sample_hints 1 Decimal_ONE = Inr (''0xB'', AddressZero)"
  proof -
    obtain pos where "findHintsForNominalCollateralRatio sample_contracts sample_hints 1 Decimal_ONE = Inr pos"
      using findHints_valid [OF sample_sorted_troves] by blast
    moreover from this have "pos = sample_position (bigNumber Decimal_ONE)"
      using \<open>Decimal_infinite Decimal_ONE = None\<close>
      by (auto simp: findHintsForNominalCollateralRatio_def rbind_eq_Inr_iff sample_hints_def
          Hashgraph_getNumberOfTroves_def sample_contracts_def)
    ultimately show ?thesis by (simp add: sample_position_def Decimal_ONE_def)
  qed
  ultimately obtain trials results diff a where r: "list_all2 (answers sample_hints Decimal_ONE) trials results"
      "\<forall>m. 100 * 2 \<le> m * m \<longleftrightarrow> sum_list trials \<le> m" "length trials = (sum_list trials + 2499) div 2500"
      "(diff, a) \<in> set results"
      "sortedTroves_findInsertPosition sample_hints (bigNumber Decimal_ONE) a a = Inr (''0xB'', AddressZero)"
    using findHints_effort [of sample_contracts 2 Decimal_ONE sample_hints 1] by force
  moreover from r(2) have "sum_list trials = 15"
    using spec [OF r(2), of 15] spec [OF r(2), of 14] by simp
  ultimately show ?thesis by auto
qed

end
