(* ===== verification/Hashgraph_Send.thy ===== *)
theory Hashgraph_Send
  imports Hashgraph_Transactions
begin

text \<open>
  Sending: \<^verbatim>\<open>packages/lib-hashgraph/src/transactions.ts\<close>, \<^verbatim>\<open>sendable.ts\<close>, the second half of
  \<^verbatim>\<open>getPopulatedHashgraphLiquityTransaction\<close> and the consent manager of \<^verbatim>\<open>HashgraphLiquity.ts\<close> (token
  associations and allowances).

  Several reads of the ledger happen one after the other here, and the ledger moves on between them. Each refresh
  therefore has its own environment: the ledger and mirror node it meets, the identities of the objects
  it makes and the behaviour of the listeners it notifies.
\<close>

section \<open>Receipts\<close>

datatype hedera_status =
  Success | FailBalance | FailFee | FailInvalid | AccountUpdateFailed | AuthorizationFailed
| SerializationFailed | ContractUpdateFailed | OtherStatus nat

datatype receipt_status = Pending | Succeeded | Failed

definition getLiquityReceiptStatus :: "hedera_status \<Rightarrow> receipt_status" where
  "getLiquityReceiptStatus hashgraphStatus = (case hashgraphStatus of
      Success \<Rightarrow> Succeeded
    | FailBalance \<Rightarrow> Failed
    | FailFee \<Rightarrow> Failed
    | FailInvalid \<Rightarrow> Failed
    | AccountUpdateFailed \<Rightarrow> Failed
    | AuthorizationFailed \<Rightarrow> Failed
    | SerializationFailed \<Rightarrow> Failed
    | ContractUpdateFailed \<Rightarrow> Failed
    | OtherStatus _ \<Rightarrow> Pending)"

record refresh_env =
  env_contracts :: contracts
  env_mirror :: mirror
  env_ids :: "string \<Rightarrow> nat"
  env_call :: "nat \<Rightarrow> callback"
  env_onLoaded :: "(listener_action list \<times> js_error option) option"

definition refresh_in :: "client \<Rightarrow> refresh_env \<Rightarrow> js_object store \<Rightarrow> js_object store" where
  "refresh_in this env s = fst (refresh this (env_contracts env) (env_mirror env) (env_ids env) (env_call env)
     (env_onLoaded env) s)"

text \<open>The fee and the trove in the new state, which are the defaults if the store is still not loaded.\<close>

definition fee_and_trove :: "'e store \<Rightarrow> (decimal \<times> user_trove) result" where
  "fee_and_trove s = rbind (Fees_borrowingRate (state_fees s) None) (\<lambda>fee. Inr (fee, state_trove s))"

definition call_getDetails ::
  "client \<Rightarrow> refresh_env \<Rightarrow> details_closure \<Rightarrow> js_object store \<Rightarrow> js_object store \<times> details result" where
  "call_getDetails this env closure s = (case closure of
      Immediately d \<Rightarrow> (s, Inr d)
    | CreationAfterRefresh params \<Rightarrow>
        (let s' = refresh_in this env s
         in (s', rbind (fee_and_trove s') (\<lambda>(fee, t). Inr (TroveCreationDetails params fee t))))
    | AdjustmentAfterRefresh params \<Rightarrow>
        (let s' = refresh_in this env s
         in (s', rbind (fee_and_trove s') (\<lambda>(fee, t). Inr (TroveAdjustmentDetails params fee t))))
    | ClosureAfterRefresh before \<Rightarrow>
        (let s' = refresh_in this env s
         in (s', Inr (TroveClosureDetails (collateral before) (debt before)))))"

record receipt =
  receipt_status_of :: receipt_status
  rawReceipt :: hedera_status
  receipt_details :: details

definition waitForReceipt :: "client \<Rightarrow> details_closure \<Rightarrow> hedera_status \<Rightarrow> refresh_env \<Rightarrow> refresh_env
    \<Rightarrow> js_object store \<Rightarrow> js_object store \<times> receipt result" where
  "waitForReceipt this closure raw env env' s =
     (let (s1, details') = call_getDetails this env closure s in
      case details' of
        Inl e \<Rightarrow> (s1, Inl e)
      | Inr d \<Rightarrow>
          (if getLiquityReceiptStatus raw = Pending
           then (s1, Inl (Error ''TODO: figure out how to wait for the transaction to not be pending anymore.''))
           else (refresh_in this env' s1,
                 Inr \<lparr>receipt_status_of = getLiquityReceiptStatus raw, rawReceipt = raw, receipt_details = d\<rparr>)))"

section \<open>Sending\<close>

datatype hedera_transaction =
  ContractExecute contract_execute
| TokenAssociate string string
| TokenDissociate string string
| ApproveTokenAllowance string string string nat

type_synonym send_transaction = "hedera_transaction \<Rightarrow> hedera_status result"

text \<open>A sent transaction is its receipt together with the closure that waits for it.\<close>

definition send :: "send_transaction \<Rightarrow> populated_transaction \<Rightarrow> (hedera_status \<times> details_closure) result" where
  "send sendTransaction tx =
     rbind (sendTransaction (ContractExecute (rawPopulatedTransaction tx))) (\<lambda>raw. Inr (raw, getDetails tx))"

definition sendFromPopulate ::
  "send_transaction \<Rightarrow> ('a \<Rightarrow> populated_transaction result) \<Rightarrow> 'a \<Rightarrow> (hedera_status \<times> details_closure) result" where
  "sendFromPopulate sendTransaction populate args = rbind (populate args) (send sendTransaction)"

definition asSendable :: "send_transaction \<Rightarrow> population \<Rightarrow> 'e store \<Rightarrow> liquity_action
    \<Rightarrow> (hedera_status \<times> details_closure) result" where
  "asSendable sendTransaction p s action = sendFromPopulate sendTransaction (asPopulatable p s) action"

section \<open>Token associations\<close>

text \<open>
  What the consent manager has at hand: the client and the ledger, \<^verbatim>\<open>sendTransaction\<close>, the mirror node as the \<open>n\<close>-th poll
  meets it, the environment of the final refresh, and the identities and listeners of an update after it. \<open>toLong\<close> is \<^verbatim>\<open>Long.fromString\<close> of a number's hexadecimal text.
\<close>

record consent =
  con_client :: client
  con_contracts :: contracts
  con_mirror :: mirror
  con_send :: send_transaction
  con_fetch :: "nat \<Rightarrow> string \<Rightarrow> response result"
  con_env :: refresh_env
  con_ids :: "string \<Rightarrow> nat"
  con_call :: "nat \<Rightarrow> callback"
  toLong :: "nat \<Rightarrow> nat"

definition poll_tokens :: "consent \<Rightarrow> string list \<Rightarrow> nat \<Rightarrow> string list result" where
  "poll_tokens c ids n = fetchTokens (con_fetch c n) (mirror_stringify (con_mirror c))
     \<lparr>tokenIds = ids, apiBaseUrl = mirrorNodeBaseUrl (con_client c),
      account_of = AccountIdString (userAccountIdString (con_client c))\<rparr>"

text \<open>
  The six methods differ in the token and in the direction; \<open>None\<close> is a method that is still polling. The
  transaction and the read of the token ids are started together; the model looks at the transaction first.
\<close>

definition change_association :: "nat \<Rightarrow> consent \<Rightarrow> bool \<Rightarrow> string result \<Rightarrow> js_object store
    \<Rightarrow> (js_object store \<times> unit result) option" where
  "change_association fuel c associate tokenAddress s =
     (case rbind tokenAddress (\<lambda>a.
           rbind (tokenIdString (con_mirror c) a) (\<lambda>tokenId.
           rbind (con_send c (if associate then TokenAssociate tokenId (userAccountIdString (con_client c))
                              else TokenDissociate tokenId (userAccountIdString (con_client c)))) (\<lambda>_.
           rbind (getTokenIds (con_contracts c) (con_mirror c)) (\<lambda>ids. Inr (tokenId, ids))))) of
        Inl e \<Rightarrow> Some (s, Inl e)
      | Inr (tokenId, ids) \<Rightarrow>
          (case waitForTokenState fuel (poll_tokens c ids)
                  (if associate then Some [tokenId] else None) (if associate then None else Some [tokenId]) of
             None \<Rightarrow> None
           | Some _ \<Rightarrow> Some (refresh_in (con_client c) (con_env c) s, Inr ())))"

definition associateWithHchf :: "nat \<Rightarrow> consent \<Rightarrow> js_object store \<Rightarrow> (js_object store \<times> unit result) option" where
  "associateWithHchf fuel c s = change_association fuel c True (hchfToken_tokenAddress (con_contracts c) None) s"

definition dissociateFromHchf :: "nat \<Rightarrow> consent \<Rightarrow> js_object store \<Rightarrow> (js_object store \<times> unit result) option" where
  "dissociateFromHchf fuel c s = change_association fuel c False (hchfToken_tokenAddress (con_contracts c) None) s"

definition associateWithHlqt :: "nat \<Rightarrow> consent \<Rightarrow> js_object store \<Rightarrow> (js_object store \<times> unit result) option" where
  "associateWithHlqt fuel c s = change_association fuel c True (hlqtToken_tokenAddress (con_contracts c) None) s"

definition dissociateFromHlqt :: "nat \<Rightarrow> consent \<Rightarrow> js_object store \<Rightarrow> (js_object store \<times> unit result) option" where
  "dissociateFromHlqt fuel c s = change_association fuel c False (hlqtToken_tokenAddress (con_contracts c) None) s"

definition associateWithLpToken :: "nat \<Rightarrow> consent \<Rightarrow> js_object store \<Rightarrow> (js_object store \<times> unit result) option" where
  "associateWithLpToken fuel c s = change_association fuel c True (unipool_uniToken (con_contracts c) None) s"

definition dissociateFromLpToken :: "nat \<Rightarrow> consent \<Rightarrow> js_object store \<Rightarrow> (js_object store \<times> unit result) option" where
  "dissociateFromLpToken fuel c s = change_association fuel c False (unipool_uniToken (con_contracts c) None) s"

section \<open>Allowances\<close>

text \<open>
  An approval is sent, the store refreshed, and then updated with the new allowance in advance of the ledger. The
  amount is an object with an identity of its own, as it becomes part of the state.
\<close>

definition approve_spending :: "consent \<Rightarrow> string result \<Rightarrow> string \<Rightarrow> decimal object \<Rightarrow> base_state_update
    \<Rightarrow> js_object store \<Rightarrow> js_object store \<times> unit result" where
  "approve_spending c tokenAddress spender amount optimistic s =
     (case rbind tokenAddress (\<lambda>a.
           rbind (tokenIdString (con_mirror c) a) (\<lambda>tokenId.
           con_send c (ApproveTokenAllowance tokenId (userAccountIdString (con_client c)) spender
             (toLong c (bigNumber (content amount)))))) of
        Inl e \<Rightarrow> (s, Inl e)
      | Inr _ \<Rightarrow>
          (let s1 = refresh_in (con_client c) (con_env c) s;
               (s2, r) = store_update hashgraph_subclass (con_ids c) (con_call c) (Some optimistic)
                 None s1
           in (s2, rbind r (\<lambda>_. Inr ()))))"

definition approveHchfToSpendHchf :: "consent \<Rightarrow> decimal object \<Rightarrow> js_object store \<Rightarrow> js_object store \<times> unit result" where
  "approveHchfToSpendHchf c amount s =
     approve_spending c (hchfToken_tokenAddress (con_contracts c) None) (hchfTokenContractAddress (con_client c)) amount
       (no_fields\<lparr>new_hchfTokenAllowanceOfHchfContract := Some amount\<rparr>) s"

definition approveHlqtToSpendHlqt :: "consent \<Rightarrow> decimal object \<Rightarrow> js_object store \<Rightarrow> js_object store \<times> unit result" where
  "approveHlqtToSpendHlqt c amount s =
     approve_spending c (hlqtToken_tokenAddress (con_contracts c) None) (hlqtTokenContractAddress (con_client c)) amount
       (no_fields\<lparr>new_hlqtTokenAllowanceOfHlqtContract := Some amount\<rparr>) s"

definition approveSaucerSwapToSpendLpToken ::
  "consent \<Rightarrow> decimal object \<Rightarrow> js_object store \<Rightarrow> js_object store \<times> unit result" where
  "approveSaucerSwapToSpendLpToken c amount s =
     approve_spending c (unipool_uniToken (con_contracts c) None) (saucerSwapPoolAddress (con_client c)) amount
       (no_fields\<lparr>new_uniTokenAllowance := Some amount\<rparr>) s"

section \<open>What a receipt tells\<close>

lemma refresh_in_reachable:
  assumes "reachable_store hashgraph_subclass k s"
  shows "reachable_store hashgraph_subclass k (refresh_in this env s)"
proof (cases "fetchStoreValues this (env_contracts env) (env_mirror env) (env_ids env) None")
  case (Inl e)
  with assms show ?thesis by (simp add: refresh_in_def refresh_def Let_def)
next
  case (Inr v)
  then have "refresh_in this env s = fst (store_snapshot (env_ids env) (env_call env) (env_onLoaded env) v s)"
    by (simp add: refresh_in_def refresh_def Let_def)
  then show ?thesis
    using store_snapshot_reachable [OF assms, of "env_ids env" "env_call env" "env_onLoaded env" v] by (metis prod.collapse)
qed

lemma call_getDetails_reachable:
  assumes "reachable_store hashgraph_subclass k s"
  shows "reachable_store hashgraph_subclass k (fst (call_getDetails this env closure s))"
  using assms refresh_in_reachable by (cases closure) (simp_all add: call_getDetails_def Let_def)

text \<open>
  C23. A receipt tells the truth about the transaction: it is only returned for a transaction with a final status, says
  \<^verbatim>\<open>succeeded\<close> exactly for the status \<^verbatim>\<open>Success\<close>, and comes after a refresh of the store. It is returned exactly if the status is one of the eight that
  the client knows and the details could be computed; otherwise the wait throws. The store stays a reachable one whatever happens.
\<close>

theorem waitForReceipt_outcome:
  assumes "reachable_store hashgraph_subclass k s" and "waitForReceipt this closure raw env env' s = (s', r)"
  shows "reachable_store hashgraph_subclass k s'
    \<and> (\<forall>x. r = Inr x \<longrightarrow> rawReceipt x = raw \<and> receipt_status_of x \<noteq> Pending
         \<and> (receipt_status_of x = Succeeded \<longleftrightarrow> raw = Success)
         \<and> s' = refresh_in this env' (fst (call_getDetails this env closure s)))
    \<and> ((\<exists>x. r = Inr x) \<longleftrightarrow> (\<nexists>n. raw = OtherStatus n) \<and> (\<exists>d. snd (call_getDetails this env closure s) = Inr d))"
proof -
  obtain s1 d where call: "call_getDetails this env closure s = (s1, d)"
    by (cases "call_getDetails this env closure s")
  with call_getDetails_reachable [OF assms(1), of this env closure]
  have s1: "reachable_store hashgraph_subclass k s1" by simp
  with refresh_in_reachable [OF this] assms(2) call show ?thesis
    by (cases d; cases raw) (auto simp: waitForReceipt_def getLiquityReceiptStatus_def)
qed

text \<open>
  What opening a trove reports: once the refresh after the transaction has succeeded, the new trove in the details
  compares equal with the one the ledger holds. The amount reported as the fee is the borrowing rate of the moment, not an
  amount of HCHF.
\<close>

theorem creation_details_report:
  assumes "waitForReceipt this (CreationAfterRefresh params) raw env env' s = (s', Inr x)"
    and "fetchStoreValues this (env_contracts env) (env_mirror env) (env_ids env) None = Inr (b, e)"
    and "store_snapshot (env_ids env) (env_call env) (env_onLoaded env) (b, e) s = (s1, Inr q)"
    and "userAccountAddress this \<noteq> []"
    and "\<forall>y. baseState s1 = Some y \<longrightarrow> trove_constants (content (total y)) = client_constants this"
  shows "\<exists>fee t u d. receipt_details x = TroveCreationDetails params fee t
    \<and> Hashgraph_getTrove this (env_contracts env) None = Inr u \<and> UserTrove_equals t u
    \<and> derivedState s1 = Some d \<and> Fees_borrowingRate (content (fees d)) None = Inr fee"
proof -
  have "refresh_in this env s = s1"
    using assms(2,3) by (simp add: refresh_in_def refresh_def Let_def)
  moreover obtain d t where "derivedState s1 = Some d" "Hashgraph_getTrove this (env_contracts env) None = Inr t"
    "UserTrove_equals (content (trove d)) t"
    using snapshot_matches_readers [OF assms(2,4,3,5)] by blast
  ultimately show ?thesis
    using assms(1) by (auto simp: waitForReceipt_def call_getDetails_def fee_and_trove_def state_fees_def state_trove_def rbind_eq_Inr_iff Let_def
        split: sum.split_asm if_split_asm)
qed

section \<open>What consent achieves\<close>

lemma approve_spending_update:
  assumes "approve_spending c tokenAddress spender amount u s = (s', Inr ())"
  shows "\<exists>b. baseState (refresh_in (con_client c) (con_env c) s) = Some b \<and> baseState s' = Some (reduce b u) \<and> consistent s'"
proof -
  obtain r where up: "store_update hashgraph_subclass (con_ids c) (con_call c) (Some u) None
      (refresh_in (con_client c) (con_env c) s) = (s', Inr r)"
    using assms by (auto simp: approve_spending_def rbind_eq_Inr_iff Let_def split: sum.split_asm prod.split_asm)
  obtain p called where r: "r = (p, called)" by (cases r)
  from up [unfolded r] obtain b where "baseState (refresh_in (con_client c) (con_env c) s) = Some b"
    "baseState s' = Some (reduce b u)"
    by (rule update_success_plain) auto
  with update_consistent [OF up] show ?thesis by blast
qed

text \<open>
  What the three approvals have in common: the transaction is sent, and the update made in advance replaces one field of
  the base state, or keeps the state if that field compares equal already.
\<close>

locale approval =
  fixes approve :: "consent \<Rightarrow> decimal object \<Rightarrow> js_object store \<Rightarrow> js_object store \<times> unit result"
    and token :: "consent \<Rightarrow> string result"
    and spender :: "consent \<Rightarrow> string"
    and advance :: "decimal object \<Rightarrow> base_state_update"
    and allowance :: "base_state \<Rightarrow> decimal object"
    and set_allowance :: "decimal object \<Rightarrow> base_state \<Rightarrow> base_state"
  assumes approve_sends: "approve c a s = approve_spending c (token c) (spender c) a (advance a) s"
    and reduce_advance: "reduce b (advance a) = set_allowance a b
      \<or> reduce b (advance a) = b \<and> (coherent (allowance b) (Some a) \<longrightarrow> content (allowance b) = content a)"
    and allowance_set: "allowance (set_allowance a b) = a"
begin

lemma shows_allowance:
  assumes "approve c a s = (s', Inr ())"
    and "\<forall>b. baseState (refresh_in (con_client c) (con_env c) s) = Some b \<longrightarrow> coherent (allowance b) (Some a)"
  shows "\<exists>b b'. baseState (refresh_in (con_client c) (con_env c) s) = Some b \<and> baseState s' = Some b'
    \<and> content (allowance b') = content a \<and> (b' = b \<or> b' = set_allowance a b) \<and> consistent s'"
proof -
  obtain b where b: "baseState (refresh_in (con_client c) (con_env c) s) = Some b"
    "baseState s' = Some (reduce b (advance a))" "consistent s'"
    using approve_spending_update assms(1) unfolding approve_sends by blast
  with assms(2) reduce_advance [of b a] show ?thesis
    by (auto simp: allowance_set)
qed

end

lemmas reduce_one_field = reduce_def no_fields_def updateIfChanged_def silentlyUpdateIfChanged_def sameObject_def
  on_content_def coherent_def

interpretation hchf_approval: approval approveHchfToSpendHchf "\<lambda>c. hchfToken_tokenAddress (con_contracts c) None"
  "\<lambda>c. hchfTokenContractAddress (con_client c)" "\<lambda>a. no_fields\<lparr>new_hchfTokenAllowanceOfHchfContract := Some a\<rparr>"
  hchfTokenAllowanceOfHchfContract "\<lambda>a b. b\<lparr>hchfTokenAllowanceOfHchfContract := a\<rparr>"
  by unfold_locales (simp_all add: approveHchfToSpendHchf_def reduce_one_field)

interpretation hlqt_approval: approval approveHlqtToSpendHlqt "\<lambda>c. hlqtToken_tokenAddress (con_contracts c) None"
  "\<lambda>c. hlqtTokenContractAddress (con_client c)" "\<lambda>a. no_fields\<lparr>new_hlqtTokenAllowanceOfHlqtContract := Some a\<rparr>"
  hlqtTokenAllowanceOfHlqtContract "\<lambda>a b. b\<lparr>hlqtTokenAllowanceOfHlqtContract := a\<rparr>"
  by unfold_locales (simp_all add: approveHlqtToSpendHlqt_def reduce_one_field)

interpretation lp_approval: approval approveSaucerSwapToSpendLpToken "\<lambda>c. unipool_uniToken (con_contracts c) None"
  "\<lambda>c. saucerSwapPoolAddress (con_client c)" "\<lambda>a. no_fields\<lparr>new_uniTokenAllowance := Some a\<rparr>"
  uniTokenAllowance "\<lambda>a b. b\<lparr>uniTokenAllowance := a\<rparr>"
  by unfold_locales (simp_all add: approveSaucerSwapToSpendLpToken_def reduce_one_field)

text \<open>
  C21. After an approval has returned, the store shows the approved allowance, whatever the ledger answered to the refresh just
  before (an object with the identity of the amount is the amount); every other field is the one of that refresh,
  and the derived state is up to date.
\<close>

theorem approvals_show_allowance:
  assumes "baseState (refresh_in (con_client c) (con_env c) s) = Some b"
    and "coherent (hchfTokenAllowanceOfHchfContract b) (Some a)" and "coherent (hlqtTokenAllowanceOfHlqtContract b) (Some a)"
    and "coherent (uniTokenAllowance b) (Some a)"
  shows "(approveHchfToSpendHchf c a s = (s', Inr ()) \<longrightarrow> consistent s' \<and> (\<exists>b'. baseState s' = Some b'
        \<and> content (hchfTokenAllowanceOfHchfContract b') = content a
        \<and> (b' = b \<or> b' = b\<lparr>hchfTokenAllowanceOfHchfContract := a\<rparr>)))
    \<and> (approveHlqtToSpendHlqt c a s = (s', Inr ()) \<longrightarrow> consistent s' \<and> (\<exists>b'. baseState s' = Some b'
        \<and> content (hlqtTokenAllowanceOfHlqtContract b') = content a
        \<and> (b' = b \<or> b' = b\<lparr>hlqtTokenAllowanceOfHlqtContract := a\<rparr>)))
    \<and> (approveSaucerSwapToSpendLpToken c a s = (s', Inr ()) \<longrightarrow> consistent s' \<and> (\<exists>b'. baseState s' = Some b'
        \<and> content (uniTokenAllowance b') = content a \<and> (b' = b \<or> b' = b\<lparr>uniTokenAllowance := a\<rparr>)))"
  using assms hchf_approval.shows_allowance [of c a s s'] hlqt_approval.shows_allowance [of c a s s']
    lp_approval.shows_allowance [of c a s s'] by auto

section \<open>What associations achieve\<close>

lemma getTokenIds_ids:
  assumes "getTokenIds k m = Inr ids"
  shows "\<exists>h l u i0 i1 i2. hchfToken_tokenAddress k None = Inr h \<and> hlqtToken_tokenAddress k None = Inr l
    \<and> unipool_uniToken k None = Inr u \<and> tokenIdString m h = Inr i0 \<and> tokenIdString m l = Inr i1
    \<and> tokenIdString m u = Inr i2 \<and> ids = [i0, i1, i2]"
  using assms by (auto simp: getTokenIds_def rbind_eq_Inr_iff)

lemma fetchStoreValues_associations:
  assumes "fetchStoreValues this k m i t = Inr (b, e)" and "getTokenIds k m = Inr ids"
    and "fetchTokens (mirror_fetch m) (mirror_stringify m) \<lparr>tokenIds = ids, apiBaseUrl = mirrorNodeBaseUrl this,
           account_of = AccountIdString (userAccountIdString this)\<rparr> = Inr tokens"
  shows "userHasAssociatedWithHchf b \<longleftrightarrow> ids ! 0 \<in> set tokens"
    and "userHasAssociatedWithHlqt b \<longleftrightarrow> ids ! 1 \<in> set tokens"
    and "userHasAssociatedWithLpToken b \<longleftrightarrow> ids ! 2 \<in> set tokens"
  using assms getTokenIds_ids [OF assms(2)]
  by (auto simp: fetchStoreValues_def tokenAssociations_def rbind_eq_Inr_iff)

text \<open>
  What is met by a successful association or dissociation: the token's address and id are known, the transaction goes
  through, and the mirror node's answers first show the wanted state in poll \<open>n\<close>.
\<close>

definition wanted_state :: "bool \<Rightarrow> string \<Rightarrow> string list \<Rightarrow> bool" where
  "wanted_state associate tokenId tokens \<longleftrightarrow> (tokenId \<in> set tokens \<longleftrightarrow> associate)"

definition association_accepted :: "consent \<Rightarrow> bool \<Rightarrow> string result \<Rightarrow> string \<Rightarrow> string list \<Rightarrow> nat \<Rightarrow> bool" where
  "association_accepted c associate tokenAddress tokenId ids n \<longleftrightarrow>
     rbind tokenAddress (tokenIdString (con_mirror c)) = Inr tokenId
     \<and> getTokenIds (con_contracts c) (con_mirror c) = Inr ids
     \<and> (\<exists>st. con_send c (if associate then TokenAssociate tokenId (userAccountIdString (con_client c))
          else TokenDissociate tokenId (userAccountIdString (con_client c))) = Inr st)
     \<and> wanted_state associate tokenId (known_tokens (poll_tokens c ids) n)
     \<and> (\<forall>j<n. \<not> wanted_state associate tokenId (known_tokens (poll_tokens c ids) j))"

lemma change_association_completes:
  assumes "association_accepted c associate tokenAddress tokenId ids n" and "n < fuel"
  shows "change_association fuel c associate tokenAddress s = Some (refresh_in (con_client c) (con_env c) s, Inr ())"
proof -
  have "wait_loop fuel (poll_tokens c ids) (if associate then [tokenId] else []) (if associate then [] else [tokenId]) 0 0 []
      = Some (known_tokens (poll_tokens c ids) n, n + 1, wait_until (n + 1))"
    using assms by (intro wait_loop_returns) (auto simp: association_accepted_def has_required_def wanted_state_def)
  then have "waitForTokenState fuel (poll_tokens c ids) (if associate then Some [tokenId] else None)
      (if associate then None else Some [tokenId]) = Some (known_tokens (poll_tokens c ids) n, n + 1, wait_until (n + 1))"
    by (cases associate) (simp_all add: waitForTokenState_def)
  then show ?thesis
    using assms(1) by (cases tokenAddress) (auto simp: change_association_def association_accepted_def)
qed

lemma refreshed_associations:
  assumes "fetchStoreValues this (env_contracts env) (env_mirror env) (env_ids env) None = Inr (b, e)"
    and "store_snapshot (env_ids env) (env_call env) (env_onLoaded env) (b, e) s = (s', Inr r)"
  shows "refresh_in this env s = s'" and "\<exists>b'. baseState s' = Some b' \<and> state_equal b' b"
  using assms store_snapshot_base [OF assms(2)] by (simp_all add: refresh_in_def refresh_def Let_def)

text \<open>
  C22. Associating with a token completes and becomes visible: once the transaction has gone through and the mirror node shows the
  wanted state in poll \<open>n\<close> for the first time, each of the six methods returns with fuel for \<open>n + 1\<close> polls, and if the final
  refresh succeeds and the mirror node still lists the tokens it lists then, the flag for the token in the state is true
  after an association and false after a dissociation.
\<close>

theorem associations_become_visible:
  assumes "association_accepted c associate tokenAddress tokenId ids n" and "n < fuel"
    and "getTokenIds (env_contracts (con_env c)) (env_mirror (con_env c)) = Inr ids"
    and "fetchTokens (mirror_fetch (env_mirror (con_env c))) (mirror_stringify (env_mirror (con_env c)))
           \<lparr>tokenIds = ids, apiBaseUrl = mirrorNodeBaseUrl (con_client c),
            account_of = AccountIdString (userAccountIdString (con_client c))\<rparr> = Inr tokens"
    and "wanted_state associate tokenId tokens"
    and "fetchStoreValues (con_client c) (env_contracts (con_env c)) (env_mirror (con_env c)) (env_ids (con_env c)) None = Inr (b, e)"
    and "store_snapshot (env_ids (con_env c)) (env_call (con_env c)) (env_onLoaded (con_env c)) (b, e) s = (s', Inr r)"
  shows "\<exists>b'. baseState s' = Some b'
    \<and> (tokenAddress = hchfToken_tokenAddress (con_contracts c) None \<longrightarrow> userHasAssociatedWithHchf b' = associate
        \<and> (if associate then associateWithHchf fuel c s else dissociateFromHchf fuel c s) = Some (s', Inr ()))
    \<and> (tokenAddress = hlqtToken_tokenAddress (con_contracts c) None \<longrightarrow> userHasAssociatedWithHlqt b' = associate
        \<and> (if associate then associateWithHlqt fuel c s else dissociateFromHlqt fuel c s) = Some (s', Inr ()))
    \<and> (tokenAddress = unipool_uniToken (con_contracts c) None \<longrightarrow> userHasAssociatedWithLpToken b' = associate
        \<and> (if associate then associateWithLpToken fuel c s else dissociateFromLpToken fuel c s) = Some (s', Inr ()))"
proof -
  note env = refreshed_associations [OF assms(6,7)]
  obtain b' where b': "baseState s' = Some b'" "state_equal b' b"
    using env(2) by blast
  have ids: "getTokenIds (con_contracts c) (con_mirror c) = Inr ids"
    and token: "rbind tokenAddress (tokenIdString (con_mirror c)) = Inr tokenId"
    using assms(1) by (simp_all add: association_accepted_def)
  have flags: "userHasAssociatedWithHchf b' \<longleftrightarrow> ids ! 0 \<in> set tokens" "userHasAssociatedWithHlqt b' \<longleftrightarrow> ids ! 1 \<in> set tokens"
    "userHasAssociatedWithLpToken b' \<longleftrightarrow> ids ! 2 \<in> set tokens"
    using b'(2) fetchStoreValues_associations [OF assms(6,3,4)] by (auto simp: state_equal_def strictEquals_def)
  have "tokenAddress = hchfToken_tokenAddress (con_contracts c) None \<Longrightarrow> ids ! 0 = tokenId"
    "tokenAddress = hlqtToken_tokenAddress (con_contracts c) None \<Longrightarrow> ids ! 1 = tokenId"
    "tokenAddress = unipool_uniToken (con_contracts c) None \<Longrightarrow> ids ! 2 = tokenId"
    using getTokenIds_ids [OF ids] token by auto
  moreover have "change_association fuel c associate tokenAddress s = Some (s', Inr ())"
    using change_association_completes [OF assms(1,2)] env(1) by simp
  ultimately show ?thesis
    using flags assms(5) b'(1)
    by (cases associate) (auto simp: wanted_state_def associateWithHchf_def dissociateFromHchf_def associateWithHlqt_def
        dissociateFromHlqt_def associateWithLpToken_def dissociateFromLpToken_def)
qed

section \<open>A sample consent\<close>

definition listing_response :: "string list \<Rightarrow> response" where
  "listing_response ts = \<lparr>response_ok = True, response_status = 200, response_text = '''', response_tokens = Inr ts\<rparr>"

definition listing_mirror :: mirror where
  "listing_mirror = \<lparr>mirror_fetch = (\<lambda>_. Inr (listing_response [''0xT''])), mirror_stringify = (\<lambda>_. []), tokenIdString = Inr\<rparr>"

definition sample_env :: refresh_env where
  "sample_env = \<lparr>env_contracts = sample_contracts, env_mirror = listing_mirror, env_ids = no_identity,
     env_call = silent, env_onLoaded = None\<rparr>"

text \<open>The mirror node shows the token in its second answer.\<close>

definition sample_consent :: consent where
  "sample_consent = \<lparr>con_client = sample_client, con_contracts = sample_contracts, con_mirror = listing_mirror,
     con_send = (\<lambda>_. Inr Success), con_fetch = (\<lambda>n _. Inr (listing_response (if n = 0 then [] else [''0xT'']))),
     con_env = sample_env, con_ids = (\<lambda>_. 1), con_call = silent, toLong = id\<rparr>"

lemma sample_env_snapshot:
  "\<exists>b e s r n. fetchStoreValues sample_client sample_contracts listing_mirror no_identity None = Inr (b, e)
     \<and> store_snapshot no_identity silent None (b, e) (new_Store defaults) = (s, Inr r)
     \<and> baseState s = Some b \<and> derive no_identity b = Inr n \<and> derivedState s = Some n \<and> listeners s = []"
  using sample_snapshot_with [of listing_mirror] by (auto simp: listing_mirror_def)

lemma sample_env_simps [simp]:
  "env_contracts sample_env = sample_contracts" "env_mirror sample_env = listing_mirror" "env_ids sample_env = no_identity"
  "env_call sample_env = silent" "env_onLoaded sample_env = None" "con_client sample_consent = sample_client"
  "con_env sample_consent = sample_env" "con_contracts sample_consent = sample_contracts"
  "con_mirror sample_consent = listing_mirror" "con_send sample_consent = (\<lambda>_. Inr Success)"
  "con_ids sample_consent = (\<lambda>_. 1)" "con_call sample_consent = silent"
  "con_fetch sample_consent n u = Inr (listing_response (if n = 0 then [] else [''0xT'']))"
  "tokenIdString listing_mirror = Inr" "hchfToken_tokenAddress sample_contracts t = Inr ''0xT''"
  by (simp_all add: sample_env_def sample_consent_def listing_mirror_def sample_contracts_def)

lemma sample_token_ids: "getTokenIds sample_contracts listing_mirror = Inr [''0xT'', ''0xT'', ''0xT'']"
  by (simp add: getTokenIds_def sample_contracts_def listing_mirror_def)

theorem associations_become_visible_witness:
  "\<exists>s b. associateWithHchf 2 sample_consent (new_Store defaults) = Some (s, Inr ()) \<and> baseState s = Some b
     \<and> userHasAssociatedWithHchf b"
proof -
  obtain b e s r where snap: "fetchStoreValues sample_client sample_contracts listing_mirror no_identity None = Inr (b, e)"
    "store_snapshot no_identity silent None (b, e) (new_Store defaults) = (s, Inr r)"
    using sample_env_snapshot by blast
  have accepted: "association_accepted sample_consent True (hchfToken_tokenAddress sample_contracts None) ''0xT''
      [''0xT'', ''0xT'', ''0xT''] 1"
    by (simp add: association_accepted_def sample_token_ids wanted_state_def poll_tokens_def fetchTokens_def
        listing_response_def)
  have "fetchTokens (mirror_fetch listing_mirror) (mirror_stringify listing_mirror) opts = Inr [''0xT'']" for opts
    by (simp add: fetchTokens_def listing_mirror_def listing_response_def)
  moreover have "wanted_state True ''0xT'' [''0xT'']"
    by (simp add: wanted_state_def)
  ultimately show ?thesis
    using associations_become_visible [OF accepted, of 2 "[''0xT'']" b e "new_Store defaults" s r] snap sample_token_ids
    by auto
qed

theorem waitForReceipt_outcome_witness:
  "\<exists>s r. waitForReceipt sample_client (Immediately NoDetails) Success sample_env sample_env (new_Store defaults) = (s, Inr r)
     \<and> reachable_store hashgraph_subclass defaults s \<and> receipt_status_of r = Succeeded"
proof -
  have start: "reachable_store hashgraph_subclass defaults (new_Store defaults)"
    by (rule reachable_store.constructed)
  obtain s r where "waitForReceipt sample_client (Immediately NoDetails) Success sample_env sample_env (new_Store defaults)
      = (s, Inr r)"
    by (simp add: waitForReceipt_def call_getDetails_def getLiquityReceiptStatus_def)
  with waitForReceipt_outcome [OF start this] show ?thesis by auto
qed

lemma sample_refresh_in:
  assumes "fetchStoreValues sample_client sample_contracts listing_mirror no_identity None = Inr (b, e)"
    and "store_snapshot no_identity silent None (b, e) (new_Store defaults) = (s, Inr r)"
  shows "refresh_in sample_client sample_env (new_Store defaults) = s"
  using assms by (simp add: refresh_in_def refresh_def Let_def)

theorem creation_details_report_witness:
  "\<exists>s r fee t u. waitForReceipt sample_client (CreationAfterRefresh \<lparr>create_depositCollateral = Decimal 5000000000000,
       create_borrowHCHF = Decimal 200000000000\<rparr>) Success sample_env sample_env (new_Store defaults) = (s, Inr r)
     \<and> receipt_details r = TroveCreationDetails \<lparr>create_depositCollateral = Decimal 5000000000000,
         create_borrowHCHF = Decimal 200000000000\<rparr> fee t
     \<and> Hashgraph_getTrove sample_client sample_contracts None = Inr u \<and> UserTrove_equals t u"
proof -
  let ?p = "\<lparr>create_depositCollateral = Decimal 5000000000000, create_borrowHCHF = Decimal 200000000000\<rparr>"
  obtain b e s r n where f: "fetchStoreValues sample_client sample_contracts listing_mirror no_identity None = Inr (b, e)"
    and snap: "store_snapshot no_identity silent None (b, e) (new_Store defaults) = (s, Inr r)"
    and b: "baseState s = Some b" "derive no_identity b = Inr n" "derivedState s = Some n"
    using sample_env_snapshot by blast
  have "\<exists>x. fee_and_trove s = Inr x"
    using b by (auto simp: fee_and_trove_def state_fees_def derive_def rbind_eq_Inr_iff)
  then obtain s' x where wait: "waitForReceipt sample_client (CreationAfterRefresh ?p) Success sample_env sample_env (new_Store defaults)
      = (s', Inr x)"
    using sample_refresh_in [OF f snap]
    by (auto simp: waitForReceipt_def call_getDetails_def getLiquityReceiptStatus_def Let_def split: prod.split)
  have "\<forall>y. baseState s = Some y \<longrightarrow> trove_constants (content (total y)) = client_constants sample_client"
    using b(1) getTotal_constants [OF fetchStoreValues_reads(2) [OF f]] by simp
  moreover have "userAccountAddress sample_client \<noteq> []"
    by (simp add: sample_client_def)
  ultimately show ?thesis
    using creation_details_report [OF wait, of b e s r] f snap wait by auto
qed

theorem approvals_show_allowance_witness:
  "\<exists>s b. approveHchfToSpendHchf sample_consent (Object 9 (Decimal 700)) (new_Store defaults) = (s, Inr ())
     \<and> baseState s = Some b \<and> content (hchfTokenAllowanceOfHchfContract b) = Decimal 700"
proof -
  obtain b e s r n where f: "fetchStoreValues sample_client sample_contracts listing_mirror no_identity None = Inr (b, e)"
    and snap: "store_snapshot no_identity silent None (b, e) (new_Store defaults) = (s, Inr r)"
    and b: "baseState s = Some b" "derive no_identity b = Inr n" "derivedState s = Some n" "listeners s = []"
    using sample_env_snapshot by blast
  note s = sample_refresh_in [OF f snap]
  let ?u = "no_fields\<lparr>new_hchfTokenAllowanceOfHchfContract := Some (Object 9 (Decimal 700))\<rparr>"
  have ids: "identity (hchfTokenAllowanceOfHchfContract b) = 0 \<and> identity (hlqtTokenAllowanceOfHlqtContract b) = 0
      \<and> identity (uniTokenAllowance b) = 0"
    using f by (auto simp: fetchStoreValues_def rbind_eq_Inr_iff no_identity_def)
  have "\<exists>n'. derive (\<lambda>_. 1) (reduce b ?u) = Inr n'"
    using derive_ids [OF b(2), of "\<lambda>_. 1"] ids by (auto simp: reduce_one_field derive_def)
  then obtain s' where "approveHchfToSpendHchf sample_consent (Object 9 (Decimal 700)) (new_Store defaults) = (s', Inr ())"
    using b s by (auto simp: approveHchfToSpendHchf_def approve_spending_def store_update_def notify_listeners_def Let_def)
  moreover have "coherent (hchfTokenAllowanceOfHchfContract b) (Some (Object 9 (Decimal 700)))"
    "coherent (hlqtTokenAllowanceOfHlqtContract b) (Some (Object 9 (Decimal 700)))"
    "coherent (uniTokenAllowance b) (Some (Object 9 (Decimal 700)))"
    using ids by (simp_all add: coherent_def)
  ultimately show ?thesis
    using approvals_show_allowance [of sample_consent "new_Store defaults" b "Object 9 (Decimal 700)" s'] b s by auto
qed

end
