(* ===== verification/Frontend_Views.thy ===== *)
theory Frontend_Views
  imports Store
begin

text \<open>
  The view contexts of the front end: which panel is shown for the user's trove, stability deposit, liquidity mining
  stake and HLQT stake (\<^verbatim>\<open>packages/dev-frontend/src/components/*/context\<close>). The providers for troves, stability deposits
  and liquidity mining share their code: a table of transitions, a reference to the current view that is brought up to
  date after each rendering, and an effect that turns a change in the store into an event. That code is modelled once,
  over a record with the parts in which the providers differ. The locale \<open>view_machine\<close> states what a provider needs
  to show a view that fits the store, and is interpreted on all three.
\<close>

section \<open>Providers\<close>

text \<open>
  \<open>scheduledView\<close> is the argument of the last \<^verbatim>\<open>setView\<close> that has not been rendered yet, \<open>observed\<close> the selected
  part of the store at the last rendering.
\<close>

record ('v, 's) provider =
  shownView :: 'v
  viewRef :: 'v
  scheduledView :: "'v option"
  observed :: 's

text \<open>
  \<open>pressed v\<close> are the events that the buttons of the panel for \<open>v\<close> dispatch, \<open>confirmed v s\<close> those that its effects
  dispatch when a transaction is confirmed while the store shows \<open>s\<close>. \<open>dependency\<close> is what the status effect depends on.
\<close>

record ('v, 'e, 's, 'd) view_code =
  transition :: "'v \<Rightarrow> 'e \<Rightarrow> 'v"
  initialView :: "'s \<Rightarrow> 'v"
  dependency :: "'s \<Rightarrow> 'd"
  statusEvent :: "'d \<Rightarrow> 'e option"
  pressed :: "'v \<Rightarrow> 'e list"
  confirmed :: "'v \<Rightarrow> 's \<Rightarrow> 'e list"

definition lookup_transition :: "('e \<times> 'v) list \<Rightarrow> 'v \<Rightarrow> 'e \<Rightarrow> 'v" where
  "lookup_transition table v e = (case map_of table e of Some nextView \<Rightarrow> nextView | None \<Rightarrow> v)"

definition dispatchEvent :: "('v, 'e, 's, 'd) view_code \<Rightarrow> 'e \<Rightarrow> ('v, 's) provider \<Rightarrow> ('v, 's) provider" where
  "dispatchEvent C event p = p\<lparr>scheduledView := Some (transition C (viewRef p) event)\<rparr>"

definition status_effect :: "('v, 'e, 's, 'd) view_code \<Rightarrow> ('v, 's) provider \<Rightarrow> ('v, 's) provider" where
  "status_effect C p = (case statusEvent C (dependency C (observed p)) of
     Some event \<Rightarrow> dispatchEvent C event p | None \<Rightarrow> p)"

definition mount_provider :: "('v, 'e, 's, 'd) view_code \<Rightarrow> 's \<Rightarrow> ('v, 's) provider" where
  "mount_provider C s = status_effect C
     \<lparr>shownView = initialView C s, viewRef = initialView C s, scheduledView = None, observed = s\<rparr>"

definition view_to_show :: "('v, 's) provider \<Rightarrow> 'v" where
  "view_to_show p = (case scheduledView p of Some v \<Rightarrow> v | None \<Rightarrow> shownView p)"

text \<open>
  A rendering with the selected state \<open>s\<close>: the scheduled view is shown, then the effects run, those of the panel
  before those of the provider. The effects of the panel still see the old reference.
\<close>

definition render_provider :: "('v, 'e, 's, 'd) view_code \<Rightarrow> 'e list \<Rightarrow> 's \<Rightarrow> ('v, 's) provider \<Rightarrow> ('v, 's) provider" where
  "render_provider C events s p =
     (let v = view_to_show p;
          reported = fold (dispatchEvent C) events (p\<lparr>shownView := v, scheduledView := None\<rparr>);
          current = reported\<lparr>viewRef := v, observed := s\<rparr>
      in if dependency C s = dependency C (observed p) then current else status_effect C current)"

text \<open>
  The reachable states of a provider. React renders the scheduled view before it handles the next press of a button.
  The effects of a panel report confirmations only once the panel has been shown, that is in a rendering that does
  not change the view. \<open>allowed\<close> restricts how the store may change while a view is shown.
\<close>

inductive provider_reachable :: "('v, 'e, 's, 'd) view_code \<Rightarrow> ('v \<Rightarrow> 's \<Rightarrow> 's \<Rightarrow> bool) \<Rightarrow> ('v, 's) provider \<Rightarrow> bool"
  for C :: "('v, 'e, 's, 'd) view_code" and allowed :: "'v \<Rightarrow> 's \<Rightarrow> 's \<Rightarrow> bool" where
  mounted: "provider_reachable C allowed (mount_provider C s)"
| press: "provider_reachable C allowed p \<Longrightarrow> scheduledView p = None \<Longrightarrow> event \<in> set (pressed C (shownView p))
    \<Longrightarrow> provider_reachable C allowed (dispatchEvent C event p)"
| render: "provider_reachable C allowed p \<Longrightarrow> allowed (view_to_show p) (observed p) s
    \<Longrightarrow> set events \<subseteq> set (confirmed C (view_to_show p) (observed p)) \<Longrightarrow> events = [] \<or> viewRef p = view_to_show p
    \<Longrightarrow> provider_reachable C allowed (render_provider C events s p)"

section \<open>Fitting views\<close>

lemma fold_dispatch:
  "fold (dispatchEvent C) events p =
     (if events = [] then p else p\<lparr>scheduledView := Some (transition C (viewRef p) (last events))\<rparr>)"
  by (induction events arbitrary: p) (auto simp: dispatchEvent_def)

text \<open>
  A predicate that fits views to the state of the store: the initial view fits, the events of a panel keep the fit,
  and the event of a change in the store restores it.
\<close>

locale view_machine =
  fixes C :: "('v, 'e, 's, 'd) view_code" and allowed :: "'v \<Rightarrow> 's \<Rightarrow> 's \<Rightarrow> bool" and fits :: "'v \<Rightarrow> 's \<Rightarrow> bool"
  assumes initial_fits: "fits (initialView C s) s"
    and pressed_fits: "fits v s \<Longrightarrow> e \<in> set (pressed C v) \<Longrightarrow> fits (transition C v e) s"
    and confirmed_fits: "fits v s \<Longrightarrow> e \<in> set (confirmed C v s) \<Longrightarrow> fits (transition C v e) s"
    and status_fits: "fits v s \<Longrightarrow> statusEvent C (dependency C s) = Some e \<Longrightarrow> fits (transition C v e) s"
    and unchanged_fits: "fits v s \<Longrightarrow> dependency C s' = dependency C s \<Longrightarrow> fits v s'"
    and event_fits: "fits v s \<Longrightarrow> allowed w s s' \<Longrightarrow> dependency C s' \<noteq> dependency C s
      \<Longrightarrow> statusEvent C (dependency C s') = Some e \<Longrightarrow> v = w \<Longrightarrow> fits (transition C v e) s'"
    and silent_fits: "fits v s \<Longrightarrow> allowed w s s' \<Longrightarrow> dependency C s' \<noteq> dependency C s
      \<Longrightarrow> statusEvent C (dependency C s') = None \<Longrightarrow> fits v s'"
begin

lemma mount_fits:
  "viewRef (mount_provider C s) = shownView (mount_provider C s) \<and> fits (view_to_show (mount_provider C s)) s"
  using initial_fits status_fits
  by (auto simp: mount_provider_def status_effect_def dispatchEvent_def view_to_show_def split: option.split)

lemma reported_fits:
  assumes "fits v s" and "set events \<subseteq> set (confirmed C v s)" and "events = [] \<or> w = v"
  shows "fits (if events = [] then v else transition C w (last events)) s"
  using assms confirmed_fits by (cases "events = []") (auto dest: last_in_set)

lemma render_fits:
  assumes fit: "fits (view_to_show p) (observed p)" and allow: "allowed (view_to_show p) (observed p) s"
    and events: "set events \<subseteq> set (confirmed C (view_to_show p) (observed p))"
    and shown: "events = [] \<or> viewRef p = view_to_show p"
  shows "fits (view_to_show (render_provider C events s p)) s"
proof -
  let ?v = "view_to_show p" and ?w = "if events = [] then view_to_show p else transition C (viewRef p) (last events)"
  have w: "fits ?w (observed p)" using reported_fits [OF fit events shown] .
  show ?thesis
  proof (cases "dependency C s = dependency C (observed p)")
    case True
    then have "view_to_show (render_provider C events s p) = ?w"
      by (simp add: render_provider_def Let_def fold_dispatch view_to_show_def)
    then show ?thesis using unchanged_fits [OF w True] by simp
  next
    case False
    show ?thesis
    proof (cases "statusEvent C (dependency C s)")
      case None
      then have "view_to_show (render_provider C events s p) = ?w"
        using False by (simp add: render_provider_def Let_def fold_dispatch view_to_show_def status_effect_def)
      then show ?thesis using silent_fits [OF w allow False None] by simp
    next
      case (Some e)
      then have "view_to_show (render_provider C events s p) = transition C ?v e"
        using False by (simp add: render_provider_def Let_def fold_dispatch view_to_show_def status_effect_def
            dispatchEvent_def)
      then show ?thesis using event_fits [OF fit allow False Some] by simp
    qed
  qed
qed

lemma render_observed: "observed (render_provider C events s p) = s"
  by (simp add: render_provider_def Let_def fold_dispatch status_effect_def dispatchEvent_def split: option.split)

lemma render_viewRef: "viewRef (render_provider C events s p) = shownView (render_provider C events s p)"
  by (simp add: render_provider_def Let_def fold_dispatch status_effect_def dispatchEvent_def split: option.split)

theorem reachable_fits:
  "provider_reachable C allowed p \<Longrightarrow> viewRef p = shownView p \<and> fits (view_to_show p) (observed p)"
proof (induction rule: provider_reachable.induct)
  case (mounted s)
  have "observed (mount_provider C s) = s"
    by (simp add: mount_provider_def status_effect_def dispatchEvent_def split: option.split)
  then show ?case using mount_fits by simp
next
  case (press p event)
  then show ?case using pressed_fits by (auto simp: dispatchEvent_def view_to_show_def)
next
  case (render p s events)
  then show ?case using render_fits render_observed render_viewRef by simp
qed

corollary settled_fits: "provider_reachable C allowed p \<Longrightarrow> scheduledView p = None \<Longrightarrow> fits (shownView p) (observed p)"
  using reachable_fits [of p] by (simp add: view_to_show_def)

end

section \<open>The trove view\<close>

datatype trove_view = NONE | LIQUIDATED | REDEEMED | OPENING | ADJUSTING | CLOSING | ACTIVE

datatype trove_event =
    OPEN_TROVE_PRESSED | ADJUST_TROVE_PRESSED | CLOSE_TROVE_PRESSED | CANCEL_ADJUST_TROVE_PRESSED
  | TROVE_CLOSED | TROVE_LIQUIDATED | TROVE_REDEEMED | TROVE_ADJUSTED | TROVE_SURPLUS_COLLATERAL_CLAIMED | TROVE_OPENED

fun trove_transitions :: "trove_view \<Rightarrow> (trove_event \<times> trove_view) list" where
  "trove_transitions NONE = [(OPEN_TROVE_PRESSED, OPENING), (TROVE_OPENED, ACTIVE)]"
| "trove_transitions LIQUIDATED =
     [(OPEN_TROVE_PRESSED, OPENING), (TROVE_SURPLUS_COLLATERAL_CLAIMED, NONE), (TROVE_OPENED, ACTIVE)]"
| "trove_transitions REDEEMED =
     [(OPEN_TROVE_PRESSED, OPENING), (TROVE_SURPLUS_COLLATERAL_CLAIMED, NONE), (TROVE_OPENED, ACTIVE)]"
| "trove_transitions OPENING = [(CANCEL_ADJUST_TROVE_PRESSED, NONE), (TROVE_OPENED, ACTIVE)]"
| "trove_transitions ADJUSTING =
     [(CANCEL_ADJUST_TROVE_PRESSED, ACTIVE), (TROVE_ADJUSTED, ACTIVE), (TROVE_CLOSED, NONE),
      (TROVE_LIQUIDATED, LIQUIDATED), (TROVE_REDEEMED, REDEEMED)]"
| "trove_transitions CLOSING =
     [(CANCEL_ADJUST_TROVE_PRESSED, ACTIVE), (TROVE_CLOSED, NONE), (TROVE_ADJUSTED, ACTIVE),
      (TROVE_LIQUIDATED, LIQUIDATED), (TROVE_REDEEMED, REDEEMED)]"
| "trove_transitions ACTIVE =
     [(ADJUST_TROVE_PRESSED, ADJUSTING), (CLOSE_TROVE_PRESSED, CLOSING), (TROVE_CLOSED, NONE),
      (TROVE_LIQUIDATED, LIQUIDATED), (TROVE_REDEEMED, REDEEMED)]"

fun troveStatusEvents :: "user_trove_status \<Rightarrow> trove_event option" where
  "troveStatusEvents Open = Some TROVE_OPENED"
| "troveStatusEvents ClosedByOwner = Some TROVE_CLOSED"
| "troveStatusEvents ClosedByLiquidation = Some TROVE_LIQUIDATED"
| "troveStatusEvents ClosedByRedemption = Some TROVE_REDEEMED"
| "troveStatusEvents NonExistent = None"

definition trove_transition :: "trove_view \<Rightarrow> trove_event \<Rightarrow> trove_view" where
  "trove_transition v event = lookup_transition (trove_transitions v) v event"

definition trove_getInitialView :: "user_trove_status \<Rightarrow> trove_view" where
  "trove_getInitialView troveStatus =
     (if troveStatus = ClosedByLiquidation then LIQUIDATED
      else if troveStatus = ClosedByRedemption then REDEEMED
      else if troveStatus = Open then ACTIVE
      else NONE)"

text \<open>
  The events of the panels: \<^verbatim>\<open>NoTrove\<close>, \<^verbatim>\<open>LiquidatedTrove\<close>, \<^verbatim>\<open>RedeemedTrove\<close>, \<^verbatim>\<open>Opening\<close>, \<^verbatim>\<open>Adjusting\<close>, \<^verbatim>\<open>TroveManager\<close>
  (for closing) and \<^verbatim>\<open>ReadOnlyTrove\<close> have the buttons, \<^verbatim>\<open>CollateralSurplusAction\<close>, \<^verbatim>\<open>Adjusting\<close> and \<^verbatim>\<open>TroveManager\<close>
  report confirmed transactions.
\<close>

fun trove_pressed :: "trove_view \<Rightarrow> trove_event list" where
  "trove_pressed NONE = [OPEN_TROVE_PRESSED]"
| "trove_pressed LIQUIDATED = [OPEN_TROVE_PRESSED]"
| "trove_pressed REDEEMED = [OPEN_TROVE_PRESSED]"
| "trove_pressed OPENING = [CANCEL_ADJUST_TROVE_PRESSED]"
| "trove_pressed ADJUSTING = [CANCEL_ADJUST_TROVE_PRESSED]"
| "trove_pressed CLOSING = [CANCEL_ADJUST_TROVE_PRESSED]"
| "trove_pressed ACTIVE = [ADJUST_TROVE_PRESSED, CLOSE_TROVE_PRESSED]"

fun trove_confirmed :: "trove_view \<Rightarrow> trove_event list" where
  "trove_confirmed LIQUIDATED = [TROVE_SURPLUS_COLLATERAL_CLAIMED]"
| "trove_confirmed REDEEMED = [TROVE_SURPLUS_COLLATERAL_CLAIMED]"
| "trove_confirmed ADJUSTING = [TROVE_ADJUSTED]"
| "trove_confirmed CLOSING = [TROVE_CLOSED, TROVE_ADJUSTED]"
| "trove_confirmed _ = []"

definition TroveViewProvider :: "(trove_view, trove_event, user_trove_status, user_trove_status) view_code" where
  "TroveViewProvider = \<lparr>transition = trove_transition, initialView = trove_getInitialView, dependency = (\<lambda>status. status),
     statusEvent = troveStatusEvents, pressed = trove_pressed, confirmed = (\<lambda>v _. trove_confirmed v)\<rparr>"

lemmas trove_view_defs =
  TroveViewProvider_def trove_transition_def lookup_transition_def trove_getInitialView_def

section \<open>The stability deposit view\<close>

datatype stability_view = NONE | DEPOSITING | ACTIVE | ADJUSTING

datatype stability_event =
    DEPOSIT_PRESSED | ADJUST_DEPOSIT_PRESSED | CANCEL_PRESSED | DEPOSIT_CONFIRMED | REWARDS_CLAIMED | DEPOSIT_EMPTIED

fun stability_transitions :: "stability_view \<Rightarrow> (stability_event \<times> stability_view) list" where
  "stability_transitions NONE = [(DEPOSIT_PRESSED, DEPOSITING)]"
| "stability_transitions DEPOSITING = [(CANCEL_PRESSED, NONE), (DEPOSIT_CONFIRMED, ACTIVE)]"
| "stability_transitions ACTIVE =
     [(REWARDS_CLAIMED, ACTIVE), (ADJUST_DEPOSIT_PRESSED, ADJUSTING), (DEPOSIT_EMPTIED, NONE)]"
| "stability_transitions ADJUSTING = [(CANCEL_PRESSED, ACTIVE), (DEPOSIT_CONFIRMED, ACTIVE), (DEPOSIT_EMPTIED, NONE)]"

definition stability_transition :: "stability_view \<Rightarrow> stability_event \<Rightarrow> stability_view" where
  "stability_transition v event = lookup_transition (stability_transitions v) v event"

definition stability_getInitialView :: "stability_deposit \<Rightarrow> stability_view" where
  "stability_getInitialView deposit = (if StabilityDeposit_isEmpty deposit then NONE else ACTIVE)"

definition stabilityStatusEvent :: "bool \<Rightarrow> stability_event option" where
  "stabilityStatusEvent isEmpty = (if isEmpty then Some DEPOSIT_EMPTIED else None)"

fun stability_pressed :: "stability_view \<Rightarrow> stability_event list" where
  "stability_pressed NONE = [DEPOSIT_PRESSED]"
| "stability_pressed DEPOSITING = [CANCEL_PRESSED]"
| "stability_pressed ACTIVE = [ADJUST_DEPOSIT_PRESSED]"
| "stability_pressed ADJUSTING = [CANCEL_PRESSED]"

text \<open>
  A deposit is confirmed by \<^verbatim>\<open>waitForReceipt\<close>, which refreshes the store before it returns: a confirmation of a new
  deposit finds the deposit in the store.
\<close>

fun stability_confirmed :: "stability_view \<Rightarrow> stability_deposit \<Rightarrow> stability_event list" where
  "stability_confirmed NONE _ = []"
| "stability_confirmed DEPOSITING s = (if StabilityDeposit_isEmpty s then [] else [DEPOSIT_CONFIRMED])"
| "stability_confirmed ACTIVE _ = [REWARDS_CLAIMED]"
| "stability_confirmed ADJUSTING _ = [DEPOSIT_CONFIRMED]"

definition StabilityViewProvider :: "(stability_view, stability_event, stability_deposit, bool) view_code" where
  "StabilityViewProvider = \<lparr>transition = stability_transition, initialView = stability_getInitialView,
     dependency = StabilityDeposit_isEmpty, statusEvent = stabilityStatusEvent,
     pressed = stability_pressed, confirmed = stability_confirmed\<rparr>"

lemmas stability_view_defs =
  StabilityViewProvider_def stability_transition_def lookup_transition_def stability_getInitialView_def
  stabilityStatusEvent_def

section \<open>The liquidity mining view\<close>

datatype mine_view = INACTIVE | STAKING | ACTIVE | ADJUSTING | DISABLED

datatype mine_event =
    STAKE_PRESSED | ADJUST_PRESSED | CANCEL_PRESSED | STAKE_APPROVED | STAKE_CONFIRMED | CLAIM_REWARD_CONFIRMED
  | UNSTAKE_AND_CLAIM_CONFIRMED

fun mine_transitions :: "mine_view \<Rightarrow> (mine_event \<times> mine_view) list" where
  "mine_transitions INACTIVE = [(STAKE_PRESSED, STAKING)]"
| "mine_transitions STAKING = [(CANCEL_PRESSED, INACTIVE), (STAKE_CONFIRMED, ACTIVE), (STAKE_APPROVED, STAKING)]"
| "mine_transitions ACTIVE =
     [(ADJUST_PRESSED, ADJUSTING), (CLAIM_REWARD_CONFIRMED, ACTIVE), (UNSTAKE_AND_CLAIM_CONFIRMED, INACTIVE)]"
| "mine_transitions ADJUSTING = [(CANCEL_PRESSED, ACTIVE), (STAKE_CONFIRMED, ACTIVE), (STAKE_APPROVED, ADJUSTING)]"
| "mine_transitions DISABLED = [(CLAIM_REWARD_CONFIRMED, DISABLED), (UNSTAKE_AND_CLAIM_CONFIRMED, DISABLED)]"

definition mine_transition :: "mine_view \<Rightarrow> mine_event \<Rightarrow> mine_view" where
  "mine_transition v event = lookup_transition (mine_transitions v) v event"

definition mine_getInitialView :: "decimal \<Rightarrow> decimal \<Rightarrow> mine_view" where
  "mine_getInitialView mined remaining =
     (if Decimal_isZero remaining then DISABLED
      else if Decimal_isZero mined then INACTIVE
      else ACTIVE)"

definition mineStatusEvent :: "bool \<Rightarrow> mine_event option" where
  "mineStatusEvent isZero = (if isZero then Some UNSTAKE_AND_CLAIM_CONFIRMED else None)"

fun mine_pressed :: "mine_view \<Rightarrow> mine_event list" where
  "mine_pressed INACTIVE = [STAKE_PRESSED]"
| "mine_pressed STAKING = [CANCEL_PRESSED]"
| "mine_pressed ACTIVE = [ADJUST_PRESSED]"
| "mine_pressed ADJUSTING = [CANCEL_PRESSED]"
| "mine_pressed DISABLED = []"

text \<open>As above, a confirmation of a first stake finds the stake in the store.\<close>

fun mine_confirmed :: "mine_view \<Rightarrow> decimal \<times> decimal \<Rightarrow> mine_event list" where
  "mine_confirmed INACTIVE _ = []"
| "mine_confirmed STAKING s = (if Decimal_isZero (fst s) then [] else [STAKE_CONFIRMED])"
| "mine_confirmed ACTIVE _ = [CLAIM_REWARD_CONFIRMED]"
| "mine_confirmed ADJUSTING _ = [STAKE_CONFIRMED]"
| "mine_confirmed DISABLED _ = [CLAIM_REWARD_CONFIRMED]"

definition MineViewProvider :: "(mine_view, mine_event, decimal \<times> decimal, bool) view_code" where
  "MineViewProvider = \<lparr>transition = mine_transition, initialView = (\<lambda>s. mine_getInitialView (fst s) (snd s)),
     dependency = (\<lambda>s. Decimal_isZero (fst s)), statusEvent = mineStatusEvent,
     pressed = mine_pressed, confirmed = mine_confirmed\<rparr>"

lemmas mine_view_defs =
  MineViewProvider_def mine_transition_def lookup_transition_def mine_getInitialView_def mineStatusEvent_def

section \<open>Interpretations\<close>

text \<open>A panel for an existing trove is shown only for an open trove. The store must not lose an open trove.\<close>

definition trove_panel :: "trove_view \<Rightarrow> bool" where
  "trove_panel v \<longleftrightarrow> v \<in> {trove_view.ACTIVE, trove_view.ADJUSTING, trove_view.CLOSING}"

definition keeps_record :: "user_trove_status \<Rightarrow> user_trove_status \<Rightarrow> bool" where
  "keeps_record s s' \<longleftrightarrow> s = Open \<longrightarrow> s' \<noteq> NonExistent"

interpretation tv: view_machine TroveViewProvider "\<lambda>_. keeps_record" "\<lambda>v s. trove_panel v \<longrightarrow> s = Open"
proof
  fix v :: trove_view and s s' :: user_trove_status and e
  assume fit: "trove_panel v \<longrightarrow> s = Open"
  show "trove_panel (transition TroveViewProvider v e) \<longrightarrow> s = Open" if "e \<in> set (pressed TroveViewProvider v)"
    using fit that by (cases v) (auto simp: trove_view_defs trove_panel_def)
  show "trove_panel (transition TroveViewProvider v e) \<longrightarrow> s = Open" if "e \<in> set (confirmed TroveViewProvider v s)"
    using fit that by (cases v) (auto simp: trove_view_defs trove_panel_def)
  show "trove_panel (transition TroveViewProvider v e) \<longrightarrow> s = Open"
    if "statusEvent TroveViewProvider (dependency TroveViewProvider s) = Some e"
    using fit that by (cases v; cases s) (auto simp: trove_view_defs trove_panel_def)
  show "trove_panel v \<longrightarrow> s' = Open" if "dependency TroveViewProvider s' = dependency TroveViewProvider s"
    using fit that by (simp add: trove_view_defs)
  fix w :: trove_view
  assume rec: "keeps_record s s'"
  show "trove_panel (transition TroveViewProvider v e) \<longrightarrow> s' = Open"
    if "statusEvent TroveViewProvider (dependency TroveViewProvider s') = Some e"
    using that by (cases v; cases s') (auto simp: trove_view_defs trove_panel_def)
  show "trove_panel v \<longrightarrow> s' = Open" if "statusEvent TroveViewProvider (dependency TroveViewProvider s') = None"
    using fit rec that by (cases s') (auto simp: trove_view_defs keeps_record_def)
qed (auto simp: trove_view_defs trove_panel_def)

interpretation sv: view_machine StabilityViewProvider "\<lambda>_ _ _. True"
  "\<lambda>v s. v \<in> {stability_view.ACTIVE, stability_view.ADJUSTING} \<longrightarrow> \<not> StabilityDeposit_isEmpty s"
proof
  fix v :: stability_view and s s' :: stability_deposit and e
  let ?fits = "\<lambda>v s. v \<in> {stability_view.ACTIVE, stability_view.ADJUSTING} \<longrightarrow> \<not> StabilityDeposit_isEmpty s"
  assume fit: "?fits v s"
  show "?fits (transition StabilityViewProvider v e) s" if "e \<in> set (pressed StabilityViewProvider v)"
    using fit that by (cases v) (auto simp: stability_view_defs)
  show "?fits (transition StabilityViewProvider v e) s" if "e \<in> set (confirmed StabilityViewProvider v s)"
    using fit that by (cases v) (auto simp: stability_view_defs split: if_splits)
  show "?fits (transition StabilityViewProvider v e) s"
    if "statusEvent StabilityViewProvider (dependency StabilityViewProvider s) = Some e"
    using fit that by (cases v) (auto simp: stability_view_defs split: if_splits)
  show "?fits v s'" if "dependency StabilityViewProvider s' = dependency StabilityViewProvider s"
    using fit that by (simp add: stability_view_defs)
  show "?fits (transition StabilityViewProvider v e) s'"
    if "statusEvent StabilityViewProvider (dependency StabilityViewProvider s') = Some e"
    using that by (cases v) (auto simp: stability_view_defs split: if_splits)
  show "?fits v s'" if "statusEvent StabilityViewProvider (dependency StabilityViewProvider s') = None"
    using that by (auto simp: stability_view_defs split: if_splits)
qed (auto simp: stability_view_defs)

text \<open>
  A panel for an existing stake needs a stake, provided that the stake is not emptied while it is being adjusted, in
  which view the event for an empty stake is ignored.
\<close>

definition not_emptied_while_adjusting :: "mine_view \<Rightarrow> decimal \<times> decimal \<Rightarrow> decimal \<times> decimal \<Rightarrow> bool" where
  "not_emptied_while_adjusting v s s' \<longleftrightarrow> v = mine_view.ADJUSTING \<longrightarrow> \<not> Decimal_isZero (fst s) \<longrightarrow> \<not> Decimal_isZero (fst s')"

interpretation mv: view_machine MineViewProvider not_emptied_while_adjusting
  "\<lambda>v s. v \<in> {mine_view.ACTIVE, mine_view.ADJUSTING} \<longrightarrow> \<not> Decimal_isZero (fst s)"
proof
  fix v :: mine_view and s s' :: "decimal \<times> decimal" and e
  let ?fits = "\<lambda>v s. v \<in> {mine_view.ACTIVE, mine_view.ADJUSTING} \<longrightarrow> \<not> Decimal_isZero (fst s)"
  assume fit: "?fits v s"
  show "?fits (transition MineViewProvider v e) s" if "e \<in> set (pressed MineViewProvider v)"
    using fit that by (cases v) (auto simp: mine_view_defs)
  show "?fits (transition MineViewProvider v e) s" if "e \<in> set (confirmed MineViewProvider v s)"
    using fit that by (cases v) (auto simp: mine_view_defs split: if_splits)
  show "?fits (transition MineViewProvider v e) s" if "statusEvent MineViewProvider (dependency MineViewProvider s) = Some e"
    using fit that by (cases v) (auto simp: mine_view_defs split: if_splits)
  show "?fits v s'" if "dependency MineViewProvider s' = dependency MineViewProvider s"
    using fit that by (simp add: mine_view_defs)
  fix w :: mine_view
  assume change: "not_emptied_while_adjusting w s s'"
  show "?fits (transition MineViewProvider v e) s'"
    if "statusEvent MineViewProvider (dependency MineViewProvider s') = Some e" and "v = w"
    using that fit change by (cases v) (auto simp: mine_view_defs not_emptied_while_adjusting_def split: if_splits)
  show "?fits v s'" if "statusEvent MineViewProvider (dependency MineViewProvider s') = None"
    using that by (auto simp: mine_view_defs split: if_splits)
qed (auto simp: mine_view_defs)

text \<open>Apart from closures that are reported before the store shows them, the panel also is one for open troves if the trove is open.\<close>

definition without_closures ::
    "(trove_view, trove_event, user_trove_status, user_trove_status) view_code
     \<Rightarrow> (trove_view, trove_event, user_trove_status, user_trove_status) view_code" where
  "without_closures C = C\<lparr>confirmed := (\<lambda>v s. removeAll TROVE_CLOSED (confirmed C v s))\<rparr>"

interpretation tw: view_machine "without_closures TroveViewProvider" "\<lambda>_. keeps_record" "\<lambda>v s. trove_panel v \<longleftrightarrow> s = Open"
proof
  let ?C = "without_closures TroveViewProvider"
  fix v :: trove_view and s s' :: user_trove_status and e
  assume fit: "trove_panel v \<longleftrightarrow> s = Open"
  show "trove_panel (transition ?C v e) \<longleftrightarrow> s = Open" if "e \<in> set (pressed ?C v)"
    using fit that by (cases v) (auto simp: without_closures_def trove_view_defs trove_panel_def)
  show "trove_panel (transition ?C v e) \<longleftrightarrow> s = Open" if "e \<in> set (confirmed ?C v s)"
    using fit that by (cases v) (auto simp: without_closures_def trove_view_defs trove_panel_def)
  show "trove_panel (transition ?C v e) \<longleftrightarrow> s = Open" if "statusEvent ?C (dependency ?C s) = Some e"
    using fit that by (cases v; cases s) (auto simp: without_closures_def trove_view_defs trove_panel_def)
  show "trove_panel v \<longleftrightarrow> s' = Open" if "dependency ?C s' = dependency ?C s"
    using fit that by (simp add: without_closures_def trove_view_defs)
  fix w :: trove_view
  assume rec: "keeps_record s s'" and change: "dependency ?C s' \<noteq> dependency ?C s"
  show "trove_panel (transition ?C v e) \<longleftrightarrow> s' = Open" if "statusEvent ?C (dependency ?C s') = Some e"
    using fit change that by (cases v; cases s') (auto simp: without_closures_def trove_view_defs trove_panel_def)
  show "trove_panel v \<longleftrightarrow> s' = Open" if "statusEvent ?C (dependency ?C s') = None"
    using fit rec that by (cases s') (auto simp: without_closures_def trove_view_defs keeps_record_def)
qed (auto simp: without_closures_def trove_view_defs trove_panel_def)

section \<open>Properties of the views\<close>

text \<open>
  C31. The panel for the user's trove follows the status in the store. Unless the store loses an open trove, a panel for
  an existing trove is about to be shown only while the trove is open, whatever buttons are pressed and transactions
  confirmed; and if no closure is reported in advance of the store, an open trove always has such a panel.
\<close>

theorem trove_view_follows_status:
  assumes "provider_reachable TroveViewProvider (\<lambda>_. keeps_record) p"
    and "provider_reachable (without_closures TroveViewProvider) (\<lambda>_. keeps_record) q"
  shows "viewRef p = shownView p \<and> (trove_panel (view_to_show p) \<longrightarrow> observed p = Open)
    \<and> (trove_panel (view_to_show q) \<longleftrightarrow> observed q = Open)"
  using assms tv.reachable_fits tw.reachable_fits by blast

text \<open>A run: an open trove is adjusted, and is liquidated before the adjustment is confirmed.\<close>

definition trove_run :: "(trove_view, user_trove_status) provider" where
  "trove_run = (let C = TroveViewProvider; p = mount_provider C Open; p = render_provider C [] Open p;
     p = dispatchEvent C ADJUST_TROVE_PRESSED p; p = render_provider C [] Open p
   in render_provider C [TROVE_ADJUSTED] ClosedByLiquidation p)"

lemmas provider_defs =
  mount_provider_def render_provider_def status_effect_def dispatchEvent_def view_to_show_def Let_def

lemma trove_run_reachable:
  "provider_reachable TroveViewProvider (\<lambda>_. keeps_record) trove_run"
  "provider_reachable (without_closures TroveViewProvider) (\<lambda>_. keeps_record) trove_run"
proof -
  have steps: "provider_reachable C (\<lambda>_. keeps_record) (render_provider C [TROVE_ADJUSTED] ClosedByLiquidation
      (render_provider C [] Open (dispatchEvent C ADJUST_TROVE_PRESSED (render_provider C [] Open (mount_provider C Open)))))"
    if C: "C \<in> {TroveViewProvider, without_closures TroveViewProvider}" for C
    by (rule provider_reachable.render provider_reachable.press provider_reachable.mounted)+
      (use C in \<open>auto simp: keeps_record_def provider_defs trove_view_defs without_closures_def\<close>)
  have dispatch: "dispatchEvent (without_closures TroveViewProvider) = dispatchEvent TroveViewProvider"
    by (intro ext) (simp add: dispatchEvent_def without_closures_def)
  have status: "status_effect (without_closures TroveViewProvider) = status_effect TroveViewProvider"
    unfolding status_effect_def dispatch by (intro ext) (simp add: without_closures_def)
  have same: "mount_provider (without_closures TroveViewProvider) = mount_provider TroveViewProvider"
    "render_provider (without_closures TroveViewProvider) = render_provider TroveViewProvider"
    unfolding mount_provider_def render_provider_def dispatch status
    by (intro ext, simp add: without_closures_def)+
  show "provider_reachable TroveViewProvider (\<lambda>_. keeps_record) trove_run"
    using steps [of TroveViewProvider] by (simp add: trove_run_def)
  show "provider_reachable (without_closures TroveViewProvider) (\<lambda>_. keeps_record) trove_run"
    using steps [of "without_closures TroveViewProvider"] by (simp add: trove_run_def same dispatch)
qed

theorem trove_view_follows_status_witness:
  "viewRef trove_run = shownView trove_run \<and> observed trove_run = ClosedByLiquidation
     \<and> view_to_show trove_run = LIQUIDATED \<and> \<not> trove_panel (view_to_show trove_run)"
proof -
  have "observed trove_run = ClosedByLiquidation" "view_to_show trove_run = LIQUIDATED"
    by (simp_all add: trove_run_def provider_defs trove_view_defs)
  then show ?thesis
    using trove_view_follows_status [OF trove_run_reachable] by simp
qed

text \<open>
  The panels for a stability deposit and for a liquidity mining stake follow the store: unless the view is about to
  change, the panels for an existing deposit or stake are shown only if there is one. For the stake this needs that it
  is not emptied while it is being adjusted.
\<close>

theorem deposit_views_follow_store:
  assumes "provider_reachable StabilityViewProvider (\<lambda>_ _ _. True) p" and "scheduledView p = None"
    and "provider_reachable MineViewProvider not_emptied_while_adjusting q" and "scheduledView q = None"
  shows "viewRef p = shownView p \<and> viewRef q = shownView q
    \<and> (StabilityDeposit_isEmpty (observed p) \<longrightarrow> shownView p = NONE \<or> shownView p = DEPOSITING)
    \<and> (Decimal_isZero (fst (observed q)) \<longrightarrow> shownView q = INACTIVE \<or> shownView q = STAKING \<or> shownView q = DISABLED)"
proof (intro conjI impI)
  show "viewRef p = shownView p" "viewRef q = shownView q"
    using sv.reachable_fits [OF assms(1)] mv.reachable_fits [OF assms(3)] by auto
  show "shownView p = NONE \<or> shownView p = DEPOSITING" if "StabilityDeposit_isEmpty (observed p)"
    using sv.settled_fits [OF assms(1,2)] that by (cases "shownView p") auto
  show "shownView q = INACTIVE \<or> shownView q = STAKING \<or> shownView q = DISABLED" if "Decimal_isZero (fst (observed q))"
    using mv.settled_fits [OF assms(3,4)] that by (cases "shownView q") auto
qed

text \<open>Runs in which a deposit is adjusted to nothing, and a stake is exited from its own panel.\<close>

definition stability_run :: "(stability_view, stability_deposit) provider" where
  "stability_run = (let C = StabilityViewProvider; deposit = empty_StabilityDeposit\<lparr>initialHCHF := Decimal 5, currentHCHF := Decimal 5\<rparr>;
     p = render_provider C [] deposit (mount_provider C deposit);
     p = render_provider C [] deposit (dispatchEvent C ADJUST_DEPOSIT_PRESSED p);
     p = render_provider C [DEPOSIT_CONFIRMED] empty_StabilityDeposit p
   in render_provider C [] empty_StabilityDeposit p)"

definition mine_run :: "(mine_view, decimal \<times> decimal) provider" where
  "mine_run = (let C = MineViewProvider; p = render_provider C [] (Decimal 5, Decimal 7) (mount_provider C (Decimal 5, Decimal 7));
     p = render_provider C [] (Decimal 0, Decimal 7) p
   in render_provider C [] (Decimal 0, Decimal 7) p)"

lemma stability_run_reachable: "provider_reachable StabilityViewProvider (\<lambda>_ _ _. True) stability_run"
  unfolding stability_run_def Let_def
  by (rule provider_reachable.render provider_reachable.press provider_reachable.mounted)+
    (auto simp: provider_defs stability_view_defs StabilityDeposit_isEmpty_def empty_StabilityDeposit_def Decimal_isZero_def Decimal_ZERO_def)

lemma mine_run_reachable: "provider_reachable MineViewProvider not_emptied_while_adjusting mine_run"
  unfolding mine_run_def Let_def
  by (rule provider_reachable.render provider_reachable.press provider_reachable.mounted)+
    (auto simp: provider_defs mine_view_defs not_emptied_while_adjusting_def Decimal_isZero_def Decimal_ZERO_def)

theorem deposit_views_follow_store_witness:
  "shownView stability_run = NONE \<and> shownView mine_run = INACTIVE
     \<and> (shownView stability_run = NONE \<or> shownView stability_run = DEPOSITING)
     \<and> (shownView mine_run = INACTIVE \<or> shownView mine_run = STAKING \<or> shownView mine_run = DISABLED)"
proof -
  have s: "shownView stability_run = NONE" "scheduledView stability_run = None"
    "StabilityDeposit_isEmpty (observed stability_run)"
    by (simp_all add: stability_run_def provider_defs stability_view_defs StabilityDeposit_isEmpty_def
        empty_StabilityDeposit_def Decimal_isZero_def Decimal_ZERO_def)
  have m: "shownView mine_run = INACTIVE" "scheduledView mine_run = None" "Decimal_isZero (fst (observed mine_run))"
    by (simp_all add: mine_run_def provider_defs mine_view_defs Decimal_isZero_def Decimal_ZERO_def)
  show ?thesis
    using deposit_views_follow_store [OF stability_run_reachable s(2) mine_run_reachable m(2)] s m by simp
qed

text \<open>The panels for an existing stake, shown or about to be shown.\<close>

definition stake_panel :: "(mine_view, decimal \<times> decimal) provider \<Rightarrow> bool" where
  "stake_panel p \<longleftrightarrow> viewRef p = shownView p \<and> view_to_show p \<in> {ACTIVE, ADJUSTING} \<and> Decimal_isZero (fst (observed p))"

lemma stake_panel_press:
  "stake_panel p \<Longrightarrow> scheduledView p = None \<Longrightarrow> event \<in> set (mine_pressed (shownView p))
     \<Longrightarrow> stake_panel (dispatchEvent MineViewProvider event p)"
  by (cases "shownView p") (auto simp: stake_panel_def provider_defs mine_view_defs)

lemma stake_panel_render:
  assumes "stake_panel p" and "Decimal_isZero (fst s)"
    and "set events \<subseteq> set (mine_confirmed (view_to_show p) (observed p))" and "events = [] \<or> viewRef p = view_to_show p"
  shows "stake_panel (render_provider MineViewProvider events s p)"
proof (cases "events = []")
  case True
  then show ?thesis
    using assms by (simp add: stake_panel_def render_provider_def mine_view_defs view_to_show_def Let_def)
next
  case False
  then have "last events \<in> set (mine_confirmed (view_to_show p) (observed p))" using assms(3) last_in_set by blast
  moreover have "view_to_show p = ACTIVE \<or> view_to_show p = ADJUSTING" using assms(1) by (auto simp: stake_panel_def)
  ultimately have "last events = CLAIM_REWARD_CONFIRMED \<and> view_to_show p = ACTIVE
      \<or> last events = STAKE_CONFIRMED \<and> view_to_show p = ADJUSTING" by auto
  moreover have "viewRef p = view_to_show p" using assms(4) False by blast
  ultimately show ?thesis
    using assms False
    by (elim disjE) (simp_all add: stake_panel_def render_provider_def fold_dispatch mine_view_defs view_to_show_def Let_def)
qed

text \<open>
  A liquidity mining stake that is withdrawn as a whole through the adjustment panel leaves the panel for an existing
  stake behind: the empty stake arrives before the confirmation, the adjusting view ignores its event, and the confirmation
  leads to the active view. No press of a button and no rendering brings the panel for a missing stake back while the
  stake remains empty.
\<close>

theorem emptied_stake_keeps_panel:
  assumes "viewRef p = ADJUSTING" and "shownView p = ADJUSTING" and "scheduledView p = None" and "Decimal_isZero (fst s)"
  defines "r \<equiv> render_provider MineViewProvider [] s
    (render_provider MineViewProvider [STAKE_CONFIRMED] s (render_provider MineViewProvider [] s p))"
  shows "shownView r = ACTIVE \<and> scheduledView r = None \<and> stake_panel r
    \<and> (\<forall>q event. stake_panel q \<and> scheduledView q = None \<and> event \<in> set (mine_pressed (shownView q))
         \<longrightarrow> stake_panel (dispatchEvent MineViewProvider event q))
    \<and> (\<forall>q events s'. stake_panel q \<and> Decimal_isZero (fst s') \<and> set events \<subseteq> set (mine_confirmed (view_to_show q) (observed q))
         \<and> (events = [] \<or> viewRef q = view_to_show q) \<longrightarrow> stake_panel (render_provider MineViewProvider events s' q))"
proof -
  have "shownView r = ACTIVE \<and> scheduledView r = None \<and> stake_panel r"
    using assms(1-4) unfolding r_def
    by (cases "Decimal_isZero (fst (observed p))") (simp_all add: provider_defs mine_view_defs stake_panel_def)
  then show ?thesis using stake_panel_press stake_panel_render by blast
qed

theorem emptied_stake_keeps_panel_witness:
  "\<exists>p r. provider_reachable MineViewProvider (\<lambda>_ _ _. True) p \<and> shownView p = ADJUSTING
     \<and> r = render_provider MineViewProvider [] (Decimal 0, Decimal 7) (render_provider MineViewProvider [STAKE_CONFIRMED]
         (Decimal 0, Decimal 7) (render_provider MineViewProvider [] (Decimal 0, Decimal 7) p))
     \<and> provider_reachable MineViewProvider (\<lambda>_ _ _. True) r \<and> shownView r = ACTIVE \<and> stake_panel r"
proof -
  let ?C = MineViewProvider and ?s = "(Decimal 5, Decimal 7)" and ?e = "(Decimal 0, Decimal 7)"
  define p where "p = render_provider ?C [] ?s (dispatchEvent ?C ADJUST_PRESSED (render_provider ?C [] ?s (mount_provider ?C ?s)))"
  have p: "viewRef p = ADJUSTING" "shownView p = ADJUSTING" "scheduledView p = None" "observed p = ?s"
    by (simp_all add: p_def provider_defs mine_view_defs Decimal_isZero_def Decimal_ZERO_def)
  have reach: "provider_reachable ?C (\<lambda>_ _ _. True) p" unfolding p_def
    by (rule provider_reachable.render provider_reachable.press provider_reachable.mounted)+
      (auto simp: provider_defs mine_view_defs Decimal_isZero_def Decimal_ZERO_def)
  have "provider_reachable ?C (\<lambda>_ _ _. True) (render_provider ?C [] ?e (render_provider ?C [STAKE_CONFIRMED] ?e (render_provider ?C [] ?e p)))"
    by (rule provider_reachable.render reach)+ (use p in \<open>auto simp: provider_defs mine_view_defs Decimal_isZero_def Decimal_ZERO_def\<close>)
  moreover have "Decimal_isZero (fst ?e)" by (simp add: Decimal_isZero_def Decimal_ZERO_def)
  ultimately show ?thesis using emptied_stake_keeps_panel [OF p(1-3), of ?e] reach p(2) by blast
qed

end
