(* ===== verification/Frontend_Transactions.thy ===== *)
theory Frontend_Transactions
  imports JS_Prelude
begin

text \<open>
  The life of a transaction in the front end: \<^verbatim>\<open>packages/dev-frontend/src/components/Transaction.tsx\<close> with the state that all
  panels share, the function that sends, and the monitor that waits for the receipt; \<^verbatim>\<open>loading_state.ts\<close> for associations and
  approvals; \<^verbatim>\<open>Steps.tsx\<close> for the steps that lead to a transaction; and \<^verbatim>\<open>errors.tsx\<close>.
\<close>

section \<open>Errors\<close>

text \<open>
  What a promise can be rejected with: an \<^verbatim>\<open>Error\<close>, another object with a text as its \<^verbatim>\<open>message\<close> or without that
  property, or something else.
\<close>

datatype throwable = ErrorObject string | PlainObject "string option" | NotAnObject

definition to_lower :: "char \<Rightarrow> char" where
  "to_lower c = (let n = of_char c :: nat in if 65 \<le> n \<and> n \<le> 90 then char_of (n + 32) else c)"

fun message_of :: "throwable \<Rightarrow> string option" where
  "message_of (ErrorObject m) = Some m"
| "message_of (PlainObject m) = m"
| "message_of NotAnObject = None"

fun isNoMatchingKeyError :: "throwable \<Rightarrow> bool" where
  "isNoMatchingKeyError (ErrorObject m) \<longleftrightarrow> text_includes (map to_lower m) ''no matching key''"
| "isNoMatchingKeyError (PlainObject m) \<longleftrightarrow> m = None"
| "isNoMatchingKeyError NotAnObject \<longleftrightarrow> False"

section \<open>The state of a transaction\<close>

datatype 't transaction_state =
    Idle
  | Failed string string
  | WaitingForApproval string
  | Cancelled string
  | WaitingForConfirmation string 't
  | Confirmed string
  | ConfirmedOneShot string

fun state_id :: "'t transaction_state \<Rightarrow> string option" where
  "state_id Idle = None"
| "state_id (Failed i _) = Some i"
| "state_id (WaitingForApproval i) = Some i"
| "state_id (Cancelled i) = Some i"
| "state_id (WaitingForConfirmation i _) = Some i"
| "state_id (Confirmed i) = Some i"
| "state_id (ConfirmedOneShot i) = Some i"

text \<open>The panels look for their transactions by an identifier, or by a prefix, for which they use a regular expression.\<close>

datatype transaction_matcher = ExactId string | IdPrefix string

definition useMyTransactionState :: "transaction_matcher \<Rightarrow> 't transaction_state \<Rightarrow> 't transaction_state" where
  "useMyTransactionState myId s = (case state_id s of
      None \<Rightarrow> Idle
    | Some i \<Rightarrow> (case myId of
        ExactId m \<Rightarrow> if i = m then s else Idle
      | IdPrefix m \<Rightarrow> if take (length m) i = m then s else Idle))"

fun isTransactionPending :: "'t transaction_state \<Rightarrow> bool" where
  "isTransactionPending (WaitingForApproval _) = True"
| "isTransactionPending (WaitingForConfirmation _ _) = True"
| "isTransactionPending _ = False"

text \<open>
  The reasons for which the button of \<^verbatim>\<open>Transaction\<close> is disabled; it sends only if there is none. The state is that of
  whatever transaction there is, not only of the one of the button.
\<close>

definition failureReasons :: "(bool \<times> string) list \<Rightarrow> 't transaction_state \<Rightarrow> string list" where
  "failureReasons requires s = map snd (filter (\<lambda>(requirement, _). \<not> requirement) requires)
     @ (if isTransactionPending s then [''You must wait for confirmation''] else [])"

section \<open>The monitor\<close>

text \<open>
  \<open>scheduledTx\<close> is the last \<^verbatim>\<open>setTransactionState\<close> that is not rendered yet. \<open>watched\<close> is the transaction whose receipt is
  awaited by an effect that is neither cancelled nor finished. \<open>resetTimer\<close> says whether the timer that clears the state is
  running and not cancelled. \<open>monitorStore\<close> is the store of the last rendering, by its identity.
\<close>

record 't monitor =
  txState :: "'t transaction_state"
  scheduledTx :: "'t transaction_state option"
  watched :: "(string \<times> 't) option"
  resetTimer :: bool
  monitorStore :: nat

definition new_monitor :: "nat \<Rightarrow> 't monitor" where
  "new_monitor store = \<lparr>txState = Idle, scheduledTx = None, watched = None, resetTimer = False, monitorStore = store\<rparr>"

text \<open>\<^verbatim>\<open>sendTransaction\<close> until \<^verbatim>\<open>await send()\<close>, and after it. The second component tells whether a snack is shown.\<close>

definition start_sending :: "string \<Rightarrow> 't monitor \<Rightarrow> 't monitor" where
  "start_sending i m = m\<lparr>scheduledTx := Some (WaitingForApproval i)\<rparr>"

definition finish_sending :: "string \<Rightarrow> throwable + 't \<Rightarrow> 't monitor \<Rightarrow> 't monitor \<times> bool" where
  "finish_sending i outcome m = (case outcome of
      Inr tx \<Rightarrow> (m\<lparr>scheduledTx := Some (WaitingForConfirmation i tx)\<rparr>, False)
    | Inl throwable \<Rightarrow>
        (if (case message_of throwable of Some t \<Rightarrow> text_includes t ''User denied transaction signature'' | None \<Rightarrow> False)
         then (m\<lparr>scheduledTx := Some (Cancelled i)\<rparr>, False)
         else (m\<lparr>scheduledTx := Some (Failed i ''Failed to send transaction (try again)'')\<rparr>, isNoMatchingKeyError throwable)))"

text \<open>What \<^verbatim>\<open>tx.waitForReceipt()\<close> ends with.\<close>

datatype receipt_outcome = ReceiptSucceeded | ReceiptFailed | TransactionCancelledError | ReceiptError

fun state_after_receipt :: "string \<Rightarrow> receipt_outcome \<Rightarrow> 't transaction_state" where
  "state_after_receipt i ReceiptSucceeded = ConfirmedOneShot i"
| "state_after_receipt i ReceiptFailed = Failed i ''Reverted: <no revert reason on non-ethers liquity implementations>''"
| "state_after_receipt i TransactionCancelledError = Cancelled i"
| "state_after_receipt i ReceiptError = Failed i ''Failed''"

definition receive_receipt :: "receipt_outcome \<Rightarrow> 't monitor \<Rightarrow> 't monitor" where
  "receive_receipt outcome m = (case watched m of
      None \<Rightarrow> m
    | Some (i, _) \<Rightarrow> m\<lparr>watched := None, scheduledTx := Some (state_after_receipt i outcome)\<rparr>)"

definition timeout :: "'t monitor \<Rightarrow> 't monitor" where
  "timeout m = (if resetTimer m then m\<lparr>resetTimer := False, scheduledTx := Some Idle\<rparr> else m)"

text \<open>The values on which the two effects of the monitor depend.\<close>

fun awaited :: "'t transaction_state \<Rightarrow> 't option" where
  "awaited (WaitingForConfirmation _ tx) = Some tx"
| "awaited _ = None"

fun state_type :: "'t transaction_state \<Rightarrow> nat" where
  "state_type Idle = 0"
| "state_type (Failed _ _) = 1"
| "state_type (WaitingForApproval _) = 2"
| "state_type (Cancelled _) = 3"
| "state_type (WaitingForConfirmation _ _) = 4"
| "state_type (Confirmed _) = 5"
| "state_type (ConfirmedOneShot _) = 6"

definition watch_dependencies :: "nat \<Rightarrow> 't transaction_state \<Rightarrow> nat \<times> string option \<times> 't option" where
  "watch_dependencies store s = (store, state_id s, awaited s)"

definition reset_dependencies :: "nat \<Rightarrow> 't transaction_state \<Rightarrow> nat \<times> nat \<times> string option" where
  "reset_dependencies store s = (store, state_type s, state_id s)"

text \<open>The clean-up of the first effect cancels a watch that is not finished, and clears the state.\<close>

definition cancel_watch :: "'t monitor \<Rightarrow> 't monitor" where
  "cancel_watch m = (if watched m \<noteq> None then m\<lparr>watched := None, scheduledTx := Some Idle\<rparr> else m)"

definition start_watch :: "'t monitor \<Rightarrow> 't monitor" where
  "start_watch m = (case txState m of
      WaitingForConfirmation i tx \<Rightarrow> (if i \<noteq> [] then m\<lparr>watched := Some (i, tx)\<rparr> else m)
    | _ \<Rightarrow> m)"

definition schedule_reset :: "'t monitor \<Rightarrow> 't monitor" where
  "schedule_reset m = (case txState m of
      ConfirmedOneShot i \<Rightarrow> (if i \<noteq> [] then m\<lparr>scheduledTx := Some (Confirmed i)\<rparr> else m)
    | Confirmed _ \<Rightarrow> m\<lparr>resetTimer := True\<rparr>
    | Failed _ _ \<Rightarrow> m\<lparr>resetTimer := True\<rparr>
    | Cancelled _ \<Rightarrow> m\<lparr>resetTimer := True\<rparr>
    | _ \<Rightarrow> m)"

text \<open>
  A rendering with a store, which may be another one than before: the scheduled state is taken over, then all clean-ups and then all effects run whose
  dependencies changed.
\<close>

definition render_monitor :: "nat \<Rightarrow> 't monitor \<Rightarrow> 't monitor" where
  "render_monitor store m =
     (let next = (case scheduledTx m of Some s \<Rightarrow> s | None \<Rightarrow> txState m);
          watch_changed = (watch_dependencies store next \<noteq> watch_dependencies (monitorStore m) (txState m));
          reset_changed = (reset_dependencies store next \<noteq> reset_dependencies (monitorStore m) (txState m));
          m = m\<lparr>txState := next, scheduledTx := None, monitorStore := store\<rparr>;
          m = (if watch_changed then cancel_watch m else m);
          m = (if reset_changed then m\<lparr>resetTimer := False\<rparr> else m);
          m = (if watch_changed then start_watch m else m)
      in if reset_changed then schedule_reset m else m)"

section \<open>Loading states and steps\<close>

datatype loading_status = LoadingIdle | Pending | Success | LoadingError

record 'a loading =
  loading_state :: loading_status
  loading_result :: "'a option"
  loading_error :: "throwable option"

definition loading_reset :: "'a loading" where
  "loading_reset = \<lparr>loading_state = LoadingIdle, loading_result = None, loading_error = None\<rparr>"

definition loading_start :: "'a loading" where
  "loading_start = \<lparr>loading_state = Pending, loading_result = None, loading_error = None\<rparr>"

text \<open>Anything that is not an \<^verbatim>\<open>Error\<close> is wrapped in one, with the text that JavaScript gives it.\<close>

definition loading_finish :: "(throwable \<Rightarrow> string) \<Rightarrow> throwable + 'a \<Rightarrow> 'a loading" where
  "loading_finish to_text outcome = (case outcome of
      Inr r \<Rightarrow> \<lparr>loading_state = Success, loading_result = Some r, loading_error = None\<rparr>
    | Inl t \<Rightarrow> \<lparr>loading_state = LoadingError, loading_result = None,
        loading_error = Some (case t of ErrorObject m \<Rightarrow> t | _ \<Rightarrow> ErrorObject (to_text t))\<rparr>)"

datatype step_status = StepIdle | StepPending | StepSuccess | StepDanger | StepWarning

definition getCompletableStepStatus :: "bool \<Rightarrow> loading_status \<Rightarrow> step_status" where
  "getCompletableStepStatus isCompleted state =
     (if isCompleted then StepSuccess
      else if state = LoadingError then StepDanger
      else if state = Pending \<or> \<not> isCompleted \<and> state = Success then StepPending
      else StepIdle)"

text \<open>The loop of \<^verbatim>\<open>Steps\<close> that decides after which steps one can continue.\<close>

fun steps_continue :: "bool \<Rightarrow> step_status list \<Rightarrow> bool list" where
  "steps_continue previous [] = []"
| "steps_continue previous (s # ss) =
     (let canContinue = previous \<and> (s = StepSuccess \<or> s = StepWarning) in canContinue # steps_continue canContinue ss)"

lemma length_steps_continue [simp]: "length (steps_continue b ss) = length ss"
  by (induction ss arbitrary: b) (simp_all add: Let_def)

lemma steps_continue_iff:
  "i < length ss \<Longrightarrow> steps_continue b ss ! i \<longleftrightarrow> b \<and> (\<forall>s \<in> set (take (Suc i) ss). s = StepSuccess \<or> s = StepWarning)"
proof (induction ss arbitrary: b i)
  case (Cons s ss)
  then show ?case by (cases i) (auto simp: Let_def)
qed simp

section \<open>One transaction at a time\<close>

text \<open>
  The reachable states of the monitor if no transaction is started while another one is pending, as the button of
  \<^verbatim>\<open>Transaction\<close> makes sure, and if the monitor stays mounted and its store is not replaced while a receipt is awaited. React renders what is scheduled before the next event.
\<close>

inductive monitor_reachable :: "'t monitor \<Rightarrow> bool" where
  initial: "monitor_reachable (new_monitor store)"
| send: "monitor_reachable m \<Longrightarrow> scheduledTx m = None \<Longrightarrow> \<not> isTransactionPending (txState m) \<Longrightarrow> i \<noteq> []
    \<Longrightarrow> monitor_reachable (start_sending i m)"
| sent: "monitor_reachable m \<Longrightarrow> scheduledTx m = None \<Longrightarrow> txState m = WaitingForApproval i
    \<Longrightarrow> monitor_reachable (fst (finish_sending i outcome m))"
| receipt: "monitor_reachable m \<Longrightarrow> scheduledTx m = None \<Longrightarrow> monitor_reachable (receive_receipt outcome' m)"
| reset: "monitor_reachable m \<Longrightarrow> scheduledTx m = None \<Longrightarrow> monitor_reachable (timeout m)"
| render: "monitor_reachable m \<Longrightarrow> store = monitorStore m \<or> watched m = None \<Longrightarrow> monitor_reachable (render_monitor store m)"

text \<open>The states that may follow a shown state. A watch exists exactly while its transaction is shown and nothing is scheduled.\<close>

fun may_follow :: "'t transaction_state \<Rightarrow> 't transaction_state \<Rightarrow> bool" where
  "may_follow s Idle \<longleftrightarrow> (\<exists>i e. s = Confirmed i \<or> s = Failed i e \<or> s = Cancelled i)"
| "may_follow s (WaitingForApproval i) \<longleftrightarrow> i \<noteq> [] \<and> \<not> isTransactionPending s"
| "may_follow s (WaitingForConfirmation i tx) \<longleftrightarrow> s = WaitingForApproval i \<and> i \<noteq> []"
| "may_follow s (ConfirmedOneShot i) \<longleftrightarrow> (\<exists>tx. s = WaitingForConfirmation i tx) \<and> i \<noteq> []"
| "may_follow s (Confirmed i) \<longleftrightarrow> s = ConfirmedOneShot i \<and> i \<noteq> []"
| "may_follow s (Failed i e) \<longleftrightarrow> (\<exists>tx. s = WaitingForApproval i \<or> s = WaitingForConfirmation i tx) \<and> i \<noteq> []"
| "may_follow s (Cancelled i) \<longleftrightarrow> (\<exists>tx. s = WaitingForApproval i \<or> s = WaitingForConfirmation i tx) \<and> i \<noteq> []"

definition monitor_inv :: "'t monitor \<Rightarrow> bool" where
  "monitor_inv m \<longleftrightarrow>
     (\<forall>s. scheduledTx m = Some s \<longrightarrow> may_follow (txState m) s)
   \<and> (\<forall>i. txState m = ConfirmedOneShot i \<longrightarrow> scheduledTx m = Some (Confirmed i))
   \<and> (\<forall>i. state_id (txState m) = Some i \<longrightarrow> i \<noteq> [])
   \<and> (\<forall>i tx. watched m = Some (i, tx) \<longleftrightarrow> txState m = WaitingForConfirmation i tx \<and> scheduledTx m = None)
   \<and> (resetTimer m \<longrightarrow> may_follow (txState m) Idle)
   \<and> (may_follow (txState m) Idle \<longrightarrow> resetTimer m \<or> scheduledTx m = Some Idle)"

lemma monitor_inv_initial: "monitor_inv (new_monitor store)"
  by (auto simp: monitor_inv_def new_monitor_def)

lemma monitor_inv_send:
  "monitor_inv m \<Longrightarrow> scheduledTx m = None \<Longrightarrow> \<not> isTransactionPending (txState m) \<Longrightarrow> i \<noteq> [] \<Longrightarrow> monitor_inv (start_sending i m)"
  by (cases "txState m") (auto simp: monitor_inv_def start_sending_def)

lemma monitor_inv_sent:
  assumes "monitor_inv m" and "scheduledTx m = None" and "txState m = WaitingForApproval i"
  shows "monitor_inv (fst (finish_sending i outcome m))"
  using assms by (cases outcome) (auto simp: monitor_inv_def finish_sending_def)

lemma monitor_inv_receipt:
  assumes "monitor_inv m" and "scheduledTx m = None"
  shows "monitor_inv (receive_receipt outcome m)"
proof (cases "watched m")
  case (Some w)
  then obtain i tx where w: "watched m = Some (i, tx)" by (cases w) auto
  then have state: "txState m = WaitingForConfirmation i tx" using assms(1) unfolding monitor_inv_def by blast
  moreover have "i \<noteq> []" using assms(1) state by (simp add: monitor_inv_def)
  ultimately show ?thesis using assms w by (cases outcome) (auto simp: monitor_inv_def receive_receipt_def)
qed (use assms in \<open>simp add: receive_receipt_def\<close>)

lemma monitor_inv_reset: "monitor_inv m \<Longrightarrow> scheduledTx m = None \<Longrightarrow> monitor_inv (timeout m)"
  by (auto simp: monitor_inv_def timeout_def)

lemma render_nothing_scheduled: "scheduledTx m = None \<Longrightarrow> render_monitor (monitorStore m) m = m"
  by (simp add: render_monitor_def Let_def)

lemmas render_steps = render_monitor_def Let_def watch_dependencies_def reset_dependencies_def cancel_watch_def start_watch_def
  schedule_reset_def

lemma monitor_inv_render:
  assumes "monitor_inv m" and "store = monitorStore m \<or> watched m = None"
  shows "monitor_inv (render_monitor store m)"
proof (cases "scheduledTx m")
  case None
  show ?thesis
  proof (cases "store = monitorStore m")
    case True
    then show ?thesis using assms(1) None render_nothing_scheduled by metis
  next
    case False
    then have w: "watched m = None" using assms(2) by simp
    show ?thesis
      using assms(1) None w False by (cases "txState m") (auto simp: monitor_inv_def render_steps)
  qed
next
  case (Some s)
  then have follow: "may_follow (txState m) s" using assms by (simp add: monitor_inv_def)
  have w: "watched m = None" using assms Some by (cases "watched m") (auto simp: monitor_inv_def)
  show ?thesis
    using Some follow w by (cases s; cases "txState m") (auto simp: monitor_inv_def render_steps)
qed

lemma reachable_monitor_inv: "monitor_reachable m \<Longrightarrow> monitor_inv m"
  by (induction rule: monitor_reachable.induct)
    (simp_all add: monitor_inv_initial monitor_inv_send monitor_inv_sent monitor_inv_receipt monitor_inv_reset monitor_inv_render)

text \<open>
  C32. As long as transactions are not started while another one is pending, and the monitor stays mounted with the same store while a receipt is awaited, it loses
  none: whenever nothing is waiting to be rendered, a transaction is watched exactly if it is the one shown as waiting for confirmation; a pending
  transaction is never replaced by the idle state; and what has ended is always about to be cleared.
\<close>

theorem monitor_watches_pending:
  assumes "monitor_reachable m"
  shows "(scheduledTx m = None \<longrightarrow> (\<forall>i tx. watched m = Some (i, tx) \<longleftrightarrow> txState m = WaitingForConfirmation i tx))
    \<and> (isTransactionPending (txState m) \<longrightarrow> scheduledTx m \<noteq> Some Idle)
    \<and> (\<forall>i e. txState m \<in> {Confirmed i, Failed i e, Cancelled i} \<longrightarrow> resetTimer m \<or> scheduledTx m = Some Idle)"
proof -
  have inv: "monitor_inv m" using reachable_monitor_inv [OF assms] .
  have "scheduledTx m \<noteq> Some Idle" if "isTransactionPending (txState m)"
    using inv that by (cases "txState m") (auto simp: monitor_inv_def)
  then show ?thesis using inv by (auto simp: monitor_inv_def)
qed

definition sample_monitor :: "nat monitor" where
  "sample_monitor = render_monitor 1 (fst (finish_sending ''stake'' (Inr 7) (render_monitor 1 (start_sending ''stake'' (new_monitor 1)))))"

lemma sample_monitor_state:
  "txState sample_monitor = WaitingForConfirmation ''stake'' 7" "scheduledTx sample_monitor = None"
  "watched sample_monitor = Some (''stake'', 7)" "monitorStore sample_monitor = 1"
  by (simp_all add: sample_monitor_def new_monitor_def start_sending_def finish_sending_def render_steps)

lemma sample_monitor_reachable: "monitor_reachable sample_monitor"
  unfolding sample_monitor_def
proof (intro monitor_reachable.render monitor_reachable.sent monitor_reachable.send monitor_reachable.initial)
qed (simp_all add: new_monitor_def start_sending_def finish_sending_def render_steps)

theorem monitor_watches_pending_witness:
  "monitor_reachable sample_monitor \<and> watched sample_monitor = Some (''stake'', 7)
     \<and> txState sample_monitor = WaitingForConfirmation ''stake'' 7 \<and> scheduledTx sample_monitor \<noteq> Some Idle"
  using monitor_watches_pending [OF sample_monitor_reachable] sample_monitor_reachable sample_monitor_state by simp

text \<open>
  The receipt of a watched transaction is reported and cleared: the outcome is shown, a success for exactly one rendering as
  \<^verbatim>\<open>confirmedOneShot\<close> and then as \<^verbatim>\<open>confirmed\<close>, and after the timer has run the state is idle again and nothing is left.
\<close>

theorem receipt_is_reported:
  fixes outcome :: receipt_outcome
  assumes "monitor_reachable m" and "watched m = Some (i, tx)"
  defines "r \<equiv> render_monitor (monitorStore m) (receive_receipt outcome m)"
  shows "txState r = state_after_receipt i outcome
    \<and> (outcome = ReceiptSucceeded \<longrightarrow> txState (render_monitor (monitorStore m) r) = Confirmed i)
    \<and> render_monitor (monitorStore m) (timeout (render_monitor (monitorStore m) r)) = new_monitor (monitorStore m)"
proof -
  have inv: "monitor_inv m" using reachable_monitor_inv [OF assms(1)] .
  then have state: "txState m = WaitingForConfirmation i tx" "scheduledTx m = None"
    using assms(2) unfolding monitor_inv_def by blast+
  have "i \<noteq> []" "\<not> resetTimer m" using inv state by (auto simp: monitor_inv_def)
  then show ?thesis
    using state assms(2) unfolding r_def
    by (cases outcome) (auto simp: receive_receipt_def timeout_def new_monitor_def render_steps)
qed

theorem receipt_is_reported_witness:
  "txState (render_monitor 1 (receive_receipt ReceiptSucceeded sample_monitor)) = ConfirmedOneShot ''stake''
   \<and> render_monitor 1 (timeout (render_monitor 1 (render_monitor 1 (receive_receipt ReceiptSucceeded sample_monitor)))) = new_monitor 1"
  using receipt_is_reported [OF sample_monitor_reachable sample_monitor_state(3), of ReceiptSucceeded] by (simp add: sample_monitor_state)

text \<open>
  The buttons of troves, deposits and stakes send without regard to other pending transactions, and that loses
  transactions. If a second one is started while the first is watched, the first is no longer watched and the state is idle
  although the second waits for approval. If a second one is sent that was waiting for approval as well, neither is watched
  and the state is idle although both are on their way.
\<close>

theorem second_transaction_is_lost:
  assumes "txState m = WaitingForConfirmation i tx" and "watched m = Some (i, tx)" and "scheduledTx m = None" and "\<not> resetTimer m"
    and "j \<noteq> i" and "j \<noteq> []" and "monitorStore m = s"
  shows "render_monitor s (render_monitor s (start_sending j m)) = new_monitor s
    \<and> render_monitor s (render_monitor s (render_monitor s (fst (finish_sending j (Inr tx') m)))) = new_monitor s"
  using assms by (cases m) (simp add: start_sending_def finish_sending_def new_monitor_def render_steps)

theorem second_transaction_is_lost_witness:
  "render_monitor 1 (render_monitor 1 (start_sending ''trove-adjustment'' sample_monitor)) = new_monitor 1
   \<and> render_monitor 1 (render_monitor 1 (render_monitor 1
       (fst (finish_sending ''trove-adjustment'' (Inr 8) sample_monitor)))) = new_monitor 1"
proof -
  have "\<not> resetTimer sample_monitor"
    by (simp add: sample_monitor_def new_monitor_def start_sending_def finish_sending_def render_steps)
  from second_transaction_is_lost [OF sample_monitor_state(1,3,2) this _ _ sample_monitor_state(4)] show ?thesis by simp
qed

text \<open>A store that is replaced while a receipt is awaited has the same effect: the transaction is no longer watched, and the state is idle.\<close>

theorem replaced_store_loses_transaction:
  assumes "txState m = WaitingForConfirmation i tx" and "watched m = Some (i, tx)" and "scheduledTx m = None" and "\<not> resetTimer m" and "i \<noteq> []"
    and "store \<noteq> monitorStore m"
  shows "render_monitor store (render_monitor store (render_monitor store m)) = new_monitor store"
  using assms by (cases m) (simp add: new_monitor_def render_steps)

end
