(* ===== verification/Frontend_Validation.thy ===== *)
theory Frontend_Validation
  imports Trove_Transactions Store
begin

text \<open>
  The validation of what the user is about to do, in \<^verbatim>\<open>packages/dev-frontend/src/components\<close>: changes of a trove
  (\<^verbatim>\<open>Trove/validation/validateTroveChange.tsx\<close>), of a stability deposit
  (\<^verbatim>\<open>Stability/validation/validateStabilityDepositChange.tsx\<close>), of an HLQT stake (\<^verbatim>\<open>Staking/StakingManager.tsx\<close>) and of a
  liquidity mining stake (\<^verbatim>\<open>Mine/context/useValidationState.ts\<close>). The result is the change that may be sent, if any,
  and a description. Descriptions are modelled with their texts; a component that is only rendered later stands for itself.
\<close>

section \<open>Descriptions\<close>

datatype part = Words string | Amount string

datatype description =
    ErrorDescription "part list"
  | WalletNotConnectedInfo
  | TroveChangeDescription "decimal adjustment_params"
  | StabilityActionDescription stability_deposit "decimal stability_change"
  | StakingManagerActionDescription hlqt_stake "decimal stake_change"
  | Fragment "description list"

definition COLLATERAL_COIN :: string where "COLLATERAL_COIN = ''HBAR''"

definition COIN :: string where "COIN = ''HCHF''"

definition GT :: string where "GT = ''HLQT''"

definition LP :: string where "LP = ''LP''"

definition not_text :: "string \<Rightarrow> string \<Rightarrow> string" where
  "not_text before after = before @ [CHR 0x27] @ after"

definition coin_amount :: "string \<Rightarrow> string \<Rightarrow> part" where
  "coin_amount shown coin = Amount (shown @ '' '' @ coin)"

definition pretty_amount :: "decimal \<Rightarrow> string \<Rightarrow> part result" where
  "pretty_amount d coin = rbind (Decimal_prettify d 2) (\<lambda>s. Inr (coin_amount s coin))"

definition percent_text :: "decimal \<Rightarrow> string result" where
  "percent_text ratio = Percent_toString (new_Percent (DecimalRatio ratio)) 0"

text \<open>The text of a trove change. The parameters of creations and closures have a subset of the properties of adjustments.\<close>

definition change_params :: "trove_change \<Rightarrow> decimal adjustment_params" where
  "change_params change = (case change of
      Creation p \<Rightarrow> \<lparr>depositCollateral = Some (create_depositCollateral p), withdrawCollateral = None,
                     borrowHCHF = Some (create_borrowHCHF p), repayHCHF = None\<rparr>
    | Closure p \<Rightarrow> \<lparr>depositCollateral = None, withdrawCollateral = Some (close_withdrawCollateral p),
                    borrowHCHF = None, repayHCHF = close_repayHCHF p\<rparr>
    | Adjustment p _ \<Rightarrow> p
    | InvalidCreation _ _ \<Rightarrow> \<lparr>depositCollateral = None, withdrawCollateral = None, borrowHCHF = None, repayHCHF = None\<rparr>)"

definition two_amounts :: "string \<Rightarrow> decimal \<Rightarrow> string \<Rightarrow> string \<Rightarrow> decimal \<Rightarrow> string \<Rightarrow> part list result" where
  "two_amounts verb a coin_a link b coin_b = rbind (pretty_amount a coin_a) (\<lambda>pa. rbind (pretty_amount b coin_b) (\<lambda>pb.
     Inr [Words verb, pa, Words link, pb, Words ''.'']))"

definition one_amount :: "string \<Rightarrow> decimal \<Rightarrow> string \<Rightarrow> part list result" where
  "one_amount verb a coin = rbind (pretty_amount a coin) (\<lambda>pa. Inr [Words verb, pa, Words ''.''])"

definition TroveChangeDescription_text :: "decimal adjustment_params \<Rightarrow> part list result" where
  "TroveChangeDescription_text params =
       (case (depositCollateral params, withdrawCollateral params, borrowHCHF params, repayHCHF params) of
          (Some d, _, Some b, _) \<Rightarrow>
            two_amounts ''You will deposit '' d COLLATERAL_COIN '' and receive '' b COIN
        | (_, Some w, _, Some r) \<Rightarrow>
            two_amounts ''You will pay '' r COIN '' and receive '' w COLLATERAL_COIN
        | (Some d, _, _, Some r) \<Rightarrow>
            two_amounts ''You will deposit '' d COLLATERAL_COIN '' and pay '' r COIN
        | (_, Some w, Some b, _) \<Rightarrow>
            two_amounts ''You will receive '' w COLLATERAL_COIN '' and '' b COIN
        | (Some d, _, _, _) \<Rightarrow> one_amount ''You will deposit '' d COLLATERAL_COIN
        | (_, Some w, _, _) \<Rightarrow> one_amount ''You will receive '' w COLLATERAL_COIN
        | (_, _, Some b, _) \<Rightarrow> one_amount ''You will receive '' b COIN
        | (_, _, _, Some r) \<Rightarrow> one_amount ''You will pay '' r COIN
        | (None, None, None, None) \<Rightarrow> Inl (Error ''params.repayHCHF is undefined''))"

section \<open>Trove changes\<close>

record trove_validation_state =
  vs_price :: decimal
  vs_total :: Trove.trove
  vs_accountBalance :: decimal
  vs_hchfBalance :: decimal
  vs_numberOfTroves :: int

record trove_validation_context = trove_validation_state +
  originalTrove :: Trove.trove
  resultingTrove :: Trove.trove
  recoveryMode :: bool
  wouldTriggerRecoveryMode :: bool
  hasConnection :: bool

definition validateTroveCreation ::
  "decimal creation_params \<Rightarrow> trove_validation_context \<Rightarrow> constants \<Rightarrow> description option result" where
  "validateTroveCreation params ctx cs =
     (if Decimal_lt (create_borrowHCHF params) (HCHF_MINIMUM_NET_DEBT cs)
      then rbind (Decimal_toString (HCHF_MINIMUM_NET_DEBT cs) None) (\<lambda>s.
        Inr (Some (ErrorDescription [Words ''You must borrow at least '', coin_amount s COIN, Words ''.''])))
      else
        rbind (percent_text (CRITICAL_COLLATERAL_RATIO cs)) (\<lambda>ccrPercent.
        rbind (percent_text (MINIMUM_COLLATERAL_RATIO cs)) (\<lambda>mcrPercent.
          if recoveryMode ctx \<and> \<not> Trove_isOpenableInRecoveryMode (resultingTrove ctx) (vs_price ctx)
          then Inr (Some (ErrorDescription [Words (not_text ''You'' ''re not allowed to open a Trove with less than ''),
            Amount ccrPercent, Words (not_text '' Collateral Ratio during recovery mode. Please increase your Trove'' ''s Collateral Ratio.'')]))
          else if \<not> recoveryMode ctx \<and> Trove_collateralRatioIsBelowMinimum (resultingTrove ctx) (vs_price ctx)
          then Inr (Some (ErrorDescription [Words ''Collateral ratio must be at least '', Amount mcrPercent, Words ''.'']))
          else if \<not> recoveryMode ctx \<and> wouldTriggerRecoveryMode ctx
          then Inr (Some (ErrorDescription
            [Words (not_text ''You'' ''re not allowed to open a Trove that would cause the Total Collateral Ratio to fall below ''),
             Amount ccrPercent, Words (not_text ''. Please increase your Trove'' ''s Collateral Ratio.'')]))
          else if \<not> hasConnection ctx then Inr (Some WalletNotConnectedInfo)
          else if Decimal_gt (create_depositCollateral params) (vs_accountBalance ctx)
          then rbind (Decimal_sub (create_depositCollateral params) (vs_accountBalance ctx)) (\<lambda>excess.
            rbind (pretty_amount excess COLLATERAL_COIN) (\<lambda>amount.
              Inr (Some (ErrorDescription [Words (not_text ''The amount you'' ''re trying to deposit exceeds your balance by ''),
                amount, Words ''.'']))))
          else Inr None)))"

definition validateTroveAdjustment ::
  "decimal adjustment_params \<Rightarrow> trove_validation_context \<Rightarrow> constants \<Rightarrow> description option result" where
  "validateTroveAdjustment params ctx cs =
     rbind (percent_text (CRITICAL_COLLATERAL_RATIO cs)) (\<lambda>ccrPercent.
     rbind (percent_text (MINIMUM_COLLATERAL_RATIO cs)) (\<lambda>mcrPercent.
       if recoveryMode ctx \<and> withdrawCollateral params \<noteq> None
       then Inr (Some (ErrorDescription [Words (not_text ''You'' ''re not allowed to withdraw collateral during recovery mode.'')]))
       else if recoveryMode ctx \<and> borrowHCHF params \<noteq> None
            \<and> Trove_collateralRatioIsBelowCritical (resultingTrove ctx) (vs_price ctx)
       then Inr (Some (ErrorDescription [Words ''Your collateral ratio must be at least '', Amount ccrPercent,
         Words '' to borrow during recovery mode. Please improve your collateral ratio.'']))
       else if recoveryMode ctx \<and> borrowHCHF params \<noteq> None
            \<and> Decimal_lt (Trove_collateralRatio (resultingTrove ctx) (vs_price ctx)) (Trove_collateralRatio (originalTrove ctx) (vs_price ctx))
       then Inr (Some (ErrorDescription
         [Words (not_text ''You'' ''re not allowed to decrease your collateral ratio during recovery mode.'')]))
       else if \<not> recoveryMode ctx \<and> Trove_collateralRatioIsBelowMinimum (resultingTrove ctx) (vs_price ctx)
       then Inr (Some (ErrorDescription [Words ''Collateral ratio must be at least '', Amount mcrPercent, Words ''.'']))
       else if \<not> recoveryMode ctx \<and> wouldTriggerRecoveryMode ctx
       then Inr (Some (ErrorDescription
         [Words (not_text ''The adjustment you'' ''re trying to make would cause the Total Collateral Ratio to fall below ''),
          Amount ccrPercent, Words (not_text ''. Please increase your Trove'' ''s Collateral Ratio.'')]))
       else if repayHCHF params \<noteq> None \<and> Decimal_lt (debt (resultingTrove ctx)) (HCHF_MINIMUM_DEBT cs)
       then rbind (Decimal_toString (HCHF_MINIMUM_DEBT cs) None) (\<lambda>s.
         Inr (Some (ErrorDescription [Words ''Total debt must be at least '', coin_amount s COIN, Words ''.''])))
       else if (case repayHCHF params of Some r \<Rightarrow> Decimal_gt r (vs_hchfBalance ctx) | None \<Rightarrow> False)
       then rbind (Decimal_sub (the (repayHCHF params)) (vs_hchfBalance ctx)) (\<lambda>excess.
         rbind (pretty_amount excess COIN) (\<lambda>amount.
           Inr (Some (ErrorDescription [Words (not_text ''The amount you'' ''re trying to repay exceeds your balance by ''),
             amount, Words ''.'']))))
       else if (case depositCollateral params of Some d \<Rightarrow> Decimal_gt d (vs_accountBalance ctx) | None \<Rightarrow> False)
       then rbind (Decimal_sub (the (depositCollateral params)) (vs_accountBalance ctx)) (\<lambda>excess.
         rbind (pretty_amount excess COLLATERAL_COIN) (\<lambda>amount.
           Inr (Some (ErrorDescription [Words (not_text ''The amount you'' ''re trying to deposit exceeds your balance by ''),
             amount, Words ''.'']))))
       else Inr None))"

definition validateTroveClosure ::
  "decimal closure_params \<Rightarrow> trove_validation_context \<Rightarrow> constants \<Rightarrow> description option result" where
  "validateTroveClosure params ctx cs =
     (if vs_numberOfTroves ctx = 1
      then Inr (Some (ErrorDescription
        [Words (not_text ''You'' ''re not allowed to close your Trove when there are no other Troves in the system.'')]))
      else if recoveryMode ctx
      then Inr (Some (ErrorDescription [Words (not_text ''You'' ''re not allowed to close your Trove during recovery mode.'')]))
      else if (case close_repayHCHF params of Some r \<Rightarrow> Decimal_gt r (vs_hchfBalance ctx) | None \<Rightarrow> False)
      then rbind (Decimal_sub (the (close_repayHCHF params)) (vs_hchfBalance ctx)) (\<lambda>missing.
        rbind (pretty_amount missing COIN) (\<lambda>amount.
          Inr (Some (ErrorDescription [Words ''You need '', amount, Words '' more to close your Trove.'']))))
      else if wouldTriggerRecoveryMode ctx
      then rbind (percent_text (CRITICAL_COLLATERAL_RATIO cs)) (\<lambda>ccrPercent.
        Inr (Some (ErrorDescription
          [Words (not_text ''You'' ''re not allowed to close a Trove if it would cause the Total Collateralization Ratio to fall below ''),
           Amount ccrPercent, Words ''. Please wait until the Total Collateral Ratio increases.''])))
      else Inr None)"

definition validation_context :: "Trove.trove \<Rightarrow> Trove.trove \<Rightarrow> trove_validation_state \<Rightarrow> bool \<Rightarrow> trove_validation_context" where
  "validation_context originalTrove' resultingTrove' st connected =
     trove_validation_state.extend st \<lparr>originalTrove = originalTrove', resultingTrove = resultingTrove',
       recoveryMode = Trove_collateralRatioIsBelowCritical (vs_total st) (vs_price st),
       wouldTriggerRecoveryMode = Trove_collateralRatioIsBelowCritical
         (Trove_add (Trove_subtract (vs_total st) originalTrove') resultingTrove') (vs_price st),
       hasConnection = connected\<rparr>"

definition validateTroveChange :: "Trove.trove \<Rightarrow> Trove.trove \<Rightarrow> decimal \<Rightarrow> trove_validation_state \<Rightarrow> constants \<Rightarrow> bool
    \<Rightarrow> (trove_change option \<times> description option) result" where
  "validateTroveChange originalTrove' adjustedTrove rate st cs connected =
     rbind (Trove_whatChanged originalTrove' adjustedTrove (Some rate)) (\<lambda>change'. case change' of
       None \<Rightarrow> Inr (None, None)
     | Some change \<Rightarrow>
         rbind (Trove_apply originalTrove' (Some change) (Some rate)) (\<lambda>resultingTrove'.
         let ctx = validation_context originalTrove' resultingTrove' st connected in
         case change of
           InvalidCreation _ _ \<Rightarrow>
             rbind (Decimal_toString (HCHF_MINIMUM_DEBT cs) None) (\<lambda>s.
               Inr (None, Some (ErrorDescription [Words ''Total debt must be at least '', coin_amount s COIN, Words ''.''])))
         | _ \<Rightarrow>
             rbind (case change of
                 Creation params \<Rightarrow> validateTroveCreation params ctx cs
               | Closure params \<Rightarrow> validateTroveClosure params ctx cs
               | Adjustment params _ \<Rightarrow> validateTroveAdjustment params ctx cs
               | InvalidCreation _ _ \<Rightarrow> Inr None) (\<lambda>errorDescription. Inr (case errorDescription of
                   Some e \<Rightarrow> (None, Some e)
                 | None \<Rightarrow> (Some change, Some (TroveChangeDescription (change_params change)))))))"

section \<open>Stability deposits\<close>

record stability_validation_context =
  sv_hchfBalance :: decimal
  haveOwnFrontend :: bool
  sv_haveUndercollateralizedTroves :: bool
  sv_hasConnection :: bool

definition selectForStabilityDepositChangeValidation ::
  "base_state \<Rightarrow> derived_state \<Rightarrow> bool \<Rightarrow> stability_validation_context" where
  "selectForStabilityDepositChangeValidation b d connected = \<lparr>
     sv_hchfBalance = content (hchfBalance b),
     haveOwnFrontend = (case content (ownFrontend b) of Registered _ \<Rightarrow> True | Unregistered \<Rightarrow> False),
     sv_haveUndercollateralizedTroves = haveUndercollateralizedTroves d,
     sv_hasConnection = connected\<rparr>"

definition validateStabilityDepositChange :: "stability_deposit \<Rightarrow> decimal \<Rightarrow> stability_validation_context
    \<Rightarrow> (decimal stability_change option \<times> description option) result" where
  "validateStabilityDepositChange originalDeposit' editedLUSD ctx =
     rbind (StabilityDeposit_whatChanged originalDeposit' (DecimalObject editedLUSD)) (\<lambda>change'.
       if haveOwnFrontend ctx
       then Inr (None, Some (ErrorDescription
         [Words (''You can'' @ [CHR 0xE2, CHR 0x80, CHR 0x99] @ ''t deposit using a wallet address that is registered as a frontend.'')]))
       else case change' of
         None \<Rightarrow> Inr (None, None)
       | Some change \<Rightarrow>
           (if sv_hasConnection ctx \<and> (case change of DepositHCHF d \<Rightarrow> Decimal_gt d (sv_hchfBalance ctx) | _ \<Rightarrow> False)
            then rbind (Decimal_sub (case change of DepositHCHF d \<Rightarrow> d | WithdrawHCHF w _ \<Rightarrow> w) (sv_hchfBalance ctx)) (\<lambda>excess.
              rbind (pretty_amount excess COIN) (\<lambda>amount.
                Inr (None, Some (ErrorDescription
                  [Words (not_text ''The amount you'' ''re trying to deposit exceeds your balance by ''), amount, Words ''.'']))))
            else if (case change of WithdrawHCHF _ _ \<Rightarrow> True | _ \<Rightarrow> False) \<and> sv_haveUndercollateralizedTroves ctx
            then Inr (None, Some (ErrorDescription
              [Words (not_text ''You'' ''re not allowed to withdraw HCHF from your Stability Deposit when there are undercollateralized Troves. Please liquidate those Troves or try again later.'')]))
            else Inr (Some change, Some (Fragment (StabilityActionDescription originalDeposit' change
              # (if \<not> sv_hasConnection ctx then [WalletNotConnectedInfo] else []))))))"

section \<open>HLQT stakes\<close>

definition validate_stake_change :: "hlqt_stake \<Rightarrow> decimal \<Rightarrow> decimal \<Rightarrow> bool
    \<Rightarrow> (decimal stake_change option \<times> description option) result" where
  "validate_stake_change originalStake' editedLQTY' balance connected =
     rbind (HLQTStake_whatChanged originalStake' (DecimalObject editedLQTY')) (\<lambda>change'. case change' of
       None \<Rightarrow> Inr (None, None)
     | Some change \<Rightarrow>
         (if connected \<and> (case change of StakeHLQT s \<Rightarrow> Decimal_gt s balance | _ \<Rightarrow> False)
          then rbind (Decimal_sub (case change of StakeHLQT s \<Rightarrow> s | UnstakeHLQT u _ \<Rightarrow> u) balance) (\<lambda>excess.
            rbind (pretty_amount excess GT) (\<lambda>amount.
              Inr (None, Some (ErrorDescription
                [Words (not_text ''The amount you'' ''re trying to stake exceeds your balance by ''), amount, Words ''.'']))))
          else Inr (Some change, Some (Fragment (StakingManagerActionDescription originalStake' change
            # (if \<not> connected then [WalletNotConnectedInfo] else []))))))"

section \<open>Liquidity mining\<close>

record mine_stake_validation =
  isValid :: bool
  hasApproved :: bool
  hasEnoughUniToken :: bool
  isWithdrawing :: bool
  amountChanged :: decimal
  maximumStake :: decimal
  hasSetMaximumStake :: bool

definition useValidationState :: "decimal \<Rightarrow> decimal \<Rightarrow> decimal \<Rightarrow> decimal \<Rightarrow> mine_stake_validation result" where
  "useValidationState uniBalance uniAllowance stake' amount =
     (let withdrawing = Decimal_gt stake' amount in
      rbind (if withdrawing then Decimal_sub stake' amount else Decimal_sub amount stake') (\<lambda>changed.
      let maximum = Decimal_add stake' uniBalance;
          setMaximum = Decimal_eq amount maximum;
          approved = \<not> Decimal_isZero uniAllowance \<and> Decimal_gte uniAllowance changed;
          enough = \<not> Decimal_isZero uniBalance \<and> Decimal_gte uniBalance changed
      in Inr (if withdrawing
        then \<lparr>isValid = True, hasApproved = True, hasEnoughUniToken = True, isWithdrawing = withdrawing,
          amountChanged = changed, maximumStake = maximum, hasSetMaximumStake = setMaximum\<rparr>
        else \<lparr>isValid = approved \<and> enough, hasApproved = approved, hasEnoughUniToken = enough, isWithdrawing = withdrawing,
          amountChanged = changed, maximumStake = maximum, hasSetMaximumStake = setMaximum\<rparr>)))"

definition mine_Validation :: "mine_stake_validation \<Rightarrow> description option" where
  "mine_Validation v = (if isValid v then None
     else if \<not> hasApproved v then Some (ErrorDescription [Words (not_text ''You haven'' ''t approved enough '' @ LP)])
     else if \<not> hasEnoughUniToken v then Some (ErrorDescription [Words (not_text ''You don'' ''t have enough '' @ LP)])
     else None)"

section \<open>The texts of deposits and stakes\<close>

definition claiming_text :: "string \<Rightarrow> string option \<Rightarrow> string option \<Rightarrow> part list" where
  "claiming_text intro a b = (case (a, b) of
      (Some x, Some y) \<Rightarrow> [Words intro, Amount x, Words '' and '', Amount y]
    | (Some x, None) \<Rightarrow> [Words intro, Amount x]
    | (None, Some y) \<Rightarrow> [Words intro, Amount y]
    | (None, None) \<Rightarrow> [])"

definition gain_text :: "decimal \<Rightarrow> int \<Rightarrow> string \<Rightarrow> string option result" where
  "gain_text d precision coin = (case Decimal_nonZero d of
      None \<Rightarrow> Inr None | Some x \<Rightarrow> rbind (Decimal_prettify x precision) (\<lambda>s. Inr (Some (s @ '' '' @ coin))))"

definition StabilityActionDescription_text :: "stability_deposit \<Rightarrow> decimal stability_change \<Rightarrow> part list result" where
  "StabilityActionDescription_text original' change =
     rbind (gain_text (sd_collateralGain original') 4 COLLATERAL_COIN) (\<lambda>collateralGain.
     rbind (gain_text (hlqtReward original') 2 GT) (\<lambda>reward.
     rbind (case change of
         DepositHCHF d \<Rightarrow> rbind (pretty_amount d COIN) (\<lambda>a.
           Inr [Words ''You are depositing '', a, Words '' in the Stability Pool''])
       | WithdrawHCHF w _ \<Rightarrow> rbind (pretty_amount w COIN) (\<lambda>a.
           Inr [Words ''You are withdrawing '', a, Words '' to your wallet''])) (\<lambda>moved.
       Inr (moved @ claiming_text '' and claiming at least '' collateralGain reward @ [Words ''.'']))))"

definition StakingManagerActionDescription_text :: "hlqt_stake \<Rightarrow> decimal stake_change \<Rightarrow> part list result" where
  "StakingManagerActionDescription_text original' change =
     rbind (gain_text (hs_collateralGain original') 4 COLLATERAL_COIN) (\<lambda>collateralGain.
     rbind (gain_text (hchfGain original') 2 COIN) (\<lambda>gain.
     case change of
       StakeHLQT x \<Rightarrow> rbind (pretty_amount x GT) (\<lambda>a.
         Inr (if HLQTStake_isEmpty original' then [Words ''You are staking '', a, Words ''.'']
              else [Words ''You are adding '', a, Words '' to your stake'']
                @ claiming_text '' and claiming '' collateralGain gain @ [Words ''.'']))
     | UnstakeHLQT x _ \<Rightarrow> rbind (pretty_amount x GT) (\<lambda>a.
         Inr ([Words ''You are withdrawing '', a, Words '' to your wallet'']
                @ claiming_text '' and claiming '' collateralGain gain @ [Words ''.'']))))"

section \<open>What validation permits\<close>

text \<open>Texts can always be produced.\<close>

lemma Decimal_toString_total: "(case precision of Some p \<Rightarrow> 0 \<le> p | None \<Rightarrow> True) \<Longrightarrow> \<exists>s. Decimal_toString d precision = Inr s"
  by (auto simp: Decimal_toString_def toStringWithPrecision_def Let_def split: option.splits)

lemma Decimal_prettify_total: "0 \<le> p \<Longrightarrow> \<exists>s. Decimal_prettify d p = Inr s"
  using Decimal_toString_total [of "Some p" d] by (auto simp: Decimal_prettify_def Let_def)

lemma texts_total [simp]:
  "\<exists>s. Decimal_toString d None = Inr s" "\<exists>a. pretty_amount d coin = Inr a" "\<exists>s. percent_text d = Inr s"
proof -
  show "\<exists>s. Decimal_toString d None = Inr s" using Decimal_toString_total [of None d] by simp
  show "\<exists>a. pretty_amount d coin = Inr a" using Decimal_prettify_total [of 2 d] by (auto simp: pretty_amount_def)
  show "\<exists>s. percent_text d = Inr s"
  proof (cases "percent_ratio (new_Percent (DecimalRatio d))")
    case (DecimalRatio x)
    then show ?thesis using Decimal_toString_total [of "Some 0" x] by (auto simp: percent_text_def Percent_toString_def)
  next
    case (DifferenceRatio x)
    then show ?thesis by (simp add: new_Percent_def split: if_splits)
  qed
qed

text \<open>The rules of the protocol that the front end checks, for each kind of change.\<close>

definition within_ratios :: "trove_validation_context \<Rightarrow> bool" where
  "within_ratios ctx \<longleftrightarrow> \<not> Trove_collateralRatioIsBelowMinimum (resultingTrove ctx) (vs_price ctx) \<and> \<not> wouldTriggerRecoveryMode ctx"

fun permitted :: "constants \<Rightarrow> trove_validation_context \<Rightarrow> trove_change \<Rightarrow> bool" where
  "permitted cs ctx (InvalidCreation _ _) \<longleftrightarrow> False"
| "permitted cs ctx (Creation p) \<longleftrightarrow> HCHF_MINIMUM_NET_DEBT cs \<le> create_borrowHCHF p \<and> hasConnection ctx
     \<and> create_depositCollateral p \<le> vs_accountBalance ctx
     \<and> (if recoveryMode ctx then \<not> Trove_collateralRatioIsBelowCritical (resultingTrove ctx) (vs_price ctx) else within_ratios ctx)"
| "permitted cs ctx (Adjustment p _) \<longleftrightarrow>
     (\<forall>r. repayHCHF p = Some r \<longrightarrow> HCHF_MINIMUM_DEBT cs \<le> debt (resultingTrove ctx) \<and> r \<le> vs_hchfBalance ctx)
     \<and> (\<forall>d. depositCollateral p = Some d \<longrightarrow> d \<le> vs_accountBalance ctx)
     \<and> (if recoveryMode ctx
        then withdrawCollateral p = None \<and> (borrowHCHF p = None
          \<or> \<not> Trove_collateralRatioIsBelowCritical (resultingTrove ctx) (vs_price ctx)
            \<and> Trove_collateralRatio (originalTrove ctx) (vs_price ctx) \<le> Trove_collateralRatio (resultingTrove ctx) (vs_price ctx))
        else within_ratios ctx)"
| "permitted cs ctx (Closure p) \<longleftrightarrow> vs_numberOfTroves ctx \<noteq> 1 \<and> \<not> recoveryMode ctx \<and> \<not> wouldTriggerRecoveryMode ctx
     \<and> (\<forall>r. close_repayHCHF p = Some r \<longrightarrow> r \<le> vs_hchfBalance ctx)"

lemma validateTroveCreation_iff:
  "\<exists>x. validateTroveCreation p ctx cs = Inr x \<and> (x = None \<longleftrightarrow> permitted cs ctx (Creation p))"
proof -
  obtain s where s: "Decimal_toString (HCHF_MINIMUM_NET_DEBT cs) None = Inr s" using texts_total(1) by blast
  obtain c m where pc: "percent_text (CRITICAL_COLLATERAL_RATIO cs) = Inr c" "percent_text (MINIMUM_COLLATERAL_RATIO cs) = Inr m"
    using texts_total(3) by metis
  obtain a where a: "pretty_amount (Decimal (bigNumber (create_depositCollateral p) - bigNumber (vs_accountBalance ctx))) COLLATERAL_COIN = Inr a"
    using texts_total(2) by blast
  show ?thesis
    by (auto simp: validateTroveCreation_def s pc a Decimal_sub_ok within_ratios_def Trove_isOpenableInRecoveryMode_def
        Trove_collateralRatioIsBelowCritical_def)
qed

lemma validateTroveClosure_iff:
  "\<exists>x. validateTroveClosure p ctx cs = Inr x \<and> (x = None \<longleftrightarrow> permitted cs ctx (Closure p))"
proof -
  obtain c where pc: "percent_text (CRITICAL_COLLATERAL_RATIO cs) = Inr c" using texts_total(3) by metis
  obtain a where a: "pretty_amount (Decimal (bigNumber (the (close_repayHCHF p)) - bigNumber (vs_hchfBalance ctx))) COIN = Inr a"
    using texts_total(2) by blast
  show ?thesis
    using a by (cases "close_repayHCHF p") (auto simp: validateTroveClosure_def pc Decimal_sub_ok)
qed

lemma validateTroveAdjustment_iff:
  "\<exists>x. validateTroveAdjustment p ctx cs = Inr x \<and> (x = None \<longleftrightarrow> permitted cs ctx (Adjustment p z))"
proof -
  obtain s where s: "Decimal_toString (HCHF_MINIMUM_DEBT cs) None = Inr s" using texts_total(1) by blast
  obtain c m where pc: "percent_text (CRITICAL_COLLATERAL_RATIO cs) = Inr c" "percent_text (MINIMUM_COLLATERAL_RATIO cs) = Inr m"
    using texts_total(3) by metis
  obtain a b where a: "pretty_amount (Decimal (bigNumber (the (repayHCHF p)) - bigNumber (vs_hchfBalance ctx))) COIN = Inr a"
    and b: "pretty_amount (Decimal (bigNumber (the (depositCollateral p)) - bigNumber (vs_accountBalance ctx))) COLLATERAL_COIN = Inr b"
    using texts_total(2) by metis
  show ?thesis
    using a b by (cases "repayHCHF p"; cases "depositCollateral p"; cases "recoveryMode ctx")
      (auto simp: validateTroveAdjustment_def s pc Decimal_sub_ok within_ratios_def not_less)
qed

lemma validateTroveChange_cases:
  assumes "trove_constants t = trove_constants u"
  shows "case Trove_whatChanged t u (Some rate) of
      Inl e \<Rightarrow> validateTroveChange t u rate st cs connected = Inl e
    | Inr None \<Rightarrow> validateTroveChange t u rate st cs connected = Inr (None, None)
    | Inr (Some c) \<Rightarrow> \<exists>r. Trove_apply t (Some c) (Some rate) = Inr r \<and> reaches rate t u r
        \<and> (\<exists>d. validateTroveChange t u rate st cs connected =
             Inr (if permitted cs (validation_context t r st connected) c then Some c else None, Some d))"
proof (cases "Trove_whatChanged t u (Some rate)")
  case (Inl e)
  then show ?thesis by (simp add: validateTroveChange_def)
next
  case (Inr change)
  show ?thesis
  proof (cases change)
    case None
    then show ?thesis using Inr by (simp add: validateTroveChange_def)
  next
    case (Some c)
    obtain r where r: "Trove_apply t (Some c) (Some rate) = Inr r" "reaches rate t u r"
      using apply_whatChanged_reaches [OF assms Inr] Some by (auto simp: rate_or_default_def)
    let ?ctx = "validation_context t r st connected"
    obtain s where s: "Decimal_toString (HCHF_MINIMUM_DEBT cs) None = Inr s" using texts_total(1) by blast
    have "\<exists>d. validateTroveChange t u rate st cs connected = Inr (if permitted cs ?ctx c then Some c else None, Some d)"
    proof (cases c)
      case (InvalidCreation v e)
      then show ?thesis using Inr Some r s by (simp add: validateTroveChange_def)
    next
      case (Creation p)
      then show ?thesis using Inr Some r validateTroveCreation_iff [of p ?ctx cs]
        by (auto simp: validateTroveChange_def Let_def)
    next
      case (Closure p)
      then show ?thesis using Inr Some r validateTroveClosure_iff [of p ?ctx cs]
        by (auto simp: validateTroveChange_def Let_def)
    next
      case (Adjustment p z)
      then show ?thesis using Inr Some r validateTroveAdjustment_iff [of p ?ctx cs z]
        by (auto simp: validateTroveChange_def Let_def)
    qed
    then show ?thesis using Inr Some r by auto
  qed
qed

text \<open>
  The validation of trove changes lets through exactly the changes that the rules permit, judged by the trove that
  applying the change really leads to, and throws only if the change itself cannot be computed.
\<close>

theorem validateTroveChange_permits:
  assumes "trove_constants t = trove_constants u"
  shows "((\<exists>d. validateTroveChange t u rate st cs connected = Inr (Some c, d)) \<longleftrightarrow>
      (\<exists>r. Trove_whatChanged t u (Some rate) = Inr (Some c) \<and> Trove_apply t (Some c) (Some rate) = Inr r
         \<and> permitted cs (validation_context t r st connected) c))
    \<and> (validateTroveChange t u rate st cs connected = Inl e \<longleftrightarrow> Trove_whatChanged t u (Some rate) = Inl e)"
proof (cases "Trove_whatChanged t u (Some rate)")
  case (Inr change)
  then show ?thesis
    using validateTroveChange_cases [OF assms, of rate st cs connected] by (cases change) (auto split: if_splits)
qed (use validateTroveChange_cases [OF assms, of rate st cs connected] in auto)

lemma whatChanged_closure: "Trove_whatChanged t u rate = Inr (Some (Closure p)) \<Longrightarrow> Trove_isEmpty u \<and> \<not> Trove_isEmpty t"
  by (auto simp: Trove_whatChanged_def Let_def rbind_eq_Inr_iff split: if_splits)

lemma whatChanged_creation: "Trove_whatChanged t u rate = Inr (Some (Creation p)) \<Longrightarrow> Trove_isEmpty t"
  by (auto simp: Trove_whatChanged_def Let_def rbind_eq_Inr_iff split: if_splits)

lemma whatChanged_adjustment:
  assumes "Trove_whatChanged t u rate = Inr (Some (Adjustment p z))"
  shows "\<not> Trove_isEmpty t" and "\<not> Trove_isEmpty u"
    and "withdrawCollateral p = None \<Longrightarrow> collateral t \<le> collateral u"
    and "borrowHCHF p = None \<Longrightarrow> debt u \<le> debt t"
    and "borrowHCHF p = None \<Longrightarrow> repayHCHF p = None \<Longrightarrow> debt u = debt t"
  using assms by (auto simp: Trove_whatChanged_def Let_def rbind_eq_Inr_iff adjustment_of_def Trove_debtChange_eq
      Trove_collateralChange_eq split: if_splits)

lemma collateralRatio_antimono:
  assumes "collateral t \<le> collateral u" and "debt u \<le> debt t" and "debt u = Decimal_ZERO \<longrightarrow> debt t = Decimal_ZERO"
  shows "Trove_collateralRatio t x \<le> Trove_collateralRatio u x"
proof (cases "debt u = Decimal_ZERO")
  case False
  then have pos: "0 < bigNumber (debt u)" by (cases "debt u") (simp add: Decimal_ZERO_def)
  have "bigNumber (collateral t) * bigNumber x div bigNumber (debt t)
      \<le> bigNumber (collateral u) * bigNumber x div bigNumber (debt u)"
    using assms(1,2) pos by (meson div_le_mono div_le_mono2 le_trans less_eq_decimal_def mult_le_mono1)
  then show ?thesis
    using False pos assms by (auto simp: Trove_collateralRatio_def Decimal_mulDiv_def less_eq_decimal_def Decimal_ZERO_def)
qed (use assms in \<open>simp add: Trove_collateralRatio_def\<close>)

lemma accepted_in_normal_mode:
  assumes "permitted cs (validation_context t r st connected) c" and "Trove_whatChanged t u (Some rate) = Inr (Some c)"
    and "\<not> Trove_collateralRatioIsBelowCritical (vs_total st) (vs_price st)" and "reaches rate t u r"
  shows "\<not> Trove_collateralRatioIsBelowCritical (Trove_add (Trove_subtract (vs_total st) t) r) (vs_price st)"
    and "\<not> Trove_isEmpty u \<Longrightarrow> \<not> Trove_collateralRatioIsBelowMinimum r (vs_price st)"
    and "debt u \<noteq> Decimal_ZERO \<Longrightarrow> \<not> Trove_collateralRatioIsBelowMinimum u (vs_price st)"
proof -
  note ctx = validation_context_def trove_validation_state.extend_def
  show "\<not> Trove_collateralRatioIsBelowCritical (Trove_add (Trove_subtract (vs_total st) t) r) (vs_price st)"
    using assms(1,3) by (cases c) (simp_all add: ctx within_ratios_def)
  show r: "\<not> Trove_collateralRatioIsBelowMinimum r (vs_price st)" if "\<not> Trove_isEmpty u"
    using assms that whatChanged_closure [of t u "Some rate"] by (cases c) (auto simp: ctx within_ratios_def)
  show "\<not> Trove_collateralRatioIsBelowMinimum u (vs_price st)" if "debt u \<noteq> Decimal_ZERO"
  proof -
    have "Trove_collateralRatio r (vs_price st) \<le> Trove_collateralRatio u (vs_price st)"
      using assms(4) that by (intro collateralRatio_antimono) (auto simp: reaches_def)
    moreover have "\<not> Trove_collateralRatioIsBelowMinimum r (vs_price st)" using r that by (auto simp: Trove_isEmpty_def)
    ultimately show ?thesis
      using assms(4) by (auto simp: Trove_collateralRatioIsBelowMinimum_def reaches_def not_less)
  qed
qed

lemma accepted_in_recovery_mode:
  assumes perm: "permitted cs (validation_context t r st connected) c" and change: "Trove_whatChanged t u (Some rate) = Inr (Some c)"
    and "Trove_collateralRatioIsBelowCritical (vs_total st) (vs_price st)" and reach: "reaches rate t u r"
    and "HCHF_MINIMUM_DEBT cs \<noteq> Decimal_ZERO"
  shows "if Trove_isEmpty t then \<not> Trove_collateralRatioIsBelowCritical r (vs_price st)
    else Trove_collateralRatio t (vs_price st) \<le> Trove_collateralRatio r (vs_price st)"
proof (cases c)
  case (Creation p)
  then show ?thesis
    using assms whatChanged_creation [of t u "Some rate" p]
    by (auto simp: validation_context_def trove_validation_state.extend_def)
next
  case (Adjustment p z)
  note adj = whatChanged_adjustment [OF change [unfolded Adjustment]]
  have rules: "withdrawCollateral p = None" "repayHCHF p \<noteq> None \<Longrightarrow> HCHF_MINIMUM_DEBT cs \<le> debt r"
    "borrowHCHF p = None \<or> Trove_collateralRatio t (vs_price st) \<le> Trove_collateralRatio r (vs_price st)"
    using perm assms(3) Adjustment by (auto simp: validation_context_def trove_validation_state.extend_def)
  have "Trove_collateralRatio t (vs_price st) \<le> Trove_collateralRatio r (vs_price st)" if "borrowHCHF p = None"
  proof (rule collateralRatio_antimono)
    show "collateral t \<le> collateral r" using adj(3) rules(1) reach by (simp add: reaches_def)
    show "debt r \<le> debt t" using adj(4) that reach by (simp add: reaches_def)
    show "debt r = Decimal_ZERO \<longrightarrow> debt t = Decimal_ZERO"
      using adj(5) [OF that] rules(2) reach adj(4) [OF that] assms(5) Decimal_ZERO_le [of "HCHF_MINIMUM_DEBT cs"]
      by (cases "repayHCHF p") (auto simp: reaches_def intro: antisym)
  qed
  then show ?thesis using rules(3) adj(1) by auto
qed (use assms in \<open>auto simp: validation_context_def trove_validation_state.extend_def\<close>)

text \<open>
  C30. What validation lets through is safe. In normal mode, the resulting trove and the trove that the user entered are at
  or above the minimum ratio, and the system does not enter recovery mode. In recovery mode, nothing is closed, a new trove
  is at or above the critical ratio, and no adjustment lowers the collateral ratio of a trove.
\<close>

theorem validated_trove_is_safe:
  assumes "trove_constants t = trove_constants u" and "validateTroveChange t u rate st cs connected = Inr (Some c, d)"
    and "HCHF_MINIMUM_DEBT cs \<noteq> Decimal_ZERO"
  shows "\<exists>r. Trove_apply t (Some c) (Some rate) = Inr r \<and> reaches rate t u r \<and>
    (if \<not> Trove_collateralRatioIsBelowCritical (vs_total st) (vs_price st)
     then \<not> Trove_collateralRatioIsBelowCritical (Trove_add (Trove_subtract (vs_total st) t) r) (vs_price st)
       \<and> (Trove_isEmpty u \<or> \<not> Trove_collateralRatioIsBelowMinimum r (vs_price st))
       \<and> (debt u = Decimal_ZERO \<or> \<not> Trove_collateralRatioIsBelowMinimum u (vs_price st))
     else \<not> Trove_isEmpty u \<and>
       (if Trove_isEmpty t then \<not> Trove_collateralRatioIsBelowCritical r (vs_price st)
        else Trove_collateralRatio t (vs_price st) \<le> Trove_collateralRatio r (vs_price st)))"
proof -
  obtain r where r: "Trove_whatChanged t u (Some rate) = Inr (Some c)" "Trove_apply t (Some c) (Some rate) = Inr r"
    "permitted cs (validation_context t r st connected) c" "reaches rate t u r"
    using validateTroveChange_cases [OF assms(1), of rate st cs connected] assms(2)
    by (cases "Trove_whatChanged t u (Some rate)") (auto split: option.splits if_splits)
  have "\<not> Trove_isEmpty u" if recovery: "Trove_collateralRatioIsBelowCritical (vs_total st) (vs_price st)"
  proof
    assume "Trove_isEmpty u"
    then have "\<exists>p. c = Closure p"
      using r(1) by (auto simp: Trove_whatChanged_def Let_def Trove_isEmpty_def rbind_eq_Inr_iff split: if_splits)
    then show False using r(3) recovery by (auto simp: validation_context_def trove_validation_state.extend_def)
  qed
  then show ?thesis
    using r accepted_in_normal_mode [OF r(3,1) _ r(4)] accepted_in_recovery_mode [OF r(3,1) _ r(4) assms(3)]
    by (auto split: if_splits)
qed

lemma validateStabilityDepositChange_iff:
  "(\<exists>x. validateStabilityDepositChange sd e ctx = Inr x) \<and>
   ((\<exists>d. validateStabilityDepositChange sd e ctx = Inr (Some c, d)) \<longleftrightarrow>
     StabilityDeposit_whatChanged sd (DecimalObject e) = Inr (Some c) \<and> \<not> haveOwnFrontend ctx \<and>
     (case c of DepositHCHF x \<Rightarrow> sv_hasConnection ctx \<longrightarrow> x \<le> sv_hchfBalance ctx
      | WithdrawHCHF _ _ \<Rightarrow> \<not> sv_haveUndercollateralizedTroves ctx))"
proof -
  obtain ch where ch: "StabilityDeposit_whatChanged sd (DecimalObject e) = Inr ch"
    using stability.app_what [of "DecimalObject e" e sd] by auto
  show ?thesis
  proof (cases ch)
    case None
    then show ?thesis using ch by (simp add: validateStabilityDepositChange_def)
  next
    case (Some x)
    show ?thesis
    proof (cases x)
      case (DepositHCHF d)
      obtain a where "pretty_amount (Decimal (bigNumber d - bigNumber (sv_hchfBalance ctx))) COIN = Inr a"
        using texts_total(2) by blast
      then show ?thesis using ch Some DepositHCHF
        by (cases "haveOwnFrontend ctx"; cases "sv_hasConnection ctx"; cases "d \<le> sv_hchfBalance ctx")
          (auto simp: validateStabilityDepositChange_def Decimal_sub_ok)
    next
      case (WithdrawHCHF w f)
      then show ?thesis using ch Some by (auto simp: validateStabilityDepositChange_def)
    qed
  qed
qed

lemma validate_stake_change_iff:
  "(\<exists>x. validate_stake_change hs e balance connected = Inr x) \<and>
   ((\<exists>d. validate_stake_change hs e balance connected = Inr (Some k, d)) \<longleftrightarrow>
     HLQTStake_whatChanged hs (DecimalObject e) = Inr (Some k) \<and>
     (case k of StakeHLQT x \<Rightarrow> connected \<longrightarrow> x \<le> balance | UnstakeHLQT _ _ \<Rightarrow> True))"
proof -
  obtain ch where ch: "HLQTStake_whatChanged hs (DecimalObject e) = Inr ch"
    using staking.app_what [of "DecimalObject e" e hs] by auto
  show ?thesis
  proof (cases ch)
    case None
    then show ?thesis using ch by (simp add: validate_stake_change_def)
  next
    case (Some x)
    show ?thesis
    proof (cases x)
      case (StakeHLQT d)
      obtain a where "pretty_amount (Decimal (bigNumber d - bigNumber balance)) GT = Inr a" using texts_total(2) by blast
      then show ?thesis using ch Some StakeHLQT
        by (cases connected; cases "d \<le> balance") (auto simp: validate_stake_change_def Decimal_sub_ok)
    next
      case (UnstakeHLQT w f)
      then show ?thesis using ch Some by (auto simp: validate_stake_change_def)
    qed
  qed
qed

lemma useValidationState_iff:
  "\<exists>v. useValidationState balance allowance m e = Inr v
     \<and> (isValid v \<longleftrightarrow> e < m \<or> balance \<noteq> Decimal_ZERO \<and> allowance \<noteq> Decimal_ZERO
          \<and> e \<le> Decimal_add m balance \<and> e \<le> Decimal_add m allowance)
     \<and> (isValid v \<longleftrightarrow> mine_Validation v = None)"
proof (cases "e < m")
  case True
  then show ?thesis by (auto simp: useValidationState_def Let_def Decimal_sub_ok mine_Validation_def)
next
  case False
  then have "Decimal_sub e m = Inr (Decimal (bigNumber e - bigNumber m))" by (simp add: Decimal_sub_ok)
  then show ?thesis using False by (auto simp: useValidationState_def Let_def mine_Validation_def less_eq_decimal_def)
qed

text \<open>
  Deposits and stakes: the validations never throw and let a change through exactly if it is one, the account is not
  registered as a front end, what is paid in is covered by the balance (as far as a wallet is connected), and, for
  withdrawals from the stability pool, no trove is undercollateralised. A stake for liquidity mining is valid exactly if
  it is a withdrawal, or allowance and balance are not zero and cover what is added.
\<close>

theorem deposit_validations_permit:
  "(\<exists>x. validateStabilityDepositChange sd e ctx = Inr x)
   \<and> ((\<exists>d. validateStabilityDepositChange sd e ctx = Inr (Some c, d)) \<longleftrightarrow>
     StabilityDeposit_whatChanged sd (DecimalObject e) = Inr (Some c) \<and> \<not> haveOwnFrontend ctx \<and>
     (case c of DepositHCHF x \<Rightarrow> sv_hasConnection ctx \<longrightarrow> x \<le> sv_hchfBalance ctx
      | WithdrawHCHF _ _ \<Rightarrow> \<not> sv_haveUndercollateralizedTroves ctx))
   \<and> (\<exists>x. validate_stake_change hs e balance connected = Inr x)
   \<and> ((\<exists>d. validate_stake_change hs e balance connected = Inr (Some k, d)) \<longleftrightarrow>
     HLQTStake_whatChanged hs (DecimalObject e) = Inr (Some k) \<and>
     (case k of StakeHLQT x \<Rightarrow> connected \<longrightarrow> x \<le> balance | UnstakeHLQT _ _ \<Rightarrow> True))
   \<and> (\<exists>v. useValidationState balance allowance m e = Inr v
       \<and> (isValid v \<longleftrightarrow> e < m \<or> balance \<noteq> Decimal_ZERO \<and> allowance \<noteq> Decimal_ZERO
            \<and> e \<le> Decimal_add m balance \<and> e \<le> Decimal_add m allowance)
       \<and> (isValid v \<longleftrightarrow> mine_Validation v = None))"
  by (intro conjI validateStabilityDepositChange_iff [THEN conjunct1] validateStabilityDepositChange_iff [THEN conjunct2]
      validate_stake_change_iff [THEN conjunct1] validate_stake_change_iff [THEN conjunct2] useValidationState_iff)

section \<open>Samples\<close>

definition sample_validation :: trove_validation_state where
  "sample_validation = \<lparr>vs_price = Decimal_ONE, vs_total = new_Trove defaults (Decimal 100000000000000) (Decimal 3000000000000),
     vs_accountBalance = Decimal 0, vs_hchfBalance = Decimal 0, vs_numberOfTroves = 3\<rparr>"

definition sample_change :: trove_change where
  "sample_change = Adjustment (adjustment_of (Some (WithdrawCollateral (Decimal 100000000000)))
     (Some (BorrowHCHF (Decimal 49751243789)))) None"

definition sample_result :: Trove.trove where
  "sample_result = new_Trove defaults (Decimal 900000000000) (Decimal 250000000007)"

lemma sample_change_computed:
  "Trove_whatChanged sample_trove sample_target (Some (Decimal 500000)) = Inr (Some sample_change)"
  by (simp add: Trove_whatChanged_def sample_trove_def sample_target_def sample_change_def Trove_isEmpty_def
      Trove_debtChange_eq Trove_collateralChange_eq rate_or_default_def unapplyFee_def
      Decimal_divCeil_def Decimal_add_def decimal_unfold)

lemma sample_change_applied:
  "Trove_apply sample_trove (Some sample_change) (Some (Decimal 500000)) = Inr sample_result"
  by (simp add: Trove_apply_def sample_trove_def sample_change_def sample_result_def apply_adjustment_def adjustment_of_def
      rate_or_default_def applyFee_def trove_ops sub_or_zero_eq Decimal_add_def Decimal_mul_def decimal_unfold)

lemma sample_change_permitted: "permitted defaults (validation_context sample_trove sample_result sample_validation True) sample_change"
  by (simp add: sample_change_def sample_result_def sample_trove_def sample_validation_def validation_context_def
      trove_validation_state.extend_def within_ratios_def Trove_collateralRatioIsBelowMinimum_def adjustment_of_def
      Trove_collateralRatioIsBelowCritical_def Trove_collateralRatio_def Decimal_mulDiv_def trove_ops sub_or_zero_eq
      Decimal_add_def defaults_def decimal_unfold)

lemma sample_change_validated:
  "\<exists>d. validateTroveChange sample_trove sample_target (Decimal 500000) sample_validation defaults True = Inr (Some sample_change, Some d)"
  using validateTroveChange_cases [of sample_trove sample_target "Decimal 500000" sample_validation defaults True]
    sample_change_computed sample_change_applied sample_change_permitted
  by (auto simp: sample_trove_def sample_target_def)

theorem validateTroveChange_permits_witness:
  "(\<exists>d. validateTroveChange sample_trove sample_target (Decimal 500000) sample_validation defaults True = Inr (Some sample_change, d))
   \<and> validateTroveChange sample_trove sample_target (Decimal 500000) sample_validation defaults True \<noteq> Inl AssertionError"
proof -
  have "trove_constants sample_trove = trove_constants sample_target" by (simp add: sample_trove_def sample_target_def)
  from validateTroveChange_permits [OF this, of "Decimal 500000" sample_validation defaults True sample_change AssertionError]
  show ?thesis using sample_change_computed sample_change_applied sample_change_permitted by simp
qed

theorem validated_trove_is_safe_witness:
  "\<exists>r. Trove_apply sample_trove (Some sample_change) (Some (Decimal 500000)) = Inr r
     \<and> reaches (Decimal 500000) sample_trove sample_target r
     \<and> \<not> Trove_collateralRatioIsBelowMinimum r (vs_price sample_validation)
     \<and> \<not> Trove_collateralRatioIsBelowCritical (Trove_add (Trove_subtract (vs_total sample_validation) sample_trove) r) (vs_price sample_validation)"
proof -
  obtain d where d: "validateTroveChange sample_trove sample_target (Decimal 500000) sample_validation defaults True = Inr (Some sample_change, d)"
    using sample_change_validated by blast
  have same: "trove_constants sample_trove = trove_constants sample_target" by (simp add: sample_trove_def sample_target_def)
  have debt: "HCHF_MINIMUM_DEBT defaults \<noteq> Decimal_ZERO" by (simp add: defaults_def Decimal_add_def decimal_unfold)
  have mode: "\<not> Trove_collateralRatioIsBelowCritical (vs_total sample_validation) (vs_price sample_validation)" "\<not> Trove_isEmpty sample_target"
    by (simp_all add: sample_validation_def sample_target_def Trove_isEmpty_def Trove_collateralRatioIsBelowCritical_def
        Trove_collateralRatio_def Decimal_mulDiv_def defaults_def decimal_unfold)
  show ?thesis using validated_trove_is_safe [OF same d debt] mode by auto
qed

theorem deposit_validations_permit_witness:
  "(\<exists>d. validateStabilityDepositChange empty_StabilityDeposit (Decimal 7) \<lparr>sv_hchfBalance = Decimal 7, haveOwnFrontend = False,
        sv_haveUndercollateralizedTroves = True, sv_hasConnection = True\<rparr> = Inr (Some (DepositHCHF (Decimal 7)), d))
   \<and> (\<exists>d. validate_stake_change empty_HLQTStake (Decimal 7) (Decimal 9) True = Inr (Some (StakeHLQT (Decimal 7)), d))
   \<and> (\<exists>v. useValidationState (Decimal 9) (Decimal 8) (Decimal 0) (Decimal 7) = Inr v \<and> isValid v)"
proof -
  have "StabilityDeposit_whatChanged empty_StabilityDeposit (DecimalObject (Decimal 7)) = Inr (Some (DepositHCHF (Decimal 7)))"
    "HLQTStake_whatChanged empty_HLQTStake (DecimalObject (Decimal 7)) = Inr (Some (StakeHLQT (Decimal 7)))"
    by (simp_all add: StabilityDeposit_whatChanged_def HLQTStake_whatChanged_def empty_StabilityDeposit_def
        empty_HLQTStake_def new_HLQTStake_def Decimal_sub_ok decimal_unfold)
  then show ?thesis
    using deposit_validations_permit [of empty_StabilityDeposit "Decimal 7" "\<lparr>sv_hchfBalance = Decimal 7, haveOwnFrontend = False,
        sv_haveUndercollateralizedTroves = True, sv_hasConnection = True\<rparr>" "DepositHCHF (Decimal 7)" empty_HLQTStake
        "Decimal 9" True "StakeHLQT (Decimal 7)" "Decimal 8" "Decimal 0"]
    by (simp add: decimal_unfold) blast
qed

end
