(* ===== verification/Frontend_Editors.thy ===== *)
theory Frontend_Editors
  imports Trove_Transactions Store
begin

text \<open>
  The reducers behind the editing panels of the front end (\<^verbatim>\<open>packages/dev-frontend/src/components\<close>): the trove manager,
  the stability deposit manager, the staking manager and the staking view. Each keeps the original from the store and
  what the user has edited, and rebases the edit when the store changes. A store update is the action with the parts of
  \<^verbatim>\<open>LiquityStoreUpdate\<close> that the reducer destructures, a partial state change being \<open>None\<close> if the field did not change.
\<close>

section \<open>The trove manager\<close>

record trove_manager =
  original :: user_trove
  edited :: Trove.trove
  changePending :: bool
  debtDirty :: bool
  addedMinimumDebt :: bool

datatype trove_manager_action =
    StartChange | FinishChange | Revert | AddMinimumDebt | RemoveMinimumDebt
  | SetCollateral decimalish | SetDebt decimalish
  | UpdateTrove user_trove bool

definition TroveManager_getInitializer :: "constants \<Rightarrow> user_trove \<Rightarrow> trove_manager" where
  "TroveManager_getInitializer constants' trove' = \<lparr>original = trove',
     edited = new_Trove constants' (collateral trove') (debt trove'),
     changePending = False, debtDirty = False, addedMinimumDebt = False\<rparr>"

definition TroveManager_finishChange :: "trove_manager \<Rightarrow> trove_manager" where
  "TroveManager_finishChange state = state\<lparr>changePending := False\<rparr>"

definition TroveManager_addMinimumDebt :: "constants \<Rightarrow> trove_manager \<Rightarrow> trove_manager" where
  "TroveManager_addMinimumDebt constants' state = state\<lparr>
     edited := Trove_setDebt (edited state) (HCHF_MINIMUM_DEBT constants'), addedMinimumDebt := True\<rparr>"

definition TroveManager_removeMinimumDebt :: "trove_manager \<Rightarrow> trove_manager" where
  "TroveManager_removeMinimumDebt state = state\<lparr>
     edited := Trove_setDebt (edited state) Decimal_ZERO, addedMinimumDebt := False\<rparr>"

definition TroveManager_revert :: "constants \<Rightarrow> trove_manager \<Rightarrow> trove_manager" where
  "TroveManager_revert constants' state = state\<lparr>
     edited := new_Trove constants' (collateral (original state)) (debt (original state)),
     debtDirty := False, addedMinimumDebt := False\<rparr>"

definition TroveManager_setCollateral :: "constants \<Rightarrow> trove_manager \<Rightarrow> decimalish \<Rightarrow> trove_manager result" where
  "TroveManager_setCollateral constants' state newValue =
     rbind (Decimal_from newValue) (\<lambda>newCollateral.
       let newState = state\<lparr>edited := Trove_setCollateral (edited state) newCollateral\<rparr> in
       Inr (if \<not> debtDirty state then
              (if Trove_isEmpty (edited state) \<and> Decimal_nonZero newCollateral \<noteq> None
               then TroveManager_addMinimumDebt constants' newState
               else if addedMinimumDebt state \<and> Decimal_isZero newCollateral
               then TroveManager_removeMinimumDebt newState
               else newState)
            else newState))"

definition TroveManager_updateStore :: "constants \<Rightarrow> trove_manager \<Rightarrow> user_trove \<Rightarrow> bool \<Rightarrow> trove_manager result" where
  "TroveManager_updateStore constants' state trove' changeCommitted =
     (let newState = state\<lparr>original := trove'\<rparr> in
      if changePending state \<and> changeCommitted
      then Inr (TroveManager_finishChange (TroveManager_revert constants' newState))
      else rbind (Trove_whatChanged (trove.truncate (original state)) (edited state) (Some Decimal_ZERO)) (\<lambda>change.
        if (case change of Some (Creation _) \<Rightarrow> \<not> Trove_isEmpty trove' | Some (Closure _) \<Rightarrow> Trove_isEmpty trove' | _ \<Rightarrow> False)
        then Inr (TroveManager_revert constants' newState)
        else rbind (Trove_apply (trove.truncate trove') change (Some Decimal_ZERO)) (\<lambda>edited'.
          Inr (newState\<lparr>edited := edited'\<rparr>))))"

fun TroveManager_reduce :: "constants \<Rightarrow> trove_manager \<Rightarrow> trove_manager_action \<Rightarrow> trove_manager result" where
  "TroveManager_reduce constants' state StartChange = Inr (state\<lparr>changePending := True\<rparr>)"
| "TroveManager_reduce constants' state FinishChange = Inr (TroveManager_finishChange state)"
| "TroveManager_reduce constants' state (SetCollateral newValue) = TroveManager_setCollateral constants' state newValue"
| "TroveManager_reduce constants' state (SetDebt newValue) =
     rbind (Decimal_from newValue) (\<lambda>d. Inr (state\<lparr>edited := Trove_setDebt (edited state) d, debtDirty := True\<rparr>))"
| "TroveManager_reduce constants' state AddMinimumDebt = Inr (TroveManager_addMinimumDebt constants' state)"
| "TroveManager_reduce constants' state RemoveMinimumDebt = Inr (TroveManager_removeMinimumDebt state)"
| "TroveManager_reduce constants' state Revert = Inr (TroveManager_revert constants' state)"
| "TroveManager_reduce constants' state (UpdateTrove trove' changeCommitted) =
     TroveManager_updateStore constants' state trove' changeCommitted"

text \<open>
  The fee shown for an edit. A closure has no \<^verbatim>\<open>borrowHCHF\<close> among its parameters.
\<close>

definition feeFrom :: "Trove.trove \<Rightarrow> Trove.trove \<Rightarrow> decimal \<Rightarrow> decimal result" where
  "feeFrom original' edited' borrowingRate' =
     rbind (Trove_whatChanged original' edited' (Some borrowingRate')) (\<lambda>change.
       Inr (case change of
         Some (Creation params) \<Rightarrow> Decimal_mul (create_borrowHCHF params) borrowingRate'
       | Some (Adjustment params _) \<Rightarrow>
           (case borrowHCHF params of Some b \<Rightarrow> Decimal_mul b borrowingRate' | None \<Rightarrow> Decimal_ZERO)
       | _ \<Rightarrow> Decimal_ZERO))"

section \<open>The stability deposit manager\<close>

record stability_manager =
  originalDeposit :: stability_deposit
  editedHCHF :: decimal
  sm_changePending :: bool

datatype stability_manager_action =
    StartChange | FinishChange | Revert | SetDeposit decimalish | UpdateDeposit "stability_deposit option"

definition StabilityDepositManager_init :: "stability_deposit \<Rightarrow> stability_manager" where
  "StabilityDepositManager_init deposit =
     \<lparr>originalDeposit = deposit, editedHCHF = currentHCHF deposit, sm_changePending = False\<rparr>"

definition StabilityDepositManager_finishChange :: "stability_manager \<Rightarrow> stability_manager" where
  "StabilityDepositManager_finishChange state = state\<lparr>sm_changePending := False\<rparr>"

definition StabilityDepositManager_revert :: "stability_manager \<Rightarrow> stability_manager" where
  "StabilityDepositManager_revert state = state\<lparr>editedHCHF := currentHCHF (originalDeposit state)\<rparr>"

definition StabilityDeposit_changeCommitted :: "stability_deposit \<Rightarrow> stability_deposit \<Rightarrow> bool" where
  "StabilityDeposit_changeCommitted updatedDeposit original' \<longleftrightarrow>
     \<not> Decimal_eq (initialHCHF updatedDeposit) (initialHCHF original') \<or>
     Decimal_gt (currentHCHF updatedDeposit) (currentHCHF original') \<or>
     Decimal_lt (sd_collateralGain updatedDeposit) (sd_collateralGain original') \<or>
     Decimal_lt (hlqtReward updatedDeposit) (hlqtReward original')"

fun StabilityDepositManager_reduce :: "stability_manager \<Rightarrow> stability_manager_action \<Rightarrow> stability_manager result" where
  "StabilityDepositManager_reduce state StartChange = Inr (state\<lparr>sm_changePending := True\<rparr>)"
| "StabilityDepositManager_reduce state FinishChange = Inr (StabilityDepositManager_finishChange state)"
| "StabilityDepositManager_reduce state (SetDeposit newValue) =
     rbind (Decimal_from newValue) (\<lambda>d. Inr (state\<lparr>editedHCHF := d\<rparr>))"
| "StabilityDepositManager_reduce state Revert = Inr (StabilityDepositManager_revert state)"
| "StabilityDepositManager_reduce state (UpdateDeposit None) = Inr state"
| "StabilityDepositManager_reduce state (UpdateDeposit (Some updatedDeposit)) =
     (let newState = state\<lparr>originalDeposit := updatedDeposit\<rparr> in
      if sm_changePending state \<and> StabilityDeposit_changeCommitted updatedDeposit (originalDeposit state)
      then Inr (StabilityDepositManager_finishChange (StabilityDepositManager_revert newState))
      else rbind (StabilityDeposit_whatChanged (originalDeposit state) (DecimalObject (editedHCHF state))) (\<lambda>change.
           rbind (StabilityDeposit_apply updatedDeposit (map_option (map_stability_change DecimalObject) change)) (\<lambda>d.
             Inr (newState\<lparr>editedHCHF := d\<rparr>))))"

section \<open>The staking manager and the staking view\<close>

record stake_manager =
  originalStake :: hlqt_stake
  editedLQTY :: decimal

datatype stake_manager_action = Revert | SetStake decimalish | UpdateStake "hlqt_stake option"

definition StakingManager_init :: "hlqt_stake \<Rightarrow> stake_manager" where
  "StakingManager_init stake' = \<lparr>originalStake = stake', editedLQTY = stakedHLQT stake'\<rparr>"

fun StakingManager_reduce :: "stake_manager \<Rightarrow> stake_manager_action \<Rightarrow> stake_manager result" where
  "StakingManager_reduce state (SetStake newValue) = rbind (Decimal_from newValue) (\<lambda>d. Inr (state\<lparr>editedLQTY := d\<rparr>))"
| "StakingManager_reduce state Revert = Inr (state\<lparr>editedLQTY := stakedHLQT (originalStake state)\<rparr>)"
| "StakingManager_reduce state (UpdateStake (Some updatedStake)) =
     rbind (HLQTStake_whatChanged (originalStake state) (DecimalObject (editedLQTY state))) (\<lambda>change.
     rbind (HLQTStake_apply updatedStake (map_option (map_stake_change DecimalObject) change)) (\<lambda>d.
       Inr \<lparr>originalStake = updatedStake, editedLQTY = d\<rparr>))"
| "StakingManager_reduce state (UpdateStake None) = Inr state"

datatype staking_view = NONE | ACTIVE | ADJUSTING

record staking_view_state =
  viewed_stake :: hlqt_stake
  stakePending :: bool
  adjusting :: bool

datatype staking_view_action =
    StartAdjusting | CancelAdjusting | StartChange | AbortChange
  | UpdateStore hlqt_stake "hlqt_stake option"

definition StakingViewProvider_init :: "hlqt_stake \<Rightarrow> staking_view_state" where
  "StakingViewProvider_init stake' = \<lparr>viewed_stake = stake', stakePending = False, adjusting = False\<rparr>"

definition HLQTStake_changeCommitted :: "hlqt_stake \<Rightarrow> hlqt_stake \<Rightarrow> bool" where
  "HLQTStake_changeCommitted updatedStake oldStake \<longleftrightarrow>
     \<not> Decimal_eq (stakedHLQT updatedStake) (stakedHLQT oldStake) \<or>
     Decimal_lt (hs_collateralGain updatedStake) (hs_collateralGain oldStake) \<or>
     Decimal_lt (hchfGain updatedStake) (hchfGain oldStake)"

fun StakingViewProvider_reduce :: "staking_view_state \<Rightarrow> staking_view_action \<Rightarrow> staking_view_state" where
  "StakingViewProvider_reduce state StartAdjusting = state\<lparr>adjusting := True\<rparr>"
| "StakingViewProvider_reduce state CancelAdjusting = state\<lparr>adjusting := False\<rparr>"
| "StakingViewProvider_reduce state StartChange = state\<lparr>stakePending := True\<rparr>"
| "StakingViewProvider_reduce state AbortChange = state\<lparr>stakePending := False\<rparr>"
| "StakingViewProvider_reduce state (UpdateStore oldStake (Some updatedStake)) =
     state\<lparr>viewed_stake := updatedStake, adjusting := False,
       stakePending := (if HLQTStake_changeCommitted updatedStake oldStake then False else stakePending state)\<rparr>"
| "StakingViewProvider_reduce state (UpdateStore oldStake None) = state"

definition StakingViewProvider_view :: "staking_view_state \<Rightarrow> staking_view" where
  "StakingViewProvider_view state = (if adjusting state then ADJUSTING
     else if HLQTStake_isEmpty (viewed_stake state) then NONE else ACTIVE)"

section \<open>Rebasing an edit\<close>

text \<open>
  An edit of an amount, carried over from an old original to a new one: an increase is added to the new original, a
  decrease is subtracted as far as possible, and an edit that empties the amount still does.
\<close>

definition rebased :: "decimal \<Rightarrow> decimal \<Rightarrow> decimal \<Rightarrow> decimal" where
  "rebased new old e = (if old \<le> e then Decimal (bigNumber new + (bigNumber e - bigNumber old))
     else if e = Decimal_ZERO then Decimal_ZERO
     else Decimal (bigNumber new - (bigNumber old - bigNumber e)))"

lemma rebased_unedited [simp]: "rebased new old old = new"
  by (cases new) (simp add: rebased_def)

lemma rebased_same_original [simp]: "rebased old old e = e"
  by (cases e) (simp add: rebased_def less_eq_decimal_def Decimal_ZERO_def)

lemma rebased_twice: "old \<le> e \<Longrightarrow> rebased newer new (rebased new old e) = rebased newer old e"
  by (simp add: rebased_def less_eq_decimal_def)

context adjustable_amount
begin

lemma rebase: "rbind (what old (DecimalObject e)) (\<lambda>c. app new (map_option given c)) = Inr (rebased (amount new) (amount old) e)"
proof -
  consider "e < amount old" | "amount old < e" | "e = amount old" by force
  then show ?thesis
  proof cases
    case 1
    then show ?thesis
      by (auto simp: what_less app_decrease rebased_def less_decimal_def less_eq_decimal_def Decimal_sub_ok Decimal_ZERO_def)
  next
    case 2
    then show ?thesis
      by (auto simp: what_greater app_increase rebased_def Decimal_add_def)
  next
    case 3
    then show ?thesis by (simp add: what_same app_none)
  qed
qed

end

text \<open>
  The editors of stability deposits and stakes never fail on a store update, and keep the user's edit: it is rebased
  onto the new original, unless a pending change was committed, in which case the editor starts afresh.
\<close>

theorem deposit_editors_rebase:
  "StabilityDepositManager_reduce s (UpdateDeposit (Some d)) =
     Inr (if sm_changePending s \<and> StabilityDeposit_changeCommitted d (originalDeposit s) then StabilityDepositManager_init d
          else s\<lparr>originalDeposit := d, editedHCHF := rebased (currentHCHF d) (currentHCHF (originalDeposit s)) (editedHCHF s)\<rparr>)
   \<and> StakingManager_reduce t (UpdateStake (Some k)) =
     Inr \<lparr>originalStake = k, editedLQTY = rebased (stakedHLQT k) (stakedHLQT (originalStake t)) (editedLQTY t)\<rparr>"
proof -
  obtain c where c: "StabilityDeposit_whatChanged (originalDeposit s) (DecimalObject (editedHCHF s)) = Inr c"
    using stability.rebase [of "originalDeposit s" "editedHCHF s" d] by (auto simp: rbind_eq_Inr_iff)
  have d: "StabilityDeposit_apply d (map_option (map_stability_change DecimalObject) c)
      = Inr (rebased (currentHCHF d) (currentHCHF (originalDeposit s)) (editedHCHF s))"
    using stability.rebase [of "originalDeposit s" "editedHCHF s" d] c by simp
  obtain c' where c': "HLQTStake_whatChanged (originalStake t) (DecimalObject (editedLQTY t)) = Inr c'"
    using staking.rebase [of "originalStake t" "editedLQTY t" k] by (auto simp: rbind_eq_Inr_iff)
  have k: "HLQTStake_apply k (map_option (map_stake_change DecimalObject) c')
      = Inr (rebased (stakedHLQT k) (stakedHLQT (originalStake t)) (editedLQTY t))"
    using staking.rebase [of "originalStake t" "editedLQTY t" k] c' by simp
  show ?thesis
    using c d c' k by (simp add: StabilityDepositManager_init_def StabilityDepositManager_finishChange_def
        StabilityDepositManager_revert_def Let_def)
qed

lemma fee_at_zero_rate [simp]: "applyFee Decimal_ZERO x = x" "unapplyFee Decimal_ZERO x = x"
proof -
  show "applyFee Decimal_ZERO x = x" by (simp add: applyFee_def)
  show "unapplyFee Decimal_ZERO x = x"
    by (cases x) (simp add: unapplyFee_def Decimal_divCeil_def Decimal_ONE_def Decimal_ZERO_def Decimal_add_def
        DIGITS_eq)
qed

lemma debt_after_rebased:
  assumes "Trove_debtChange t u Decimal_ZERO = Inr c" and "debt u = Decimal_ZERO \<longrightarrow> debt t \<le> debt u"
  shows "debt_after Decimal_ZERO d c = rebased d (debt t) (debt u)"
  using assms by (auto simp: Trove_debtChange_eq debt_after_def rebased_def Decimal_add_def sub_or_zero_eq
      less_decimal_def less_eq_decimal_def split: if_splits)

lemma collateral_after_rebased:
  assumes "Trove_collateralChange t u = Inr c" and "collateral u = Decimal_ZERO \<longrightarrow> collateral t \<le> collateral u"
  shows "sub_or_zero (Decimal_add x (or_zero (depositCollateral (adjustment_of (Some c) d))))
           (or_zero (withdrawCollateral (adjustment_of (Some c) d))) = rebased x (collateral t) (collateral u)"
  using assms by (auto simp: Trove_collateralChange_eq adjustment_of_def rebased_def Decimal_add_def sub_or_zero_eq
      less_decimal_def less_eq_decimal_def split: if_splits)

text \<open>An edit between two troves that both exist is an adjustment, which is rebased in both components.\<close>

lemma rebased_to_ZERO: "old \<noteq> Decimal_ZERO \<Longrightarrow> rebased new old Decimal_ZERO = Decimal_ZERO"
  by (cases old) (auto simp: rebased_def less_eq_decimal_def Decimal_ZERO_def)

lemma Trove_rebase:
  assumes "\<not> Trove_isEmpty t" and "\<not> Trove_isEmpty u" and "trove_constants t = trove_constants u"
  shows "\<exists>c. Trove_whatChanged t u (Some Decimal_ZERO) = Inr c \<and> (c = None \<or> (\<exists>ps z. c = Some (Adjustment ps z)))
    \<and> Trove_apply n c (Some Decimal_ZERO) = Inr (new_Trove (trove_constants n)
        (rebased (collateral n) (collateral t) (collateral u)) (rebased (debt n) (debt t) (debt u)))"
proof -
  obtain c where c: "Trove_collateralChange t u = Inr c" by (simp add: Trove_collateralChange_eq)
  obtain d where d: "Trove_debtChange t u Decimal_ZERO = Inr d" by (simp add: Trove_debtChange_eq)
  note fields = debt_fields [where d = "debt n" and x = d and rate = Decimal_ZERO]
  note coll = collateral_after_rebased [OF c, where x = "collateral n"]
  note deb = debt_after_rebased [OF d, where d = "debt n"]
  consider (same) "collateral t = collateral u" "debt t = debt u"
    | (debt) "collateral t = collateral u" "debt t \<noteq> debt u"
    | (coll) "collateral t \<noteq> collateral u" "debt t = debt u"
    | (both) "collateral t \<noteq> collateral u" "debt t \<noteq> debt u" by blast
  then show ?thesis
  proof cases
    case same
    then show ?thesis using assms by (simp add: Trove_whatChanged_def Trove_apply_def)
  next
    case debt
    then show ?thesis
      using assms d fields [where c = None] deb
      by (cases "debt u = Decimal_ZERO")
        (auto simp: Trove_whatChanged_def Trove_apply_def rate_or_default_def apply_adjustment_def trove_ops rebased_to_ZERO)
  next
    case coll
    then show ?thesis
      using assms c collateral_after_rebased [OF c, where x = "collateral n" and d = None]
      by (cases "collateral u = Decimal_ZERO")
        (auto simp: Trove_whatChanged_def Trove_apply_def rate_or_default_def apply_adjustment_def trove_ops rebased_to_ZERO)
  next
    case both
    then show ?thesis
      using assms c d fields [where c = "Some c"] deb collateral_after_rebased [OF c, where x = "collateral n" and d = "Some d"]
      by (cases "debt u = Decimal_ZERO"; cases "collateral u = Decimal_ZERO")
        (auto simp: Trove_whatChanged_def Trove_apply_def rate_or_default_def apply_adjustment_def trove_ops rebased_to_ZERO
          Trove_isEmpty_def)
  qed
qed

lemma truncate_trove [simp]:
  "trove_constants (trove.truncate t) = trove_constants t" "collateral (trove.truncate t) = collateral t"
  "debt (trove.truncate t) = debt t" "Trove_isEmpty (trove.truncate t) \<longleftrightarrow> Trove_isEmpty t"
  by (simp_all add: trove.truncate_def Trove_isEmpty_def)

lemma update_uncommitted:
  assumes "\<not> (changePending s \<and> committed)"
  shows "TroveManager_updateStore cs s new committed =
    rbind (Trove_whatChanged (trove.truncate (original s)) (edited s) (Some Decimal_ZERO)) (\<lambda>change.
      if (case change of Some (Creation _) \<Rightarrow> \<not> Trove_isEmpty new | Some (Closure _) \<Rightarrow> Trove_isEmpty new | _ \<Rightarrow> False)
      then Inr (TroveManager_revert cs (s\<lparr>original := new\<rparr>))
      else rbind (Trove_apply (trove.truncate new) change (Some Decimal_ZERO)) (\<lambda>x. Inr (s\<lparr>original := new, edited := x\<rparr>)))"
  by (simp only: TroveManager_updateStore_def Let_def assms if_False)

lemma update_rebases:
  assumes "\<not> Trove_isEmpty (original s)" and "\<not> Trove_isEmpty (edited s)" and "trove_constants (original s) = trove_constants (edited s)"
    and "\<not> (changePending s \<and> committed)"
  shows "TroveManager_updateStore cs s new committed = Inr (s\<lparr>original := new, edited := new_Trove (trove_constants new)
      (rebased (collateral new) (collateral (original s)) (collateral (edited s)))
      (rebased (debt new) (debt (original s)) (debt (edited s)))\<rparr>)"
proof -
  obtain c where "Trove_whatChanged (trove.truncate (original s)) (edited s) (Some Decimal_ZERO) = Inr c"
    and "c = None \<or> (\<exists>ps z. c = Some (Adjustment ps z))"
    and "Trove_apply (trove.truncate new) c (Some Decimal_ZERO) = Inr (new_Trove (trove_constants new)
        (rebased (collateral new) (collateral (original s)) (collateral (edited s)))
        (rebased (debt new) (debt (original s)) (debt (edited s))))"
    using Trove_rebase [of "trove.truncate (original s)" "edited s" "trove.truncate new"] assms(1-3) by auto
  then show ?thesis by (auto simp: update_uncommitted [OF assms(4)])
qed

lemma update_keeps_closure:
  assumes "\<not> Trove_isEmpty (original s)" and "Trove_isEmpty (edited s)" and "trove_constants (original s) = trove_constants (edited s)"
    and "\<not> (changePending s \<and> committed)" and "HCHF_LIQUIDATION_RESERVE (trove_constants (edited s)) \<le> debt (original s)"
  shows "TroveManager_updateStore cs s new committed = Inr (if Trove_isEmpty new then TroveManager_revert cs (s\<lparr>original := new\<rparr>)
      else s\<lparr>original := new, edited := empty_Trove (trove_constants new)\<rparr>)"
proof -
  have "\<not> (collateral (original s) = collateral (edited s) \<and> debt (original s) = debt (edited s))"
    using assms(1,2) by (auto simp: Trove_isEmpty_def)
  moreover obtain n where "Trove_netDebt (trove.truncate (original s)) = Inr n"
    using assms(3,5) Trove_netDebt_ok [of "trove.truncate (original s)"] by auto
  ultimately show ?thesis
    using assms(1,2) unfolding update_uncommitted [OF assms(4)] by (auto simp: Trove_whatChanged_def Trove_apply_def)
qed

text \<open>
  C33. What a store update does to the edit of an existing trove, whose debt is at least the liquidation reserve. Once a pending change was committed, the manager starts afresh from the new trove.
  Otherwise, an edit that leaves something in the trove is kept, with its changes of the collateral and of the debt each rebased onto the new trove; an edit that closes the trove, the one that
  the application makes, stays a closure of the new trove; and if the new trove is itself empty, the edit is reverted to it.
\<close>

theorem TroveManager_keeps_edit:
  assumes "\<not> Trove_isEmpty (original s)" and "HCHF_LIQUIDATION_RESERVE (trove_constants (edited s)) \<le> debt (original s)"
    and "trove_constants (original s) = trove_constants (edited s)"
  shows "TroveManager_reduce cs s (UpdateTrove new committed) = Inr (
    if changePending s \<and> committed then TroveManager_getInitializer cs new
    else if \<not> Trove_isEmpty (edited s)
    then s\<lparr>original := new, edited := new_Trove (trove_constants new)
      (rebased (collateral new) (collateral (original s)) (collateral (edited s)))
      (rebased (debt new) (debt (original s)) (debt (edited s)))\<rparr>
    else if \<not> Trove_isEmpty new then s\<lparr>original := new, edited := empty_Trove (trove_constants new)\<rparr>
    else (TroveManager_getInitializer cs new)\<lparr>changePending := changePending s\<rparr>)"
proof (cases "changePending s \<and> committed")
  case True
  then show ?thesis
    by (simp add: TroveManager_updateStore_def TroveManager_finishChange_def TroveManager_revert_def
        TroveManager_getInitializer_def)
next
  case False
  then show ?thesis
    using update_rebases [OF assms(1) _ assms(3) False] update_keeps_closure [OF assms(1) _ assms(3) False assms(2)]
    by (auto simp: TroveManager_revert_def TroveManager_getInitializer_def)
qed

text \<open>The sample: one unit of collateral more and one unit of debt less is edited, or the trove is closed, while it gains from a redistribution.\<close>

definition sample_manager :: trove_manager where
  "sample_manager = (TroveManager_getInitializer defaults (new_UserTrove defaults ''0xA'' Open (Decimal 50000000000) (Decimal 220000000000)))
     \<lparr>edited := new_Trove defaults (Decimal 50000000001) (Decimal 219999999999)\<rparr>"

theorem TroveManager_keeps_edit_witness:
  "TroveManager_reduce defaults sample_manager
     (UpdateTrove (new_UserTrove defaults ''0xA'' Open (Decimal 51000000000) (Decimal 230000000000)) True) =
   Inr (sample_manager\<lparr>original := new_UserTrove defaults ''0xA'' Open (Decimal 51000000000) (Decimal 230000000000),
     edited := new_Trove defaults (Decimal 51000000001) (Decimal 229999999999)\<rparr>)
   \<and> TroveManager_reduce defaults (sample_manager\<lparr>edited := empty_Trove defaults\<rparr>)
     (UpdateTrove (new_UserTrove defaults ''0xA'' Open (Decimal 51000000000) (Decimal 230000000000)) True) =
   Inr (sample_manager\<lparr>original := new_UserTrove defaults ''0xA'' Open (Decimal 51000000000) (Decimal 230000000000),
     edited := empty_Trove defaults\<rparr>)"
proof -
  let ?closing = "sample_manager\<lparr>edited := empty_Trove defaults\<rparr>"
  note eval = sample_manager_def TroveManager_getInitializer_def Trove_isEmpty_def new_UserTrove_def new_Trove_def empty_Trove_def
    less_eq_decimal_def Decimal_ZERO_def
  have edit: "\<not> Trove_isEmpty (original sample_manager)"
    "HCHF_LIQUIDATION_RESERVE (trove_constants (edited sample_manager)) \<le> debt (original sample_manager)"
    "trove_constants (original sample_manager) = trove_constants (edited sample_manager)"
    by (simp_all add: eval defaults_def)
  have closing: "\<not> Trove_isEmpty (original ?closing)" "HCHF_LIQUIDATION_RESERVE (trove_constants (edited ?closing)) \<le> debt (original ?closing)"
    "trove_constants (original ?closing) = trove_constants (edited ?closing)"
    by (simp_all add: eval defaults_def)
  show ?thesis
    by (subst TroveManager_keeps_edit [OF edit], subst TroveManager_keeps_edit [OF closing]) (simp add: eval rebased_def)
qed

lemma update_closure_throws_iff:
  assumes "\<not> (changePending s \<and> committed)" and "trove_constants (original s) = trove_constants (edited s)"
    and "\<not> Trove_isEmpty (original s)" and "Trove_isEmpty (edited s)"
  shows "(\<exists>e. TroveManager_updateStore cs s new committed = Inl e) \<longleftrightarrow>
    debt (original s) < HCHF_LIQUIDATION_RESERVE (trove_constants (edited s))"
proof -
  have differ: "\<not> (collateral (original s) = collateral (edited s) \<and> debt (original s) = debt (edited s))"
    using assms(3,4) by (auto simp: Trove_isEmpty_def)
  show ?thesis
  proof (cases "debt (original s) < HCHF_LIQUIDATION_RESERVE (trove_constants (edited s))")
    case True
    then have "\<exists>e. Trove_netDebt (trove.truncate (original s)) = Inl e"
      using assms(2) Trove_netDebt_throws [of "trove.truncate (original s)"] by auto
    then show ?thesis
      using True differ assms(2-4) unfolding update_uncommitted [OF assms(1)]
      by (auto simp: Trove_whatChanged_def)
  next
    case False
    then obtain n where "Trove_netDebt (trove.truncate (original s)) = Inr n"
      using assms(2) Trove_netDebt_ok [of "trove.truncate (original s)"] by auto
    then show ?thesis
      using False differ assms(2-4) unfolding update_uncommitted [OF assms(1)]
      by (cases "Trove_isEmpty new") (auto simp: Trove_whatChanged_def Trove_apply_def)
  qed
qed

lemma update_creation_throws_iff:
  assumes "\<not> (changePending s \<and> committed)" and "trove_constants (original s) = trove_constants (edited s)"
    and "Trove_isEmpty (original s)" and "\<not> Trove_isEmpty (edited s)"
  shows "(\<exists>e. TroveManager_updateStore cs s new committed = Inl e) \<longleftrightarrow>
    debt (edited s) < HCHF_LIQUIDATION_RESERVE (trove_constants (edited s)) \<and> \<not> Trove_isEmpty new"
proof -
  have differ: "\<not> (collateral (original s) = collateral (edited s) \<and> debt (original s) = debt (edited s))"
    using assms(3,4) by (auto simp: Trove_isEmpty_def)
  show ?thesis
  proof (cases "debt (edited s) < HCHF_LIQUIDATION_RESERVE (trove_constants (edited s))")
    case True
    then show ?thesis
      using differ assms(2-4) unfolding update_uncommitted [OF assms(1)]
      by (auto simp: Trove_whatChanged_def Trove_apply_def)
  next
    case False
    then obtain n where "Trove_netDebt (edited s) = Inr n" using Trove_netDebt_ok [of "edited s"] by auto
    then show ?thesis
      using False differ assms(2-4) unfolding update_uncommitted [OF assms(1)]
      by (cases "Trove_isEmpty new") (auto simp: Trove_whatChanged_def Trove_apply_def)
  qed
qed

text \<open>
  A store update makes the trove manager throw in exactly two situations: the edit closes a trove whose debt is below
  the liquidation reserve, or the edit is the beginning of a new trove, with a debt below the liquidation reserve, and the
  update brings an existing trove. (An edit that is a complete new trove is dropped in the latter case.)
\<close>

theorem TroveManager_update_throws_iff:
  assumes "trove_constants (original s) = trove_constants (edited s)"
  defines "R \<equiv> HCHF_LIQUIDATION_RESERVE (trove_constants (edited s))"
  shows "(\<exists>e. TroveManager_reduce cs s (UpdateTrove new committed) = Inl e) \<longleftrightarrow> \<not> (changePending s \<and> committed) \<and>
    (\<not> Trove_isEmpty (original s) \<and> Trove_isEmpty (edited s) \<and> debt (original s) < R
     \<or> Trove_isEmpty (original s) \<and> \<not> Trove_isEmpty (edited s) \<and> debt (edited s) < R \<and> \<not> Trove_isEmpty new)"
proof (cases "changePending s \<and> committed")
  case True
  then show ?thesis by (auto simp: TroveManager_updateStore_def)
next
  case False
  consider (both) "\<not> Trove_isEmpty (original s)" "\<not> Trove_isEmpty (edited s)"
    | (none) "Trove_isEmpty (original s)" "Trove_isEmpty (edited s)"
    | (closure) "\<not> Trove_isEmpty (original s)" "Trove_isEmpty (edited s)"
    | (creation) "Trove_isEmpty (original s)" "\<not> Trove_isEmpty (edited s)" by blast
  then show ?thesis
  proof cases
    case both
    then show ?thesis
      using Trove_rebase [of "trove.truncate (original s)" "edited s" "trove.truncate new"] assms(1)
      by (auto simp: update_uncommitted [OF False])
  next
    case none
    then show ?thesis
      by (simp add: update_uncommitted [OF False] Trove_whatChanged_def Trove_apply_def Trove_isEmpty_def)
  next
    case closure
    then show ?thesis using update_closure_throws_iff [OF False assms(1) closure] False by (simp add: R_def)
  next
    case creation
    then show ?thesis using update_creation_throws_iff [OF False assms(1) creation] False by (simp add: R_def)
  qed
qed

text \<open>A trove is opened elsewhere while the user has entered some collateral and no debt yet.\<close>

theorem TroveManager_update_throws_iff_witness:
  "\<exists>e. TroveManager_reduce defaults ((TroveManager_getInitializer defaults (new_UserTrove defaults ''0xA'' NonExistent Decimal_ZERO Decimal_ZERO))
       \<lparr>edited := new_Trove defaults Decimal_ONE Decimal_ZERO\<rparr>)
     (UpdateTrove (new_UserTrove defaults ''0xA'' Open Decimal_ONE Decimal_ONE) True) = Inl e"
  by (subst TroveManager_update_throws_iff)
    (simp_all add: TroveManager_getInitializer_def new_UserTrove_def new_Trove_def Trove_isEmpty_def defaults_def
      Decimal_ONE_def Decimal_ZERO_def less_decimal_def)

end
