(* ===== verification/Frontend_Forms.thy ===== *)
theory Frontend_Forms
  imports Frontend_Validation Frontend_Editors
begin

text \<open>
  The forms for opening and for adjusting a trove (\<^verbatim>\<open>packages/dev-frontend/src/components/Trove/Opening.tsx\<close> and
  \<^verbatim>\<open>Adjusting.tsx\<close>) and the hooks that compute limits for them (\<^verbatim>\<open>packages/dev-frontend/src/hooks\<close>). A form is a record of
  what the user has entered, a function that computes what is rendered from it, an effect that runs after rendering, and
  handlers for the two inputs. A handler returns the new state and the error it throws, if it does.
\<close>

section \<open>Hooks\<close>

definition getFee :: "decimal \<Rightarrow> decimal \<Rightarrow> decimal \<Rightarrow> decimal result" where
  "getFee rate totalDebt previousTotalDebt =
     (if Decimal_lte totalDebt previousTotalDebt then Inr Decimal_ZERO
      else rbind (Decimal_sub totalDebt previousTotalDebt) (\<lambda>d. Inr (Decimal_mul d rate)))"

definition useTrove :: "constants \<Rightarrow> decimal \<Rightarrow> decimal \<Rightarrow> decimal \<Rightarrow> decimal \<Rightarrow> Trove.trove result" where
  "useTrove cs rate collateral' netDebt previousDebt =
     (let debtWithReserve = Decimal_add netDebt (HCHF_LIQUIDATION_RESERVE cs) in
      rbind (getFee rate debtWithReserve previousDebt) (\<lambda>fee.
        Inr (new_Trove cs collateral' (Decimal_add debtWithReserve fee))))"

definition useMaxNetDebt :: "constants \<Rightarrow> decimal \<Rightarrow> decimal \<Rightarrow> decimal \<Rightarrow> decimal \<Rightarrow> decimal result" where
  "useMaxNetDebt cs rate price' collateral' previousDebt =
     (let maxTotalDebt = Decimal_div (Decimal_mul collateral' price') (MINIMUM_COLLATERAL_RATIO cs) in
      rbind (getFee rate maxTotalDebt previousDebt) (\<lambda>fee.
        if Decimal_lt maxTotalDebt (Decimal_add (HCHF_LIQUIDATION_RESERVE cs) fee) then Inr Decimal_ZERO
        else rbind (Decimal_sub maxTotalDebt (HCHF_LIQUIDATION_RESERVE cs)) (\<lambda>d. Decimal_sub d fee)))"

definition maximumTransactionCost :: decimal where
  "maximumTransactionCost = Decimal (40 * DIGITS)"

definition useMaxTroveCollateral :: "decimal \<Rightarrow> decimal \<Rightarrow> decimal result" where
  "useMaxTroveCollateral troveCollateral balance =
     (let availableCollateral = Decimal_add troveCollateral balance in
      if Decimal_gt availableCollateral maximumTransactionCost
      then Decimal_sub availableCollateral maximumTransactionCost else Inr Decimal_ZERO)"

text \<open>\<^verbatim>\<open>useStableTroveChange\<close> keeps the old change object as long as the new one has the same type and parameters.\<close>

definition paramsEq :: "decimal option \<Rightarrow> decimal option \<Rightarrow> bool" where
  "paramsEq a b = (case (a, b) of (Some x, Some y) \<Rightarrow> Decimal_eq x y | (None, None) \<Rightarrow> True | _ \<Rightarrow> False)"

definition same_type :: "trove_change \<Rightarrow> trove_change \<Rightarrow> bool" where
  "same_type a b = (case (a, b) of
      (Creation _, Creation _) \<Rightarrow> True | (Closure _, Closure _) \<Rightarrow> True | (Adjustment _ _, Adjustment _ _) \<Rightarrow> True
    | (InvalidCreation _ _, InvalidCreation _ _) \<Rightarrow> True | _ \<Rightarrow> False)"

definition troveChange_equals :: "trove_change \<Rightarrow> trove_change \<Rightarrow> bool" where
  "troveChange_equals a b \<longleftrightarrow> same_type a b
     \<and> paramsEq (borrowHCHF (change_params a)) (borrowHCHF (change_params b))
     \<and> paramsEq (repayHCHF (change_params a)) (repayHCHF (change_params b))
     \<and> paramsEq (depositCollateral (change_params a)) (depositCollateral (change_params b))
     \<and> paramsEq (withdrawCollateral (change_params a)) (withdrawCollateral (change_params b))"

definition useStableTroveChange_effect :: "trove_change option \<Rightarrow> trove_change option \<Rightarrow> trove_change option" where
  "useStableTroveChange_effect kept change = (case (kept, change) of
      (Some a, Some b) \<Rightarrow> (if troveChange_equals a b then kept else change)
    | (None, None) \<Rightarrow> kept
    | _ \<Rightarrow> change)"

section \<open>Opening a trove\<close>

record trove_form =
  form_collateral :: decimal
  form_debt :: decimal
  auto :: bool

text \<open>What the forms read from the store and the constants.\<close>

record form_context =
  fc_constants :: constants
  fc_borrowingRate :: decimal
  fc_price :: decimal
  fc_accountBalance :: decimal

definition TX_MAX_COSTS :: decimal where
  "TX_MAX_COSTS = Decimal (40 * DIGITS)"

text \<open>\<^verbatim>\<open>Decimal.from(1.5)\<close>; see \<open>autoRatio_from\<close> below.\<close>

definition autoRatio :: decimal where
  "autoRatio = Decimal 150000000"

definition Opening_init :: trove_form where
  "Opening_init = \<lparr>form_collateral = Decimal_ZERO, form_debt = Decimal_ZERO, auto = False\<rparr>"

definition Opening_fee :: "form_context \<Rightarrow> trove_form \<Rightarrow> decimal" where
  "Opening_fee ctx s = Decimal_mul (form_debt s) (fc_borrowingRate ctx)"

definition Opening_totalDebt :: "form_context \<Rightarrow> trove_form \<Rightarrow> decimal" where
  "Opening_totalDebt ctx s =
     Decimal_add (Decimal_add (form_debt s) (HCHF_LIQUIDATION_RESERVE (fc_constants ctx))) (Opening_fee ctx s)"

definition Opening_isDirty :: "trove_form \<Rightarrow> bool" where
  "Opening_isDirty s \<longleftrightarrow> \<not> Decimal_isZero (form_collateral s) \<or> \<not> Decimal_isZero (form_debt s)"

definition Opening_trove :: "form_context \<Rightarrow> trove_form \<Rightarrow> Trove.trove" where
  "Opening_trove ctx s = (if Opening_isDirty s
     then new_Trove (fc_constants ctx) (form_collateral s) (Opening_totalDebt ctx s)
     else empty_Trove (fc_constants ctx))"

definition Opening_maxCollateral :: "form_context \<Rightarrow> decimal result" where
  "Opening_maxCollateral ctx = (if Decimal_gt (fc_accountBalance ctx) TX_MAX_COSTS
     then Decimal_sub (fc_accountBalance ctx) TX_MAX_COSTS else Inr Decimal_ZERO)"

definition Opening_collateralRatio :: "form_context \<Rightarrow> trove_form \<Rightarrow> decimal option" where
  "Opening_collateralRatio ctx s =
     (if \<not> Decimal_isZero (form_collateral s) \<and> \<not> Decimal_isZero (form_debt s)
      then Some (Trove_collateralRatio (Opening_trove ctx s) (fc_price ctx)) else None)"

definition Opening_validation :: "form_context \<Rightarrow> trove_form \<Rightarrow> trove_validation_state \<Rightarrow> bool
    \<Rightarrow> (trove_change option \<times> description option) result" where
  "Opening_validation ctx s st connected =
     validateTroveChange (empty_Trove (fc_constants ctx)) (Opening_trove ctx s) (fc_borrowingRate ctx) st (fc_constants ctx) connected"

definition Opening_reset :: "trove_form \<Rightarrow> trove_form" where
  "Opening_reset s = s\<lparr>form_collateral := Decimal_ZERO, form_debt := Decimal_ZERO\<rparr>"

definition Opening_effect :: "form_context \<Rightarrow> trove_form \<Rightarrow> trove_form" where
  "Opening_effect ctx s = (if \<not> Decimal_isZero (form_collateral s) \<and> Decimal_isZero (form_debt s)
     then s\<lparr>form_debt := HCHF_MINIMUM_NET_DEBT (fc_constants ctx)\<rparr> else s)"

definition Opening_collateralHandler :: "form_context \<Rightarrow> decimalish \<Rightarrow> trove_form \<Rightarrow> trove_form \<times> js_error option" where
  "Opening_collateralHandler ctx amount s = (case Decimal_from amount of
      Inl e \<Rightarrow> (s, Some e)
    | Inr newCol \<Rightarrow>
        (let collRat = Decimal_div (Decimal_mul newCol (fc_price ctx)) (Opening_totalDebt ctx s);
             s' = s\<lparr>form_collateral := newCol\<rparr>
         in if auto s \<and> Decimal_lt collRat autoRatio
            then (case rbind (Decimal_sub (Decimal_div (Decimal_mul newCol (fc_price ctx)) autoRatio)
                                (HCHF_LIQUIDATION_RESERVE (fc_constants ctx)))
                         (\<lambda>d. Inr (Decimal_div d (Decimal_add (fc_borrowingRate ctx) Decimal_ONE))) of
                    Inl e \<Rightarrow> (s', Some e)
                  | Inr newNetDebt \<Rightarrow>
                      (s'\<lparr>form_debt := (if Decimal_isZero newNetDebt then Decimal_ZERO else newNetDebt)\<rparr>, None))
            else (s', None)))"

definition Opening_netDebtHandler :: "form_context \<Rightarrow> decimalish \<Rightarrow> trove_form \<Rightarrow> trove_form \<times> js_error option" where
  "Opening_netDebtHandler ctx amount s = (case Decimal_from amount of
      Inl e \<Rightarrow> (s, Some e)
    | Inr newDebt \<Rightarrow>
        (let newTotalDebt = Decimal_add (Decimal_add newDebt (HCHF_LIQUIDATION_RESERVE (fc_constants ctx)))
               (Decimal_mul newDebt (fc_borrowingRate ctx));
             collRat = Decimal_div (Decimal_mul (form_collateral s) (fc_price ctx)) newTotalDebt;
             s' = s\<lparr>form_debt := newDebt\<rparr>
         in if auto s \<and> Decimal_lt collRat autoRatio
            then (s'\<lparr>form_collateral := Decimal_div (Decimal_mul newTotalDebt autoRatio) (fc_price ctx)\<rparr>, None)
            else (s', None)))"

section \<open>Adjusting a trove\<close>

definition applyUnsavedChanges :: "difference \<Rightarrow> decimal \<Rightarrow> decimal result" where
  "applyUnsavedChanges unsavedChanges value = (case Difference_absoluteValue unsavedChanges of
      Some a \<Rightarrow>
        (if Difference_positive unsavedChanges \<noteq> None then Inr (Decimal_add value a)
         else if Difference_negative unsavedChanges \<noteq> None \<and> Decimal_lt a value then Decimal_sub value a
         else Inr value)
    | None \<Rightarrow> Inr value)"

definition applyUnsavedCollateralChanges :: "difference \<Rightarrow> user_trove \<Rightarrow> decimal result" where
  "applyUnsavedCollateralChanges unsavedChanges t = applyUnsavedChanges unsavedChanges (collateral t)"

text \<open>The getter \<^verbatim>\<open>netDebt\<close> is read only in some of the branches; all of them read it, and it throws or not alike.\<close>

definition applyUnsavedNetDebtChanges :: "difference \<Rightarrow> user_trove \<Rightarrow> decimal result" where
  "applyUnsavedNetDebtChanges unsavedChanges t = rbind (Trove_netDebt t) (applyUnsavedChanges unsavedChanges)"

definition Adjusting_init :: "user_trove \<Rightarrow> trove_form result" where
  "Adjusting_init t = rbind (Trove_netDebt t) (\<lambda>netDebt.
     Inr \<lparr>form_collateral = collateral t, form_debt = netDebt, auto = False\<rparr>)"

text \<open>The effect that rebases the form when the trove in the store changes from \<open>p\<close>, the previous one, to \<open>t\<close>.\<close>

definition Adjusting_effect :: "user_trove \<Rightarrow> user_trove \<Rightarrow> trove_form \<Rightarrow> trove_form result" where
  "Adjusting_effect p t s =
     rbind (if \<not> Decimal_eq (collateral p) (collateral t)
            then rbind (Difference_between (Some (DecimalObject (form_collateral s))) (Some (DecimalObject (collateral p))))
                   (\<lambda>d. applyUnsavedCollateralChanges d t)
            else Inr (form_collateral s)) (\<lambda>nextCollateral.
     rbind (Trove_netDebt p) (\<lambda>previousNetDebt. rbind (Trove_netDebt t) (\<lambda>netDebt.
     rbind (if \<not> Decimal_eq previousNetDebt netDebt
            then rbind (Difference_between (Some (DecimalObject (form_debt s))) (Some (DecimalObject previousNetDebt)))
                   (\<lambda>d. applyUnsavedNetDebtChanges d t)
            else Inr (form_debt s)) (\<lambda>nextNetDebt.
       Inr (s\<lparr>form_collateral := nextCollateral, form_debt := nextNetDebt\<rparr>)))))"

record adjusting_values =
  isDirty :: bool
  av_fee :: decimal
  av_totalDebt :: decimal
  updatedTrove :: Trove.trove
  maxCollateral :: decimal
  av_collateralRatio :: "decimal option"

text \<open>
  The values computed while rendering; the hooks run first, so a trove that is not open gives \<open>None\<close> (nothing is rendered)
  only if nothing before threw.
\<close>

definition Adjusting_values :: "form_context \<Rightarrow> user_trove \<Rightarrow> trove_form \<Rightarrow> adjusting_values result" where
  "Adjusting_values ctx t s =
     rbind (Trove_netDebt t) (\<lambda>netDebt.
       let cs = fc_constants ctx;
           dirty = (\<not> Decimal_eq (form_collateral s) (collateral t) \<or> \<not> Decimal_eq (form_debt s) netDebt);
           isDebtIncrease = Decimal_gt (form_debt s) netDebt
       in rbind (if isDebtIncrease then Decimal_sub (form_debt s) netDebt else Inr Decimal_ZERO) (\<lambda>debtIncreaseAmount.
          rbind (if isDebtIncrease
                 then feeFrom (trove.truncate t)
                        (new_Trove cs (collateral t) (Decimal_add (debt t) debtIncreaseAmount)) (fc_borrowingRate ctx)
                 else Inr Decimal_ZERO) (\<lambda>fee.
          let totalDebt = Decimal_add (Decimal_add (form_debt s) (HCHF_LIQUIDATION_RESERVE cs)) fee;
              updated = (if dirty then new_Trove cs (form_collateral s) totalDebt else trove.truncate t);
              availableEth = Decimal_add (collateral t) (fc_accountBalance ctx)
          in rbind (if Decimal_gt availableEth TX_MAX_COSTS then Decimal_sub availableEth TX_MAX_COSTS else Inr Decimal_ZERO)
               (\<lambda>maximum. Inr \<lparr>isDirty = dirty, av_fee = fee, av_totalDebt = totalDebt, updatedTrove = updated,
                 maxCollateral = maximum,
                 av_collateralRatio = (if \<not> Decimal_isZero (form_collateral s) \<and> \<not> Decimal_isZero (form_debt s)
                   then Some (Trove_collateralRatio updated (fc_price ctx)) else None)\<rparr>))))"

definition Adjusting_render :: "form_context \<Rightarrow> user_trove \<Rightarrow> trove_form \<Rightarrow> trove_validation_state \<Rightarrow> bool
    \<Rightarrow> (adjusting_values \<times> (trove_change option \<times> description option)) option result" where
  "Adjusting_render ctx t s st connected =
     rbind (Adjusting_init t) (\<lambda>_.
     rbind (Adjusting_values ctx t s) (\<lambda>v.
     rbind (Difference_between (map_option DecimalObject (av_collateralRatio v))
       (Some (DecimalObject (Trove_collateralRatio t (fc_price ctx))))) (\<lambda>_.
     rbind (validateTroveChange (trove.truncate t) (updatedTrove v) (fc_borrowingRate ctx) st (fc_constants ctx) connected)
       (\<lambda>validated. Inr (if status t \<noteq> Open then None else Some (v, validated))))))"

definition Adjusting_collateralHandler :: "form_context \<Rightarrow> adjusting_values \<Rightarrow> decimalish \<Rightarrow> trove_form \<Rightarrow> trove_form \<times> js_error option" where
  "Adjusting_collateralHandler ctx v amount s = (case Decimal_from amount of
      Inl e \<Rightarrow> (s, Some e)
    | Inr newCol \<Rightarrow>
        (let collRat = Decimal_div (Decimal_mul newCol (fc_price ctx)) (av_totalDebt v) in
         if auto s \<and> Decimal_lt collRat autoRatio
         then (case rbind (Decimal_sub (Decimal_div (Decimal_mul newCol (fc_price ctx)) autoRatio)
                             (HCHF_LIQUIDATION_RESERVE (fc_constants ctx))) (\<lambda>d. Decimal_sub d (av_fee v)) of
                 Inl e \<Rightarrow> (s, Some e)
               | Inr newNetDebt \<Rightarrow>
                   (s\<lparr>form_debt := (if Decimal_isZero newNetDebt then Decimal_ZERO else newNetDebt), form_collateral := newCol\<rparr>, None))
         else (s\<lparr>form_collateral := newCol\<rparr>, None)))"

definition Adjusting_netDebtHandler :: "form_context \<Rightarrow> adjusting_values \<Rightarrow> decimalish \<Rightarrow> trove_form \<Rightarrow> trove_form \<times> js_error option" where
  "Adjusting_netDebtHandler ctx v amount s = (case Decimal_from amount of
      Inl e \<Rightarrow> (s, Some e)
    | Inr newDebt \<Rightarrow>
        (let newTotalDebt = Decimal_add (Decimal_add newDebt (HCHF_LIQUIDATION_RESERVE (fc_constants ctx))) (av_fee v);
             collRat = Decimal_div (Decimal_mul (form_collateral s) (fc_price ctx)) newTotalDebt
         in if auto s \<and> Decimal_lt collRat autoRatio
            then (s\<lparr>form_collateral := Decimal_div (Decimal_mul newTotalDebt autoRatio) (fc_price ctx), form_debt := newDebt\<rparr>, None)
            else (s\<lparr>form_debt := newDebt\<rparr>, None)))"

section \<open>The form for opening a trove\<close>

lemma autoRatio_from: "Decimal_from (Number ''1.5'') = Inr autoRatio"
  by (simp add: Decimal_from_def autoRatio_def parse_eval)

text \<open>The total debt of the form is the reserve and the entered amount with its fee, rounded once.\<close>

lemma Decimal_add_fee: "Decimal_add x (Decimal_mul x rate) = applyFee rate x"
proof -
  have "(bigNumber x * DIGITS + bigNumber x * bigNumber rate) div DIGITS = bigNumber x + bigNumber x * bigNumber rate div DIGITS"
    using DIGITS_pos by (simp add: div_add1_eq)
  then show ?thesis
    by (simp add: applyFee_def Decimal_mul_def Decimal_add_def Decimal_ONE_def distrib_left DIGITS_eq)
qed

lemma Opening_totalDebt_eq:
  "Opening_totalDebt ctx s = Decimal_add (HCHF_LIQUIDATION_RESERVE (fc_constants ctx)) (applyFee (fc_borrowingRate ctx) (form_debt s))"
  unfolding Decimal_add_fee [symmetric] Opening_totalDebt_def Opening_fee_def
  by (simp add: Decimal_add_def)

lemma unapplyFee_applyFee: "unapplyFee rate (applyFee rate x) \<le> x"
proof -
  let ?f = "DIGITS + bigNumber rate"
  have "bigNumber x * ?f div DIGITS * DIGITS + (?f - 1) \<le> bigNumber x * ?f + (?f - 1)" by simp
  then have "(bigNumber x * ?f div DIGITS * DIGITS + (?f - 1)) div ?f \<le> (bigNumber x * ?f + (?f - 1)) div ?f"
    by (rule div_le_mono)
  also have "\<dots> = bigNumber x" using DIGITS_pos by simp
  finally show ?thesis
    unfolding unapplyFee_def applyFee_def Decimal_divCeil_def Decimal_mul_def fee_factor(1) less_eq_decimal_def
    by (simp add: fee_factor(2))
qed

lemma applyFee_mono: "x \<le> y \<Longrightarrow> applyFee rate x \<le> applyFee rate y"
  by (simp add: applyFee_def Decimal_mul_mono)

lemma applyFee_unapplyFee_applyFee: "applyFee rate (unapplyFee rate (applyFee rate x)) = applyFee rate x"
  using applyFee_mono [OF unapplyFee_applyFee] applyFee_unapplyFee(1) by (rule antisym)

lemma Opening_accepted:
  assumes "Opening_validation ctx s st connected = Inr (Some c, d)"
  shows "\<exists>b. c = Creation \<lparr>create_depositCollateral = form_collateral s, create_borrowHCHF = b\<rparr>
    \<and> HCHF_MINIMUM_NET_DEBT (fc_constants ctx) \<le> b \<and> b \<le> form_debt s
    \<and> Trove_apply (empty_Trove (fc_constants ctx)) (Some c) (Some (fc_borrowingRate ctx)) = Inr (Opening_trove ctx s)"
proof -
  let ?E = "empty_Trove (fc_constants ctx)" and ?u = "Opening_trove ctx s" and ?r = "fc_borrowingRate ctx"
  let ?R = "HCHF_LIQUIDATION_RESERVE (fc_constants ctx)" and ?b = "unapplyFee ?r (applyFee ?r (form_debt s))"
  have same: "trove_constants ?E = trove_constants ?u" by (simp add: Opening_trove_def empty_Trove_def)
  obtain r where r: "Trove_whatChanged ?E ?u (Some ?r) = Inr (Some c)" "permitted (fc_constants ctx) (validation_context ?E r st connected) c"
    using validateTroveChange_cases [OF same, of ?r st "fc_constants ctx" connected] assms
    by (cases "Trove_whatChanged ?E ?u (Some ?r)") (auto simp: Opening_validation_def split: option.splits if_splits)
  have dirty: "Opening_isDirty s"
    using r(1) by (rule_tac ccontr) (simp add: Opening_trove_def Trove_whatChanged_def)
  then have u: "collateral ?u = form_collateral s" "debt ?u = Decimal_add ?R (applyFee ?r (form_debt s))" "trove_constants ?u = fc_constants ctx"
    by (simp_all add: Opening_trove_def Opening_totalDebt_eq)
  have net: "Trove_netDebt ?u = Inr (applyFee ?r (form_debt s))"
    using u by (simp add: Trove_netDebt_def Let_def not_less)
  have ge: "\<not> debt ?u < ?R" using u(2) by (simp add: not_less)
  have c: "c = Creation \<lparr>create_depositCollateral = form_collateral s, create_borrowHCHF = ?b\<rparr>"
    using r(1) u(1,3) net ge
    by (auto simp: Trove_whatChanged_def Trove_isEmpty_def empty_Trove_def rate_or_default_def Let_def split: if_splits)
  have "Trove_apply ?E (Some c) (Some ?r) = Inr ?u"
    using u c by (simp add: Trove_apply_def rate_or_default_def Trove_isEmpty_def empty_Trove_def applyFee_unapplyFee_applyFee new_Trove_def)
  then show ?thesis using c r(2) unapplyFee_applyFee by auto
qed

text \<open>
  What the form for opening a trove submits is what it shows: an accepted change deposits the entered collateral and
  creates exactly the trove whose debt and ratio are shown, borrowing no more than was entered and no less than the minimum.
\<close>

theorem Opening_submits_shown_trove:
  assumes "Opening_validation ctx s st connected = Inr (Some c, d)"
  shows "\<exists>b. c = Creation \<lparr>create_depositCollateral = form_collateral s, create_borrowHCHF = b\<rparr>
    \<and> HCHF_MINIMUM_NET_DEBT (fc_constants ctx) \<le> b \<and> b \<le> form_debt s
    \<and> Trove_apply (empty_Trove (fc_constants ctx)) (Some c) (Some (fc_borrowingRate ctx)) = Inr (Opening_trove ctx s)"
  using assms by (rule Opening_accepted)

section \<open>Automatic adjustment\<close>

lemma value_le_ratio: "Decimal_div (Decimal_mul c p) t \<le> Decimal_mulDiv c p t"
  by (simp add: Decimal_div_def Decimal_mulDiv_def Decimal_mul_def less_eq_decimal_def div_le_mono)

lemma ratio_from_limit:
  assumes "bigNumber t * bigNumber a \<le> bigNumber c * bigNumber p" and "a \<le> Decimal_INFINITY"
  shows "a \<le> Decimal_mulDiv c p t"
proof (cases "t = Decimal_ZERO")
  case False
  then have "0 < bigNumber t" by (cases t) (simp add: Decimal_ZERO_def)
  then have "bigNumber a \<le> bigNumber c * bigNumber p div bigNumber t"
    using assms(1) by (simp add: less_eq_div_iff_mult_less_eq mult.commute)
  then show ?thesis using False by (simp add: Decimal_mulDiv_def less_eq_decimal_def)
qed (use assms in \<open>simp add: Decimal_mulDiv_def\<close>)

lemma autoRatio_finite: "autoRatio \<le> Decimal_INFINITY"
  by (simp add: autoRatio_def Decimal_INFINITY_def MAX_UINT_256_def less_eq_decimal_def)

lemma autoRatio_nonzero: "autoRatio \<noteq> Decimal_ZERO"
  by (simp add: autoRatio_def Decimal_ZERO_def)

lemma limit_times_ratio: "a \<noteq> Decimal_ZERO \<Longrightarrow> bigNumber (Decimal_div (Decimal_mul c p) a) * bigNumber a \<le> bigNumber c * bigNumber p"
  by (simp add: Decimal_div_def Decimal_mul_def)
    (meson div_times_less_eq_dividend le_trans)

lemma applyFee_of_quotient: "bigNumber (applyFee rate (Decimal_div d (Decimal_add rate Decimal_ONE))) \<le> bigNumber d"
proof -
  let ?f = "DIGITS + bigNumber rate"
  have f: "bigNumber (Decimal_add rate Decimal_ONE) = ?f" "Decimal_add rate Decimal_ONE \<noteq> Decimal_ZERO"
    using fee_factor [of rate] by (simp_all add: Decimal_add_commute)
  have "bigNumber d * DIGITS div ?f * ?f div DIGITS \<le> bigNumber d * DIGITS div DIGITS"
    by (intro div_le_mono div_times_less_eq_dividend)
  then show ?thesis
    using f by (simp add: applyFee_def Decimal_div_def Decimal_mul_def fee_factor(1) add.commute)
qed

lemma Opening_ratio: "autoRatio \<le> Decimal_mulDiv (form_collateral s) (fc_price ctx) (Opening_totalDebt ctx s)
    \<Longrightarrow> autoRatio \<le> Trove_collateralRatio (Opening_trove ctx s) (fc_price ctx)"
  using autoRatio_finite by (simp add: Opening_trove_def Trove_collateralRatio_def empty_Trove_def)

lemma Opening_collateralHandler_ratio:
  assumes "auto s" and "Opening_collateralHandler ctx amount s = (s', None)"
  shows "autoRatio \<le> Trove_collateralRatio (Opening_trove ctx s') (fc_price ctx)"
proof (rule Opening_ratio)
  obtain newCol where newCol: "Decimal_from amount = Inr newCol"
    using assms(2) by (auto simp: Opening_collateralHandler_def split: sum.splits)
  let ?X = "Decimal_div (Decimal_mul newCol (fc_price ctx)) autoRatio" and ?R = "HCHF_LIQUIDATION_RESERVE (fc_constants ctx)"
  show "autoRatio \<le> Decimal_mulDiv (form_collateral s') (fc_price ctx) (Opening_totalDebt ctx s')"
  proof (cases "Decimal_div (Decimal_mul newCol (fc_price ctx)) (Opening_totalDebt ctx s) < autoRatio")
    case True
    then obtain d where d: "Decimal_sub ?X ?R = Inr d"
      using assms newCol by (auto simp: Opening_collateralHandler_def Let_def rbind_eq_Inr_iff split: sum.splits)
    then have s': "form_collateral s' = newCol"
      "form_debt s' = Decimal_div d (Decimal_add (fc_borrowingRate ctx) Decimal_ONE)"
      using assms newCol True by (auto simp: Opening_collateralHandler_def Let_def)
    have "bigNumber (Opening_totalDebt ctx s') \<le> bigNumber ?X"
    proof -
      have "bigNumber ?R + bigNumber d = bigNumber ?X" using d by (auto simp: Decimal_sub_eq_Inr_iff less_eq_decimal_def)
      then show ?thesis
        using applyFee_of_quotient [of "fc_borrowingRate ctx" d] by (simp add: Opening_totalDebt_eq s')
    qed
    then have "bigNumber (Opening_totalDebt ctx s') * bigNumber autoRatio \<le> bigNumber newCol * bigNumber (fc_price ctx)"
      using limit_times_ratio [OF autoRatio_nonzero] by (meson le_trans mult_le_mono1)
    then show ?thesis unfolding s'(1) by (rule ratio_from_limit) (rule autoRatio_finite)
  next
    case False
    then have "s' = s\<lparr>form_collateral := newCol\<rparr>"
      using assms newCol by (auto simp: Opening_collateralHandler_def Let_def)
    then have "form_collateral s' = newCol" "Opening_totalDebt ctx s' = Opening_totalDebt ctx s"
      by (simp_all add: Opening_totalDebt_eq)
    then show ?thesis using False value_le_ratio [of newCol "fc_price ctx" "Opening_totalDebt ctx s"] by simp
  qed
qed

text \<open>The collateral computed for a debt is rounded down, so the ratio may fall short.\<close>

lemma div_add_le: "0 < t \<Longrightarrow> (a + b) div t \<le> a div t + b div t + (1 :: nat)"
proof -
  assume t: "0 < t"
  have "a mod t + b mod t < 2 * t" using t by (simp add: add_strict_mono mult_2)
  then have "(a mod t + b mod t) div t \<le> 1" using t by (simp add: less_mult_imp_div_less less_Suc_eq_le [symmetric])
  then show "(a + b) div t \<le> a div t + b div t + 1" unfolding div_add1_eq [of a b t] by linarith
qed

lemma rounded_collateral_ratio:
  fixes t p :: nat
  assumes "0 < t" and "0 < p"
  shows "150000000 \<le> (t * 150000000 div DIGITS * DIGITS div p) * p div t + (DIGITS + p) div t + 1"
proof -
  let ?M = "t * 150000000 div DIGITS"
  have "?M * DIGITS \<le> ?M * DIGITS div p * p + p" "t * 150000000 \<le> ?M * DIGITS + DIGITS"
    using assms(2) DIGITS_pos by (metis add.commute add_left_mono div_mult_mod_eq mod_less_divisor order_less_imp_le)+
  then have "t * 150000000 \<le> ?M * DIGITS div p * p + (DIGITS + p)" by linarith
  then have "150000000 \<le> (?M * DIGITS div p * p + (DIGITS + p)) div t"
    using assms(1) by (simp add: less_eq_div_iff_mult_less_eq mult.commute)
  then show ?thesis using div_add_le [OF assms(1), of "?M * DIGITS div p * p" "DIGITS + p"] by linarith
qed

lemma Opening_netDebtHandler_ratio:
  assumes "auto s" and "Opening_netDebtHandler ctx amount s = (s', None)" and "fc_price ctx \<noteq> Decimal_ZERO"
    and "HCHF_LIQUIDATION_RESERVE (fc_constants ctx) \<noteq> Decimal_ZERO"
  shows "150000000 \<le> bigNumber (Trove_collateralRatio (Opening_trove ctx s') (fc_price ctx))
    + (DIGITS + bigNumber (fc_price ctx)) div bigNumber (Opening_totalDebt ctx s') + 1"
proof (cases "Opening_isDirty s'")
  case dirty: True
  obtain newDebt where newDebt: "Decimal_from amount = Inr newDebt"
    using assms(2) by (auto simp: Opening_netDebtHandler_def split: sum.splits)
  let ?T = "Opening_totalDebt ctx s'" and ?p = "fc_price ctx"
  have T: "Decimal_add (Decimal_add newDebt (HCHF_LIQUIDATION_RESERVE (fc_constants ctx))) (Decimal_mul newDebt (fc_borrowingRate ctx)) = ?T"
    using assms(2) newDebt by (auto simp: Opening_netDebtHandler_def Let_def Opening_totalDebt_def Opening_fee_def split: if_splits)
  have pos: "?T \<noteq> Decimal_ZERO" "0 < bigNumber ?T" "0 < bigNumber ?p"
    using assms(3,4) by (auto simp: Opening_totalDebt_def Decimal_ZERO_def Decimal_add_def decimal.expand intro: gr0I)
  have ratio: "Trove_collateralRatio (Opening_trove ctx s') ?p = Decimal_mulDiv (form_collateral s') ?p ?T"
    using dirty by (simp add: Opening_trove_def Trove_collateralRatio_def)
  show ?thesis
  proof (cases "Decimal_div (Decimal_mul (form_collateral s) ?p) ?T < autoRatio")
    case True
    then have "s\<lparr>form_debt := newDebt, form_collateral := Decimal_div (Decimal_mul ?T autoRatio) ?p\<rparr> = s'"
      using assms(1,2) newDebt T by (simp add: Opening_netDebtHandler_def Let_def)
    from arg_cong [OF this, of form_collateral] have "form_collateral s' = Decimal_div (Decimal_mul ?T autoRatio) ?p" by simp
    then show ?thesis
      using rounded_collateral_ratio [OF pos(2,3)] pos assms(3) unfolding ratio
      by (simp add: Decimal_mulDiv_def Decimal_div_def Decimal_mul_def autoRatio_def)
  next
    case False
    then have "form_collateral s' = form_collateral s"
      using assms(1,2) newDebt T by (auto simp: Opening_netDebtHandler_def Let_def)
    then show ?thesis
      using False value_le_ratio [of "form_collateral s" ?p ?T] unfolding ratio
      by (simp add: autoRatio_def less_eq_decimal_def less_decimal_def)
  qed
next
  case False
  then show ?thesis
    by (simp add: Opening_trove_def Trove_collateralRatio_def empty_Trove_def Decimal_INFINITY_def MAX_UINT_256_def)
qed

text \<open>At a price of 0.07, a debt of 1800 in the form.\<close>

definition sample_form_context :: form_context where
  "sample_form_context = \<lparr>fc_constants = defaults, fc_borrowingRate = Decimal 500000, fc_price = Decimal 7000000,
     fc_accountBalance = Decimal 10000000000000\<rparr>"

definition sample_form :: trove_form where
  "sample_form = Opening_init\<lparr>auto := True\<rparr>"

lemma sample_netDebt_entered:
  "Opening_netDebtHandler sample_form_context (DecimalObject (Decimal 180000000000)) sample_form =
     (\<lparr>form_collateral = Decimal 3919285714285, form_debt = Decimal 180000000000, auto = True\<rparr>, None)"
  by (simp add: Opening_netDebtHandler_def sample_form_context_def sample_form_def Opening_init_def autoRatio_def defaults_def
      Decimal_div_def Decimal_mul_def Decimal_add_def less_decimal_def decimal_unfold Let_def)

text \<open>
  Automatic adjustment while opening a trove. After new collateral is entered, the ratio shown is at least 150\%.
  After a new debt is entered, the collateral is rounded down: the ratio can only be bounded by 150\% less a rounding error,
  and it is below 150\% in some cases.
\<close>

theorem Opening_auto_ratio:
  assumes "auto s" and "Opening_collateralHandler ctx x s = (s1, None)" and "Opening_netDebtHandler ctx y s = (s2, None)"
    and "fc_price ctx \<noteq> Decimal_ZERO" and "HCHF_LIQUIDATION_RESERVE (fc_constants ctx) \<noteq> Decimal_ZERO"
  shows "autoRatio \<le> Trove_collateralRatio (Opening_trove ctx s1) (fc_price ctx)
    \<and> 150000000 \<le> bigNumber (Trove_collateralRatio (Opening_trove ctx s2) (fc_price ctx))
        + (DIGITS + bigNumber (fc_price ctx)) div bigNumber (Opening_totalDebt ctx s2) + 1
    \<and> (\<exists>c a t t'. auto t \<and> Opening_netDebtHandler c a t = (t', None)
         \<and> Trove_collateralRatio (Opening_trove c t') (fc_price c) < autoRatio)"
proof (intro conjI)
  let ?t' = "\<lparr>form_collateral = Decimal 3919285714285, form_debt = Decimal 180000000000, auto = True\<rparr>"
  have "auto sample_form" "Trove_collateralRatio (Opening_trove sample_form_context ?t') (fc_price sample_form_context) < autoRatio"
    by (simp_all add: sample_form_def sample_form_context_def Opening_trove_def Opening_isDirty_def Opening_totalDebt_def Opening_fee_def
        Trove_collateralRatio_def Decimal_mulDiv_def Decimal_mul_def Decimal_add_def defaults_def autoRatio_def less_decimal_def decimal_unfold)
  then show "\<exists>c a t t'. auto t \<and> Opening_netDebtHandler c a t = (t', None)
      \<and> Trove_collateralRatio (Opening_trove c t') (fc_price c) < autoRatio"
    using sample_netDebt_entered by blast
qed (use assms Opening_collateralHandler_ratio Opening_netDebtHandler_ratio in blast)+

theorem Opening_auto_ratio_witness:
  "\<exists>s1. Opening_collateralHandler sample_form_context (DecimalObject (Decimal 3919285714285))
       (sample_form\<lparr>form_debt := Decimal 200000000000\<rparr>) = (s1, None)
     \<and> form_debt s1 = Decimal 179999999999
     \<and> autoRatio \<le> Trove_collateralRatio (Opening_trove sample_form_context s1) (fc_price sample_form_context)"
proof -
  let ?s = "sample_form\<lparr>form_debt := Decimal 200000000000\<rparr>"
  let ?s1 = "\<lparr>form_collateral = Decimal 3919285714285, form_debt = Decimal 179999999999, auto = True\<rparr>"
  note eval = sample_form_context_def sample_form_def Opening_init_def autoRatio_def defaults_def Opening_totalDebt_def Opening_fee_def
    Decimal_div_def Decimal_mul_def Decimal_add_def Decimal_sub_ok less_decimal_def less_eq_decimal_def decimal_unfold Let_def
  have coll: "Opening_collateralHandler sample_form_context (DecimalObject (Decimal 3919285714285)) ?s = (?s1, None)"
    by (simp add: Opening_collateralHandler_def eval)
  obtain s2 where debt: "Opening_netDebtHandler sample_form_context (DecimalObject (Decimal 180000000000)) ?s = (s2, None)"
    by (simp add: Opening_netDebtHandler_def eval)
  have "auto ?s" "fc_price sample_form_context \<noteq> Decimal_ZERO"
    "HCHF_LIQUIDATION_RESERVE (fc_constants sample_form_context) \<noteq> Decimal_ZERO"
    by (simp_all add: eval)
  from Opening_auto_ratio [OF this(1) coll debt this(2,3)] show ?thesis using coll by auto
qed

section \<open>The form for adjusting a trove\<close>

lemma whatChanged_total:
  assumes "trove_constants t = trove_constants u" and "HCHF_LIQUIDATION_RESERVE (trove_constants t) \<le> debt t"
  shows "\<exists>c. Trove_whatChanged t u rate = Inr c"
  using assms Trove_netDebt_ok [of t] Trove_netDebt_ok [of u]
  by (auto simp: Trove_whatChanged_def Let_def Trove_debtChange_eq Trove_collateralChange_eq not_less)

lemma Difference_between_total: "\<exists>d. Difference_between (map_option DecimalObject a) (map_option DecimalObject b) = Inr d"
  by (cases a; cases b) (auto simp: Difference_between_def Decimal_sub_ok)

lemma validateTroveChange_total:
  assumes "trove_constants t = trove_constants u" and "HCHF_LIQUIDATION_RESERVE (trove_constants t) \<le> debt t"
  shows "\<exists>x. validateTroveChange t u rate st cs connected = Inr x"
proof -
  obtain c where "Trove_whatChanged t u (Some rate) = Inr c" using whatChanged_total [OF assms] by blast
  then show ?thesis using validateTroveChange_cases [OF assms(1), of rate st cs connected] by (cases c) auto
qed

lemma feeFrom_total:
  assumes "trove_constants t = trove_constants u" and "HCHF_LIQUIDATION_RESERVE (trove_constants t) \<le> debt t"
  shows "\<exists>f. feeFrom t u rate = Inr f"
  using whatChanged_total [OF assms, of "Some rate"] by (auto simp: feeFrom_def)

lemma Adjusting_values_total:
  assumes "trove_constants t = fc_constants ctx" and "HCHF_LIQUIDATION_RESERVE (fc_constants ctx) \<le> debt t"
  shows "\<exists>v. Adjusting_values ctx t s = Inr v \<and> trove_constants (updatedTrove v) = fc_constants ctx"
proof -
  obtain n where n: "Trove_netDebt t = Inr n" using assms Trove_netDebt_ok [of t] by auto
  let ?u = "new_Trove (fc_constants ctx) (collateral t) (Decimal_add (debt t) (Decimal (bigNumber (form_debt s) - bigNumber n)))"
  obtain f where f: "feeFrom (trove.truncate t) ?u (fc_borrowingRate ctx) = Inr f"
    using feeFrom_total [of "trove.truncate t" ?u] assms by auto
  obtain m where m: "(if Decimal_gt (Decimal_add (collateral t) (fc_accountBalance ctx)) TX_MAX_COSTS
      then Decimal_sub (Decimal_add (collateral t) (fc_accountBalance ctx)) TX_MAX_COSTS else Inr Decimal_ZERO) = Inr m"
    by (cases "TX_MAX_COSTS < Decimal_add (collateral t) (fc_accountBalance ctx)") (simp_all add: Decimal_sub_ok)
  show ?thesis
    using n f m assms(1) by (cases "n < form_debt s") (simp_all add: Adjusting_values_def Let_def Decimal_sub_ok)
qed

text \<open>
  The form for adjusting a trove can be rendered exactly as long as the debt of the trove covers the liquidation reserve.
  In particular, the test for a trove that is no longer open, which should render nothing, is not reached for an empty
  trove: rendering throws before it, as does the hook that initialises the form.
\<close>

theorem Adjusting_render_throws_iff:
  assumes "trove_constants t = fc_constants ctx"
  shows "((\<exists>e. Adjusting_render ctx t s st connected = Inl e) \<longleftrightarrow> debt t < HCHF_LIQUIDATION_RESERVE (fc_constants ctx))
    \<and> ((\<exists>e. Adjusting_init t = Inl e) \<longleftrightarrow> debt t < HCHF_LIQUIDATION_RESERVE (fc_constants ctx))
    \<and> (Adjusting_render ctx t s st connected = Inr None
       \<longleftrightarrow> status t \<noteq> Open \<and> HCHF_LIQUIDATION_RESERVE (fc_constants ctx) \<le> debt t)"
proof (cases "debt t < HCHF_LIQUIDATION_RESERVE (fc_constants ctx)")
  case True
  then have "\<exists>e. Trove_netDebt t = Inl e" using assms Trove_netDebt_throws [of t] by auto
  then show ?thesis using True by (auto simp: Adjusting_render_def Adjusting_init_def)
next
  case False
  then have reserve: "HCHF_LIQUIDATION_RESERVE (fc_constants ctx) \<le> debt t" by simp
  obtain n where n: "Trove_netDebt t = Inr n" using assms reserve Trove_netDebt_ok [of t] by auto
  obtain v where v: "Adjusting_values ctx t s = Inr v" "trove_constants (updatedTrove v) = fc_constants ctx"
    using Adjusting_values_total [OF assms reserve] by blast
  obtain d where d: "Difference_between (map_option DecimalObject (av_collateralRatio v))
      (Some (DecimalObject (Trove_collateralRatio t (fc_price ctx)))) = Inr d"
    using Difference_between_total [of "av_collateralRatio v" "Some (Trove_collateralRatio t (fc_price ctx))"] by auto
  obtain x where x: "validateTroveChange (trove.truncate t) (updatedTrove v) (fc_borrowingRate ctx) st (fc_constants ctx) connected = Inr x"
    using validateTroveChange_total [of "trove.truncate t" "updatedTrove v" "fc_borrowingRate ctx" st "fc_constants ctx" connected]
      v(2) assms reserve by auto
  show ?thesis using False reserve n v(1) d x by (simp add: Adjusting_render_def Adjusting_init_def)
qed

text \<open>A trove that was liquidated while it was being adjusted.\<close>

theorem Adjusting_render_throws_iff_witness:
  "(\<exists>e. Adjusting_render sample_form_context (new_UserTrove defaults ''0xA'' ClosedByLiquidation Decimal_ZERO Decimal_ZERO)
      sample_form sample_validation True = Inl e)
   \<and> Adjusting_render sample_form_context (new_UserTrove defaults ''0xA'' ClosedByLiquidation Decimal_ZERO (Decimal 9000000000))
      sample_form sample_validation True = Inr None"
proof -
  have same: "trove_constants (new_UserTrove defaults ''0xA'' ClosedByLiquidation c d) = fc_constants sample_form_context" for c d
    by (simp add: new_UserTrove_def sample_form_context_def)
  show ?thesis
    using Adjusting_render_throws_iff [OF same, where s = sample_form and st = sample_validation and connected = True]
    by (auto simp: new_UserTrove_def sample_form_context_def defaults_def decimal_unfold)
qed

section \<open>Limits\<close>

lemma getFee_eq: "getFee rate total' prev = Inr (Decimal ((bigNumber total' - bigNumber prev) * bigNumber rate div DIGITS))"
  by (auto simp: getFee_def Decimal_sub_ok Decimal_mul_def Decimal_ZERO_def less_eq_decimal_def)



text \<open>The collateral that may be entered leaves the cost of transactions in the account.\<close>

lemma useMaxTroveCollateral_leaves_cost:
  "\<exists>m. useMaxTroveCollateral held balance = Inr m
     \<and> (m = Decimal_ZERO \<or> Decimal_add m maximumTransactionCost = Decimal_add held balance)"
proof (cases "maximumTransactionCost < Decimal_add held balance")
  case True
  then obtain m where m: "Decimal_sub (Decimal_add held balance) maximumTransactionCost = Inr m"
    by (simp add: Decimal_sub_ok)
  then show ?thesis
    using True Decimal_sub_add [OF m] by (simp add: useMaxTroveCollateral_def Let_def Decimal_add_commute [of m])
qed (simp add: useMaxTroveCollateral_def Let_def)


text \<open>A trove opened through the form, with enough in the account.\<close>

definition sample_entered :: trove_form where
  "sample_entered = \<lparr>form_collateral = Decimal 4000000000000, form_debt = Decimal 180000000000, auto = False\<rparr>"

definition sample_opening_state :: trove_validation_state where
  "sample_opening_state = \<lparr>vs_price = Decimal 7000000, vs_total = empty_Trove defaults, vs_accountBalance = Decimal 10000000000000,
     vs_hchfBalance = Decimal_ZERO, vs_numberOfTroves = 0\<rparr>"

lemma sample_opening_validated:
  "\<exists>d. Opening_validation sample_form_context sample_entered sample_opening_state True =
     Inr (Some (Creation \<lparr>create_depositCollateral = Decimal 4000000000000, create_borrowHCHF = Decimal 180000000000\<rparr>), Some d)"
proof -
  note eval = sample_form_context_def sample_entered_def sample_opening_state_def Opening_trove_def Opening_isDirty_def Opening_totalDebt_def
    Opening_fee_def empty_Trove_def defaults_def Decimal_mul_def Decimal_add_def decimal_unfold
  let ?E = "empty_Trove (fc_constants sample_form_context)" and ?u = "Opening_trove sample_form_context sample_entered"
  let ?c = "Creation \<lparr>create_depositCollateral = Decimal 4000000000000, create_borrowHCHF = Decimal 180000000000\<rparr>"
  have same: "trove_constants ?E = trove_constants ?u" by (simp add: eval)
  have change: "Trove_whatChanged ?E ?u (Some (fc_borrowingRate sample_form_context)) = Inr (Some ?c)"
    by (simp add: Trove_whatChanged_def Trove_isEmpty_def Trove_netDebt_def rate_or_default_def unapplyFee_def Decimal_divCeil_def
        Decimal_sub_ok less_decimal_def less_eq_decimal_def eval Let_def)
  have result: "Trove_apply ?E (Some ?c) (Some (fc_borrowingRate sample_form_context)) = Inr ?u"
    by (simp add: Trove_apply_def Trove_isEmpty_def rate_or_default_def applyFee_def eval Let_def)
  have "permitted defaults (validation_context ?E ?u sample_opening_state True) ?c"
    by (simp add: validation_context_def trove_validation_state.extend_def within_ratios_def Trove_collateralRatioIsBelowMinimum_def
        Trove_collateralRatioIsBelowCritical_def Trove_collateralRatio_def Decimal_mulDiv_def trove_ops sub_or_zero_eq
        less_decimal_def less_eq_decimal_def MAX_UINT_256_def eval)
  then show ?thesis
    using validateTroveChange_cases [OF same, of "fc_borrowingRate sample_form_context" sample_opening_state defaults True] change result
    by (auto simp: Opening_validation_def sample_form_context_def)
qed

theorem Opening_submits_shown_trove_witness:
  "\<exists>b. Decimal 180000000000 = b \<and> HCHF_MINIMUM_NET_DEBT defaults \<le> b \<and> b \<le> form_debt sample_entered
    \<and> Trove_apply (empty_Trove defaults) (Some (Creation \<lparr>create_depositCollateral = Decimal 4000000000000, create_borrowHCHF = b\<rparr>))
        (Some (Decimal 500000)) = Inr (Opening_trove sample_form_context sample_entered)"
proof -
  obtain d where "Opening_validation sample_form_context sample_entered sample_opening_state True =
     Inr (Some (Creation \<lparr>create_depositCollateral = Decimal 4000000000000, create_borrowHCHF = Decimal 180000000000\<rparr>), d)"
    using sample_opening_validated by blast
  from Opening_submits_shown_trove [OF this] show ?thesis by (auto simp: sample_form_context_def)
qed


section \<open>Errors of the handlers\<close>

lemma Decimal_sub_Inl_iff: "(\<exists>e. Decimal_sub a b = Inl e) \<longleftrightarrow> a < b"
  by (cases "a < b") (auto simp: Decimal_sub_ok not_less dest: Decimal_sub_throws)

text \<open>
  With automatic adjustment, entering collateral throws exactly if the ratio is below 150\% and the collateral is worth
  less than 150\% of the liquidation reserve (and, while adjusting, the borrowing fee). The form for opening has taken over the
  collateral by then, the one for adjusting ignores the input.
\<close>

theorem auto_collateral_throws_iff:
  fixes ctx :: form_context
  assumes "Decimal_from x = Inr c" and "auto s"
  defines "X \<equiv> Decimal_div (Decimal_mul c (fc_price ctx)) autoRatio" and "R \<equiv> HCHF_LIQUIDATION_RESERVE (fc_constants ctx)"
  shows "(snd (Opening_collateralHandler ctx x s) \<noteq> None \<longleftrightarrow>
      Decimal_div (Decimal_mul c (fc_price ctx)) (Opening_totalDebt ctx s) < autoRatio \<and> X < R)
    \<and> form_collateral (fst (Opening_collateralHandler ctx x s)) = c
    \<and> (snd (Adjusting_collateralHandler ctx v x s) \<noteq> None \<longleftrightarrow>
      Decimal_div (Decimal_mul c (fc_price ctx)) (av_totalDebt v) < autoRatio \<and> X < Decimal_add R (av_fee v))
    \<and> fst (Adjusting_collateralHandler ctx v x s) =
      (if snd (Adjusting_collateralHandler ctx v x s) \<noteq> None then s
       else (fst (Adjusting_collateralHandler ctx v x s))\<lparr>form_collateral := c\<rparr>)"
proof (intro conjI)
  have O: "Opening_collateralHandler ctx x s =
      (if Decimal_div (Decimal_mul c (fc_price ctx)) (Opening_totalDebt ctx s) < autoRatio
       then case Decimal_sub X R of Inl e \<Rightarrow> (s\<lparr>form_collateral := c\<rparr>, Some e)
         | Inr d \<Rightarrow> (s\<lparr>form_collateral := c, form_debt := Decimal_div d (Decimal_add (fc_borrowingRate ctx) Decimal_ONE)\<rparr>, None)
       else (s\<lparr>form_collateral := c\<rparr>, None))"
    using assms(1,2) by (cases "Decimal_sub X R") (auto simp: Opening_collateralHandler_def Let_def X_def R_def)
  show "snd (Opening_collateralHandler ctx x s) \<noteq> None \<longleftrightarrow>
      Decimal_div (Decimal_mul c (fc_price ctx)) (Opening_totalDebt ctx s) < autoRatio \<and> X < R"
    unfolding O Decimal_sub_Inl_iff [of X R, symmetric] by (auto split: sum.split)
  show "form_collateral (fst (Opening_collateralHandler ctx x s)) = c"
    unfolding O by (auto split: sum.split)
  have A: "Adjusting_collateralHandler ctx v x s =
      (if Decimal_div (Decimal_mul c (fc_price ctx)) (av_totalDebt v) < autoRatio
       then case rbind (Decimal_sub X R) (\<lambda>d. Decimal_sub d (av_fee v)) of Inl e \<Rightarrow> (s, Some e)
         | Inr d \<Rightarrow> (s\<lparr>form_debt := d, form_collateral := c\<rparr>, None)
       else (s\<lparr>form_collateral := c\<rparr>, None))"
    using assms(1,2) by (cases "rbind (Decimal_sub X R) (\<lambda>d. Decimal_sub d (av_fee v))")
      (auto simp: Adjusting_collateralHandler_def Let_def X_def R_def)
  have "(\<exists>e. rbind (Decimal_sub X R) (\<lambda>d. Decimal_sub d (av_fee v)) = Inl e) \<longleftrightarrow> X < Decimal_add R (av_fee v)"
  proof (cases "X < R")
    case True
    then have "X < Decimal_add R (av_fee v)" by (simp add: less_decimal_def)
    then show ?thesis using True Decimal_sub_Inl_iff [of X R] by auto
  next
    case False
    then have "Decimal_sub X R = Inr (Decimal (bigNumber X - bigNumber R))" "bigNumber R \<le> bigNumber X"
      by (simp_all add: Decimal_sub_ok) (simp add: less_decimal_def)
    then show ?thesis
      using Decimal_sub_Inl_iff [of "Decimal (bigNumber X - bigNumber R)" "av_fee v"] by (auto simp: less_decimal_def)
  qed
  then show "snd (Adjusting_collateralHandler ctx v x s) \<noteq> None \<longleftrightarrow>
      Decimal_div (Decimal_mul c (fc_price ctx)) (av_totalDebt v) < autoRatio \<and> X < Decimal_add R (av_fee v)"
    unfolding A by (auto split: sum.split)
  show "fst (Adjusting_collateralHandler ctx v x s) =
      (if snd (Adjusting_collateralHandler ctx v x s) \<noteq> None then s
       else (fst (Adjusting_collateralHandler ctx v x s))\<lparr>form_collateral := c\<rparr>)"
    unfolding A by (auto split: sum.split)
qed

text \<open>Ten units of collateral at a price of 0.07.\<close>

theorem auto_collateral_throws_iff_witness:
  "snd (Opening_collateralHandler sample_form_context (Text ''10'') (sample_form\<lparr>form_debt := Decimal 180000000000\<rparr>)) \<noteq> None
   \<and> form_collateral (fst (Opening_collateralHandler sample_form_context (Text ''10'') (sample_form\<lparr>form_debt := Decimal 180000000000\<rparr>)))
       = Decimal 1000000000"
proof -
  have ten: "Decimal_from (Text ''10'') = Inr (Decimal 1000000000)" by (simp add: Decimal_from_def parse_eval)
  have aut: "auto (sample_form\<lparr>form_debt := Decimal 180000000000\<rparr>)" by (simp add: sample_form_def)
  from auto_collateral_throws_iff [OF ten aut, of sample_form_context] show ?thesis
    by (simp add: sample_form_context_def sample_form_def autoRatio_def defaults_def Opening_totalDebt_def Opening_fee_def Decimal_div_def
        Decimal_mul_def Decimal_add_def less_decimal_def decimal_unfold)
qed

end
