(* ===== verification/Frontend_Actions.thy ===== *)
theory Frontend_Actions
  imports Frontend_Forms Hashgraph_Transactions
begin

text \<open>
  From a validated change to a transaction of the client: the actions behind the buttons of
  \<^verbatim>\<open>packages/dev-frontend/src/components\<close> (\<^verbatim>\<open>TroveAction\<close>, \<^verbatim>\<open>StabilityDepositAction\<close>, \<^verbatim>\<open>StakingManagerAction\<close>, the staking
  buttons of \<^verbatim>\<open>Mine\<close>) and the hook \<^verbatim>\<open>useTroveTransactionFunction\<close>. An action is the call of \<^verbatim>\<open>liquity.send\<close> that is made.
\<close>

text \<open>\<^verbatim>\<open>borrowingRate.add(0.005)\<close>, the rate up to which a borrowing is accepted.\<close>

definition maxBorrowingRate :: "decimal \<Rightarrow> decimal" where
  "maxBorrowingRate rate = Decimal_add rate (Decimal 500000)"

lemma maxBorrowingRate_literal: "Decimal_from (Number ''0.005'') = Inr (Decimal 500000)"
  by (simp add: Decimal_from_def parse_eval)

text \<open>The type of changes that can be sent excludes invalid creations, for which there is no call.\<close>

fun TroveAction :: "trove_change \<Rightarrow> decimal \<Rightarrow> liquity_action option" where
  "TroveAction (Creation params) m = Some (Action_openTrove (creation_entries params) (Some (DecimalObject m)))"
| "TroveAction (Closure params) m = Some Action_closeTrove"
| "TroveAction (Adjustment params _) m = Some (Action_adjustTrove (adjustment_entries params) (Some (DecimalObject m)))"
| "TroveAction (InvalidCreation _ _) m = None"

definition useTroveTransactionFunction :: "trove_change option \<Rightarrow> decimal \<Rightarrow> liquity_action result" where
  "useTroveTransactionFunction change rate = (case change of
      Some (Creation params) \<Rightarrow> Inr (Action_openTrove (creation_entries params) (Some (DecimalObject (maxBorrowingRate rate))))
    | Some (Closure params) \<Rightarrow> Inr Action_closeTrove
    | Some (Adjustment params _) \<Rightarrow>
        Inr (Action_adjustTrove (adjustment_entries params) (Some (DecimalObject (maxBorrowingRate rate))))
    | _ \<Rightarrow> Inl (Error ''You cannot modify your trove like this.''))"

definition StabilityDepositAction :: "bool \<Rightarrow> string \<Rightarrow> decimal stability_change \<Rightarrow> liquity_action" where
  "StabilityDepositAction frontendRegistered tag change =
     (let frontendTag' = (if frontendRegistered then Some tag else None) in
      case change of
        DepositHCHF d \<Rightarrow> Action_depositHCHFInStabilityPool (DecimalObject d) frontendTag'
      | WithdrawHCHF w _ \<Rightarrow> Action_withdrawHCHFFromStabilityPool (DecimalObject w))"

definition StakingManagerAction :: "decimal stake_change \<Rightarrow> liquity_action" where
  "StakingManagerAction change = (case change of
      StakeHLQT s \<Rightarrow> Action_stakeHLQT (DecimalObject s)
    | UnstakeHLQT u _ \<Rightarrow> Action_unstakeHLQT (DecimalObject u))"

definition mine_transactionAction :: "mine_stake_validation \<Rightarrow> liquity_action" where
  "mine_transactionAction v = (if isWithdrawing v then Action_unstakeUniTokens (DecimalObject (amountChanged v))
     else Action_stakeUniTokens (DecimalObject (amountChanged v)))"

lemma TroveAction_is_hook:
  "TroveAction c (maxBorrowingRate rate) = (case useTroveTransactionFunction (Some c) rate of Inr a \<Rightarrow> Some a | Inl _ \<Rightarrow> None)"
  by (cases c) (simp_all add: useTroveTransactionFunction_def)

text \<open>The transaction for opening a trove with a maximum rate of one's own, at the rate that the client reads.\<close>

lemma populateOpenTrove_with_maximum:
  assumes "populateOpenTrove p (creation_entries n) (Some (DecimalObject m)) = Inr tx" and "reads_hbars p"
    and "create_depositCollateral n \<noteq> Decimal_INFINITY"
    and "Hashgraph_getFees (pop_client p) (pop_contracts p) None = Inr f" and "Fees_borrowingRate f None = Inr rate"
    and "sorted_troves (pop_contracts p) (pop_hints p) troves"
    and "Trove_apply (empty_Trove (client_constants (pop_client p))) (Some (Creation n)) (Some rate) = Inr t"
  shows "opening_call (rawPopulatedTransaction tx) = Some (bigNumber m, bigNumber (create_borrowHCHF n), bigNumber (collateral t))"
    and "debt t = Decimal_add (HCHF_LIQUIDATION_RESERVE (client_constants (pop_client p))) (applyFee rate (create_borrowHCHF n))"
    and "valid_insert_position troves (bigNumber (Trove_nominalCollateralRatio t))
      (position_hints (the (functionParameters (rawPopulatedTransaction tx))))"
proof -
  let ?c = "client_constants (pop_client p)"
  have create: "Trove_create ?c (creation_entries n) (Some rate) = Inr t"
    using assms(7) by (simp add: Trove_create_def)
  with assms(1-5) obtain hints where hints: "findHints p t = Inr hints"
    and raw: "rawPopulatedTransaction tx = TypedContractExecuteTransaction BorrowerOperations ''openTrove''
      (Some [Uint256 (bigNumber m), Uint256 (bigNumber (create_borrowHCHF n)), AddressValue (fst hints), AddressValue (snd hints)])
      (Some (bigNumber (create_depositCollateral n)))
      (3000000 + gasForPotentialLastFeeOperationTimeUpdate + gasForPotentialListTraversal)"
    by (auto simp: populateOpenTrove_def rbind_eq_Inr_iff Decimal_toString_None reads_hbars_def
        getPopulatedHashgraphLiquityTransaction_def Let_def)
  have t: "t = new_Trove ?c (create_depositCollateral n)
      (Decimal_add (HCHF_LIQUIDATION_RESERVE ?c) (applyFee rate (create_borrowHCHF n)))"
    using assms(7) by (simp add: Trove_apply_def rate_or_default_def)
  then show "opening_call (rawPopulatedTransaction tx) = Some (bigNumber m, bigNumber (create_borrowHCHF n), bigNumber (collateral t))"
    by (simp add: raw opening_call_def TypedContractExecuteTransaction_def)
  show "debt t = Decimal_add (HCHF_LIQUIDATION_RESERVE ?c) (applyFee rate (create_borrowHCHF n))"
    by (simp add: t)
  show "valid_insert_position troves (bigNumber (Trove_nominalCollateralRatio t))
      (position_hints (the (functionParameters (rawPopulatedTransaction tx))))"
    using findHints_valid_position [OF assms(6) hints] by (simp add: raw TypedContractExecuteTransaction_def)
qed

text \<open>The client's sample with a base rate of zero and a total ratio of 500\%, in normal mode.\<close>

definition sample_normal_mode :: population where
  "sample_normal_mode = sample_population\<lparr>pop_contracts := sample_contracts\<lparr>
     troveManager_baseRate := (\<lambda>_. Inr 0), activePool_getETH := (\<lambda>_. Inr 20000000000000)\<rparr>\<rparr>"

lemma sample_normal_mode_rate:
  "\<exists>f. Hashgraph_getFees (pop_client sample_normal_mode) (pop_contracts sample_normal_mode) None = Inr f
     \<and> Fees_borrowingRate f None = Inr (Decimal 500000)"
proof -
  have "\<exists>f. Hashgraph_getFees (pop_client sample_normal_mode) (pop_contracts sample_normal_mode) None = Inr f
      \<and> minutesSinceLastFeeOperation f None \<le> 0xffffffff \<and> \<not> Fees.recoveryMode f \<and> fees_constants f = defaults
      \<and> baseRateWithoutDecay f = Decimal_ZERO"
    by (simp add: sample_normal_mode_def sample_ledger_eval Hashgraph_getFees_def Trove_collateralRatioIsBelowCritical_def
        Trove_collateralRatio_def Trove_add_def Decimal_mulDiv_def Decimal_add_def less_decimal_def defaults_def decimal_unfold Let_def)
  then obtain f where f: "Hashgraph_getFees (pop_client sample_normal_mode) (pop_contracts sample_normal_mode) None = Inr f"
    "minutesSinceLastFeeOperation f None \<le> 0xffffffff" "\<not> Fees.recoveryMode f" "fees_constants f = defaults"
    "baseRateWithoutDecay f = Decimal_ZERO" by blast
  then obtain p where "Decimal_pow (minuteDecayFactor f) (minutesSinceLastFeeOperation f None) = Inr p"
    using Fees_baseRate_exists [of f None] by (auto simp: Fees_baseRate_def rbind_eq_Inr_iff)
  with f have "Fees_borrowingRate f None = Inr (Decimal 500000)"
    by (simp add: Fees_borrowingRate_def Fees_baseRate_def Decimal_mul_def Decimal_add_def Decimal_min_def less_decimal_def
        defaults_def decimal_unfold)
  with f(1) show ?thesis by blast
qed

lemma sample_normal_mode_simps [simp]:
  "pop_client sample_normal_mode = sample_client" "pop_hints sample_normal_mode = sample_hints"
  by (simp_all add: sample_normal_mode_def)

lemma sample_normal_mode_sorted: "sorted_troves (pop_contracts sample_normal_mode) sample_hints sample_sorted"
  using sample_sorted_troves by (simp add: sorted_troves_def sample_normal_mode_def)

lemma sample_normal_mode_hbars: "reads_hbars sample_normal_mode"
  using sample_reads_hbars by (simp add: reads_hbars_def sample_normal_mode_def)

end
