(* ===== verification/Redemption_History.thy ===== *)
theory Redemption_History
  imports Frontend_Transactions Hashgraph_Hints
begin

text \<open>
  The history of redemptions shown by \<^verbatim>\<open>packages/dev-frontend/src/pages/RedemptionsPage.tsx\<close>, with
  \<^verbatim>\<open>utils/redemption-page/extractAffectedTroves.ts\<close> and \<^verbatim>\<open>extractRedemptionFee.ts\<close>: which troves a redemption touched, read
  from the event logs of the mirror node, and the backwards search for the state of a trove before the redemption.
\<close>

section \<open>Timestamps\<close>

text \<open>
  The mirror node documents a timestamp as \<^verbatim>\<open>seconds.nanoseconds\<close>, with nine digits after the point; two timestamps are
  equal as texts exactly if both parts are.
\<close>

record timestamp =
  seconds :: nat
  nanoseconds :: nat

definition nanos :: "timestamp \<Rightarrow> nat" where
  "nanos t = seconds t * 10 ^ 9 + nanoseconds t"

text \<open>
  \<^verbatim>\<open>parseFloat\<close> of the text of \<open>n / d\<close>: a double is a number \<open>(q, s)\<close> of units \<open>2\<^sup>-\<^sup>s\<close>, with \<open>q\<close> rounded to the nearest
  integer, ties to even, and the exponent such that \<open>q\<close> has 53 bits. (Numbers are below \<open>2\<^sup>5\<^sup>3\<close>.)
\<close>

type_synonym double = "nat \<times> nat"

function unit_exponent :: "nat \<Rightarrow> nat \<Rightarrow> nat" where
  "unit_exponent n d = (if n = 0 then 0 else if d \<le> n then 53 - bit_length (n div d) else Suc (unit_exponent (2 * n) d))"
  by pat_completeness auto

termination by (relation "measure (\<lambda>(n, d). d - n)") auto

declare unit_exponent.simps [simp del]

definition nearest :: "nat \<Rightarrow> nat \<Rightarrow> nat" where
  "nearest n d = (let q = n div d; r = n mod d in if 2 * r < d \<or> (2 * r = d \<and> even q) then q else q + 1)"

definition to_double :: "nat \<Rightarrow> nat \<Rightarrow> double" where
  "to_double n d = (let s = unit_exponent n d in (nearest (n * 2 ^ s) d, s))"

definition parseFloat :: "timestamp \<Rightarrow> double" where
  "parseFloat t = to_double (nanos t) (10 ^ 9)"

definition double_less :: "double \<Rightarrow> double \<Rightarrow> bool" where
  "double_less x y \<longleftrightarrow> fst x * 2 ^ snd y < fst y * 2 ^ snd x"

text \<open>
  The text of a double in a template string: the decimal number with the fewest digits that is read as the same double, and of
  those the nearest one. \<open>(n, k)\<close> is \<open>n / 10\<^sup>k\<close>; 20 digits after the point are always enough for numbers from one on.
\<close>

type_synonym printed = "nat \<times> nat"

function print_from :: "nat \<Rightarrow> double \<Rightarrow> printed" where
  "print_from k x =
     (let n = nearest (fst x * 10 ^ k) (2 ^ snd x); y = to_double n (10 ^ k)
      in if 20 \<le> k \<or> fst x * 2 ^ snd y = fst y * 2 ^ snd x then (n, k) else print_from (k + 1) x)"
  by pat_completeness auto

termination by (relation "measure (\<lambda>(k, x). 20 - k)") auto

declare print_from.simps [simp del]

definition number_text :: "double \<Rightarrow> printed" where
  "number_text x = print_from 0 x"

section \<open>The mirror node and the logs\<close>

record mirror_log =
  log_topics :: "string list option"
  log_data :: "string option"
  log_timestamp :: "timestamp option"

text \<open>What the package for interfaces of contracts reads from a log of the trove manager.\<close>

datatype parsed_log =
    TroveUpdated string nat nat nat
  | RedemptionLog nat
  | OtherLog

text \<open>The queries for logs: those at a timestamp, and those of a topic in an open interval, latest first, whose ends are printed numbers.\<close>

datatype log_query =
    AtTimestamp string timestamp
  | InWindow string string string printed printed nat

text \<open>
  \<open>parseLog\<close> and \<open>troveUpdatedTopic\<close> are the interface of the trove manager, \<open>getLogs\<close> and \<open>getAccount\<close> the requests to the
  mirror node, with the part of the response that is read; a response without data is \<open>None\<close>.
\<close>

record mirror_client =
  parseLog :: "string list \<Rightarrow> string \<Rightarrow> parsed_log result"
  troveUpdatedTopic :: string
  getLogs :: "log_query \<Rightarrow> mirror_log list option result"
  getAccount :: "string \<Rightarrow> string option result"

section \<open>Addresses\<close>

text \<open>\<^verbatim>\<open>text.replace(part, "")\<close> removes the first occurrence.\<close>

fun remove_first :: "string \<Rightarrow> string \<Rightarrow> string" where
  "remove_first part [] = []"
| "remove_first part (c # cs) = (if take (length part) (c # cs) = part then drop (length part) (c # cs) else c # remove_first part cs)"

definition isLongZeroAddress :: "string \<Rightarrow> bool" where
  "isLongZeroAddress address \<longleftrightarrow> take 24 (remove_first ''0x'' (map to_lower address)) = replicate 24 (CHR ''0'')"

definition addressToTopic1 :: "string \<Rightarrow> string" where
  "addressToTopic1 address = ''0x'' @ padStart 64 (CHR ''0'') (remove_first ''0x'' (map to_lower address))"

text \<open>\<^verbatim>\<open>BigInt("0x...")\<close>\<close>

definition hex_value :: "char \<Rightarrow> nat option" where
  "hex_value c = (let n = of_char c :: nat in
     if 48 \<le> n \<and> n \<le> 57 then Some (n - 48)
     else if 97 \<le> n \<and> n \<le> 102 then Some (n - 87)
     else if 65 \<le> n \<and> n \<le> 70 then Some (n - 55)
     else None)"

definition BigInt_of_hex :: "string \<Rightarrow> nat result" where
  "BigInt_of_hex s = (if s = [] \<or> list_ex (\<lambda>c. hex_value c = None) s then Inl (ExternalError ''SyntaxError'')
     else Inr (foldl (\<lambda>n c. 16 * n + the (hex_value c)) 0 s))"

definition getEcdsaAlias :: "mirror_client \<Rightarrow> string \<Rightarrow> string option" where
  "getEcdsaAlias m longZeroAddress =
     (let digits = remove_first ''0x'' longZeroAddress in
      case rbind (BigInt_of_hex (drop (length digits - 16) digits)) (\<lambda>accountNum. getAccount m (''0.0.'' @ show_nat accountNum)) of
        Inr (Some a) \<Rightarrow> if a = [] \<or> map to_lower a = map to_lower longZeroAddress then None else Some a
      | _ \<Rightarrow> None)"

section \<open>Reading logs\<close>

record parsed_trove_log =
  pl_borrower :: string
  pl_debt :: decimal
  pl_collateral :: decimal
  pl_operation :: nat

record trove_state =
  st_debt :: decimal
  st_collateral :: decimal

definition parseTroveLog :: "mirror_client \<Rightarrow> mirror_log \<Rightarrow> parsed_trove_log option" where
  "parseTroveLog m l =
     (case parseLog m (case log_topics l of Some ts \<Rightarrow> ts | None \<Rightarrow> [])
             (case log_data l of Some d \<Rightarrow> if d = [] then ''0x'' else d | None \<Rightarrow> ''0x'') of
        Inr (TroveUpdated borrower d c operation) \<Rightarrow>
          (case rbind (Decimal_fromBigNumberStringWithPrecision (int d) 8) (\<lambda>d'.
                rbind (Decimal_fromBigNumberStringWithPrecision (int c) 8) (\<lambda>c'.
                  Inr \<lparr>pl_borrower = borrower, pl_debt = d', pl_collateral = c', pl_operation = operation\<rparr>)) of
             Inr p \<Rightarrow> Some p
           | Inl _ \<Rightarrow> None)
      | _ \<Rightarrow> None)"

definition fetchLogsForTopic1 :: "mirror_client \<Rightarrow> string \<Rightarrow> string \<Rightarrow> string \<Rightarrow> double \<Rightarrow> double \<Rightarrow> nat \<Rightarrow> mirror_log list result" where
  "fetchLogsForTopic1 m contract topic0 topic1 windowStart windowEnd limit =
     rbind (getLogs m (InWindow contract topic0 topic1 (number_text windowStart) (number_text windowEnd) limit))
       (\<lambda>logs. Inr (case logs of Some ls \<Rightarrow> ls | None \<Rightarrow> []))"

definition buildTopic1Variants :: "mirror_client \<Rightarrow> string \<Rightarrow> string list" where
  "buildTopic1Variants m borrower = addressToTopic1 borrower #
     (if isLongZeroAddress borrower
      then (case getEcdsaAlias m borrower of Some a \<Rightarrow> [addressToTopic1 a] | None \<Rightarrow> [])
      else [])"

text \<open>\<^verbatim>\<open>parseFloat(log.timestamp ?? "0")\<close>, and the sort, which is stable, with the latest first.\<close>

definition log_time :: "mirror_log \<Rightarrow> double" where
  "log_time l = (case log_timestamp l of Some t \<Rightarrow> parseFloat t | None \<Rightarrow> (0, 0))"

fun insert_descending :: "mirror_log \<Rightarrow> mirror_log list \<Rightarrow> mirror_log list" where
  "insert_descending l [] = [l]"
| "insert_descending l (x # xs) = (if double_less (log_time l) (log_time x) then x # insert_descending l xs else l # x # xs)"

definition sort_descending :: "mirror_log list \<Rightarrow> mirror_log list" where
  "sort_descending ls = foldr insert_descending ls []"

definition searchWindow :: "mirror_client \<Rightarrow> string list \<Rightarrow> string \<Rightarrow> string list \<Rightarrow> double \<Rightarrow> double \<Rightarrow> timestamp
    \<Rightarrow> trove_state option result" where
  "searchWindow m contractAddresses topic0 topic1Variants windowStart windowEnd excludeTimestamp =
     rbind (mapM (\<lambda>(addr, t1). fetchLogsForTopic1 m addr topic0 t1 windowStart windowEnd 2)
       (List.product contractAddresses topic1Variants)) (\<lambda>queries.
     Inr (case sort_descending (filter (\<lambda>l. log_timestamp l \<noteq> Some excludeTimestamp) (concat queries)) of
            [] \<Rightarrow> None
          | l # _ \<Rightarrow> map_option (\<lambda>p. \<lparr>st_debt = pl_debt p, st_collateral = pl_collateral p\<rparr>) (parseTroveLog m l)))"

section \<open>The search for the previous state\<close>

definition SEVEN_DAYS_IN_SECONDS :: nat where
  "SEVEN_DAYS_IN_SECONDS = 7 * 24 * 60 * 60"

definition EARLIEST_SEARCH_FLOOR :: nat where
  "EARLIEST_SEARCH_FLOOR = 1704067200"

text \<open>
  The loop over the windows. Its times are multiples of the unit \<open>2\<^sup>-\<^sup>s\<close> of the first one: the subtraction of a whole number of
  seconds from a double is exact while the result is positive.
\<close>

function search_windows :: "(double \<Rightarrow> double \<Rightarrow> trove_state option result) \<Rightarrow> nat \<Rightarrow> nat \<Rightarrow> trove_state option result" where
  "search_windows search s windowEnd =
     (if EARLIEST_SEARCH_FLOOR * 2 ^ s < windowEnd
      then let windowStart = max (windowEnd - SEVEN_DAYS_IN_SECONDS * 2 ^ s) (EARLIEST_SEARCH_FLOOR * 2 ^ s)
           in rbind (search (windowStart, s) (windowEnd, s)) (\<lambda>state.
                case state of Some st \<Rightarrow> Inr (Some st) | None \<Rightarrow> search_windows search s windowStart)
      else Inr None)"
  by pat_completeness auto

termination
  by (relation "measure (\<lambda>(search, s, windowEnd). windowEnd)") (auto simp: SEVEN_DAYS_IN_SECONDS_def EARLIEST_SEARCH_FLOOR_def)

declare search_windows.simps [simp del]

definition getPreviousTroveState :: "mirror_client \<Rightarrow> string \<Rightarrow> timestamp \<Rightarrow> string list \<Rightarrow> trove_state option" where
  "getPreviousTroveState m borrower beforeTimestamp contractAddresses =
     (let topic1Variants = buildTopic1Variants m borrower;
          (windowEnd, s) = parseFloat beforeTimestamp
      in case search_windows (\<lambda>windowStart windowEnd. searchWindow m contractAddresses (troveUpdatedTopic m) topic1Variants
                windowStart windowEnd beforeTimestamp) s windowEnd of
           Inr state \<Rightarrow> state
         | Inl _ \<Rightarrow> None)"

section \<open>The affected troves\<close>

record affected_trove_after =
  af_borrower :: string
  debtAfter :: decimal
  collateralAfter :: decimal
  before :: "trove_state option"

record affected_trove =
  at_borrower :: string
  at_debtBefore :: decimal
  at_debtAfter :: decimal
  debtRedeemed :: decimal
  at_collateralBefore :: decimal
  at_collateralAfter :: decimal
  collateralRedeemed :: decimal

text \<open>The loop over the logs: the map of states before, by borrower in lower case, and the list of states after.\<close>

fun collect_states :: "mirror_client \<Rightarrow> mirror_log list \<Rightarrow> (string \<rightharpoonup> trove_state) \<times> affected_trove_after list
    \<Rightarrow> (string \<rightharpoonup> trove_state) \<times> affected_trove_after list" where
  "collect_states m [] acc = acc"
| "collect_states m (l # ls) (beforeStates, afterStates) = collect_states m ls (case parseTroveLog m l of
      None \<Rightarrow> (beforeStates, afterStates)
    | Some p \<Rightarrow>
        (if pl_operation p = 0
         then (beforeStates(map to_lower (pl_borrower p) \<mapsto> \<lparr>st_debt = pl_debt p, st_collateral = pl_collateral p\<rparr>), afterStates)
         else if pl_operation p = 3
         then (beforeStates, afterStates @ [\<lparr>af_borrower = pl_borrower p, debtAfter = pl_debt p, collateralAfter = pl_collateral p,
                 before = None\<rparr>])
         else (beforeStates, afterStates)))"

definition extractAffectedTrovesFromLogs :: "mirror_client \<Rightarrow> timestamp \<Rightarrow> string \<Rightarrow> affected_trove_after list" where
  "extractAffectedTrovesFromLogs m t troveManagerAddress = (case getLogs m (AtTimestamp troveManagerAddress t) of
      Inl _ \<Rightarrow> []
    | Inr logs \<Rightarrow>
        (let (beforeStates, afterStates) = collect_states m (case logs of Some ls \<Rightarrow> ls | None \<Rightarrow> []) (Map.empty, [])
         in map (\<lambda>a. case beforeStates (map to_lower (af_borrower a)) of Some b \<Rightarrow> a\<lparr>before := Some b\<rparr> | None \<Rightarrow> a) afterStates))"

definition enrichOneTrove :: "mirror_client \<Rightarrow> timestamp \<Rightarrow> string list \<Rightarrow> affected_trove_after \<Rightarrow> affected_trove result" where
  "enrichOneTrove m t contractAddresses a =
     (let previousState = (case before a of Some b \<Rightarrow> Some b | None \<Rightarrow> getPreviousTroveState m (af_borrower a) t contractAddresses);
          unknown = \<lparr>at_borrower = af_borrower a, at_debtBefore = debtAfter a, at_debtAfter = debtAfter a, debtRedeemed = Decimal_ZERO,
            at_collateralBefore = collateralAfter a, at_collateralAfter = collateralAfter a, collateralRedeemed = Decimal_ZERO\<rparr>
      in case previousState of
           None \<Rightarrow> Inr unknown
         | Some p \<Rightarrow>
             (if Decimal_gte (st_debt p) (debtAfter a)
              then rbind (Decimal_sub (st_debt p) (debtAfter a)) (\<lambda>redeemed.
                   rbind (if Decimal_gte (st_collateral p) (collateralAfter a)
                          then Decimal_sub (st_collateral p) (collateralAfter a) else Inr Decimal_ZERO) (\<lambda>taken.
                     Inr \<lparr>at_borrower = af_borrower a, at_debtBefore = st_debt p, at_debtAfter = debtAfter a, debtRedeemed = redeemed,
                       at_collateralBefore = st_collateral p, at_collateralAfter = collateralAfter a, collateralRedeemed = taken\<rparr>))
              else Inr unknown))"

definition enrichAffectedTroves :: "mirror_client \<Rightarrow> timestamp \<Rightarrow> string \<Rightarrow> string \<Rightarrow> affected_trove_after list
    \<Rightarrow> affected_trove list result" where
  "enrichAffectedTroves m t troveManagerAddress borrowerOperationsAddress trovesAfter =
     mapM (enrichOneTrove m t [troveManagerAddress, borrowerOperationsAddress]) trovesAfter"

section \<open>The fee\<close>

fun find_fee :: "mirror_client \<Rightarrow> mirror_log list \<Rightarrow> decimal" where
  "find_fee m [] = Decimal_ZERO"
| "find_fee m (l # ls) =
     (case rbind (parseLog m (case log_topics l of Some ts \<Rightarrow> ts | None \<Rightarrow> [])
              (case log_data l of Some d \<Rightarrow> if d = [] then ''0x'' else d | None \<Rightarrow> ''0x'')) (\<lambda>p.
            case p of RedemptionLog ethFee \<Rightarrow> rbind (Decimal_fromBigNumberStringWithPrecision (int ethFee) 8) (\<lambda>d. Inr (Some d))
            | _ \<Rightarrow> Inr None) of
        Inr (Some d) \<Rightarrow> d
      | _ \<Rightarrow> find_fee m ls)"

definition extractRedemptionFeeFromLogs :: "mirror_client \<Rightarrow> timestamp \<Rightarrow> string \<Rightarrow> decimal" where
  "extractRedemptionFeeFromLogs m t troveManagerAddress = (case getLogs m (AtTimestamp troveManagerAddress t) of
      Inr (Some logs) \<Rightarrow> find_fee m logs
    | _ \<Rightarrow> Decimal_ZERO)"

section \<open>Reading the logs\<close>

lemma fromBigNumber_eight [simp]: "Decimal_fromBigNumberStringWithPrecision (int n) 8 = Inr (Decimal n)"
proof -
  have "int n * int DIGITS sdiv 10 ^ nat 8 = int n"
    by (cases "n = 0") (simp_all add: DIGITS_eq signed_divide_int_def sgn_if)
  then show ?thesis by (simp add: Decimal_fromBigNumberStringWithPrecision_def new_Decimal_def)
qed

definition state_of :: "parsed_trove_log \<Rightarrow> trove_state" where
  "state_of p = \<lparr>st_debt = pl_debt p, st_collateral = pl_collateral p\<rparr>"

definition trove_logs :: "mirror_client \<Rightarrow> mirror_log list \<Rightarrow> parsed_trove_log list" where
  "trove_logs m ls = List.map_filter (parseTroveLog m) ls"

text \<open>The latest application of pending rewards to the trove of a borrower, whatever the case of the letters of the address.\<close>

definition rewards_applied :: "string \<Rightarrow> parsed_trove_log list \<Rightarrow> parsed_trove_log option" where
  "rewards_applied borrower ps = find (\<lambda>p. pl_operation p = 0 \<and> map to_lower (pl_borrower p) = map to_lower borrower) (rev ps)"

lemma trove_logs_simps [simp]:
  "trove_logs m [] = []"
  "trove_logs m (l # ls) = (case parseTroveLog m l of Some p \<Rightarrow> p # trove_logs m ls | None \<Rightarrow> trove_logs m ls)"
  by (simp_all add: trove_logs_def map_filter_simps split: option.split)

lemma find_append: "find P (xs @ ys) = (case find P xs of Some x \<Rightarrow> Some x | None \<Rightarrow> find P ys)"
  by (induction xs) auto

lemma collect_states_eq:
  "collect_states m ls (b, a) =
     ((\<lambda>k. case find (\<lambda>p. pl_operation p = 0 \<and> map to_lower (pl_borrower p) = k) (rev (trove_logs m ls)) of
             Some p \<Rightarrow> Some (state_of p) | None \<Rightarrow> b k),
      a @ map (\<lambda>p. \<lparr>af_borrower = pl_borrower p, debtAfter = pl_debt p, collateralAfter = pl_collateral p, before = None\<rparr>)
        (filter (\<lambda>p. pl_operation p = 3) (trove_logs m ls)))"
proof (induction ls arbitrary: b a)
  case (Cons l ls)
  show ?case
    by (cases "parseTroveLog m l")
      (auto simp: Cons.IH find_append state_of_def fun_eq_iff split: option.splits)
qed simp

text \<open>
  The list of the troves that a redemption affected is exactly what the logs say: an entry for every redemption event, in
  order, with the debt and collateral after it, and with the state before it if the logs report that pending
  rewards were applied to the trove of the same borrower. Logs of other events or with unreadable data are skipped.
\<close>

theorem extractAffectedTroves_reads_logs:
  assumes "getLogs m (AtTimestamp troveManager t) = Inr (Some ls)"
  shows "extractAffectedTrovesFromLogs m t troveManager =
    map (\<lambda>p. \<lparr>af_borrower = pl_borrower p, debtAfter = pl_debt p, collateralAfter = pl_collateral p,
          before = map_option state_of (rewards_applied (pl_borrower p) (trove_logs m ls))\<rparr>)
      (filter (\<lambda>p. pl_operation p = 3) (trove_logs m ls))"
  using assms
  by (auto simp: extractAffectedTrovesFromLogs_def collect_states_eq rewards_applied_def split: option.split)

text \<open>
  The amounts shown for an affected trove always add up, and computing them never fails: the debt before is the debt after
  plus the redeemed debt, and so for the collateral, unless the collateral grew, which is shown as none taken. Borrower
  and final state are those of the event.
\<close>

theorem enrichOneTrove_adds_up:
  "\<exists>r. enrichOneTrove m t cs a = Inr r \<and> at_borrower r = af_borrower a
    \<and> at_debtAfter r = debtAfter a \<and> at_collateralAfter r = collateralAfter a
    \<and> at_debtBefore r = Decimal_add (at_debtAfter r) (debtRedeemed r)
    \<and> (at_collateralBefore r = Decimal_add (at_collateralAfter r) (collateralRedeemed r)
       \<or> at_collateralBefore r < at_collateralAfter r \<and> collateralRedeemed r = Decimal_ZERO)"
proof -
  define prev where "prev = (case before a of Some b \<Rightarrow> Some b | None \<Rightarrow> getPreviousTroveState m (af_borrower a) t cs)"
  show ?thesis
  proof (cases prev)
    case None
    then show ?thesis by (simp add: enrichOneTrove_def prev_def [symmetric] Let_def)
  next
    case (Some p)
    show ?thesis
    proof (cases "debtAfter a \<le> st_debt p")
      case True
      then obtain d where d: "Decimal_sub (st_debt p) (debtAfter a) = Inr d" by (simp add: Decimal_sub_ok)
      show ?thesis
      proof (cases "collateralAfter a \<le> st_collateral p")
        case c: True
        then obtain x where x: "Decimal_sub (st_collateral p) (collateralAfter a) = Inr x" by (simp add: Decimal_sub_ok)
        show ?thesis
          using True c d x Decimal_sub_add [OF d] Decimal_sub_add [OF x]
          by (simp add: enrichOneTrove_def prev_def [symmetric] Some Let_def Decimal_add_commute)
      next
        case False
        then show ?thesis
          using True d Decimal_sub_add [OF d]
          by (auto simp: enrichOneTrove_def prev_def [symmetric] Some Let_def Decimal_add_commute)
      qed
    next
      case False
      then show ?thesis by (simp add: enrichOneTrove_def prev_def [symmetric] Some Let_def)
    qed
  qed
qed

section \<open>The backwards search\<close>

text \<open>
  What the mirror node documents: the logs of a contract with two topics whose timestamps lie strictly between two times, latest
  first and at most as many as asked for. \<open>H\<close> is the history of logs by contract and topics.
\<close>

definition log_nanos :: "mirror_log \<Rightarrow> nat" where
  "log_nanos l = (case log_timestamp l of Some t \<Rightarrow> nanos t | None \<Rightarrow> 0)"

definition log_after :: "printed \<Rightarrow> mirror_log \<Rightarrow> bool" where
  "log_after a l \<longleftrightarrow> fst a * 10 ^ 9 < log_nanos l * 10 ^ snd a"

definition log_before :: "printed \<Rightarrow> mirror_log \<Rightarrow> bool" where
  "log_before b l \<longleftrightarrow> log_nanos l * 10 ^ snd b < fst b * 10 ^ 9"

definition in_window :: "printed \<Rightarrow> printed \<Rightarrow> mirror_log \<Rightarrow> bool" where
  "in_window a b l \<longleftrightarrow> log_timestamp l \<noteq> None \<and> log_after a l \<and> log_before b l"

type_synonym log_history = "string \<Rightarrow> string \<Rightarrow> string \<Rightarrow> mirror_log list"

definition serves_logs :: "mirror_client \<Rightarrow> log_history \<Rightarrow> bool" where
  "serves_logs m H \<longleftrightarrow>
     (\<forall>c t0 t1 a b n. getLogs m (InWindow c t0 t1 a b n) = Inr (Some (take n (filter (in_window a b) (H c t0 t1)))))
     \<and> (\<forall>c t0 t1. sorted_wrt (\<lambda>l l'. log_nanos l' \<le> log_nanos l) (H c t0 t1))"

lemma double_less_irrefl: "\<not> double_less x x"
  by (simp add: double_less_def)

lemma double_less_asym: "double_less x y \<Longrightarrow> \<not> double_less y x"
  by (simp add: double_less_def)

lemma set_insert_descending [simp]: "set (insert_descending l xs) = insert l (set xs)"
  by (induction xs) auto

lemma set_sort_descending [simp]: "set (sort_descending ls) = set ls"
  by (induction ls) (simp_all add: sort_descending_def)

lemma insert_descending_head:
  assumes "\<And>x. x \<in> set xs \<Longrightarrow> x \<noteq> l \<Longrightarrow> double_less (log_time x) (log_time l)"
  shows "\<exists>ys. insert_descending l xs = l # ys"
proof (cases xs)
  case (Cons x xs')
  then have "\<not> double_less (log_time l) (log_time x)"
    using assms [of x] double_less_asym double_less_irrefl by (cases "x = l") auto
  then show ?thesis using Cons by simp
qed simp

lemma insert_descending_below:
  assumes "double_less (log_time x) (log_time l)"
  shows "insert_descending x (l # ys) = l # insert_descending x ys"
  using assms by simp

text \<open>The latest log comes first after sorting.\<close>

lemma sort_descending_latest:
  assumes "l \<in> set ls" and "\<And>x. x \<in> set ls \<Longrightarrow> x \<noteq> l \<Longrightarrow> double_less (log_time x) (log_time l)"
  shows "\<exists>ys. sort_descending ls = l # ys"
  using assms
proof (induction ls)
  case (Cons x xs)
  let ?s = "sort_descending xs"
  have step: "sort_descending (x # xs) = insert_descending x ?s" by (simp add: sort_descending_def)
  show ?case
  proof (cases "x = l")
    case True
    then show ?thesis unfolding step using Cons.prems(2) insert_descending_head [of ?s l] by simp
  next
    case False
    then obtain ys where "?s = l # ys" using Cons by auto
    moreover have "double_less (log_time x) (log_time l)" using Cons.prems(2) False by simp
    ultimately show ?thesis unfolding step by simp
  qed
qed simp

lemma length_filter_filter: "length (filter P (filter Q xs)) \<le> length (filter P xs)"
  by (induction xs) auto

text \<open>In a list that is sorted with the latest first, a log with at most one other before it is among the first two.\<close>

lemma in_take_two:
  assumes "l \<in> set xs" and "sorted_wrt (\<lambda>a b. f b \<le> (f a :: nat)) xs"
    and "\<And>x. x \<in> set xs \<Longrightarrow> x \<noteq> l \<Longrightarrow> \<not> P x \<Longrightarrow> f x < f l" and "length (filter P xs) \<le> 1"
  shows "l \<in> set (take 2 xs)"
proof (rule ccontr)
  assume l: "l \<notin> set (take 2 xs)"
  have "set xs = set (take 2 xs) \<union> set (drop 2 xs)" by (metis append_take_drop_id set_append)
  then have "l \<in> set (drop 2 xs)" using assms(1) l by blast
  then have "2 < length xs" by (cases "length xs \<le> 2") auto
  then obtain a b ys where xs: "xs = a # b # ys" by (cases xs; cases "tl xs") auto
  then have "l \<in> set ys" using \<open>l \<in> set (drop 2 xs)\<close> by simp
  then have "f l \<le> f a" "f l \<le> f b" using assms(2) xs by auto
  moreover have "a \<noteq> l" "b \<noteq> l" using l xs by (auto simp: numeral_2_eq_2)
  ultimately have "P a" "P b" using assms(3) [of a] assms(3) [of b] xs by (simp_all add: not_less [symmetric]) metis+
  then show False using assms(4) xs by simp
qed

text \<open>
  The ends of the windows, and the assumptions on the log \<open>l\<close> to be found among the logs \<open>L\<close> with the topics of the borrower: it
  lies between the earliest time and the printed time of the redemption, without being at the end of a window, and the other logs
  in the windows that are not at the excluded time are earlier, also as doubles.
\<close>

definition window_end :: "double \<Rightarrow> nat \<Rightarrow> double" where
  "window_end x k = (max (fst x - k * (SEVEN_DAYS_IN_SECONDS * 2 ^ snd x)) (EARLIEST_SEARCH_FLOOR * 2 ^ snd x), snd x)"

definition latest_before :: "mirror_log list \<Rightarrow> timestamp \<Rightarrow> mirror_log \<Rightarrow> bool" where
  "latest_before L t l \<longleftrightarrow>
     (let w = (\<lambda>k. number_text (window_end (parseFloat t) k))
      in l \<in> set L \<and> log_timestamp l \<notin> {None, Some t}
       \<and> log_before (w 0) l \<and> log_after (number_text (EARLIEST_SEARCH_FLOOR * 2 ^ snd (parseFloat t), snd (parseFloat t))) l
       \<and> (\<forall>k. log_before (w k) l \<or> log_after (w k) l)
       \<and> (\<forall>x \<in> set L. \<forall>k. log_timestamp x \<noteq> Some t \<and> in_window (w (Suc k)) (w k) x \<and> x \<noteq> l
            \<longrightarrow> log_nanos x < log_nanos l \<and> double_less (log_time x) (log_time l)))"

lemma log_after_mono: "log_after a x \<Longrightarrow> log_nanos x \<le> log_nanos l \<Longrightarrow> log_after a l"
  unfolding log_after_def by (meson less_le_trans mult_le_mono1)

lemma before_not_after: "log_before a l \<Longrightarrow> \<not> log_after a l"
  by (simp add: log_before_def log_after_def)

lemma searchWindow_serves:
  assumes "serves_logs m H"
  shows "searchWindow m cs t0 ts a b t = Inr (case sort_descending (filter (\<lambda>l. log_timestamp l \<noteq> Some t)
      (concat (map (\<lambda>(c, t1). take 2 (filter (in_window (number_text a) (number_text b)) (H c t0 t1))) (List.product cs ts)))) of
        [] \<Rightarrow> None | l # _ \<Rightarrow> map_option state_of (parseTroveLog m l))"
proof -
  have "mapM (\<lambda>(c, t1). fetchLogsForTopic1 m c t0 t1 a b 2) xs
      = Inr (map (\<lambda>(c, t1). take 2 (filter (in_window (number_text a) (number_text b)) (H c t0 t1))) xs)" for xs
  proof (induction xs)
    case (Cons x xs)
    have "getLogs m (InWindow c t0 t1 (number_text a) (number_text b) 2) =
        Inr (Some (take 2 (filter (in_window (number_text a) (number_text b)) (H c t0 t1))))" for c t1
      using assms unfolding serves_logs_def by blast
    then show ?case using Cons by (cases x) (simp add: fetchLogsForTopic1_def)
  qed simp
  then show ?thesis by (simp add: searchWindow_def state_of_def [abs_def] split: list.split)
qed

text \<open>One window: the log is found if it is in the window, and nothing is found if it is below it.\<close>

lemma searchWindow_latest:
  assumes "serves_logs m H" and "L = concat (map (\<lambda>(c, t1). H c t0 t1) (List.product cs ts))" and "latest_before L t l"
    and "a = window_end (parseFloat t) (Suc k)" and "b = window_end (parseFloat t) k" and "log_before (number_text b) l"
    and "\<And>c t1. length (filter (\<lambda>x. log_timestamp x = Some t) (H c t0 t1)) \<le> 1"
  shows "searchWindow m cs t0 ts a b t =
    Inr (if log_after (number_text a) l then map_option state_of (parseTroveLog m l) else None)"
proof -
  let ?W = "in_window (number_text a) (number_text b)" and ?Q = "\<lambda>(c, t1). take 2 (filter (in_window (number_text a) (number_text b)) (H c t0 t1))"
  let ?Y = "filter (\<lambda>x. log_timestamp x \<noteq> Some t) (concat (map ?Q (List.product cs ts)))"
  have l: "l \<in> set L" "log_timestamp l \<noteq> Some t" "log_timestamp l \<noteq> None"
    and other: "\<And>x. x \<in> set L \<Longrightarrow> log_timestamp x \<noteq> Some t \<Longrightarrow> ?W x \<Longrightarrow> x \<noteq> l
      \<Longrightarrow> log_nanos x < log_nanos l \<and> double_less (log_time x) (log_time l)"
    using assms(3-5) by (auto simp: latest_before_def Let_def)
  have Y: "x \<in> set L \<and> ?W x \<and> log_timestamp x \<noteq> Some t" if "x \<in> set ?Y" for x
    using that assms(2) by (auto dest!: in_set_takeD) blast+
  have below: "x = l \<or> log_nanos x < log_nanos l \<and> double_less (log_time x) (log_time l)" if "x \<in> set ?Y" for x
    using other [of x] Y [OF that] by blast
  show ?thesis
  proof (cases "log_after (number_text a) l")
    case True
    then have W: "?W l" using assms(6) l(3) by (simp add: in_window_def)
    obtain c t1 where c: "(c, t1) \<in> set (List.product cs ts)" "l \<in> set (H c t0 t1)" using l(1) assms(2) by auto
    have "l \<in> set (take 2 (filter ?W (H c t0 t1)))"
    proof (rule in_take_two [where f = log_nanos and P = "\<lambda>x. log_timestamp x = Some t"])
      show "sorted_wrt (\<lambda>x y. log_nanos y \<le> log_nanos x) (filter ?W (H c t0 t1))"
        using assms(1) by (simp add: serves_logs_def sorted_wrt_filter)
      show "log_nanos x < log_nanos l" if "x \<in> set (filter ?W (H c t0 t1))" "x \<noteq> l" "log_timestamp x \<noteq> Some t" for x
        using other [of x] that c(1) assms(2) by auto
      have "length (filter (\<lambda>x. log_timestamp x = Some t) (filter ?W (H c t0 t1)))
          \<le> length (filter (\<lambda>x. log_timestamp x = Some t) (H c t0 t1))"
        by (rule length_filter_filter)
      then show "length (filter (\<lambda>x. log_timestamp x = Some t) (filter ?W (H c t0 t1))) \<le> 1"
        using assms(7) le_trans by blast
    qed (use c W in simp)
    then have "l \<in> set ?Y" using c(1) l(2) by auto
    then obtain ys where "sort_descending ?Y = l # ys" using sort_descending_latest [of l ?Y] below by blast
    then show ?thesis using True unfolding searchWindow_serves [OF assms(1)] by simp
  next
    case False
    have "?Y = []"
    proof (rule ccontr)
      assume "?Y \<noteq> []"
      then obtain x where x: "x \<in> set ?Y" by (metis list.set_intros(1) neq_Nil_conv)
      have "log_nanos x \<le> log_nanos l" using below [OF x] by auto
      then show False using Y [OF x] False log_after_mono unfolding in_window_def by metis
    qed
    then have "sort_descending ?Y = []" by (metis set_sort_descending set_empty)
    then show ?thesis using False unfolding searchWindow_serves [OF assms(1)] by simp
  qed
qed

text \<open>The loop reaches the window of the log, since none of the windows before it holds a log that comes into question.\<close>

lemma window_end_Suc: "fst (window_end x (Suc k)) =
    max (fst (window_end x k) - SEVEN_DAYS_IN_SECONDS * 2 ^ snd x) (EARLIEST_SEARCH_FLOOR * 2 ^ snd x)"
  by (auto simp: window_end_def max_def)

lemma search_windows_latest:
  assumes "serves_logs m H" and "L = concat (map (\<lambda>(c, t1). H c t0 t1) (List.product cs ts))" and "latest_before L t l"
    and "snd (parseFloat t) = s" and "\<And>c t1. length (filter (\<lambda>x. log_timestamp x = Some t) (H c t0 t1)) \<le> 1"
    and "parseTroveLog m l = Some p" and "log_before (number_text (window_end (parseFloat t) k)) l"
    and "b = fst (window_end (parseFloat t) k)"
  shows "search_windows (\<lambda>a b. searchWindow m cs t0 ts a b t) s b = Inr (Some (state_of p))"
  using assms(7,8)
proof (induction b arbitrary: k rule: less_induct)
  case (less b)
  let ?w = "window_end (parseFloat t)" and ?F = "EARLIEST_SEARCH_FLOOR * 2 ^ s"
  have w: "?w j = (fst (?w j), s)" for j using assms(4) by (simp add: window_end_def)
  have last: "log_after (number_text (?F, s)) l" and edge: "\<And>j. log_before (number_text (?w j)) l \<or> log_after (number_text (?w j)) l"
    using assms(3,4) by (auto simp: latest_before_def Let_def)
  have "b \<noteq> ?F" using less.prems last w [of k] before_not_after by metis
  then have run: "?F < b" using less.prems(2) assms(4) by (simp add: window_end_def max_def split: if_splits)
  define a where "a = fst (?w (Suc k))"
  have a: "max (b - SEVEN_DAYS_IN_SECONDS * 2 ^ s) ?F = a" using window_end_Suc [of "parseFloat t" k] less.prems(2) assms(4) by (simp add: a_def)
  have "searchWindow m cs t0 ts (a, s) (b, s) t = Inr (if log_after (number_text (a, s)) l then Some (state_of p) else None)"
    using searchWindow_latest [OF assms(1-3) refl refl less.prems(1) assms(5)] assms(6) w [of k] w [of "Suc k"] less.prems(2)
    by (simp add: a_def)
  then have unfolded: "search_windows (\<lambda>a b. searchWindow m cs t0 ts a b t) s b =
      (if log_after (number_text (a, s)) l then Inr (Some (state_of p)) else search_windows (\<lambda>a b. searchWindow m cs t0 ts a b t) s a)"
    using run by (simp add: search_windows.simps [of _ s b] a Let_def)
  show ?case
  proof (cases "log_after (number_text (a, s)) l")
    case False
    then have "log_before (number_text (?w (Suc k))) l" using edge [of "Suc k"] w [of "Suc k"] by (auto simp: a_def)
    moreover have "a < b" using run a by (auto simp: max_def SEVEN_DAYS_IN_SECONDS_def split: if_splits)
    ultimately show ?thesis using less.IH [of a "Suc k"] False unfolded by (simp add: a_def)
  qed (simp add: unfolded)
qed

text \<open>
  C10. The search for the state of a trove before a redemption ends and finds it: if the mirror node answers as documented, the
  result is the state in the latest log with one of the borrower's topics, in either contract, that is older than the redemption, however many
  windows of seven days lie between. This needs that the log is not exactly at a boundary of the windows, which are open
  intervals, and that the redemption has left at most one log per contract and topic at its own time.
\<close>

theorem getPreviousTroveState_finds_latest:
  assumes "serves_logs m H" and "parseTroveLog m l = Some p"
    and "latest_before (concat (map (\<lambda>(c, t1). H c (troveUpdatedTopic m) t1) (List.product cs (buildTopic1Variants m borrower)))) t l"
    and "\<forall>c t1. length (filter (\<lambda>x. log_timestamp x = Some t) (H c (troveUpdatedTopic m) t1)) \<le> 1"
  shows "getPreviousTroveState m borrower t cs = Some (state_of p)"
proof -
  obtain w s where w: "parseFloat t = (w, s)" by fastforce
  have start: "log_before (number_text (window_end (parseFloat t) 0)) l"
    and last: "log_after (number_text (EARLIEST_SEARCH_FLOOR * 2 ^ s, s)) l"
    using assms(3) w by (auto simp: latest_before_def Let_def)
  then have "window_end (parseFloat t) 0 \<noteq> (EARLIEST_SEARCH_FLOOR * 2 ^ s, s)" using before_not_after by metis
  then have "fst (window_end (parseFloat t) 0) = w" using w by (simp add: window_end_def max_def split: if_splits)
  then have "search_windows (\<lambda>a b. searchWindow m cs (troveUpdatedTopic m) (buildTopic1Variants m borrower) a b t) s w = Inr (Some (state_of p))"
    by (intro search_windows_latest [OF assms(1) refl assms(3) _ _ assms(2) start]) (use assms(4) w in auto)
  then show ?thesis by (simp only: getPreviousTroveState_def Let_def w prod.case sum.case)
qed

section \<open>A sample history\<close>

definition sample_redemption_time :: timestamp where
  "sample_redemption_time = \<lparr>seconds = 1704900000, nanoseconds = 486832386\<rparr>"

definition sample_adjustment_time :: timestamp where
  "sample_adjustment_time = \<lparr>seconds = 1704100000, nanoseconds = 0\<rparr>"

definition sample_log :: "string \<Rightarrow> timestamp \<Rightarrow> mirror_log" where
  "sample_log d t = \<lparr>log_topics = None, log_data = Some d, log_timestamp = Some t\<rparr>"

definition sample_history :: log_history where
  "sample_history c t0 t1 = (if c = ''TM'' then [sample_log ''after'' sample_redemption_time]
     else if c = ''BO'' then [sample_log ''before'' sample_adjustment_time] else [])"

text \<open>The redemption left three events: applied rewards of another trove, the redemption from it, and the one from the trove.\<close>

definition sample_parse :: "string \<Rightarrow> parsed_log result" where
  "sample_parse d = (if d = ''after'' then Inr (TroveUpdated ''0xAb'' 150000000000 800 3)
     else if d = ''before'' then Inr (TroveUpdated ''0xAb'' 200000000000 900 2)
     else if d = ''rewards'' then Inr (TroveUpdated ''0xCD'' 70 30 0)
     else if d = ''other'' then Inr (TroveUpdated ''0xcd'' 50 10 3)
     else Inl (ExternalError ''no matching event''))"

definition sample_mirror_client :: mirror_client where
  "sample_mirror_client = \<lparr>parseLog = (\<lambda>_. sample_parse), troveUpdatedTopic = ''TroveUpdated'',
     getLogs = (\<lambda>q. case q of
         AtTimestamp _ t \<Rightarrow> Inr (Some (map (\<lambda>d. sample_log d t) [''rewards'', ''other'', ''unknown'', ''after'']))
       | InWindow c t0 t1 a b n \<Rightarrow> Inr (Some (take n (filter (in_window a b) (sample_history c t0 t1))))),
     getAccount = (\<lambda>_. Inr None)\<rparr>"

lemma bit_length_31: "2 ^ 30 \<le> n \<Longrightarrow> n < 2 ^ 31 \<Longrightarrow> bit_length n = 31"
proof -
  assume n: "2 ^ 30 \<le> n" "n < 2 ^ 31"
  have "(2 :: nat) ^ 30 < 2 ^ bit_length n" using n(1) bit_length_bound [of n] by (rule le_less_trans)
  then have "30 < bit_length n" by (rule power_less_imp_less_exp [rotated]) simp
  then show ?thesis using bit_length_le [OF n(2)] by simp
qed

lemma to_double_eval:
  "2 ^ 30 \<le> n div d \<Longrightarrow> n div d < 2 ^ 31 \<Longrightarrow> to_double n d = (nearest (n * 2 ^ 22) d, 22)"
  by (cases "n < d"; cases "n = 0") (simp_all add: to_double_def unit_exponent.simps [of n d] bit_length_31 Let_def)

text \<open>The printed time of the redemption is later than the redemption, so that the first window includes its log.\<close>

lemma sample_redemption_double: "parseFloat sample_redemption_time = (7150868891641923, 22)"
  by (simp add: parseFloat_def to_double_eval nearest_def nanos_def sample_redemption_time_def)

lemma sample_redemption_text: "number_text (7150868891641923, 22) = (17049000004868324, 7)"
  by (simp add: number_text_def print_from.simps to_double_eval nearest_def Let_def)

lemma sample_window_text: "number_text (7148332176582723, 22) = (17042952004868324, 7)"
  by (simp add: number_text_def print_from.simps to_double_eval nearest_def Let_def)

lemma sample_floor_text: "number_text (7147375873228800, 22) = (1704067200, 0)"
  by (simp add: number_text_def print_from.simps to_double_eval nearest_def Let_def)

lemma sample_windows:
  "window_end (7150868891641923, 22) 0 = (7150868891641923, 22)" "window_end (7150868891641923, 22) (Suc 0) = (7148332176582723, 22)"
  "2 \<le> k \<Longrightarrow> window_end (7150868891641923, 22) k = (7147375873228800, 22)"
  by (simp_all add: window_end_def SEVEN_DAYS_IN_SECONDS_def EARLIEST_SEARCH_FLOOR_def max_def)

lemma sample_serves: "serves_logs sample_mirror_client sample_history"
  by (simp add: serves_logs_def sample_mirror_client_def sample_history_def)

lemma sample_variants: "buildTopic1Variants sample_mirror_client ''0xAb'' = [addressToTopic1 ''0xAb'']"
proof -
  have "\<not> isLongZeroAddress ''0xAb''" by code_simp
  then show ?thesis by (simp add: buildTopic1Variants_def)
qed

lemma sample_latest:
  "latest_before [sample_log ''after'' sample_redemption_time, sample_log ''before'' sample_adjustment_time]
     sample_redemption_time (sample_log ''before'' sample_adjustment_time)"
proof -
  let ?l = "sample_log ''before'' sample_adjustment_time"
  have n: "log_nanos ?l = 1704100000000000000" "log_timestamp ?l = Some sample_adjustment_time"
    by (simp_all add: log_nanos_def sample_log_def nanos_def sample_adjustment_time_def)
  have "log_before (number_text (window_end (7150868891641923, 22) k)) ?l \<or> log_after (number_text (window_end (7150868891641923, 22) k)) ?l" for k
  proof -
    consider "k = 0" | "k = Suc 0" | "2 \<le> k" by linarith
    then show ?thesis
      by cases (simp_all add: sample_windows sample_redemption_text sample_window_text sample_floor_text log_before_def log_after_def n)
  qed
  moreover have "sample_adjustment_time \<noteq> sample_redemption_time"
    by (simp add: sample_adjustment_time_def sample_redemption_time_def)
  moreover have "log_timestamp (sample_log d t) = Some t" for d t by (simp add: sample_log_def)
  ultimately show ?thesis
    by (auto simp: latest_before_def sample_redemption_double sample_windows sample_redemption_text sample_floor_text
        EARLIEST_SEARCH_FLOOR_def log_before_def log_after_def n)
qed

theorem getPreviousTroveState_finds_latest_witness:
  "getPreviousTroveState sample_mirror_client ''0xAb'' sample_redemption_time [''TM'', ''BO''] =
     Some \<lparr>st_debt = Decimal 200000000000, st_collateral = Decimal 900\<rparr>"
proof -
  let ?l = "sample_log ''before'' sample_adjustment_time"
    and ?p = "\<lparr>pl_borrower = ''0xAb'', pl_debt = Decimal 200000000000, pl_collateral = Decimal 900, pl_operation = 2\<rparr>"
  have "parseTroveLog sample_mirror_client ?l = Some ?p"
    using fromBigNumber_eight [of 200000000000] fromBigNumber_eight [of 900]
    by (simp add: parseTroveLog_def sample_mirror_client_def sample_log_def sample_parse_def)
  moreover have "latest_before (concat (map (\<lambda>(c, t1). sample_history c (troveUpdatedTopic sample_mirror_client) t1)
      (List.product [''TM'', ''BO''] (buildTopic1Variants sample_mirror_client ''0xAb'')))) sample_redemption_time ?l"
    using sample_latest by (simp add: sample_variants sample_history_def)
  moreover have "\<forall>c t1. length (filter (\<lambda>x. log_timestamp x = Some sample_redemption_time)
      (sample_history c (troveUpdatedTopic sample_mirror_client) t1)) \<le> 1"
    by (simp add: sample_history_def)
  ultimately show ?thesis
    using getPreviousTroveState_finds_latest [OF sample_serves] by (fastforce simp: state_of_def)
qed

theorem extractAffectedTroves_reads_logs_witness:
  "extractAffectedTrovesFromLogs sample_mirror_client sample_redemption_time ''TM'' =
     [\<lparr>af_borrower = ''0xcd'', debtAfter = Decimal 50, collateralAfter = Decimal 10,
        before = Some \<lparr>st_debt = Decimal 70, st_collateral = Decimal 30\<rparr>\<rparr>,
      \<lparr>af_borrower = ''0xAb'', debtAfter = Decimal 150000000000, collateralAfter = Decimal 800, before = None\<rparr>]"
proof -
  let ?ls = "map (\<lambda>d. sample_log d sample_redemption_time) [''rewards'', ''other'', ''unknown'', ''after'']"
  have "getLogs sample_mirror_client (AtTimestamp ''TM'' sample_redemption_time) = Inr (Some ?ls)"
    by (simp add: sample_mirror_client_def)
  moreover have "(char_of (99 :: nat) :: char) = CHR ''c''" "(char_of (100 :: nat) :: char) = CHR ''d''" by code_simp+
  moreover note extractAffectedTroves_reads_logs [of sample_mirror_client "''TM''" sample_redemption_time ?ls]
  ultimately show ?thesis
    using fromBigNumber_eight [of 50] fromBigNumber_eight [of 10] fromBigNumber_eight [of 70] fromBigNumber_eight [of 30]
      fromBigNumber_eight [of 150000000000] fromBigNumber_eight [of 800]
    by (simp add: parseTroveLog_def sample_mirror_client_def sample_log_def sample_parse_def rewards_applied_def state_of_def to_lower_def)
qed

end
