(* ===== verification/Redemption_Page.thy ===== *)
theory Redemption_Page
  imports Redemption_History Redemption Hashgraph_Ledger Frontend_Actions
begin

text \<open>
  The page of past redemptions, \<^verbatim>\<open>packages/dev-frontend/src/pages/RedemptionsPage.tsx\<close>, with the rows that can be expanded and
  their table \<^verbatim>\<open>components/RedemptionPage/RedemptionDetails.tsx\<close>; and the form for redeeming,
  \<^verbatim>\<open>components/RedeemHchf/RedeemHchf.tsx\<close>, which previews a redemption from the troves it reads.
\<close>

section \<open>Past redemptions\<close>

record contract_result =
  cr_timestamp :: "timestamp option"
  function_parameters :: "string option"
  cr_from :: "string option"

text \<open>A transfer of hbars has an account and an amount, a transfer of tokens also the token, which comes first.\<close>

record mirror_transaction =
  tx_result :: string
  tx_name :: string
  transfers :: "(string \<times> int) list option"
  token_transfers :: "(string \<times> string \<times> int) list option"
  charged_tx_fee :: "nat option"

record history_client = mirror_client +
  accountIdFromEvmAddress :: "string \<Rightarrow> string result"
  transactionIdsAt :: "timestamp \<Rightarrow> string list option result"
  transactionsById :: "string \<Rightarrow> mirror_transaction list option result"

record shown_redemption =
  sr_transactionId :: string
  sr_timestamp :: timestamp
  sr_accountIdString :: string
  amountOfHchf :: decimal
  amountOfHbar :: decimal
  sr_fee :: decimal
  sr_redemptionFee :: decimal
  effectivePrice :: decimal
  affectedTrovesAfter :: "affected_trove_after list"

definition redeemCollateralFunctionParametersStart :: string where
  "redeemCollateralFunctionParametersStart = ''0xbcd37526''"

definition isRedeemCollateralResult :: "contract_result \<Rightarrow> bool" where
  "isRedeemCollateralResult r \<longleftrightarrow> cr_timestamp r \<noteq> None \<and> (case function_parameters r of None \<Rightarrow> False
     | Some ps \<Rightarrow> take (length redeemCollateralFunctionParametersStart) ps = redeemCollateralFunctionParametersStart)"

text \<open>The loop that looks for the transfers of hbars and of the token to or from the redeemer.\<close>

fun find_transfers :: "string \<Rightarrow> string \<Rightarrow> mirror_transaction list \<Rightarrow> int option \<times> int option \<Rightarrow> int option \<times> int option" where
  "find_transfers account token [] found = found"
| "find_transfers account token (tx # txs) (hbar, hchf) = find_transfers account token txs
     (if tx_result tx \<noteq> ''SUCCESS'' then (hbar, hchf)
      else if hbar = None \<and> transfers tx \<notin> {None, Some []}
      then (map_option snd (find (\<lambda>(a, _). a = account) (the (transfers tx))), hchf)
      else if hchf = None \<and> tx_name tx = ''CRYPTOTRANSFER''
      then (hbar, case token_transfers tx of None \<Rightarrow> None
              | Some ts \<Rightarrow> map_option (\<lambda>(_, _, n). n) (find (\<lambda>(i, a, _). i = token \<and> a = account) ts))
      else (hbar, hchf))"

definition has_token_transfers :: "mirror_transaction list \<Rightarrow> bool" where
  "has_token_transfers txs \<longleftrightarrow>
     (case find (\<lambda>tx. tx_name tx = ''CRYPTOTRANSFER'' \<and> tx_result tx = ''SUCCESS'') txs of
        None \<Rightarrow> False | Some tx \<Rightarrow> token_transfers tx \<notin> {None, Some []})"

definition network_fee :: "mirror_transaction list \<Rightarrow> decimal result" where
  "network_fee txs = (case find (\<lambda>tx. tx_result tx = ''SUCCESS'') txs of
      None \<Rightarrow> Inr Decimal_ZERO
    | Some tx \<Rightarrow> (case charged_tx_fee tx of None \<Rightarrow> Inr Decimal_ZERO
        | Some n \<Rightarrow> if n = 0 then Inr Decimal_ZERO else Decimal_fromBigNumberStringWithPrecision (int n) 8))"

definition redemptionFromResult :: "history_client \<Rightarrow> string \<Rightarrow> string \<Rightarrow> contract_result \<Rightarrow> shown_redemption option result" where
  "redemptionFromResult m troveManager token r = (case (cr_timestamp r, cr_from r) of
      (Some t, Some address) \<Rightarrow>
        if address = [] then Inr None
        else rbind (accountIdFromEvmAddress m address) (\<lambda>account.
        rbind (transactionIdsAt m t) (\<lambda>ids. case ids of
          Some (i # _) \<Rightarrow>
            if i = [] then Inr None
            else rbind (transactionsById m i) (\<lambda>response. case response of
              Some (tx # txs) \<Rightarrow>
                (case find_transfers account token (tx # txs) (None, None) of
                   (Some hbar, Some hchf) \<Rightarrow>
                     if has_token_transfers (tx # txs)
                     then rbind (network_fee (tx # txs)) (\<lambda>fee.
                          rbind (Decimal_fromBigNumberStringWithPrecision \<bar>hchf\<bar> 8) (\<lambda>hchf'.
                          rbind (Decimal_fromBigNumberStringWithPrecision \<bar>hbar\<bar> 8) (\<lambda>hbar'.
                            Inr (Some \<lparr>sr_transactionId = i, sr_timestamp = t, sr_accountIdString = account, amountOfHchf = hchf',
                              amountOfHbar = hbar', sr_fee = fee,
                              sr_redemptionFee = extractRedemptionFeeFromLogs (mirror_client.truncate m) t troveManager,
                              effectivePrice = (if Decimal_isZero hchf' then Decimal_ZERO else Decimal_div hbar' hchf'),
                              affectedTrovesAfter = extractAffectedTrovesFromLogs (mirror_client.truncate m) t troveManager\<rparr>))))
                     else Inr None
                 | _ \<Rightarrow> Inr None)
            | _ \<Rightarrow> Inr None)
        | _ \<Rightarrow> Inr None))
    | _ \<Rightarrow> Inr None)"

definition redemptionsFromResults :: "history_client \<Rightarrow> string \<Rightarrow> string \<Rightarrow> contract_result list \<Rightarrow> shown_redemption list result" where
  "redemptionsFromResults m troveManager token results =
     rbind (mapM (redemptionFromResult m troveManager token) (filter isRedeemCollateralResult results)) (\<lambda>rs.
       Inr (List.map_filter id rs))"

text \<open>A transfer field of a \<^verbatim>\<open>mirror_transaction\<close> that is present but empty counts as absent, as its length is tested.\<close>

section \<open>Expanding rows\<close>

datatype enrichment = EnrichmentLoading | Enriched "affected_trove list"

record history_page =
  page_redemptions :: "shown_redemption list option"
  expandedRows :: "string set"
  enrichedTroves :: "string \<rightharpoonup> enrichment"

text \<open>The second component tells for which redemption an enrichment is started.\<close>

definition toggleRow :: "string \<Rightarrow> history_page \<Rightarrow> history_page \<times> shown_redemption option" where
  "toggleRow i p =
     (if i \<in> expandedRows p then (p\<lparr>expandedRows := expandedRows p - {i}\<rparr>, None)
      else
        let p' = p\<lparr>expandedRows := insert i (expandedRows p)\<rparr>
        in case (enrichedTroves p i, page_redemptions p) of
             (None, Some rs) \<Rightarrow>
               (case find (\<lambda>r. sr_transactionId r = i) rs of
                  Some r \<Rightarrow> if affectedTrovesAfter r \<noteq> [] then (p'\<lparr>enrichedTroves := (enrichedTroves p)(i \<mapsto> EnrichmentLoading)\<rparr>, Some r)
                    else (p', None)
                | None \<Rightarrow> (p', None))
           | _ \<Rightarrow> (p', None))"

definition finish_enrichment :: "string \<Rightarrow> affected_trove list result \<Rightarrow> history_page \<Rightarrow> history_page" where
  "finish_enrichment i outcome p = (case outcome of
      Inr troves \<Rightarrow> p\<lparr>enrichedTroves := (enrichedTroves p)(i \<mapsto> Enriched troves)\<rparr>
    | Inl _ \<Rightarrow> p\<lparr>enrichedTroves := (enrichedTroves p)(i := None)\<rparr>)"

definition hasHistoricalData :: "affected_trove \<Rightarrow> bool" where
  "hasHistoricalData t \<longleftrightarrow> \<not> Decimal_isZero (debtRedeemed t) \<or> \<not> Decimal_isZero (collateralRedeemed t)"

section \<open>The form for redeeming\<close>

definition isValidRedemption :: "constants \<Rightarrow> decimal \<Rightarrow> decimal \<Rightarrow> bool" where
  "isValidRedemption cs balance amount \<longleftrightarrow>
     Decimal_gt amount Decimal_ZERO \<and> Decimal_lte amount balance \<and> Decimal_gte amount (HCHF_MINIMUM_DEBT cs)"

definition hchfContractHasHchfTokenAllowance :: "decimal \<Rightarrow> decimal \<Rightarrow> bool" where
  "hchfContractHasHchfTokenAllowance allowance amount \<longleftrightarrow> Decimal_gt amount Decimal_ZERO \<and> Decimal_lte amount allowance"

text \<open>
  The preview of the form, from the data that is read for it: the fees, the totals, the first thousand troves with the lowest
  collateral ratio, and the price. The fee in percent is shown with the details.
\<close>

definition preview_listing :: listing_params where
  "preview_listing = \<lparr>listing_first = 1000, listing_sortedBy = AscendingCollateralRatio, listing_startingAt = Some 0, listing_before = False\<rparr>"

definition redemptionPreview :: "client \<Rightarrow> contracts \<Rightarrow> constants \<Rightarrow> decimal \<Rightarrow> (redemption_details \<times> percent) option result" where
  "redemptionPreview liquity k cs amount =
     (if Decimal_isZero amount then Inr None
      else
        rbind (Hashgraph_getFees liquity k None) (\<lambda>f.
        rbind (Hashgraph_getTotal liquity k None) (\<lambda>tot.
        rbind (Hashgraph_getTroves liquity k preview_listing None) (\<lambda>listing.
        rbind (Hashgraph_getPrice k None) (\<lambda>p.
        rbind (Fees_redemptionRate f (DecimalObject (Decimal_div amount (debt tot))) None) (\<lambda>fee.
        rbind (getRedemptionDetails \<lparr>sortedTroves = (case listing of Current ts \<Rightarrow> map trove.truncate ts | Before ts \<Rightarrow> map trove.truncate ts),
                totalHchf = debt tot, totalHbar = collateral tot, requestedHchf = amount, redemptionFee = fee,
                liquidationReserve = HCHF_LIQUIDATION_RESERVE cs, price = p\<rparr>) (\<lambda>details.
          Inr (map_option (\<lambda>d. (d, new_Percent (DecimalRatio fee))) details))))))))"

section \<open>The transfers of a redemption\<close>

text \<open>
  The amount of hbars found is that of the redeemer's transfer in the first successful transaction that has one.
\<close>

definition redeemer_transfer :: "string \<Rightarrow> mirror_transaction \<Rightarrow> int option" where
  "redeemer_transfer account tx = (if tx_result tx = ''SUCCESS''
     then (case transfers tx of None \<Rightarrow> None | Some ts \<Rightarrow> map_option snd (find (\<lambda>(a, _). a = account) ts)) else None)"

lemma find_transfers_found: "fst (find_transfers account token txs (Some n, h)) = Some n"
  by (induction txs arbitrary: h) auto

lemma find_transfers_hbar:
  "fst (find_transfers account token txs (None, h)) = (case List.map_filter (redeemer_transfer account) txs of [] \<Rightarrow> None | n # _ \<Rightarrow> Some n)"
proof (induction txs arbitrary: h)
  case (Cons tx txs)
  show ?case
  proof (cases "redeemer_transfer account tx")
    case None
    then show ?thesis using Cons by (auto simp: redeemer_transfer_def map_filter_simps split: option.splits if_splits)
  next
    case (Some n)
    then obtain ts where "tx_result tx = ''SUCCESS''" "transfers tx = Some ts" "map_option snd (find (\<lambda>(a, _). a = account) ts) = Some n"
      by (auto simp: redeemer_transfer_def split: if_splits option.splits)
    moreover from this have "ts \<noteq> []" by auto
    ultimately show ?thesis using Some by (auto simp: map_filter_simps find_transfers_found)
  qed
qed (simp add: map_filter_simps)

section \<open>The preview\<close>

lemma redemptionRate_le_one: "Fees_redemptionRate f x w = Inr r \<Longrightarrow> r \<le> Decimal_ONE"
  by (auto simp: Fees_redemptionRate_def rbind_eq_Inr_iff)

text \<open>The troves that the preview starts from: the first thousand of the listing, with pending redistributions applied.\<close>

definition previewed_troves :: "client \<Rightarrow> Trove.trove \<Rightarrow> combined_trove list \<Rightarrow> Trove.trove list" where
  "previewed_troves liquity red troves =
     map (\<lambda>c. trove.truncate (applyRedistribution (listed_trove liquity c) red)) (take 1000 (rev troves))"

lemma getTroves_preview:
  assumes "lists_troves k None troves" and "Hashgraph_getTotalRedistributed liquity k None = Inr red"
  shows "Hashgraph_getTroves liquity k preview_listing None =
    Inr (Current (map (\<lambda>c. applyRedistribution (listed_trove liquity c) red) (take 1000 (rev troves))))"
  using assms by (simp add: Hashgraph_getTroves_def preview_listing_def expectPositiveInt_def lists_troves_def mapM_Inr comp_def Let_def)

text \<open>
  C3. What the preview in the form for redeeming computes: from the troves that the client lists first, up to a thousand from the tail of the ledger's list and with pending
  redistributions applied, it redeems the smaller of the entered amount and their redeemable debt (that over the reserve); hbars received and kept as a fee together are worth what is
  redeemed, up to one unit of the last digit per trove, and the fee is the current redemption rate for that fraction of the supply, which is the one shown. Nothing is
  shown exactly if the redeemer would get more per HCHF than the system holds on average. All listed troves count, also those below the minimum ratio, which the
  ledger itself skips; the preview is an estimate in that respect.
\<close>

theorem redemptionPreview_right:
  assumes "lists_troves k None troves" and "Hashgraph_getTotalRedistributed liquity k None = Inr red"
    and "Hashgraph_getFees liquity k None = Inr f" and "Hashgraph_getTotal liquity k None = Inr tot" and "Hashgraph_getPrice k None = Inr p"
    and "Fees_redemptionRate f (DecimalObject (Decimal_div amount (debt tot))) None = Inr rate"
    and "\<forall>t \<in> set (previewed_troves liquity red troves). HCHF_LIQUIDATION_RESERVE cs \<le> debt t"
    and "p \<noteq> Decimal_ZERO" and "amount \<noteq> Decimal_ZERO"
  shows "\<exists>d. redemptionPreview liquity k cs amount =
      Inr (if Decimal_ONE < Decimal_div (Decimal_div (receivedHbar d) (redeemedHchf d)) (Decimal_div (collateral tot) (debt tot)) then None
           else Some (d, new_Percent (DecimalRatio rate)))
    \<and> bigNumber (redeemedHchf d) = min (bigNumber amount) (redeemable (HCHF_LIQUIDATION_RESERVE cs) (previewed_troves liquity red troves))
    \<and> hbar_for p (length (previewed_troves liquity red troves)) (bigNumber (redeemedHchf d))
        (bigNumber (receivedHbar d) + bigNumber (redemptionFeeInHbar d))
    \<and> redemptionFeeInHbar d = Decimal_mul (Decimal_add (receivedHbar d) (redemptionFeeInHbar d)) rate"
proof -
  let ?o = "\<lparr>sortedTroves = previewed_troves liquity red troves, totalHchf = debt tot, totalHbar = collateral tot, requestedHchf = amount,
    redemptionFee = rate, liquidationReserve = HCHF_LIQUIDATION_RESERVE cs, price = p\<rparr>"
  have "redemptionPreview liquity k cs amount =
      rbind (getRedemptionDetails ?o) (\<lambda>details. Inr (map_option (\<lambda>d. (d, new_Percent (DecimalRatio rate))) details))"
    using assms(3-6,9) getTroves_preview [OF assms(1,2)] by (simp add: redemptionPreview_def previewed_troves_def comp_def)
  with getRedemptionDetails_ok [of ?o] redemptionRate_le_one [OF assms(6)] assms(7,8) show ?thesis
    by (fastforce simp: received_to_average_def)
qed

text \<open>A ledger with two small troves, and constants with a small reserve.\<close>

definition sample_small_reserve :: constants where
  "sample_small_reserve = defaults\<lparr>HCHF_LIQUIDATION_RESERVE := Decimal 10\<rparr>"

lemma sample_preview_reads:
  "\<exists>f tot rate. Hashgraph_getFees sample_client sample_contracts None = Inr f \<and> Hashgraph_getTotal sample_client sample_contracts None = Inr tot
     \<and> Fees_redemptionRate f (DecimalObject (Decimal_div (Decimal 45) (debt tot))) None = Inr rate"
proof -
  have "\<exists>f. Hashgraph_getFees sample_client sample_contracts None = Inr f \<and> minutesSinceLastFeeOperation f None \<le> 0xffffffff"
    by (simp add: sample_ledger_eval Hashgraph_getFees_def Let_def)
  then obtain f where f: "Hashgraph_getFees sample_client sample_contracts None = Inr f" "minutesSinceLastFeeOperation f None \<le> 0xffffffff"
    by blast
  have "\<exists>tot. Hashgraph_getTotal sample_client sample_contracts None = Inr tot"
    by (simp add: sample_ledger_eval Let_def)
  moreover have "\<exists>rate. Fees_redemptionRate f (DecimalObject x) None = Inr rate" for x
    using Fees_baseRate_exists [OF f(2)] by (auto simp: Fees_redemptionRate_def)
  ultimately show ?thesis using f(1) by blast
qed

lemma sample_previewed:
  "previewed_troves sample_client (new_Trove defaults Decimal_ZERO Decimal_ZERO) sample_listing =
     [new_Trove defaults (Decimal 100) (Decimal 50), new_Trove defaults (Decimal 100) (Decimal 20)]"
  by (simp add: previewed_troves_def sample_listing_def listed_trove_def applyRedistribution_def new_UserTrove_def trove_ops
      sample_client_def trove.defs new_PendingTrove_def new_Trove_def sub_or_zero_eq Decimal_ZERO_def Decimal_add_def Decimal_mul_def Let_def)

theorem redemptionPreview_right_witness:
  "redeemable (Decimal 10) [new_Trove defaults (Decimal 100) (Decimal 50), new_Trove defaults (Decimal 100) (Decimal 20)] = 50
   \<and> (\<exists>d shown. redemptionPreview sample_client sample_contracts sample_small_reserve (Decimal 45) = Inr shown
        \<and> (case shown of None \<Rightarrow> True | Some (d', _) \<Rightarrow> d' = d) \<and> redeemedHchf d = Decimal 45)"
proof -
  obtain f tot rate where reads: "Hashgraph_getFees sample_client sample_contracts None = Inr f"
    "Hashgraph_getTotal sample_client sample_contracts None = Inr tot"
    "Fees_redemptionRate f (DecimalObject (Decimal_div (Decimal 45) (debt tot))) None = Inr rate"
    using sample_preview_reads by blast
  have l: "lists_troves sample_contracts None sample_listing" by (simp add: lists_troves_def sample_contracts_def)
  have red: "Hashgraph_getTotalRedistributed sample_client sample_contracts None = Inr (new_Trove defaults Decimal_ZERO Decimal_ZERO)"
    by (simp add: Hashgraph_getTotalRedistributed_def sample_contracts_def sample_client_def read_decimal_def Decimal_ZERO_def Let_def)
  have reserve: "HCHF_LIQUIDATION_RESERVE sample_small_reserve = Decimal 10" by (simp add: sample_small_reserve_def)
  have p: "Hashgraph_getPrice sample_contracts None = Inr (Decimal 5000000)"
    by (simp add: Hashgraph_getPrice_def sample_contracts_def read_decimal_def)
  have "\<exists>d. redemptionPreview sample_client sample_contracts sample_small_reserve (Decimal 45) = Inr
      (if Decimal_ONE < Decimal_div (Decimal_div (receivedHbar d) (redeemedHchf d)) (Decimal_div (collateral tot) (debt tot)) then None
       else Some (d, new_Percent (DecimalRatio rate))) \<and> bigNumber (redeemedHchf d) = 45"
    using redemptionPreview_right [OF l red reads(1,2) p reads(3), of sample_small_reserve] unfolding sample_previewed reserve
    by (simp add: decimal_unfold less_eq_decimal_def split del: if_split) blast
  then obtain d where "redemptionPreview sample_client sample_contracts sample_small_reserve (Decimal 45) = Inr
      (if Decimal_ONE < Decimal_div (Decimal_div (receivedHbar d) (redeemedHchf d)) (Decimal_div (collateral tot) (debt tot)) then None
       else Some (d, new_Percent (DecimalRatio rate)))" "redeemedHchf d = Decimal 45" by (metis decimal.exhaust decimal.sel)
  then show ?thesis by (auto intro!: exI [of _ d] split: if_split)
qed

section \<open>Rows\<close>

text \<open>An enrichment is started only when a row is opened whose troves are neither known nor being looked up.\<close>

lemma toggleRow_starts:
  assumes "toggleRow i p = (p', Some r)"
  shows "i \<notin> expandedRows p" "i \<in> expandedRows p'" "enrichedTroves p i = None" "enrichedTroves p' i = Some EnrichmentLoading"
    "sr_transactionId r = i" "affectedTrovesAfter r \<noteq> []"
  using assms by (auto simp: toggleRow_def Let_def find_Some_iff split: if_splits option.splits)

lemma toggleRow_again: "expandedRows (fst (toggleRow i (fst (toggleRow i p)))) = expandedRows p"
  by (auto simp: toggleRow_def Let_def split: option.splits)

text \<open>Whatever the outcome of an enrichment, only the entry of its redemption changes; after a failure the row can be tried again.\<close>

lemma finish_enrichment_entry:
  "enrichedTroves (finish_enrichment i outcome p) j =
     (if j = i then (case outcome of Inr ts \<Rightarrow> Some (Enriched ts) | Inl _ \<Rightarrow> None) else enrichedTroves p j)"
  by (simp add: finish_enrichment_def split: sum.split)

text \<open>Amounts of a trove for which no earlier state is known are shown as not available.\<close>

lemma unknown_previous_state_not_available:
  assumes "before a = None" and "getPreviousTroveState m (af_borrower a) t cs = None"
  shows "\<exists>r. enrichOneTrove m t cs a = Inr r \<and> \<not> hasHistoricalData r"
  using assms by (simp add: enrichOneTrove_def hasHistoricalData_def Let_def)

end
