(* ===== verification/Placeholder_Client.thy ===== *)
theory Placeholder_Client
  imports Hashgraph_Ledger Hashgraph_Send Frontend_Forms
begin

text \<open>
  The client that stands in until a wallet is connected (\<^verbatim>\<open>packages/lib-placeholder/src\<close>, class \<^verbatim>\<open>PlaceholderLiquity\<close>). It reads
  the same contracts as the Hashgraph client, makes up the values of a user, and throws on every transaction.

  The readers are copies of those of \<^verbatim>\<open>HashgraphLiquity\<close>, with one difference: without an address they read the zero
  address instead of the user's. So each is the reader of a Hashgraph client whose user is the zero address; the fields of
  that client for the mirror node are not read by any of them.
\<close>

section \<open>The client\<close>

record placeholder =
  ph_totalStabilityPoolHlqtReward :: decimal
  ph_frontendAddress :: string
  ph_constants :: constants
  ph_hchfTokenContractAddress :: string
  ph_hlqtTokenContractAddress :: string
  ph_saucerSwapPoolAddress :: string

definition fromEvmAddresses :: "string \<Rightarrow> string \<Rightarrow> constants \<Rightarrow> string \<Rightarrow> string \<Rightarrow> string \<Rightarrow> placeholder result" where
  "fromEvmAddresses totalReward frontendAddress' constants' hchfToken hlqtToken saucerSwapPool =
     rbind (Decimal_from (Number totalReward)) (\<lambda>reward.
     Inr \<lparr>ph_totalStabilityPoolHlqtReward = reward, ph_frontendAddress = frontendAddress', ph_constants = constants',
          ph_hchfTokenContractAddress = hchfToken, ph_hlqtTokenContractAddress = hlqtToken,
          ph_saucerSwapPoolAddress = saucerSwapPool\<rparr>)"

definition Placeholder_getAddressOrUserAddress :: "string option \<Rightarrow> string" where
  "Placeholder_getAddressOrUserAddress address =
     (case address of Some a \<Rightarrow> (if a \<noteq> [] then a else AddressZero) | None \<Rightarrow> AddressZero)"

definition as_client :: "placeholder \<Rightarrow> client" where
  "as_client ph = \<lparr>userAccountAddress = AddressZero, userAccountIdString = [], frontendAddress = ph_frontendAddress ph,
     totalStabilityPoolHlqtReward = ph_totalStabilityPoolHlqtReward ph, mirrorNodeBaseUrl = [], client_constants = ph_constants ph,
     hchfTokenContractAddress = ph_hchfTokenContractAddress ph, hlqtTokenContractAddress = ph_hlqtTokenContractAddress ph,
     saucerSwapPoolAddress = ph_saucerSwapPoolAddress ph\<rparr>"

lemma as_client_address: "getAddressOrUserAddress (as_client ph) = Placeholder_getAddressOrUserAddress"
  by (intro ext) (simp add: getAddressOrUserAddress_def Placeholder_getAddressOrUserAddress_def as_client_def split: option.split)

section \<open>Readers\<close>

definition Placeholder_getCollateralSurplusBalance :: "placeholder \<Rightarrow> contracts \<Rightarrow> string option \<Rightarrow> block_tag option \<Rightarrow> decimal result" where
  "Placeholder_getCollateralSurplusBalance ph k address blockTag = Hashgraph_getCollateralSurplusBalance (as_client ph) k address blockTag"

definition Placeholder_getTotalRedistributed :: "placeholder \<Rightarrow> contracts \<Rightarrow> block_tag option \<Rightarrow> trove result" where
  "Placeholder_getTotalRedistributed ph k blockTag = Hashgraph_getTotalRedistributed (as_client ph) k blockTag"

definition Placeholder_getTroveBeforeRedistribution :: "placeholder \<Rightarrow> contracts \<Rightarrow> string option \<Rightarrow> block_tag option \<Rightarrow> pending_trove result" where
  "Placeholder_getTroveBeforeRedistribution ph k address blockTag = Hashgraph_getTroveBeforeRedistribution (as_client ph) k address blockTag"

definition Placeholder_getTrove :: "placeholder \<Rightarrow> contracts \<Rightarrow> string option \<Rightarrow> user_trove result" where
  "Placeholder_getTrove ph k address = Hashgraph_getTrove (as_client ph) k address"

definition Placeholder_getNumberOfTroves :: "contracts \<Rightarrow> block_tag option \<Rightarrow> int result" where
  "Placeholder_getNumberOfTroves k blockTag = Hashgraph_getNumberOfTroves k blockTag"

definition Placeholder_getPrice :: "contracts \<Rightarrow> block_tag option \<Rightarrow> decimal result" where
  "Placeholder_getPrice k blockTag = Hashgraph_getPrice k blockTag"

definition Placeholder_getTotal :: "placeholder \<Rightarrow> contracts \<Rightarrow> block_tag option \<Rightarrow> trove result" where
  "Placeholder_getTotal ph k blockTag = Hashgraph_getTotal (as_client ph) k blockTag"

definition Placeholder_getStabilityDeposit :: "placeholder \<Rightarrow> contracts \<Rightarrow> string option \<Rightarrow> block_tag option \<Rightarrow> stability_deposit result" where
  "Placeholder_getStabilityDeposit ph k address blockTag = Hashgraph_getStabilityDeposit (as_client ph) k address blockTag"

definition Placeholder_getRemainingStabilityPoolHLQTReward :: "placeholder \<Rightarrow> contracts \<Rightarrow> block_tag option \<Rightarrow> decimal result" where
  "Placeholder_getRemainingStabilityPoolHLQTReward ph k blockTag = Hashgraph_getRemainingStabilityPoolHLQTReward (as_client ph) k blockTag"

definition Placeholder_getHCHFInStabilityPool :: "contracts \<Rightarrow> block_tag option \<Rightarrow> decimal result" where
  "Placeholder_getHCHFInStabilityPool k blockTag = Hashgraph_getHCHFInStabilityPool k blockTag"

definition Placeholder_getHCHFBalance :: "placeholder \<Rightarrow> contracts \<Rightarrow> string option \<Rightarrow> block_tag option \<Rightarrow> decimal result" where
  "Placeholder_getHCHFBalance ph k address blockTag = Hashgraph_getHCHFBalance (as_client ph) k address blockTag"

definition Placeholder_getHchfTokenAllowanceOfHchfContract :: "placeholder \<Rightarrow> contracts \<Rightarrow> string option \<Rightarrow> block_tag option \<Rightarrow> decimal result" where
  "Placeholder_getHchfTokenAllowanceOfHchfContract ph k address blockTag = Hashgraph_getHchfTokenAllowanceOfHchfContract (as_client ph) k address blockTag"

definition Placeholder_getHLQTTokenAddress :: "contracts \<Rightarrow> block_tag option \<Rightarrow> string result" where
  "Placeholder_getHLQTTokenAddress k blockTag = Hashgraph_getHLQTTokenAddress k blockTag"

definition Placeholder_getHCHFTokenAddress :: "contracts \<Rightarrow> block_tag option \<Rightarrow> string result" where
  "Placeholder_getHCHFTokenAddress k blockTag = Hashgraph_getHCHFTokenAddress k blockTag"

definition Placeholder_getHLQTBalance :: "placeholder \<Rightarrow> contracts \<Rightarrow> string option \<Rightarrow> block_tag option \<Rightarrow> decimal result" where
  "Placeholder_getHLQTBalance ph k address blockTag = Hashgraph_getHLQTBalance (as_client ph) k address blockTag"

definition Placeholder_getHlqtTokenAllowanceOfHlqtContract :: "placeholder \<Rightarrow> contracts \<Rightarrow> string option \<Rightarrow> block_tag option \<Rightarrow> decimal result" where
  "Placeholder_getHlqtTokenAllowanceOfHlqtContract ph k address blockTag = Hashgraph_getHlqtTokenAllowanceOfHlqtContract (as_client ph) k address blockTag"

definition Placeholder_getUniTokenBalance :: "placeholder \<Rightarrow> contracts \<Rightarrow> string option \<Rightarrow> block_tag option \<Rightarrow> decimal result" where
  "Placeholder_getUniTokenBalance ph k address blockTag = Hashgraph_getUniTokenBalance (as_client ph) k address blockTag"

definition Placeholder_getLPReward :: "placeholder \<Rightarrow> contracts \<Rightarrow> string option \<Rightarrow> block_tag option \<Rightarrow> decimal result" where
  "Placeholder_getLPReward ph k address blockTag = Hashgraph_getLPReward (as_client ph) k address blockTag"

definition Placeholder_getUniTokenAllowance :: "placeholder \<Rightarrow> contracts \<Rightarrow> string option \<Rightarrow> block_tag option \<Rightarrow> decimal result" where
  "Placeholder_getUniTokenAllowance ph k address blockTag = Hashgraph_getUniTokenAllowance (as_client ph) k address blockTag"

definition Placeholder_getRemainingLiquidityMiningHLQTReward :: "contracts \<Rightarrow> block_tag option \<Rightarrow> decimal result" where
  "Placeholder_getRemainingLiquidityMiningHLQTReward k blockTag = Hashgraph_getRemainingLiquidityMiningHLQTReward k blockTag"

definition Placeholder_getLiquidityMiningStake :: "placeholder \<Rightarrow> contracts \<Rightarrow> string option \<Rightarrow> block_tag option \<Rightarrow> decimal result" where
  "Placeholder_getLiquidityMiningStake ph k address blockTag = Hashgraph_getLiquidityMiningStake (as_client ph) k address blockTag"

definition Placeholder_getTotalStakedUniTokens :: "contracts \<Rightarrow> block_tag option \<Rightarrow> decimal result" where
  "Placeholder_getTotalStakedUniTokens k blockTag = Hashgraph_getTotalStakedUniTokens k blockTag"

definition Placeholder_getLiquidityMiningHLQTReward :: "placeholder \<Rightarrow> contracts \<Rightarrow> string option \<Rightarrow> block_tag option \<Rightarrow> decimal result" where
  "Placeholder_getLiquidityMiningHLQTReward ph k address blockTag = Hashgraph_getLiquidityMiningHLQTReward (as_client ph) k address blockTag"

definition Placeholder_getTroves :: "placeholder \<Rightarrow> contracts \<Rightarrow> listing_params \<Rightarrow> block_tag option \<Rightarrow> trove_listing result" where
  "Placeholder_getTroves ph k params blockTag = Hashgraph_getTroves (as_client ph) k params blockTag"

definition Placeholder_getFees :: "placeholder \<Rightarrow> contracts \<Rightarrow> block_tag option \<Rightarrow> fees result" where
  "Placeholder_getFees ph k blockTag = Hashgraph_getFees (as_client ph) k blockTag"

definition Placeholder_getHLQTStake :: "placeholder \<Rightarrow> contracts \<Rightarrow> string option \<Rightarrow> block_tag option \<Rightarrow> hlqt_stake result" where
  "Placeholder_getHLQTStake ph k address blockTag = Hashgraph_getHLQTStake (as_client ph) k address blockTag"

definition Placeholder_getTotalStakedHLQT :: "contracts \<Rightarrow> block_tag option \<Rightarrow> decimal result" where
  "Placeholder_getTotalStakedHLQT k blockTag = Hashgraph_getTotalStakedHLQT k blockTag"

definition Placeholder_getFrontendStatus :: "placeholder \<Rightarrow> contracts \<Rightarrow> string option \<Rightarrow> block_tag option \<Rightarrow> frontend_status result" where
  "Placeholder_getFrontendStatus ph k address blockTag = Hashgraph_getFrontendStatus (as_client ph) k address blockTag"

section \<open>The snapshot for the store\<close>

text \<open>
  The made-up balances: \<^verbatim>\<open>accountBalance\<close> is meant to be enough to open one trove with the minimum debt and a healthy ratio.
\<close>

definition placeholder_accountBalance :: "constants \<Rightarrow> decimal \<Rightarrow> decimal result" where
  "placeholder_accountBalance cs price' =
     rbind (Decimal_from (Number ''0.2'')) (\<lambda>extra.
     rbind (Decimal_from (Number ''40'')) (\<lambda>cost.
     Inr (Decimal_add (Decimal_mul (Decimal_div (HCHF_MINIMUM_DEBT cs) price') (Decimal_add (CRITICAL_COLLATERAL_RATIO cs) extra)) cost)))"

definition Placeholder_fetchStoreValues :: "placeholder \<Rightarrow> contracts \<Rightarrow> (string \<Rightarrow> nat) \<Rightarrow> block_tag option
    \<Rightarrow> (base_state \<times> js_object) result" where
  "Placeholder_fetchStoreValues this k ids blockTag =
     rbind (Placeholder_getPrice k blockTag) (\<lambda>price'.
     rbind (web3_getBlock_timestamp k blockTag) (\<lambda>blockTimestamp.
     rbind (Placeholder_getRemainingLiquidityMiningHLQTReward k blockTag) (\<lambda>calculateRemainingHLQT.
     rbind (troveManager_lastFeeOperationTime k blockTag) (\<lambda>lastFeeOperationTime.
     rbind (troveManager_baseRate k blockTag) (\<lambda>baseRateResult.
     rbind (Placeholder_getNumberOfTroves k blockTag) (\<lambda>numberOfTroves'.
     rbind (Placeholder_getTotalRedistributed this k blockTag) (\<lambda>totalRedistributed'.
     rbind (Placeholder_getTotal this k blockTag) (\<lambda>total'.
     rbind (Placeholder_getHCHFInStabilityPool k blockTag) (\<lambda>hchfInStabilityPool'.
     rbind (Placeholder_getTotalStakedHLQT k blockTag) (\<lambda>totalStakedHLQT'.
     rbind (userTroveStatusFrom 0) (\<lambda>riskiestStatus.
     rbind (Placeholder_getTotalStakedUniTokens k blockTag) (\<lambda>totalStakedUniTokens'.
     rbind (Placeholder_getRemainingStabilityPoolHLQTReward this k blockTag) (\<lambda>remainingStabilityPoolHLQTReward'.
     rbind (if ph_frontendAddress this \<noteq> []
            then Placeholder_getFrontendStatus this k (Some (ph_frontendAddress this)) blockTag
            else Inr Unregistered) (\<lambda>frontend'.
     rbind (placeholder_accountBalance (ph_constants this) price') (\<lambda>accountBalance'.
     rbind (Decimal_from (Number ''1'')) (\<lambda>one.
     rbind (Decimal_from (DecimalObject (Decimal_mul (HCHF_MINIMUM_DEBT (ph_constants this)) one))) (\<lambda>hchfBalance'.
     rbind (Decimal_from (Number ''100'')) (\<lambda>hlqtBalance'.
     rbind (Placeholder_getHCHFTokenAddress k blockTag) (\<lambda>hchfTokenAddress'.
     rbind (Placeholder_getHLQTTokenAddress k blockTag) (\<lambda>hlqtTokenAddress'.
     rbind (new_StabilityDeposit Decimal_ZERO Decimal_ZERO Decimal_ZERO Decimal_ZERO AddressZero) (\<lambda>stabilityDeposit'.
     rbind (decimalify baseRateResult) (\<lambda>baseRateWithoutDecay'.
     rbind (new_Fees (DecimalObject baseRateWithoutDecay')
              (DecimalObject (MINUTE_DECAY_FACTOR (ph_constants this)))
              (DecimalObject (BETA (ph_constants this))) (int lastFeeOperationTime * 1000)
              (int blockTimestamp * 1000) False (ph_constants this)) (\<lambda>feesInNormalMode'.
     Inr (\<lparr>frontend = Object (ids ''frontend'') frontend',
           ownFrontend = Object (ids ''ownFrontend'') Unregistered,
           numberOfTroves = numberOfTroves',
           accountBalance = Object (ids ''accountBalance'') accountBalance',
           hchfBalance = Object (ids ''hchfBalance'') hchfBalance',
           hchfTokenAddress = hchfTokenAddress',
           hlqtTokenAddress = hlqtTokenAddress',
           hlqtBalance = Object (ids ''hlqtBalance'') hlqtBalance',
           uniTokenBalance = Object (ids ''ZERO'') Decimal_ZERO,
           uniTokenAllowance = Object (ids ''ZERO'') Decimal_ZERO,
           remainingLiquidityMiningHLQTReward = Object (ids ''remainingLiquidityMiningHLQTReward'') calculateRemainingHLQT,
           liquidityMiningStake = Object (ids ''ZERO'') Decimal_ZERO,
           totalStakedUniTokens = Object (ids ''totalStakedUniTokens'') totalStakedUniTokens',
           liquidityMiningHLQTReward = Object (ids ''ZERO'') Decimal_ZERO,
           collateralSurplusBalance = Object (ids ''ZERO'') Decimal_ZERO,
           price = Object (ids ''price'') price',
           hchfInStabilityPool = Object (ids ''hchfInStabilityPool'') hchfInStabilityPool',
           total = Object (ids ''total'') total',
           totalRedistributed = Object (ids ''totalRedistributed'') totalRedistributed',
           troveBeforeRedistribution = Object (ids ''troveBeforeRedistribution'')
             (empty_PendingTrove (ph_constants this) AddressZero NonExistent),
           stabilityDeposit = Object (ids ''stabilityDeposit'') stabilityDeposit',
           remainingStabilityPoolHLQTReward = Object (ids ''remainingStabilityPoolHLQTReward'') remainingStabilityPoolHLQTReward',
           feesInNormalMode = Object (ids ''_feesInNormalMode'') feesInNormalMode',
           hlqtStake = Object (ids ''hlqtStake'') empty_HLQTStake,
           totalStakedHLQT = Object (ids ''totalStakedHLQT'') totalStakedHLQT',
           riskiestTroveBeforeRedistribution = Object (ids ''_riskiestTroveBeforeRedistribution'')
             (empty_PendingTrove (ph_constants this) AddressZero riskiestStatus),
           userHasAssociatedWithHchf = False,
           userHasAssociatedWithHlqt = False,
           userHasAssociatedWithLpToken = False,
           hchfTokenAllowanceOfHchfContract = Object (ids ''ZERO'') Decimal_ZERO,
           hlqtTokenAllowanceOfHlqtContract = Object (ids ''ZERO'') Decimal_ZERO\<rparr>,
          [(''blockTag'', case blockTag of
              None \<Rightarrow> UndefinedValue | Some (BlockNumber n) \<Rightarrow> NumberValue n | Some (BlockName s) \<Rightarrow> StringValue s),
           (''blockTimestamp'', NumberValue (int blockTimestamp))]))))))))))))))))))))))))"

definition Placeholder_doStart :: "placeholder \<Rightarrow> contracts \<Rightarrow> (string \<Rightarrow> nat) \<Rightarrow> (nat \<Rightarrow> callback)
    \<Rightarrow> (listener_action list \<times> js_error option) option \<Rightarrow> js_object store \<Rightarrow> js_object store" where
  "Placeholder_doStart this k ids call onLoaded s = (case Placeholder_fetchStoreValues this k ids None of
      Inr values \<Rightarrow> fst (store_snapshot ids call onLoaded values s) | Inl _ \<Rightarrow> s)"

definition placeholder_subclass :: "(js_object, js_object) store_subclass" where
  "placeholder_subclass = \<lparr>reduceExtra = object_assign, extra_entries = id\<rparr>"

definition Placeholder_refresh :: "placeholder \<Rightarrow> contracts \<Rightarrow> (string \<Rightarrow> nat) \<Rightarrow> (nat \<Rightarrow> callback)
    \<Rightarrow> (listener_action list \<times> js_error option) option \<Rightarrow> js_object store \<Rightarrow> js_object store \<times> js_object" where
  "Placeholder_refresh this k ids call onLoaded s =
     (let s' = (case Placeholder_fetchStoreValues this k ids None of
          Inr values \<Rightarrow> fst (store_snapshot ids call onLoaded values s) | Inl _ \<Rightarrow> s)
      in (s', store_state placeholder_subclass ids s'))"

section \<open>Transactions\<close>

text \<open>
  Every method that would build or send a transaction throws, whatever its arguments (the options of a transaction, which the
  methods take last, are left out).
\<close>

definition cannot_execute :: "'a result" where
  "cannot_execute = Inl (Error (''the placeholder liquity can'' @ [CHR 0x27] @ ''t execute transactions''))"

definition Placeholder_populateOpenTrove :: "entries \<Rightarrow> decimalish option \<Rightarrow> populated_transaction result" where
  "Placeholder_populateOpenTrove params maxBorrowingRate = cannot_execute"

definition Placeholder_populateCloseTrove :: "populated_transaction result" where
  "Placeholder_populateCloseTrove = cannot_execute"

definition Placeholder_populateAdjustTrove :: "entries \<Rightarrow> decimalish option \<Rightarrow> populated_transaction result" where
  "Placeholder_populateAdjustTrove params maxBorrowingRate = cannot_execute"

definition Placeholder_populateDepositCollateral :: "decimalish \<Rightarrow> populated_transaction result" where
  "Placeholder_populateDepositCollateral amount = cannot_execute"

definition Placeholder_populateWithdrawCollateral :: "decimalish \<Rightarrow> populated_transaction result" where
  "Placeholder_populateWithdrawCollateral amount = cannot_execute"

definition Placeholder_populateBorrowHCHF :: "decimalish \<Rightarrow> populated_transaction result" where
  "Placeholder_populateBorrowHCHF amount = cannot_execute"

definition Placeholder_populateRepayHCHF :: "decimalish \<Rightarrow> populated_transaction result" where
  "Placeholder_populateRepayHCHF amount = cannot_execute"

definition Placeholder_populateClaimCollateralSurplus :: "populated_transaction result" where
  "Placeholder_populateClaimCollateralSurplus = cannot_execute"

definition Placeholder_populateSetPrice :: "decimalish \<Rightarrow> populated_transaction result" where
  "Placeholder_populateSetPrice price' = cannot_execute"

definition Placeholder_populateLiquidate :: "liquidation_target \<Rightarrow> populated_transaction result" where
  "Placeholder_populateLiquidate addressOrAddresses = cannot_execute"

definition Placeholder_populateLiquidateUpTo :: "string \<Rightarrow> populated_transaction result" where
  "Placeholder_populateLiquidateUpTo maximumNumberOfTrovesToLiquidate = cannot_execute"

definition Placeholder_populateDepositHCHFInStabilityPool :: "decimalish \<Rightarrow> string option \<Rightarrow> populated_transaction result" where
  "Placeholder_populateDepositHCHFInStabilityPool amount frontendTag' = cannot_execute"

definition Placeholder_populateWithdrawHCHFFromStabilityPool :: "decimalish \<Rightarrow> populated_transaction result" where
  "Placeholder_populateWithdrawHCHFFromStabilityPool amount = cannot_execute"

definition Placeholder_populateWithdrawGainsFromStabilityPool :: "populated_transaction result" where
  "Placeholder_populateWithdrawGainsFromStabilityPool = cannot_execute"

definition Placeholder_populateTransferCollateralGainToTrove :: "populated_transaction result" where
  "Placeholder_populateTransferCollateralGainToTrove = cannot_execute"

definition Placeholder_populateRedeemHCHF :: "decimalish \<Rightarrow> decimalish option \<Rightarrow> populated_transaction result" where
  "Placeholder_populateRedeemHCHF amount maxRedemptionRate = cannot_execute"

definition Placeholder_populateStakeHLQT :: "decimalish \<Rightarrow> populated_transaction result" where
  "Placeholder_populateStakeHLQT amount = cannot_execute"

definition Placeholder_populateUnstakeHLQT :: "decimalish \<Rightarrow> populated_transaction result" where
  "Placeholder_populateUnstakeHLQT amount = cannot_execute"

definition Placeholder_populateWithdrawGainsFromStaking :: "populated_transaction result" where
  "Placeholder_populateWithdrawGainsFromStaking = cannot_execute"

definition Placeholder_populateRegisterFrontend :: "decimalish \<Rightarrow> populated_transaction result" where
  "Placeholder_populateRegisterFrontend kickbackRate = cannot_execute"

definition Placeholder_populateApproveUniTokens :: "decimalish option \<Rightarrow> populated_transaction result" where
  "Placeholder_populateApproveUniTokens allowance = cannot_execute"

definition Placeholder_populateStakeUniTokens :: "decimalish \<Rightarrow> populated_transaction result" where
  "Placeholder_populateStakeUniTokens amount = cannot_execute"

definition Placeholder_populateUnstakeUniTokens :: "decimalish \<Rightarrow> populated_transaction result" where
  "Placeholder_populateUnstakeUniTokens amount = cannot_execute"

definition Placeholder_populateWithdrawHLQTRewardFromLiquidityMining :: "populated_transaction result" where
  "Placeholder_populateWithdrawHLQTRewardFromLiquidityMining = cannot_execute"

definition Placeholder_populateExitLiquidityMining :: "populated_transaction result" where
  "Placeholder_populateExitLiquidityMining = cannot_execute"

definition Placeholder_associateWithHchf :: "unit result" where
  "Placeholder_associateWithHchf = cannot_execute"

definition Placeholder_dissociateFromHchf :: "unit result" where
  "Placeholder_dissociateFromHchf = cannot_execute"

definition Placeholder_associateWithHlqt :: "unit result" where
  "Placeholder_associateWithHlqt = cannot_execute"

definition Placeholder_dissociateFromHlqt :: "unit result" where
  "Placeholder_dissociateFromHlqt = cannot_execute"

definition Placeholder_associateWithLpToken :: "unit result" where
  "Placeholder_associateWithLpToken = cannot_execute"

definition Placeholder_dissociateFromLpToken :: "unit result" where
  "Placeholder_dissociateFromLpToken = cannot_execute"

definition Placeholder_approveHchfToSpendHchf :: "decimal \<Rightarrow> unit result" where
  "Placeholder_approveHchfToSpendHchf amount = cannot_execute"

definition Placeholder_approveHlqtToSpendHlqt :: "decimal \<Rightarrow> unit result" where
  "Placeholder_approveHlqtToSpendHlqt amount = cannot_execute"

definition Placeholder_approveSaucerSwapToSpendLpToken :: "decimal \<Rightarrow> unit result" where
  "Placeholder_approveSaucerSwapToSpendLpToken amount = cannot_execute"

text \<open>The two interfaces (\<^verbatim>\<open>populatable.ts\<close>, \<^verbatim>\<open>sendable.ts\<close>) bind to these methods.\<close>

fun Placeholder_asPopulatable :: "liquity_action \<Rightarrow> populated_transaction result" where
  "Placeholder_asPopulatable (Action_openTrove x y) = Placeholder_populateOpenTrove x y"
| "Placeholder_asPopulatable Action_closeTrove = Placeholder_populateCloseTrove"
| "Placeholder_asPopulatable (Action_adjustTrove x y) = Placeholder_populateAdjustTrove x y"
| "Placeholder_asPopulatable (Action_depositCollateral x) = Placeholder_populateDepositCollateral x"
| "Placeholder_asPopulatable (Action_withdrawCollateral x) = Placeholder_populateWithdrawCollateral x"
| "Placeholder_asPopulatable (Action_borrowHCHF x) = Placeholder_populateBorrowHCHF x"
| "Placeholder_asPopulatable (Action_repayHCHF x) = Placeholder_populateRepayHCHF x"
| "Placeholder_asPopulatable Action_claimCollateralSurplus = Placeholder_populateClaimCollateralSurplus"
| "Placeholder_asPopulatable (Action_setPrice x) = Placeholder_populateSetPrice x"
| "Placeholder_asPopulatable (Action_liquidate x) = Placeholder_populateLiquidate x"
| "Placeholder_asPopulatable (Action_liquidateUpTo x) = Placeholder_populateLiquidateUpTo x"
| "Placeholder_asPopulatable (Action_depositHCHFInStabilityPool x y) = Placeholder_populateDepositHCHFInStabilityPool x y"
| "Placeholder_asPopulatable (Action_withdrawHCHFFromStabilityPool x) = Placeholder_populateWithdrawHCHFFromStabilityPool x"
| "Placeholder_asPopulatable Action_withdrawGainsFromStabilityPool = Placeholder_populateWithdrawGainsFromStabilityPool"
| "Placeholder_asPopulatable Action_transferCollateralGainToTrove = Placeholder_populateTransferCollateralGainToTrove"
| "Placeholder_asPopulatable (Action_redeemHCHF x y) = Placeholder_populateRedeemHCHF x y"
| "Placeholder_asPopulatable (Action_stakeHLQT x) = Placeholder_populateStakeHLQT x"
| "Placeholder_asPopulatable (Action_unstakeHLQT x) = Placeholder_populateUnstakeHLQT x"
| "Placeholder_asPopulatable Action_withdrawGainsFromStaking = Placeholder_populateWithdrawGainsFromStaking"
| "Placeholder_asPopulatable (Action_registerFrontend x) = Placeholder_populateRegisterFrontend x"
| "Placeholder_asPopulatable (Action_approveUniTokens x) = Placeholder_populateApproveUniTokens x"
| "Placeholder_asPopulatable (Action_stakeUniTokens x) = Placeholder_populateStakeUniTokens x"
| "Placeholder_asPopulatable (Action_unstakeUniTokens x) = Placeholder_populateUnstakeUniTokens x"
| "Placeholder_asPopulatable Action_withdrawHLQTRewardFromLiquidityMining = Placeholder_populateWithdrawHLQTRewardFromLiquidityMining"
| "Placeholder_asPopulatable Action_exitLiquidityMining = Placeholder_populateExitLiquidityMining"

definition Placeholder_sendTransaction :: send_transaction where
  "Placeholder_sendTransaction transaction = cannot_execute"

definition Placeholder_asSendable :: "liquity_action \<Rightarrow> (hedera_status \<times> details_closure) result" where
  "Placeholder_asSendable action = sendFromPopulate Placeholder_sendTransaction Placeholder_asPopulatable action"

section \<open>Nothing is executed\<close>

lemmas placeholder_populate = Placeholder_populateOpenTrove_def Placeholder_populateCloseTrove_def Placeholder_populateAdjustTrove_def
  Placeholder_populateDepositCollateral_def Placeholder_populateWithdrawCollateral_def Placeholder_populateBorrowHCHF_def
  Placeholder_populateRepayHCHF_def Placeholder_populateClaimCollateralSurplus_def Placeholder_populateSetPrice_def
  Placeholder_populateLiquidate_def Placeholder_populateLiquidateUpTo_def Placeholder_populateDepositHCHFInStabilityPool_def
  Placeholder_populateWithdrawHCHFFromStabilityPool_def Placeholder_populateWithdrawGainsFromStabilityPool_def
  Placeholder_populateTransferCollateralGainToTrove_def Placeholder_populateRedeemHCHF_def Placeholder_populateStakeHLQT_def
  Placeholder_populateUnstakeHLQT_def Placeholder_populateWithdrawGainsFromStaking_def Placeholder_populateRegisterFrontend_def
  Placeholder_populateApproveUniTokens_def Placeholder_populateStakeUniTokens_def Placeholder_populateUnstakeUniTokens_def
  Placeholder_populateWithdrawHLQTRewardFromLiquidityMining_def Placeholder_populateExitLiquidityMining_def

text \<open>Whatever a page asks for, it gets the same error from both interfaces; no transaction is built or sent.\<close>

lemma placeholder_executes_nothing:
  "Placeholder_asPopulatable a = cannot_execute" "Placeholder_asSendable a = cannot_execute"
proof -
  show populate: "Placeholder_asPopulatable a = cannot_execute"
    by (cases a) (simp_all add: placeholder_populate)
  show "Placeholder_asSendable a = cannot_execute"
    by (simp add: Placeholder_asSendable_def sendFromPopulate_def populate) (simp add: cannot_execute_def)
qed

section \<open>The made-up balance\<close>

lemma placeholder_literals [simp]:
  "Decimal_from (Number ''0.2'') = Inr (Decimal 20000000)" "Decimal_from (Number ''40'') = Inr (Decimal (40 * DIGITS))"
  by (simp_all add: Decimal_from_def parse_eval decimal_unfold)

definition placeholder_collateral :: "constants \<Rightarrow> decimal \<Rightarrow> decimal" where
  "placeholder_collateral cs p =
     Decimal_mul (Decimal_div (HCHF_MINIMUM_DEBT cs) p) (Decimal_add (CRITICAL_COLLATERAL_RATIO cs) (Decimal 20000000))"

lemma placeholder_accountBalance_eq:
  "placeholder_accountBalance cs p = Inr (Decimal_add (placeholder_collateral cs p) (Decimal (40 * DIGITS)))"
  by (simp add: placeholder_accountBalance_def placeholder_collateral_def)

text \<open>The two divisions lose at most four units of the price.\<close>

lemma scaled_quotient_loss:
  fixes d p k s :: nat
  assumes "0 < p" "0 < s" "k \<le> 3 * s"
  shows "d * k \<le> (d * s div p * k div s) * p + 4 * p"
proof -
  let ?q = "d * s div p"
  have q: "d * s \<le> ?q * p + p" and m: "?q * k \<le> (?q * k div s) * s + s"
    using dividend_less_div_times [OF assms(1), of "d * s"] dividend_less_div_times [OF assms(2), of "?q * k"] by linarith+
  have "s * (d * k) \<le> (?q * p + p) * k" using mult_le_mono1 [OF q, of k] by (simp add: algebra_simps)
  also have "\<dots> = ?q * k * p + k * p" by (simp add: algebra_simps)
  also have "\<dots> \<le> ((?q * k div s) * s + s) * p + 3 * s * p"
    by (intro add_mono mult_le_mono1 m assms(3))
  also have "\<dots> = s * ((?q * k div s) * p + 4 * p)" by (simp add: algebra_simps)
  finally show ?thesis using assms(2) by simp
qed

lemma placeholder_collateral_value:
  assumes "p \<noteq> Decimal_ZERO" and "CRITICAL_COLLATERAL_RATIO cs \<le> Decimal (2 * DIGITS)"
  shows "bigNumber (HCHF_MINIMUM_DEBT cs) * (bigNumber (CRITICAL_COLLATERAL_RATIO cs) + 20000000)
    \<le> bigNumber (placeholder_collateral cs p) * bigNumber p + 4 * bigNumber p"
proof -
  have p: "0 < bigNumber p" using assms(1) by (cases p) (simp add: Decimal_ZERO_def)
  have k: "bigNumber (CRITICAL_COLLATERAL_RATIO cs) + 20000000 \<le> 3 * DIGITS"
    using assms(2) by (simp add: less_eq_decimal_def DIGITS_eq)
  have "bigNumber (placeholder_collateral cs p) =
      bigNumber (HCHF_MINIMUM_DEBT cs) * DIGITS div bigNumber p * (bigNumber (CRITICAL_COLLATERAL_RATIO cs) + 20000000) div DIGITS"
    using assms(1) by (simp add: placeholder_collateral_def Decimal_mul_def Decimal_div_def Decimal_add_def)
  with scaled_quotient_loss [OF p _ k, of "bigNumber (HCHF_MINIMUM_DEBT cs)"] show ?thesis by (simp add: DIGITS_eq)
qed

lemma placeholder_total_debt:
  assumes "rate \<le> Decimal 5000000" and "ccr \<le> 2 * DIGITS" and "n + r = d"
  shows "(n + r + n * bigNumber rate div DIGITS) * ccr \<le> d * ccr + d * 10000000"
proof -
  have "n * bigNumber rate \<le> d * 5000000"
    using mult_le_mono [of n d "bigNumber rate" 5000000] assms(1,3) by (simp add: less_eq_decimal_def)
  then have "n * bigNumber rate div DIGITS * ccr \<le> d * 5000000 div DIGITS * (2 * DIGITS)"
    using assms(2) by (rule mult_le_mono [OF div_le_mono])
  also have "\<dots> = (d * 5000000 div DIGITS * DIGITS) * 2" by (simp add: algebra_simps)
  also have "\<dots> \<le> (d * 5000000) * 2" by (intro mult_le_mono1 div_times_less_eq_dividend)
  finally show ?thesis unfolding assms(3) by (simp add: distrib_right)
qed

text \<open>The form for opening a trove, as filled in by the button for the maximum and the effect that follows it.\<close>

definition placeholder_context :: "placeholder \<Rightarrow> base_state \<Rightarrow> decimal \<Rightarrow> form_context" where
  "placeholder_context ph b rate = \<lparr>fc_constants = ph_constants ph, fc_borrowingRate = rate, fc_price = content (price b),
     fc_accountBalance = content (accountBalance b)\<rparr>"

lemma placeholder_context_fields [simp]:
  "fc_constants (placeholder_context ph b rate) = ph_constants ph" "fc_borrowingRate (placeholder_context ph b rate) = rate"
  "fc_price (placeholder_context ph b rate) = content (price b)"
  "fc_accountBalance (placeholder_context ph b rate) = content (accountBalance b)"
  by (simp_all add: placeholder_context_def)

definition maximum_entered :: "form_context \<Rightarrow> decimal \<Rightarrow> trove_form" where
  "maximum_entered ctx c = Opening_effect ctx (Opening_init\<lparr>form_collateral := c\<rparr>)"

lemma Placeholder_fetch_balance:
  assumes "Placeholder_fetchStoreValues ph k ids t = Inr (b, e)"
  shows "content (accountBalance b) = Decimal_add (placeholder_collateral (ph_constants ph) (content (price b))) (Decimal (40 * DIGITS))"
  using assms by (auto simp: Placeholder_fetchStoreValues_def rbind_eq_Inr_iff placeholder_accountBalance_eq)

text \<open>
  The made-up balance keeps its promise: if a visitor enters the maximum collateral, the form fills in the minimum net
  debt and shows a trove that is not below the critical ratio, so it could be opened even in recovery mode, for borrowing rates up to
  5\%, critical ratios up to 200\% and any nonzero price below a fortieth of the minimum debt times \<open>10\<^sup>8\<close>.
\<close>

theorem placeholder_balance_opens_trove:
  assumes fetch: "Placeholder_fetchStoreValues ph k ids t = Inr (b, e)"
    and debt: "HCHF_MINIMUM_DEBT (ph_constants ph) = Decimal_add (HCHF_MINIMUM_NET_DEBT (ph_constants ph)) (HCHF_LIQUIDATION_RESERVE (ph_constants ph))"
    and ccr: "CRITICAL_COLLATERAL_RATIO (ph_constants ph) \<le> Decimal (2 * DIGITS)" and rate: "rate \<le> Decimal 5000000"
    and p: "content (price b) \<noteq> Decimal_ZERO" "40 * bigNumber (content (price b)) \<le> bigNumber (HCHF_MINIMUM_DEBT (ph_constants ph)) * DIGITS"
  shows "\<exists>c. Opening_maxCollateral (placeholder_context ph b rate) = Inr c
    \<and> form_debt (maximum_entered (placeholder_context ph b rate) c) = HCHF_MINIMUM_NET_DEBT (ph_constants ph)
    \<and> form_collateral (maximum_entered (placeholder_context ph b rate) c) = c
    \<and> \<not> Trove_collateralRatioIsBelowCritical
          (Opening_trove (placeholder_context ph b rate) (maximum_entered (placeholder_context ph b rate) c)) (content (price b))"
proof -
  let ?cs = "ph_constants ph" and ?ctx = "placeholder_context ph b rate" and ?p = "content (price b)"
  let ?c = "placeholder_collateral ?cs ?p" and ?d = "bigNumber (HCHF_MINIMUM_DEBT ?cs)"
  let ?f = "maximum_entered ?ctx ?c" and ?k = "bigNumber (CRITICAL_COLLATERAL_RATIO ?cs)"
  have worth: "?d * ?k + ?d * 10000000 \<le> bigNumber ?c * bigNumber ?p"
    using placeholder_collateral_value [OF p(1) ccr] p(2) by (simp add: distrib_left DIGITS_eq)
  have pos: "0 < bigNumber ?p" using p(1) by (cases "?p") (simp add: Decimal_ZERO_def)
  then have nz: "?c \<noteq> Decimal_ZERO"
    using worth p(2) by (auto simp: Decimal_ZERO_def DIGITS_eq)
  have max: "Opening_maxCollateral ?ctx = Inr ?c"
    using nz Placeholder_fetch_balance [OF fetch]
    by (cases ?c) (simp add: Opening_maxCollateral_def TX_MAX_COSTS_def Decimal_add_def Decimal_sub_ok
        less_decimal_def less_eq_decimal_def Decimal_ZERO_def)
  have form: "form_debt ?f = HCHF_MINIMUM_NET_DEBT ?cs" "form_collateral ?f = ?c"
    using nz by (simp_all add: maximum_entered_def Opening_effect_def Opening_init_def)
  have "bigNumber (Opening_totalDebt ?ctx ?f) * ?k \<le> ?d * ?k + ?d * 10000000"
    using placeholder_total_debt [OF rate, of ?k "bigNumber (HCHF_MINIMUM_NET_DEBT ?cs)" "bigNumber (HCHF_LIQUIDATION_RESERVE ?cs)" ?d] ccr debt
    by (simp add: Opening_totalDebt_def Opening_fee_def form Decimal_add_def Decimal_mul_def less_eq_decimal_def)
  with worth have "CRITICAL_COLLATERAL_RATIO ?cs \<le> Decimal_mulDiv ?c ?p (Opening_totalDebt ?ctx ?f)"
    using ccr by (intro ratio_from_limit)
      (auto simp: less_eq_decimal_def Decimal_INFINITY_def MAX_UINT_256_def DIGITS_eq intro: order_trans)
  then have "\<not> Trove_collateralRatioIsBelowCritical (Opening_trove ?ctx ?f) ?p"
    using nz by (simp add: Trove_collateralRatioIsBelowCritical_def Trove_collateralRatio_def Opening_trove_def Opening_isDirty_def
        form new_Trove_def not_less)
  with max form show ?thesis by blast
qed

definition sample_placeholder :: placeholder where
  "sample_placeholder = \<lparr>ph_totalStabilityPoolHlqtReward = Decimal_ONE, ph_frontendAddress = [], ph_constants = defaults,
     ph_hchfTokenContractAddress = ''0xH'', ph_hlqtTokenContractAddress = ''0xL'', ph_saucerSwapPoolAddress = ''0xS''\<rparr>"

lemmas placeholder_readers = Placeholder_getPrice_def Placeholder_getRemainingLiquidityMiningHLQTReward_def
  Placeholder_getNumberOfTroves_def Placeholder_getTotalRedistributed_def Placeholder_getTotal_def
  Placeholder_getHCHFInStabilityPool_def Placeholder_getTotalStakedHLQT_def Placeholder_getTotalStakedUniTokens_def
  Placeholder_getRemainingStabilityPoolHLQTReward_def Placeholder_getFrontendStatus_def Placeholder_getHCHFTokenAddress_def
  Placeholder_getHLQTTokenAddress_def

lemma sample_placeholder_fetch:
  "\<exists>b e. Placeholder_fetchStoreValues sample_placeholder sample_contracts ids None = Inr (b, e) \<and> content (price b) = Decimal 5000000"
  by (simp add: Placeholder_fetchStoreValues_def placeholder_readers sample_placeholder_def as_client_def placeholder_accountBalance_eq
      sample_ledger_eval Let_def)

theorem placeholder_balance_opens_trove_witness:
  "\<exists>b e c. Placeholder_fetchStoreValues sample_placeholder sample_contracts no_identity None = Inr (b, e)
     \<and> Opening_maxCollateral (placeholder_context sample_placeholder b (Decimal 500000)) = Inr c
     \<and> \<not> Trove_collateralRatioIsBelowCritical (Opening_trove (placeholder_context sample_placeholder b (Decimal 500000))
           (maximum_entered (placeholder_context sample_placeholder b (Decimal 500000)) c)) (Decimal 5000000)"
proof -
  obtain b e where b: "Placeholder_fetchStoreValues sample_placeholder sample_contracts no_identity None = Inr (b, e)"
    and p: "content (price b) = Decimal 5000000" using sample_placeholder_fetch by blast
  from placeholder_balance_opens_trove [OF b, of "Decimal 500000"] b p show ?thesis
    by (auto simp: sample_placeholder_def defaults_def decimal_unfold Decimal_add_def less_eq_decimal_def)
qed

section \<open>Refreshing\<close>

lemma placeholder_subclass_eq: "placeholder_subclass = hashgraph_subclass"
  by (simp add: placeholder_subclass_def hashgraph_subclass_def)

text \<open>
  As for the Hashgraph client, \<^verbatim>\<open>refresh\<close> keeps the store reachable, leaves it alone if a read fails, and makes it show the
  snapshot; so before a wallet is connected, no trove, deposit or stake is ever shown.
\<close>

theorem placeholder_shows_no_user:
  assumes "reachable_store placeholder_subclass (ph_constants this) s"
    and "Placeholder_fetchStoreValues this k ids None = Inr (b, e)"
    and "store_snapshot ids call onLoaded (b, e) s = (s', Inr r)"
  shows "reachable_store placeholder_subclass (ph_constants this) s' \<and> Placeholder_refresh this k ids call onLoaded s = (s', store_state placeholder_subclass ids s')
    \<and> (\<exists>d b'. derivedState s' = Some d \<and> baseState s' = Some b' \<and> debt (content (trove d)) = Decimal_ZERO
        \<and> collateral (content (trove d)) = Decimal_ZERO \<and> status (content (trove d)) = NonExistent
        \<and> currentHCHF (content (stabilityDeposit b')) = Decimal_ZERO \<and> stakedHLQT (content (hlqtStake b')) = Decimal_ZERO
        \<and> \<not> userHasAssociatedWithHchf b' \<and> content (price b') = content (price b))"
proof -
  have reach: "reachable_store placeholder_subclass (ph_constants this) s'"
    using store_snapshot_reachable [OF _ assms(3)] assms(1) by (simp add: placeholder_subclass_eq)
  have fetched: "content (troveBeforeRedistribution b) = empty_PendingTrove (ph_constants this) AddressZero NonExistent"
    "content (hlqtStake b) = empty_HLQTStake" "\<not> userHasAssociatedWithHchf b"
    "new_StabilityDeposit Decimal_ZERO Decimal_ZERO Decimal_ZERO Decimal_ZERO AddressZero = Inr (content (stabilityDeposit b))"
    using assms(2) by (auto simp: Placeholder_fetchStoreValues_def rbind_eq_Inr_iff)
  obtain b' where b': "baseState s' = Some b'" "state_equal b' b" using store_snapshot_base [OF assms(3)] by blast
  have "consistent s'"
    using assms(3) by (auto simp: store_snapshot_def intro: update_consistent load_consistent split: if_split_asm)
  then obtain d n where d: "derivedState s' = Some d" "derive ids b' = Inr n" "derived_equal d n"
    by (rule consistentE [of s' ids]) (use b' in auto)
  let ?t = "content (troveBeforeRedistribution b')"
  have same: "PendingTrove_equals ?t (empty_PendingTrove (ph_constants this) AddressZero NonExistent)"
    "StabilityDeposit_equals (content (stabilityDeposit b')) (content (stabilityDeposit b))"
    "HLQTStake_equals (content (hlqtStake b')) empty_HLQTStake" "\<not> userHasAssociatedWithHchf b'" "content (price b') = content (price b)"
    using b'(2) fetched by (simp_all add: state_equal_def on_content_def strictEquals_def)
  have "UserTrove_equals (content (trove d)) (applyRedistribution ?t (content (totalRedistributed b')))"
    using d(2,3) by (auto simp: derive_def rbind_eq_Inr_iff derived_equal_def on_content_def)
  then have "debt (content (trove d)) = Decimal_ZERO \<and> collateral (content (trove d)) = Decimal_ZERO \<and> status (content (trove d)) = NonExistent"
    using same(1) by (simp add: UserTrove_equals_def PendingTrove_equals_def Trove_equals_def empty_PendingTrove_def
        new_PendingTrove_def applyRedistribution_def new_UserTrove_def trove_ops)
  moreover have "currentHCHF (content (stabilityDeposit b')) = Decimal_ZERO" "stakedHLQT (content (hlqtStake b')) = Decimal_ZERO"
    using same(2,3) fetched(4) [symmetric] by (auto simp: StabilityDeposit_equals_def HLQTStake_equals_def new_StabilityDeposit_def
        empty_HLQTStake_def new_HLQTStake_def split: if_splits)
  moreover have "Placeholder_refresh this k ids call onLoaded s = (s', store_state placeholder_subclass ids s')"
    using assms(2,3) by (simp add: Placeholder_refresh_def)
  ultimately show ?thesis using reach d(1) b'(1) same(4,5) by blast
qed

end
