(* ===== verification/Batching.thy ===== *)
theory Batching
  imports Hashgraph_Read "HOL-Library.Multiset"
begin

text \<open>
  Batching of contract calls: the provider the application wraps around the wallet's
  (\<^verbatim>\<open>packages/dev-frontend/src/providers/BatchingProvider.ts\<close>) and the mixin it comes from
  (\<^verbatim>\<open>packages/providers/src/BatchedProvider.ts\<close>). Calls are put into a queue, and a timer that restarts with every call sends
  the queue as one call of the contract \<^verbatim>\<open>Multicall\<close>.

  A promise is a number; a settled promise is recorded with its outcome (\<open>None\<close> is \<^verbatim>\<open>undefined\<close>). The provider below and the
  multicall contract are arguments. Between the moment a batch is sent and its answer other calls may come, so a sent batch waits in
  \<open>in_flight\<close>.
\<close>

section \<open>Requests\<close>

datatype bytes_like = HexText string | ByteArray "nat list"

record call_request =
  call_target :: "string option"
  callData :: "bytes_like option"

record transaction_request =
  tr_to :: "string option"
  tr_from :: "string option"
  tr_nonce :: "nat option"
  tr_gasLimit :: "nat option"
  tr_gasPrice :: "nat option"
  tr_data :: "bytes_like option"
  tr_value :: "nat option"
  tr_chainId :: "nat option"

text \<open>The request for a single call, \<^verbatim>\<open>{ to, data }\<close>.\<close>

definition plain_request :: "call_request \<Rightarrow> transaction_request" where
  "plain_request c = \<lparr>tr_to = call_target c, tr_from = None, tr_nonce = None, tr_gasLimit = None, tr_gasPrice = None,
     tr_data = callData c, tr_value = None, tr_chainId = None\<rparr>"

definition call_of :: "transaction_request \<Rightarrow> call_request" where
  "call_of r = \<lparr>call_target = tr_to r, callData = tr_data r\<rparr>"

record batched_calls =
  bc_calls :: "call_request list"
  bc_callbacks :: "nat list"
  bc_blockTag :: "block_tag option"

record batching_provider =
  bp_chainId :: nat
  bp_multicall :: "string option"
  bp_batched :: batched_calls
  bp_timer :: bool
  numberOfBatchedCalls :: nat
  numberOfActualCalls :: nat
  timeOfLastRatioCheck :: "int option"
  next_promise :: nat
  in_flight :: "batched_calls list"
  settled :: "(nat \<times> string option result) list"

text \<open>What a call does: it is passed on, it waits for a promise, or it throws.\<close>

datatype call_route = Direct transaction_request "block_tag option" | Enqueued nat | Failed_route js_error

type_synonym router = "batching_provider \<Rightarrow> transaction_request \<Rightarrow> block_tag option \<Rightarrow> batching_provider \<times> call_route"
type_synonym base_call = "transaction_request \<Rightarrow> block_tag option \<Rightarrow> string result"
type_synonym aggregate_call = "call_request list \<Rightarrow> block_tag option \<Rightarrow> string list result"

section \<open>The queue\<close>

definition latest :: block_tag where
  "latest = BlockName ''latest''"

definition emptyBatch :: batched_calls where
  "emptyBatch = \<lparr>bc_calls = [], bc_callbacks = [], bc_blockTag = Some latest\<rparr>"

definition enqueueCall :: "call_request \<Rightarrow> batching_provider \<Rightarrow> batching_provider \<times> nat" where
  "enqueueCall c p =
     (p\<lparr>bp_batched := (bp_batched p)\<lparr>bc_calls := bc_calls (bp_batched p) @ [c],
          bc_callbacks := bc_callbacks (bp_batched p) @ [next_promise p]\<rparr>,
        bp_timer := True, next_promise := Suc (next_promise p)\<rparr>, next_promise p)"

text \<open>
  The timer calls \<^verbatim>\<open>_dispatchCalls\<close>: up to its first \<^verbatim>\<open>await\<close> it takes the batch (\<open>dispatch_with\<close>; the request to the multicall contract
  comes back to the provider as a call of its own, which is \<open>again\<close>), and later the answer settles its promises (\<open>receive_results\<close>).
\<close>

definition dispatch_with :: "batched_calls \<Rightarrow> (batching_provider \<Rightarrow> batching_provider) \<Rightarrow> batching_provider \<Rightarrow> batching_provider" where
  "dispatch_with fresh again p =
     (let p1 = p\<lparr>bp_timer := False, bp_batched := fresh, in_flight := in_flight p @ [bp_batched p]\<rparr>
      in if 1 < length (bc_calls (bp_batched p)) then again p1 else p1)"

definition batch_results :: "base_call \<Rightarrow> aggregate_call \<Rightarrow> batched_calls \<Rightarrow> string list result" where
  "batch_results base aggregate b =
     (if 1 < length (bc_calls b) then aggregate (bc_calls b) (bc_blockTag b)
      else case bc_calls b of
        [] \<Rightarrow> Inl (ExternalError ''TypeError'')
      | c # _ \<Rightarrow> rbind (base (plain_request c) (bc_blockTag b)) (\<lambda>r. Inr [r]))"

definition settle_batch :: "string list result \<Rightarrow> batched_calls \<Rightarrow> (nat \<times> string option result) list" where
  "settle_batch results b = (case results of
      Inr rs \<Rightarrow> map (\<lambda>(i, k). (i, Inr (if k < length rs then Some (rs ! k) else None)))
        (zip (bc_callbacks b) [0..<length (bc_callbacks b)])
    | Inl e \<Rightarrow> map (\<lambda>i. (i, Inl e)) (bc_callbacks b))"

definition receive_results :: "base_call \<Rightarrow> aggregate_call \<Rightarrow> nat \<Rightarrow> batching_provider \<Rightarrow> batching_provider" where
  "receive_results base aggregate k p =
     p\<lparr>in_flight := take k (in_flight p) @ drop (Suc k) (in_flight p),
       settled := settled p @ settle_batch (batch_results base aggregate (in_flight p ! k)) (in_flight p ! k)\<rparr>"

section \<open>The provider of the front end\<close>

definition multicallAddress :: "nat \<Rightarrow> string option" where
  "multicallAddress = map_of [(1, ''0xeefBa1e63905eF1D7ACbA5a8513c70307C1cE441''), (3, ''0x53C43764255c17BD724F74c4eF150724AC50a3ed''),
     (4, ''0x42Ad527de7d4e9d9d011aC45B31D8551f8Fe9821''), (5, ''0x77dCa2C955b15e9dE4dbBCf1246B4B85b651e50e''),
     (42, ''0x2cc8688C5f75E365aaEEb4ea8D6a480405A48D2A''), (11155111, ''0xcA11bde05977b3631167028862bE2a173976CA11'')]"

definition new_BatchedProvider :: "nat \<Rightarrow> batching_provider" where
  "new_BatchedProvider chainId = \<lparr>bp_chainId = chainId, bp_multicall = multicallAddress chainId, bp_batched = emptyBatch,
     bp_timer = False, numberOfBatchedCalls = 0, numberOfActualCalls = 0, timeOfLastRatioCheck = None, next_promise = 0,
     in_flight = [], settled = []\<rparr>"

definition batchableCall :: "transaction_request \<Rightarrow> bool" where
  "batchableCall r \<longleftrightarrow> tr_from r = None \<and> tr_gasLimit r = None \<and> tr_gasPrice r = None \<and> tr_value r = None"

definition aggregate_selector :: string where
  "aggregate_selector = ''0x252dba42''"

definition batchedCall :: "transaction_request \<Rightarrow> string \<Rightarrow> bool" where
  "batchedCall r multicall \<longleftrightarrow> tr_to r = Some multicall
     \<and> (case tr_data r of Some (HexText d) \<Rightarrow> take (length aggregate_selector) d = aggregate_selector | _ \<Rightarrow> False)"

definition alreadyBatchedCallsConflictWith :: "batching_provider \<Rightarrow> block_tag option \<Rightarrow> bool" where
  "alreadyBatchedCallsConflictWith p blockTag \<longleftrightarrow> bc_calls (bp_batched p) \<noteq> [] \<and> blockTag \<noteq> bc_blockTag (bp_batched p)"

definition checkBatchingRatio :: "int \<Rightarrow> batching_provider \<Rightarrow> batching_provider" where
  "checkBatchingRatio now p = (case timeOfLastRatioCheck p of
      None \<Rightarrow> p\<lparr>timeOfLastRatioCheck := Some now\<rparr>
    | Some t \<Rightarrow>
        (if 10000 \<le> now - t \<and> numberOfActualCalls p \<noteq> 0
         then p\<lparr>numberOfBatchedCalls := 0, numberOfActualCalls := 0, timeOfLastRatioCheck := Some now\<rparr> else p))"

text \<open>\<^verbatim>\<open>assert\<close> runs after the tag of an empty batch has been set.\<close>

definition performCall :: "int \<Rightarrow> router" where
  "performCall now p r blockTag = (case bp_multicall p of
      None \<Rightarrow> (p, Direct r blockTag)
    | Some multicall \<Rightarrow>
        (let p1 = checkBatchingRatio now p in
         if batchedCall r multicall \<or> \<not> batchableCall r \<or> alreadyBatchedCallsConflictWith p1 blockTag
         then (p1\<lparr>numberOfActualCalls := numberOfActualCalls p1 + 1\<rparr>, Direct r blockTag)
         else
           (let p2 = p1\<lparr>numberOfBatchedCalls := numberOfBatchedCalls p1 + 1\<rparr>;
                p3 = (if bc_calls (bp_batched p2) = [] then p2\<lparr>bp_batched := (bp_batched p2)\<lparr>bc_blockTag := blockTag\<rparr>\<rparr> else p2)
            in if tr_to r = None \<or> tr_data r = None then (p3, Failed_route AssertionError)
               else (let (p4, i) = enqueueCall (call_of r) p3 in (p4, Enqueued i)))))"

text \<open>\<open>encode\<close> is the encoding of the arguments of \<^verbatim>\<open>aggregate\<close>, without its selector.\<close>

definition aggregate_request :: "(call_request list \<Rightarrow> string) \<Rightarrow> string \<Rightarrow> call_request list \<Rightarrow> transaction_request" where
  "aggregate_request encode multicall calls =
     plain_request \<lparr>call_target = Some multicall, callData = Some (HexText (aggregate_selector @ encode calls))\<rparr>"

definition dispatchCalls :: "(call_request list \<Rightarrow> string) \<Rightarrow> int \<Rightarrow> batching_provider \<Rightarrow> batching_provider" where
  "dispatchCalls encode now p = (case bp_multicall p of
      None \<Rightarrow> p\<lparr>bp_timer := False, bp_batched := emptyBatch\<rparr>
    | Some multicall \<Rightarrow> dispatch_with emptyBatch
        (\<lambda>p1. fst (performCall now p1 (aggregate_request encode multicall (bc_calls (bp_batched p))) (bc_blockTag (bp_batched p)))) p)"

definition performGetBalance :: "(string \<Rightarrow> block_tag option \<Rightarrow> nat result) \<Rightarrow> (string \<Rightarrow> block_tag option \<Rightarrow> nat result)
    \<Rightarrow> batching_provider \<Rightarrow> string \<Rightarrow> block_tag option \<Rightarrow> nat result" where
  "performGetBalance underlying getEthBalance p address blockTag =
     (if bp_multicall p = None then underlying address blockTag else getEthBalance address blockTag)"

section \<open>The mixin\<close>

definition Mixin_multicallAddress :: "nat \<Rightarrow> string option" where
  "Mixin_multicallAddress = map_of [(1, ''0xeefBa1e63905eF1D7ACbA5a8513c70307C1cE441''), (3, ''0x53C43764255c17BD724F74c4eF150724AC50a3ed''),
     (4, ''0x42Ad527de7d4e9d9d011aC45B31D8551f8Fe9821''), (5, ''0x77dCa2C955b15e9dE4dbBCf1246B4B85b651e50e''),
     (42, ''0x2cc8688C5f75E365aaEEb4ea8D6a480405A48D2A'')]"

definition Mixin_emptyBatch :: batched_calls where
  "Mixin_emptyBatch = \<lparr>bc_calls = [], bc_callbacks = [], bc_blockTag = None\<rparr>"

definition new_Batched :: batching_provider where
  "new_Batched = \<lparr>bp_chainId = 0, bp_multicall = None, bp_batched = Mixin_emptyBatch, bp_timer = False, numberOfBatchedCalls = 0,
     numberOfActualCalls = 0, timeOfLastRatioCheck = None, next_promise = 0, in_flight = [], settled = []\<rparr>"

definition set_chainId :: "nat \<Rightarrow> batching_provider \<Rightarrow> batching_provider result" where
  "set_chainId chainId p = (if bp_multicall p \<noteq> None then Inl (Error ''can only set chainId once'')
     else Inr (p\<lparr>bp_multicall := Mixin_multicallAddress chainId, bp_chainId := chainId\<rparr>))"

definition Mixin_batchableCall :: "transaction_request \<Rightarrow> bool" where
  "Mixin_batchableCall r \<longleftrightarrow> tr_gasLimit r = None \<and> tr_gasPrice r = None \<and> tr_value r = None"

definition default_tag :: "block_tag option \<Rightarrow> block_tag" where
  "default_tag t = (case t of Some b \<Rightarrow> b | None \<Rightarrow> latest)"

definition Mixin_alreadyBatchedCallsConflictWith :: "batching_provider \<Rightarrow> block_tag option \<Rightarrow> bool" where
  "Mixin_alreadyBatchedCallsConflictWith p blockTag \<longleftrightarrow>
     bc_calls (bp_batched p) \<noteq> [] \<and> default_tag blockTag \<noteq> default_tag (bc_blockTag (bp_batched p))"

text \<open>
  \<^verbatim>\<open>call\<close> checks the ratio, waits for the parts of the request, and then decides; \<open>Mixin_call\<close> is the second part, in the state
  it then finds.
\<close>

definition Mixin_begin_call :: "int \<Rightarrow> batching_provider \<Rightarrow> batching_provider" where
  "Mixin_begin_call now p = (if bp_multicall p = None then p else checkBatchingRatio now p)"

definition Mixin_call :: router where
  "Mixin_call p r blockTag = (case bp_multicall p of
      None \<Rightarrow> (p, Direct r blockTag)
    | Some multicall \<Rightarrow>
        (if batchedCall r multicall \<or> \<not> Mixin_batchableCall r \<or> Mixin_alreadyBatchedCallsConflictWith p blockTag
         then (p\<lparr>numberOfActualCalls := numberOfActualCalls p + 1\<rparr>, Direct r blockTag)
         else
           (let p2 = p\<lparr>numberOfBatchedCalls := numberOfBatchedCalls p + 1\<rparr>;
                p3 = (if bc_calls (bp_batched p2) = [] then p2\<lparr>bp_batched := (bp_batched p2)\<lparr>bc_blockTag := blockTag\<rparr>\<rparr> else p2);
                (p4, i) = enqueueCall (call_of r) p3
            in (p4, Enqueued i))))"

definition Mixin_dispatchCalls :: "(call_request list \<Rightarrow> string) \<Rightarrow> int \<Rightarrow> batching_provider \<Rightarrow> batching_provider" where
  "Mixin_dispatchCalls encode now p = dispatch_with Mixin_emptyBatch (case bp_multicall p of
      None \<Rightarrow> id
    | Some multicall \<Rightarrow> (\<lambda>p1. fst (Mixin_call (Mixin_begin_call now p1) (aggregate_request encode multicall (bc_calls (bp_batched p)))
        (bc_blockTag (bp_batched p))))) p"

definition Mixin_getBalance :: "(string \<Rightarrow> bool) \<Rightarrow> (string \<Rightarrow> block_tag option \<Rightarrow> nat result) \<Rightarrow> (string \<Rightarrow> block_tag option \<Rightarrow> nat result)
    \<Rightarrow> batching_provider \<Rightarrow> string \<Rightarrow> block_tag option \<Rightarrow> nat result" where
  "Mixin_getBalance isAddress super_getBalance getEthBalance p addressOrName blockTag =
     (if \<not> isAddress addressOrName \<or> bp_multicall p = None then super_getBalance addressOrName blockTag
      else getEthBalance addressOrName blockTag)"

section \<open>A running provider\<close>

text \<open>
  The provider with the calls it has promised to answer (\<open>issued\<close>: promise, request and block tag). \<open>R\<close> is the decision about a call,
  \<open>D\<close> what the timer does, \<open>T\<close> what happens at the start of a call; \<open>B\<close> and \<open>A\<close> are the provider below and the multicall contract.
  Answers may come in any order.
\<close>

type_synonym issued = "(nat \<times> transaction_request \<times> block_tag option) list"

inductive batching :: "(int \<Rightarrow> router) \<Rightarrow> (int \<Rightarrow> batching_provider \<Rightarrow> batching_provider) \<Rightarrow> (int \<Rightarrow> batching_provider \<Rightarrow> batching_provider)
    \<Rightarrow> base_call \<Rightarrow> aggregate_call \<Rightarrow> batching_provider \<Rightarrow> batching_provider \<Rightarrow> issued \<Rightarrow> bool"
  for R D T B A p0 where
  started: "batching R D T B A p0 p0 []"
| entered: "batching R D T B A p0 p is \<Longrightarrow> batching R D T B A p0 (T now p) is"
| enqueued: "batching R D T B A p0 p is \<Longrightarrow> R now p r t = (p', Enqueued i) \<Longrightarrow> batching R D T B A p0 p' ((i, r, t) # is)"
| passed_on: "batching R D T B A p0 p is \<Longrightarrow> R now p r t = (p', Direct r' t') \<Longrightarrow> batching R D T B A p0 p' is"
| thrown: "batching R D T B A p0 p is \<Longrightarrow> R now p r t = (p', Failed_route e) \<Longrightarrow> batching R D T B A p0 p' is"
| fired: "batching R D T B A p0 p is \<Longrightarrow> bp_timer p \<Longrightarrow> batching R D T B A p0 (D now p) is"
| answered: "batching R D T B A p0 p is \<Longrightarrow> k < length (in_flight p) \<Longrightarrow> batching R D T B A p0 (receive_results B A k p) is"

text \<open>What may happen to the queue in a step.\<close>

definition kept_apart :: "batching_provider \<Rightarrow> batching_provider \<Rightarrow> bool" where
  "kept_apart p p' \<longleftrightarrow> in_flight p' = in_flight p \<and> settled p' = settled p \<and> bp_multicall p' = bp_multicall p"

definition unqueued :: "batching_provider \<Rightarrow> batching_provider \<Rightarrow> bool" where
  "unqueued p p' \<longleftrightarrow> kept_apart p p' \<and> next_promise p' = next_promise p \<and> bp_timer p' = bp_timer p
     \<and> bc_calls (bp_batched p') = bc_calls (bp_batched p) \<and> bc_callbacks (bp_batched p') = bc_callbacks (bp_batched p)
     \<and> (bc_calls (bp_batched p) = [] \<or> bc_blockTag (bp_batched p') = bc_blockTag (bp_batched p))"

definition queued :: "(transaction_request \<Rightarrow> bool) \<Rightarrow> batching_provider \<Rightarrow> batching_provider \<Rightarrow> transaction_request \<Rightarrow> block_tag option \<Rightarrow> nat \<Rightarrow> bool" where
  "queued batchable p p' r t i \<longleftrightarrow> kept_apart p p' \<and> bp_multicall p \<noteq> None \<and> batchable r \<and> i = next_promise p
     \<and> next_promise p' = Suc i \<and> bp_timer p'
     \<and> bc_calls (bp_batched p') = bc_calls (bp_batched p) @ [call_of r] \<and> bc_callbacks (bp_batched p') = bc_callbacks (bp_batched p) @ [i]
     \<and> (bc_calls (bp_batched p) = [] \<or> bc_blockTag (bp_batched p') = bc_blockTag (bp_batched p))
     \<and> default_tag (bc_blockTag (bp_batched p')) = default_tag t"

definition dispatched :: "batching_provider \<Rightarrow> batching_provider \<Rightarrow> bool" where
  "dispatched p p' \<longleftrightarrow> settled p' = settled p \<and> bp_multicall p' = bp_multicall p \<and> next_promise p' = next_promise p
     \<and> \<not> bp_timer p' \<and> bc_calls (bp_batched p') = [] \<and> bc_callbacks (bp_batched p') = [] \<and> in_flight p' = in_flight p @ [bp_batched p]"

text \<open>
  What is known of the provider below and of the contract: no block tag means the latest block, the fields that a batch loses do
  not change the answer, and the multicall contract answers the calls as the provider would, or fails as a whole.
\<close>

definition answers_alike :: "(transaction_request \<Rightarrow> bool) \<Rightarrow> base_call \<Rightarrow> aggregate_call \<Rightarrow> bool" where
  "answers_alike batchable B A \<longleftrightarrow> (\<forall>r. B r None = B r (Some latest))
     \<and> (\<forall>r t. batchable r \<longrightarrow> B r t = B (plain_request (call_of r)) t)
     \<and> (\<forall>cs t. A cs t = mapM (\<lambda>c. B (plain_request c) t) cs)"

text \<open>The outcome of a promise is right for a call: it is the answer of the provider below, or an error of the batch it was in.\<close>

definition right_outcome :: "base_call \<Rightarrow> issued \<Rightarrow> nat \<Rightarrow> string option result \<Rightarrow> bool" where
  "right_outcome B is i outcome \<longleftrightarrow> (\<exists>r t. (i, r, t) \<in> set is \<and> (case outcome of
      Inr v \<Rightarrow> (\<exists>x. v = Some x \<and> B r t = Inr x)
    | Inl e \<Rightarrow> (\<exists>j r' t'. (j, r', t') \<in> set is \<and> default_tag t' = default_tag t \<and> B r' t' = Inl e)))"

definition promise_ids :: "batching_provider \<Rightarrow> nat list" where
  "promise_ids p = map fst (settled p) @ concat (map bc_callbacks (in_flight p)) @ bc_callbacks (bp_batched p)"

definition batch_serves :: "(transaction_request \<Rightarrow> bool) \<Rightarrow> issued \<Rightarrow> batched_calls \<Rightarrow> bool" where
  "batch_serves batchable is b \<longleftrightarrow> list_all2 (\<lambda>c i. \<exists>r t. (i, r, t) \<in> set is \<and> batchable r \<and> c = call_of r
     \<and> default_tag t = default_tag (bc_blockTag b)) (bc_calls b) (bc_callbacks b)"

definition batching_inv :: "(transaction_request \<Rightarrow> bool) \<Rightarrow> base_call \<Rightarrow> batching_provider \<Rightarrow> issued \<Rightarrow> bool" where
  "batching_inv batchable B p is \<longleftrightarrow> batch_serves batchable is (bp_batched p)
     \<and> (\<forall>b \<in> set (in_flight p). batch_serves batchable is b \<and> bc_calls b \<noteq> [])
     \<and> (\<forall>(i, outcome) \<in> set (settled p). right_outcome B is i outcome)
     \<and> bp_timer p = (bc_calls (bp_batched p) \<noteq> []) \<and> (bp_timer p \<longrightarrow> bp_multicall p \<noteq> None)
     \<and> distinct (promise_ids p) \<and> set (promise_ids p) = fst ` set is \<and> (\<forall>i \<in> fst ` set is. i < next_promise p) \<and> distinct (map fst is)"

lemma mapM_Inl: "mapM f xs = Inl e \<Longrightarrow> \<exists>x \<in> set xs. f x = Inl e"
  by (induction xs) (auto simp: rbind_eq_Inl_iff)

lemma batch_serves_mono: "batch_serves P is b \<Longrightarrow> set is \<subseteq> set is' \<Longrightarrow> batch_serves P is' b"
  unfolding batch_serves_def by (erule list_all2_mono) blast

lemma right_outcome_mono: "right_outcome B is i x \<Longrightarrow> set is \<subseteq> set is' \<Longrightarrow> right_outcome B is' i x"
  unfolding right_outcome_def by (cases x) (simp, blast)+

lemma batch_serves_empty: "bc_calls b = [] \<Longrightarrow> batch_serves P is b \<longleftrightarrow> bc_callbacks b = []"
  by (auto simp: batch_serves_def)

lemma batch_serves_nth:
  assumes "batch_serves P is b"
  shows "length (bc_callbacks b) = length (bc_calls b)"
    and "k < length (bc_calls b) \<Longrightarrow> \<exists>r t. (bc_callbacks b ! k, r, t) \<in> set is \<and> P r \<and> bc_calls b ! k = call_of r
      \<and> default_tag t = default_tag (bc_blockTag b)"
  using assms by (auto simp: batch_serves_def list_all2_conv_all_nth)

section \<open>Answers of a batch\<close>

lemma answers_alike_tag: "answers_alike P B A \<Longrightarrow> default_tag t = default_tag t' \<Longrightarrow> B r t = B r t'"
  by (cases t; cases t') (auto simp: answers_alike_def default_tag_def)

lemma batch_results_eq:
  assumes "answers_alike P B A" "bc_calls b \<noteq> []"
  shows "batch_results B A b = mapM (\<lambda>c. B (plain_request c) (bc_blockTag b)) (bc_calls b)"
proof (cases "bc_calls b")
  case (Cons c cs)
  with assms(1) show ?thesis by (cases cs) (simp_all add: batch_results_def answers_alike_def)
qed (use assms(2) in simp)

lemma served_answer:
  assumes "answers_alike P B A" "batch_serves P is b" "k < length (bc_calls b)"
  shows "\<exists>r t. (bc_callbacks b ! k, r, t) \<in> set is \<and> default_tag t = default_tag (bc_blockTag b)
    \<and> B r t = B (plain_request (bc_calls b ! k)) (bc_blockTag b)"
  using batch_serves_nth(2) [OF assms(2,3)] assms(1) answers_alike_tag [OF assms(1)]
  by (metis answers_alike_def)

lemma map_fst_settle_batch: "map fst (settle_batch results b) = bc_callbacks b"
  by (cases results) (simp_all add: settle_batch_def comp_def split_def)

lemma settle_batch_right:
  assumes alike: "answers_alike P B A" and serves: "batch_serves P is b" and "bc_calls b \<noteq> []"
    and x: "(i, outcome) \<in> set (settle_batch (batch_results B A b) b)"
  shows "right_outcome B is i outcome"
proof (cases "batch_results B A b")
  case (Inl e)
  then obtain c where "c \<in> set (bc_calls b)" "B (plain_request c) (bc_blockTag b) = Inl e"
    using batch_results_eq [OF alike assms(3)] mapM_Inl by metis
  then obtain j where j: "j < length (bc_calls b)" "B (plain_request (bc_calls b ! j)) (bc_blockTag b) = Inl e"
    by (metis in_set_conv_nth)
  obtain k where k: "k < length (bc_calls b)" "i = bc_callbacks b ! k" "outcome = Inl e"
    using x Inl batch_serves_nth(1) [OF serves] by (auto simp: settle_batch_def in_set_conv_nth)
  from served_answer [OF alike serves k(1)] served_answer [OF alike serves j(1)] j(2) k(2,3) show ?thesis
    by (simp add: right_outcome_def) metis
next
  case (Inr rs)
  then have rs: "list_all2 (\<lambda>c y. B (plain_request c) (bc_blockTag b) = Inr y) (bc_calls b) rs"
    using batch_results_eq [OF alike assms(3)] mapM_eq_Inr_iff by metis
  obtain k where k: "k < length (bc_calls b)" "i = bc_callbacks b ! k" "outcome = Inr (if k < length rs then Some (rs ! k) else None)"
    using x Inr batch_serves_nth(1) [OF serves] by (auto simp: settle_batch_def in_set_conv_nth)
  have "k < length rs" "B (plain_request (bc_calls b ! k)) (bc_blockTag b) = Inr (rs ! k)"
    using rs k(1) by (auto simp: list_all2_conv_all_nth)
  with served_answer [OF alike serves k(1)] k(2,3) show ?thesis
    by (simp add: right_outcome_def) metis
qed

section \<open>The invariant\<close>

lemma unqueued_inv:
  assumes "batching_inv P B p is" and "unqueued p p'"
  shows "batching_inv P B p' is"
proof -
  have "batch_serves P is (bp_batched p')"
  proof (cases "bc_calls (bp_batched p) = []")
    case True
    then show ?thesis using assms by (simp add: batching_inv_def unqueued_def batch_serves_empty)
  next
    case False
    then show ?thesis using assms by (simp add: batching_inv_def unqueued_def batch_serves_def)
  qed
  with assms show ?thesis by (simp add: batching_inv_def unqueued_def kept_apart_def promise_ids_def)
qed

lemma queued_inv:
  assumes "batching_inv P B p is" and "queued P p p' r t i"
  shows "batching_inv P B p' ((i, r, t) # is)"
proof -
  let ?Q = "\<lambda>c j. \<exists>r' t'. (j, r', t') \<in> set ((i, r, t) # is) \<and> P r' \<and> c = call_of r' \<and> default_tag t' = default_tag (bc_blockTag (bp_batched p'))"
  have fresh: "i \<notin> fst ` set is" using assms by (auto simp: batching_inv_def queued_def)
  have "batch_serves P ((i, r, t) # is) (bp_batched p)" using assms(1) by (auto simp: batching_inv_def intro: batch_serves_mono)
  then have "list_all2 ?Q (bc_calls (bp_batched p)) (bc_callbacks (bp_batched p))"
    using assms(2) by (auto simp: batch_serves_def queued_def)
  moreover have "list_all2 ?Q [call_of r] [i]" using assms(2) by (fastforce simp: queued_def)
  ultimately have "list_all2 ?Q (bc_calls (bp_batched p) @ [call_of r]) (bc_callbacks (bp_batched p) @ [i])"
    by (rule list_all2_appendI)
  moreover have "bc_calls (bp_batched p') = bc_calls (bp_batched p) @ [call_of r]" "bc_callbacks (bp_batched p') = bc_callbacks (bp_batched p) @ [i]"
    using assms(2) by (simp_all add: queued_def)
  ultimately have "batch_serves P ((i, r, t) # is) (bp_batched p')" by (simp only: batch_serves_def)
  moreover have "\<forall>b \<in> set (in_flight p'). batch_serves P ((i, r, t) # is) b \<and> bc_calls b \<noteq> []"
    using assms by (auto simp: batching_inv_def queued_def kept_apart_def intro: batch_serves_mono)
  moreover have "\<forall>(j, x) \<in> set (settled p'). right_outcome B ((i, r, t) # is) j x"
    using assms by (auto simp: batching_inv_def queued_def kept_apart_def intro: right_outcome_mono)
  moreover have "distinct (promise_ids p')" "set (promise_ids p') = fst ` set ((i, r, t) # is)"
    using assms fresh by (auto simp: batching_inv_def queued_def kept_apart_def promise_ids_def)
  ultimately show ?thesis
    using assms fresh by (auto simp: batching_inv_def queued_def kept_apart_def less_Suc_eq)
qed

lemma dispatched_inv:
  assumes "batching_inv P B p is" and "dispatched p p'" and "bp_timer p"
  shows "batching_inv P B p' is"
  using assms by (auto simp: batching_inv_def dispatched_def promise_ids_def batch_serves_empty)

lemma answered_inv:
  assumes "batching_inv P B p is" and "answers_alike P B A" and k: "k < length (in_flight p)"
  shows "batching_inv P B (receive_results B A k p) is"
proof -
  let ?b = "in_flight p ! k" and ?p = "receive_results B A k p"
  have split: "in_flight p = take k (in_flight p) @ ?b # drop (Suc k) (in_flight p)" by (simp add: id_take_nth_drop [OF k, symmetric])
  have b: "batch_serves P is ?b" "bc_calls ?b \<noteq> []" using assms(1) k by (auto simp: batching_inv_def)
  have "\<forall>(i, x) \<in> set (settled ?p). right_outcome B is i x"
    using assms(1) settle_batch_right [OF assms(2) b] by (auto simp: batching_inv_def receive_results_def)
  moreover have "mset (promise_ids ?p) = mset (promise_ids p)"
    by (subst (2) promise_ids_def, subst split) (simp add: promise_ids_def receive_results_def map_fst_settle_batch)
  then have "distinct (promise_ids ?p) = distinct (promise_ids p)" "set (promise_ids ?p) = set (promise_ids p)"
    by (metis mset_eq_imp_distinct_iff, metis mset_eq_setD)
  moreover have "set (in_flight ?p) \<subseteq> set (in_flight p)"
    by (auto simp: receive_results_def dest: in_set_takeD in_set_dropD)
  ultimately show ?thesis using assms(1) by (auto simp: batching_inv_def receive_results_def)
qed

section \<open>What both providers promise\<close>

text \<open>The decision about a call, the timer and the start of a call change the queue in one of the three ways above.\<close>

locale batching_class =
  fixes batchable :: "transaction_request \<Rightarrow> bool"
    and R :: "int \<Rightarrow> router"
    and D :: "int \<Rightarrow> batching_provider \<Rightarrow> batching_provider"
    and T :: "int \<Rightarrow> batching_provider \<Rightarrow> batching_provider"
  assumes route_enqueued: "R now p r t = (p', Enqueued i) \<Longrightarrow> queued batchable p p' r t i"
    and route_direct: "R now p r t = (p', Direct r' t') \<Longrightarrow> unqueued p p' \<and> r' = r \<and> t' = t"
    and route_failed: "R now p r t = (p', Failed_route e) \<Longrightarrow> unqueued p p'"
    and timer_dispatches: "bp_multicall p \<noteq> None \<Longrightarrow> dispatched p (D now p)"
    and enter_unqueued: "unqueued p (T now p)"
begin

lemma batching_keeps_inv:
  assumes "batching R D T B A p0 p is" and "answers_alike batchable B A" and "batching_inv batchable B p0 []"
  shows "batching_inv batchable B p is"
  using assms(1)
proof induction
  case started
  show ?case by (rule assms(3))
next
  case (entered p "is" now)
  then show ?case using unqueued_inv enter_unqueued by blast
next
  case (enqueued p "is" now r t p' i)
  then show ?case using queued_inv route_enqueued by blast
next
  case (passed_on p "is" now r t p' r' t')
  then show ?case using unqueued_inv route_direct by blast
next
  case (thrown p "is" now r t p' e)
  then show ?case using unqueued_inv route_failed by blast
next
  case (fired p "is" now)
  then have "bp_multicall p \<noteq> None" by (simp add: batching_inv_def)
  then show ?case using fired dispatched_inv timer_dispatches by blast
next
  case (answered p "is" k)
  then show ?case using answered_inv assms(2) by blast
qed

lemma batching_transparent:
  assumes "batching R D T B A p0 p is" and "answers_alike batchable B A" and "batching_inv batchable B p0 []"
  shows "(\<forall>i outcome. (i, outcome) \<in> set (settled p) \<longrightarrow> right_outcome B is i outcome) \<and> distinct (map fst (settled p))
    \<and> (\<not> bp_timer p \<and> in_flight p = [] \<longrightarrow> set (map fst (settled p)) = set (map fst is))"
  using batching_keeps_inv [OF assms] by (auto simp: batching_inv_def promise_ids_def batch_serves_empty)

end

lemma fresh_inv: "in_flight p = [] \<Longrightarrow> settled p = [] \<Longrightarrow> bc_calls (bp_batched p) = [] \<Longrightarrow> bc_callbacks (bp_batched p) = [] \<Longrightarrow> \<not> bp_timer p
   \<Longrightarrow> batching_inv P B p []"
  by (simp add: batching_inv_def promise_ids_def batch_serves_def)

lemma checkBatchingRatio_unqueued: "unqueued p (checkBatchingRatio now p)"
  by (simp add: checkBatchingRatio_def unqueued_def kept_apart_def split: option.split)

lemma checkBatchingRatio_fields [simp]:
  "bp_batched (checkBatchingRatio now p) = bp_batched p" "bp_multicall (checkBatchingRatio now p) = bp_multicall p"
  "in_flight (checkBatchingRatio now p) = in_flight p" "settled (checkBatchingRatio now p) = settled p"
  "next_promise (checkBatchingRatio now p) = next_promise p" "bp_timer (checkBatchingRatio now p) = bp_timer p"
  by (simp_all add: checkBatchingRatio_def split: option.split)

lemmas route_defs = performCall_def Mixin_call_def alreadyBatchedCallsConflictWith_def Mixin_alreadyBatchedCallsConflictWith_def
  enqueueCall_def unqueued_def queued_def kept_apart_def Let_def

lemma performCall_direct: "performCall now p r t = (p', Direct r' t') \<Longrightarrow> unqueued p p' \<and> r' = r \<and> t' = t"
  by (auto simp: route_defs split: option.split_asm if_split_asm)

lemma aggregate_request_passes:
  "batchedCall (aggregate_request encode m cs) m"
  by (simp add: batchedCall_def aggregate_request_def plain_request_def)

lemma dispatch_with_dispatched:
  assumes "\<And>q. bp_multicall q = bp_multicall p \<Longrightarrow> unqueued q (again q)" and "bc_calls fresh = []" and "bc_callbacks fresh = []"
  shows "dispatched p (dispatch_with fresh again p)"
  using assms(1) [of "p\<lparr>bp_timer := False, bp_batched := fresh, in_flight := in_flight p @ [bp_batched p]\<rparr>"] assms(2,3)
  by (simp add: dispatch_with_def dispatched_def unqueued_def kept_apart_def Let_def)

interpretation front_end: batching_class batchableCall performCall "dispatchCalls encode" "\<lambda>_ p. p" for encode
proof
  show "performCall now p r t = (p', Enqueued i) \<Longrightarrow> queued batchableCall p p' r t i" for now p r t p' i
    by (auto simp: route_defs split: option.split_asm if_split_asm)
  show "performCall now p r t = (p', Direct r' t') \<Longrightarrow> unqueued p p' \<and> r' = r \<and> t' = t" for now p r t p' r' t'
    by (rule performCall_direct)
  show "performCall now p r t = (p', Failed_route e) \<Longrightarrow> unqueued p p'" for now p r t p' e
    by (auto simp: route_defs split: option.split_asm if_split_asm)
  show "unqueued p p" for p by (simp add: unqueued_def kept_apart_def)
  show "dispatched p (dispatchCalls encode now p)" if multicall: "bp_multicall p \<noteq> None" for now p
  proof -
    obtain m where m: "bp_multicall p = Some m" using multicall by blast
    have "unqueued q (fst (performCall now q (aggregate_request encode m cs) t))" if "bp_multicall q = bp_multicall p" for q cs t
      using that m by (auto simp: route_defs aggregate_request_passes)
    then show ?thesis using m by (auto simp: dispatchCalls_def emptyBatch_def intro!: dispatch_with_dispatched)
  qed
qed

interpretation mixin: batching_class Mixin_batchableCall "\<lambda>_. Mixin_call" "Mixin_dispatchCalls encode" Mixin_begin_call for encode
proof
  show "Mixin_call p r t = (p', Enqueued i) \<Longrightarrow> queued Mixin_batchableCall p p' r t i" for p r t p' i
    by (auto simp: route_defs split: option.split_asm if_split_asm)
  show "Mixin_call p r t = (p', Direct r' t') \<Longrightarrow> unqueued p p' \<and> r' = r \<and> t' = t" for p r t p' r' t'
    by (auto simp: route_defs split: option.split_asm if_split_asm)
  show "Mixin_call p r t = (p', Failed_route e) \<Longrightarrow> unqueued p p'" for p r t p' e
    by (auto simp: route_defs split: option.split_asm if_split_asm)
  show "unqueued p (Mixin_begin_call now p)" for now p
    using checkBatchingRatio_unqueued by (simp add: Mixin_begin_call_def) (simp add: unqueued_def kept_apart_def)
  show "dispatched p (Mixin_dispatchCalls encode now p)" if multicall: "bp_multicall p \<noteq> None" for now p
  proof -
    obtain m where m: "bp_multicall p = Some m" using multicall by blast
    have "unqueued q (fst (Mixin_call (Mixin_begin_call now q) (aggregate_request encode m cs) t))" if "bp_multicall q = bp_multicall p" for q cs t
      using that m by (auto simp: route_defs aggregate_request_passes Mixin_begin_call_def)
    then show ?thesis using m by (auto simp: Mixin_dispatchCalls_def Mixin_emptyBatch_def intro!: dispatch_with_dispatched)
  qed
qed

section \<open>Properties\<close>

text \<open>
  C11. Batching cannot be noticed. However calls, the timer and answers interleave, every promise the provider gives out is settled
  at most once, and when the timer has fired and all answers have come, each has been settled: with the answer the provider below gives to that very
  request at that block, or, if a call with the same block tag fails there, with the error of the failing one. This needs the multicall
  contract to answer as documented, and answers that do not depend on the sender, gas, value and nonce that batchable calls do not set.
\<close>

theorem batching_is_transparent:
  assumes "batching performCall (dispatchCalls encode) (\<lambda>_ q. q) B A (new_BatchedProvider chain) p is" and "answers_alike batchableCall B A"
  shows "(\<forall>i outcome. (i, outcome) \<in> set (settled p) \<longrightarrow> right_outcome B is i outcome) \<and> distinct (map fst (settled p))
    \<and> (\<not> bp_timer p \<and> in_flight p = [] \<longrightarrow> set (map fst (settled p)) = set (map fst is))"
proof -
  have "batching_inv batchableCall B (new_BatchedProvider chain) []"
    by (rule fresh_inv) (simp_all add: new_BatchedProvider_def emptyBatch_def)
  with assms show ?thesis by (rule front_end.batching_transparent)
qed

text \<open>
  The mixin promises the same, but it also batches calls that name a sender, so there the answers must not depend on the sender either.
\<close>

theorem mixin_is_transparent:
  assumes "set_chainId chain new_Batched = Inr p0" and "batching (\<lambda>_. Mixin_call) (Mixin_dispatchCalls encode) Mixin_begin_call B A p0 p is"
    and "answers_alike Mixin_batchableCall B A"
  shows "(\<forall>i outcome. (i, outcome) \<in> set (settled p) \<longrightarrow> right_outcome B is i outcome) \<and> distinct (map fst (settled p))
    \<and> (\<not> bp_timer p \<and> in_flight p = [] \<longrightarrow> set (map fst (settled p)) = set (map fst is))"
proof -
  have "batching_inv Mixin_batchableCall B p0 []"
    by (rule fresh_inv) (use assms(1) in \<open>auto simp: set_chainId_def new_Batched_def Mixin_emptyBatch_def\<close>)
  with assms(2,3) show ?thesis by (rule mixin.batching_transparent)
qed

text \<open>Two calls, sent as one batch: the first is answered, and both fail if the second one is reverted.\<close>

definition sample_call :: "string \<Rightarrow> transaction_request" where
  "sample_call d = \<lparr>tr_to = Some ''0xT'', tr_from = None, tr_nonce = None, tr_gasLimit = None, tr_gasPrice = None,
     tr_data = Some (HexText d), tr_value = None, tr_chainId = None\<rparr>"

definition sample_base :: base_call where
  "sample_base r t = (case tr_data r of Some (HexText d) \<Rightarrow> (if d = ''0xbad'' then Inl (Error ''reverted'') else Inr d) | _ \<Rightarrow> Inr [])"

definition sample_aggregate :: aggregate_call where
  "sample_aggregate cs t = mapM (\<lambda>c. sample_base (plain_request c) t) cs"

definition run_two :: "transaction_request \<Rightarrow> transaction_request \<Rightarrow> batching_provider" where
  "run_two r r' = receive_results sample_base sample_aggregate 0 (dispatchCalls (\<lambda>_. []) 0
     (fst (performCall 0 (fst (performCall 0 (new_BatchedProvider 1) r (Some latest))) r' (Some latest))))"

lemmas run_two_eval = run_two_def performCall_def new_BatchedProvider_def multicallAddress_def checkBatchingRatio_def sample_call_def
  batchedCall_def batchableCall_def alreadyBatchedCallsConflictWith_def enqueueCall_def emptyBatch_def dispatchCalls_def dispatch_with_def
  aggregate_request_def plain_request_def call_of_def receive_results_def batch_results_def settle_batch_def sample_aggregate_def sample_base_def

lemma run_two_settled:
  "settled (run_two (sample_call ''0x1'') (sample_call ''0x2'')) = [(0, Inr (Some ''0x1'')), (1, Inr (Some ''0x2''))]"
  "settled (run_two (sample_call ''0x1'') (sample_call ''0xbad'')) = [(0, Inl (Error ''reverted'')), (1, Inl (Error ''reverted''))]"
  by (simp_all add: run_two_eval Let_def aggregate_selector_def)

lemma sample_run:
  "batching performCall (dispatchCalls (\<lambda>_. [])) (\<lambda>_ q. q) sample_base sample_aggregate (new_BatchedProvider 1)
     (run_two (sample_call ''0x1'') (sample_call ''0x2''))
     [(1, sample_call ''0x2'', Some latest), (0, sample_call ''0x1'', Some latest)]"
proof -
  let ?R = "batching performCall (dispatchCalls (\<lambda>_. [])) (\<lambda>_ q. q) sample_base sample_aggregate (new_BatchedProvider 1)"
  define p1 where "p1 = fst (performCall 0 (new_BatchedProvider 1) (sample_call ''0x1'') (Some latest))"
  define p2 where "p2 = fst (performCall 0 p1 (sample_call ''0x2'') (Some latest))"
  have "performCall 0 (new_BatchedProvider 1) (sample_call ''0x1'') (Some latest) = (p1, Enqueued 0)"
    "performCall 0 p1 (sample_call ''0x2'') (Some latest) = (p2, Enqueued 1)"
    by (simp_all add: p1_def p2_def run_two_eval Let_def)
  then have "?R p2 [(1, sample_call ''0x2'', Some latest), (0, sample_call ''0x1'', Some latest)]"
    using batching.started batching.enqueued by metis
  moreover have "bp_timer p2" "in_flight (dispatchCalls (\<lambda>_. []) 0 p2) = [bp_batched p2]"
    by (simp_all add: p1_def p2_def run_two_eval Let_def aggregate_selector_def)
  ultimately have "?R (receive_results sample_base sample_aggregate 0 (dispatchCalls (\<lambda>_. []) 0 p2))
      [(1, sample_call ''0x2'', Some latest), (0, sample_call ''0x1'', Some latest)]"
    by (intro batching.answered batching.fired) simp_all
  then show ?thesis by (simp add: run_two_def p1_def p2_def)
qed

lemma sample_answers_alike: "answers_alike batchableCall sample_base sample_aggregate"
  by (simp add: answers_alike_def sample_base_def sample_aggregate_def plain_request_def call_of_def)

theorem batching_is_transparent_witness:
  "right_outcome sample_base [(1, sample_call ''0x2'', Some latest), (0, sample_call ''0x1'', Some latest)] 0 (Inr (Some ''0x1''))
   \<and> settled (run_two (sample_call ''0x1'') (sample_call ''0x2'')) = [(0, Inr (Some ''0x1'')), (1, Inr (Some ''0x2''))]"
  using batching_is_transparent [OF sample_run sample_answers_alike] by (simp add: run_two_settled)

end
