(* ===== verification/Ethers_Read.thy ===== *)
theory Ethers_Read
  imports Hashgraph_Ledger Batching
begin

text \<open>
  The reading half of the Ethereum client (\<^verbatim>\<open>packages/lib-ethers/src\<close>), which the application uses for wallets that speak
  Ethereum's protocol: \<^verbatim>\<open>ReadableEthersLiquity.ts\<close>, the parts of \<^verbatim>\<open>EthersLiquityConnection.ts\<close> it needs, and the cache that
  answers from the store. The contracts are those of the Hashgraph client, reached through another library; their view functions are
  the record \<open>contracts\<close> again. The overrides of a read are its block tag.
\<close>

section \<open>The connection\<close>

record ethers =
  ec_userAddress :: "string option"
  ec_frontendTag :: "string option"
  ec_totalStabilityPoolHLQTReward :: decimal
  ec_multicall :: "(block_tag \<Rightarrow> nat result) option"
  ec_hchfToken :: string
  ec_hlqtToken :: string
  ec_saucerSwapPool :: string
  ec_uniToken :: string
  ec_constants :: constants

text \<open>\<^verbatim>\<open>BigNumber.toNumber\<close> throws for integers that JavaScript's numbers cannot hold.\<close>

definition numberify :: "nat \<Rightarrow> nat result" where
  "numberify n = (if n < 2 ^ 53 then Inr n else Inl (ExternalError ''NUMERIC_FAULT''))"

definition getBlockTimestamp :: "ethers \<Rightarrow> contracts \<Rightarrow> block_tag option \<Rightarrow> nat result" where
  "getBlockTimestamp this k blockTag = (case ec_multicall this of
      Some getCurrentBlockTimestamp \<Rightarrow> rbind (getCurrentBlockTimestamp (default_tag blockTag)) numberify
    | None \<Rightarrow> web3_getBlock_timestamp k (Some (default_tag blockTag)))"

definition requireAddress :: "ethers \<Rightarrow> string option \<Rightarrow> string result" where
  "requireAddress this from' = (case from' of Some a \<Rightarrow> Inr a
    | None \<Rightarrow> (case ec_userAddress this of Some a \<Rightarrow> Inr a | None \<Rightarrow> Inl (Error ''A user address is required'')))"

definition requireFrontendAddress :: "ethers \<Rightarrow> string result" where
  "requireFrontendAddress this =
     (case ec_frontendTag this of Some a \<Rightarrow> Inr a | None \<Rightarrow> Inl (Error ''A frontend address is required''))"

text \<open>\<^verbatim>\<open>address ??= required\<close>.\<close>

definition given_or :: "string option \<Rightarrow> string result \<Rightarrow> string result" where
  "given_or address required = (case address of Some a \<Rightarrow> Inr a | None \<Rightarrow> required)"

definition Ethers_userTroveStatusFrom :: "nat \<Rightarrow> user_trove_status result" where
  "Ethers_userTroveStatusFrom backendStatus =
     (if backendStatus = 0 then Inr NonExistent
      else if backendStatus = 1 then Inr Open
      else if backendStatus = 2 then Inr ClosedByOwner
      else if backendStatus = 3 then Inr ClosedByLiquidation
      else if backendStatus = 4 then Inr ClosedByRedemption
      else Inl (Error (''invalid backendStatus '' @ show_nat backendStatus)))"

section \<open>Readers\<close>

definition Ethers_getTotalRedistributed :: "ethers \<Rightarrow> contracts \<Rightarrow> block_tag option \<Rightarrow> trove result" where
  "Ethers_getTotalRedistributed this k overrides =
     rbind (read_decimal (troveManager_L_ETH k overrides)) (\<lambda>collateral'.
     rbind (read_decimal (troveManager_L_HCHFDebt k overrides)) (\<lambda>debt'.
     Inr (new_Trove (ec_constants this) collateral' debt')))"

definition Ethers_getTroveBeforeRedistribution ::
  "ethers \<Rightarrow> contracts \<Rightarrow> string option \<Rightarrow> block_tag option \<Rightarrow> pending_trove result" where
  "Ethers_getTroveBeforeRedistribution this k address overrides =
     rbind (given_or address (requireAddress this None)) (\<lambda>owner.
     rbind (troveManager_Troves k owner overrides) (\<lambda>t.
     rbind (troveManager_rewardSnapshots k owner overrides) (\<lambda>(snapshotETH, snapshotDebt).
     if bt_status t = 1
     then rbind (Ethers_userTroveStatusFrom (bt_status t)) (\<lambda>userTroveStatus.
          rbind (decimalify (bt_coll t)) (\<lambda>c.
          rbind (decimalify (bt_debt t)) (\<lambda>d.
          rbind (decimalify (bt_stake t)) (\<lambda>st.
          rbind (decimalify snapshotETH) (\<lambda>sc.
          rbind (decimalify snapshotDebt) (\<lambda>sd.
          Inr (new_PendingTrove (ec_constants this) owner userTroveStatus c d st (new_Trove (ec_constants this) sc sd))))))))
     else rbind (Ethers_userTroveStatusFrom (bt_status t)) (\<lambda>userTroveStatus.
          Inr (empty_PendingTrove (ec_constants this) owner userTroveStatus)))))"

definition Ethers_getTrove :: "ethers \<Rightarrow> contracts \<Rightarrow> string option \<Rightarrow> block_tag option \<Rightarrow> user_trove result" where
  "Ethers_getTrove this k address overrides =
     rbind (Ethers_getTroveBeforeRedistribution this k address overrides) (\<lambda>t.
     rbind (Ethers_getTotalRedistributed this k overrides) (\<lambda>totalRedistributed'.
     Inr (applyRedistribution t totalRedistributed')))"

definition Ethers_getNumberOfTroves :: "contracts \<Rightarrow> block_tag option \<Rightarrow> int result" where
  "Ethers_getNumberOfTroves k overrides =
     rbind (troveManager_getTroveOwnersCount k overrides) (\<lambda>n. rbind (numberify n) (\<lambda>m. Inr (int m)))"

definition Ethers_getPrice :: "contracts \<Rightarrow> block_tag option \<Rightarrow> decimal result" where
  "Ethers_getPrice k overrides = read_decimal (priceFeed_fetchPrice k overrides)"

definition getActivePool :: "ethers \<Rightarrow> contracts \<Rightarrow> block_tag option \<Rightarrow> trove result" where
  "getActivePool this k overrides =
     rbind (read_decimal (activePool_getETH k overrides)) (\<lambda>activeCollateral.
     rbind (read_decimal (activePool_getHCHFDebt k overrides)) (\<lambda>activeDebt.
     Inr (new_Trove (ec_constants this) activeCollateral activeDebt)))"

definition getDefaultPool :: "ethers \<Rightarrow> contracts \<Rightarrow> block_tag option \<Rightarrow> trove result" where
  "getDefaultPool this k overrides =
     rbind (read_decimal (defaultPool_getETH k overrides)) (\<lambda>liquidatedCollateral.
     rbind (read_decimal (defaultPool_getHCHFDebt k overrides)) (\<lambda>closedDebt.
     Inr (new_Trove (ec_constants this) liquidatedCollateral closedDebt)))"

definition Ethers_getTotal :: "ethers \<Rightarrow> contracts \<Rightarrow> block_tag option \<Rightarrow> trove result" where
  "Ethers_getTotal this k overrides =
     rbind (getActivePool this k overrides) (\<lambda>activePool.
     rbind (getDefaultPool this k overrides) (\<lambda>defaultPool.
     Inr (Trove_add activePool defaultPool)))"

definition Ethers_getStabilityDeposit ::
  "ethers \<Rightarrow> contracts \<Rightarrow> string option \<Rightarrow> block_tag option \<Rightarrow> stability_deposit result" where
  "Ethers_getStabilityDeposit this k address overrides =
     rbind (given_or address (requireAddress this None)) (\<lambda>owner.
     rbind (stabilityPool_deposits k owner overrides) (\<lambda>(initialValue, tag).
     rbind (stabilityPool_getCompoundedHCHFDeposit k owner overrides) (\<lambda>current.
     rbind (stabilityPool_getDepositorETHGain k owner overrides) (\<lambda>gain.
     rbind (stabilityPool_getDepositorHLQTGain k owner overrides) (\<lambda>reward.
     rbind (decimalify initialValue) (\<lambda>v1. rbind (decimalify current) (\<lambda>v2.
     rbind (decimalify gain) (\<lambda>v3. rbind (decimalify reward) (\<lambda>v4.
     new_StabilityDeposit v1 v2 v3 v4 tag)))))))))"

definition Ethers_getRemainingStabilityPoolHLQTReward :: "ethers \<Rightarrow> contracts \<Rightarrow> block_tag option \<Rightarrow> decimal result" where
  "Ethers_getRemainingStabilityPoolHLQTReward this k overrides =
     rbind (read_decimal (communityIssuance_totalHLQTIssued k overrides)) (\<lambda>totalHLQTIssued.
     Decimal_sub (ec_totalStabilityPoolHLQTReward this) totalHLQTIssued)"

definition Ethers_getHCHFInStabilityPool :: "contracts \<Rightarrow> block_tag option \<Rightarrow> decimal result" where
  "Ethers_getHCHFInStabilityPool k overrides = read_decimal (stabilityPool_getTotalHCHFDeposits k overrides)"

definition Ethers_getHCHFBalance :: "ethers \<Rightarrow> contracts \<Rightarrow> string option \<Rightarrow> block_tag option \<Rightarrow> decimal result" where
  "Ethers_getHCHFBalance this k address overrides =
     rbind (given_or address (requireAddress this None)) (\<lambda>owner. read_decimal (hchfToken_balanceOf k owner overrides))"

definition Ethers_getHLQTTokenAddress :: "contracts \<Rightarrow> block_tag option \<Rightarrow> string result" where
  "Ethers_getHLQTTokenAddress k overrides = hlqtToken_getTokenAddress k overrides"

definition Ethers_getHCHFTokenAddress :: "contracts \<Rightarrow> block_tag option \<Rightarrow> string result" where
  "Ethers_getHCHFTokenAddress k overrides = hchfToken_getTokenAddress k overrides"

definition Ethers_getHLQTBalance :: "ethers \<Rightarrow> contracts \<Rightarrow> string option \<Rightarrow> block_tag option \<Rightarrow> decimal result" where
  "Ethers_getHLQTBalance this k address overrides =
     rbind (given_or address (requireAddress this None)) (\<lambda>owner. read_decimal (hlqtToken_balanceOf k owner overrides))"

definition Ethers_getUniTokenBalance :: "ethers \<Rightarrow> contracts \<Rightarrow> string option \<Rightarrow> block_tag option \<Rightarrow> decimal result" where
  "Ethers_getUniTokenBalance this k address overrides =
     rbind (given_or address (requireAddress this None)) (\<lambda>owner. read_decimal (erc20_balanceOf k (ec_uniToken this) owner overrides))"

definition Ethers_getUniTokenAllowance :: "ethers \<Rightarrow> contracts \<Rightarrow> string option \<Rightarrow> block_tag option \<Rightarrow> decimal result" where
  "Ethers_getUniTokenAllowance this k address overrides =
     rbind (given_or address (requireAddress this None)) (\<lambda>owner.
       read_decimal (erc20_allowance k (ec_uniToken this) owner (ec_saucerSwapPool this) overrides))"

text \<open>
  \<^verbatim>\<open>_getRemainingLiquidityMiningHLQTRewardCalculator\<close> reads what is needed and returns a function of the block's time; the function is a
  closure over four values.
\<close>

record reward_calculator =
  rc_totalSupply :: nat
  rc_rewardRate :: decimal
  rc_periodFinish :: nat
  rc_lastUpdateTime :: nat

definition getRemainingLiquidityMiningHLQTRewardCalculator :: "contracts \<Rightarrow> block_tag option \<Rightarrow> reward_calculator result" where
  "getRemainingLiquidityMiningHLQTRewardCalculator k overrides =
     rbind (unipool_totalSupply k overrides) (\<lambda>totalSupply.
     rbind (read_decimal (unipool_rewardRate k overrides)) (\<lambda>rewardRate.
     rbind (rbind (unipool_periodFinish k overrides) numberify) (\<lambda>periodFinish.
     rbind (rbind (unipool_lastUpdateTime k overrides) numberify) (\<lambda>lastUpdateTime.
     Inr \<lparr>rc_totalSupply = totalSupply, rc_rewardRate = rewardRate, rc_periodFinish = periodFinish, rc_lastUpdateTime = lastUpdateTime\<rparr>))))"

definition calculateRemainingHLQT :: "reward_calculator \<Rightarrow> nat \<Rightarrow> decimal result" where
  "calculateRemainingHLQT c blockTimestamp =
     (let seconds = max 0 (int (rc_periodFinish c) - int (if rc_totalSupply c = 0 then rc_lastUpdateTime c else blockTimestamp))
      in rbind (Decimal_from (Number (show_nat (nat seconds)))) (\<lambda>m. Inr (Decimal_mul (rc_rewardRate c) m)))"

definition Ethers_getRemainingLiquidityMiningHLQTReward :: "ethers \<Rightarrow> contracts \<Rightarrow> block_tag option \<Rightarrow> decimal result" where
  "Ethers_getRemainingLiquidityMiningHLQTReward this k overrides =
     rbind (getRemainingLiquidityMiningHLQTRewardCalculator k overrides) (\<lambda>calculate.
     rbind (getBlockTimestamp this k overrides) (\<lambda>blockTimestamp. calculateRemainingHLQT calculate blockTimestamp))"

definition Ethers_getLiquidityMiningStake :: "ethers \<Rightarrow> contracts \<Rightarrow> string option \<Rightarrow> block_tag option \<Rightarrow> decimal result" where
  "Ethers_getLiquidityMiningStake this k address overrides =
     rbind (given_or address (requireAddress this None)) (\<lambda>owner. read_decimal (unipool_balanceOf k owner overrides))"

definition Ethers_getTotalStakedUniTokens :: "contracts \<Rightarrow> block_tag option \<Rightarrow> decimal result" where
  "Ethers_getTotalStakedUniTokens k overrides = read_decimal (unipool_totalSupply k overrides)"

definition Ethers_getLiquidityMiningHLQTReward :: "ethers \<Rightarrow> contracts \<Rightarrow> string option \<Rightarrow> block_tag option \<Rightarrow> decimal result" where
  "Ethers_getLiquidityMiningHLQTReward this k address overrides =
     rbind (given_or address (requireAddress this None)) (\<lambda>owner. read_decimal (unipool_earned k owner overrides))"

definition Ethers_getCollateralSurplusBalance :: "ethers \<Rightarrow> contracts \<Rightarrow> string option \<Rightarrow> block_tag option \<Rightarrow> decimal result" where
  "Ethers_getCollateralSurplusBalance this k address overrides =
     rbind (given_or address (requireAddress this None)) (\<lambda>owner. read_decimal (collSurplusPool_getCollateral k owner overrides))"

definition mapBackendTrove :: "constants \<Rightarrow> combined_trove \<Rightarrow> pending_trove result" where
  "mapBackendTrove constants' t =
     rbind (decimalify (ct_coll t)) (\<lambda>c.
     rbind (decimalify (ct_debt t)) (\<lambda>d.
     rbind (decimalify (ct_stake t)) (\<lambda>st.
     rbind (decimalify (ct_snapshotETH t)) (\<lambda>sc.
     rbind (decimalify (ct_snapshotHCHFDebt t)) (\<lambda>sd.
     Inr (new_PendingTrove constants' (ct_owner t) Open c d st (new_Trove constants' sc sd)))))))"

definition Ethers_getTroves :: "ethers \<Rightarrow> contracts \<Rightarrow> listing_params \<Rightarrow> block_tag option \<Rightarrow> trove_listing result" where
  "Ethers_getTroves this k params overrides =
     rbind (expectPositiveInt ''first'' (Some (listing_first params))) (\<lambda>_.
     rbind (expectPositiveInt ''startingAt'' (listing_startingAt params)) (\<lambda>_.
     let startingAt = (case listing_startingAt params of Some i \<Rightarrow> i | None \<Rightarrow> 0);
         startIdx = (case listing_sortedBy params of
             DescendingCollateralRatio \<Rightarrow> startingAt | AscendingCollateralRatio \<Rightarrow> - (startingAt + 1))
     in rbind (multiTroveGetter_getMultipleSortedTroves k startIdx (listing_first params) overrides) (\<lambda>backendTroves.
        rbind (if listing_before params then Inr None
               else rbind (Ethers_getTotalRedistributed this k overrides) (\<lambda>t. Inr (Some t))) (\<lambda>totalRedistributed'.
        rbind (mapM (mapBackendTrove (ec_constants this)) backendTroves) (\<lambda>troves.
        case totalRedistributed' of
          Some red \<Rightarrow> Inr (Current (map (\<lambda>t. applyRedistribution t red) troves))
        | None \<Rightarrow> Inr (Before troves))))))"

text \<open>\<^verbatim>\<open>_getFeesFactory\<close> returns a function of the block's time and the mode; \<open>createFees\<close> applies it.\<close>

record fees_factory =
  ff_lastFeeOperationTime :: nat
  ff_baseRateWithoutDecay :: decimal

definition getFeesFactory :: "contracts \<Rightarrow> block_tag option \<Rightarrow> fees_factory result" where
  "getFeesFactory k overrides =
     rbind (troveManager_lastFeeOperationTime k overrides) (\<lambda>lastFeeOperationTime.
     rbind (read_decimal (troveManager_baseRate k overrides)) (\<lambda>base.
     Inr \<lparr>ff_lastFeeOperationTime = lastFeeOperationTime, ff_baseRateWithoutDecay = base\<rparr>))"

definition createFees :: "ethers \<Rightarrow> fees_factory \<Rightarrow> nat \<Rightarrow> bool \<Rightarrow> fees result" where
  "createFees this f blockTimestamp recoveryMode' =
     rbind (numberify (ff_lastFeeOperationTime f)) (\<lambda>lastFeeOperationTime.
     new_Fees (DecimalObject (ff_baseRateWithoutDecay f)) (DecimalObject (MINUTE_DECAY_FACTOR (ec_constants this)))
       (DecimalObject (BETA (ec_constants this))) (int lastFeeOperationTime * 1000) (int blockTimestamp * 1000) recoveryMode' (ec_constants this))"

definition Ethers_getFees :: "ethers \<Rightarrow> contracts \<Rightarrow> block_tag option \<Rightarrow> fees result" where
  "Ethers_getFees this k overrides =
     rbind (getFeesFactory k overrides) (\<lambda>f.
     rbind (Ethers_getTotal this k overrides) (\<lambda>total'.
     rbind (Ethers_getPrice k overrides) (\<lambda>price'.
     rbind (getBlockTimestamp this k overrides) (\<lambda>blockTimestamp.
     createFees this f blockTimestamp (Trove_collateralRatioIsBelowCritical total' price')))))"

definition Ethers_getHLQTStake :: "ethers \<Rightarrow> contracts \<Rightarrow> string option \<Rightarrow> block_tag option \<Rightarrow> hlqt_stake result" where
  "Ethers_getHLQTStake this k address overrides =
     rbind (given_or address (requireAddress this None)) (\<lambda>owner.
     rbind (read_decimal (hlqtStaking_stakes k owner overrides)) (\<lambda>staked.
     rbind (read_decimal (hlqtStaking_getPendingETHGain k owner overrides)) (\<lambda>gain.
     rbind (read_decimal (hlqtStaking_getPendingHCHFGain k owner overrides)) (\<lambda>hchf.
     Inr (new_HLQTStake staked gain hchf)))))"

definition Ethers_getTotalStakedHLQT :: "contracts \<Rightarrow> block_tag option \<Rightarrow> decimal result" where
  "Ethers_getTotalStakedHLQT k overrides = read_decimal (hlqtStaking_totalHLQTStaked k overrides)"

definition Ethers_getFrontendStatus :: "ethers \<Rightarrow> contracts \<Rightarrow> string option \<Rightarrow> block_tag option \<Rightarrow> frontend_status result" where
  "Ethers_getFrontendStatus this k address overrides =
     rbind (given_or address (requireFrontendAddress this)) (\<lambda>a.
     rbind (stabilityPool_frontEnds k a overrides) (\<lambda>(registered, kickbackRate).
       if registered then rbind (decimalify kickbackRate) (\<lambda>r. Inr (Registered r)) else Inr Unregistered))"

text \<open>The two allowances default to the address of the front end, not to the user's.\<close>

definition Ethers_getHchfTokenAllowanceOfHchfContract ::
  "ethers \<Rightarrow> contracts \<Rightarrow> string option \<Rightarrow> block_tag option \<Rightarrow> decimal result" where
  "Ethers_getHchfTokenAllowanceOfHchfContract this k address overrides =
     rbind (given_or address (requireFrontendAddress this)) (\<lambda>a.
     rbind (Ethers_getHCHFTokenAddress k overrides) (\<lambda>tokenAddress.
     read_decimal (erc20_allowance k tokenAddress a (ec_hchfToken this) overrides)))"

definition Ethers_getHlqtTokenAllowanceOfHlqtContract ::
  "ethers \<Rightarrow> contracts \<Rightarrow> string option \<Rightarrow> block_tag option \<Rightarrow> decimal result" where
  "Ethers_getHlqtTokenAllowanceOfHlqtContract this k address overrides =
     rbind (given_or address (requireFrontendAddress this)) (\<lambda>a.
     rbind (Ethers_getHLQTTokenAddress k overrides) (\<lambda>tokenAddress.
     read_decimal (erc20_allowance k tokenAddress a (ec_hlqtToken this) overrides)))"

text \<open>The class as an object of the interface.\<close>

definition Ethers_reader :: "ethers \<Rightarrow> contracts \<Rightarrow> block_tag option reader" where
  "Ethers_reader this k = \<lparr>
     getTotalRedistributed = Ethers_getTotalRedistributed this k,
     getTroveBeforeRedistribution = Ethers_getTroveBeforeRedistribution this k,
     getTrove = Ethers_getTrove this k,
     getNumberOfTroves = Ethers_getNumberOfTroves k,
     getPrice = Ethers_getPrice k,
     getTotal = Ethers_getTotal this k,
     getStabilityDeposit = Ethers_getStabilityDeposit this k,
     getRemainingStabilityPoolHLQTReward = Ethers_getRemainingStabilityPoolHLQTReward this k,
     getHCHFInStabilityPool = Ethers_getHCHFInStabilityPool k,
     getHCHFBalance = Ethers_getHCHFBalance this k,
     getHCHFTokenAddress = Ethers_getHCHFTokenAddress k,
     getHLQTTokenAddress = Ethers_getHLQTTokenAddress k,
     getHLQTBalance = Ethers_getHLQTBalance this k,
     getUniTokenBalance = Ethers_getUniTokenBalance this k,
     getUniTokenAllowance = Ethers_getUniTokenAllowance this k,
     getRemainingLiquidityMiningHLQTReward = Ethers_getRemainingLiquidityMiningHLQTReward this k,
     getLiquidityMiningStake = Ethers_getLiquidityMiningStake this k,
     getTotalStakedUniTokens = Ethers_getTotalStakedUniTokens k,
     getLiquidityMiningHLQTReward = Ethers_getLiquidityMiningHLQTReward this k,
     getCollateralSurplusBalance = Ethers_getCollateralSurplusBalance this k,
     getTroves = Ethers_getTroves this k,
     getFees = Ethers_getFees this k,
     getHLQTStake = Ethers_getHLQTStake this k,
     getTotalStakedHLQT = Ethers_getTotalStakedHLQT k,
     getFrontendStatus = Ethers_getFrontendStatus this k,
     getHchfTokenAllowanceOfHchfContract = Ethers_getHchfTokenAllowanceOfHchfContract this k,
     getHlqtTokenAllowanceOfHlqtContract = Ethers_getHlqtTokenAllowanceOfHlqtContract this k\<rparr>"

section \<open>The two clients agree\<close>

lemma mapBackendTrove_eq [simp]: "mapBackendTrove c = (\<lambda>t. Inr (new_PendingTrove c (ct_owner t) Open (Decimal (ct_coll t)) (Decimal (ct_debt t))
    (Decimal (ct_stake t)) (new_Trove c (Decimal (ct_snapshotETH t)) (Decimal (ct_snapshotHCHFDebt t)))))"
  by (intro ext) (simp add: mapBackendTrove_def)

interpretation ethers: consistent_reader "Ethers_reader this k" for this k
proof
  fix a x
  show "getTrove (Ethers_reader this k) a x = rbind (getTroveBeforeRedistribution (Ethers_reader this k) a x) (\<lambda>t.
      rbind (getTotalRedistributed (Ethers_reader this k) x) (\<lambda>red. Inr (applyRedistribution t red)))"
    by (simp add: Ethers_reader_def Ethers_getTrove_def)
next
  fix q :: listing_params and x
  assume "listing_before q"
  then show "listing_before_only (getTroves (Ethers_reader this k) q x)"
    by (auto simp: Ethers_reader_def Ethers_getTroves_def listing_before_only_def Let_def rbind_eq_Inr_iff mapM_Inr
        split: sum.split trove_listing.split)
next
  fix q :: listing_params and x
  assume "\<not> listing_before q"
  then show "getTroves (Ethers_reader this k) q x =
      rbind (getTroves (Ethers_reader this k) (q\<lparr>listing_before := True\<rparr>) x) (\<lambda>l.
      rbind (getTotalRedistributed (Ethers_reader this k) x) (\<lambda>red.
      case l of Before ts \<Rightarrow> Inr (Current (map (\<lambda>t. applyRedistribution t red) ts)) | Current ts \<Rightarrow> Inr (Current ts)))"
    by (cases "listing_sortedBy q")
      (simp_all add: Ethers_reader_def Ethers_getTroves_def mapM_Inr rbind_assoc Let_def comp_def)
qed

text \<open>
  The methods of a reader in three groups: those without an address, those with an optional address, and the two allowances. \<open>h\<close> is a reader without block tags, \<open>r\<close> is
  asked at the latest block.
\<close>

definition system_reads_alike :: "block_tag option reader \<Rightarrow> unit reader \<Rightarrow> bool" where
  "system_reads_alike r h \<longleftrightarrow> getTotalRedistributed h () = getTotalRedistributed r None
     \<and> getNumberOfTroves h () = getNumberOfTroves r None
     \<and> getPrice h () = getPrice r None
     \<and> getTotal h () = getTotal r None
     \<and> getRemainingStabilityPoolHLQTReward h () = getRemainingStabilityPoolHLQTReward r None
     \<and> getHCHFInStabilityPool h () = getHCHFInStabilityPool r None
     \<and> getHCHFTokenAddress h () = getHCHFTokenAddress r None
     \<and> getHLQTTokenAddress h () = getHLQTTokenAddress r None
     \<and> getRemainingLiquidityMiningHLQTReward h () = getRemainingLiquidityMiningHLQTReward r None
     \<and> getTotalStakedUniTokens h () = getTotalStakedUniTokens r None
     \<and> getFees h () = getFees r None
     \<and> getTotalStakedHLQT h () = getTotalStakedHLQT r None
     \<and> (\<forall>q. getTroves h q () = getTroves r q None)"

definition address_reads_alike :: "string option \<Rightarrow> block_tag option reader \<Rightarrow> unit reader \<Rightarrow> bool" where
  "address_reads_alike a r h \<longleftrightarrow> getTroveBeforeRedistribution h a () = getTroveBeforeRedistribution r a None
     \<and> getTrove h a () = getTrove r a None
     \<and> getStabilityDeposit h a () = getStabilityDeposit r a None
     \<and> getHCHFBalance h a () = getHCHFBalance r a None
     \<and> getHLQTBalance h a () = getHLQTBalance r a None
     \<and> getUniTokenBalance h a () = getUniTokenBalance r a None
     \<and> getUniTokenAllowance h a () = getUniTokenAllowance r a None
     \<and> getLiquidityMiningStake h a () = getLiquidityMiningStake r a None
     \<and> getLiquidityMiningHLQTReward h a () = getLiquidityMiningHLQTReward r a None
     \<and> getCollateralSurplusBalance h a () = getCollateralSurplusBalance r a None
     \<and> getHLQTStake h a () = getHLQTStake r a None
     \<and> getFrontendStatus h a () = getFrontendStatus r a None"

definition allowance_reads_alike :: "string option \<Rightarrow> block_tag option reader \<Rightarrow> unit reader \<Rightarrow> bool" where
  "allowance_reads_alike a r h \<longleftrightarrow> getHchfTokenAllowanceOfHchfContract h a () = getHchfTokenAllowanceOfHchfContract r a None
     \<and> getHlqtTokenAllowanceOfHlqtContract h a () = getHlqtTokenAllowanceOfHlqtContract r a None"

text \<open>The Hashgraph client of the same user and deployment.\<close>

definition hashgraph_twin :: "ethers \<Rightarrow> string \<Rightarrow> client" where
  "hashgraph_twin e user = \<lparr>userAccountAddress = user, userAccountIdString = [], frontendAddress = (case ec_frontendTag e of Some f \<Rightarrow> f | None \<Rightarrow> []),
     totalStabilityPoolHlqtReward = ec_totalStabilityPoolHLQTReward e, mirrorNodeBaseUrl = [], client_constants = ec_constants e,
     hchfTokenContractAddress = ec_hchfToken e, hlqtTokenContractAddress = ec_hlqtToken e, saucerSwapPoolAddress = ec_saucerSwapPool e\<rparr>"

text \<open>
  What the deployment and the chain promise: the liquidity token is the pool's, counts and times are numbers JavaScript can hold, and a
  block's time can be had without its tag or from the multicall contract alike.
\<close>

definition sound_deployment :: "ethers \<Rightarrow> contracts \<Rightarrow> bool" where
  "sound_deployment e k \<longleftrightarrow> unipool_uniToken k None = Inr (ec_uniToken e)
     \<and> (\<forall>n. troveManager_getTroveOwnersCount k None = Inr n \<or> troveManager_lastFeeOperationTime k None = Inr n
            \<or> unipool_periodFinish k None = Inr n \<or> unipool_lastUpdateTime k None = Inr n \<longrightarrow> n < 2 ^ 53)
     \<and> getBlockTimestamp e k None = web3_getBlock_timestamp k None"

lemma rbind_numberify:
  "(\<And>n. r = Inr n \<Longrightarrow> n < 2 ^ 53) \<Longrightarrow> rbind r (\<lambda>n. rbind (numberify n) f) = rbind r f"
  by (cases r) (simp_all add: numberify_def)

lemma rbind_read_decimal [simp]: "rbind (read_decimal r) f = rbind r (\<lambda>n. f (Decimal n))"
  by (cases r) (simp_all add: read_decimal_def)

lemma status_same: "Ethers_userTroveStatusFrom n = userTroveStatusFrom n"
  by (simp add: Ethers_userTroveStatusFrom_def userTroveStatusFrom_def)

lemmas user_reads = given_or_def hashgraph_twin_def Hashgraph_getCollateralSurplusBalance_def Ethers_getCollateralSurplusBalance_def
  Hashgraph_getHCHFBalance_def Ethers_getHCHFBalance_def Hashgraph_getHLQTBalance_def Ethers_getHLQTBalance_def
  Hashgraph_getUniTokenBalance_def Ethers_getUniTokenBalance_def Hashgraph_getUniTokenAllowance_def Ethers_getUniTokenAllowance_def
  Hashgraph_getLiquidityMiningStake_def Ethers_getLiquidityMiningStake_def Hashgraph_getLiquidityMiningHLQTReward_def
  Ethers_getLiquidityMiningHLQTReward_def Hashgraph_getStabilityDeposit_def Ethers_getStabilityDeposit_def Hashgraph_getHLQTStake_def
  Ethers_getHLQTStake_def Hashgraph_getHchfTokenAllowanceOfHchfContract_def Ethers_getHchfTokenAllowanceOfHchfContract_def
  Hashgraph_getHlqtTokenAllowanceOfHlqtContract_def Ethers_getHlqtTokenAllowanceOfHlqtContract_def Hashgraph_getHCHFTokenAddress_def
  Ethers_getHCHFTokenAddress_def Hashgraph_getHLQTTokenAddress_def Ethers_getHLQTTokenAddress_def

lemma user_reads_agree:
  fixes u
  assumes "unipool_uniToken k None = Inr (ec_uniToken e)"
  defines "c \<equiv> hashgraph_twin e u"
  shows "Hashgraph_getCollateralSurplusBalance c k a None = Ethers_getCollateralSurplusBalance e k (Some (getAddressOrUserAddress c a)) None"
    and "Hashgraph_getHCHFBalance c k a None = Ethers_getHCHFBalance e k (Some (getAddressOrUserAddress c a)) None"
    and "Hashgraph_getHLQTBalance c k a None = Ethers_getHLQTBalance e k (Some (getAddressOrUserAddress c a)) None"
    and "Hashgraph_getUniTokenBalance c k a None = Ethers_getUniTokenBalance e k (Some (getAddressOrUserAddress c a)) None"
    and "Hashgraph_getUniTokenAllowance c k a None = Ethers_getUniTokenAllowance e k (Some (getAddressOrUserAddress c a)) None"
    and "Hashgraph_getLiquidityMiningStake c k a None = Ethers_getLiquidityMiningStake e k (Some (getAddressOrUserAddress c a)) None"
    and "Hashgraph_getLiquidityMiningHLQTReward c k a None = Ethers_getLiquidityMiningHLQTReward e k (Some (getAddressOrUserAddress c a)) None"
    and "Hashgraph_getStabilityDeposit c k a None = Ethers_getStabilityDeposit e k (Some (getAddressOrUserAddress c a)) None"
    and "Hashgraph_getHLQTStake c k a None = Ethers_getHLQTStake e k (Some (getAddressOrUserAddress c a)) None"
    and "Hashgraph_getHchfTokenAllowanceOfHchfContract c k a None
      = Ethers_getHchfTokenAllowanceOfHchfContract e k (Some (getAddressOrUserAddress c a)) None"
    and "Hashgraph_getHlqtTokenAllowanceOfHlqtContract c k a None
      = Ethers_getHlqtTokenAllowanceOfHlqtContract e k (Some (getAddressOrUserAddress c a)) None"
  using assms(1) by (simp_all add: c_def user_reads Let_def split_def)

lemma troves_agree:
  fixes e u
  defines "c \<equiv> hashgraph_twin e u"
  shows "Hashgraph_getTotalRedistributed c k t = Ethers_getTotalRedistributed e k t"
    and "Hashgraph_getTroveBeforeRedistribution c k a t = Ethers_getTroveBeforeRedistribution e k (Some (getAddressOrUserAddress c a)) t"
    and "Hashgraph_getTotal c k t = Ethers_getTotal e k t"
    and "Hashgraph_getTroves c k q t = Ethers_getTroves e k q t"
proof -
  have cc: "client_constants c = ec_constants e" by (simp add: c_def hashgraph_twin_def)
  show red: "Hashgraph_getTotalRedistributed c k t = Ethers_getTotalRedistributed e k t"
    by (simp add: c_def Hashgraph_getTotalRedistributed_def Ethers_getTotalRedistributed_def hashgraph_twin_def)
  show "Hashgraph_getTroveBeforeRedistribution c k a t = Ethers_getTroveBeforeRedistribution e k (Some (getAddressOrUserAddress c a)) t"
    by (cases "troveManager_Troves k (getAddressOrUserAddress c a) t"; cases "troveManager_rewardSnapshots k (getAddressOrUserAddress c a) t")
      (auto simp: Hashgraph_getTroveBeforeRedistribution_def Ethers_getTroveBeforeRedistribution_def cc given_or_def status_same Let_def)
  show "Hashgraph_getTotal c k t = Ethers_getTotal e k t"
    by (simp add: c_def Hashgraph_getTotal_def Ethers_getTotal_def getActivePool_def getDefaultPool_def hashgraph_twin_def rbind_assoc Let_def)
  show "Hashgraph_getTroves c k q t = Ethers_getTroves e k q t"
    by (simp add: Hashgraph_getTroves_def Ethers_getTroves_def red)
      (simp add: c_def hashgraph_twin_def listed_trove_def [abs_def])
qed

lemma numbers_agree:
  fixes u
  assumes "sound_deployment e k"
  defines "c \<equiv> hashgraph_twin e u"
  shows "Hashgraph_getNumberOfTroves k None = Ethers_getNumberOfTroves k None"
    and "Hashgraph_getRemainingLiquidityMiningHLQTReward k None = Ethers_getRemainingLiquidityMiningHLQTReward e k None"
    and "Hashgraph_getFees c k None = Ethers_getFees e k None"
proof -
  have n: "n < 2 ^ 53" if "troveManager_getTroveOwnersCount k None = Inr n \<or> troveManager_lastFeeOperationTime k None = Inr n
      \<or> unipool_periodFinish k None = Inr n \<or> unipool_lastUpdateTime k None = Inr n" for n
    using assms(1) that unfolding sound_deployment_def by blast
  have t: "getBlockTimestamp e k None = web3_getBlock_timestamp k None" using assms(1) by (simp add: sound_deployment_def)
  show "Hashgraph_getNumberOfTroves k None = Ethers_getNumberOfTroves k None"
    unfolding Hashgraph_getNumberOfTroves_def Ethers_getNumberOfTroves_def by (rule rbind_numberify [symmetric]) (use n in blast)
  show "Hashgraph_getRemainingLiquidityMiningHLQTReward k None = Ethers_getRemainingLiquidityMiningHLQTReward e k None"
    using n t
    by (cases "unipool_periodFinish k None"; cases "unipool_lastUpdateTime k None")
      (simp_all add: Hashgraph_getRemainingLiquidityMiningHLQTReward_def Ethers_getRemainingLiquidityMiningHLQTReward_def
        getRemainingLiquidityMiningHLQTRewardCalculator_def calculateRemainingHLQT_def rbind_assoc numberify_def Decimal_ZERO_def cong: if_cong)
  show "Hashgraph_getFees c k None = Ethers_getFees e k None"
    using n t troves_agree(3) [of e u k None]
    by (cases "troveManager_lastFeeOperationTime k None")
      (simp_all add: Hashgraph_getFees_def Ethers_getFees_def getFeesFactory_def createFees_def rbind_assoc numberify_def
        Hashgraph_getPrice_def Ethers_getPrice_def c_def, simp add: hashgraph_twin_def)
qed

lemma default_address:
  fixes e u
  defines "c \<equiv> hashgraph_twin e u"
  assumes "ec_userAddress e = Some u" and "a \<noteq> Some []"
  shows "Ethers_getTroveBeforeRedistribution e k (Some (getAddressOrUserAddress c a)) t = Ethers_getTroveBeforeRedistribution e k a t"
    and "Ethers_getStabilityDeposit e k (Some (getAddressOrUserAddress c a)) t = Ethers_getStabilityDeposit e k a t"
    and "Ethers_getHCHFBalance e k (Some (getAddressOrUserAddress c a)) t = Ethers_getHCHFBalance e k a t"
    and "Ethers_getHLQTBalance e k (Some (getAddressOrUserAddress c a)) t = Ethers_getHLQTBalance e k a t"
    and "Ethers_getUniTokenBalance e k (Some (getAddressOrUserAddress c a)) t = Ethers_getUniTokenBalance e k a t"
    and "Ethers_getUniTokenAllowance e k (Some (getAddressOrUserAddress c a)) t = Ethers_getUniTokenAllowance e k a t"
    and "Ethers_getLiquidityMiningStake e k (Some (getAddressOrUserAddress c a)) t = Ethers_getLiquidityMiningStake e k a t"
    and "Ethers_getLiquidityMiningHLQTReward e k (Some (getAddressOrUserAddress c a)) t = Ethers_getLiquidityMiningHLQTReward e k a t"
    and "Ethers_getCollateralSurplusBalance e k (Some (getAddressOrUserAddress c a)) t = Ethers_getCollateralSurplusBalance e k a t"
    and "Ethers_getHLQTStake e k (Some (getAddressOrUserAddress c a)) t = Ethers_getHLQTStake e k a t"
proof -
  have same: "given_or (Some (getAddressOrUserAddress c a)) (requireAddress e None) = given_or a (requireAddress e None)"
    using assms(2,3) by (cases a) (auto simp: given_or_def requireAddress_def getAddressOrUserAddress_def c_def hashgraph_twin_def)
  show "Ethers_getTroveBeforeRedistribution e k (Some (getAddressOrUserAddress c a)) t = Ethers_getTroveBeforeRedistribution e k a t"
    and "Ethers_getStabilityDeposit e k (Some (getAddressOrUserAddress c a)) t = Ethers_getStabilityDeposit e k a t"
    and "Ethers_getHCHFBalance e k (Some (getAddressOrUserAddress c a)) t = Ethers_getHCHFBalance e k a t"
    and "Ethers_getHLQTBalance e k (Some (getAddressOrUserAddress c a)) t = Ethers_getHLQTBalance e k a t"
    and "Ethers_getUniTokenBalance e k (Some (getAddressOrUserAddress c a)) t = Ethers_getUniTokenBalance e k a t"
    and "Ethers_getUniTokenAllowance e k (Some (getAddressOrUserAddress c a)) t = Ethers_getUniTokenAllowance e k a t"
    and "Ethers_getLiquidityMiningStake e k (Some (getAddressOrUserAddress c a)) t = Ethers_getLiquidityMiningStake e k a t"
    and "Ethers_getLiquidityMiningHLQTReward e k (Some (getAddressOrUserAddress c a)) t = Ethers_getLiquidityMiningHLQTReward e k a t"
    and "Ethers_getCollateralSurplusBalance e k (Some (getAddressOrUserAddress c a)) t = Ethers_getCollateralSurplusBalance e k a t"
    and "Ethers_getHLQTStake e k (Some (getAddressOrUserAddress c a)) t = Ethers_getHLQTStake e k a t"
    by (simp_all only: Ethers_getTroveBeforeRedistribution_def Ethers_getStabilityDeposit_def Ethers_getHCHFBalance_def Ethers_getHLQTBalance_def
        Ethers_getUniTokenBalance_def Ethers_getUniTokenAllowance_def Ethers_getLiquidityMiningStake_def Ethers_getLiquidityMiningHLQTReward_def
        Ethers_getCollateralSurplusBalance_def Ethers_getHLQTStake_def same)
qed

lemma system_agrees:
  assumes "sound_deployment e k"
  shows "system_reads_alike (Ethers_reader e k) (Hashgraph_reader (hashgraph_twin e u) k)"
proof -
  have "Hashgraph_getRemainingStabilityPoolHLQTReward (hashgraph_twin e u) k None = Ethers_getRemainingStabilityPoolHLQTReward e k None"
    by (simp add: Hashgraph_getRemainingStabilityPoolHLQTReward_def Ethers_getRemainingStabilityPoolHLQTReward_def hashgraph_twin_def)
  then show ?thesis
    by (simp add: system_reads_alike_def Hashgraph_reader_def Ethers_reader_def troves_agree numbers_agree [OF assms]
        Hashgraph_getPrice_def Ethers_getPrice_def Hashgraph_getHCHFInStabilityPool_def Ethers_getHCHFInStabilityPool_def
        Hashgraph_getHCHFTokenAddress_def Ethers_getHCHFTokenAddress_def Hashgraph_getHLQTTokenAddress_def Ethers_getHLQTTokenAddress_def
        Hashgraph_getTotalStakedUniTokens_def Ethers_getTotalStakedUniTokens_def Hashgraph_getTotalStakedHLQT_def Ethers_getTotalStakedHLQT_def)
qed

lemma addresses_agree:
  assumes "unipool_uniToken k None = Inr (ec_uniToken e)" and "ec_userAddress e = Some u" and "ec_frontendTag e = Some f" and "a \<noteq> Some []"
  shows "address_reads_alike a (Ethers_reader e k) (Hashgraph_reader (hashgraph_twin e u) k)"
proof -
  have "Hashgraph_getFrontendStatus (hashgraph_twin e u) k a None = Ethers_getFrontendStatus e k a None"
    using assms(3) by (cases a)
      (simp_all add: Hashgraph_getFrontendStatus_def Ethers_getFrontendStatus_def hashgraph_twin_def given_or_def requireFrontendAddress_def)
  moreover have "Hashgraph_getTrove (hashgraph_twin e u) k a = Ethers_getTrove e k a None"
    by (simp add: Hashgraph_getTrove_def Ethers_getTrove_def troves_agree default_address [OF assms(2,4)])
  ultimately show ?thesis
    by (simp add: address_reads_alike_def Hashgraph_reader_def Ethers_reader_def user_reads_agree [OF assms(1)] troves_agree
        default_address [OF assms(2,4)])
qed

text \<open>
  C14. The two clients of the same user and deployment read the same ledger alike, with one exception. At the latest block, all methods that take no address, and all
  methods for an account other than the two allowances, return the same in both, whether an address is given or left out (a given address is not empty). The two
  allowances are the same for a given address. Without an address they differ: the Hashgraph client returns the user's allowance, the Ethereum client that of the front end.
\<close>

theorem clients_read_alike:
  assumes "sound_deployment e k" and "ec_userAddress e = Some u" and "ec_frontendTag e = Some f"
  shows "system_reads_alike (Ethers_reader e k) (Hashgraph_reader (hashgraph_twin e u) k)
    \<and> (\<forall>a. a \<noteq> Some [] \<longrightarrow> address_reads_alike a (Ethers_reader e k) (Hashgraph_reader (hashgraph_twin e u) k))
    \<and> (\<forall>a. a \<noteq> [] \<longrightarrow> allowance_reads_alike (Some a) (Ethers_reader e k) (Hashgraph_reader (hashgraph_twin e u) k))
    \<and> getHchfTokenAllowanceOfHchfContract (Hashgraph_reader (hashgraph_twin e u) k) None () = getHchfTokenAllowanceOfHchfContract (Ethers_reader e k) (Some u) None
    \<and> getHchfTokenAllowanceOfHchfContract (Ethers_reader e k) None None = getHchfTokenAllowanceOfHchfContract (Ethers_reader e k) (Some f) None
    \<and> getHlqtTokenAllowanceOfHlqtContract (Hashgraph_reader (hashgraph_twin e u) k) None () = getHlqtTokenAllowanceOfHlqtContract (Ethers_reader e k) (Some u) None
    \<and> getHlqtTokenAllowanceOfHlqtContract (Ethers_reader e k) None None = getHlqtTokenAllowanceOfHlqtContract (Ethers_reader e k) (Some f) None"
proof -
  have uni: "unipool_uniToken k None = Inr (ec_uniToken e)" using assms(1) by (simp add: sound_deployment_def)
  have "allowance_reads_alike (Some a) (Ethers_reader e k) (Hashgraph_reader (hashgraph_twin e u) k)" if "a \<noteq> []" for a
    using that by (simp add: allowance_reads_alike_def Hashgraph_reader_def Ethers_reader_def user_reads_agree [OF uni])
      (simp add: getAddressOrUserAddress_def)
  moreover have "getAddressOrUserAddress (hashgraph_twin e u) None = u" by (simp add: getAddressOrUserAddress_def hashgraph_twin_def)
  ultimately show ?thesis
    using system_agrees [OF assms(1)] addresses_agree [OF uni assms(2,3)]
    by (simp add: Hashgraph_reader_def Ethers_reader_def user_reads_agree [OF uni])
      (simp add: Ethers_getHchfTokenAllowanceOfHchfContract_def Ethers_getHlqtTokenAllowanceOfHlqtContract_def given_or_def requireFrontendAddress_def assms(3))
qed

definition sample_ethers :: ethers where
  "sample_ethers = \<lparr>ec_userAddress = Some ''0xA'', ec_frontendTag = Some ''0xF'', ec_totalStabilityPoolHLQTReward = Decimal_ONE,
     ec_multicall = None, ec_hchfToken = ''0xH'', ec_hlqtToken = ''0xL'', ec_saucerSwapPool = ''0xS'', ec_uniToken = ''0xT'',
     ec_constants = defaults\<rparr>"

lemma sample_sound_deployment: "sound_deployment sample_ethers sample_contracts"
  by (auto simp: sound_deployment_def sample_ethers_def sample_contracts_def getBlockTimestamp_def)

theorem clients_read_alike_witness:
  "getPrice (Hashgraph_reader (hashgraph_twin sample_ethers ''0xA'') sample_contracts) () = Inr (Decimal 5000000)
   \<and> system_reads_alike (Ethers_reader sample_ethers sample_contracts) (Hashgraph_reader (hashgraph_twin sample_ethers ''0xA'') sample_contracts)
   \<and> address_reads_alike None (Ethers_reader sample_ethers sample_contracts) (Hashgraph_reader (hashgraph_twin sample_ethers ''0xA'') sample_contracts)
   \<and> allowance_reads_alike (Some ''0xA'') (Ethers_reader sample_ethers sample_contracts) (Hashgraph_reader (hashgraph_twin sample_ethers ''0xA'') sample_contracts)"
proof -
  have "ec_frontendTag sample_ethers = Some ''0xF''" "ec_userAddress sample_ethers = Some ''0xA''" by (simp_all add: sample_ethers_def)
  moreover have "getPrice (Hashgraph_reader (hashgraph_twin sample_ethers ''0xA'') sample_contracts) () = Inr (Decimal 5000000)"
    by (simp add: Hashgraph_reader_def Hashgraph_getPrice_def sample_contracts_def read_decimal_def)
  ultimately show ?thesis using clients_read_alike [OF sample_sound_deployment, of "''0xA''" "''0xF''"] by simp
qed

end
