(* ===== verification/Ethers_Store.thy ===== *)
theory Ethers_Store
  imports Ethers_Read
begin

text \<open>
  The store of the Ethereum client, which is refreshed when blocks arrive (\<^verbatim>\<open>packages/lib-ethers/src/BlockPolledLiquityStore.ts\<close>), and the
  client that answers reads from it (\<^verbatim>\<open>BlockPolledLiquityStoreBasedCache\<close> and \<^verbatim>\<open>_BlockPolledReadableEthersLiquity\<close> of
  \<^verbatim>\<open>ReadableEthersLiquity.ts\<close>).
\<close>

section \<open>The snapshot\<close>

record polled_extra =
  pe_blockTag :: "block_tag option"
  pe_blockTimestamp :: nat

text \<open>A partial update of the extra state; the fields are \<open>None\<close> if undefined.\<close>

record polled_extra_update =
  pu_blockTag :: "block_tag option"
  pu_blockTimestamp :: "nat option"

definition getRiskiestTroveBeforeRedistribution :: "ethers \<Rightarrow> contracts \<Rightarrow> block_tag option \<Rightarrow> pending_trove result" where
  "getRiskiestTroveBeforeRedistribution this k overrides =
     rbind (Ethers_getTroves this k \<lparr>listing_first = 1, listing_sortedBy = AscendingCollateralRatio, listing_startingAt = None,
              listing_before = True\<rparr> overrides) (\<lambda>listing.
     Inr (case listing of Before (t # _) \<Rightarrow> t | _ \<Rightarrow> empty_PendingTrove (ec_constants this) AddressZero NonExistent))"

text \<open>
  The user's address goes to the mirror node; without one, building the request throws, and nothing is found. \<open>tokenIdString\<close> is the conversion of the Hashgraph SDK.
\<close>

definition Ethers_getTokenIds :: "contracts \<Rightarrow> mirror \<Rightarrow> string list result" where
  "Ethers_getTokenIds k m =
     rbind (hchfToken_tokenAddress k None) (\<lambda>hchfTokenAddress'.
     rbind (hlqtToken_tokenAddress k None) (\<lambda>hlqtTokenAddress'.
     rbind (unipool_uniToken k None) (\<lambda>lpTokenAddress.
     mapM (tokenIdString m) [hchfTokenAddress', hlqtTokenAddress', lpTokenAddress])))"

definition Ethers_tokenAssociations :: "ethers \<Rightarrow> contracts \<Rightarrow> mirror \<Rightarrow> string \<Rightarrow> bool list result" where
  "Ethers_tokenAssociations this k m mirrorUrl =
     rbind (Ethers_getTokenIds k m) (\<lambda>ids.
     rbind (Ethers_getTokenIds k m) (\<lambda>tokenIdStrings.
     let tokens = (case ec_userAddress this of
           None \<Rightarrow> []
         | Some u \<Rightarrow> (case fetchTokens (mirror_fetch m) (mirror_stringify m)
               \<lparr>tokenIds = ids, apiBaseUrl = mirrorUrl, account_of = EvmAddress u\<rparr> of Inr ts \<Rightarrow> ts | Inl _ \<Rightarrow> []))
     in Inr (map (\<lambda>i. i \<in> set tokens) tokenIdStrings)))"

definition Ethers_no_user_values :: "ethers \<Rightarrow> user_values" where
  "Ethers_no_user_values this = \<lparr>uv_accountBalance = Decimal_ZERO, uv_hchfBalance = Decimal_ZERO,
     uv_hchfTokenAddress = ''0x'', uv_hlqtTokenAddress = ''0x'', uv_hlqtBalance = Decimal_ZERO,
     uv_uniTokenBalance = Decimal_ZERO, uv_uniTokenAllowance = Decimal_ZERO,
     uv_liquidityMiningStake = Decimal_ZERO, uv_liquidityMiningHLQTReward = Decimal_ZERO,
     uv_collateralSurplusBalance = Decimal_ZERO,
     uv_troveBeforeRedistribution = empty_PendingTrove (ec_constants this) AddressZero NonExistent,
     uv_stabilityDeposit = empty_StabilityDeposit\<lparr>frontendTag := AddressZero\<rparr>,
     uv_hlqtStake = empty_HLQTStake, uv_ownFrontend = Unregistered,
     uv_hchfTokenAllowance = Decimal_ZERO, uv_hlqtTokenAllowance = Decimal_ZERO\<rparr>"

text \<open>An empty address counts as none.\<close>

definition Ethers_user_values :: "ethers \<Rightarrow> contracts \<Rightarrow> block_tag option \<Rightarrow> user_values result" where
  "Ethers_user_values this k blockTag = (case ec_userAddress this of
      None \<Rightarrow> Inr (Ethers_no_user_values this)
    | Some user \<Rightarrow>
      if user = [] then Inr (Ethers_no_user_values this)
      else
      rbind (rbind (web3_getBalance k user blockTag) (\<lambda>n. Decimal_fromBigNumberStringWithPrecision (int n) 18)) (\<lambda>v1.
      rbind (Ethers_getHCHFBalance this k (Some user) blockTag) (\<lambda>v2.
      rbind (Ethers_getHCHFTokenAddress k blockTag) (\<lambda>v3.
      rbind (Ethers_getHLQTTokenAddress k blockTag) (\<lambda>v4.
      rbind (Ethers_getHLQTBalance this k (Some user) blockTag) (\<lambda>v5.
      rbind (Ethers_getUniTokenBalance this k (Some user) blockTag) (\<lambda>v6.
      rbind (Ethers_getUniTokenAllowance this k (Some user) blockTag) (\<lambda>v7.
      rbind (Ethers_getLiquidityMiningStake this k (Some user) blockTag) (\<lambda>v8.
      rbind (Ethers_getLiquidityMiningHLQTReward this k (Some user) blockTag) (\<lambda>v9.
      rbind (Ethers_getCollateralSurplusBalance this k (Some user) blockTag) (\<lambda>v10.
      rbind (Ethers_getTroveBeforeRedistribution this k (Some user) blockTag) (\<lambda>v11.
      rbind (Ethers_getStabilityDeposit this k (Some user) blockTag) (\<lambda>v12.
      rbind (Ethers_getHLQTStake this k (Some user) blockTag) (\<lambda>v13.
      rbind (Ethers_getFrontendStatus this k (Some user) blockTag) (\<lambda>v14.
      rbind (Ethers_getHchfTokenAllowanceOfHchfContract this k (Some user) blockTag) (\<lambda>v15.
      rbind (Ethers_getHlqtTokenAllowanceOfHlqtContract this k (Some user) blockTag) (\<lambda>v16.
      Inr \<lparr>uv_accountBalance = v1, uv_hchfBalance = v2, uv_hchfTokenAddress = v3, uv_hlqtTokenAddress = v4,
           uv_hlqtBalance = v5, uv_uniTokenBalance = v6, uv_uniTokenAllowance = v7, uv_liquidityMiningStake = v8,
           uv_liquidityMiningHLQTReward = v9, uv_collateralSurplusBalance = v10,
           uv_troveBeforeRedistribution = v11, uv_stabilityDeposit = v12, uv_hlqtStake = v13,
           uv_ownFrontend = v14, uv_hchfTokenAllowance = v15, uv_hlqtTokenAllowance = v16\<rparr>)))))))))))))))))"

definition Polled_get :: "ethers \<Rightarrow> contracts \<Rightarrow> mirror \<Rightarrow> string \<Rightarrow> (string \<Rightarrow> nat) \<Rightarrow> block_tag option
    \<Rightarrow> (base_state \<times> polled_extra) result" where
  "Polled_get this k m mirrorUrl ids blockTag =
     rbind (Ethers_tokenAssociations this k m mirrorUrl) (\<lambda>associations.
     rbind (getBlockTimestamp this k blockTag) (\<lambda>blockTimestamp.
     rbind (getFeesFactory k blockTag) (\<lambda>factory.
     rbind (getRemainingLiquidityMiningHLQTRewardCalculator k blockTag) (\<lambda>calculator.
     rbind (Ethers_getPrice k blockTag) (\<lambda>price'.
     rbind (Ethers_getNumberOfTroves k blockTag) (\<lambda>numberOfTroves'.
     rbind (Ethers_getTotalRedistributed this k blockTag) (\<lambda>totalRedistributed'.
     rbind (Ethers_getTotal this k blockTag) (\<lambda>total'.
     rbind (Ethers_getHCHFInStabilityPool k blockTag) (\<lambda>hchfInStabilityPool'.
     rbind (Ethers_getTotalStakedHLQT k blockTag) (\<lambda>totalStakedHLQT'.
     rbind (getRiskiestTroveBeforeRedistribution this k blockTag) (\<lambda>riskiest.
     rbind (Ethers_getTotalStakedUniTokens k blockTag) (\<lambda>totalStakedUniTokens'.
     rbind (Ethers_getRemainingStabilityPoolHLQTReward this k blockTag) (\<lambda>remainingStabilityPoolHLQTReward'.
     rbind (case ec_frontendTag this of
              Some f \<Rightarrow> (if f \<noteq> [] then Ethers_getFrontendStatus this k (Some f) blockTag else Inr Unregistered)
            | None \<Rightarrow> Inr Unregistered) (\<lambda>frontend'.
     rbind (Ethers_user_values this k blockTag) (\<lambda>user.
     rbind (createFees this factory blockTimestamp False) (\<lambda>feesInNormalMode'.
     rbind (calculateRemainingHLQT calculator blockTimestamp) (\<lambda>remainingLiquidityMiningHLQTReward'.
     Inr (\<lparr>frontend = Object (ids ''frontend'') frontend',
           ownFrontend = Object (ids ''ownFrontend'') (uv_ownFrontend user),
           numberOfTroves = numberOfTroves',
           accountBalance = Object (ids ''accountBalance'') (uv_accountBalance user),
           hchfBalance = Object (ids ''hchfBalance'') (uv_hchfBalance user),
           hchfTokenAddress = uv_hchfTokenAddress user,
           hlqtTokenAddress = uv_hlqtTokenAddress user,
           hlqtBalance = Object (ids ''hlqtBalance'') (uv_hlqtBalance user),
           uniTokenBalance = Object (ids ''uniTokenBalance'') (uv_uniTokenBalance user),
           uniTokenAllowance = Object (ids ''uniTokenAllowance'') (uv_uniTokenAllowance user),
           remainingLiquidityMiningHLQTReward =
             Object (ids ''remainingLiquidityMiningHLQTReward'') remainingLiquidityMiningHLQTReward',
           liquidityMiningStake = Object (ids ''liquidityMiningStake'') (uv_liquidityMiningStake user),
           totalStakedUniTokens = Object (ids ''totalStakedUniTokens'') totalStakedUniTokens',
           liquidityMiningHLQTReward =
             Object (ids ''liquidityMiningHLQTReward'') (uv_liquidityMiningHLQTReward user),
           collateralSurplusBalance =
             Object (ids ''collateralSurplusBalance'') (uv_collateralSurplusBalance user),
           price = Object (ids ''price'') price',
           hchfInStabilityPool = Object (ids ''hchfInStabilityPool'') hchfInStabilityPool',
           total = Object (ids ''total'') total',
           totalRedistributed = Object (ids ''totalRedistributed'') totalRedistributed',
           troveBeforeRedistribution =
             Object (ids ''troveBeforeRedistribution'') (uv_troveBeforeRedistribution user),
           stabilityDeposit = Object (ids ''stabilityDeposit'') (uv_stabilityDeposit user),
           remainingStabilityPoolHLQTReward =
             Object (ids ''remainingStabilityPoolHLQTReward'') remainingStabilityPoolHLQTReward',
           feesInNormalMode = Object (ids ''_feesInNormalMode'') feesInNormalMode',
           hlqtStake = Object (ids ''hlqtStake'') (uv_hlqtStake user),
           totalStakedHLQT = Object (ids ''totalStakedHLQT'') totalStakedHLQT',
           riskiestTroveBeforeRedistribution = Object (ids ''_riskiestTroveBeforeRedistribution'') riskiest,
           userHasAssociatedWithHchf = associations ! 0,
           userHasAssociatedWithHlqt = associations ! 1,
           userHasAssociatedWithLpToken = associations ! 2,
           hchfTokenAllowanceOfHchfContract =
             Object (ids ''hchfTokenAllowanceOfHchfContract'') (uv_hchfTokenAllowance user),
           hlqtTokenAllowanceOfHlqtContract =
             Object (ids ''hlqtTokenAllowanceOfHlqtContract'') (uv_hlqtTokenAllowance user)\<rparr>,
          \<lparr>pe_blockTag = blockTag, pe_blockTimestamp = blockTimestamp\<rparr>))))))))))))))))))"

section \<open>Polling\<close>

definition polled_reduceExtra :: "polled_extra \<Rightarrow> polled_extra_update \<Rightarrow> polled_extra" where
  "polled_reduceExtra oldState' stateUpdate =
     \<lparr>pe_blockTag = (case pu_blockTag stateUpdate of Some t \<Rightarrow> Some t | None \<Rightarrow> pe_blockTag oldState'),
      pe_blockTimestamp = (case pu_blockTimestamp stateUpdate of Some t \<Rightarrow> t | None \<Rightarrow> pe_blockTimestamp oldState')\<rparr>"

definition polled_subclass :: "(polled_extra, polled_extra_update) store_subclass" where
  "polled_subclass = \<lparr>reduceExtra = polled_reduceExtra,
     extra_entries = (\<lambda>e. [(''blockTag'', case pe_blockTag e of
         None \<Rightarrow> UndefinedValue | Some (BlockNumber n) \<Rightarrow> NumberValue n | Some (BlockName s) \<Rightarrow> StringValue s),
       (''blockTimestamp'', NumberValue (int (pe_blockTimestamp e)))])\<rparr>"

text \<open>What \<^verbatim>\<open>refresh\<close> and the listener for blocks do with a snapshot, and what is done with the first one.\<close>

definition polled_snapshot :: "(string \<Rightarrow> nat) \<Rightarrow> (nat \<Rightarrow> callback) \<Rightarrow> (listener_action list \<times> js_error option) option
    \<Rightarrow> base_state \<times> polled_extra \<Rightarrow> polled_extra store \<Rightarrow> polled_extra store \<times> (listener_params \<times> nat list) result" where
  "polled_snapshot ids call onLoaded values s =
     (if loaded s
      then store_update polled_subclass ids call (Some (update_of (fst values)))
             (Some \<lparr>pu_blockTag = pe_blockTag (snd values), pu_blockTimestamp = Some (pe_blockTimestamp (snd values))\<rparr>) s
      else load polled_subclass ids call onLoaded (fst values) (Some (snd values)) s)"

definition polled_first_snapshot :: "(string \<Rightarrow> nat) \<Rightarrow> (nat \<Rightarrow> callback) \<Rightarrow> (listener_action list \<times> js_error option) option
    \<Rightarrow> base_state \<times> polled_extra \<Rightarrow> polled_extra store \<Rightarrow> polled_extra store" where
  "polled_first_snapshot ids call onLoaded values s =
     (if loaded s then s else fst (load polled_subclass ids call onLoaded (fst values) (Some (snd values)) s))"

definition Polled_refresh :: "ethers \<Rightarrow> contracts \<Rightarrow> mirror \<Rightarrow> string \<Rightarrow> (string \<Rightarrow> nat) \<Rightarrow> (nat \<Rightarrow> callback)
    \<Rightarrow> (listener_action list \<times> js_error option) option \<Rightarrow> polled_extra store \<Rightarrow> polled_extra store \<times> js_object" where
  "Polled_refresh this k m mirrorUrl ids call onLoaded s =
     (let s' = (case Polled_get this k m mirrorUrl ids None of
          Inr values \<Rightarrow> fst (polled_snapshot ids call onLoaded values s) | Inl _ \<Rightarrow> s)
      in (s', store_state polled_subclass ids s'))"

text \<open>
  \<^verbatim>\<open>_doStart\<close> as a machine: an interval allows one fetch every twenty seconds, and a block starts it if it is allowed. The first fetch and
  the ones for blocks run concurrently; \<open>fetching\<close> holds the block tags of those that have not come back.
\<close>

record polling =
  doUpdate :: bool
  fetching :: "block_tag option list"
  polled :: "polled_extra store"

definition Polled_doStart :: "polled_extra store \<Rightarrow> polling" where
  "Polled_doStart s = \<lparr>doUpdate = False, fetching = [None], polled = s\<rparr>"

definition interval_passed :: "polling \<Rightarrow> polling" where
  "interval_passed p = p\<lparr>doUpdate := True\<rparr>"

definition blockListener :: "int \<Rightarrow> polling \<Rightarrow> polling" where
  "blockListener blockTag p =
     (if doUpdate p then p\<lparr>doUpdate := False, fetching := fetching p @ [Some (BlockNumber blockTag)]\<rparr> else p)"

text \<open>A fetch comes back; one that fails leaves an unhandled rejection and nothing else.\<close>

definition fetched :: "(string \<Rightarrow> nat) \<Rightarrow> (nat \<Rightarrow> callback) \<Rightarrow> (listener_action list \<times> js_error option) option
    \<Rightarrow> block_tag option \<Rightarrow> (base_state \<times> polled_extra) result \<Rightarrow> polling \<Rightarrow> polling" where
  "fetched ids call onLoaded tag values p = p\<lparr>fetching := remove1 tag (fetching p), polled := (case values of
      Inl _ \<Rightarrow> polled p
    | Inr v \<Rightarrow> (if tag = None then polled_first_snapshot ids call onLoaded v (polled p) else fst (polled_snapshot ids call onLoaded v (polled p))))\<rparr>"

section \<open>Reading from the store\<close>

text \<open>\<^verbatim>\<open>store.state\<close>: the fields of the default state until the store is loaded.\<close>

definition polled_base :: "(string \<Rightarrow> nat) \<Rightarrow> polled_extra store \<Rightarrow> base_state" where
  "polled_base ids s = (case baseState s of Some b \<Rightarrow> b | None \<Rightarrow> default_base_state ids (store_constants s))"

definition polled_derived :: "(string \<Rightarrow> nat) \<Rightarrow> polled_extra store \<Rightarrow> derived_state" where
  "polled_derived ids s = (case derivedState s of Some d \<Rightarrow> d | None \<Rightarrow> default_derived_state ids (store_constants s))"

definition polled_blockTag :: "polled_extra store \<Rightarrow> block_tag option" where
  "polled_blockTag s = (case extraState s of Some e \<Rightarrow> pe_blockTag e | None \<Rightarrow> None)"

definition blockHit :: "polled_extra store \<Rightarrow> block_tag option \<Rightarrow> bool" where
  "blockHit s overrides \<longleftrightarrow> overrides = None \<or> overrides = polled_blockTag s"

definition userHit :: "ethers \<Rightarrow> polled_extra store \<Rightarrow> string option \<Rightarrow> block_tag option \<Rightarrow> bool" where
  "userHit this s address overrides \<longleftrightarrow> blockHit s overrides \<and> (address = None \<or> address = ec_userAddress this)"

definition frontendHit :: "ethers \<Rightarrow> polled_extra store \<Rightarrow> string option \<Rightarrow> block_tag option \<Rightarrow> bool" where
  "frontendHit this s address overrides \<longleftrightarrow> blockHit s overrides \<and> (address = None \<or> address = ec_frontendTag this)"

definition polled_cache :: "(string \<Rightarrow> nat) \<Rightarrow> ethers \<Rightarrow> polled_extra store \<Rightarrow> block_tag option read_cache" where
  "polled_cache ids this s = \<lparr>
     cached_getTotalRedistributed = (\<lambda>x. if blockHit s x then Some (content (totalRedistributed (polled_base ids s))) else None),
     cached_getTroveBeforeRedistribution = (\<lambda>a x. if userHit this s a x then Some (content (troveBeforeRedistribution (polled_base ids s))) else None),
     cached_getNumberOfTroves = (\<lambda>x. if blockHit s x then Some (numberOfTroves (polled_base ids s)) else None),
     cached_getPrice = (\<lambda>x. if blockHit s x then Some (content (price (polled_base ids s))) else None),
     cached_getTotal = (\<lambda>x. if blockHit s x then Some (content (total (polled_base ids s))) else None),
     cached_getStabilityDeposit = (\<lambda>a x. if userHit this s a x then Some (content (stabilityDeposit (polled_base ids s))) else None),
     cached_getRemainingStabilityPoolHLQTReward = (\<lambda>x. if blockHit s x then Some (content (remainingStabilityPoolHLQTReward (polled_base ids s))) else None),
     cached_getHCHFInStabilityPool = (\<lambda>x. if blockHit s x then Some (content (hchfInStabilityPool (polled_base ids s))) else None),
     cached_getHCHFBalance = (\<lambda>a x. if userHit this s a x then Some (content (hchfBalance (polled_base ids s))) else None),
     cached_getHCHFTokenAddress = (\<lambda>x. if blockHit s x then Some (hchfTokenAddress (polled_base ids s)) else None),
     cached_getHLQTTokenAddress = (\<lambda>x. if blockHit s x then Some (hlqtTokenAddress (polled_base ids s)) else None),
     cached_getHLQTBalance = (\<lambda>a x. if userHit this s a x then Some (content (hlqtBalance (polled_base ids s))) else None),
     cached_getUniTokenBalance = (\<lambda>a x. if userHit this s a x then Some (content (uniTokenBalance (polled_base ids s))) else None),
     cached_getUniTokenAllowance = (\<lambda>a x. if userHit this s a x then Some (content (uniTokenAllowance (polled_base ids s))) else None),
     cached_getRemainingLiquidityMiningHLQTReward = (\<lambda>x. if blockHit s x then Some (content (remainingLiquidityMiningHLQTReward (polled_base ids s))) else None),
     cached_getLiquidityMiningStake = (\<lambda>a x. if userHit this s a x then Some (content (liquidityMiningStake (polled_base ids s))) else None),
     cached_getTotalStakedUniTokens = (\<lambda>x. if blockHit s x then Some (content (totalStakedUniTokens (polled_base ids s))) else None),
     cached_getLiquidityMiningHLQTReward = (\<lambda>a x. if userHit this s a x then Some (content (liquidityMiningHLQTReward (polled_base ids s))) else None),
     cached_getCollateralSurplusBalance = (\<lambda>a x. if userHit this s a x then Some (content (collateralSurplusBalance (polled_base ids s))) else None),
     cached_getTroves = (\<lambda>_ _. None),
     cached_getFees = (\<lambda>x. if blockHit s x then Some (content (fees (polled_derived ids s))) else None),
     cached_getHLQTStake = (\<lambda>a x. if userHit this s a x then Some (content (hlqtStake (polled_base ids s))) else None),
     cached_getTotalStakedHLQT = (\<lambda>x. if blockHit s x then Some (content (totalStakedHLQT (polled_base ids s))) else None),
     cached_getFrontendStatus = (\<lambda>a x. if frontendHit this s a x then Some (content (frontend (polled_base ids s))) else None),
     cached_getHchfTokenAllowanceOfHchfContract = (\<lambda>a x. if userHit this s a x then Some (content (hchfTokenAllowanceOfHchfContract (polled_base ids s))) else None),
     cached_getHlqtTokenAllowanceOfHlqtContract = (\<lambda>a x. if userHit this s a x then Some (content (hlqtTokenAllowanceOfHlqtContract (polled_base ids s))) else None)\<rparr>"

definition BlockPolled_reader :: "(string \<Rightarrow> nat) \<Rightarrow> ethers \<Rightarrow> contracts \<Rightarrow> polled_extra store \<Rightarrow> block_tag option reader" where
  "BlockPolled_reader ids this k s = Cached_reader (Ethers_reader this k) (polled_cache ids this s)"

section \<open>What the cached client reads\<close>

text \<open>
  The reader that reads the block \<open>N\<close> where no block is asked for, if what is asked is in the store: values of the system, of the user and
  of the front end. The allowances are those of the user there, not of the front end. Listings are never pinned, but the totals that are
  applied to them are.
\<close>

definition pin :: "block_tag \<Rightarrow> block_tag option \<Rightarrow> block_tag option" where
  "pin N x = (if x = None then Some N else x)"

definition of_user :: "ethers \<Rightarrow> string option \<Rightarrow> bool" where
  "of_user e a \<longleftrightarrow> a = None \<or> a = ec_userAddress e"

definition pin_user :: "ethers \<Rightarrow> block_tag \<Rightarrow> string option \<Rightarrow> block_tag option \<Rightarrow> block_tag option" where
  "pin_user e N a x = (if of_user e a then pin N x else x)"

definition pinned :: "ethers \<Rightarrow> block_tag \<Rightarrow> block_tag option reader \<Rightarrow> block_tag option reader" where
  "pinned e N r = \<lparr>
     getTotalRedistributed = (\<lambda>x. getTotalRedistributed r (pin N x)),
     getTroveBeforeRedistribution = (\<lambda>a x. getTroveBeforeRedistribution r a (pin_user e N a x)),
     getTrove = (\<lambda>a x. rbind (getTroveBeforeRedistribution r a (pin_user e N a x)) (\<lambda>t.
       rbind (getTotalRedistributed r (pin N x)) (\<lambda>red. Inr (applyRedistribution t red)))),
     getNumberOfTroves = (\<lambda>x. getNumberOfTroves r (pin N x)),
     getPrice = (\<lambda>x. getPrice r (pin N x)),
     getTotal = (\<lambda>x. getTotal r (pin N x)),
     getStabilityDeposit = (\<lambda>a x. getStabilityDeposit r a (pin_user e N a x)),
     getRemainingStabilityPoolHLQTReward = (\<lambda>x. getRemainingStabilityPoolHLQTReward r (pin N x)),
     getHCHFInStabilityPool = (\<lambda>x. getHCHFInStabilityPool r (pin N x)),
     getHCHFBalance = (\<lambda>a x. getHCHFBalance r a (pin_user e N a x)),
     getHCHFTokenAddress = (\<lambda>x. getHCHFTokenAddress r (pin N x)),
     getHLQTTokenAddress = (\<lambda>x. getHLQTTokenAddress r (pin N x)),
     getHLQTBalance = (\<lambda>a x. getHLQTBalance r a (pin_user e N a x)),
     getUniTokenBalance = (\<lambda>a x. getUniTokenBalance r a (pin_user e N a x)),
     getUniTokenAllowance = (\<lambda>a x. getUniTokenAllowance r a (pin_user e N a x)),
     getRemainingLiquidityMiningHLQTReward = (\<lambda>x. getRemainingLiquidityMiningHLQTReward r (pin N x)),
     getLiquidityMiningStake = (\<lambda>a x. getLiquidityMiningStake r a (pin_user e N a x)),
     getTotalStakedUniTokens = (\<lambda>x. getTotalStakedUniTokens r (pin N x)),
     getLiquidityMiningHLQTReward = (\<lambda>a x. getLiquidityMiningHLQTReward r a (pin_user e N a x)),
     getCollateralSurplusBalance = (\<lambda>a x. getCollateralSurplusBalance r a (pin_user e N a x)),
     getTroves = (\<lambda>q x. if listing_before q then getTroves r q x
       else rbind (getTroves r (q\<lparr>listing_before := True\<rparr>) x) (\<lambda>l. rbind (getTotalRedistributed r (pin N x)) (\<lambda>red.
         case l of Before ts \<Rightarrow> Inr (Current (map (\<lambda>t. applyRedistribution t red) ts)) | Current ts \<Rightarrow> Inr (Current ts)))),
     getFees = (\<lambda>x. getFees r (pin N x)),
     getHLQTStake = (\<lambda>a x. getHLQTStake r a (pin_user e N a x)),
     getTotalStakedHLQT = (\<lambda>x. getTotalStakedHLQT r (pin N x)),
     getFrontendStatus = (\<lambda>a x. getFrontendStatus r a (if a = None \<or> a = ec_frontendTag e then pin N x else x)),
     getHchfTokenAllowanceOfHchfContract = (\<lambda>a x. if of_user e a \<and> pin N x = Some N then getHchfTokenAllowanceOfHchfContract r (ec_userAddress e) (Some N)
       else getHchfTokenAllowanceOfHchfContract r a x),
     getHlqtTokenAllowanceOfHlqtContract = (\<lambda>a x. if of_user e a \<and> pin N x = Some N then getHlqtTokenAllowanceOfHlqtContract r (ec_userAddress e) (Some N)
       else getHlqtTokenAllowanceOfHlqtContract r a x)\<rparr>"

lemma user_values_reads:
  assumes "Ethers_user_values e k t = Inr v" and "ec_userAddress e = Some u" "u \<noteq> []"
  shows "Ethers_getHCHFBalance e k (Some u) t = Inr (uv_hchfBalance v) \<and> Ethers_getHCHFTokenAddress k t = Inr (uv_hchfTokenAddress v)
    \<and> Ethers_getHLQTTokenAddress k t = Inr (uv_hlqtTokenAddress v) \<and> Ethers_getHLQTBalance e k (Some u) t = Inr (uv_hlqtBalance v)
    \<and> Ethers_getUniTokenBalance e k (Some u) t = Inr (uv_uniTokenBalance v) \<and> Ethers_getUniTokenAllowance e k (Some u) t = Inr (uv_uniTokenAllowance v)
    \<and> Ethers_getLiquidityMiningStake e k (Some u) t = Inr (uv_liquidityMiningStake v)
    \<and> Ethers_getLiquidityMiningHLQTReward e k (Some u) t = Inr (uv_liquidityMiningHLQTReward v)
    \<and> Ethers_getCollateralSurplusBalance e k (Some u) t = Inr (uv_collateralSurplusBalance v)
    \<and> Ethers_getTroveBeforeRedistribution e k (Some u) t = Inr (uv_troveBeforeRedistribution v)
    \<and> Ethers_getStabilityDeposit e k (Some u) t = Inr (uv_stabilityDeposit v) \<and> Ethers_getHLQTStake e k (Some u) t = Inr (uv_hlqtStake v)
    \<and> Ethers_getHchfTokenAllowanceOfHchfContract e k (Some u) t = Inr (uv_hchfTokenAllowance v)
    \<and> Ethers_getHlqtTokenAllowanceOfHlqtContract e k (Some u) t = Inr (uv_hlqtTokenAllowance v)"
  using assms by (auto simp: Ethers_user_values_def rbind_eq_Inr_iff)

lemma Polled_get_user_fields:
  assumes "Polled_get e k m url ids t = Inr (b, x)"
  shows "\<exists>v. Ethers_user_values e k t = Inr v \<and> content (hchfBalance b) = uv_hchfBalance v \<and> hchfTokenAddress b = uv_hchfTokenAddress v
    \<and> hlqtTokenAddress b = uv_hlqtTokenAddress v \<and> content (hlqtBalance b) = uv_hlqtBalance v
    \<and> content (uniTokenBalance b) = uv_uniTokenBalance v \<and> content (uniTokenAllowance b) = uv_uniTokenAllowance v
    \<and> content (liquidityMiningStake b) = uv_liquidityMiningStake v \<and> content (liquidityMiningHLQTReward b) = uv_liquidityMiningHLQTReward v
    \<and> content (collateralSurplusBalance b) = uv_collateralSurplusBalance v
    \<and> content (troveBeforeRedistribution b) = uv_troveBeforeRedistribution v
    \<and> content (stabilityDeposit b) = uv_stabilityDeposit v \<and> content (hlqtStake b) = uv_hlqtStake v
    \<and> content (hchfTokenAllowanceOfHchfContract b) = uv_hchfTokenAllowance v
    \<and> content (hlqtTokenAllowanceOfHlqtContract b) = uv_hlqtTokenAllowance v"
  using assms by (auto simp: Polled_get_def rbind_eq_Inr_iff)

lemma Polled_get_system:
  assumes "Polled_get e k m url ids t = Inr (b, x)"
  shows "Ethers_getPrice k t = Inr (content (price b)) \<and> Ethers_getNumberOfTroves k t = Inr (numberOfTroves b)
    \<and> Ethers_getTotalRedistributed e k t = Inr (content (totalRedistributed b)) \<and> Ethers_getTotal e k t = Inr (content (total b))
    \<and> Ethers_getHCHFInStabilityPool k t = Inr (content (hchfInStabilityPool b)) \<and> Ethers_getTotalStakedHLQT k t = Inr (content (totalStakedHLQT b))
    \<and> Ethers_getTotalStakedUniTokens k t = Inr (content (totalStakedUniTokens b))
    \<and> Ethers_getRemainingStabilityPoolHLQTReward e k t = Inr (content (remainingStabilityPoolHLQTReward b))
    \<and> Ethers_getRemainingLiquidityMiningHLQTReward e k t = Inr (content (remainingLiquidityMiningHLQTReward b))
    \<and> pe_blockTag x = t"
  using assms by (auto simp: Polled_get_def rbind_eq_Inr_iff Ethers_getRemainingLiquidityMiningHLQTReward_def)

lemma Polled_get_frontend:
  assumes "Polled_get e k m url ids t = Inr (b, x)" and "ec_frontendTag e = Some f" "f \<noteq> []"
  shows "Ethers_getFrontendStatus e k (Some f) t = Inr (content (frontend b))"
  using assms by (auto simp: Polled_get_def rbind_eq_Inr_iff)

lemma Polled_get_fees:
  assumes "Polled_get e k m url ids t = Inr (b, x)" and "derive ids' b = Inr d"
  shows "Ethers_getFees e k t = Inr (content (fees d))"
proof -
  have "Ethers_getFees e k t = Inr ((content (feesInNormalMode b))
      \<lparr>recoveryMode := Trove_collateralRatioIsBelowCritical (content (total b)) (content (price b))\<rparr>)"
    using assms(1) by (auto simp: Polled_get_def rbind_eq_Inr_iff Ethers_getFees_def createFees_def new_Fees_def)
  moreover have "fees_inv (content (feesInNormalMode b))"
    using assms(1) by (auto simp: Polled_get_def rbind_eq_Inr_iff createFees_def new_Fees_def fees_inv_def)
  ultimately show ?thesis
    using assms(2) by (auto simp: derive_def rbind_eq_Inr_iff Fees_setRecoveryMode_eq)
qed

lemma given_user: "ec_userAddress e = Some u \<Longrightarrow> given_or None (requireAddress e None) = given_or (Some u) (requireAddress e None)"
  by (simp add: given_or_def requireAddress_def)

lemma user_default:
  assumes "ec_userAddress e = Some u"
  shows "Ethers_getTroveBeforeRedistribution e k None t = Ethers_getTroveBeforeRedistribution e k (Some u) t"
    and "Ethers_getStabilityDeposit e k None t = Ethers_getStabilityDeposit e k (Some u) t"
    and "Ethers_getHCHFBalance e k None t = Ethers_getHCHFBalance e k (Some u) t"
    and "Ethers_getHLQTBalance e k None t = Ethers_getHLQTBalance e k (Some u) t"
    and "Ethers_getUniTokenBalance e k None t = Ethers_getUniTokenBalance e k (Some u) t"
    and "Ethers_getUniTokenAllowance e k None t = Ethers_getUniTokenAllowance e k (Some u) t"
    and "Ethers_getLiquidityMiningStake e k None t = Ethers_getLiquidityMiningStake e k (Some u) t"
    and "Ethers_getLiquidityMiningHLQTReward e k None t = Ethers_getLiquidityMiningHLQTReward e k (Some u) t"
    and "Ethers_getCollateralSurplusBalance e k None t = Ethers_getCollateralSurplusBalance e k (Some u) t"
    and "Ethers_getHLQTStake e k None t = Ethers_getHLQTStake e k (Some u) t"
  by (simp_all only: Ethers_getTroveBeforeRedistribution_def Ethers_getStabilityDeposit_def Ethers_getHCHFBalance_def Ethers_getHLQTBalance_def
      Ethers_getUniTokenBalance_def Ethers_getUniTokenAllowance_def Ethers_getLiquidityMiningStake_def Ethers_getLiquidityMiningHLQTReward_def
      Ethers_getCollateralSurplusBalance_def Ethers_getHLQTStake_def given_user [OF assms])

lemma blockHit_pin: "polled_blockTag s = Some N \<Longrightarrow> blockHit s x \<longleftrightarrow> pin N x = Some N"
  by (auto simp: blockHit_def pin_def)

lemma read_system:
  assumes "polled_blockTag s = Some N" and "X (Some N) = Inr v"
  shows "or_read (if blockHit s x then Some v else None) (X x) = X (pin N x)"
  using assms by (auto simp: blockHit_pin or_read_def) (auto simp: pin_def)

lemma read_user:
  assumes "polled_blockTag s = Some N" and "ec_userAddress e = Some u" and "\<And>t. X None t = X (Some u) t" and "X (Some u) (Some N) = Inr v"
  shows "or_read (if userHit e s a x then Some v else None) (X a x) = X a (pin_user e N a x)"
  using assms by (auto simp: userHit_def blockHit_pin or_read_def pin_user_def of_user_def) (auto simp: pin_def)

lemma read_allowance:
  assumes "polled_blockTag s = Some N" and "ec_userAddress e = Some u" and "X (Some u) (Some N) = Inr v"
  shows "or_read (if userHit e s a x then Some v else None) (X a x) =
    (if of_user e a \<and> pin N x = Some N then X (ec_userAddress e) (Some N) else X a x)"
  using assms by (auto simp: userHit_def blockHit_pin or_read_def of_user_def)

lemma read_frontend:
  assumes "polled_blockTag s = Some N" and "ec_frontendTag e = Some f" and "\<And>t. X None t = X (Some f) t" and "X (Some f) (Some N) = Inr v"
  shows "or_read (if frontendHit e s a x then Some v else None) (X a x) = X a (if a = None \<or> a = ec_frontendTag e then pin N x else x)"
  using assms by (auto simp: frontendHit_def blockHit_pin or_read_def) (auto simp: pin_def)

lemma cached_listing:
  assumes redistributed: "\<And>x. Cached_getTotalRedistributed (Ethers_reader e k) c x = Ethers_getTotalRedistributed e k (pin N x)"
    and uncached: "\<And>q x. cached_getTroves c q x = None"
  shows "Cached_getTroves (Ethers_reader e k) c q x = getTroves (pinned e N (Ethers_reader e k)) q x"
proof -
  let ?q = "q\<lparr>listing_before := True\<rparr>"
  have before: "listing_before_only (getTroves (Ethers_reader e k) ?q x)" by (rule ethers.getTroves_before) simp
  have r: "getTotalRedistributed (Ethers_reader e k) = Ethers_getTotalRedistributed e k" by (simp add: Ethers_reader_def)
  show ?thesis
  proof (cases "listing_before q")
    case True
    then have q: "?q = q" by (cases q) simp
    show ?thesis
      unfolding Cached_getTroves_def Let_def q using True
      by (cases "getTroves (Ethers_reader e k) q x") (simp_all add: uncached or_read_def pinned_def)
  next
    case False
    with before redistributed show ?thesis
      by (cases "getTroves (Ethers_reader e k) ?q x"; cases "Ethers_getTotalRedistributed e k (pin N x)")
        (auto simp: Cached_getTroves_def uncached or_read_def pinned_def listing_before_only_def r Let_def split: trove_listing.split_asm)
  qed
qed

lemmas cached_methods = Cached_getTotalRedistributed_def Cached_getTroveBeforeRedistribution_def
  Cached_getNumberOfTroves_def Cached_getPrice_def Cached_getTotal_def Cached_getStabilityDeposit_def
  Cached_getRemainingStabilityPoolHLQTReward_def Cached_getHCHFInStabilityPool_def
  Cached_getHCHFBalance_def Cached_getHCHFTokenAddress_def Cached_getHLQTTokenAddress_def
  Cached_getHLQTBalance_def Cached_getUniTokenBalance_def Cached_getUniTokenAllowance_def
  Cached_getRemainingLiquidityMiningHLQTReward_def Cached_getLiquidityMiningStake_def
  Cached_getTotalStakedUniTokens_def Cached_getLiquidityMiningHLQTReward_def
  Cached_getCollateralSurplusBalance_def Cached_getFees_def Cached_getHLQTStake_def
  Cached_getTotalStakedHLQT_def Cached_getFrontendStatus_def
  Cached_getHchfTokenAllowanceOfHchfContract_def Cached_getHlqtTokenAllowanceOfHlqtContract_def

lemma cached_system_methods:
  assumes "Polled_get e k m url ids (Some N) = Inr (b, x)"
    and "ec_userAddress e = Some u" "u \<noteq> []" and "ec_frontendTag e = Some f" "f \<noteq> []"
    and "baseState s = Some b" "extraState s = Some x" "derivedState s = Some d" "derive ids' b = Inr d"
  shows "Cached_getTotalRedistributed (Ethers_reader e k) (polled_cache ids'' e s) = getTotalRedistributed (pinned e N (Ethers_reader e k))"
    and "Cached_getNumberOfTroves (Ethers_reader e k) (polled_cache ids'' e s) = getNumberOfTroves (pinned e N (Ethers_reader e k))"
    and "Cached_getPrice (Ethers_reader e k) (polled_cache ids'' e s) = getPrice (pinned e N (Ethers_reader e k))"
    and "Cached_getTotal (Ethers_reader e k) (polled_cache ids'' e s) = getTotal (pinned e N (Ethers_reader e k))"
    and "Cached_getRemainingStabilityPoolHLQTReward (Ethers_reader e k) (polled_cache ids'' e s) = getRemainingStabilityPoolHLQTReward (pinned e N (Ethers_reader e k))"
    and "Cached_getHCHFInStabilityPool (Ethers_reader e k) (polled_cache ids'' e s) = getHCHFInStabilityPool (pinned e N (Ethers_reader e k))"
    and "Cached_getHCHFTokenAddress (Ethers_reader e k) (polled_cache ids'' e s) = getHCHFTokenAddress (pinned e N (Ethers_reader e k))"
    and "Cached_getHLQTTokenAddress (Ethers_reader e k) (polled_cache ids'' e s) = getHLQTTokenAddress (pinned e N (Ethers_reader e k))"
    and "Cached_getRemainingLiquidityMiningHLQTReward (Ethers_reader e k) (polled_cache ids'' e s) = getRemainingLiquidityMiningHLQTReward (pinned e N (Ethers_reader e k))"
    and "Cached_getTotalStakedUniTokens (Ethers_reader e k) (polled_cache ids'' e s) = getTotalStakedUniTokens (pinned e N (Ethers_reader e k))"
    and "Cached_getFees (Ethers_reader e k) (polled_cache ids'' e s) = getFees (pinned e N (Ethers_reader e k))"
    and "Cached_getTotalStakedHLQT (Ethers_reader e k) (polled_cache ids'' e s) = getTotalStakedHLQT (pinned e N (Ethers_reader e k))"
proof -
  note system = Polled_get_system [OF assms(1)] and fees = Polled_get_fees [OF assms(1,9)]
  obtain v where v: "Ethers_user_values e k (Some N) = Inr v" using Polled_get_user_fields [OF assms(1)] by blast
  have N: "polled_blockTag s = Some N" using assms(7) system by (simp add: polled_blockTag_def)
  have state: "polled_base ids'' s = b" "polled_derived ids'' s = d" using assms(6,8) by (simp_all add: polled_base_def polled_derived_def)
  note user = user_values_reads [OF v assms(2,3)] and fields = Polled_get_user_fields [OF assms(1), unfolded v]
  show "Cached_getTotalRedistributed (Ethers_reader e k) (polled_cache ids'' e s) = getTotalRedistributed (pinned e N (Ethers_reader e k))"
    "Cached_getNumberOfTroves (Ethers_reader e k) (polled_cache ids'' e s) = getNumberOfTroves (pinned e N (Ethers_reader e k))"
    "Cached_getPrice (Ethers_reader e k) (polled_cache ids'' e s) = getPrice (pinned e N (Ethers_reader e k))"
    "Cached_getTotal (Ethers_reader e k) (polled_cache ids'' e s) = getTotal (pinned e N (Ethers_reader e k))"
    "Cached_getRemainingStabilityPoolHLQTReward (Ethers_reader e k) (polled_cache ids'' e s) = getRemainingStabilityPoolHLQTReward (pinned e N (Ethers_reader e k))"
    "Cached_getHCHFInStabilityPool (Ethers_reader e k) (polled_cache ids'' e s) = getHCHFInStabilityPool (pinned e N (Ethers_reader e k))"
    "Cached_getHCHFTokenAddress (Ethers_reader e k) (polled_cache ids'' e s) = getHCHFTokenAddress (pinned e N (Ethers_reader e k))"
    "Cached_getHLQTTokenAddress (Ethers_reader e k) (polled_cache ids'' e s) = getHLQTTokenAddress (pinned e N (Ethers_reader e k))"
    "Cached_getRemainingLiquidityMiningHLQTReward (Ethers_reader e k) (polled_cache ids'' e s) = getRemainingLiquidityMiningHLQTReward (pinned e N (Ethers_reader e k))"
    "Cached_getTotalStakedUniTokens (Ethers_reader e k) (polled_cache ids'' e s) = getTotalStakedUniTokens (pinned e N (Ethers_reader e k))"
    "Cached_getFees (Ethers_reader e k) (polled_cache ids'' e s) = getFees (pinned e N (Ethers_reader e k))"
    "Cached_getTotalStakedHLQT (Ethers_reader e k) (polled_cache ids'' e s) = getTotalStakedHLQT (pinned e N (Ethers_reader e k))"
    by (simp_all only: fun_eq_iff cached_methods polled_cache_def pinned_def Ethers_reader_def state reader.select_convs read_cache.select_convs)
      (intro allI, rule read_system [OF N], use system fees user fields in simp)+
qed

lemma cached_user_methods:
  assumes "Polled_get e k m url ids (Some N) = Inr (b, x)"
    and "ec_userAddress e = Some u" "u \<noteq> []" and "ec_frontendTag e = Some f" "f \<noteq> []"
    and "baseState s = Some b" "extraState s = Some x" "derivedState s = Some d" "derive ids' b = Inr d"
  shows "Cached_getTroveBeforeRedistribution (Ethers_reader e k) (polled_cache ids'' e s) = getTroveBeforeRedistribution (pinned e N (Ethers_reader e k))"
    and "Cached_getStabilityDeposit (Ethers_reader e k) (polled_cache ids'' e s) = getStabilityDeposit (pinned e N (Ethers_reader e k))"
    and "Cached_getHCHFBalance (Ethers_reader e k) (polled_cache ids'' e s) = getHCHFBalance (pinned e N (Ethers_reader e k))"
    and "Cached_getHLQTBalance (Ethers_reader e k) (polled_cache ids'' e s) = getHLQTBalance (pinned e N (Ethers_reader e k))"
    and "Cached_getUniTokenBalance (Ethers_reader e k) (polled_cache ids'' e s) = getUniTokenBalance (pinned e N (Ethers_reader e k))"
    and "Cached_getUniTokenAllowance (Ethers_reader e k) (polled_cache ids'' e s) = getUniTokenAllowance (pinned e N (Ethers_reader e k))"
    and "Cached_getLiquidityMiningStake (Ethers_reader e k) (polled_cache ids'' e s) = getLiquidityMiningStake (pinned e N (Ethers_reader e k))"
    and "Cached_getLiquidityMiningHLQTReward (Ethers_reader e k) (polled_cache ids'' e s) = getLiquidityMiningHLQTReward (pinned e N (Ethers_reader e k))"
    and "Cached_getCollateralSurplusBalance (Ethers_reader e k) (polled_cache ids'' e s) = getCollateralSurplusBalance (pinned e N (Ethers_reader e k))"
    and "Cached_getHLQTStake (Ethers_reader e k) (polled_cache ids'' e s) = getHLQTStake (pinned e N (Ethers_reader e k))"
proof -
  note system = Polled_get_system [OF assms(1)] and fees = Polled_get_fees [OF assms(1,9)]
  obtain v where v: "Ethers_user_values e k (Some N) = Inr v" using Polled_get_user_fields [OF assms(1)] by blast
  have N: "polled_blockTag s = Some N" using assms(7) system by (simp add: polled_blockTag_def)
  have state: "polled_base ids'' s = b" "polled_derived ids'' s = d" using assms(6,8) by (simp_all add: polled_base_def polled_derived_def)
  note user = user_values_reads [OF v assms(2,3)] and fields = Polled_get_user_fields [OF assms(1), unfolded v]
  show "Cached_getTroveBeforeRedistribution (Ethers_reader e k) (polled_cache ids'' e s) = getTroveBeforeRedistribution (pinned e N (Ethers_reader e k))"
    "Cached_getStabilityDeposit (Ethers_reader e k) (polled_cache ids'' e s) = getStabilityDeposit (pinned e N (Ethers_reader e k))"
    "Cached_getHCHFBalance (Ethers_reader e k) (polled_cache ids'' e s) = getHCHFBalance (pinned e N (Ethers_reader e k))"
    "Cached_getHLQTBalance (Ethers_reader e k) (polled_cache ids'' e s) = getHLQTBalance (pinned e N (Ethers_reader e k))"
    "Cached_getUniTokenBalance (Ethers_reader e k) (polled_cache ids'' e s) = getUniTokenBalance (pinned e N (Ethers_reader e k))"
    "Cached_getUniTokenAllowance (Ethers_reader e k) (polled_cache ids'' e s) = getUniTokenAllowance (pinned e N (Ethers_reader e k))"
    "Cached_getLiquidityMiningStake (Ethers_reader e k) (polled_cache ids'' e s) = getLiquidityMiningStake (pinned e N (Ethers_reader e k))"
    "Cached_getLiquidityMiningHLQTReward (Ethers_reader e k) (polled_cache ids'' e s) = getLiquidityMiningHLQTReward (pinned e N (Ethers_reader e k))"
    "Cached_getCollateralSurplusBalance (Ethers_reader e k) (polled_cache ids'' e s) = getCollateralSurplusBalance (pinned e N (Ethers_reader e k))"
    "Cached_getHLQTStake (Ethers_reader e k) (polled_cache ids'' e s) = getHLQTStake (pinned e N (Ethers_reader e k))"
    by (simp_all only: fun_eq_iff cached_methods polled_cache_def pinned_def Ethers_reader_def state reader.select_convs read_cache.select_convs)
      (intro allI, rule read_user [OF N assms(2)], rule user_default [OF assms(2)], use user fields in simp)+
qed

text \<open>
  C13. What the cached client reads while the store holds the state fetched at a block: exactly which reads are fixed at that block. Of the reads that name no block, or that one,
  those of system values, of the user's values and of the status of the client's front end are answered with the ledger at the block of the store. All others are passed on unchanged: reads of other
  accounts, reads at other blocks, and listings of troves, to which however the redistribution of the store's block is applied (as it is to the troves of other accounts), so that they can mix two
  blocks. The two allowances without an address are the user's if answered from the store, and the front end's otherwise. This is what \<^verbatim>\<open>pinned\<close> says method by method.
\<close>

theorem cached_client_pins_block:
  assumes "Polled_get e k m url ids (Some N) = Inr (b, x)"
    and "ec_userAddress e = Some u" "u \<noteq> []" and "ec_frontendTag e = Some f" "f \<noteq> []"
    and "baseState s = Some b" "extraState s = Some x" "derivedState s = Some d" "derive ids' b = Inr d"
  shows "BlockPolled_reader ids'' e k s = pinned e N (Ethers_reader e k)"
proof -
  let ?r = "Ethers_reader e k" and ?c = "polled_cache ids'' e s"
  note system = Polled_get_system [OF assms(1)] and front = Polled_get_frontend [OF assms(1,4,5)]
  obtain v where v: "Ethers_user_values e k (Some N) = Inr v" using Polled_get_user_fields [OF assms(1)] by blast
  have N: "polled_blockTag s = Some N" using assms(7) system by (simp add: polled_blockTag_def)
  have state: "polled_base ids'' s = b" "polled_derived ids'' s = d" using assms(6,8) by (simp_all add: polled_base_def polled_derived_def)
  note user = user_values_reads [OF v assms(2,3)] and fields = Polled_get_user_fields [OF assms(1), unfolded v]
  have front_default: "Ethers_getFrontendStatus e k None t = Ethers_getFrontendStatus e k (Some f) t" for t
    using assms(4) by (simp add: Ethers_getFrontendStatus_def given_or_def requireFrontendAddress_def)
  note system_methods = cached_system_methods [OF assms] and user_methods = cached_user_methods [OF assms]
  have allowances: "Cached_getHchfTokenAllowanceOfHchfContract ?r ?c = getHchfTokenAllowanceOfHchfContract (pinned e N ?r)"
    "Cached_getHlqtTokenAllowanceOfHlqtContract ?r ?c = getHlqtTokenAllowanceOfHlqtContract (pinned e N ?r)"
    by (simp_all only: fun_eq_iff cached_methods polled_cache_def pinned_def Ethers_reader_def state reader.select_convs read_cache.select_convs)
      (intro allI, rule read_allowance [OF N assms(2)], use user fields in simp)+
  have "Cached_getFrontendStatus ?r ?c = getFrontendStatus (pinned e N ?r)"
    by (simp_all only: fun_eq_iff cached_methods polled_cache_def pinned_def Ethers_reader_def state reader.select_convs read_cache.select_convs)
      (intro allI, rule read_frontend [OF N assms(4)], rule front_default, rule front)
  moreover have "Cached_getTroves ?r ?c = getTroves (pinned e N ?r)"
    by (intro ext, rule cached_listing, simp only: system_methods, simp add: pinned_def Ethers_reader_def, simp add: polled_cache_def)
  moreover have "Cached_getTrove ?r ?c = getTrove (pinned e N ?r)"
    by (intro ext, simp add: Cached_getTrove_def system_methods user_methods) (simp add: pinned_def)
  ultimately have "Cached_reader ?r ?c = pinned e N ?r"
    by (intro reader.equality) (simp_all add: Cached_reader_def system_methods user_methods allowances)
  then show ?thesis by (simp add: BlockPolled_reader_def)
qed

section \<open>Refreshing\<close>

lemma polled_update_success:
  assumes "polled_snapshot ids call onLoaded (b, x) s = (s', Inr r)" and "loaded s" and "extraState s = Some e0"
  shows "polled_blockTag s' = (case pe_blockTag x of Some t \<Rightarrow> Some t | None \<Rightarrow> pe_blockTag e0)"
    and "\<exists>b'. baseState s' = Some b' \<and> state_equal b' b"
proof -
  obtain p called where r: "r = (p, called)" by (cases r)
  have up: "store_update polled_subclass ids call (Some (update_of b)) (Some \<lparr>pu_blockTag = pe_blockTag x, pu_blockTimestamp = Some (pe_blockTimestamp x)\<rparr>) s
      = (s', Inr (p, called))"
    using assms(1,2) r by (simp add: polled_snapshot_def)
  show "polled_blockTag s' = (case pe_blockTag x of Some t \<Rightarrow> Some t | None \<Rightarrow> pe_blockTag e0)"
    by (rule update_success [OF up]) (use assms(3) in \<open>auto simp: polled_blockTag_def polled_subclass_def polled_reduceExtra_def split: option.split\<close>)
  obtain b0 where "baseState s' = Some (reduce b0 (update_of b))" by (rule update_success [OF up]) auto
  then show "\<exists>b'. baseState s' = Some b' \<and> state_equal b' b"
    using reduce_overlay [of b0 "update_of b"] by (auto simp: overlay_update_of)
qed

lemma polled_price:
  assumes "polled_blockTag s = Some N" and "baseState s = Some b"
  shows "getPrice (BlockPolled_reader ids e k s) (Some N) = Inr (content (price b))"
  using assms by (simp add: BlockPolled_reader_def Cached_reader_def Cached_getPrice_def polled_cache_def blockHit_def polled_base_def or_read_def)

text \<open>
  A refresh mislabels the state. It reads the latest block but keeps the number of the block the store was last updated for, because an
  undefined block tag leaves the old one in place; from then on the cached client answers reads at that older block with the values of the
  latest one.
\<close>

theorem refresh_mislabels_block:
  assumes "loaded s" and "extraState s = Some e0" "pe_blockTag e0 = Some N"
    and "Polled_get e k m url ids None = Inr (b, x)" and "polled_snapshot ids call onLoaded (b, x) s = (s', Inr r)"
  shows "Polled_refresh e k m url ids call onLoaded s = (s', store_state polled_subclass ids s') \<and> polled_blockTag s' = Some N
    \<and> getPrice (BlockPolled_reader ids e k s') (Some N) = Ethers_getPrice k None"
proof -
  have x: "pe_blockTag x = None" and p: "Ethers_getPrice k None = Inr (content (price b))"
    using Polled_get_system [OF assms(4)] by simp_all
  then have tag: "polled_blockTag s' = Some N" using polled_update_success(1) [OF assms(5,1,2)] assms(3) by simp
  obtain b' where b': "baseState s' = Some b'" "state_equal b' b" using polled_update_success(2) [OF assms(5,1,2)] by blast
  then have "content (price b') = content (price b)" by (simp add: state_equal_def on_content_def)
  with polled_price [OF tag b'(1)] p tag assms(4,5) show ?thesis by (simp add: Polled_refresh_def)
qed

section \<open>A moving price\<close>

definition moving_contracts :: contracts where
  "moving_contracts = sample_contracts\<lparr>priceFeed_fetchPrice := (\<lambda>t. Inr (if t = Some (BlockNumber 7) then 5000000 else 6000000))\<rparr>"

lemmas polled_eval = Polled_get_def moving_contracts_def sample_ethers_def Ethers_tokenAssociations_def Ethers_getTokenIds_def
  getBlockTimestamp_def getFeesFactory_def getRemainingLiquidityMiningHLQTRewardCalculator_def calculateRemainingHLQT_def createFees_def
  Ethers_getPrice_def Ethers_getNumberOfTroves_def Ethers_getTotalRedistributed_def Ethers_getTotal_def getActivePool_def getDefaultPool_def
  Ethers_getHCHFInStabilityPool_def Ethers_getTotalStakedHLQT_def getRiskiestTroveBeforeRedistribution_def Ethers_getTroves_def
  Ethers_getTotalStakedUniTokens_def Ethers_getRemainingStabilityPoolHLQTReward_def Ethers_getFrontendStatus_def Ethers_user_values_def
  Ethers_getHCHFBalance_def Ethers_getHCHFTokenAddress_def Ethers_getHLQTTokenAddress_def Ethers_getHLQTBalance_def
  Ethers_getUniTokenBalance_def Ethers_getUniTokenAllowance_def Ethers_getLiquidityMiningStake_def Ethers_getLiquidityMiningHLQTReward_def
  Ethers_getCollateralSurplusBalance_def Ethers_getTroveBeforeRedistribution_def Ethers_getStabilityDeposit_def Ethers_getHLQTStake_def
  Ethers_getHchfTokenAllowanceOfHchfContract_def Ethers_getHlqtTokenAllowanceOfHlqtContract_def given_or_def status_same numberify_def
  expectPositiveInt_def

lemma moving_get:
  "\<exists>b x. Polled_get sample_ethers moving_contracts sample_mirror url ids t = Inr (b, x) \<and> pe_blockTag x = t
     \<and> fees_inv (content (feesInNormalMode b)) \<and> minutesSinceLastFeeOperation (content (feesInNormalMode b)) None \<le> 0xffffffff"
  by (simp add: polled_eval sample_ledger_eval mapM_Inr Let_def split_def)

lemma moving_loaded:
  "\<exists>b x (s :: polled_extra store) d. Polled_get sample_ethers moving_contracts sample_mirror [] no_identity (Some (BlockNumber 7)) = Inr (b, x)
     \<and> loaded s \<and> baseState s = Some b \<and> extraState s = Some x
     \<and> pe_blockTag x = Some (BlockNumber 7) \<and> derivedState s = Some d \<and> derive no_identity b = Inr d \<and> listeners s = []"
proof -
  obtain b x where b: "Polled_get sample_ethers moving_contracts sample_mirror [] no_identity (Some (BlockNumber 7)) = Inr (b, x)"
    "pe_blockTag x = Some (BlockNumber 7)" and f: "fees_inv (content (feesInNormalMode b))"
    "minutesSinceLastFeeOperation (content (feesInNormalMode b)) None \<le> 0xffffffff"
    using moving_get by metis
  obtain n where n: "derive no_identity b = Inr n" using derive_exists [OF f] by blast
  let ?s = "fst (polled_snapshot no_identity silent None (b, x) (new_Store defaults))"
  have "reduceDerived n n = n" by (simp add: reduceDerived_keeps derived.same_refl)
  with n b have "loaded ?s" "baseState ?s = Some b" "extraState ?s = Some x" "derivedState ?s = Some n" "listeners ?s = []"
    by (simp_all add: polled_snapshot_def new_Store_def load_def store_update_def notify_listeners_def Let_def)
  with n b show ?thesis by blast
qed

lemma moving_refreshed:
  assumes "loaded s" "baseState s = Some b0" "derivedState s = Some d" "extraState s = Some x0" "listeners s = []"
  shows "\<exists>b x s' r. Polled_get sample_ethers moving_contracts sample_mirror [] no_identity None = Inr (b, x)
     \<and> polled_snapshot no_identity silent None (b, x) s = (s', Inr r)"
proof -
  obtain b x where b: "Polled_get sample_ethers moving_contracts sample_mirror [] no_identity None = Inr (b, x)"
    and f: "fees_inv (content (feesInNormalMode b))" "minutesSinceLastFeeOperation (content (feesInNormalMode b)) None \<le> 0xffffffff"
    using moving_get by metis
  have "state_equal (reduce b0 (update_of b)) b" using reduce_overlay [of b0 "update_of b"] by (simp add: overlay_update_of)
  then have "Fees_equals (content (feesInNormalMode (reduce b0 (update_of b)))) (content (feesInNormalMode b))"
    by (simp add: state_equal_def on_content_def)
  then have "fees_inv (content (feesInNormalMode (reduce b0 (update_of b))))"
    "minutesSinceLastFeeOperation (content (feesInNormalMode (reduce b0 (update_of b)))) None \<le> 0xffffffff"
    using f by (simp_all add: Fees_equals_def fees_inv_def minutesSinceLastFeeOperation_def)
  then obtain n where "derive no_identity (reduce b0 (update_of b)) = Inr n" using derive_exists by blast
  with assms b show ?thesis
    by (auto simp: polled_snapshot_def store_update_def notify_listeners_def Let_def)
qed

theorem refresh_mislabels_block_witness:
  "\<exists>s. polled_blockTag s = Some (BlockNumber 7)
     \<and> getPrice (BlockPolled_reader no_identity sample_ethers moving_contracts s) (Some (BlockNumber 7)) = Inr (Decimal 6000000)
     \<and> getPrice (Ethers_reader sample_ethers moving_contracts) (Some (BlockNumber 7)) = Inr (Decimal 5000000)"
proof -
  obtain b0 x0 d and s :: "polled_extra store" where s: "loaded s" "baseState s = Some b0" "derivedState s = Some d" "extraState s = Some x0" "listeners s = []"
    and tag: "pe_blockTag x0 = Some (BlockNumber 7)"
    using moving_loaded by metis
  obtain b x s' r where "Polled_get sample_ethers moving_contracts sample_mirror [] no_identity None = Inr (b, x)"
    "polled_snapshot no_identity silent None (b, x) s = (s', Inr r)"
    using moving_refreshed [OF s] by blast
  from refresh_mislabels_block [OF s(1,4) tag this] show ?thesis
    by (auto simp: Ethers_getPrice_def moving_contracts_def Ethers_reader_def read_decimal_def)
qed

theorem cached_client_pins_block_witness:
  "\<exists>s. loaded s \<and> BlockPolled_reader no_identity sample_ethers moving_contracts s = pinned sample_ethers (BlockNumber 7) (Ethers_reader sample_ethers moving_contracts)"
proof -
  obtain b x d and s :: "polled_extra store"
    where b: "Polled_get sample_ethers moving_contracts sample_mirror [] no_identity (Some (BlockNumber 7)) = Inr (b, x)"
    and s: "loaded s" "baseState s = Some b" "extraState s = Some x" "derivedState s = Some d" "derive no_identity b = Inr d"
    using moving_loaded by metis
  have "ec_userAddress sample_ethers = Some ''0xA''" "''0xA'' \<noteq> ([] :: string)" "ec_frontendTag sample_ethers = Some ''0xF''" "''0xF'' \<noteq> ([] :: string)"
    by (simp_all add: sample_ethers_def)
  from cached_client_pins_block [OF b this s(2,3,4,5)] s(1) show ?thesis by blast
qed

end
