(* ===== verification/Ethers_Populate.thy ===== *)
theory Ethers_Populate
  imports Ethers_Read Hashgraph_Transactions
begin

text \<open>
  The transactions of the Ethereum client: \<^verbatim>\<open>packages/lib-ethers/src/PopulatableEthersLiquity.ts\<close> and \<^verbatim>\<open>_LiquityContract\<close> of
  \<^verbatim>\<open>contracts.ts\<close>. What a method returns is the transaction as the Ethers library encodes it, with the function that reads its details off
  the logs of its receipt.

  The library is a parameter: the encoding of a call, the estimation of its gas, \<^verbatim>\<open>parseEther\<close>, \<^verbatim>\<open>BigNumber.from\<close> of a number, and the parsing
  of a log by a contract's interface. The reader is one of an object with or without a store.
\<close>

section \<open>Contracts and their events\<close>

text \<open>The transaction overrides that the client passes on.\<close>

record tx_overrides =
  ov_value :: "nat option"
  ov_gasLimit :: "nat option"

record ethers_call =
  call_contract :: string
  call_function :: string
  call_args :: "abi_value list"
  call_overrides :: tx_overrides

datatype event_arg = BigNumberArg nat | StringArg string | OtherArg string

record event =
  event_name :: string
  event_args :: "(string \<times> event_arg) list"

record log =
  log_address :: string
  log_payload :: string

record ethers_receipt =
  er_status :: "nat option"
  er_from :: string
  er_transactionHash :: string
  er_logs :: "log list"

record ethers_population =
  ep_reader :: "block_tag option reader"
  ep_connection :: ethers
  ep_constants :: constants
  ep_hints :: hint_contracts
  ep_seed :: nat
  ep_addresses :: "string \<Rightarrow> string"
  ep_parseLog :: "string \<Rightarrow> log \<Rightarrow> event result"
  ep_estimateGas :: "ethers_call \<Rightarrow> nat result"
  ep_populateTransaction :: "ethers_call \<Rightarrow> string result"
  parseEther :: "string \<Rightarrow> nat result"
  bigNumberFrom :: "string \<Rightarrow> nat result"
  priceFeedHasSetPrice :: bool
  uniTokenHasMint :: bool

text \<open>\<^verbatim>\<open>buildEstimatedFunctions\<close>, for one function of one contract.\<close>

definition estimateAndPopulate ::
  "ethers_population \<Rightarrow> string \<Rightarrow> string \<Rightarrow> tx_overrides \<Rightarrow> (nat \<Rightarrow> nat) \<Rightarrow> abi_value list \<Rightarrow> string result" where
  "estimateAndPopulate p contract name overrides adjustEstimate args =
     rbind (case ov_gasLimit overrides of
              Some _ \<Rightarrow> Inr overrides
            | None \<Rightarrow> rbind (ep_estimateGas p \<lparr>call_contract = contract, call_function = name, call_args = args, call_overrides = overrides\<rparr>)
                (\<lambda>estimatedGas. Inr (overrides\<lparr>ov_gasLimit := Some (adjustEstimate estimatedGas)\<rparr>))) (\<lambda>overrides'.
     ep_populateTransaction p \<lparr>call_contract = contract, call_function = name, call_args = args, call_overrides = overrides'\<rparr>)"

text \<open>A log of the contract that its interface does not know makes the parsing throw.\<close>

definition extractEvents :: "ethers_population \<Rightarrow> string \<Rightarrow> log list \<Rightarrow> string \<Rightarrow> event list result" where
  "extractEvents p contract logs name =
     rbind (mapM (ep_parseLog p contract) (filter (\<lambda>l. log_address l = ep_addresses p contract) logs)) (\<lambda>events.
     Inr (filter (\<lambda>e. event_name e = name) events))"

text \<open>\<^verbatim>\<open>decimalify(args.key)\<close>, which throws unless the argument is a \<^verbatim>\<open>BigNumber\<close>, and a text among the arguments.\<close>

definition event_decimal :: "string \<Rightarrow> event \<Rightarrow> decimal result" where
  "event_decimal key e = (case map_of (event_args e) key of
      Some (BigNumberArg n) \<Rightarrow> decimalify n
    | _ \<Rightarrow> Inl (ExternalError ''TypeError''))"

definition event_is :: "string \<Rightarrow> string \<Rightarrow> event \<Rightarrow> bool" where
  "event_is key text e \<longleftrightarrow> map_of (event_args e) key = Some (StringArg text)"

definition event_text :: "string \<Rightarrow> event \<Rightarrow> string" where
  "event_text key e = (case map_of (event_args e) key of Some (StringArg s) \<Rightarrow> s | _ \<Rightarrow> [])"

text \<open>\<^verbatim>\<open>const [x] = list\<close>: undefined if there is none.\<close>

definition first_of :: "'a list \<Rightarrow> 'a option" where
  "first_of xs = (case xs of [] \<Rightarrow> None | x # _ \<Rightarrow> Some x)"

section \<open>Details\<close>

record liquidation_totals =
  lt_collateralGasCompensation :: decimal
  lt_hchfGasCompensation :: decimal
  lt_totalLiquidated :: Trove.trove

record gains_details =
  gd_hchfLoss :: decimal
  gd_newHCHFDeposit :: "decimal option"
  gd_collateralGain :: decimal
  gd_hlqtReward :: "decimal option"

record redemption_report =
  rr_attemptedHCHFAmount :: decimal
  rr_actualHCHFAmount :: decimal
  rr_collateralTaken :: decimal
  rr_fee :: decimal

datatype 'c ethers_change = CreationParams "'c creation_params" | AdjustmentParams "'c adjustment_params"

text \<open>Fields that destructuring may leave undefined are options.\<close>

datatype ethers_details =
  NoEthersDetails
| TroveChangeWithFees "decimal ethers_change" "Trove.trove option" "decimal option"
| EthersTroveClosure "decimal option" "decimal option"
| EthersLiquidation "string list" "liquidation_totals option"
| EthersGainsWithdrawal gains_details
| EthersDepositTopup decimal gains_details
| EthersDepositWithdrawal "decimal option" bool gains_details
| EthersGainTransfer gains_details "Trove.trove option"
| EthersRedemption "redemption_report option"

record ethers_transaction =
  et_raw :: string
  et_parse :: "ethers_receipt \<Rightarrow> ethers_details result"

definition wrapSimpleTransaction :: "string \<Rightarrow> ethers_transaction" where
  "wrapSimpleTransaction raw = \<lparr>et_raw = raw, et_parse = (\<lambda>_. Inr NoEthersDetails)\<rparr>"

definition event_trove :: "constants \<Rightarrow> string \<Rightarrow> string \<Rightarrow> event \<Rightarrow> Trove.trove result" where
  "event_trove c coll debt' e = rbind (event_decimal coll e) (\<lambda>x. rbind (event_decimal debt' e) (\<lambda>y. Inr (new_Trove c x y)))"

definition updated_trove :: "ethers_population \<Rightarrow> log list \<Rightarrow> Trove.trove option result" where
  "updated_trove p logs =
     rbind (extractEvents p ''borrowerOperations'' logs ''TroveUpdated'') (\<lambda>events.
     rbind (mapM (event_trove (ep_constants p) ''_coll'' ''_debt'') events) (\<lambda>troves. Inr (first_of troves)))"

definition wrapTroveChangeWithFees :: "ethers_population \<Rightarrow> decimal ethers_change \<Rightarrow> string \<Rightarrow> ethers_transaction" where
  "wrapTroveChangeWithFees p params raw = \<lparr>et_raw = raw, et_parse = (\<lambda>receipt.
     rbind (updated_trove p (er_logs receipt)) (\<lambda>newTrove.
     rbind (extractEvents p ''borrowerOperations'' (er_logs receipt) ''HCHFBorrowingFeePaid'') (\<lambda>events.
     rbind (mapM (event_decimal ''_HCHFFee'') events) (\<lambda>fees'.
     Inr (TroveChangeWithFees params newTrove (first_of fees'))))))\<rparr>"

text \<open>\<^verbatim>\<open>repayHCHF.nonZero\<close> throws if nothing was burnt.\<close>

definition wrapTroveClosure :: "ethers_population \<Rightarrow> string \<Rightarrow> ethers_transaction" where
  "wrapTroveClosure p raw = \<lparr>et_raw = raw, et_parse = (\<lambda>receipt.
     rbind (extractEvents p ''hchfToken'' (er_logs receipt) ''Transfer'') (\<lambda>transfers.
     rbind (mapM (event_decimal ''value'')
              (filter (\<lambda>e. event_is ''from'' (er_from receipt) e \<and> event_is ''to'' AddressZero e) transfers)) (\<lambda>repaid.
     rbind (extractEvents p ''activePool'' (er_logs receipt) ''EtherSent'') (\<lambda>sent.
     rbind (mapM (event_decimal ''_amount'') (filter (event_is ''_to'' (er_from receipt)) sent)) (\<lambda>withdrawn.
     case first_of repaid of
       None \<Rightarrow> Inl (ExternalError ''TypeError'')
     | Some repayHCHF' \<Rightarrow>
         Inr (EthersTroveClosure (first_of withdrawn) (if Decimal_isZero repayHCHF' then None else Some repayHCHF')))))))\<rparr>"

definition wrapLiquidation :: "ethers_population \<Rightarrow> string \<Rightarrow> ethers_transaction" where
  "wrapLiquidation p raw = \<lparr>et_raw = raw, et_parse = (\<lambda>receipt.
     rbind (extractEvents p ''troveManager'' (er_logs receipt) ''TroveLiquidated'') (\<lambda>liquidated.
     rbind (extractEvents p ''troveManager'' (er_logs receipt) ''Liquidation'') (\<lambda>events.
     rbind (mapM (\<lambda>e.
       rbind (event_decimal ''_collGasCompensation'' e) (\<lambda>c.
       rbind (event_decimal ''_HCHFGasCompensation'' e) (\<lambda>h.
       rbind (event_trove (ep_constants p) ''_liquidatedColl'' ''_liquidatedDebt'' e) (\<lambda>t.
       Inr \<lparr>lt_collateralGasCompensation = c, lt_hchfGasCompensation = h, lt_totalLiquidated = t\<rparr>)))) events) (\<lambda>totals.
     Inr (EthersLiquidation (map (event_text ''_borrower'') liquidated) (first_of totals))))))\<rparr>"

text \<open>Destructuring the pair of gain and loss throws if there was no such event.\<close>

definition extractStabilityPoolGainsWithdrawalDetails :: "ethers_population \<Rightarrow> log list \<Rightarrow> gains_details result" where
  "extractStabilityPoolGainsWithdrawalDetails p logs =
     rbind (extractEvents p ''stabilityPool'' logs ''UserDepositChanged'') (\<lambda>changes.
     rbind (mapM (event_decimal ''_newDeposit'') changes) (\<lambda>deposits.
     rbind (extractEvents p ''stabilityPool'' logs ''ETHGainWithdrawn'') (\<lambda>withdrawals.
     rbind (mapM (\<lambda>e. rbind (event_decimal ''_ETH'' e) (\<lambda>g. rbind (event_decimal ''_HCHFLoss'' e) (\<lambda>l. Inr (g, l)))) withdrawals) (\<lambda>gains.
     case first_of gains of
       None \<Rightarrow> Inl (ExternalError ''TypeError'')
     | Some (collateralGain', hchfLoss') \<Rightarrow>
         rbind (extractEvents p ''stabilityPool'' logs ''HLQTPaidToDepositor'') (\<lambda>payments.
         rbind (mapM (event_decimal ''_HLQT'') payments) (\<lambda>rewards.
         Inr \<lparr>gd_hchfLoss = hchfLoss', gd_newHCHFDeposit = first_of deposits, gd_collateralGain = collateralGain',
              gd_hlqtReward = first_of rewards\<rparr>))))))"

definition wrapStabilityPoolGainsWithdrawal :: "ethers_population \<Rightarrow> string \<Rightarrow> ethers_transaction" where
  "wrapStabilityPoolGainsWithdrawal p raw = \<lparr>et_raw = raw, et_parse = (\<lambda>receipt.
     rbind (extractStabilityPoolGainsWithdrawalDetails p (er_logs receipt)) (\<lambda>g. Inr (EthersGainsWithdrawal g)))\<rparr>"

definition wrapStabilityDepositTopup :: "ethers_population \<Rightarrow> decimal \<Rightarrow> string \<Rightarrow> ethers_transaction" where
  "wrapStabilityDepositTopup p depositHCHF' raw = \<lparr>et_raw = raw, et_parse = (\<lambda>receipt.
     rbind (extractStabilityPoolGainsWithdrawalDetails p (er_logs receipt)) (\<lambda>g. Inr (EthersDepositTopup depositHCHF' g)))\<rparr>"

definition wrapStabilityDepositWithdrawal :: "ethers_population \<Rightarrow> string \<Rightarrow> ethers_transaction" where
  "wrapStabilityDepositWithdrawal p raw = \<lparr>et_raw = raw, et_parse = (\<lambda>receipt.
     rbind (extractStabilityPoolGainsWithdrawalDetails p (er_logs receipt)) (\<lambda>g.
     rbind (extractEvents p ''hchfToken'' (er_logs receipt) ''Transfer'') (\<lambda>transfers.
     rbind (mapM (event_decimal ''value'') (filter (\<lambda>e. event_is ''from'' (ep_addresses p ''stabilityPool'') e
              \<and> event_is ''to'' (er_from receipt) e) transfers)) (\<lambda>withdrawn.
     case gd_newHCHFDeposit g of
       None \<Rightarrow> Inl (ExternalError ''TypeError'')
     | Some d \<Rightarrow> Inr (EthersDepositWithdrawal (first_of withdrawn) (Decimal_isZero d) g)))))\<rparr>"

definition wrapCollateralGainTransfer :: "ethers_population \<Rightarrow> string \<Rightarrow> ethers_transaction" where
  "wrapCollateralGainTransfer p raw = \<lparr>et_raw = raw, et_parse = (\<lambda>receipt.
     rbind (updated_trove p (er_logs receipt)) (\<lambda>newTrove.
     rbind (extractStabilityPoolGainsWithdrawalDetails p (er_logs receipt)) (\<lambda>g. Inr (EthersGainTransfer g newTrove))))\<rparr>"

definition parse_redemption :: "ethers_population \<Rightarrow> ethers_receipt \<Rightarrow> ethers_details result" where
  "parse_redemption p receipt =
     rbind (extractEvents p ''troveManager'' (er_logs receipt) ''Redemption'') (\<lambda>events.
     rbind (mapM (\<lambda>e.
       rbind (event_decimal ''_attemptedHCHFAmount'' e) (\<lambda>w.
       rbind (event_decimal ''_actualHCHFAmount'' e) (\<lambda>x.
       rbind (event_decimal ''_ETHSent'' e) (\<lambda>y.
       rbind (event_decimal ''_ETHFee'' e) (\<lambda>z.
       Inr \<lparr>rr_attemptedHCHFAmount = w, rr_actualHCHFAmount = x, rr_collateralTaken = y, rr_fee = z\<rparr>))))) events) (\<lambda>reports.
     Inr (EthersRedemption (first_of reports))))"

section \<open>Hints\<close>

definition Ethers_collectApproxHint ::
  "hint_contracts \<Rightarrow> decimal \<Rightarrow> nat \<times> (nat \<times> string) list \<Rightarrow> nat \<Rightarrow> (nat \<times> (nat \<times> string) list) result" where
  "Ethers_collectApproxHint h nominalCollateralRatio state numberOfTrials =
     rbind (hintHelpers_getApproxHint h (bigNumber nominalCollateralRatio) numberOfTrials (fst state)) (\<lambda>r.
     Inr (latestRandomSeed r, snd state @ [(hint_diff r, hintAddress r)]))"

fun Ethers_collectApproxHints ::
  "hint_contracts \<Rightarrow> decimal \<Rightarrow> nat \<times> (nat \<times> string) list \<Rightarrow> nat list \<Rightarrow> (nat \<times> (nat \<times> string) list) result" where
  "Ethers_collectApproxHints h nominalCollateralRatio state [] = Inr state"
| "Ethers_collectApproxHints h nominalCollateralRatio state (numberOfTrials # restOfTrials) =
     rbind (Ethers_collectApproxHint h nominalCollateralRatio state numberOfTrials) (\<lambda>state'.
     Ethers_collectApproxHints h nominalCollateralRatio state' restOfTrials)"

definition Ethers_closest_hint :: "(nat \<times> string) list \<Rightarrow> (nat \<times> string) result" where
  "Ethers_closest_hint results = (case results of
      [] \<Rightarrow> Inl (ExternalError ''TypeError'')
    | r # rs \<Rightarrow> Inr (foldl (\<lambda>a b. if fst a < fst b then a else b) r rs))"

text \<open>The generator of trials asserts that there are any.\<close>

definition Ethers_findHintsForNominalCollateralRatio :: "ethers_population \<Rightarrow> decimal \<Rightarrow> (string \<times> string) result" where
  "Ethers_findHintsForNominalCollateralRatio p nominalCollateralRatio =
     rbind (getNumberOfTroves (ep_reader p) None) (\<lambda>numberOfTroves'.
     if numberOfTroves' = 0 then Inr (AddressZero, AddressZero)
     else if Decimal_infinite nominalCollateralRatio \<noteq> None
     then rbind (sortedTroves_getFirst (ep_hints p)) (\<lambda>first'. Inr (AddressZero, first'))
     else (let totalNumberOfTrials' = totalNumberOfTrials (nat numberOfTroves') in
       if totalNumberOfTrials' = 0 then Inl (ExternalError ''AssertionError'')
       else
       rbind (Ethers_collectApproxHints (ep_hints p) nominalCollateralRatio (ep_seed p, []) (generateTrials totalNumberOfTrials'))
         (\<lambda>state.
       rbind (Ethers_closest_hint (snd state)) (\<lambda>(_, hintAddress').
       sortedTroves_findInsertPosition (ep_hints p) (bigNumber nominalCollateralRatio) hintAddress' hintAddress'))))"

definition Ethers_findHints :: "ethers_population \<Rightarrow> 'x trove_scheme \<Rightarrow> (string \<times> string) result" where
  "Ethers_findHints p t = Ethers_findHintsForNominalCollateralRatio p (Trove_nominalCollateralRatio t)"

record redemption_search =
  rs_truncatedAmount :: decimal
  rs_firstRedemptionHint :: string
  rs_upperHint :: string
  rs_lowerHint :: string
  rs_hintNICR :: nat

definition findRedemptionHints :: "ethers_population \<Rightarrow> decimal \<Rightarrow> redemption_search result" where
  "findRedemptionHints p amount =
     rbind (getPrice (ep_reader p) None) (\<lambda>price'.
     rbind (hintHelpers_getRedemptionHints (ep_hints p) (bigNumber amount) (bigNumber price') redeemMaxIterations) (\<lambda>r.
     rbind (if partialRedemptionHintNICR r = 0 then Inr (AddressZero, AddressZero)
            else rbind (decimalify (partialRedemptionHintNICR r)) (Ethers_findHintsForNominalCollateralRatio p)) (\<lambda>hints.
     rbind (decimalify (truncatedHCHFamount r)) (\<lambda>truncated.
     Inr \<lparr>rs_truncatedAmount = truncated, rs_firstRedemptionHint = firstRedemptionHint r, rs_upperHint = fst hints,
          rs_lowerHint = snd hints, rs_hintNICR = partialRedemptionHintNICR r\<rparr>))))"

section \<open>Troves\<close>

text \<open>What the code passes as overrides: a fixed limit of gas, and sometimes a value.\<close>

definition fixed_gas :: "nat option \<Rightarrow> tx_overrides" where
  "fixed_gas v = \<lparr>ov_value = v, ov_gasLimit = Some 3000000\<rparr>"

definition addGasForPotentialLastFeeOperationTimeUpdate :: "nat \<Rightarrow> nat" where
  "addGasForPotentialLastFeeOperationTimeUpdate g = g + 10000"

definition addGasForPotentialListTraversal :: "nat \<Rightarrow> nat" where
  "addGasForPotentialListTraversal g = g + 25000"

definition addGasForHLQTIssuance :: "nat \<Rightarrow> nat" where
  "addGasForHLQTIssuance g = g + 50000"

definition addGasForUnipoolRewardUpdate :: "nat \<Rightarrow> nat" where
  "addGasForUnipoolRewardUpdate g = g + 20000"

definition Ethers_openTrove :: "ethers_population \<Rightarrow> entries \<Rightarrow> decimalish option \<Rightarrow> ethers_transaction result" where
  "Ethers_openTrove p params maxBorrowingRate =
     rbind (normalizeTroveCreation params) (\<lambda>normalized.
     rbind (getFees (ep_reader p) None) (\<lambda>fees'.
     rbind (Fees_borrowingRate fees' None) (\<lambda>rate.
     rbind (Trove_create (ep_constants p) (creation_entries normalized) (Some rate)) (\<lambda>newTrove.
     rbind (case maxBorrowingRate of
              Some m \<Rightarrow> Decimal_from m
            | None \<Rightarrow> Inr (Decimal_add rate defaultBorrowingRateSlippageTolerance)) (\<lambda>maxBorrowingRate'.
     rbind (rbind (Decimal_toString (create_depositCollateral normalized) None) (parseEther p)) (\<lambda>wei.
     rbind (Ethers_findHints p newTrove) (\<lambda>hints.
     rbind (estimateAndPopulate p ''borrowerOperations'' ''openTrove'' (fixed_gas (Some wei))
              (addGasForPotentialLastFeeOperationTimeUpdate \<circ> addGasForPotentialListTraversal)
              [Uint256 (bigNumber maxBorrowingRate'), Uint256 (bigNumber (create_borrowHCHF normalized)),
               AddressValue (fst hints), AddressValue (snd hints)]) (\<lambda>raw.
     Inr (wrapTroveChangeWithFees p (CreationParams normalized) raw)))))))))"

definition Ethers_closeTrove :: "ethers_population \<Rightarrow> ethers_transaction result" where
  "Ethers_closeTrove p =
     rbind (estimateAndPopulate p ''borrowerOperations'' ''closeTrove'' (fixed_gas None) id []) (\<lambda>raw. Inr (wrapTroveClosure p raw))"

definition Ethers_adjustTrove ::
  "ethers_population \<Rightarrow> entries \<Rightarrow> decimalish option \<Rightarrow> string option \<Rightarrow> ethers_transaction result" where
  "Ethers_adjustTrove p params maxBorrowingRate from' =
     rbind (requireAddress (ep_connection p) from') (\<lambda>address.
     rbind (normalizeTroveAdjustment params) (\<lambda>normalized.
     rbind (getTrove (ep_reader p) (Some address) None) (\<lambda>t.
     rbind (if borrowHCHF normalized \<noteq> None then rbind (getFees (ep_reader p) None) (\<lambda>f. Inr (Some f)) else Inr None) (\<lambda>fees'.
     rbind (case fees' of Some f \<Rightarrow> rbind (Fees_borrowingRate f None) (\<lambda>r. Inr (Some r)) | None \<Rightarrow> Inr None) (\<lambda>rate.
     rbind (Trove_adjust (trove.truncate t) (adjustment_entries normalized) rate) (\<lambda>finalTrove.
     rbind (case maxBorrowingRate of
              Some m \<Rightarrow> Decimal_from m
            | None \<Rightarrow> Inr (case rate of Some r \<Rightarrow> Decimal_add r defaultBorrowingRateSlippageTolerance | None \<Rightarrow> Decimal_ZERO))
       (\<lambda>maxBorrowingRate'.
     rbind (case depositCollateral normalized of
              Some d \<Rightarrow> rbind (rbind (Decimal_toString d None) (parseEther p)) (\<lambda>w. Inr (Some w))
            | None \<Rightarrow> Inr None) (\<lambda>wei.
     rbind (Ethers_findHints p finalTrove) (\<lambda>hints.
     rbind (estimateAndPopulate p ''borrowerOperations'' ''adjustTrove'' (fixed_gas wei)
              ((if borrowHCHF normalized \<noteq> None then addGasForPotentialLastFeeOperationTimeUpdate else id)
                 \<circ> addGasForPotentialListTraversal)
              [Uint256 (bigNumber maxBorrowingRate'), Uint256 (bigNumber (or_zero (withdrawCollateral normalized))),
               Uint256 (bigNumber (case borrowHCHF normalized of Some b \<Rightarrow> b | None \<Rightarrow> or_zero (repayHCHF normalized))),
               BoolValue (borrowHCHF normalized \<noteq> None), AddressValue (fst hints), AddressValue (snd hints)]) (\<lambda>raw.
     Inr (wrapTroveChangeWithFees p (AdjustmentParams normalized) raw)))))))))))"

definition Ethers_depositCollateral :: "ethers_population \<Rightarrow> decimalish \<Rightarrow> string option \<Rightarrow> ethers_transaction result" where
  "Ethers_depositCollateral p amount from' = Ethers_adjustTrove p [(''depositCollateral'', Some amount)] None from'"

definition Ethers_withdrawCollateral :: "ethers_population \<Rightarrow> decimalish \<Rightarrow> string option \<Rightarrow> ethers_transaction result" where
  "Ethers_withdrawCollateral p amount from' = Ethers_adjustTrove p [(''withdrawCollateral'', Some amount)] None from'"

definition Ethers_borrowHCHF ::
  "ethers_population \<Rightarrow> decimalish \<Rightarrow> decimalish option \<Rightarrow> string option \<Rightarrow> ethers_transaction result" where
  "Ethers_borrowHCHF p amount maxBorrowingRate from' = Ethers_adjustTrove p [(''borrowHCHF'', Some amount)] maxBorrowingRate from'"

definition Ethers_repayHCHF :: "ethers_population \<Rightarrow> decimalish \<Rightarrow> string option \<Rightarrow> ethers_transaction result" where
  "Ethers_repayHCHF p amount from' = Ethers_adjustTrove p [(''repayHCHF'', Some amount)] None from'"

text \<open>A call without arguments, and one with an amount, of a transaction without details.\<close>

definition simple_call ::
  "ethers_population \<Rightarrow> string \<Rightarrow> string \<Rightarrow> (nat \<Rightarrow> nat) \<Rightarrow> abi_value list \<Rightarrow> ethers_transaction result" where
  "simple_call p contract name adjust args =
     rbind (estimateAndPopulate p contract name (fixed_gas None) adjust args) (\<lambda>raw. Inr (wrapSimpleTransaction raw))"

definition Ethers_amount_call :: "ethers_population \<Rightarrow> string \<Rightarrow> string \<Rightarrow> decimalish \<Rightarrow> ethers_transaction result" where
  "Ethers_amount_call p contract name amount =
     rbind (Decimal_from amount) (\<lambda>a. simple_call p contract name id [Uint256 (bigNumber a)])"

definition Ethers_claimCollateralSurplus :: "ethers_population \<Rightarrow> ethers_transaction result" where
  "Ethers_claimCollateralSurplus p = simple_call p ''borrowerOperations'' ''claimCollateral'' id []"

definition Ethers_setPrice :: "ethers_population \<Rightarrow> decimalish \<Rightarrow> ethers_transaction result" where
  "Ethers_setPrice p price' =
     (if \<not> priceFeedHasSetPrice p then Inl (Error ''setPrice() unavailable on this deployment of Liquity'')
      else Ethers_amount_call p ''priceFeed'' ''setPrice'' price')"

section \<open>Liquidation and the stability pool\<close>

definition Ethers_liquidate :: "ethers_population \<Rightarrow> liquidation_target \<Rightarrow> ethers_transaction result" where
  "Ethers_liquidate p address = (case address of
      Addresses as \<Rightarrow>
        rbind (estimateAndPopulate p ''troveManager'' ''batchLiquidateTroves'' (fixed_gas None) addGasForHLQTIssuance [AddressArray as])
          (\<lambda>raw. Inr (wrapLiquidation p raw))
    | OneAddress a \<Rightarrow>
        rbind (estimateAndPopulate p ''troveManager'' ''liquidate'' (fixed_gas None) addGasForHLQTIssuance [AddressValue a])
          (\<lambda>raw. Inr (wrapLiquidation p raw)))"

definition Ethers_liquidateUpTo :: "ethers_population \<Rightarrow> string \<Rightarrow> ethers_transaction result" where
  "Ethers_liquidateUpTo p maximumNumberOfTrovesToLiquidate =
     rbind (bigNumberFrom p maximumNumberOfTrovesToLiquidate) (\<lambda>n.
     rbind (estimateAndPopulate p ''troveManager'' ''liquidateTroves'' (fixed_gas None) addGasForHLQTIssuance [Uint256 n])
       (\<lambda>raw. Inr (wrapLiquidation p raw)))"

definition Ethers_depositHCHFInStabilityPool ::
  "ethers_population \<Rightarrow> decimalish \<Rightarrow> string option \<Rightarrow> ethers_transaction result" where
  "Ethers_depositHCHFInStabilityPool p amount frontendTag' =
     rbind (Decimal_from amount) (\<lambda>depositHCHF'.
     rbind (estimateAndPopulate p ''stabilityPool'' ''provideToSP'' (fixed_gas None) addGasForHLQTIssuance
              [Uint256 (bigNumber depositHCHF'), AddressValue (case frontendTag' of Some t \<Rightarrow> t
                 | None \<Rightarrow> (case ec_frontendTag (ep_connection p) of Some t \<Rightarrow> t | None \<Rightarrow> AddressZero))]) (\<lambda>raw.
     Inr (wrapStabilityDepositTopup p depositHCHF' raw)))"

definition Ethers_withdrawHCHFFromStabilityPool :: "ethers_population \<Rightarrow> decimalish \<Rightarrow> ethers_transaction result" where
  "Ethers_withdrawHCHFFromStabilityPool p amount =
     rbind (Decimal_from amount) (\<lambda>a.
     rbind (estimateAndPopulate p ''stabilityPool'' ''withdrawFromSP'' (fixed_gas None) addGasForHLQTIssuance [Uint256 (bigNumber a)])
       (\<lambda>raw. Inr (wrapStabilityDepositWithdrawal p raw)))"

definition Ethers_withdrawGainsFromStabilityPool :: "ethers_population \<Rightarrow> ethers_transaction result" where
  "Ethers_withdrawGainsFromStabilityPool p =
     rbind (estimateAndPopulate p ''stabilityPool'' ''withdrawFromSP'' (fixed_gas None) addGasForHLQTIssuance
              [Uint256 (bigNumber Decimal_ZERO)]) (\<lambda>raw.
     Inr (wrapStabilityPoolGainsWithdrawal p raw))"

definition Ethers_transferCollateralGainToTrove :: "ethers_population \<Rightarrow> string option \<Rightarrow> ethers_transaction result" where
  "Ethers_transferCollateralGainToTrove p from' =
     rbind (requireAddress (ep_connection p) from') (\<lambda>address.
     rbind (getTrove (ep_reader p) (Some address) None) (\<lambda>initialTrove.
     rbind (getStabilityDeposit (ep_reader p) (Some address) None) (\<lambda>stabilityDeposit'.
     rbind (Ethers_findHints p (Trove_addCollateral initialTrove (sd_collateralGain stabilityDeposit'))) (\<lambda>hints.
     rbind (estimateAndPopulate p ''stabilityPool'' ''withdrawETHGainToTrove'' (fixed_gas None)
              (addGasForPotentialListTraversal \<circ> addGasForHLQTIssuance) [AddressValue (fst hints), AddressValue (snd hints)]) (\<lambda>raw.
     Inr (wrapCollateralGainTransfer p raw))))))"

section \<open>Redemption\<close>

record ethers_redemption = ethers_transaction +
  ep_attemptedHCHFAmount :: decimal
  ep_redeemableHCHFAmount :: decimal
  ep_isTruncated :: bool
  ep_maxRedemptionRate :: "decimalish option"

definition Ethers_defaultMaxRedemptionRate :: "redemption_context \<Rightarrow> decimal \<Rightarrow> decimal result" where
  "Ethers_defaultMaxRedemptionRate c amount =
     rbind (Fees_redemptionRate (rc_fees c) (DecimalObject (Decimal_div amount (debt (rc_total c)))) None) (\<lambda>r.
     Inr (Decimal_min (Decimal_add r defaultRedemptionRateSlippageTolerance) Decimal_ONE))"

definition Ethers_populateRedemption ::
  "ethers_population \<Rightarrow> redemption_context \<Rightarrow> decimal \<Rightarrow> decimalish option \<Rightarrow> decimal \<Rightarrow> string \<Rightarrow> string \<Rightarrow> nat \<Rightarrow> ethers_redemption result" where
  "Ethers_populateRedemption p c attempted maxRedemptionRate truncatedAmount upperHint lowerHint hintNICR =
     rbind (case maxRedemptionRate of Some m \<Rightarrow> Decimal_from m | None \<Rightarrow> Ethers_defaultMaxRedemptionRate c truncatedAmount)
       (\<lambda>maxRedemptionRateOrDefault.
     rbind (estimateAndPopulate p ''troveManager'' ''redeemCollateral'' (fixed_gas None) addGasForPotentialLastFeeOperationTimeUpdate
              [Uint256 (bigNumber truncatedAmount), AddressValue (rc_firstRedemptionHint c), AddressValue upperHint, AddressValue lowerHint,
               Uint256 hintNICR, Uint256 redeemMaxIterations, Uint256 (bigNumber maxRedemptionRateOrDefault)]) (\<lambda>raw.
     Inr \<lparr>et_raw = raw, et_parse = parse_redemption p, ep_attemptedHCHFAmount = attempted, ep_redeemableHCHFAmount = truncatedAmount,
          ep_isTruncated = Decimal_lt truncatedAmount attempted, ep_maxRedemptionRate = maxRedemptionRate\<rparr>))"

definition Ethers_increaseAmountByMinimumNetDebt ::
  "ethers_population \<Rightarrow> redemption_context \<Rightarrow> ethers_redemption \<Rightarrow> decimalish option \<Rightarrow> ethers_redemption result" where
  "Ethers_increaseAmountByMinimumNetDebt p c r newMaxRedemptionRate =
     (if ep_isTruncated r
      then (let attempted = Decimal_add (ep_redeemableHCHFAmount r) (HCHF_MINIMUM_NET_DEBT (rc_constants c))
            in Ethers_populateRedemption p c attempted
                 (case newMaxRedemptionRate of Some m \<Rightarrow> Some m | None \<Rightarrow> ep_maxRedemptionRate r) attempted AddressZero AddressZero 0)
      else Inl (Error (''PopulatedEthersRedemption: increaseAmountByMinimumNetDebt() can ''
             @ ''only be called when amount is truncated'')))"

definition Ethers_redeemHCHF ::
  "ethers_population \<Rightarrow> decimalish \<Rightarrow> decimalish option \<Rightarrow> (redemption_context \<times> ethers_redemption) result" where
  "Ethers_redeemHCHF p amount maxRedemptionRate =
     rbind (Decimal_from amount) (\<lambda>attempted.
     rbind (getFees (ep_reader p) None) (\<lambda>fees'.
     rbind (getTotal (ep_reader p) None) (\<lambda>total'.
     rbind (findRedemptionHints p attempted) (\<lambda>h.
     let c = \<lparr>rc_fees = fees', rc_total = total', rc_firstRedemptionHint = rs_firstRedemptionHint h, rc_constants = ep_constants p\<rparr>
     in if Decimal_isZero (rs_truncatedAmount h)
        then Inl (Error (''redeemHCHF: amount too low to redeem (try at least ''
               @ Decimal_text (HCHF_MINIMUM_NET_DEBT (ep_constants p)) @ '')''))
        else rbind (Ethers_populateRedemption p c attempted maxRedemptionRate (rs_truncatedAmount h) (rs_upperHint h) (rs_lowerHint h)
               (rs_hintNICR h)) (\<lambda>r. Inr (c, r))))))"

section \<open>Staking, frontends and liquidity mining\<close>

definition Ethers_stakeHLQT :: "ethers_population \<Rightarrow> decimalish \<Rightarrow> ethers_transaction result" where
  "Ethers_stakeHLQT p amount = Ethers_amount_call p ''hlqtStaking'' ''stake'' amount"

definition Ethers_unstakeHLQT :: "ethers_population \<Rightarrow> decimalish \<Rightarrow> ethers_transaction result" where
  "Ethers_unstakeHLQT p amount = Ethers_amount_call p ''hlqtStaking'' ''unstake'' amount"

definition Ethers_withdrawGainsFromStaking :: "ethers_population \<Rightarrow> ethers_transaction result" where
  "Ethers_withdrawGainsFromStaking p = Ethers_unstakeHLQT p (DecimalObject Decimal_ZERO)"

definition Ethers_registerFrontend :: "ethers_population \<Rightarrow> decimalish \<Rightarrow> ethers_transaction result" where
  "Ethers_registerFrontend p kickbackRate = Ethers_amount_call p ''stabilityPool'' ''registerFrontEnd'' kickbackRate"

definition mintUniToken :: "ethers_population \<Rightarrow> decimalish \<Rightarrow> string option \<Rightarrow> string option \<Rightarrow> ethers_transaction result" where
  "mintUniToken p amount address from' =
     rbind (given_or address (requireAddress (ep_connection p) from')) (\<lambda>receiver.
     if \<not> uniTokenHasMint p then Inl (Error ''_mintUniToken() unavailable on this deployment of Liquity'')
     else rbind (Decimal_from amount) (\<lambda>a.
            simple_call p ''uniToken'' ''mint'' id [AddressValue receiver, Uint256 (bigNumber a)]))"

definition Ethers_approveUniTokens :: "ethers_population \<Rightarrow> decimalish option \<Rightarrow> ethers_transaction result" where
  "Ethers_approveUniTokens p allowance =
     rbind (Decimal_from (case allowance of Some a \<Rightarrow> a | None \<Rightarrow> DecimalObject Decimal_INFINITY)) (\<lambda>a.
     simple_call p ''uniToken'' ''approve'' id [AddressValue (ep_addresses p ''saucerSwapPool''), Uint256 (bigNumber a)])"

definition Ethers_stakeUniTokens :: "ethers_population \<Rightarrow> decimalish \<Rightarrow> ethers_transaction result" where
  "Ethers_stakeUniTokens p amount = Ethers_amount_call p ''saucerSwapPool'' ''stake'' amount"

definition Ethers_unstakeUniTokens :: "ethers_population \<Rightarrow> decimalish \<Rightarrow> ethers_transaction result" where
  "Ethers_unstakeUniTokens p amount = Ethers_amount_call p ''saucerSwapPool'' ''withdraw'' amount"

definition Ethers_withdrawHLQTRewardFromLiquidityMining :: "ethers_population \<Rightarrow> ethers_transaction result" where
  "Ethers_withdrawHLQTRewardFromLiquidityMining p = simple_call p ''saucerSwapPool'' ''claimReward'' addGasForUnipoolRewardUpdate []"

definition Ethers_exitLiquidityMining :: "ethers_population \<Rightarrow> ethers_transaction result" where
  "Ethers_exitLiquidityMining p = simple_call p ''saucerSwapPool'' ''withdrawAndClaim'' addGasForUnipoolRewardUpdate []"

text \<open>The methods by action, as for the Hashgraph client.\<close>

fun PopulatableEthersLiquity :: "ethers_population \<Rightarrow> liquity_action \<Rightarrow> ethers_transaction result" where
  "PopulatableEthersLiquity p (Action_openTrove params m) = Ethers_openTrove p params m"
| "PopulatableEthersLiquity p Action_closeTrove = Ethers_closeTrove p"
| "PopulatableEthersLiquity p (Action_adjustTrove params m) = Ethers_adjustTrove p params m None"
| "PopulatableEthersLiquity p (Action_depositCollateral a) = Ethers_depositCollateral p a None"
| "PopulatableEthersLiquity p (Action_withdrawCollateral a) = Ethers_withdrawCollateral p a None"
| "PopulatableEthersLiquity p (Action_borrowHCHF a) = Ethers_borrowHCHF p a None None"
| "PopulatableEthersLiquity p (Action_repayHCHF a) = Ethers_repayHCHF p a None"
| "PopulatableEthersLiquity p Action_claimCollateralSurplus = Ethers_claimCollateralSurplus p"
| "PopulatableEthersLiquity p (Action_setPrice a) = Ethers_setPrice p a"
| "PopulatableEthersLiquity p (Action_liquidate t) = Ethers_liquidate p t"
| "PopulatableEthersLiquity p (Action_liquidateUpTo n) = Ethers_liquidateUpTo p n"
| "PopulatableEthersLiquity p (Action_depositHCHFInStabilityPool a t) = Ethers_depositHCHFInStabilityPool p a t"
| "PopulatableEthersLiquity p (Action_withdrawHCHFFromStabilityPool a) = Ethers_withdrawHCHFFromStabilityPool p a"
| "PopulatableEthersLiquity p Action_withdrawGainsFromStabilityPool = Ethers_withdrawGainsFromStabilityPool p"
| "PopulatableEthersLiquity p Action_transferCollateralGainToTrove = Ethers_transferCollateralGainToTrove p None"
| "PopulatableEthersLiquity p (Action_redeemHCHF a m) = rbind (Ethers_redeemHCHF p a m) (\<lambda>(c, r). Inr (ethers_transaction.truncate r))"
| "PopulatableEthersLiquity p (Action_stakeHLQT a) = Ethers_stakeHLQT p a"
| "PopulatableEthersLiquity p (Action_unstakeHLQT a) = Ethers_unstakeHLQT p a"
| "PopulatableEthersLiquity p Action_withdrawGainsFromStaking = Ethers_withdrawGainsFromStaking p"
| "PopulatableEthersLiquity p (Action_registerFrontend a) = Ethers_registerFrontend p a"
| "PopulatableEthersLiquity p (Action_approveUniTokens a) = Ethers_approveUniTokens p a"
| "PopulatableEthersLiquity p (Action_stakeUniTokens a) = Ethers_stakeUniTokens p a"
| "PopulatableEthersLiquity p (Action_unstakeUniTokens a) = Ethers_unstakeUniTokens p a"
| "PopulatableEthersLiquity p Action_withdrawHLQTRewardFromLiquidityMining = Ethers_withdrawHLQTRewardFromLiquidityMining p"
| "PopulatableEthersLiquity p Action_exitLiquidityMining = Ethers_exitLiquidityMining p"

section \<open>The calls of the two clients\<close>

fun contract_key :: "contract_name \<Rightarrow> string" where
  "contract_key BorrowerOperations = ''borrowerOperations''"
| "contract_key TroveManager = ''troveManager''"
| "contract_key StabilityPool = ''stabilityPool''"
| "contract_key HLQTStaking = ''hlqtStaking''"
| "contract_key SaucerSwapPool = ''saucerSwapPool''"
| "contract_key (ERC20Token _) = ''uniToken''"

text \<open>
  The arguments that the Hashgraph client sends where the Ethereum client sends \<open>args\<close>. They are the same but for two functions: the Hashgraph client passes two counts
  as amounts, and so sends \<open>10\<^sup>8\<close> times the number of iterations of a redemption, and \<open>10\<^sup>8\<close> times the number of troves to liquidate.
\<close>

fun as_amount :: "abi_value \<Rightarrow> abi_value" where
  "as_amount (Uint256 n) = Uint256 (n * 10 ^ 8)"
| "as_amount v = v"

definition counts_as_amounts :: "string \<Rightarrow> abi_value list \<Rightarrow> abi_value list" where
  "counts_as_amounts name args = (if name = ''redeemCollateral'' then args[5 := as_amount (args ! 5)]
     else if name = ''liquidateTroves'' then map as_amount args else args)"

text \<open>
  A call of the same function of the same contract with these arguments, and with the value in weibars (\<open>10\<^sup>1\<^sup>0\<close> to the tinybar). Both clients set a gas limit; the
  Ethereum client's is always three million.
\<close>

definition corresponding_call :: "ethers_call \<Rightarrow> contract_execute \<Rightarrow> bool" where
  "corresponding_call c t \<longleftrightarrow> call_contract c = contract_key (contractId t) \<and> call_function c = functionName t
     \<and> (case functionParameters t of Some ps \<Rightarrow> ps | None \<Rightarrow> []) = counts_as_amounts (call_function c) (call_args c)
     \<and> (case ov_value (call_overrides c) of Some v \<Rightarrow> v | None \<Rightarrow> 0) = tinybars t * 10 ^ 10
     \<and> ov_gasLimit (call_overrides c) = Some 3000000"

definition sends_alike :: "ethers_population \<Rightarrow> ethers_transaction result \<Rightarrow> populated_transaction result \<Rightarrow> bool" where
  "sends_alike p etx tx \<longleftrightarrow> (case tx of
      Inr t \<Rightarrow> (\<exists>x c. etx = Inr x \<and> ep_populateTransaction p c = Inr (et_raw x) \<and> corresponding_call c (rawPopulatedTransaction t))
    | Inl _ \<Rightarrow> (\<exists>e. etx = Inl e))"

text \<open>
  The clients of one user and deployment, with what the Ethers library documents of its conversions. With up to 62500 troves, one batch of trials is
  enough to find hints; from the second on the seeds differ, as the Hashgraph client rounds them.
\<close>

definition twins :: "ethers_population \<Rightarrow> population \<Rightarrow> string \<Rightarrow> string \<Rightarrow> bool" where
  "twins p q u f \<longleftrightarrow> ep_reader p = Ethers_reader (ep_connection p) (pop_contracts q)
     \<and> pop_client q = hashgraph_twin (ep_connection p) u \<and> ec_userAddress (ep_connection p) = Some u
     \<and> ec_frontendTag (ep_connection p) = Some f \<and> ep_constants p = ec_constants (ep_connection p)
     \<and> ep_addresses p ''saucerSwapPool'' = ec_saucerSwapPool (ep_connection p)
     \<and> ep_hints p = pop_hints q \<and> ep_seed p = pop_seed q \<and> sound_deployment (ep_connection p) (pop_contracts q)
     \<and> (\<forall>n. troveManager_getTroveOwnersCount (pop_contracts q) None = Inr n \<longrightarrow> n \<le> 62500)
     \<and> (\<forall>t. parseEther p t = rbind (hbarFromString q t) (\<lambda>h. Inr (h * 10 ^ 10)))
     \<and> (\<forall>t n. n < 2 ^ 53 \<and> Decimal_from (Number t) = Inr (Decimal (n * DIGITS)) \<longrightarrow> bigNumberFrom p t = Inr n)
     \<and> (\<forall>c. \<exists>raw. ep_populateTransaction p c = Inr raw)"

text \<open>
  The actions that both clients support and understand alike. A maximum rate that is zero, \<^verbatim>\<open>NaN\<close> or an empty text is a given one only for the Ethereum client.
\<close>

fun common_action :: "liquity_action \<Rightarrow> bool" where
  "common_action (Action_adjustTrove _ m) \<longleftrightarrow> m = None \<or> truthy m"
| "common_action (Action_redeemHCHF _ m) \<longleftrightarrow> m = None \<or> truthy m"
| "common_action (Action_setPrice _) \<longleftrightarrow> False"
| "common_action (Action_liquidateUpTo s) \<longleftrightarrow> (case Decimal_from (Number s) of
     Inr d \<Rightarrow> bigNumber d mod DIGITS = 0 \<and> bigNumber d div DIGITS < 2 ^ 53 | Inl _ \<Rightarrow> False)"
| "common_action (Action_approveUniTokens a) \<longleftrightarrow> truthy a"
| "common_action _ \<longleftrightarrow> True"

lemma one_batch: "0 < n \<Longrightarrow> n \<le> 62500 \<Longrightarrow> generateTrials (totalNumberOfTrials n) = [totalNumberOfTrials n]"
proof -
  assume n: "0 < n" "n \<le> 62500"
  have "totalNumberOfTrials n \<le> 2500"
  proof (rule ccontr)
    assume "\<not> ?thesis"
    then have "2500 * 2500 \<le> (totalNumberOfTrials n - 1) * (totalNumberOfTrials n - 1)" by (intro mult_le_mono) auto
    moreover have "(totalNumberOfTrials n - 1) * (totalNumberOfTrials n - 1) < 100 * n"
      using ceil_sqrt_from_spec [of 0 "100 * n"] totalNumberOfTrials_pos [OF n(1)] by (auto simp: totalNumberOfTrials_def)
    ultimately show False using n(2) by simp
  qed
  with totalNumberOfTrials_pos [OF n(1)] show ?thesis
    by (simp add: generateTrials.simps [of "totalNumberOfTrials n"] generateTrials.simps [of 0] maxNumberOfTrialsAtOnce_def Let_def)
qed

lemma hints_agree:
  assumes "twins p q u f"
  shows "Ethers_findHintsForNominalCollateralRatio p nicr = findHintsForNominalCollateralRatio (pop_contracts q) (pop_hints q) (pop_seed q) nicr"
proof (cases "troveManager_getTroveOwnersCount (pop_contracts q) None")
  case (Inl e)
  then show ?thesis using assms
    by (simp add: twins_def Ethers_findHintsForNominalCollateralRatio_def findHintsForNominalCollateralRatio_def Ethers_reader_def
        Ethers_getNumberOfTroves_def Hashgraph_getNumberOfTroves_def)
next
  case (Inr n)
  with assms have n: "n \<le> 62500" by (simp add: twins_def)
  have count: "getNumberOfTroves (ep_reader p) None = Inr (int n)" "Hashgraph_getNumberOfTroves (pop_contracts q) None = Inr (int n)"
    using assms Inr n by (simp_all add: twins_def Ethers_reader_def Ethers_getNumberOfTroves_def Hashgraph_getNumberOfTroves_def numberify_def)
  show ?thesis
  proof (cases "n = 0")
    case False
    with n have "generateTrials (totalNumberOfTrials n) = [totalNumberOfTrials n]" "totalNumberOfTrials n \<noteq> 0"
      using one_batch totalNumberOfTrials_pos by auto
    with False count assms show ?thesis
      by (cases "hintHelpers_getApproxHint (pop_hints q) (bigNumber nicr) (totalNumberOfTrials n) (pop_seed q)")
        (auto simp: Ethers_findHintsForNominalCollateralRatio_def findHintsForNominalCollateralRatio_def twins_def
          Ethers_collectApproxHint_def collectApproxHint_def Ethers_closest_hint_def closest_hint_def)
  qed (simp add: count Ethers_findHintsForNominalCollateralRatio_def findHintsForNominalCollateralRatio_def)
qed

lemma twin_reads:
  assumes "twins p q u f"
  shows "getFees (ep_reader p) None = Hashgraph_getFees (pop_client q) (pop_contracts q) None"
    and "getTrove (ep_reader p) (Some u) None = Hashgraph_getTrove (pop_client q) (pop_contracts q) (Some u)"
    and "getStabilityDeposit (ep_reader p) (Some u) None = Hashgraph_getStabilityDeposit (pop_client q) (pop_contracts q) (Some u) None"
    and "getTotal (ep_reader p) None = Hashgraph_getTotal (pop_client q) (pop_contracts q) None"
    and "getPrice (ep_reader p) None = Hashgraph_getPrice (pop_contracts q) None"
    and "requireAddress (ep_connection p) None = Inr u"
    and "getAddressOrUserAddress (pop_client q) None = u"
    and "ep_constants p = client_constants (pop_client q)"
    and "ec_frontendTag (ep_connection p) = Some (frontendAddress (pop_client q))"
    and "unipool_uniToken (pop_contracts q) None = Inr (ec_uniToken (ep_connection p))"
    and "ep_addresses p ''saucerSwapPool'' = saucerSwapPoolAddress (pop_client q)"
    and "ep_hints p = pop_hints q"
proof -
  let ?e = "ep_connection p" and ?k = "pop_contracts q"
  have d: "sound_deployment ?e ?k" and r: "ep_reader p = Ethers_reader ?e ?k" and c: "pop_client q = hashgraph_twin ?e u"
    using assms by (simp_all add: twins_def)
  then have uni: "unipool_uniToken ?k None = Inr (ec_uniToken ?e)" by (simp add: sound_deployment_def)
  then show "unipool_uniToken (pop_contracts q) None = Inr (ec_uniToken (ep_connection p))" .
  show "getFees (ep_reader p) None = Hashgraph_getFees (pop_client q) ?k None"
    using numbers_agree(3) [OF d] by (simp add: r c Ethers_reader_def)
  have self: "getAddressOrUserAddress (hashgraph_twin ?e u) (Some u) = u" by (simp add: getAddressOrUserAddress_def hashgraph_twin_def)
  show "getTrove (ep_reader p) (Some u) None = Hashgraph_getTrove (pop_client q) ?k (Some u)"
    by (simp add: r c Ethers_reader_def Hashgraph_getTrove_def Ethers_getTrove_def troves_agree self)
  show "getStabilityDeposit (ep_reader p) (Some u) None = Hashgraph_getStabilityDeposit (pop_client q) ?k (Some u) None"
    by (simp add: r c Ethers_reader_def user_reads_agree [OF uni] self)
  show "getTotal (ep_reader p) None = Hashgraph_getTotal (pop_client q) ?k None"
    by (simp add: r c Ethers_reader_def troves_agree)
  show "getPrice (ep_reader p) None = Hashgraph_getPrice ?k None"
    by (simp add: r Ethers_reader_def Ethers_getPrice_def Hashgraph_getPrice_def)
qed (use assms in \<open>simp_all add: twins_def hashgraph_twin_def requireAddress_def getAddressOrUserAddress_def\<close>)

lemma fixed_gas_populates [simp]: "estimateAndPopulate p contract name (fixed_gas v) adjust args =
    ep_populateTransaction p \<lparr>call_contract = contract, call_function = name, call_args = args, call_overrides = fixed_gas v\<rparr>"
  by (simp add: estimateAndPopulate_def fixed_gas_def)

text \<open>How an encoded call and the transaction of the other client are recognised as alike.\<close>

lemma sends_alikeI:
  assumes "\<And>t. tx = Inr t \<Longrightarrow> \<exists>x. etx = Inr x \<and> (\<exists>c. ep_populateTransaction p c = Inr (et_raw x) \<and> corresponding_call c (rawPopulatedTransaction t))"
    and "\<And>x. etx = Inr x \<Longrightarrow> \<exists>t. tx = Inr t"
  shows "sends_alike p etx tx"
  using assms by (cases tx; cases etx) (auto simp: sends_alike_def)

lemma sends_alike_rbind:
  assumes "\<And>x. r = Inr x \<Longrightarrow> sends_alike p (g x) (h x)"
  shows "sends_alike p (rbind r g) (rbind r h)"
  using assms by (cases r) (simp_all add: sends_alike_def)

lemma sends_alike_iff:
  "sends_alike p etx tx \<longleftrightarrow> (\<forall>t. tx = Inr t \<longrightarrow> (\<exists>x. etx = Inr x \<and> (\<exists>c. ep_populateTransaction p c = Inr (et_raw x)
      \<and> corresponding_call c (rawPopulatedTransaction t)))) \<and> (\<forall>x. etx = Inr x \<longrightarrow> (\<exists>t. tx = Inr t))"
  by (cases tx; cases etx) (auto simp: sends_alike_def)

lemma encoded: "corresponding_call c t \<Longrightarrow> \<exists>c'. enc c' = enc c \<and> corresponding_call c' t"
  by blast

lemmas raw_of_wrapped = wrapSimpleTransaction_def wrapTroveChangeWithFees_def wrapTroveClosure_def wrapLiquidation_def
  wrapStabilityPoolGainsWithdrawal_def wrapStabilityDepositTopup_def wrapStabilityDepositWithdrawal_def wrapCollateralGainTransfer_def

lemmas corresponding_call_simps = corresponding_call_def counts_as_amounts_def fixed_gas_def built_transaction DIGITS_eq

lemma encoding:
  assumes "twins p q u f"
  obtains enc where "\<And>c. ep_populateTransaction p c = Inr (enc c)"
  using assms unfolding twins_def by metis

lemma open_alike:
  assumes "twins p q u f"
  shows "sends_alike p (Ethers_openTrove p ps m) (populateOpenTrove q ps m)"
proof -
  note alike = twin_reads [OF assms] Ethers_findHints_def findHints_def hints_agree [OF assms]
  have ether: "\<And>t. parseEther p t = rbind (hbarFromString q t) (\<lambda>h. Inr (h * 10 ^ 10))" using assms by (simp add: twins_def)
  obtain enc where enc: "\<And>c. ep_populateTransaction p c = Inr (enc c)" using encoding [OF assms] by blast
  show ?thesis
    by (rule sends_alikeI)
      (auto simp: Ethers_openTrove_def populateOpenTrove_def alike ether enc rbind_eq_Inr_iff Let_def raw_of_wrapped intro!: encoded,
       simp add: corresponding_call_simps)
qed

lemma adjust_alike:
  assumes "twins p q u f" and "m = None \<or> truthy m"
  shows "sends_alike p (Ethers_adjustTrove p ps m None) (populateAdjustTrove q ps m None)"
proof -
  note alike = twin_reads [OF assms(1)] Ethers_findHints_def findHints_def hints_agree [OF assms(1)]
  have ether: "\<And>t. parseEther p t = rbind (hbarFromString q t) (\<lambda>h. Inr (h * 10 ^ 10))" using assms by (simp add: twins_def)
  obtain enc where enc: "\<And>c. ep_populateTransaction p c = Inr (enc c)" using encoding [OF assms(1)] by blast
  have rate: "(if truthy m then Decimal_from (the m) else (case r of Some x \<Rightarrow> Inr (Decimal_add x y) | None \<Rightarrow> Inr Decimal_ZERO)) =
      (case m of Some x \<Rightarrow> Decimal_from x | None \<Rightarrow> Inr (case r of Some x \<Rightarrow> Decimal_add x y | None \<Rightarrow> Decimal_ZERO))" for r y
    using assms(2) by (auto simp: truthy_def split: option.split)
  show ?thesis
    unfolding Ethers_adjustTrove_def populateAdjustTrove_def rate alike ether Let_def rbind_simps
    apply (intro sends_alike_rbind)
    subgoal for normalized t fees' rate' final max'
      by (cases "depositCollateral normalized";
          cases "findHintsForNominalCollateralRatio (pop_contracts q) (pop_hints q) (pop_seed q) (Trove_nominalCollateralRatio final)")
        (auto simp: sends_alike_iff enc rbind_eq_Inr_iff raw_of_wrapped intro!: encoded, (simp add: corresponding_call_simps)+)
    done
qed

lemma redemption_alike:
  assumes "twins p q u f" and "m = None \<or> truthy m"
  shows "sends_alike p (PopulatableEthersLiquity p (Action_redeemHCHF a m)) (asPopulatable q s (Action_redeemHCHF a m))"
proof -
  note alike = twin_reads [OF assms(1)] hints_agree [OF assms(1)]
  obtain enc where enc: "\<And>c. ep_populateTransaction p c = Inr (enc c)" using encoding [OF assms(1)] by blast
  have nicr: "Decimal_eq (Decimal n) Decimal_ZERO \<longleftrightarrow> n = 0" for n by (simp add: Decimal_eq_def Decimal_ZERO_def)
  have populate: "sends_alike p
      (rbind (rbind (Ethers_populateRedemption p c w m t h1 h2 n) (\<lambda>r. Inr (c, r))) (\<lambda>(c, r). Inr (ethers_transaction.truncate r)))
      (rbind (rbind (if truthy m then rbind (Decimal_from (the m)) (\<lambda>m. Inr (Some m)) else Inr None) (\<lambda>maxRate.
        rbind (populateRedemption c w maxRate t h1 h2 (Decimal n)) (\<lambda>r. Inr (c, r)))) (\<lambda>(c, r). Inr (populated_transaction.truncate r)))"
    for c w t h1 h2 n
  proof -
    have "corresponding_call \<lparr>call_contract = ''troveManager'', call_function = ''redeemCollateral'', call_args = [Uint256 (bigNumber t),
          AddressValue (rc_firstRedemptionHint c), AddressValue h1, AddressValue h2, Uint256 n, Uint256 redeemMaxIterations, Uint256 (bigNumber r)],
          call_overrides = fixed_gas None\<rparr>
        (TypedContractExecuteTransaction TroveManager ''redeemCollateral'' (Some [Uint256 (bigNumber t), AddressValue (rc_firstRedemptionHint c),
          AddressValue h1, AddressValue h2, Uint256 n, Uint256 (70 * DIGITS), Uint256 (bigNumber r)]) None g)" for r g
      by (simp add: corresponding_call_simps redeemMaxIterations_def)
    then show ?thesis
      using assms(2)
      by (auto simp: sends_alike_iff Ethers_populateRedemption_def populateRedemption_def iterations_scaled rbind_eq_Inr_iff enc truthy_def Let_def
          Ethers_defaultMaxRedemptionRate_def defaultMaxRedemptionRate_def ethers_transaction.truncate_def populated_transaction.truncate_def
          intro!: encoded split: option.split_asm)
  qed
  show ?thesis
    unfolding PopulatableEthersLiquity.simps asPopulatable.simps Ethers_redeemHCHF_def populateRedeemHCHF_def findRedemptionHints_def alike
      rbind_assoc decimalify_eq nicr Let_def rbind_simps redemption_search.simps
    apply (intro sends_alike_rbind)
    subgoal for attempted fees' total' price' r hints
      by (cases "Decimal_isZero (Decimal (truncatedHCHFamount r))") (simp add: sends_alike_def, simp only: if_False populate)
    done
qed

lemma plain_call_alike:
  assumes "twins p q u f" and "\<And>raw. et_raw (w raw) = raw" and "args = (case ps of Some xs \<Rightarrow> xs | None \<Rightarrow> [])"
    and "name \<noteq> ''redeemCollateral''" "name \<noteq> ''liquidateTroves''"
  shows "sends_alike p (rbind (ep_populateTransaction p \<lparr>call_contract = contract_key c, call_function = name, call_args = args,
      call_overrides = fixed_gas None\<rparr>) (\<lambda>raw. Inr (w raw)))
    (Inr (getPopulatedHashgraphLiquityTransaction (TypedContractExecuteTransaction c name ps None g) d g'))"
proof -
  obtain enc where enc: "\<And>c. ep_populateTransaction p c = Inr (enc c)" using encoding [OF assms(1)] by blast
  with assms(2-5) show ?thesis by (auto simp: sends_alike_iff built_transaction intro!: encoded) (simp add: corresponding_call_simps)
qed

lemmas plain_call_alikes = plain_call_alike [where c = BorrowerOperations, unfolded contract_key.simps]
  plain_call_alike [where c = TroveManager, unfolded contract_key.simps] plain_call_alike [where c = StabilityPool, unfolded contract_key.simps]
  plain_call_alike [where c = SaucerSwapPool, unfolded contract_key.simps] plain_call_alike [where c = "ERC20Token t" for t, unfolded contract_key.simps]

lemma amount_alike:
  assumes "twins p q u f" and "name \<noteq> ''redeemCollateral''" "name \<noteq> ''liquidateTroves''" and "k = contract_key c"
  shows "sends_alike p (Ethers_amount_call p k name a) (amount_call c name g a)"
  unfolding Ethers_amount_call_def amount_call_def simple_call_def fixed_gas_populates Let_def assms(4)
  by (intro sends_alike_rbind plain_call_alike [OF assms(1)]) (simp_all add: assms wrapSimpleTransaction_def)

lemma liquidateUpTo_alike:
  assumes "twins p q u f" and "common_action (Action_liquidateUpTo n)"
  shows "sends_alike p (Ethers_liquidateUpTo p n) (populateLiquidateUpTo q n)"
proof -
  obtain d where d: "Decimal_from (Number n) = Inr d" "bigNumber d mod DIGITS = 0" "bigNumber d div DIGITS < 2 ^ 53"
    using assms(2) by (auto split: sum.split_asm)
  then have "Decimal (bigNumber d div DIGITS * DIGITS) = d" by (cases d) auto
  with d assms(1) have "bigNumberFrom p n = Inr (bigNumber d div DIGITS)" by (simp add: twins_def)
  moreover have "bigNumber d = bigNumber d div 100000000 * 100000000" using d(2) by (simp add: DIGITS_eq mod_eq_0_iff_dvd)
  moreover obtain enc where "\<And>c. ep_populateTransaction p c = Inr (enc c)" using encoding [OF assms(1)] by blast
  ultimately show ?thesis using d(1)
    by (auto simp: sends_alike_iff Ethers_liquidateUpTo_def populateLiquidateUpTo_def Let_def raw_of_wrapped built_transaction intro!: encoded)
      (simp add: corresponding_call_simps)
qed

lemma pool_actions_alike:
  assumes "twins p q u f"
  shows "sends_alike p (Ethers_transferCollateralGainToTrove p None) (populateTransferCollateralGainToTrove q None)"
    and "sends_alike p (Ethers_depositHCHFInStabilityPool p x t) (populateDepositHCHFInStabilityPool q x t)"
    and "sends_alike p (Ethers_withdrawHCHFFromStabilityPool p x) (populateWithdrawHCHFFromStabilityPool x)"
    and "sends_alike p (Ethers_withdrawGainsFromStabilityPool p) populateWithdrawGainsFromStabilityPool"
proof -
  note alike = twin_reads [OF assms] Ethers_findHints_def findHints_def hints_agree [OF assms] and plain = plain_call_alikes [OF assms]
  have zero: "Decimal_from (Number ''0'') = Inr Decimal_ZERO" by (simp add: Decimal_from_def parse_eval Decimal_ZERO_def)
  show "sends_alike p (Ethers_transferCollateralGainToTrove p None) (populateTransferCollateralGainToTrove q None)"
    by (simp add: Ethers_transferCollateralGainToTrove_def populateTransferCollateralGainToTrove_def alike Let_def)
      (intro sends_alike_rbind plain, simp_all add: raw_of_wrapped)
  show "sends_alike p (Ethers_depositHCHFInStabilityPool p x t) (populateDepositHCHFInStabilityPool q x t)"
    by (simp add: Ethers_depositHCHFInStabilityPool_def populateDepositHCHFInStabilityPool_def Let_def)
      (intro sends_alike_rbind plain, simp_all add: alike raw_of_wrapped split: option.split)
  show "sends_alike p (Ethers_withdrawHCHFFromStabilityPool p x) (populateWithdrawHCHFFromStabilityPool x)"
    by (simp add: Ethers_withdrawHCHFFromStabilityPool_def populateWithdrawHCHFFromStabilityPool_def Let_def)
      (intro sends_alike_rbind plain, simp_all add: raw_of_wrapped)
  show "sends_alike p (Ethers_withdrawGainsFromStabilityPool p) populateWithdrawGainsFromStabilityPool"
    by (simp add: Ethers_withdrawGainsFromStabilityPool_def populateWithdrawGainsFromStabilityPool_def zero Let_def plain raw_of_wrapped)
qed


section \<open>A sample pair of clients\<close>

definition sample_twin :: population where
  "sample_twin = sample_population\<lparr>pop_client := hashgraph_twin sample_ethers ''0xA''\<rparr>"

definition sample_event :: event where
  "sample_event = \<lparr>event_name = ''TroveUpdated'', event_args = [(''_coll'', BigNumberArg 5000000000000), (''_debt'', BigNumberArg 221000000000)]\<rparr>"

definition sample_ethers_population :: ethers_population where
  "sample_ethers_population = \<lparr>ep_reader = Ethers_reader sample_ethers sample_contracts, ep_connection = sample_ethers, ep_constants = defaults,
     ep_hints = sample_hints, ep_seed = 1, ep_addresses = (\<lambda>key. if key = ''saucerSwapPool'' then ''0xS'' else ''0x'' @ key),
     ep_parseLog = (\<lambda>_ l. if log_payload l = ''trove'' then Inr sample_event else Inl (ExternalError ''no matching event'')),
     ep_estimateGas = (\<lambda>_. Inr 100000), ep_populateTransaction = (\<lambda>c. Inr (call_function c)),
     parseEther = (\<lambda>t. rbind (Decimal_fromString t) (\<lambda>d. Inr (bigNumber d * 10 ^ 10))),
     bigNumberFrom = (\<lambda>t. rbind (Decimal_from (Number t)) (\<lambda>d. Inr (bigNumber d div DIGITS))),
     priceFeedHasSetPrice = False, uniTokenHasMint = False\<rparr>"

lemma sample_twins: "twins sample_ethers_population sample_twin ''0xA'' ''0xF''"
proof -
  have "parseEther sample_ethers_population t = rbind (hbarFromString sample_twin t) (\<lambda>h. Inr (h * 10 ^ 10))" for t
    by (simp add: sample_ethers_population_def sample_twin_def sample_population_def rbind_assoc)
  moreover have "troveManager_getTroveOwnersCount sample_contracts None = Inr 2" by (simp add: sample_contracts_def)
  ultimately show ?thesis
    using sample_sound_deployment
    by (simp add: twins_def sample_ethers_population_def sample_twin_def, simp add: sample_population_def sample_ethers_def)
qed


end
