(* ===== verification/Ethers_Send.thy ===== *)
theory Ethers_Send
  imports Ethers_Store Ethers_Populate Hashgraph_Send
begin

text \<open>
  Sending with the Ethereum client: the second half of \<^verbatim>\<open>packages/lib-ethers/src/PopulatableEthersLiquity.ts\<close> (sent transactions and their
  receipts), \<^verbatim>\<open>SendableEthersLiquity.ts\<close>, \<^verbatim>\<open>EthersLiquity.ts\<close>, \<^verbatim>\<open>consentable.ts\<close>, and the text of a receipt's logs, \<^verbatim>\<open>parseLogs.ts\<close>.
\<close>

section \<open>Receipts\<close>

datatype liquity_receipt = PendingReceipt | FailedReceipt ethers_receipt | SuccessfulReceipt ethers_receipt ethers_details

text \<open>Signer and provider: what becomes of a transaction that is sent, and its receipt when asked for it at once or after waiting.\<close>

record ethers_network =
  signer_sendTransaction :: "(string \<Rightarrow> string result) option"
  getTransactionReceipt :: "string \<Rightarrow> ethers_receipt option result"
  waitForTransaction :: "string \<Rightarrow> ethers_receipt option result"

record sent_transaction =
  sent_hash :: string
  sent_parse :: "ethers_receipt \<Rightarrow> ethers_details result"

definition receiptFrom :: "(ethers_receipt \<Rightarrow> ethers_details result) \<Rightarrow> ethers_receipt option \<Rightarrow> liquity_receipt result" where
  "receiptFrom parse raw = (case raw of
      None \<Rightarrow> Inr PendingReceipt
    | Some r \<Rightarrow> (if er_status r \<noteq> None \<and> er_status r \<noteq> Some 0 then rbind (parse r) (\<lambda>d. Inr (SuccessfulReceipt r d)) else Inr (FailedReceipt r)))"

definition getReceipt :: "ethers_network \<Rightarrow> sent_transaction \<Rightarrow> liquity_receipt result" where
  "getReceipt net tx = rbind (getTransactionReceipt net (sent_hash tx)) (receiptFrom (sent_parse tx))"

definition Ethers_waitForReceipt :: "ethers_network \<Rightarrow> sent_transaction \<Rightarrow> liquity_receipt result" where
  "Ethers_waitForReceipt net tx =
     rbind (waitForTransaction net (sent_hash tx)) (\<lambda>raw.
     rbind (receiptFrom (sent_parse tx) raw) (\<lambda>receipt.
     rbind (js_assert (receipt \<noteq> PendingReceipt)) (\<lambda>_. Inr receipt)))"

section \<open>Sending\<close>

definition Ethers_send :: "ethers_network \<Rightarrow> ethers_transaction \<Rightarrow> sent_transaction result" where
  "Ethers_send net tx = (case signer_sendTransaction net of
      None \<Rightarrow> Inl (Error ''Must be connected through a Signer'')
    | Some sendTransaction \<Rightarrow> rbind (sendTransaction (et_raw tx)) (\<lambda>hash. Inr \<lparr>sent_hash = hash, sent_parse = et_parse tx\<rparr>))"

text \<open>With a store, a refresh is started and not waited for; the second component says whether there is one.\<close>

definition Sendable_sendTransaction :: "ethers_network \<Rightarrow> bool \<Rightarrow> ethers_transaction \<Rightarrow> (sent_transaction \<times> bool) result" where
  "Sendable_sendTransaction net hasStore tx = rbind (Ethers_send net tx) (\<lambda>response. Inr (response, hasStore))"

definition SendableEthersLiquity ::
  "ethers_network \<Rightarrow> bool \<Rightarrow> ethers_population \<Rightarrow> liquity_action \<Rightarrow> (sent_transaction \<times> bool) result" where
  "SendableEthersLiquity net hasStore p action = rbind (PopulatableEthersLiquity p action) (Sendable_sendTransaction net hasStore)"

definition waitForSuccess :: "ethers_network \<Rightarrow> sent_transaction \<Rightarrow> ethers_details result" where
  "waitForSuccess net tx =
     rbind (Ethers_waitForReceipt net tx) (\<lambda>receipt. case receipt of
       SuccessfulReceipt _ details' \<Rightarrow> Inr details'
     | _ \<Rightarrow> Inl (Error ''Transaction failed''))"

definition EthersLiquity_transact ::
  "ethers_network \<Rightarrow> bool \<Rightarrow> ethers_population \<Rightarrow> liquity_action \<Rightarrow> ethers_details result" where
  "EthersLiquity_transact net hasStore p action =
     rbind (SendableEthersLiquity net hasStore p action) (\<lambda>(tx, _). waitForSuccess net tx)"

text \<open>Reads are passed on to the reader.\<close>

definition EthersLiquity_reader :: "block_tag option reader \<Rightarrow> block_tag option reader" where
  "EthersLiquity_reader r = \<lparr>
     getTotalRedistributed = (\<lambda>x. getTotalRedistributed r x),
     getTroveBeforeRedistribution = (\<lambda>a x. getTroveBeforeRedistribution r a x),
     getTrove = (\<lambda>a x. getTrove r a x),
     getNumberOfTroves = (\<lambda>x. getNumberOfTroves r x),
     getPrice = (\<lambda>x. getPrice r x),
     getTotal = (\<lambda>x. getTotal r x),
     getStabilityDeposit = (\<lambda>a x. getStabilityDeposit r a x),
     getRemainingStabilityPoolHLQTReward = (\<lambda>x. getRemainingStabilityPoolHLQTReward r x),
     getHCHFInStabilityPool = (\<lambda>x. getHCHFInStabilityPool r x),
     getHCHFBalance = (\<lambda>a x. getHCHFBalance r a x),
     getHCHFTokenAddress = (\<lambda>x. getHCHFTokenAddress r x),
     getHLQTTokenAddress = (\<lambda>x. getHLQTTokenAddress r x),
     getHLQTBalance = (\<lambda>a x. getHLQTBalance r a x),
     getUniTokenBalance = (\<lambda>a x. getUniTokenBalance r a x),
     getUniTokenAllowance = (\<lambda>a x. getUniTokenAllowance r a x),
     getRemainingLiquidityMiningHLQTReward = (\<lambda>x. getRemainingLiquidityMiningHLQTReward r x),
     getLiquidityMiningStake = (\<lambda>a x. getLiquidityMiningStake r a x),
     getTotalStakedUniTokens = (\<lambda>x. getTotalStakedUniTokens r x),
     getLiquidityMiningHLQTReward = (\<lambda>a x. getLiquidityMiningHLQTReward r a x),
     getCollateralSurplusBalance = (\<lambda>a x. getCollateralSurplusBalance r a x),
     getTroves = (\<lambda>q x. getTroves r q x),
     getFees = (\<lambda>x. getFees r x),
     getHLQTStake = (\<lambda>a x. getHLQTStake r a x),
     getTotalStakedHLQT = (\<lambda>x. getTotalStakedHLQT r x),
     getFrontendStatus = (\<lambda>a x. getFrontendStatus r a x),
     getHchfTokenAllowanceOfHchfContract = (\<lambda>a x. getHchfTokenAllowanceOfHchfContract r a x),
     getHlqtTokenAllowanceOfHlqtContract = (\<lambda>a x. getHlqtTokenAllowanceOfHlqtContract r a x)\<rparr>"

section \<open>Token associations and allowances\<close>

text \<open>
  The contracts of tokens as a signer reaches them: calling \<^verbatim>\<open>associate\<close> and \<^verbatim>\<open>dissociate\<close> and waiting, and the status of the receipt of an approval.
\<close>

record token_contracts =
  token_associate :: "string \<Rightarrow> unit result"
  token_dissociate :: "string \<Rightarrow> unit result"
  token_approve :: "string \<Rightarrow> string \<Rightarrow> nat \<Rightarrow> nat option result"

record ethers_consent =
  eco_connection :: ethers
  eco_contracts :: contracts
  eco_mirror :: mirror
  eco_mirrorUrl :: string
  eco_signer :: "token_contracts option"
  eco_fetch :: "nat \<Rightarrow> string \<Rightarrow> response result"
  eco_env :: refresh_env
  eco_ids :: "string \<Rightarrow> nat"
  eco_call :: "nat \<Rightarrow> callback"
  eco_stringify :: "string \<Rightarrow> string"
  eco_message :: "js_error \<Rightarrow> string"

definition associateWithToken :: "ethers_consent \<Rightarrow> token_contracts \<Rightarrow> string \<Rightarrow> unit result" where
  "associateWithToken c signer tokenAddress = (case token_associate signer tokenAddress of
      Inr _ \<Rightarrow> Inr ()
    | Inl e \<Rightarrow> Inl (Error (''couldn't associate with token '' @ eco_stringify c tokenAddress @ '': '' @ eco_message c e)))"

definition dissociateFromToken :: "ethers_consent \<Rightarrow> token_contracts \<Rightarrow> string \<Rightarrow> unit result" where
  "dissociateFromToken c signer tokenAddress = (case token_dissociate signer tokenAddress of
      Inr _ \<Rightarrow> Inr ()
    | Inl e \<Rightarrow> Inl (Error (''couldn't dissociate from token '' @ eco_stringify c tokenAddress @ '': '' @ eco_message c e)))"

definition approveSpender :: "token_contracts \<Rightarrow> string \<Rightarrow> string \<Rightarrow> nat \<Rightarrow> unit result" where
  "approveSpender signer tokenAddress contractAddress amount =
     rbind (token_approve signer tokenAddress contractAddress amount) (\<lambda>status.
     if status \<noteq> Some 1
     then Inl (Error (''unable to approve contract '' @ contractAddress @ '' to spend '' @ show_nat amount @ '' '' @ tokenAddress))
     else Inr ())"

definition Ethers_refresh_in :: "ethers_consent \<Rightarrow> polled_extra store \<Rightarrow> polled_extra store" where
  "Ethers_refresh_in c s = fst (Polled_refresh (eco_connection c) (env_contracts (eco_env c)) (env_mirror (eco_env c)) (eco_mirrorUrl c)
     (env_ids (eco_env c)) (env_call (eco_env c)) (env_onLoaded (eco_env c)) s)"

text \<open>Without the user's address, building the request throws.\<close>

definition Ethers_poll_tokens :: "ethers_consent \<Rightarrow> string list \<Rightarrow> nat \<Rightarrow> string list result" where
  "Ethers_poll_tokens c ids n = (case ec_userAddress (eco_connection c) of
      None \<Rightarrow> Inl (ExternalError ''TypeError'')
    | Some u \<Rightarrow> fetchTokens (eco_fetch c n) (mirror_stringify (eco_mirror c))
        \<lparr>tokenIds = ids, apiBaseUrl = eco_mirrorUrl c, account_of = EvmAddress u\<rparr>)"

text \<open>
  The six methods, by direction and token; \<open>None\<close> is a method that is still polling. \<^verbatim>\<open>hasStore()\<close> is true for every object of the class, so an object
  without a store (the inner \<open>None\<close>) fails when it gets to refreshing it.
\<close>

definition Ethers_change_association :: "nat \<Rightarrow> ethers_consent \<Rightarrow> bool \<Rightarrow> string result \<Rightarrow> polled_extra store option
    \<Rightarrow> (polled_extra store option \<times> unit result) option" where
  "Ethers_change_association fuel c associate tokenAddress s = (case eco_signer c of
      None \<Rightarrow> Some (s, Inl (Error ''this.connection.signer is falsy! i cannot associate without a signer!''))
    | Some signer \<Rightarrow>
        (case rbind tokenAddress (\<lambda>a.
              rbind (if associate then associateWithToken c signer a else dissociateFromToken c signer a) (\<lambda>_.
              rbind (Ethers_getTokenIds (eco_contracts c) (eco_mirror c)) (\<lambda>ids.
              rbind (tokenIdString (eco_mirror c) a) (\<lambda>tokenId. Inr (tokenId, ids))))) of
           Inl e \<Rightarrow> Some (s, Inl e)
         | Inr (tokenId, ids) \<Rightarrow>
             (case waitForTokenState fuel (Ethers_poll_tokens c ids)
                     (if associate then Some [tokenId] else None) (if associate then None else Some [tokenId]) of
                None \<Rightarrow> None
              | Some _ \<Rightarrow> (case s of
                    None \<Rightarrow> Some (None, Inl (ExternalError ''TypeError''))
                  | Some st \<Rightarrow> Some (Some (Ethers_refresh_in c st), Inr ())))))"

definition Ethers_associateWithHchf where
  "Ethers_associateWithHchf fuel c = Ethers_change_association fuel c True (hchfToken_tokenAddress (eco_contracts c) None)"

definition Ethers_dissociateFromHchf where
  "Ethers_dissociateFromHchf fuel c = Ethers_change_association fuel c False (hchfToken_tokenAddress (eco_contracts c) None)"

definition Ethers_associateWithHlqt where
  "Ethers_associateWithHlqt fuel c = Ethers_change_association fuel c True (hlqtToken_tokenAddress (eco_contracts c) None)"

definition Ethers_dissociateFromHlqt where
  "Ethers_dissociateFromHlqt fuel c = Ethers_change_association fuel c False (hlqtToken_tokenAddress (eco_contracts c) None)"

definition Ethers_associateWithLpToken where
  "Ethers_associateWithLpToken fuel c = Ethers_change_association fuel c True (unipool_uniToken (eco_contracts c) None)"

definition Ethers_dissociateFromLpToken where
  "Ethers_dissociateFromLpToken fuel c = Ethers_change_association fuel c False (unipool_uniToken (eco_contracts c) None)"

definition Ethers_approve_spending :: "ethers_consent \<Rightarrow> string result \<Rightarrow> string \<Rightarrow> decimal object \<Rightarrow> base_state_update
    \<Rightarrow> polled_extra store option \<Rightarrow> polled_extra store option \<times> unit result" where
  "Ethers_approve_spending c tokenAddress contractAddress amount optimistic s = (case eco_signer c of
      None \<Rightarrow> (s, Inl (Error ''this.connection.signer is falsy! i cannot approve allowances without a signer!''))
    | Some signer \<Rightarrow>
        (case rbind tokenAddress (\<lambda>a. approveSpender signer a contractAddress (bigNumber (content amount))) of
           Inl e \<Rightarrow> (s, Inl e)
         | Inr _ \<Rightarrow> (case s of
               None \<Rightarrow> (None, Inl (ExternalError ''TypeError''))
             | Some st \<Rightarrow>
                 (let (s2, r) = store_update polled_subclass (eco_ids c) (eco_call c) (Some optimistic) None (Ethers_refresh_in c st)
                  in (Some s2, rbind r (\<lambda>_. Inr ()))))))"

definition Ethers_approveHchfToSpendHchf where
  "Ethers_approveHchfToSpendHchf c amount =
     Ethers_approve_spending c (hchfToken_tokenAddress (eco_contracts c) None) (ec_hchfToken (eco_connection c)) amount
       (no_fields\<lparr>new_hchfTokenAllowanceOfHchfContract := Some amount\<rparr>)"

definition Ethers_approveHlqtToSpendHlqt where
  "Ethers_approveHlqtToSpendHlqt c amount =
     Ethers_approve_spending c (hlqtToken_tokenAddress (eco_contracts c) None) (ec_hlqtToken (eco_connection c)) amount
       (no_fields\<lparr>new_hlqtTokenAllowanceOfHlqtContract := Some amount\<rparr>)"

definition Ethers_approveSaucerSwapToSpendLpToken where
  "Ethers_approveSaucerSwapToSpendLpToken c amount =
     Ethers_approve_spending c (unipool_uniToken (eco_contracts c) None) (ec_saucerSwapPool (eco_connection c)) amount
       (no_fields\<lparr>new_uniTokenAllowance := Some amount\<rparr>)"

section \<open>The text of a receipt's logs\<close>

text \<open>
  \<^verbatim>\<open>parseLogs.ts\<close>. The contracts are their names and addresses in the order of the object; if two share an address, the later one
  counts, as in \<^verbatim>\<open>Object.fromEntries\<close>.
\<close>

definition lookup_last :: "(string \<times> 'a) list \<Rightarrow> string \<Rightarrow> 'a option" where
  "lookup_last entries key = map_of (rev entries) key"

definition nameLookupFrom :: "(string \<times> string) list \<Rightarrow> (string \<times> string) list" where
  "nameLookupFrom contracts' = map (\<lambda>(name, address). (address, name)) contracts'"

definition tryToParseLog :: "(string \<Rightarrow> log \<Rightarrow> event result) \<Rightarrow> (string \<times> string) list \<Rightarrow> log \<Rightarrow> (string \<times> event) option" where
  "tryToParseLog parseLog contracts' l = (case lookup_last (nameLookupFrom contracts') (log_address l) of
      None \<Rightarrow> None
    | Some name \<Rightarrow> (case parseLog name l of Inr e \<Rightarrow> Some (log_address l, e) | Inl _ \<Rightarrow> None))"

definition parseLogs :: "(string \<Rightarrow> log \<Rightarrow> event result) \<Rightarrow> (string \<times> string) list \<Rightarrow> log list \<Rightarrow> (string \<times> event) list \<times> log list" where
  "parseLogs parseLog contracts' logs =
     (map the (filter (\<lambda>x. x \<noteq> None) (map (tryToParseLog parseLog contracts') logs)),
      filter (\<lambda>l. tryToParseLog parseLog contracts' l = None) logs)"

text \<open>The text of a decimal is followed by \<^verbatim>\<open>e18\<close>, although it has been divided by \<open>10\<^sup>8\<close>.\<close>

definition prettify :: "(string \<times> string) list \<Rightarrow> event_arg \<Rightarrow> string" where
  "prettify names arg = (case arg of
      BigNumberArg n \<Rightarrow> (if 10 ^ 9 \<le> n then Decimal_text (Decimal n) @ ''e18'' else show_nat n)
    | StringArg s \<Rightarrow> (if s = AddressZero then ''address(0)'' else (case lookup_last names s of Some name \<Rightarrow> name | None \<Rightarrow> s))
    | OtherArg s \<Rightarrow> s)"

definition starts_with_digit :: "string \<Rightarrow> bool" where
  "starts_with_digit s = (case s of [] \<Rightarrow> False | c # _ \<Rightarrow> c \<in> set ''0123456789'')"

definition logDescriptionToString :: "(string \<times> string) list \<Rightarrow> event \<Rightarrow> string" where
  "logDescriptionToString names e =
     event_name e @ ''({ '' @ join '', '' (map (\<lambda>(key, v). key @ '': '' @ prettify names v)
       (filter (\<lambda>(key, _). \<not> starts_with_digit key) (event_args e))) @ '' })''"

definition logsToString :: "(string \<Rightarrow> log \<Rightarrow> event result) \<Rightarrow> (string \<times> string) list \<Rightarrow> ethers_receipt \<Rightarrow> string" where
  "logsToString parseLog contracts' receipt =
     (let contractNameLookup = nameLookupFrom contracts';
          nameLookup = (er_from receipt, ''user'') # contractNameLookup;
          parsedLogs = fst (parseLogs parseLog contracts' (er_logs receipt))
      in if parsedLogs \<noteq> []
         then ''Logs of tx '' @ er_transactionHash receipt @ '':'' @ [CHR 10]
           @ join [CHR 10] (map (\<lambda>(address, e). ''  '' @ the (lookup_last contractNameLookup address) @ ''.'' @ logDescriptionToString nameLookup e) parsedLogs)
         else ''No logs were parsed in tx '' @ er_transactionHash receipt)"

section \<open>When a mined transaction is reported\<close>

text \<open>
  What the interfaces of the contracts promise of their events: the arguments that the client reads are big numbers.
\<close>

definition numbers_of_event :: "string \<Rightarrow> string list" where
  "numbers_of_event name = case_option [] id (map_of [(''TroveUpdated'', [''_coll'', ''_debt'']), (''HCHFBorrowingFeePaid'', [''_HCHFFee'']), (''Transfer'', [''value'']),
     (''EtherSent'', [''_amount'']), (''Liquidation'', [''_HCHFGasCompensation'', ''_collGasCompensation'', ''_liquidatedColl'', ''_liquidatedDebt'']),
     (''UserDepositChanged'', [''_newDeposit'']), (''ETHGainWithdrawn'', [''_ETH'', ''_HCHFLoss'']), (''HLQTPaidToDepositor'', [''_HLQT'']),
     (''Redemption'', [''_attemptedHCHFAmount'', ''_actualHCHFAmount'', ''_ETHSent'', ''_ETHFee''])] name)"

definition conforms :: "event \<Rightarrow> bool" where
  "conforms e \<longleftrightarrow> list_all (\<lambda>key. case map_of (event_args e) key of Some (BigNumberArg _) \<Rightarrow> True | _ \<Rightarrow> False) (numbers_of_event (event_name e))"

definition logs_conform :: "ethers_population \<Rightarrow> ethers_receipt \<Rightarrow> bool" where
  "logs_conform p r \<longleftrightarrow> list_all (\<lambda>key. list_all (\<lambda>l. log_address l = ep_addresses p key \<longrightarrow>
       (case ep_parseLog p key l of Inr e \<Rightarrow> conforms e | Inl _ \<Rightarrow> False)) (er_logs r))
     [''borrowerOperations'', ''hchfToken'', ''activePool'', ''troveManager'', ''stabilityPool'']"

text \<open>The events of a contract in a receipt.\<close>

definition emitted :: "ethers_population \<Rightarrow> string \<Rightarrow> string \<Rightarrow> ethers_receipt \<Rightarrow> event list" where
  "emitted p key name r = filter (\<lambda>e. event_name e = name)
     (map (\<lambda>l. projr (ep_parseLog p key l)) (filter (\<lambda>l. log_address l = ep_addresses p key) (er_logs r)))"

fun reportable :: "ethers_population \<Rightarrow> ethers_receipt \<Rightarrow> liquity_action \<Rightarrow> bool" where
  "reportable p r Action_closeTrove \<longleftrightarrow>
     filter (\<lambda>e. event_is ''from'' (er_from r) e \<and> event_is ''to'' AddressZero e) (emitted p ''hchfToken'' ''Transfer'' r) \<noteq> []"
| "reportable p r (Action_depositHCHFInStabilityPool _ _) \<longleftrightarrow> emitted p ''stabilityPool'' ''ETHGainWithdrawn'' r \<noteq> []"
| "reportable p r (Action_withdrawHCHFFromStabilityPool _) \<longleftrightarrow> emitted p ''stabilityPool'' ''ETHGainWithdrawn'' r \<noteq> []
     \<and> emitted p ''stabilityPool'' ''UserDepositChanged'' r \<noteq> []"
| "reportable p r Action_withdrawGainsFromStabilityPool \<longleftrightarrow> emitted p ''stabilityPool'' ''ETHGainWithdrawn'' r \<noteq> []"
| "reportable p r Action_transferCollateralGainToTrove \<longleftrightarrow> emitted p ''stabilityPool'' ''ETHGainWithdrawn'' r \<noteq> []"
| "reportable p r _ \<longleftrightarrow> True"

lemma mapM_total: "(\<And>x. x \<in> set xs \<Longrightarrow> \<exists>y. f x = Inr y) \<Longrightarrow> \<exists>ys. mapM f xs = Inr ys \<and> (ys = [] \<longleftrightarrow> xs = [])"
proof (induction xs)
  case (Cons x xs)
  then obtain y ys where "f x = Inr y" "mapM f xs = Inr ys" by (meson list.set_intros)
  then show ?case by simp
qed simp

lemma extractEvents_conform:
  assumes "logs_conform p r" and "key \<in> set [''borrowerOperations'', ''hchfToken'', ''activePool'', ''troveManager'', ''stabilityPool'']"
  shows "extractEvents p key (er_logs r) name = Inr (emitted p key name r)"
    and "e \<in> set (emitted p key name r) \<Longrightarrow> conforms e \<and> event_name e = name"
proof -
  have ok: "\<exists>e. ep_parseLog p key l = Inr e \<and> conforms e" if "l \<in> set (er_logs r)" "log_address l = ep_addresses p key" for l
    using assms that unfolding logs_conform_def list_all_iff by (fastforce split: sum.split_asm)
  have parsed: "mapM (ep_parseLog p key) xs = Inr (map (\<lambda>l. projr (ep_parseLog p key l)) xs)" if "\<forall>l \<in> set xs. \<exists>e. ep_parseLog p key l = Inr e" for xs
    using that by (induction xs) auto
  have "\<forall>l \<in> set (filter (\<lambda>l. log_address l = ep_addresses p key) (er_logs r)). \<exists>e. ep_parseLog p key l = Inr e" using ok by auto
  from parsed [OF this] show "extractEvents p key (er_logs r) name = Inr (emitted p key name r)"
    by (simp add: extractEvents_def emitted_def)
  show "e \<in> set (emitted p key name r) \<Longrightarrow> conforms e \<and> event_name e = name"
    using ok by (auto simp: emitted_def) (metis sum.sel(2))
qed

lemma event_decimal_conforms: "conforms e \<Longrightarrow> key \<in> set (numbers_of_event (event_name e)) \<Longrightarrow> \<exists>d. event_decimal key e = Inr d"
  by (auto simp: conforms_def list_all_iff event_decimal_def split: option.splits event_arg.splits)

text \<open>Reading a column of numbers off the events of a conforming receipt.\<close>

lemma column:
  assumes "logs_conform p r" and "key \<in> set [''borrowerOperations'', ''hchfToken'', ''activePool'', ''troveManager'', ''stabilityPool'']"
    and "\<forall>e. conforms e \<and> event_name e = name \<longrightarrow> (\<exists>y. f e = Inr y)"
  shows "\<exists>ys. mapM f (filter P (emitted p key name r)) = Inr ys \<and> (ys = [] \<longleftrightarrow> filter P (emitted p key name r) = [])"
  using extractEvents_conform(2) [OF assms(1,2)] assms(3) by (intro mapM_total) auto

lemmas column_all = column [where P = "\<lambda>_. True", unfolded filter_True]

lemma first_of_iff [simp]: "first_of xs = None \<longleftrightarrow> xs = []"
  by (simp add: first_of_def split: list.split)

lemma reads_number: "key \<in> set (numbers_of_event name) \<Longrightarrow> \<forall>e. conforms e \<and> event_name e = name \<longrightarrow> (\<exists>d. event_decimal key e = Inr d)"
  using event_decimal_conforms by blast

lemma reads_trove: "coll \<in> set (numbers_of_event name) \<Longrightarrow> debt' \<in> set (numbers_of_event name)
    \<Longrightarrow> \<forall>e. conforms e \<and> event_name e = name \<longrightarrow> (\<exists>t. event_trove c coll debt' e = Inr t)"
  using reads_number [of coll name] reads_number [of debt' name] by (force simp: event_trove_def)

lemma updated_trove_readable: "logs_conform p r \<Longrightarrow> \<exists>t. updated_trove p (er_logs r) = Inr t"
proof -
  assume c: "logs_conform p r"
  from column_all [OF c, of "''borrowerOperations''" "''TroveUpdated''" "event_trove (ep_constants p) ''_coll'' ''_debt''"]
    reads_trove [of "''_coll''" "''TroveUpdated''" "''_debt''" "ep_constants p"] show ?thesis
    by (auto simp: updated_trove_def extractEvents_conform(1) [OF c] numbers_of_event_def)
qed

lemma gains_readable:
  assumes "logs_conform p r"
  shows "emitted p ''stabilityPool'' ''ETHGainWithdrawn'' r = [] \<Longrightarrow> \<exists>e. extractStabilityPoolGainsWithdrawalDetails p (er_logs r) = Inl e"
    and "emitted p ''stabilityPool'' ''ETHGainWithdrawn'' r \<noteq> [] \<Longrightarrow> \<exists>g. extractStabilityPoolGainsWithdrawalDetails p (er_logs r) = Inr g
      \<and> (gd_newHCHFDeposit g = None \<longleftrightarrow> emitted p ''stabilityPool'' ''UserDepositChanged'' r = [])"
proof -
  have "\<forall>e. conforms e \<and> event_name e = ''ETHGainWithdrawn'' \<longrightarrow>
      (\<exists>y. rbind (event_decimal ''_ETH'' e) (\<lambda>g. rbind (event_decimal ''_HCHFLoss'' e) (\<lambda>l. Inr (g, l))) = Inr y)"
    using reads_number [of "''_ETH''" "''ETHGainWithdrawn''"] reads_number [of "''_HCHFLoss''" "''ETHGainWithdrawn''"]
    by (force simp: numbers_of_event_def)
  from column_all [OF assms _ this, of "''stabilityPool''"]
  obtain gs where gs: "mapM (\<lambda>e. rbind (event_decimal ''_ETH'' e) (\<lambda>g. rbind (event_decimal ''_HCHFLoss'' e) (\<lambda>l. Inr (g, l))))
      (emitted p ''stabilityPool'' ''ETHGainWithdrawn'' r) = Inr gs" "gs = [] \<longleftrightarrow> emitted p ''stabilityPool'' ''ETHGainWithdrawn'' r = []"
    by auto
  obtain ds where ds: "mapM (event_decimal ''_newDeposit'') (emitted p ''stabilityPool'' ''UserDepositChanged'' r) = Inr ds"
    "ds = [] \<longleftrightarrow> emitted p ''stabilityPool'' ''UserDepositChanged'' r = []"
    using column_all [OF assms, of "''stabilityPool''" "''UserDepositChanged''" "event_decimal ''_newDeposit''"]
      reads_number [of "''_newDeposit''" "''UserDepositChanged''"] by (auto simp: numbers_of_event_def)
  obtain hs where hs: "mapM (event_decimal ''_HLQT'') (emitted p ''stabilityPool'' ''HLQTPaidToDepositor'' r) = Inr hs"
    using column_all [OF assms, of "''stabilityPool''" "''HLQTPaidToDepositor''" "event_decimal ''_HLQT''"]
      reads_number [of "''_HLQT''" "''HLQTPaidToDepositor''"] by (auto simp: numbers_of_event_def)
  note read = extractStabilityPoolGainsWithdrawalDetails_def extractEvents_conform(1) [OF assms] gs(1) ds(1) hs
  show "emitted p ''stabilityPool'' ''ETHGainWithdrawn'' r = [] \<Longrightarrow> \<exists>e. extractStabilityPoolGainsWithdrawalDetails p (er_logs r) = Inl e"
    using gs(2) by (simp add: read) (simp add: first_of_def)
  assume "emitted p ''stabilityPool'' ''ETHGainWithdrawn'' r \<noteq> []"
  with gs(2) obtain g gs' where "gs = g # gs'" by (cases gs) auto
  with ds(2) show "\<exists>g. extractStabilityPoolGainsWithdrawalDetails p (er_logs r) = Inr g
      \<and> (gd_newHCHFDeposit g = None \<longleftrightarrow> emitted p ''stabilityPool'' ''UserDepositChanged'' r = [])"
    by (simp add: read) (simp add: first_of_def [of "g # gs'"] split_def extractEvents_conform(1) [OF assms] hs)
qed

lemma gains_iff: "logs_conform p r \<Longrightarrow> (\<exists>g. extractStabilityPoolGainsWithdrawalDetails p (er_logs r) = Inr g) \<longleftrightarrow>
    emitted p ''stabilityPool'' ''ETHGainWithdrawn'' r \<noteq> []"
  using gains_readable by fastforce

lemma closure_readable:
  assumes "logs_conform p r"
  shows "(\<exists>d. et_parse (wrapTroveClosure p raw) r = Inr d) \<longleftrightarrow> reportable p r Action_closeTrove"
proof -
  note events = extractEvents_conform(1) [OF assms]
  obtain repaid where repaid: "mapM (event_decimal ''value'') (filter (\<lambda>e. event_is ''from'' (er_from r) e \<and> event_is ''to'' AddressZero e)
      (emitted p ''hchfToken'' ''Transfer'' r)) = Inr repaid" "repaid = [] \<longleftrightarrow> \<not> reportable p r Action_closeTrove"
    using column [OF assms, of "''hchfToken''" "''Transfer''" "event_decimal ''value''" "\<lambda>e. event_is ''from'' (er_from r) e \<and> event_is ''to'' AddressZero e"]
      reads_number [of "''value''" "''Transfer''"] by (auto simp: numbers_of_event_def)
  obtain withdrawn where "mapM (event_decimal ''_amount'') (filter (event_is ''_to'' (er_from r)) (emitted p ''activePool'' ''EtherSent'' r)) = Inr withdrawn"
    using column [OF assms, of "''activePool''" "''EtherSent''" "event_decimal ''_amount''" "event_is ''_to'' (er_from r)"]
      reads_number [of "''_amount''" "''EtherSent''"] by (auto simp: numbers_of_event_def)
  with repaid show ?thesis
    by (cases repaid) (simp_all add: wrapTroveClosure_def events first_of_def del: reportable.simps)
qed

lemma withdrawal_readable:
  assumes "logs_conform p r"
  shows "(\<exists>d. et_parse (wrapStabilityDepositWithdrawal p raw) r = Inr d) \<longleftrightarrow> reportable p r (Action_withdrawHCHFFromStabilityPool a)"
proof -
  note events = extractEvents_conform(1) [OF assms]
  obtain w where w: "mapM (event_decimal ''value'') (filter (\<lambda>e. event_is ''from'' (ep_addresses p ''stabilityPool'') e \<and> event_is ''to'' (er_from r) e)
      (emitted p ''hchfToken'' ''Transfer'' r)) = Inr w"
    using column [OF assms, of "''hchfToken''" "''Transfer''" "event_decimal ''value''"
        "\<lambda>e. event_is ''from'' (ep_addresses p ''stabilityPool'') e \<and> event_is ''to'' (er_from r) e"]
      reads_number [of "''value''" "''Transfer''"] by (auto simp: numbers_of_event_def)
  show ?thesis
  proof (cases "emitted p ''stabilityPool'' ''ETHGainWithdrawn'' r = []")
    case True
    with gains_readable(1) [OF assms] show ?thesis by (auto simp: wrapStabilityDepositWithdrawal_def)
  next
    case False
    from gains_readable(2) [OF assms this] obtain g where "extractStabilityPoolGainsWithdrawalDetails p (er_logs r) = Inr g"
      "gd_newHCHFDeposit g = None \<longleftrightarrow> emitted p ''stabilityPool'' ''UserDepositChanged'' r = []"
      by (elim exE conjE)
    with w False show ?thesis
      by (cases "gd_newHCHFDeposit g") (simp_all add: wrapStabilityDepositWithdrawal_def events)
  qed
qed

lemma fee_readable:
  assumes "logs_conform p r"
  shows "\<exists>d. et_parse (wrapTroveChangeWithFees p params raw) r = Inr d"
proof -
  obtain t where "updated_trove p (er_logs r) = Inr t" using updated_trove_readable [OF assms] by blast
  moreover obtain xs where "mapM (event_decimal ''_HCHFFee'') (emitted p ''borrowerOperations'' ''HCHFBorrowingFeePaid'' r) = Inr xs"
    using column_all [OF assms, of "''borrowerOperations''" "''HCHFBorrowingFeePaid''" "event_decimal ''_HCHFFee''"]
      reads_number [of "''_HCHFFee''" "''HCHFBorrowingFeePaid''"] by (auto simp: numbers_of_event_def)
  ultimately show ?thesis by (simp add: wrapTroveChangeWithFees_def extractEvents_conform(1) [OF assms])
qed

lemma liquidation_readable:
  assumes "logs_conform p r"
  shows "\<exists>d. et_parse (wrapLiquidation p raw) r = Inr d"
proof -
  let ?f = "\<lambda>e. rbind (event_decimal ''_collGasCompensation'' e) (\<lambda>c. rbind (event_decimal ''_HCHFGasCompensation'' e) (\<lambda>h.
    rbind (event_trove (ep_constants p) ''_liquidatedColl'' ''_liquidatedDebt'' e) (\<lambda>t.
    Inr \<lparr>lt_collateralGasCompensation = c, lt_hchfGasCompensation = h, lt_totalLiquidated = t\<rparr>)))"
  have "\<forall>e. conforms e \<and> event_name e = ''Liquidation'' \<longrightarrow> (\<exists>y. ?f e = Inr y)"
    using reads_number [of "''_collGasCompensation''" "''Liquidation''"] reads_number [of "''_HCHFGasCompensation''" "''Liquidation''"]
      reads_trove [of "''_liquidatedColl''" "''Liquidation''" "''_liquidatedDebt''" "ep_constants p"]
    by (force simp: numbers_of_event_def)
  from column_all [OF assms _ this, of "''troveManager''"] show ?thesis
    by (auto simp: wrapLiquidation_def extractEvents_conform(1) [OF assms])
qed

lemma redemption_readable:
  assumes "logs_conform p r"
  shows "\<exists>d. parse_redemption p r = Inr d"
proof -
  let ?f = "\<lambda>e. rbind (event_decimal ''_attemptedHCHFAmount'' e) (\<lambda>w. rbind (event_decimal ''_actualHCHFAmount'' e) (\<lambda>x.
    rbind (event_decimal ''_ETHSent'' e) (\<lambda>y. rbind (event_decimal ''_ETHFee'' e) (\<lambda>z.
    Inr \<lparr>rr_attemptedHCHFAmount = w, rr_actualHCHFAmount = x, rr_collateralTaken = y, rr_fee = z\<rparr>))))"
  have "\<forall>e. conforms e \<and> event_name e = ''Redemption'' \<longrightarrow> (\<exists>y. ?f e = Inr y)"
    using reads_number [of "''_attemptedHCHFAmount''" "''Redemption''"] reads_number [of "''_actualHCHFAmount''" "''Redemption''"]
      reads_number [of "''_ETHSent''" "''Redemption''"] reads_number [of "''_ETHFee''" "''Redemption''"]
    by (force simp: numbers_of_event_def)
  from column_all [OF assms _ this, of "''troveManager''"] show ?thesis
    by (auto simp: parse_redemption_def extractEvents_conform(1) [OF assms])
qed

lemma gain_wrappers_readable:
  assumes "logs_conform p r"
  shows "(\<exists>d. et_parse (wrapStabilityPoolGainsWithdrawal p raw) r = Inr d) \<longleftrightarrow> emitted p ''stabilityPool'' ''ETHGainWithdrawn'' r \<noteq> []"
    and "(\<exists>d. et_parse (wrapStabilityDepositTopup p x raw) r = Inr d) \<longleftrightarrow> emitted p ''stabilityPool'' ''ETHGainWithdrawn'' r \<noteq> []"
    and "(\<exists>d. et_parse (wrapCollateralGainTransfer p raw) r = Inr d) \<longleftrightarrow> emitted p ''stabilityPool'' ''ETHGainWithdrawn'' r \<noteq> []"
  using gains_iff [OF assms] updated_trove_readable [OF assms]
  by (auto simp: wrapStabilityPoolGainsWithdrawal_def wrapStabilityDepositTopup_def wrapCollateralGainTransfer_def rbind_eq_Inr_iff)

lemma simple_readable [simp]: "\<exists>d. et_parse (wrapSimpleTransaction raw) r = Inr d"
  by (simp add: wrapSimpleTransaction_def)

lemma simple_call_tx: "simple_call p key name f args = Inr tx \<Longrightarrow> \<exists>raw. tx = wrapSimpleTransaction raw"
  by (auto simp: simple_call_def rbind_eq_Inr_iff)

lemma adjust_tx: "Ethers_adjustTrove p ps m a = Inr tx \<Longrightarrow> \<exists>x raw. tx = wrapTroveChangeWithFees p x raw"
  by (auto simp: Ethers_adjustTrove_def rbind_eq_Inr_iff)

lemmas simple_methods = Ethers_amount_call_def Ethers_claimCollateralSurplus_def Ethers_setPrice_def Ethers_stakeHLQT_def Ethers_unstakeHLQT_def
  Ethers_withdrawGainsFromStaking_def Ethers_registerFrontend_def Ethers_approveUniTokens_def Ethers_stakeUniTokens_def
  Ethers_unstakeUniTokens_def Ethers_withdrawHLQTRewardFromLiquidityMining_def Ethers_exitLiquidityMining_def

lemmas adjust_methods = Ethers_depositCollateral_def Ethers_withdrawCollateral_def Ethers_borrowHCHF_def Ethers_repayHCHF_def

lemma details_readable:
  assumes "PopulatableEthersLiquity p a = Inr tx" and "logs_conform p r"
  shows "(\<exists>d. et_parse tx r = Inr d) \<longleftrightarrow> reportable p r a"
proof (cases a)
  case Action_closeTrove
  with assms(1) obtain raw where "tx = wrapTroveClosure p raw" by (auto simp: Ethers_closeTrove_def rbind_eq_Inr_iff)
  with closure_readable [OF assms(2)] Action_closeTrove show ?thesis by simp
next
  case (Action_withdrawHCHFFromStabilityPool x)
  with assms(1) obtain raw where "tx = wrapStabilityDepositWithdrawal p raw"
    by (auto simp: Ethers_withdrawHCHFFromStabilityPool_def rbind_eq_Inr_iff)
  with withdrawal_readable [OF assms(2)] Action_withdrawHCHFFromStabilityPool show ?thesis by simp
next
  case (Action_depositHCHFInStabilityPool x t)
  with assms(1) obtain y raw where "tx = wrapStabilityDepositTopup p y raw" by (auto simp: Ethers_depositHCHFInStabilityPool_def rbind_eq_Inr_iff)
  with gain_wrappers_readable [OF assms(2)] Action_depositHCHFInStabilityPool show ?thesis by simp
next
  case Action_withdrawGainsFromStabilityPool
  with assms(1) obtain raw where "tx = wrapStabilityPoolGainsWithdrawal p raw" by (auto simp: Ethers_withdrawGainsFromStabilityPool_def rbind_eq_Inr_iff)
  with gain_wrappers_readable [OF assms(2)] Action_withdrawGainsFromStabilityPool show ?thesis by simp
next
  case Action_transferCollateralGainToTrove
  with assms(1) obtain raw where "tx = wrapCollateralGainTransfer p raw" by (auto simp: Ethers_transferCollateralGainToTrove_def rbind_eq_Inr_iff)
  with gain_wrappers_readable [OF assms(2)] Action_transferCollateralGainToTrove show ?thesis by simp
next
  case (Action_redeemHCHF x m)
  with assms(1) have "et_parse tx = parse_redemption p"
    by (auto simp: Ethers_redeemHCHF_def Ethers_populateRedemption_def rbind_eq_Inr_iff Let_def ethers_transaction.truncate_def split: if_split_asm)
  with redemption_readable [OF assms(2)] Action_redeemHCHF show ?thesis by simp
next
  case (Action_openTrove ps m)
  with assms(1) fee_readable [OF assms(2)] show ?thesis by (auto simp: Ethers_openTrove_def rbind_eq_Inr_iff)
next
  case (Action_liquidate t)
  with assms(1) liquidation_readable [OF assms(2)] show ?thesis
    by (cases t) (auto simp: Ethers_liquidate_def rbind_eq_Inr_iff)
next
  case (Action_liquidateUpTo n)
  with assms(1) liquidation_readable [OF assms(2)] show ?thesis by (auto simp: Ethers_liquidateUpTo_def rbind_eq_Inr_iff)
qed (use assms(1) fee_readable [OF assms(2)] in
    \<open>auto simp: simple_methods adjust_methods rbind_eq_Inr_iff split: if_split_asm dest!: simple_call_tx adjust_tx\<close>)

text \<open>
  C16. A mined transaction is reported, with exceptions. If a transaction is mined with success and the contracts log what their interfaces
  promise, the client's method returns its details, except that closing a trove fails if the HCHF token logged no transfer from the
  user to the zero address, and the four operations on a deposit fail if the pool logged no withdrawn gain (and withdrawing, if it logged no
  changed deposit). Whether the store exists makes no difference.
\<close>

theorem mined_transaction_reported_iff:
  assumes "PopulatableEthersLiquity p a = Inr tx" and "signer_sendTransaction net = Some sender" "sender (et_raw tx) = Inr h"
    and "waitForTransaction net h = Inr (Some r)" "er_status r = Some 1" and "logs_conform p r"
  shows "(\<exists>d. EthersLiquity_transact net hasStore p a = Inr d) \<longleftrightarrow> reportable p r a"
proof -
  have "EthersLiquity_transact net hasStore p a = et_parse tx r"
    using assms(1-5) by (cases "et_parse tx r")
      (simp_all add: EthersLiquity_transact_def SendableEthersLiquity_def Sendable_sendTransaction_def Ethers_send_def waitForSuccess_def
        Ethers_waitForReceipt_def receiptFrom_def js_assert_def)
  with details_readable [OF assms(1,6)] show ?thesis by simp
qed

definition sample_receipt :: ethers_receipt where
  "sample_receipt = \<lparr>er_status = Some 1, er_from = ''0xA'', er_transactionHash = ''0x1'', er_logs = [\<lparr>log_address = ''0xborrowerOperations'', log_payload = ''trove''\<rparr>]\<rparr>"

definition sample_network :: ethers_network where
  "sample_network = \<lparr>signer_sendTransaction = Some (\<lambda>_. Inr ''0x1''), getTransactionReceipt = (\<lambda>_. Inr None), waitForTransaction = (\<lambda>_. Inr (Some sample_receipt))\<rparr>"

lemma sample_logs_conform: "logs_conform sample_ethers_population sample_receipt"
  by (simp add: logs_conform_def sample_receipt_def sample_ethers_population_def conforms_def sample_event_def numbers_of_event_def)

theorem mined_transaction_reported_iff_witness:
  "(\<exists>d. EthersLiquity_transact sample_network True sample_ethers_population Action_claimCollateralSurplus = Inr d)
   \<and> \<not> (\<exists>d. EthersLiquity_transact sample_network True sample_ethers_population Action_closeTrove = Inr d)"
proof -
  let ?p = sample_ethers_population and ?c = "\<lambda>name. \<lparr>call_contract = ''borrowerOperations'', call_function = name, call_args = [], call_overrides = fixed_gas None\<rparr>"
  have net: "signer_sendTransaction sample_network = Some (\<lambda>_. Inr ''0x1'')" "waitForTransaction sample_network ''0x1'' = Inr (Some sample_receipt)"
    "er_status sample_receipt = Some 1"
    by (simp_all add: sample_network_def sample_receipt_def)
  have "PopulatableEthersLiquity ?p Action_claimCollateralSurplus = Inr (wrapSimpleTransaction ''claimCollateral'')"
    "PopulatableEthersLiquity ?p Action_closeTrove = Inr (wrapTroveClosure ?p ''closeTrove'')"
    by (simp_all add: Ethers_claimCollateralSurplus_def simple_call_def Ethers_closeTrove_def, simp_all add: sample_ethers_population_def)
  from this [THEN mined_transaction_reported_iff, OF net(1) refl net(2,3) sample_logs_conform]
  show ?thesis by (simp add: emitted_def sample_receipt_def) (simp add: sample_ethers_population_def)
qed

section \<open>Consent\<close>

lemma Ethers_approve_update:
  assumes "Ethers_approve_spending c token spender amount u (Some s) = (s', Inr ())"
  shows "\<exists>b t. s' = Some t \<and> baseState (Ethers_refresh_in c s) = Some b \<and> baseState t = Some (reduce b u) \<and> consistent t"
proof -
  obtain t r where up: "store_update polled_subclass (eco_ids c) (eco_call c) (Some u) None (Ethers_refresh_in c s) = (t, Inr r)" "s' = Some t"
    using assms by (auto simp: Ethers_approve_spending_def rbind_eq_Inr_iff Let_def split: option.split_asm sum.split_asm prod.split_asm)
  obtain q called where r: "r = (q, called)" by (cases r)
  from up(1) [unfolded r] obtain b where "baseState (Ethers_refresh_in c s) = Some b" "baseState t = Some (reduce b u)"
    by (rule update_success_plain) auto
  with update_consistent [OF up(1)] up(2) show ?thesis by blast
qed

text \<open>
  What the three approvals have in common: one field of the base state is replaced in advance, unless it compares equal already. Without a store, the
  approval is sent and the method fails all the same.
\<close>

locale ethers_approval =
  fixes approve :: "ethers_consent \<Rightarrow> decimal object \<Rightarrow> polled_extra store option \<Rightarrow> polled_extra store option \<times> unit result"
    and token :: "ethers_consent \<Rightarrow> string result"
    and spender :: "ethers_consent \<Rightarrow> string"
    and advance :: "decimal object \<Rightarrow> base_state_update"
    and allowance :: "base_state \<Rightarrow> decimal object"
    and set_allowance :: "decimal object \<Rightarrow> base_state \<Rightarrow> base_state"
  assumes approve_sends: "approve c a s = Ethers_approve_spending c (token c) (spender c) a (advance a) s"
    and reduce_advance: "reduce b (advance a) = set_allowance a b
      \<or> reduce b (advance a) = b \<and> (coherent (allowance b) (Some a) \<longrightarrow> content (allowance b) = content a)"
    and allowance_set: "allowance (set_allowance a b) = a"
begin

lemma shows_allowance:
  assumes "approve c a (Some s) = (s', Inr ())" and "baseState (Ethers_refresh_in c s) = Some b" and "coherent (allowance b) (Some a)"
  shows "\<exists>t b'. s' = Some t \<and> baseState t = Some b' \<and> content (allowance b') = content a \<and> (b' = b \<or> b' = set_allowance a b) \<and> consistent t"
proof -
  obtain t where "s' = Some t" "baseState t = Some (reduce b (advance a))" "consistent t"
    using Ethers_approve_update assms(1,2) unfolding approve_sends by fastforce
  with assms(3) reduce_advance [of b a] show ?thesis by (auto simp: allowance_set)
qed

lemma fails_without_store: "\<exists>e. approve c a None = (None, Inl e)"
  by (auto simp: approve_sends Ethers_approve_spending_def split: option.split sum.split)

end

interpretation ethers_hchf: ethers_approval Ethers_approveHchfToSpendHchf "\<lambda>c. hchfToken_tokenAddress (eco_contracts c) None"
  "\<lambda>c. ec_hchfToken (eco_connection c)" "\<lambda>a. no_fields\<lparr>new_hchfTokenAllowanceOfHchfContract := Some a\<rparr>"
  hchfTokenAllowanceOfHchfContract "\<lambda>a b. b\<lparr>hchfTokenAllowanceOfHchfContract := a\<rparr>"
  by unfold_locales (simp_all add: Ethers_approveHchfToSpendHchf_def reduce_one_field)

interpretation ethers_hlqt: ethers_approval Ethers_approveHlqtToSpendHlqt "\<lambda>c. hlqtToken_tokenAddress (eco_contracts c) None"
  "\<lambda>c. ec_hlqtToken (eco_connection c)" "\<lambda>a. no_fields\<lparr>new_hlqtTokenAllowanceOfHlqtContract := Some a\<rparr>"
  hlqtTokenAllowanceOfHlqtContract "\<lambda>a b. b\<lparr>hlqtTokenAllowanceOfHlqtContract := a\<rparr>"
  by unfold_locales (simp_all add: Ethers_approveHlqtToSpendHlqt_def reduce_one_field)

interpretation ethers_lp: ethers_approval Ethers_approveSaucerSwapToSpendLpToken "\<lambda>c. unipool_uniToken (eco_contracts c) None"
  "\<lambda>c. ec_saucerSwapPool (eco_connection c)" "\<lambda>a. no_fields\<lparr>new_uniTokenAllowance := Some a\<rparr>"
  uniTokenAllowance "\<lambda>a b. b\<lparr>uniTokenAllowance := a\<rparr>"
  by unfold_locales (simp_all add: Ethers_approveSaucerSwapToSpendLpToken_def reduce_one_field)

text \<open>
  An object of the class without a store can give no consent: every approval and every association fails, although its transaction may have
  been mined, or polls for ever.
\<close>

theorem no_consent_without_store:
  "(\<exists>e. Ethers_approveHchfToSpendHchf c a None = (None, Inl e)) \<and> (\<exists>e. Ethers_approveHlqtToSpendHlqt c a None = (None, Inl e))
   \<and> (\<exists>e. Ethers_approveSaucerSwapToSpendLpToken c a None = (None, Inl e))
   \<and> Ethers_change_association fuel c associate token None \<in> {None} \<union> range (\<lambda>e. Some (None, Inl e))"
proof -
  have "Ethers_change_association fuel c associate token None \<in> {None} \<union> range (\<lambda>e. Some (None, Inl e))"
    by (auto simp: Ethers_change_association_def split: option.split sum.split prod.split)
  with ethers_hchf.fails_without_store ethers_hlqt.fails_without_store ethers_lp.fails_without_store show ?thesis by blast
qed

text \<open>
  If the first request to the mirror node fails, waiting for a dissociation ends at once, whatever the ledger holds: a failed read counts as one
  that found no tokens.
\<close>

theorem failed_read_counts_as_dissociated:
  assumes "read 0 = Inl e"
  shows "waitForTokenState (Suc fuel) read None (Some ds) = Some ([], 1, 2000)"
  using assms by (simp add: waitForTokenState_def has_required_def list_all_iff getAttemptWaitTime_def)

text \<open>
  With a store, associating and dissociating end: once the transaction has gone through and the mirror node shows the wanted state for the first time in
  poll \<open>n\<close>, the method returns with fuel for \<open>n + 1\<close> polls, and the store has been refreshed.
\<close>

theorem Ethers_association_returns:
  assumes "eco_signer c = Some signer" and "token = Inr a" and "(if associate then token_associate else token_dissociate) signer a = Inr ()"
    and "Ethers_getTokenIds (eco_contracts c) (eco_mirror c) = Inr ids" and "tokenIdString (eco_mirror c) a = Inr tokenId"
    and "wanted_state associate tokenId (known_tokens (Ethers_poll_tokens c ids) n)"
    and "\<forall>j<n. \<not> wanted_state associate tokenId (known_tokens (Ethers_poll_tokens c ids) j)" and "n < fuel"
  shows "Ethers_change_association fuel c associate token (Some s) = Some (Some (Ethers_refresh_in c s), Inr ())"
proof -
  have "wait_loop fuel (Ethers_poll_tokens c ids) (if associate then [tokenId] else []) (if associate then [] else [tokenId]) 0 0 []
      = Some (known_tokens (Ethers_poll_tokens c ids) n, n + 1, wait_until (n + 1))"
    using assms(6-8) by (intro wait_loop_returns) (auto simp: has_required_def wanted_state_def)
  with assms(1-5) show ?thesis
    by (cases associate) (simp_all add: Ethers_change_association_def associateWithToken_def dissociateFromToken_def waitForTokenState_def)
qed

section \<open>Connecting\<close>

text \<open>
  \<^verbatim>\<open>EthersLiquityConnection.ts\<close> and the static methods of the two classes. The deployments are those of the generated files, an argument by
  chain; contracts are made from their addresses by the Ethers library.
\<close>

record deployment =
  dep_addresses :: "string \<Rightarrow> string"
  dep_totalStabilityPoolHLQTReward :: string
  dep_liquidityMiningHLQTRewardRate :: string

record connect_params =
  cp_userAddress :: "string option"
  cp_frontendTag :: "string option"
  cp_useStore :: "string option"

record connection =
  cn_ethers :: ethers
  cn_liquidityMiningHLQTRewardRate :: decimal
  cn_useStore :: "string option"

definition getConnection :: "constants \<Rightarrow> (block_tag \<Rightarrow> nat result) option \<Rightarrow> deployment \<Rightarrow> connect_params \<Rightarrow> connection result" where
  "getConnection c multicall d optionalParams =
     (if cp_useStore optionalParams \<noteq> None \<and> the (cp_useStore optionalParams) \<notin> set [''blockPolled'']
      then Inl (Error (''Invalid useStore value '' @ the (cp_useStore optionalParams)))
      else rbind (Decimal_from (Text (dep_totalStabilityPoolHLQTReward d))) (\<lambda>reward.
           rbind (Decimal_from (Text (dep_liquidityMiningHLQTRewardRate d))) (\<lambda>rate.
           Inr \<lparr>cn_ethers = \<lparr>ec_userAddress = cp_userAddress optionalParams, ec_frontendTag = cp_frontendTag optionalParams,
                  ec_totalStabilityPoolHLQTReward = reward, ec_multicall = multicall, ec_hchfToken = dep_addresses d ''hchfToken'',
                  ec_hlqtToken = dep_addresses d ''hlqtToken'', ec_saucerSwapPool = dep_addresses d ''saucerSwapPool'',
                  ec_uniToken = dep_addresses d ''uniToken'', ec_constants = c\<rparr>,
                cn_liquidityMiningHLQTRewardRate = rate, cn_useStore = cp_useStore optionalParams\<rparr>)))"

definition getConnectionWithBlockPolledStore ::
  "constants \<Rightarrow> (block_tag \<Rightarrow> nat result) option \<Rightarrow> deployment \<Rightarrow> connect_params \<Rightarrow> connection result" where
  "getConnectionWithBlockPolledStore c multicall d options = getConnection c multicall d (options\<lparr>cp_useStore := Some ''blockPolled''\<rparr>)"

definition hasMulticall :: "nat \<Rightarrow> bool" where
  "hasMulticall chainId \<longleftrightarrow> chainId \<in> set [1, 3, 4, 5, 42]"

definition connectToMulticall :: "(block_tag \<Rightarrow> nat result) \<Rightarrow> nat \<Rightarrow> (block_tag \<Rightarrow> nat result) option" where
  "connectToMulticall contract chainId = (if hasMulticall chainId then Some contract else None)"

definition connectByChainId ::
  "constants \<Rightarrow> (block_tag \<Rightarrow> nat result) \<Rightarrow> (nat \<Rightarrow> deployment option) \<Rightarrow> nat \<Rightarrow> connect_params \<Rightarrow> connection result" where
  "connectByChainId c contract deployments chainId optionalParams = (case deployments chainId of
      None \<Rightarrow> Inl (Error (''Unsupported network (chainId = '' @ show_nat chainId @ '')''))
    | Some d \<Rightarrow> getConnection c (connectToMulticall contract chainId) d optionalParams)"

datatype signer_or_provider = SignerWithProvider "string result" "nat result" | SignerOnly "string result" | ProviderOnly "nat result"

text \<open>A provider is its chain; a signer also has an address.\<close>

definition getProviderAndSigner :: "signer_or_provider \<Rightarrow> (nat result \<times> string result option) result" where
  "getProviderAndSigner x = (case x of
      SignerWithProvider address chain \<Rightarrow> Inr (chain, Some address)
    | SignerOnly address \<Rightarrow> Inl (Error ''Signer must have a Provider'')
    | ProviderOnly chain \<Rightarrow> Inr (chain, None))"

definition connect ::
  "constants \<Rightarrow> (block_tag \<Rightarrow> nat result) \<Rightarrow> (nat \<Rightarrow> deployment option) \<Rightarrow> signer_or_provider \<Rightarrow> connect_params \<Rightarrow> connection result" where
  "connect c contract deployments x optionalParams =
     rbind (getProviderAndSigner x) (\<lambda>(chain, signer).
     rbind (case signer of
              None \<Rightarrow> Inr optionalParams
            | Some address \<Rightarrow>
                (if cp_userAddress optionalParams \<noteq> None then Inl (Error ''Can't override userAddress when connecting through Signer'')
                 else rbind address (\<lambda>a. Inr (optionalParams\<lparr>cp_userAddress := Some a\<rparr>)))) (\<lambda>params.
     rbind chain (\<lambda>chainId. connectByChainId c contract deployments chainId params)))"

text \<open>The reader that \<^verbatim>\<open>_from\<close> makes, with the store if there is to be one.\<close>

definition ReadableEthersLiquity_from :: "(string \<Rightarrow> nat) \<Rightarrow> contracts \<Rightarrow> polled_extra store \<Rightarrow> connection \<Rightarrow> block_tag option reader" where
  "ReadableEthersLiquity_from ids k store connection' =
     (if cn_useStore connection' = Some ''blockPolled'' then BlockPolled_reader ids (cn_ethers connection') k store
      else Ethers_reader (cn_ethers connection') k)"

lemma connect_user:
  assumes "connect c contract deployments (SignerWithProvider (Inr a) (Inr chainId)) params = Inr cn"
  shows "ec_userAddress (cn_ethers cn) = Some a \<and> cn_useStore cn \<in> {None, Some ''blockPolled''}
    \<and> (ec_multicall (cn_ethers cn) \<noteq> None \<longleftrightarrow> hasMulticall chainId)"
  using assms by (cases "cp_useStore params") (auto simp: connect_def getProviderAndSigner_def connectByChainId_def connectToMulticall_def getConnection_def rbind_eq_Inr_iff
      split: if_split_asm option.split_asm)

end
