(* ===== verification/Ethers_Observe.thy ===== *)
theory Ethers_Observe
  imports Ethers_Read
begin

text \<open>
  Watching values of the protocol with the Ethereum client, \<^verbatim>\<open>packages/lib-ethers/src/ObservableEthersLiquity.ts\<close>. Every method registers listeners for
  events of contracts, and all of them feed one debounced function that reads the value at the latest block and passes it on.

  A method is modelled by what it registers and reads (a \<open>watch\<close>); the machine below runs one watch. The contracts' events and the
  library's event filters are data: a filter names a contract, an event and for its leading arguments either a value or any value.
\<close>

section \<open>Debouncing\<close>

record debounced =
  timeoutId :: bool
  latestBlock :: nat

definition new_debounced :: debounced where
  "new_debounced = \<lparr>timeoutId = False, latestBlock = 0\<rparr>"

text \<open>The function \<^verbatim>\<open>debounce\<close> returns: an event restarts the timer.\<close>

definition debounce_event :: "nat option \<Rightarrow> debounced \<Rightarrow> debounced" where
  "debounce_event blockNumber d =
     (let d1 = (case blockNumber of Some b \<Rightarrow> (if latestBlock d < b then d\<lparr>latestBlock := b\<rparr> else d) | None \<Rightarrow> d) in d1\<lparr>timeoutId := True\<rparr>)"

section \<open>What is watched\<close>

record chain_event =
  ce_contract :: string
  ce_name :: string
  ce_args :: "string list"
  ce_blockNumber :: "nat option"

record event_filter =
  ef_contract :: string
  ef_name :: string
  ef_args :: "string option list"

definition filter_matches :: "event_filter \<Rightarrow> chain_event \<Rightarrow> bool" where
  "filter_matches f e \<longleftrightarrow> ef_contract f = ce_contract e \<and> ef_name f = ce_name e \<and> length (ef_args f) \<le> length (ce_args e)
     \<and> (\<forall>(wanted, arg) \<in> set (zip (ef_args f) (ce_args e)). wanted = None \<or> wanted = Some arg)"

text \<open>A registered listener passes an event on if its first argument is the given address, or always.\<close>

record listener =
  li_filter :: event_filter
  li_toAddress :: "string option"

definition listener_passes :: "listener \<Rightarrow> chain_event \<Rightarrow> bool" where
  "listener_passes l e \<longleftrightarrow> filter_matches (li_filter l) e
     \<and> (case li_toAddress l of None \<Rightarrow> True | Some a \<Rightarrow> (case ce_args e of x # _ \<Rightarrow> x = a | [] \<Rightarrow> False))"

record 'v watch =
  wa_listeners :: "listener list"
  wa_read :: "nat \<Rightarrow> 'v result"

record addresses =
  ad_troveManager :: string
  ad_borrowerOperations :: string
  ad_activePool :: string
  ad_defaultPool :: string
  ad_stabilityPool :: string
  ad_hchfToken :: string

abbreviation on_event :: "string \<Rightarrow> string \<Rightarrow> string option list \<Rightarrow> listener" where
  "on_event c n args \<equiv> \<lparr>li_filter = \<lparr>ef_contract = c, ef_name = n, ef_args = args\<rparr>, li_toAddress = None\<rparr>"

abbreviation on_event_to :: "string \<Rightarrow> string \<Rightarrow> string \<Rightarrow> listener" where
  "on_event_to c n a \<equiv> \<lparr>li_filter = \<lparr>ef_contract = c, ef_name = n, ef_args = []\<rparr>, li_toAddress = Some a\<rparr>"

definition watchTotalRedistributed :: "ethers \<Rightarrow> contracts \<Rightarrow> addresses \<Rightarrow> trove watch result" where
  "watchTotalRedistributed this k ad = Inr
     \<lparr>wa_listeners = [on_event_to (ad_activePool ad) ''EtherSent'' (ad_defaultPool ad)],
      wa_read = (\<lambda>blockTag. Ethers_getTotalRedistributed this k (Some (BlockNumber (int blockTag))))\<rparr>"

definition watchTroveWithoutRewards :: "ethers \<Rightarrow> contracts \<Rightarrow> addresses \<Rightarrow> string option \<Rightarrow> pending_trove watch result" where
  "watchTroveWithoutRewards this k ad address =
     rbind (given_or address (requireAddress this None)) (\<lambda>owner. Inr
       \<lparr>wa_listeners = [on_event (ad_troveManager ad) ''TroveUpdated'' [Some owner], on_event (ad_borrowerOperations ad) ''TroveUpdated'' [Some owner]],
        wa_read = (\<lambda>blockTag. Ethers_getTroveBeforeRedistribution this k (Some owner) (Some (BlockNumber (int blockTag))))\<rparr>)"

definition watchNumberOfTroves :: "contracts \<Rightarrow> addresses \<Rightarrow> int watch result" where
  "watchNumberOfTroves k ad = Inr
     \<lparr>wa_listeners = [on_event (ad_troveManager ad) ''TroveUpdated'' []],
      wa_read = (\<lambda>blockTag. Ethers_getNumberOfTroves k (Some (BlockNumber (int blockTag))))\<rparr>"

definition watchPrice :: "decimal watch result" where
  "watchPrice = Inl (Error ''Method not implemented.'')"

definition watchTotal :: "ethers \<Rightarrow> contracts \<Rightarrow> addresses \<Rightarrow> trove watch result" where
  "watchTotal this k ad = Inr
     \<lparr>wa_listeners = [on_event (ad_troveManager ad) ''TroveUpdated'' []],
      wa_read = (\<lambda>blockTag. Ethers_getTotal this k (Some (BlockNumber (int blockTag))))\<rparr>"

definition watchStabilityDeposit :: "ethers \<Rightarrow> contracts \<Rightarrow> addresses \<Rightarrow> string option \<Rightarrow> stability_deposit watch result" where
  "watchStabilityDeposit this k ad address =
     rbind (given_or address (requireAddress this None)) (\<lambda>owner. Inr
       \<lparr>wa_listeners = [on_event (ad_stabilityPool ad) ''UserDepositChanged'' [Some owner], on_event_to (ad_activePool ad) ''EtherSent'' (ad_stabilityPool ad)],
        wa_read = (\<lambda>blockTag. Ethers_getStabilityDeposit this k (Some owner) (Some (BlockNumber (int blockTag))))\<rparr>)"

definition watchHCHFInStabilityPool :: "contracts \<Rightarrow> addresses \<Rightarrow> decimal watch result" where
  "watchHCHFInStabilityPool k ad = Inr
     \<lparr>wa_listeners = [on_event (ad_hchfToken ad) ''Transfer'' [Some (ad_stabilityPool ad)], on_event (ad_hchfToken ad) ''Transfer'' [None, Some (ad_stabilityPool ad)]],
      wa_read = (\<lambda>blockTag. Ethers_getHCHFInStabilityPool k (Some (BlockNumber (int blockTag))))\<rparr>"

definition watchHCHFBalance :: "ethers \<Rightarrow> contracts \<Rightarrow> addresses \<Rightarrow> string option \<Rightarrow> decimal watch result" where
  "watchHCHFBalance this k ad address =
     rbind (given_or address (requireAddress this None)) (\<lambda>owner. Inr
       \<lparr>wa_listeners = [on_event (ad_hchfToken ad) ''Transfer'' [Some owner], on_event (ad_hchfToken ad) ''Transfer'' [None, Some owner]],
        wa_read = (\<lambda>blockTag. Ethers_getHCHFBalance this k (Some owner) (Some (BlockNumber (int blockTag))))\<rparr>)"

section \<open>Running a watch\<close>

text \<open>
  \<open>reported\<close> are the values passed to the caller's function with the block they were read at. A read that fails reports nothing (the
  promise is rejected and nobody handles it).
\<close>

record 'v watching =
  wt_debounced :: debounced
  wt_listening :: bool
  wt_reads :: "nat list"
  wt_reported :: "(nat \<times> 'v) list"

definition start_watching :: "'v watching" where
  "start_watching = \<lparr>wt_debounced = new_debounced, wt_listening = True, wt_reads = [], wt_reported = []\<rparr>"

text \<open>Every listener that passes the event on calls the debounced function; calling it twice for one event is like calling it once.\<close>

definition receive_event :: "'v watch \<Rightarrow> chain_event \<Rightarrow> 'v watching \<Rightarrow> 'v watching" where
  "receive_event w e s =
     fold (\<lambda>l s. if wt_listening s \<and> listener_passes l e then s\<lparr>wt_debounced := debounce_event (ce_blockNumber e) (wt_debounced s)\<rparr> else s)
       (wa_listeners w) s"

definition debounce_timeout :: "'v watching \<Rightarrow> 'v watching" where
  "debounce_timeout s = (if timeoutId (wt_debounced s)
     then s\<lparr>wt_reads := wt_reads s @ [latestBlock (wt_debounced s)], wt_debounced := (wt_debounced s)\<lparr>timeoutId := False\<rparr>\<rparr> else s)"

definition finish_read :: "'v watch \<Rightarrow> nat \<Rightarrow> 'v watching \<Rightarrow> 'v watching" where
  "finish_read w i s = (if i < length (wt_reads s)
     then let b = wt_reads s ! i; s1 = s\<lparr>wt_reads := take i (wt_reads s) @ drop (Suc i) (wt_reads s)\<rparr>
          in (case wa_read w b of Inr v \<Rightarrow> s1\<lparr>wt_reported := wt_reported s1 @ [(b, v)]\<rparr> | Inl _ \<Rightarrow> s1)
     else s)"

text \<open>The function a method returns takes the listeners back, and leaves a running timer alone.\<close>

definition stop_watching :: "'v watching \<Rightarrow> 'v watching" where
  "stop_watching s = s\<lparr>wt_listening := False\<rparr>"

datatype watch_step = ChainEvent chain_event | Timeout | FinishRead nat | StopWatching

fun watch_run :: "'v watch \<Rightarrow> watch_step \<Rightarrow> 'v watching \<Rightarrow> 'v watching" where
  "watch_run w (ChainEvent e) s = receive_event w e s"
| "watch_run w Timeout s = debounce_timeout s"
| "watch_run w (FinishRead i) s = finish_read w i s"
| "watch_run w StopWatching s = stop_watching s"

section \<open>Correctness\<close>

definition heard_block :: "'v watch \<Rightarrow> watch_step \<Rightarrow> nat list" where
  "heard_block w x = (case x of
      ChainEvent e \<Rightarrow> (if \<exists>l \<in> set (wa_listeners w). listener_passes l e then (case ce_blockNumber e of Some b \<Rightarrow> [b] | None \<Rightarrow> []) else [])
    | _ \<Rightarrow> [])"

text \<open>The blocks of the events that concern the watch, until it is stopped.\<close>

definition heard :: "'v watch \<Rightarrow> watch_step list \<Rightarrow> nat list" where
  "heard w xs = concat (map (heard_block w) (takeWhile (\<lambda>x. x \<noteq> StopWatching) xs))"

lemma debounce_idem [simp]: "debounce_event b (debounce_event b d) = debounce_event b d"
  by (auto simp: debounce_event_def Let_def split: option.split)

lemma fold_idempotent:
  assumes "\<And>s. d (d s) = d s" and "\<And>l s. P l (d s) = P l s"
  shows "fold (\<lambda>l s. if P l s then d s else s) ls s = (if \<exists>l \<in> set ls. P l s then d s else s)"
  by (induction ls arbitrary: s) (auto simp: assms)

lemma receive_event_simps:
  "receive_event w e s = (if wt_listening s \<and> (\<exists>l \<in> set (wa_listeners w). listener_passes l e)
     then s\<lparr>wt_debounced := debounce_event (ce_blockNumber e) (wt_debounced s)\<rparr> else s)"
proof -
  have "receive_event w e s = (if \<exists>l \<in> set (wa_listeners w). wt_listening s \<and> listener_passes l e
     then s\<lparr>wt_debounced := debounce_event (ce_blockNumber e) (wt_debounced s)\<rparr> else s)"
    unfolding receive_event_def by (rule fold_idempotent) simp_all
  then show ?thesis by auto
qed

lemma heard_block_others [simp]: "heard_block w Timeout = []" "heard_block w (FinishRead i) = []" "heard_block w StopWatching = []"
  by (simp_all add: heard_block_def)

lemma heard_snoc:
  "heard w (xs @ [x]) = heard w xs @ (if StopWatching \<in> set xs then [] else heard_block w x)"
proof -
  have "takeWhile (\<lambda>x. x \<noteq> StopWatching) (xs @ [x]) =
    takeWhile (\<lambda>x. x \<noteq> StopWatching) xs @ (if StopWatching \<in> set xs then [] else if x = StopWatching then [] else [x])"
    by (induction xs) auto
  then show ?thesis by (simp add: heard_def)
qed

definition read_blocks :: "'v watching \<Rightarrow> nat set" where
  "read_blocks s = set (wt_reads s) \<union> fst ` set (wt_reported s)"

lemma read_blocks_simps [simp]: "read_blocks (s\<lparr>wt_debounced := d\<rparr>) = read_blocks s" "read_blocks (s\<lparr>wt_listening := x\<rparr>) = read_blocks s"
  "read_blocks (s\<lparr>wt_reads := wt_reads s @ [b]\<rparr>) = insert b (read_blocks s)"
  by (auto simp: read_blocks_def)

definition watch_inv :: "'v watch \<Rightarrow> watch_step list \<Rightarrow> 'v watching \<Rightarrow> bool" where
  "watch_inv w xs s \<longleftrightarrow> wt_listening s = (StopWatching \<notin> set xs)
     \<and> latestBlock (wt_debounced s) = fold max (heard w xs) 0
     \<and> (heard w xs \<noteq> [] \<longrightarrow> timeoutId (wt_debounced s) \<or> latestBlock (wt_debounced s) \<in> read_blocks s)
     \<and> (\<forall>(b, v) \<in> set (wt_reported s). wa_read w b = Inr v)"

lemma watch_inv_event:
  assumes "watch_inv w xs s"
  shows "watch_inv w (xs @ [ChainEvent e]) (receive_event w e s)"
  using assms
  by (auto simp: watch_inv_def receive_event_simps heard_snoc heard_block_def debounce_event_def Let_def max_def split: option.split)

lemma finish_read_inv:
  assumes "watch_inv w xs s" and "\<forall>b. \<exists>v. wa_read w b = Inr v"
  shows "watch_inv w (xs @ [FinishRead i]) (finish_read w i s)"
proof (cases "i < length (wt_reads s)")
  case True
  let ?b = "wt_reads s ! i"
  obtain v where v: "wa_read w ?b = Inr v" using assms(2) by blast
  have "set (wt_reads s) = insert ?b (set (take i (wt_reads s) @ drop (Suc i) (wt_reads s)))"
    using id_take_nth_drop [OF True] by (metis Un_insert_right list.simps(15) set_append)
  with True v have "read_blocks (finish_read w i s) = read_blocks s"
    by (simp add: read_blocks_def finish_read_def Let_def Un_ac)
  with True v assms(1) show ?thesis
    by (simp add: watch_inv_def heard_snoc) (auto simp: finish_read_def Let_def)
qed (use assms in \<open>auto simp: watch_inv_def finish_read_def heard_snoc\<close>)

lemma watch_run_inv:
  assumes "\<forall>b. \<exists>v. wa_read w b = Inr v"
  shows "watch_inv w xs (fold (watch_run w) xs start_watching)"
proof (induction xs rule: rev_induct)
  case Nil
  show ?case by (simp add: watch_inv_def start_watching_def new_debounced_def heard_def)
next
  case (snoc x xs)
  let ?s = "fold (watch_run w) xs start_watching"
  show ?case
  proof (cases x)
    case (ChainEvent e)
    with watch_inv_event [OF snoc] show ?thesis by simp
  next
    case (FinishRead i)
    with finish_read_inv [OF snoc assms] show ?thesis by simp
  next
    case Timeout
    with snoc show ?thesis by (auto simp: watch_inv_def debounce_timeout_def heard_snoc)
  next
    case StopWatching
    with snoc show ?thesis by (auto simp: watch_inv_def stop_watching_def heard_snoc)
  qed
qed

text \<open>
  C20. A watch reports the latest state. However events, timeouts, answers and the end of the watch follow each other: if reads succeed, then once no timer
  runs and no read is open, the value at the highest block of all events that concern the watch has been reported, and everything reported is the
  value read at its block.
\<close>

theorem idle_watch_reported_latest:
  assumes "\<forall>b. \<exists>v. wa_read w b = Inr v" and "fold (watch_run w) xs start_watching = s"
    and "\<not> timeoutId (wt_debounced s)" "wt_reads s = []" and "b \<in> set (heard w xs)"
  shows "(\<exists>v. (Max (set (heard w xs)), v) \<in> set (wt_reported s)) \<and> (\<forall>(b, v) \<in> set (wt_reported s). wa_read w b = Inr v)"
proof -
  have inv: "watch_inv w xs s" using watch_run_inv [OF assms(1), of xs] assms(2) by simp
  have "fold max ys a = Max (insert a (set ys))" for ys and a :: nat
    using Max.set_eq_fold [of a ys] by simp
  moreover have "Max (insert 0 (set (heard w xs))) = Max (set (heard w xs))" using assms(5) by (subst Max_insert) auto
  ultimately have "latestBlock (wt_debounced s) = Max (set (heard w xs))" using inv by (simp add: watch_inv_def)
  with inv assms(3-5) show ?thesis
    by (auto simp: watch_inv_def read_blocks_def)
qed

definition sample_addresses :: addresses where
  "sample_addresses = \<lparr>ad_troveManager = ''0x1'', ad_borrowerOperations = ''0x2'', ad_activePool = ''0x3'', ad_defaultPool = ''0x4'',
     ad_stabilityPool = ''0x5'', ad_hchfToken = ''0x6''\<rparr>"

definition sample_watch :: "int watch" where
  "sample_watch = \<lparr>wa_listeners = [on_event ''0x1'' ''TroveUpdated'' []],
      wa_read = (\<lambda>blockTag. Ethers_getNumberOfTroves sample_contracts (Some (BlockNumber (int blockTag))))\<rparr>"

definition sample_watch_steps :: "watch_step list" where
  "sample_watch_steps = [ChainEvent \<lparr>ce_contract = ''0x1'', ce_name = ''TroveUpdated'', ce_args = [''0xA''], ce_blockNumber = Some 8\<rparr>,
     ChainEvent \<lparr>ce_contract = ''0x1'', ce_name = ''TroveUpdated'', ce_args = [''0xB''], ce_blockNumber = Some 7\<rparr>, Timeout, FinishRead 0]"

theorem idle_watch_reported_latest_witness:
  "watchNumberOfTroves sample_contracts sample_addresses = Inr sample_watch
   \<and> (\<exists>v. (8, v) \<in> set (wt_reported (fold (watch_run sample_watch) sample_watch_steps start_watching)))"
proof -
  have reads: "wa_read sample_watch b = Inr 2" for b
    by (simp add: sample_watch_def Ethers_getNumberOfTroves_def numberify_def sample_contracts_def)
  have passes: "listener_passes (on_event ''0x1'' ''TroveUpdated'' []) \<lparr>ce_contract = ''0x1'', ce_name = ''TroveUpdated'', ce_args = [x], ce_blockNumber = n\<rparr>" for x n
    by (simp add: listener_passes_def filter_matches_def)
  have heard: "heard sample_watch sample_watch_steps = [8, 7]"
    by (simp add: heard_def heard_block_def sample_watch_steps_def sample_watch_def passes)
  let ?s = "fold (watch_run sample_watch) sample_watch_steps start_watching"
  have ls: "wa_listeners sample_watch = [on_event ''0x1'' ''TroveUpdated'' []]" by (simp add: sample_watch_def)
  have "\<not> timeoutId (wt_debounced ?s) \<and> wt_reads ?s = []"
    by (simp add: sample_watch_steps_def start_watching_def new_debounced_def receive_event_simps ls passes debounce_event_def
        debounce_timeout_def finish_read_def reads)
  with idle_watch_reported_latest [of sample_watch sample_watch_steps ?s 8] reads heard
  have "\<exists>v. (8, v) \<in> set (wt_reported ?s)" by simp
  moreover have "watchNumberOfTroves sample_contracts sample_addresses = Inr sample_watch"
    by (simp add: watchNumberOfTroves_def sample_watch_def sample_addresses_def)
  ultimately show ?thesis by simp
qed

text \<open>Reads can end in any order, so the value that is reported last may be that of an older block than one reported before.\<close>

theorem older_value_reported_last:
  assumes "wt_reads s = [a, b]" "wa_read w a = Inr x" "wa_read w b = Inr y"
  shows "wt_reported (finish_read w 0 (finish_read w 1 s)) = wt_reported s @ [(b, y), (a, x)]"
  using assms by (simp add: finish_read_def)

text \<open>A watch that is stopped while its timer runs still reports afterwards.\<close>

theorem stopped_watch_reports:
  assumes "timeoutId (wt_debounced s)" "wt_reads s = []" and "wa_read w (latestBlock (wt_debounced s)) = Inr v"
  shows "wt_reported (finish_read w 0 (debounce_timeout (stop_watching s))) = wt_reported s @ [(latestBlock (wt_debounced s), v)]"
  using assms by (simp add: finish_read_def debounce_timeout_def stop_watching_def)

text \<open>
  The number of troves and the total are watched by events of the trove manager alone. What the contract for borrowers logs (it logs \<^verbatim>\<open>TroveUpdated\<close> when a
  trove is opened or adjusted, which \<^verbatim>\<open>watchTroveWithoutRewards\<close> takes into account) changes nothing.
\<close>

theorem borrower_events_unnoticed:
  assumes "ce_contract e = ad_borrowerOperations ad" "ad_borrowerOperations ad \<noteq> ad_troveManager ad"
    and "watchTotal this k ad = Inr w" "watchNumberOfTroves k ad = Inr v"
  shows "receive_event w e s = s \<and> receive_event v e t = t"
  using assms by (auto simp: watchTotal_def watchNumberOfTroves_def receive_event_simps listener_passes_def filter_matches_def)

end
