(* ===== verification/Web_Socket.thy ===== *)
theory Web_Socket
  imports JS_Prelude "HOL-Library.Monad_Syntax"
begin

text \<open>
  The provider that takes blocks from a web socket when it has one and from the wallet's provider otherwise:
  \<^verbatim>\<open>packages/providers/src/WebSocketAugmentedProvider.ts\<close> and \<^verbatim>\<open>WebSocketProvider.ts\<close>.

  Listeners are functions and are told apart by a number; so are timers and sockets. The closures that \<^verbatim>\<open>_wrap\<close> makes of a
  listener are the constructors of \<open>wrapped\<close>, and calling one is \<open>run_wrapped\<close>. How a provider of the ethers library keeps its
  listeners is not known here: an \<open>emitter\<close> says what its \<^verbatim>\<open>on\<close> and \<^verbatim>\<open>off\<close> do for the one listener this class
  registers, and how often that listener is called for a new block.
\<close>

section \<open>State\<close>

record tx_receipt =
  rc_transactionHash :: string
  rc_blockNumber :: nat
  rc_confirmations :: nat

record 'e emitter =
  em_new :: 'e
  em_on :: "'e \<Rightarrow> 'e"
  em_off :: "'e \<Rightarrow> 'e"
  em_calls :: "'e \<Rightarrow> nat"

text \<open>Of \<^verbatim>\<open>on\<close> the class relies on this much: a listener that was registered is called.\<close>

definition emitter_calls :: "'e emitter \<Rightarrow> bool" where
  "emitter_calls em \<longleftrightarrow> (\<forall>e. 0 < em_calls em (em_on em e))"

datatype event_type = NamedEvent string | FilterEvent nat

datatype wrapped = Pass | PassOnce | PassReceipt string | PassReceiptOnce string

datatype payload = BlockPayload "nat option" | ReceiptPayload tx_receipt

datatype task = ReconnectTask | CallBlockListeners | CallListener nat payload

datatype forwarded = BaseOn event_type nat | BaseOnce event_type nat | BaseOff event_type nat

record 'e socket =
  ws_url :: string
  ws_network :: string
  ws_emitter :: 'e
  ws_onClose :: bool
  ws_closed :: bool

record receipt_fetch =
  rf_key :: nat
  rf_once :: bool
  rf_hash :: string
  rf_latest :: "nat option"

record 'e ws_provider =
  sockets :: "'e socket list"
  base_emitter :: 'e
  base_forwarded :: "forwarded list"
  wsProvider :: "nat option"
  wsParams :: "(string \<times> string) option"
  reconnectTimerId :: "nat option"
  seenBlock :: nat
  blockListenerScheduled :: bool
  blockListeners :: "(nat \<times> wrapped) list"
  timers :: "(nat \<times> task) list"
  nextTimer :: nat
  fetches :: "receipt_fetch list"
  calls :: "(nat \<times> payload) list"

definition new_ws_provider :: "'e emitter \<Rightarrow> 'e ws_provider" where
  "new_ws_provider em = \<lparr>sockets = [], base_emitter = em_new em, base_forwarded = [], wsProvider = None, wsParams = None, reconnectTimerId = None,
     seenBlock = 0, blockListenerScheduled = False, blockListeners = [], timers = [], nextTimer = 0, fetches = [], calls = []\<rparr>"

definition setTimeout :: "task \<Rightarrow> 'e ws_provider \<Rightarrow> 'e ws_provider" where
  "setTimeout t s = s\<lparr>timers := timers s @ [(nextTimer s, t)], nextTimer := Suc (nextTimer s)\<rparr>"

definition clearTimeout :: "nat \<Rightarrow> 'e ws_provider \<Rightarrow> 'e ws_provider" where
  "clearTimeout i s = s\<lparr>timers := filter (\<lambda>(j, _). j \<noteq> i) (timers s)\<rparr>"

definition update_socket :: "nat \<Rightarrow> ('e socket \<Rightarrow> 'e socket) \<Rightarrow> 'e ws_provider \<Rightarrow> 'e ws_provider" where
  "update_socket i f s = s\<lparr>sockets := (sockets s)[i := f (sockets s ! i)]\<rparr>"

section \<open>Listening for blocks\<close>

definition startBlockEvents :: "'e emitter \<Rightarrow> 'e ws_provider \<Rightarrow> 'e ws_provider" where
  "startBlockEvents em s = (case wsProvider s of
      Some i \<Rightarrow> update_socket i (\<lambda>w. w\<lparr>ws_emitter := em_on em (ws_emitter w)\<rparr>) s
    | None \<Rightarrow> s\<lparr>base_emitter := em_on em (base_emitter s)\<rparr>)"

definition stopBlockEvents :: "'e emitter \<Rightarrow> 'e ws_provider \<Rightarrow> 'e ws_provider" where
  "stopBlockEvents em s = (case wsProvider s of
      Some i \<Rightarrow> update_socket i (\<lambda>w. w\<lparr>ws_emitter := em_off em (ws_emitter w)\<rparr>) s
    | None \<Rightarrow> s\<lparr>base_emitter := em_off em (base_emitter s)\<rparr>)"

definition switchover :: "'e emitter \<Rightarrow> 'e ws_provider \<Rightarrow> 'e ws_provider" where
  "switchover em s =
     (if blockListeners s = [] then s
      else startBlockEvents em (if wsProvider s \<noteq> None then s\<lparr>base_emitter := em_off em (base_emitter s)\<rparr> else s))"

definition openWebSocket :: "'e emitter \<Rightarrow> string \<Rightarrow> string \<Rightarrow> 'e ws_provider \<Rightarrow> 'e ws_provider" where
  "openWebSocket em url network s = switchover em
     (s\<lparr>sockets := sockets s @ [\<lparr>ws_url = url, ws_network = network, ws_emitter = em_new em, ws_onClose = True, ws_closed = False\<rparr>],
        wsProvider := Some (length (sockets s)), wsParams := Some (url, network)\<rparr>)"

definition closeWebSocket :: "'e emitter \<Rightarrow> 'e ws_provider \<Rightarrow> 'e ws_provider" where
  "closeWebSocket em s = (case wsProvider s of
      None \<Rightarrow> s
    | Some i \<Rightarrow>
       (let s1 = switchover em ((update_socket i (\<lambda>w. w\<lparr>ws_onClose := False, ws_closed := True\<rparr>) s)\<lparr>wsProvider := None\<rparr>)
        in case reconnectTimerId s1 of
             None \<Rightarrow> s1
           | Some t \<Rightarrow> (clearTimeout t s1)\<lparr>reconnectTimerId := None\<rparr>))"

definition onWebSocketClose :: "'e emitter \<Rightarrow> 'e ws_provider \<Rightarrow> 'e ws_provider" where
  "onWebSocketClose em s =
     (let s1 = closeWebSocket em s in (setTimeout ReconnectTask s1)\<lparr>reconnectTimerId := Some (nextTimer s1)\<rparr>)"

definition onBlock :: "nat \<Rightarrow> 'e ws_provider \<Rightarrow> 'e ws_provider" where
  "onBlock blockNumber s =
     (let s1 = s\<lparr>seenBlock := blockNumber\<rparr>
      in if blockListenerScheduled s1 then s1 else setTimeout CallBlockListeners (s1\<lparr>blockListenerScheduled := True\<rparr>))"

section \<open>Listeners\<close>

text \<open>\<^verbatim>\<open>Map.delete\<close>, which is also what \<^verbatim>\<open>removeMe\<close> does: the block events are not stopped.\<close>

definition deleteListener :: "nat \<Rightarrow> 'e ws_provider \<Rightarrow> 'e ws_provider" where
  "deleteListener key s = s\<lparr>blockListeners := filter (\<lambda>(k, _). k \<noteq> key) (blockListeners s)\<rparr>"

definition hasListener :: "nat \<Rightarrow> 'e ws_provider \<Rightarrow> bool" where
  "hasListener key s \<longleftrightarrow> key \<in> fst ` set (blockListeners s)"

text \<open>A call of a listener that \<^verbatim>\<open>defer\<close> postpones.\<close>

definition defer_call :: "nat \<Rightarrow> payload \<Rightarrow> 'e ws_provider \<Rightarrow> 'e ws_provider" where
  "defer_call key p = setTimeout (CallListener key p)"

fun run_wrapped :: "nat \<Rightarrow> wrapped \<Rightarrow> nat option \<Rightarrow> 'e ws_provider \<Rightarrow> 'e ws_provider" where
  "run_wrapped key Pass t s = defer_call key (BlockPayload t) s"
| "run_wrapped key PassOnce t s = deleteListener key (defer_call key (BlockPayload t) s)"
| "run_wrapped key (PassReceipt h) t s = s\<lparr>fetches := fetches s @ [\<lparr>rf_key = key, rf_once = False, rf_hash = h, rf_latest = t\<rparr>]\<rparr>"
| "run_wrapped key (PassReceiptOnce h) t s = s\<lparr>fetches := fetches s @ [\<lparr>rf_key = key, rf_once = True, rf_hash = h, rf_latest = t\<rparr>]\<rparr>"

text \<open>The end of a fetch, \<^verbatim>\<open>waitFor\<close>: its receipt is passed on if there is one and the listener is still registered.\<close>

definition finishFetch :: "nat \<Rightarrow> tx_receipt option result \<Rightarrow> 'e ws_provider \<Rightarrow> 'e ws_provider" where
  "finishFetch i r s =
     (let f = fetches s ! i; s1 = s\<lparr>fetches := take i (fetches s) @ drop (Suc i) (fetches s)\<rparr>
      in case r of
           Inr (Some receipt) \<Rightarrow>
             (if hasListener (rf_key f) s1
              then (if rf_once f then deleteListener (rf_key f) (defer_call (rf_key f) (ReceiptPayload receipt) s1)
                    else defer_call (rf_key f) (ReceiptPayload receipt) s1)
              else s1)
         | _ \<Rightarrow> s1)"

definition addBlockListener :: "'e emitter \<Rightarrow> nat \<Rightarrow> wrapped \<Rightarrow> 'e ws_provider \<Rightarrow> 'e ws_provider" where
  "addBlockListener em key w s =
     (if hasListener key s then s
      else let s1 = s\<lparr>blockListeners := blockListeners s @ [(key, w)]\<rparr>
           in if length (blockListeners s1) = 1 then startBlockEvents em s1 else s1)"

definition removeBlockListener :: "'e emitter \<Rightarrow> nat \<Rightarrow> 'e ws_provider \<Rightarrow> 'e ws_provider" where
  "removeBlockListener em key s =
     (if hasListener key s
      then let s1 = deleteListener key s in if blockListeners s1 = [] then stopBlockEvents em s1 else s1
      else s)"

text \<open>\<^verbatim>\<open>hexDataLength\<close> is a function of the ethers library.\<close>

fun isTransactionHash :: "(string \<Rightarrow> nat option) \<Rightarrow> event_type \<Rightarrow> bool" where
  "isTransactionHash hexDataLength (NamedEvent n) \<longleftrightarrow> hexDataLength n = Some 32"
| "isTransactionHash hexDataLength (FilterEvent _) \<longleftrightarrow> False"

fun event_name :: "event_type \<Rightarrow> string" where
  "event_name (NamedEvent n) = n"
| "event_name (FilterEvent _) = []"

definition ws_on :: "'e emitter \<Rightarrow> (string \<Rightarrow> nat option) \<Rightarrow> event_type \<Rightarrow> nat \<Rightarrow> 'e ws_provider \<Rightarrow> 'e ws_provider" where
  "ws_on em hexDataLength ev listener s =
     (if isTransactionHash hexDataLength ev
      then let w = PassReceipt (event_name ev) in addBlockListener em listener w (run_wrapped listener w None s)
      else if ev = NamedEvent ''block'' then addBlockListener em listener Pass s
      else s\<lparr>base_forwarded := base_forwarded s @ [BaseOn ev listener]\<rparr>)"

definition ws_once :: "'e emitter \<Rightarrow> (string \<Rightarrow> nat option) \<Rightarrow> event_type \<Rightarrow> nat \<Rightarrow> 'e ws_provider \<Rightarrow> 'e ws_provider" where
  "ws_once em hexDataLength ev listener s =
     (if isTransactionHash hexDataLength ev
      then let w = PassReceiptOnce (event_name ev) in addBlockListener em listener w (run_wrapped listener w None s)
      else if ev = NamedEvent ''block'' then addBlockListener em listener PassOnce s
      else s\<lparr>base_forwarded := base_forwarded s @ [BaseOnce ev listener]\<rparr>)"

definition ws_off :: "'e emitter \<Rightarrow> (string \<Rightarrow> nat option) \<Rightarrow> event_type \<Rightarrow> nat \<Rightarrow> 'e ws_provider \<Rightarrow> 'e ws_provider" where
  "ws_off em hexDataLength ev listener s =
     (if isTransactionHash hexDataLength ev \<or> ev = NamedEvent ''block'' then removeBlockListener em listener s
      else s\<lparr>base_forwarded := base_forwarded s @ [BaseOff ev listener]\<rparr>)"

section \<open>The event loop\<close>

definition callBlockListeners :: "'e ws_provider \<Rightarrow> 'e ws_provider" where
  "callBlockListeners s =
     (let s1 = s\<lparr>blockListenerScheduled := False\<rparr>
      in fold (\<lambda>(key, w). run_wrapped key w (Some (seenBlock s))) (blockListeners s1) s1)"

fun run_task :: "'e emitter \<Rightarrow> task \<Rightarrow> 'e ws_provider \<Rightarrow> 'e ws_provider" where
  "run_task em ReconnectTask s = (case wsParams s of Some (url, network) \<Rightarrow> openWebSocket em url network s | None \<Rightarrow> s)"
| "run_task em CallBlockListeners s = callBlockListeners s"
| "run_task em (CallListener key p) s = s\<lparr>calls := calls s @ [(key, p)]\<rparr>"

definition fireTimer :: "'e emitter \<Rightarrow> nat \<Rightarrow> 'e ws_provider \<Rightarrow> 'e ws_provider" where
  "fireTimer em i s = (case map_of (timers s) i of None \<Rightarrow> s | Some t \<Rightarrow> run_task em t (clearTimeout i s))"

text \<open>
  What can happen to a provider: its methods are called, one of its sockets closes or has a new block, the provider below has a
  new block, a timer fires, a receipt arrives. A socket reports that it is closed only if its handler is still set, and a new block is
  only reported where the class's listener is called.
\<close>

datatype ws_event =
    OnEvent event_type nat | OnceEvent event_type nat | OffEvent event_type nat
  | OpenEvent string string | CloseEvent | SocketClosed nat | SocketBlock nat nat | BaseBlock nat | TimerEvent nat
  | FetchedEvent nat "tx_receipt option result"

fun ws_enabled :: "'e emitter \<Rightarrow> ws_event \<Rightarrow> 'e ws_provider \<Rightarrow> bool" where
  "ws_enabled em (SocketClosed i) s \<longleftrightarrow> i < length (sockets s) \<and> ws_onClose (sockets s ! i)"
| "ws_enabled em (SocketBlock i b) s \<longleftrightarrow> i < length (sockets s) \<and> 0 < em_calls em (ws_emitter (sockets s ! i))"
| "ws_enabled em (BaseBlock b) s \<longleftrightarrow> 0 < em_calls em (base_emitter s)"
| "ws_enabled em (TimerEvent i) s \<longleftrightarrow> i \<in> fst ` set (timers s)"
| "ws_enabled em (FetchedEvent i r) s \<longleftrightarrow> i < length (fetches s)"
| "ws_enabled em _ s \<longleftrightarrow> True"

fun ws_step :: "'e emitter \<Rightarrow> (string \<Rightarrow> nat option) \<Rightarrow> ws_event \<Rightarrow> 'e ws_provider \<Rightarrow> 'e ws_provider" where
  "ws_step em h (OnEvent ev k) s = ws_on em h ev k s"
| "ws_step em h (OnceEvent ev k) s = ws_once em h ev k s"
| "ws_step em h (OffEvent ev k) s = ws_off em h ev k s"
| "ws_step em h (OpenEvent url network) s = openWebSocket em url network s"
| "ws_step em h CloseEvent s = closeWebSocket em s"
| "ws_step em h (SocketClosed i) s = onWebSocketClose em s"
| "ws_step em h (SocketBlock i b) s = onBlock b s"
| "ws_step em h (BaseBlock b) s = onBlock b s"
| "ws_step em h (TimerEvent i) s = fireTimer em i s"
| "ws_step em h (FetchedEvent i r) s = finishFetch i r s"

text \<open>Histories: the events in order, each possible when it happens.\<close>

inductive ws_history :: "'e emitter \<Rightarrow> (string \<Rightarrow> nat option) \<Rightarrow> ws_event list \<Rightarrow> 'e ws_provider \<Rightarrow> bool" for em h where
  start: "ws_history em h [] (new_ws_provider em)"
| step: "ws_history em h evs s \<Longrightarrow> ws_enabled em ev s \<Longrightarrow> ws_history em h (evs @ [ev]) (ws_step em h ev s)"

section \<open>Asking the node\<close>

definition error_message :: "js_error \<Rightarrow> string" where
  "error_message e = (case e of Error m \<Rightarrow> m | AssertionError \<Rightarrow> [] | ExternalError m \<Rightarrow> m)"

definition isHeaderNotFoundError :: "js_error \<Rightarrow> bool" where
  "isHeaderNotFoundError e \<longleftrightarrow> text_includes (error_message e) ''header not found''
     \<or> text_includes (error_message e) ''request is not supported because your node is running with state pruning''"

text \<open>
  The loops wait for promises in turn. An index counts the promises awaited so far, delays included, and the answers of the node and the
  provider's \<open>seenBlock\<close> depend on it. A loop that never ends is \<open>None\<close>; otherwise the result comes with the index at its end.
\<close>

partial_function (option) retrySeenBlock ::
  "(nat \<Rightarrow> 'a result) \<Rightarrow> (nat \<Rightarrow> nat) \<Rightarrow> nat \<Rightarrow> nat \<Rightarrow> (nat \<times> 'a result) option" where
  "retrySeenBlock perform seen startingBlock n = (case perform n of
      Inr ret \<Rightarrow> Some (Suc n, Inr ret)
    | Inl e \<Rightarrow> (if seen (Suc n) \<noteq> startingBlock \<or> \<not> isHeaderNotFoundError e then Some (Suc n, Inl e)
               else retrySeenBlock perform seen startingBlock (Suc (Suc n))))"

text \<open>
  A request goes to the web socket if there is one and it is open at that moment (\<open>ready\<close>), else to the provider below. \<^verbatim>\<open>call\<close> and
  \<^verbatim>\<open>getBalance\<close> are alike; the request is a parameter of the two answers.
\<close>

definition perform_with :: "(nat \<Rightarrow> bool) \<Rightarrow> (nat \<Rightarrow> 'a result) \<Rightarrow> (nat \<Rightarrow> 'a result) \<Rightarrow> nat \<Rightarrow> 'a result" where
  "perform_with ready socket_answer base_answer n = (if ready n then socket_answer n else base_answer n)"

definition ws_read ::
  "(nat \<Rightarrow> bool) \<Rightarrow> (nat \<Rightarrow> 'a result) \<Rightarrow> (nat \<Rightarrow> 'a result) \<Rightarrow> (nat \<Rightarrow> nat) \<Rightarrow> nat option \<Rightarrow> nat \<Rightarrow> (nat \<times> 'a result) option" where
  "ws_read ready socket_answer base_answer seen blockTag n =
     (let perform = perform_with ready socket_answer base_answer
      in if blockTag = Some (seen n) then retrySeenBlock perform seen (seen n) n else Some (Suc n, perform n))"

definition ws_call ::
  "(nat \<Rightarrow> bool) \<Rightarrow> (nat \<Rightarrow> 'tx \<Rightarrow> nat option \<Rightarrow> string result) \<Rightarrow> (nat \<Rightarrow> 'tx \<Rightarrow> nat option \<Rightarrow> string result) \<Rightarrow> (nat \<Rightarrow> nat)
     \<Rightarrow> 'tx \<Rightarrow> nat option \<Rightarrow> nat \<Rightarrow> (nat \<times> string result) option" where
  "ws_call ready socket_call base_call seen transaction blockTag =
     ws_read ready (\<lambda>n. socket_call n transaction blockTag) (\<lambda>n. base_call n transaction blockTag) seen blockTag"

definition ws_getBalance ::
  "(nat \<Rightarrow> bool) \<Rightarrow> (nat \<Rightarrow> string \<Rightarrow> nat option \<Rightarrow> nat result) \<Rightarrow> (nat \<Rightarrow> string \<Rightarrow> nat option \<Rightarrow> nat result) \<Rightarrow> (nat \<Rightarrow> nat)
     \<Rightarrow> string \<Rightarrow> nat option \<Rightarrow> nat \<Rightarrow> (nat \<times> nat result) option" where
  "ws_getBalance ready socket_getBalance base_getBalance seen address blockTag =
     ws_read ready (\<lambda>n. socket_getBalance n address blockTag) (\<lambda>n. base_getBalance n address blockTag) seen blockTag"

definition ws_getTransactionReceipt ::
  "(nat \<Rightarrow> bool) \<Rightarrow> (nat \<Rightarrow> string \<Rightarrow> tx_receipt option result) \<Rightarrow> (nat \<Rightarrow> string \<Rightarrow> tx_receipt option result) \<Rightarrow> nat \<Rightarrow> string \<Rightarrow> tx_receipt option result" where
  "ws_getTransactionReceipt ready socket_receipt base_receipt n h = perform_with ready (\<lambda>n. socket_receipt n h) (\<lambda>n. base_receipt n h) n"

definition ws_getTransactionCount ::
  "(nat \<Rightarrow> bool) \<Rightarrow> (nat \<Rightarrow> string \<Rightarrow> nat option \<Rightarrow> nat result) \<Rightarrow> (nat \<Rightarrow> string \<Rightarrow> nat option \<Rightarrow> nat result) \<Rightarrow> nat \<Rightarrow> string \<Rightarrow> nat option \<Rightarrow> nat result" where
  "ws_getTransactionCount ready socket_count base_count n address blockTag =
     perform_with ready (\<lambda>n. socket_count n address blockTag) (\<lambda>n. base_count n address blockTag) n"

definition ws_getBlock ::
  "(nat \<Rightarrow> bool) \<Rightarrow> (nat \<Rightarrow> nat \<Rightarrow> string list option result) \<Rightarrow> (nat \<Rightarrow> nat \<Rightarrow> string list option result) \<Rightarrow> nat \<Rightarrow> nat \<Rightarrow> string list option result" where
  "ws_getBlock ready socket_block base_block n b = perform_with ready (\<lambda>n. socket_block n b) (\<lambda>n. base_block n b) n"

definition ws_getBlockWithTransactions ::
  "(nat \<Rightarrow> bool) \<Rightarrow> (nat \<Rightarrow> nat \<Rightarrow> 'b option result) \<Rightarrow> (nat \<Rightarrow> nat \<Rightarrow> 'b option result) \<Rightarrow> nat \<Rightarrow> nat \<Rightarrow> 'b option result" where
  "ws_getBlockWithTransactions ready socket_block base_block n b = perform_with ready (\<lambda>n. socket_block n b) (\<lambda>n. base_block n b) n"

text \<open>\<^verbatim>\<open>getTransaction\<close> asks both; \<open>socketFirst\<close> says whose promise settles first.\<close>

definition ws_getTransaction :: "'a option result \<Rightarrow> 'a option result option \<Rightarrow> bool \<Rightarrow> 'a option result" where
  "ws_getTransaction base_answer socket_answer socketFirst =
     (let txPromises = base_answer # (case socket_answer of Some a \<Rightarrow> [a] | None \<Rightarrow> [])
      in rbind (if socketFirst then last txPromises else hd txPromises) (\<lambda>first.
           case first of
             Some tx \<Rightarrow> Inr (Some tx)
           | None \<Rightarrow> rbind (mapM id txPromises) (\<lambda>txs. Inr (case find (\<lambda>tx. tx \<noteq> None) txs of Some tx \<Rightarrow> tx | None \<Rightarrow> None))))"

record ws_node =
  node_receipt :: "nat \<Rightarrow> string \<Rightarrow> tx_receipt option result"
  node_block :: "nat \<Rightarrow> nat \<Rightarrow> string list option result"
  next_block :: "nat \<Rightarrow> nat"

text \<open>The answers the loops below get are those of the provider's own methods.\<close>

definition ws_node_of ::
  "(nat \<Rightarrow> bool) \<Rightarrow> ws_node \<Rightarrow> ws_node \<Rightarrow> (nat \<Rightarrow> nat) \<Rightarrow> ws_node" where
  "ws_node_of ready socket_node base_node blocks =
     \<lparr>node_receipt = ws_getTransactionReceipt ready (node_receipt socket_node) (node_receipt base_node),
      node_block = ws_getBlock ready (node_block socket_node) (node_block base_node), next_block = blocks\<rparr>"

partial_function (option) blockContainsTx :: "ws_node \<Rightarrow> nat \<Rightarrow> string \<Rightarrow> nat \<Rightarrow> (nat \<times> bool result) option" where
  "blockContainsTx node blockNumber txHash n = (case node_block node (Suc n) blockNumber of
      Inl e \<Rightarrow> Some (Suc (Suc n), Inl e)
    | Inr None \<Rightarrow> blockContainsTx node blockNumber txHash (Suc (Suc n))
    | Inr (Some txs) \<Rightarrow> Some (Suc (Suc n), Inr (txHash \<in> set txs)))"

definition receipt_covers :: "tx_receipt \<Rightarrow> nat \<Rightarrow> bool" where
  "receipt_covers r b \<longleftrightarrow> int (rc_blockNumber r) + int (rc_confirmations r) - 1 \<ge> int b"

partial_function (option) getTransactionReceiptFromLatest ::
  "ws_node \<Rightarrow> string \<Rightarrow> nat option \<Rightarrow> nat \<Rightarrow> (nat \<times> tx_receipt option result) option" where
  "getTransactionReceiptFromLatest node txHash latestBlock n = (case node_receipt node n txHash of
      Inl e \<Rightarrow> Some (Suc n, Inl e)
    | Inr receipt \<Rightarrow> (case latestBlock of
          None \<Rightarrow> Some (Suc n, Inr receipt)
        | Some b \<Rightarrow> (case receipt of
              None \<Rightarrow> Option.bind (blockContainsTx node b txHash (Suc n)) (\<lambda>(m, c). case c of
                  Inl e \<Rightarrow> Some (m, Inl e)
                | Inr found \<Rightarrow> (if found then getTransactionReceiptFromLatest node txHash latestBlock (Suc m) else Some (m, Inr None)))
            | Some r \<Rightarrow> (if receipt_covers r b then Some (Suc n, Inr (Some r))
                        else getTransactionReceiptFromLatest node txHash latestBlock (Suc (Suc n))))))"

definition confirmed :: "nat option \<Rightarrow> tx_receipt \<Rightarrow> bool" where
  "confirmed confirmations r \<longleftrightarrow> (case confirmations of None \<Rightarrow> True | Some c \<Rightarrow> c \<le> rc_confirmations r)"

partial_function (option) wait_for_transaction ::
  "ws_node \<Rightarrow> string \<Rightarrow> nat option \<Rightarrow> nat option \<Rightarrow> nat \<Rightarrow> (nat \<times> tx_receipt result) option" where
  "wait_for_transaction node txHash confirmations latestBlock n =
     Option.bind (getTransactionReceiptFromLatest node txHash latestBlock n) (\<lambda>(m, res). case res of
         Inl e \<Rightarrow> Some (m, Inl e)
       | Inr None \<Rightarrow> wait_for_transaction node txHash confirmations (Some (next_block node m)) (Suc m)
       | Inr (Some r) \<Rightarrow> (if confirmed confirmations r then Some (m, Inr r)
                         else wait_for_transaction node txHash confirmations (Some (next_block node m)) (Suc m)))"

text \<open>With a timeout the method of the provider below is called, \<open>base_wait\<close>.\<close>

definition ws_waitForTransaction ::
  "(string \<Rightarrow> nat option \<Rightarrow> nat \<Rightarrow> (nat \<times> tx_receipt result) option) \<Rightarrow> ws_node \<Rightarrow> string \<Rightarrow> nat option \<Rightarrow> nat option \<Rightarrow> (nat \<times> tx_receipt result) option" where
  "ws_waitForTransaction base_wait node txHash confirmations timeout = (case timeout of
      Some t \<Rightarrow> base_wait txHash confirmations t
    | None \<Rightarrow> wait_for_transaction node txHash confirmations None 0)"

section \<open>Invariants of the provider\<close>

definition fed :: "'e emitter \<Rightarrow> 'e ws_provider \<Rightarrow> bool" where
  "fed em s \<longleftrightarrow> (wsProvider s = None \<longrightarrow> 0 < em_calls em (base_emitter s))
     \<and> (\<forall>i. wsProvider s = Some i \<longrightarrow> 0 < em_calls em (ws_emitter (sockets s ! i)))"

definition sockets_inv :: "'e ws_provider \<Rightarrow> bool" where
  "sockets_inv s \<longleftrightarrow> (\<forall>i. wsProvider s = Some i \<longrightarrow> i < length (sockets s) \<and> ws_onClose (sockets s ! i))
     \<and> (sockets s \<noteq> [] \<longrightarrow> wsParams s \<noteq> None)"

definition listeners_inv :: "'e emitter \<Rightarrow> 'e ws_provider \<Rightarrow> bool" where
  "listeners_inv em s \<longleftrightarrow> distinct (map fst (blockListeners s)) \<and> (blockListeners s \<noteq> [] \<longrightarrow> fed em s)"

definition block_timers :: "'e ws_provider \<Rightarrow> nat list" where
  "block_timers s = map fst (filter (\<lambda>(_, t). t = CallBlockListeners) (timers s))"

definition timers_inv :: "'e ws_provider \<Rightarrow> bool" where
  "timers_inv s \<longleftrightarrow> distinct (map fst (timers s)) \<and> (\<forall>(i, t) \<in> set (timers s). i < nextTimer s)
     \<and> length (block_timers s) = (if blockListenerScheduled s then 1 else 0)
     \<and> (\<forall>(i, t) \<in> set (timers s). t = ReconnectTask \<longrightarrow> sockets s \<noteq> [])
     \<and> (\<forall>i. reconnectTimerId s = Some i \<longrightarrow> i < nextTimer s \<and> (\<forall>t. (i, t) \<in> set (timers s) \<longrightarrow> t = ReconnectTask))"

definition ws_inv :: "'e emitter \<Rightarrow> 'e ws_provider \<Rightarrow> bool" where
  "ws_inv em s \<longleftrightarrow> sockets_inv s \<and> listeners_inv em s \<and> timers_inv s"

text \<open>What the operations leave alone.\<close>

lemma update_socket_simps [simp]:
  "wsProvider (update_socket i f s) = wsProvider s" "length (sockets (update_socket i f s)) = length (sockets s)"
  "wsParams (update_socket i f s) = wsParams s" "blockListeners (update_socket i f s) = blockListeners s"
  "timers (update_socket i f s) = timers s" "nextTimer (update_socket i f s) = nextTimer s" "base_emitter (update_socket i f s) = base_emitter s"
  "blockListenerScheduled (update_socket i f s) = blockListenerScheduled s" "reconnectTimerId (update_socket i f s) = reconnectTimerId s"
  "seenBlock (update_socket i f s) = seenBlock s" "fetches (update_socket i f s) = fetches s" "calls (update_socket i f s) = calls s"
  "(sockets (update_socket i f s) = []) = (sockets s = [])"
  "sockets (update_socket i f s) ! j = (if j = i \<and> i < length (sockets s) then f (sockets s ! i) else sockets s ! j)"
  by (auto simp: update_socket_def nth_list_update) (simp add: list_update_beyond)

lemma block_events_simps [simp]:
  "wsProvider (startBlockEvents em s) = wsProvider s" "wsParams (startBlockEvents em s) = wsParams s"
  "blockListeners (startBlockEvents em s) = blockListeners s" "timers (startBlockEvents em s) = timers s"
  "nextTimer (startBlockEvents em s) = nextTimer s" "blockListenerScheduled (startBlockEvents em s) = blockListenerScheduled s"
  "reconnectTimerId (startBlockEvents em s) = reconnectTimerId s" "seenBlock (startBlockEvents em s) = seenBlock s"
  "fetches (startBlockEvents em s) = fetches s" "calls (startBlockEvents em s) = calls s"
  "(sockets (startBlockEvents em s) = []) = (sockets s = [])"
  "wsProvider (stopBlockEvents em s) = wsProvider s" "wsParams (stopBlockEvents em s) = wsParams s"
  "blockListeners (stopBlockEvents em s) = blockListeners s" "timers (stopBlockEvents em s) = timers s"
  "nextTimer (stopBlockEvents em s) = nextTimer s" "blockListenerScheduled (stopBlockEvents em s) = blockListenerScheduled s"
  "reconnectTimerId (stopBlockEvents em s) = reconnectTimerId s" "seenBlock (stopBlockEvents em s) = seenBlock s"
  "fetches (stopBlockEvents em s) = fetches s" "calls (stopBlockEvents em s) = calls s"
  "(sockets (stopBlockEvents em s) = []) = (sockets s = [])"
  by (simp_all add: startBlockEvents_def stopBlockEvents_def split: option.split)

lemma switchover_simps [simp]:
  "wsProvider (switchover em s) = wsProvider s" "wsParams (switchover em s) = wsParams s"
  "blockListeners (switchover em s) = blockListeners s" "timers (switchover em s) = timers s"
  "nextTimer (switchover em s) = nextTimer s" "blockListenerScheduled (switchover em s) = blockListenerScheduled s"
  "reconnectTimerId (switchover em s) = reconnectTimerId s" "seenBlock (switchover em s) = seenBlock s"
  "fetches (switchover em s) = fetches s" "calls (switchover em s) = calls s"
  "(sockets (switchover em s) = []) = (sockets s = [])"
  by (simp_all add: switchover_def)

lemma socket_events_inv:
  assumes "sockets_inv s"
  shows "sockets_inv (startBlockEvents em s)" "sockets_inv (stopBlockEvents em s)"
  using assms by (auto simp: sockets_inv_def startBlockEvents_def stopBlockEvents_def split: option.split)

lemma sockets_inv_base [simp]: "sockets_inv (s\<lparr>base_emitter := e\<rparr>) = sockets_inv s"
  by (simp add: sockets_inv_def)

lemma fed_start: "emitter_calls em \<Longrightarrow> sockets_inv s \<Longrightarrow> fed em (startBlockEvents em s)"
  by (auto simp: fed_def startBlockEvents_def emitter_calls_def sockets_inv_def split: option.split)

lemma switchover_inv:
  assumes "emitter_calls em" and "sockets_inv s" and "distinct (map fst (blockListeners s))"
  shows "sockets_inv (switchover em s)" "listeners_inv em (switchover em s)"
proof -
  have "sockets_inv (if wsProvider s \<noteq> None then s\<lparr>base_emitter := em_off em (base_emitter s)\<rparr> else s)"
    using assms(2) by simp
  with assms fed_start [OF assms(1)] show "sockets_inv (switchover em s)" "listeners_inv em (switchover em s)"
    by (auto simp: switchover_def listeners_inv_def intro: socket_events_inv)
qed

text \<open>The timers depend on no more than these fields.\<close>

lemma timers_inv_cong:
  assumes "timers t = timers s" "nextTimer t = nextTimer s" "blockListenerScheduled t = blockListenerScheduled s"
    "reconnectTimerId t = reconnectTimerId s" "sockets s \<noteq> [] \<longrightarrow> sockets t \<noteq> []"
  shows "timers_inv s \<Longrightarrow> timers_inv t"
  using assms unfolding timers_inv_def block_timers_def by auto

lemma openWebSocket_inv:
  assumes "emitter_calls em" and "ws_inv em s"
  shows "ws_inv em (openWebSocket em url network s)"
proof -
  let ?t = "s\<lparr>sockets := sockets s @ [\<lparr>ws_url = url, ws_network = network, ws_emitter = em_new em, ws_onClose = True, ws_closed = False\<rparr>],
        wsProvider := Some (length (sockets s)), wsParams := Some (url, network)\<rparr>"
  have "sockets_inv ?t" by (simp add: sockets_inv_def)
  moreover have "timers_inv (switchover em ?t)"
    using assms(2) by (auto simp: ws_inv_def intro: timers_inv_cong [of _ s])
  ultimately show ?thesis
    using switchover_inv [OF assms(1), of ?t] assms(2) by (simp add: openWebSocket_def ws_inv_def listeners_inv_def)
qed

lemma filter_timers: "timers_inv s \<Longrightarrow> (\<forall>t. (i, t) \<in> set (timers s) \<longrightarrow> t \<noteq> CallBlockListeners) \<Longrightarrow> timers_inv (clearTimeout i s)"
proof -
  assume inv: "timers_inv s" and other: "\<forall>t. (i, t) \<in> set (timers s) \<longrightarrow> t \<noteq> CallBlockListeners"
  have "filter (\<lambda>(_, t). t = CallBlockListeners) (filter (\<lambda>(j, _). j \<noteq> i) (timers s)) = filter (\<lambda>(_, t). t = CallBlockListeners) (timers s)"
    using other by (auto simp: intro!: filter_cong)
  with inv show ?thesis
    by (auto simp: timers_inv_def clearTimeout_def block_timers_def distinct_map_filter)
qed

lemma setTimeout_simps [simp]:
  "sockets (setTimeout t s) = sockets s" "base_emitter (setTimeout t s) = base_emitter s" "wsProvider (setTimeout t s) = wsProvider s"
  "wsParams (setTimeout t s) = wsParams s" "reconnectTimerId (setTimeout t s) = reconnectTimerId s" "seenBlock (setTimeout t s) = seenBlock s"
  "blockListenerScheduled (setTimeout t s) = blockListenerScheduled s" "blockListeners (setTimeout t s) = blockListeners s"
  "timers (setTimeout t s) = timers s @ [(nextTimer s, t)]" "nextTimer (setTimeout t s) = Suc (nextTimer s)" "fetches (setTimeout t s) = fetches s"
  "calls (setTimeout t s) = calls s"
  by (simp_all add: setTimeout_def)

lemma clearTimeout_simps [simp]:
  "sockets (clearTimeout i s) = sockets s" "base_emitter (clearTimeout i s) = base_emitter s" "wsProvider (clearTimeout i s) = wsProvider s"
  "wsParams (clearTimeout i s) = wsParams s" "reconnectTimerId (clearTimeout i s) = reconnectTimerId s" "seenBlock (clearTimeout i s) = seenBlock s"
  "blockListenerScheduled (clearTimeout i s) = blockListenerScheduled s" "blockListeners (clearTimeout i s) = blockListeners s"
  "nextTimer (clearTimeout i s) = nextTimer s" "fetches (clearTimeout i s) = fetches s" "calls (clearTimeout i s) = calls s"
  by (simp_all add: clearTimeout_def)

lemma deleteListener_simps [simp]:
  "sockets (deleteListener k s) = sockets s" "base_emitter (deleteListener k s) = base_emitter s" "wsProvider (deleteListener k s) = wsProvider s"
  "wsParams (deleteListener k s) = wsParams s" "reconnectTimerId (deleteListener k s) = reconnectTimerId s"
  "seenBlock (deleteListener k s) = seenBlock s" "blockListenerScheduled (deleteListener k s) = blockListenerScheduled s"
  "timers (deleteListener k s) = timers s" "nextTimer (deleteListener k s) = nextTimer s" "fetches (deleteListener k s) = fetches s"
  "calls (deleteListener k s) = calls s" "blockListeners (deleteListener k s) = filter (\<lambda>(j, _). j \<noteq> k) (blockListeners s)"
  by (simp_all add: deleteListener_def)

text \<open>The sockets and who listens depend on no more than these.\<close>

lemma listening_cong:
  assumes "sockets t = sockets s" "base_emitter t = base_emitter s" "wsProvider t = wsProvider s" "wsParams t = wsParams s"
    and "distinct (map fst (blockListeners t))" "blockListeners t \<noteq> [] \<longrightarrow> blockListeners s \<noteq> []"
  shows "sockets_inv s \<Longrightarrow> sockets_inv t" "listeners_inv em s \<Longrightarrow> listeners_inv em t"
  using assms by (auto simp: sockets_inv_def listeners_inv_def fed_def)

lemma setTimeout_inv:
  assumes "timers_inv s" "t \<noteq> CallBlockListeners" "t = ReconnectTask \<longrightarrow> sockets s \<noteq> []"
  shows "timers_inv (setTimeout t s)"
  using assms by (auto simp: timers_inv_def block_timers_def)

lemma setTimeout_ws_inv:
  assumes "ws_inv em s" "t \<noteq> CallBlockListeners" "t = ReconnectTask \<longrightarrow> sockets s \<noteq> []"
  shows "ws_inv em (setTimeout t s)"
proof -
  have d: "distinct (map fst (blockListeners s))" using assms(1) by (simp add: ws_inv_def listeners_inv_def)
  show ?thesis
    using assms setTimeout_inv [of s t] listening_cong [of "setTimeout t s" s] d by (simp add: ws_inv_def)
qed

lemma deleteListener_inv: "ws_inv em s \<Longrightarrow> ws_inv em (deleteListener k s)"
  unfolding ws_inv_def by (elim conjE, intro conjI; (rule listening_cong [of _ s] timers_inv_cong [of _ s]; auto simp: listeners_inv_def distinct_map_filter)?)

lemma closeWebSocket_inv:
  assumes "emitter_calls em" and "ws_inv em s"
  shows "ws_inv em (closeWebSocket em s)"
proof (cases "wsProvider s")
  case (Some i)
  let ?t = "(update_socket i (\<lambda>w. w\<lparr>ws_onClose := False, ws_closed := True\<rparr>) s)\<lparr>wsProvider := None\<rparr>"
  have "sockets_inv ?t" "distinct (map fst (blockListeners ?t))"
    using assms(2) by (simp_all add: ws_inv_def listeners_inv_def sockets_inv_def)
  moreover have "timers_inv (switchover em ?t)"
    using assms(2) by (auto simp: ws_inv_def intro: timers_inv_cong [of _ s])
  ultimately have s1: "sockets_inv (switchover em ?t)" "listeners_inv em (switchover em ?t)" "timers_inv (switchover em ?t)"
    using switchover_inv [OF assms(1), of ?t] by blast+
  show ?thesis
  proof (cases "reconnectTimerId s")
    case None
    with Some s1 show ?thesis by (simp add: closeWebSocket_def ws_inv_def)
  next
    case (Some j)
    let ?r = "(clearTimeout j (switchover em ?t))\<lparr>reconnectTimerId := None\<rparr>"
    have "\<forall>t. (j, t) \<in> set (timers s) \<longrightarrow> t \<noteq> CallBlockListeners"
      using assms(2) Some by (auto simp: ws_inv_def timers_inv_def)
    with filter_timers [OF s1(3), of j] have "timers_inv (clearTimeout j (switchover em ?t))" by simp
    then have "timers_inv ?r" by (auto simp: timers_inv_def block_timers_def)
    moreover have "sockets_inv ?r" "listeners_inv em ?r" using s1 by (auto simp: sockets_inv_def listeners_inv_def fed_def)
    ultimately show ?thesis
      using Some \<open>wsProvider s = Some i\<close> by (simp add: closeWebSocket_def ws_inv_def)
  qed
qed (use assms in \<open>simp add: closeWebSocket_def\<close>)

lemma closeWebSocket_sockets [simp]: "sockets (closeWebSocket em s) = [] \<longleftrightarrow> sockets s = []"
  by (simp add: closeWebSocket_def Let_def split: option.split)

lemma fresh_timer: "timers_inv s \<Longrightarrow> (nextTimer s, t) \<notin> set (timers s)"
  by (auto simp: timers_inv_def)

lemma onWebSocketClose_inv:
  assumes "emitter_calls em" and "ws_inv em s" and "sockets s \<noteq> []"
  shows "ws_inv em (onWebSocketClose em s)"
proof -
  let ?s = "closeWebSocket em s"
  have "ws_inv em (setTimeout ReconnectTask ?s)"
    using closeWebSocket_inv [OF assms(1,2)] assms(3) by (intro setTimeout_ws_inv) simp_all
  moreover have "(nextTimer ?s, t) \<notin> set (timers ?s)" for t
    using closeWebSocket_inv [OF assms(1,2)] by (simp add: ws_inv_def fresh_timer)
  ultimately show ?thesis
    by (auto simp: onWebSocketClose_def Let_def ws_inv_def sockets_inv_def listeners_inv_def fed_def timers_inv_def block_timers_def)
qed

lemma onBlock_inv: "ws_inv em s \<Longrightarrow> ws_inv em (onBlock b s)"
  by (auto simp: onBlock_def Let_def ws_inv_def sockets_inv_def listeners_inv_def fed_def timers_inv_def block_timers_def)

lemma fetches_inv [simp]: "ws_inv em (s\<lparr>fetches := f\<rparr>) = ws_inv em s" "ws_inv em (s\<lparr>calls := c\<rparr>) = ws_inv em s"
  "ws_inv em (s\<lparr>base_forwarded := g\<rparr>) = ws_inv em s"
  by (simp_all add: ws_inv_def sockets_inv_def listeners_inv_def fed_def timers_inv_def block_timers_def)

lemma run_wrapped_inv: "ws_inv em s \<Longrightarrow> ws_inv em (run_wrapped k w t s)"
  by (cases w) (simp_all add: defer_call_def setTimeout_ws_inv deleteListener_inv)

lemma fold_run_wrapped_inv: "ws_inv em s \<Longrightarrow> ws_inv em (fold (\<lambda>(k, w). run_wrapped k w t) xs s)"
  by (induction xs arbitrary: s) (auto simp: run_wrapped_inv)

lemma block_timer_inv:
  assumes "ws_inv em s" and "(i, CallBlockListeners) \<in> set (timers s)"
  shows "ws_inv em ((clearTimeout i s)\<lparr>blockListenerScheduled := False\<rparr>)"
proof -
  have d: "distinct (map fst (timers s))" and l: "length (block_timers s) \<le> 1"
    using assms(1) by (auto simp: ws_inv_def timers_inv_def split: if_split_asm)
  have "i \<in> set (block_timers s)" using assms(2) by (force simp: block_timers_def)
  with l have "block_timers s = [i]"
    by (cases "block_timers s") auto
  then have "filter (\<lambda>(_, t). t = CallBlockListeners) (filter (\<lambda>(j, _). j \<noteq> i) (timers s)) = []"
    by (force simp: block_timers_def filter_empty_conv dest: arg_cong [where f = set])
  with assms(1) d show ?thesis
    by (auto simp: ws_inv_def sockets_inv_def listeners_inv_def fed_def timers_inv_def block_timers_def clearTimeout_def distinct_map_filter)
qed

lemma clearTimeout_inv:
  assumes "ws_inv em s" and "(i, t) \<in> set (timers s)" "t \<noteq> CallBlockListeners"
  shows "ws_inv em (clearTimeout i s)"
proof -
  have "distinct (map fst (timers s))" using assms(1) by (simp add: ws_inv_def timers_inv_def)
  with assms(2,3) have "\<forall>u. (i, u) \<in> set (timers s) \<longrightarrow> u \<noteq> CallBlockListeners"
    by (auto dest: eq_key_imp_eq_value)
  with assms(1) show ?thesis
    using filter_timers [of s i] by (simp add: ws_inv_def sockets_inv_def listeners_inv_def fed_def)
qed

lemma fireTimer_inv:
  assumes "emitter_calls em" and "ws_inv em s"
  shows "ws_inv em (fireTimer em i s)"
proof (cases "map_of (timers s) i")
  case (Some t)
  then have t: "(i, t) \<in> set (timers s)" by (rule map_of_SomeD)
  show ?thesis
  proof (cases t)
    case CallBlockListeners
    with Some t block_timer_inv [OF assms(2), of i] show ?thesis
      by (simp add: fireTimer_def callBlockListeners_def Let_def fold_run_wrapped_inv)
  next
    case ReconnectTask
    then show ?thesis
      using Some clearTimeout_inv [OF assms(2) t] openWebSocket_inv [OF assms(1)]
      by (auto simp: fireTimer_def split: option.split)
  next
    case (CallListener k p)
    then show ?thesis using Some clearTimeout_inv [OF assms(2) t] by (simp add: fireTimer_def)
  qed
qed (use assms in \<open>simp add: fireTimer_def\<close>)

lemma addBlockListener_inv:
  assumes "emitter_calls em" and "ws_inv em s"
  shows "ws_inv em (addBlockListener em k w s)"
proof (cases "hasListener k s")
  case False
  let ?t = "s\<lparr>blockListeners := blockListeners s @ [(k, w)]\<rparr>"
  have "timers_inv (addBlockListener em k w s)"
    using assms(2) by (auto simp: addBlockListener_def Let_def ws_inv_def intro: timers_inv_cong [of _ s])
  moreover have "sockets_inv ?t" "distinct (map fst (blockListeners ?t))" "blockListeners s \<noteq> [] \<longrightarrow> fed em ?t"
    using assms(2) False by (auto simp: ws_inv_def sockets_inv_def listeners_inv_def hasListener_def fed_def)
  ultimately show ?thesis
    using False fed_start [OF assms(1), of ?t] socket_events_inv [of ?t em]
    by (auto simp: addBlockListener_def Let_def ws_inv_def listeners_inv_def)
qed (use assms in \<open>simp add: addBlockListener_def\<close>)

lemma removeBlockListener_inv:
  assumes "ws_inv em s"
  shows "ws_inv em (removeBlockListener em k s)"
proof -
  have d: "ws_inv em (deleteListener k s)" by (rule deleteListener_inv [OF assms])
  moreover have "timers_inv (stopBlockEvents em (deleteListener k s))"
    using d by (auto simp: ws_inv_def intro: timers_inv_cong [of _ "deleteListener k s"])
  ultimately show ?thesis
    using assms socket_events_inv(2) [of "deleteListener k s" em]
    by (auto simp: removeBlockListener_def Let_def ws_inv_def listeners_inv_def)
qed

lemma finishFetch_inv: "ws_inv em s \<Longrightarrow> ws_inv em (finishFetch i r s)"
  by (auto simp: finishFetch_def Let_def defer_call_def setTimeout_ws_inv deleteListener_inv split: sum.split option.split)

lemmas ws_method_defs = ws_on_def ws_once_def ws_off_def Let_def

lemma ws_step_inv:
  assumes "emitter_calls em" and "ws_inv em s" and "ws_enabled em ev s"
  shows "ws_inv em (ws_step em h ev s)"
  using assms
  by (cases ev) (auto simp: ws_method_defs onBlock_inv finishFetch_inv fireTimer_inv closeWebSocket_inv openWebSocket_inv
      intro!: addBlockListener_inv removeBlockListener_inv run_wrapped_inv onWebSocketClose_inv)

lemma new_ws_provider_inv: "ws_inv em (new_ws_provider em)"
  by (simp add: new_ws_provider_def ws_inv_def sockets_inv_def listeners_inv_def timers_inv_def block_timers_def)

lemma ws_history_inv: "ws_history em h evs s \<Longrightarrow> emitter_calls em \<Longrightarrow> ws_inv em s"
  by (induction rule: ws_history.induct) (auto simp: new_ws_provider_inv intro: ws_step_inv)

text \<open>A concrete history is checked by running it.\<close>

fun possible :: "'e emitter \<Rightarrow> (string \<Rightarrow> nat option) \<Rightarrow> ws_event list \<Rightarrow> 'e ws_provider \<Rightarrow> bool" where
  "possible em h [] s \<longleftrightarrow> True"
| "possible em h (ev # evs) s \<longleftrightarrow> ws_enabled em ev s \<and> possible em h evs (ws_step em h ev s)"

lemma possible_extends: "ws_history em h past s \<Longrightarrow> possible em h evs s \<Longrightarrow> ws_history em h (past @ evs) (fold (ws_step em h) evs s)"
proof (induction evs arbitrary: past s)
  case (Cons ev evs)
  from Cons.prems(2) have "ws_enabled em ev s" "possible em h evs (ws_step em h ev s)" by simp_all
  with Cons.IH [OF ws_history.step [OF Cons.prems(1)], of ev] show ?case by simp
qed simp

lemma possible_history:
  "possible em h evs (new_ws_provider em) \<Longrightarrow> ws_history em h evs (fold (ws_step em h) evs (new_ws_provider em))"
  using possible_extends [OF ws_history.start] by simp

section \<open>Blocks reach the listeners\<close>

definition source_block :: "'e ws_provider \<Rightarrow> nat \<Rightarrow> ws_event" where
  "source_block s b = (case wsProvider s of None \<Rightarrow> BaseBlock b | Some i \<Rightarrow> SocketBlock i b)"

lemma run_wrapped_keeps_timers: "set (timers s) \<subseteq> set (timers (run_wrapped k w t s))"
  by (cases w) (auto simp: defer_call_def)

lemma fold_keeps_timers: "set (timers s) \<subseteq> set (timers (fold (\<lambda>(k, w). run_wrapped k w t) xs s))"
  by (induction xs arbitrary: s) (auto dest: subsetD [OF run_wrapped_keeps_timers])

lemma fold_defers_calls:
  "(k, w) \<in> set xs \<Longrightarrow> w \<in> {Pass, PassOnce} \<Longrightarrow>
     \<exists>i. (i, CallListener k (BlockPayload t)) \<in> set (timers (fold (\<lambda>(k, w). run_wrapped k w t) xs s))"
proof (induction xs arbitrary: s)
  case (Cons x xs)
  show ?case
  proof (cases "x = (k, w)")
    case True
    with Cons.prems(2) have "(nextTimer s, CallListener k (BlockPayload t)) \<in> set (timers (run_wrapped k w t s))"
      by (auto simp: defer_call_def)
    with True show ?thesis by (auto dest: subsetD [OF fold_keeps_timers])
  next
    case False
    with Cons show ?thesis by auto
  qed
qed simp

lemma block_timer_unique:
  assumes "timers_inv s" and "blockListenerScheduled s"
  obtains i where "block_timers s = [i]" "map_of (timers s) i = Some CallBlockListeners"
proof -
  have "length (block_timers s) = 1" using assms by (simp add: timers_inv_def)
  then obtain i where i: "block_timers s = [i]" by (auto simp: length_Suc_conv)
  then have "i \<in> set (block_timers s)" by simp
  then have "(i, CallBlockListeners) \<in> set (timers s)" unfolding block_timers_def by auto
  with assms(1) have "map_of (timers s) i = Some CallBlockListeners" by (simp add: timers_inv_def)
  with i show ?thesis by (rule that)
qed

text \<open>
  C17. A listener that is registered for blocks hears them. At any time, whatever was opened, closed, lost and reopened before, the provider
  listens to blocks of its present source, the web socket if it has one; a new block there schedules the listeners; and when the
  one timer that is then pending fires, every listener is called with the block that was seen last.
\<close>

theorem listeners_hear_latest_block:
  assumes "emitter_calls em" and "ws_history em h evs s" and "(k, w) \<in> set (blockListeners s)" and "w \<in> {Pass, PassOnce}"
  shows "ws_enabled em (source_block s b) s
    \<and> blockListenerScheduled (ws_step em h (source_block s b) s) \<and> seenBlock (ws_step em h (source_block s b) s) = b
    \<and> (blockListenerScheduled s \<longrightarrow> (\<exists>i t. block_timers s = [i]
          \<and> (t, CallListener k (BlockPayload (Some (seenBlock s)))) \<in> set (timers (fireTimer em i s))))"
proof -
  from ws_history_inv [OF assms(2,1)] have inv: "sockets_inv s" "listeners_inv em s" "timers_inv s" by (simp_all add: ws_inv_def)
  from assms(3) inv(2) have "fed em s" by (auto simp: listeners_inv_def)
  with inv(1) have "ws_enabled em (source_block s b) s"
    by (auto simp: source_block_def fed_def sockets_inv_def split: option.split)
  moreover have "ws_step em h (source_block s b) s = onBlock b s" by (simp add: source_block_def split: option.split)
  moreover have "blockListenerScheduled (onBlock b s)" "seenBlock (onBlock b s) = b" by (simp_all add: onBlock_def Let_def)
  moreover have "\<exists>i t. block_timers s = [i] \<and> (t, CallListener k (BlockPayload (Some (seenBlock s)))) \<in> set (timers (fireTimer em i s))"
    if scheduled: "blockListenerScheduled s"
  proof -
    obtain i where i: "block_timers s = [i]" "map_of (timers s) i = Some CallBlockListeners"
      using block_timer_unique [OF inv(3) scheduled] .
    with fold_defers_calls [OF assms(3,4), of "Some (seenBlock s)" "(clearTimeout i s)\<lparr>blockListenerScheduled := False\<rparr>"]
    show ?thesis by (auto simp: fireTimer_def callBlockListeners_def Let_def)
  qed
  ultimately show ?thesis by simp
qed

text \<open>The library's providers count registrations, and taking one back removes one.\<close>

definition counting_emitter :: "nat emitter" where
  "counting_emitter = \<lparr>em_new = 0, em_on = Suc, em_off = (\<lambda>n. n - 1), em_calls = id\<rparr>"

lemma counting_emitter_calls: "emitter_calls counting_emitter"
  by (simp add: emitter_calls_def counting_emitter_def)

definition no_hash :: "string \<Rightarrow> nat option" where
  "no_hash n = None"

definition sample_ws_events :: "ws_event list" where
  "sample_ws_events = [OnEvent (NamedEvent ''block'') 4, OpenEvent ''ws'' ''main'', SocketBlock 0 7, SocketClosed 0]"

definition sample_ws :: "nat ws_provider" where
  "sample_ws = fold (ws_step counting_emitter no_hash) sample_ws_events (new_ws_provider counting_emitter)"

lemmas ws_eval = ws_method_defs sample_ws_events_def new_ws_provider_def counting_emitter_def no_hash_def addBlockListener_def
  hasListener_def startBlockEvents_def openWebSocket_def switchover_def update_socket_def onBlock_def setTimeout_def
  onWebSocketClose_def closeWebSocket_def

lemma sample_ws_history: "ws_history counting_emitter no_hash sample_ws_events sample_ws"
  unfolding sample_ws_def by (rule possible_history) (simp add: ws_eval)

lemma sample_ws_state: "blockListeners sample_ws = [(4, Pass)]" "blockListenerScheduled sample_ws" "seenBlock sample_ws = 7" "wsProvider sample_ws = None"
  by (simp_all add: sample_ws_def ws_eval)

theorem listeners_hear_latest_block_witness:
  "ws_enabled counting_emitter (BaseBlock 9) sample_ws
   \<and> (\<exists>i t. block_timers sample_ws = [i] \<and> (t, CallListener 4 (BlockPayload (Some 7))) \<in> set (timers (fireTimer counting_emitter i sample_ws)))"
  using listeners_hear_latest_block [OF counting_emitter_calls sample_ws_history, of 4 Pass 9] sample_ws_state
  by (simp add: source_block_def)

section \<open>Listeners for one event\<close>

fun is_call_of :: "nat \<Rightarrow> task \<Rightarrow> bool" where
  "is_call_of k (CallListener j _) \<longleftrightarrow> j = k"
| "is_call_of k _ \<longleftrightarrow> False"

definition pending_calls :: "nat \<Rightarrow> 'e ws_provider \<Rightarrow> nat" where
  "pending_calls k s = length (filter (\<lambda>(_, t). is_call_of k t) (timers s))"

definition calls_of :: "nat \<Rightarrow> 'e ws_provider \<Rightarrow> nat" where
  "calls_of k s = length (filter (\<lambda>(j, _). j = k) (calls s))"

fun registers_once :: "(string \<Rightarrow> nat option) \<Rightarrow> nat \<Rightarrow> ws_event \<Rightarrow> bool" where
  "registers_once h k (OnceEvent ev j) \<longleftrightarrow> j = k \<and> (isTransactionHash h ev \<or> ev = NamedEvent ''block'')"
| "registers_once h k _ \<longleftrightarrow> False"

fun is_once :: "wrapped \<Rightarrow> bool" where
  "is_once Pass \<longleftrightarrow> False"
| "is_once PassOnce \<longleftrightarrow> True"
| "is_once (PassReceipt _) \<longleftrightarrow> False"
| "is_once (PassReceiptOnce _) \<longleftrightarrow> True"

definition due :: "nat \<Rightarrow> 'e ws_provider \<Rightarrow> nat" where
  "due k s = calls_of k s + pending_calls k s + of_bool (hasListener k s)"

definition only_once :: "nat \<Rightarrow> 'e ws_provider \<Rightarrow> bool" where
  "only_once k s \<longleftrightarrow> (\<forall>w. (k, w) \<in> set (blockListeners s) \<longrightarrow> is_once w) \<and> (\<forall>f \<in> set (fetches s). rf_key f = k \<longrightarrow> rf_once f)"

lemma due_simps [simp]:
  "due k (startBlockEvents em s) = due k s" "due k (stopBlockEvents em s) = due k s" "due k (switchover em s) = due k s"
  "due k (setTimeout t s) = due k s + of_bool (is_call_of k t)"
  "only_once k (startBlockEvents em s) = only_once k s" "only_once k (stopBlockEvents em s) = only_once k s"
  "only_once k (switchover em s) = only_once k s" "only_once k (setTimeout t s) = only_once k s" "only_once k (clearTimeout i s) = only_once k s"
  by (simp_all add: due_def calls_of_def pending_calls_def hasListener_def only_once_def)

lemma hasListener_setTimeout [simp]: "hasListener k (setTimeout t s) = hasListener k s"
  by (simp add: hasListener_def)

lemma due_deleteListener: "due k (deleteListener j s) = (if j = k then due k s - of_bool (hasListener k s) else due k s)"
  by (auto simp: due_def calls_of_def pending_calls_def hasListener_def image_iff)

lemma only_once_deleteListener: "only_once k s \<Longrightarrow> only_once k (deleteListener j s)"
  by (auto simp: only_once_def)

lemma due_clearTimeout: "due k (clearTimeout i s) \<le> due k s"
proof -
  have "length (filter P (filter Q xs)) \<le> length (filter P xs)" for P Q and xs :: "(nat \<times> task) list"
    by (induction xs) auto
  then show ?thesis
    by (simp add: due_def calls_of_def pending_calls_def hasListener_def clearTimeout_def del: filter_filter)
qed

lemma due_run_wrapped:
  assumes "only_once k s" and "j = k \<Longrightarrow> is_once w \<and> hasListener k s"
  shows "due k (run_wrapped j w t s) = due k s \<and> only_once k (run_wrapped j w t s)"
proof (cases w)
  case PassOnce
  with assms show ?thesis
    by (simp add: defer_call_def due_deleteListener only_once_deleteListener)
qed (use assms in \<open>auto simp: defer_call_def due_def calls_of_def pending_calls_def hasListener_def only_once_def\<close>)

lemma run_wrapped_others: "j \<noteq> k \<Longrightarrow> hasListener j (run_wrapped k w t s) = hasListener j s"
  by (cases w) (force simp: hasListener_def defer_call_def)+

lemma due_fold:
  assumes "distinct (map fst xs)" and "\<forall>(j, w) \<in> set xs. hasListener j s" and "\<forall>w. (k, w) \<in> set xs \<longrightarrow> is_once w" and "only_once k s"
  shows "due k (fold (\<lambda>(j, w). run_wrapped j w t) xs s) = due k s \<and> only_once k (fold (\<lambda>(j, w). run_wrapped j w t) xs s)"
  using assms
proof (induction xs arbitrary: s)
  case (Cons x xs)
  obtain j w where x: "x = (j, w)" by (cases x)
  let ?t = "run_wrapped j w t s"
  have "\<forall>(i, w) \<in> set xs. hasListener i ?t"
  proof safe
    fix i v assume "(i, v) \<in> set xs"
    with Cons.prems(1,2) x have "hasListener i s" "i \<noteq> j" by force+
    then show "hasListener i ?t" by (simp add: run_wrapped_others)
  qed
  moreover have "due k ?t = due k s \<and> only_once k ?t"
    by (rule due_run_wrapped) (use Cons.prems x in auto)
  ultimately show ?case using Cons.IH [of ?t] Cons.prems x by auto
qed simp

lemma due_fields [simp]:
  "due k (s\<lparr>sockets := a, wsProvider := b, wsParams := c\<rparr>) = due k s" "due k (s\<lparr>wsProvider := b\<rparr>) = due k s"
  "due k (update_socket i f s) = due k s" "due k (s\<lparr>reconnectTimerId := r\<rparr>) = due k s" "due k (s\<lparr>fetches := x\<rparr>) = due k s"
  "due k (s\<lparr>seenBlock := n\<rparr>) = due k s" "due k (s\<lparr>seenBlock := n, blockListenerScheduled := d\<rparr>) = due k s"
  "due k (s\<lparr>blockListenerScheduled := d\<rparr>) = due k s" "due k (s\<lparr>base_forwarded := g\<rparr>) = due k s"
  "only_once k (s\<lparr>sockets := a, wsProvider := b, wsParams := c\<rparr>) = only_once k s" "only_once k (s\<lparr>wsProvider := b\<rparr>) = only_once k s"
  "only_once k (update_socket i f s) = only_once k s" "only_once k (s\<lparr>reconnectTimerId := r\<rparr>) = only_once k s"
  "only_once k (s\<lparr>seenBlock := n\<rparr>) = only_once k s" "only_once k (s\<lparr>seenBlock := n, blockListenerScheduled := d\<rparr>) = only_once k s"
  "only_once k (s\<lparr>blockListenerScheduled := d\<rparr>) = only_once k s" "only_once k (s\<lparr>base_forwarded := g\<rparr>) = only_once k s"
  "only_once k (s\<lparr>calls := cs\<rparr>) = only_once k s"
  by (simp_all add: due_def calls_of_def pending_calls_def hasListener_def only_once_def)

lemma openWebSocket_due [simp]:
  "due k (openWebSocket em url network s) = due k s" "only_once k (openWebSocket em url network s) = only_once k s"
  by (simp_all add: openWebSocket_def)

lemma closeWebSocket_due: "due k (closeWebSocket em s) \<le> due k s" "only_once k (closeWebSocket em s) = only_once k s"
proof -
  have "due k (clearTimeout i (switchover em (update_socket j f s\<lparr>wsProvider := b\<rparr>))) \<le> due k s" for i j f b
    by (rule order_trans [OF due_clearTimeout]) simp
  then show "due k (closeWebSocket em s) \<le> due k s"
    by (auto simp: closeWebSocket_def Let_def split: option.split)
  show "only_once k (closeWebSocket em s) = only_once k s"
    by (simp add: closeWebSocket_def Let_def split: option.split)
qed

lemma onWebSocketClose_due: "due k (onWebSocketClose em s) \<le> due k s" "only_once k (onWebSocketClose em s) = only_once k s"
  by (simp_all add: onWebSocketClose_def Let_def closeWebSocket_due)

lemma addBlockListener_due:
  "due k (addBlockListener em j w s) \<le> due k s + of_bool (j = k)"
  "only_once k s \<Longrightarrow> (j = k \<Longrightarrow> is_once w) \<Longrightarrow> only_once k (addBlockListener em j w s)"
proof -
  let ?t = "s\<lparr>blockListeners := blockListeners s @ [(j, w)]\<rparr>"
  have "due k ?t \<le> due k s + of_bool (j = k)"
    by (auto simp: due_def calls_of_def pending_calls_def hasListener_def)
  then show "due k (addBlockListener em j w s) \<le> due k s + of_bool (j = k)"
    by (cases "blockListeners s") (simp_all add: addBlockListener_def Let_def)
  assume "only_once k s" "j = k \<Longrightarrow> is_once w"
  then have "only_once k ?t" by (auto simp: only_once_def)
  with \<open>only_once k s\<close> show "only_once k (addBlockListener em j w s)"
    by (cases "blockListeners s") (simp_all add: addBlockListener_def Let_def)
qed

lemma removeBlockListener_due:
  "due k (removeBlockListener em j s) \<le> due k s" "only_once k s \<Longrightarrow> only_once k (removeBlockListener em j s)"
  by (simp_all add: removeBlockListener_def Let_def due_deleteListener only_once_deleteListener)

lemma finishFetch_due:
  assumes "only_once k s" and "i < length (fetches s)"
  shows "due k (finishFetch i r s) \<le> due k s \<and> only_once k (finishFetch i r s)"
proof -
  let ?f = "fetches s ! i" and ?t = "s\<lparr>fetches := take i (fetches s) @ drop (Suc i) (fetches s)\<rparr>"
  have once: "rf_key ?f = k \<Longrightarrow> rf_once ?f" using assms by (auto simp: only_once_def)
  have t: "only_once k ?t" using assms(1) by (auto simp: only_once_def dest: in_set_takeD in_set_dropD)
  show ?thesis
    using once t by (auto simp: finishFetch_def Let_def defer_call_def due_deleteListener only_once_deleteListener split: sum.split option.split)
qed

lemma filter_removes_one: "(i, t) \<in> set xs \<Longrightarrow> P (i, t) \<Longrightarrow> Suc (length (filter P (filter (\<lambda>(j, _). j \<noteq> i) xs))) \<le> length (filter P xs)"
proof (induction xs)
  case (Cons x xs)
  have "length (filter P (filter (\<lambda>(j, _). j \<noteq> i) xs)) \<le> length (filter P xs)" by (induction xs) auto
  with Cons show ?case by (cases x) auto
qed simp

lemma fireTimer_due:
  assumes "ws_inv em s" and "only_once k s"
  shows "due k (fireTimer em i s) \<le> due k s \<and> only_once k (fireTimer em i s)"
proof (cases "map_of (timers s) i")
  case (Some t)
  let ?c = "clearTimeout i s"
  show ?thesis
  proof (cases t)
    case ReconnectTask
    with Some assms show ?thesis by (simp add: fireTimer_def due_clearTimeout split: option.split)
  next
    case CallBlockListeners
    let ?d = "?c\<lparr>blockListenerScheduled := False\<rparr>"
    have "distinct (map fst (blockListeners s))" using assms(1) by (simp add: ws_inv_def listeners_inv_def)
    moreover have "\<forall>(j, w) \<in> set (blockListeners s). hasListener j ?d" by (force simp: hasListener_def)
    moreover have "\<forall>w. (k, w) \<in> set (blockListeners s) \<longrightarrow> is_once w" using assms(2) by (simp add: only_once_def)
    moreover have "only_once k ?d" using assms(2) by simp
    ultimately have "due k (callBlockListeners ?c) = due k ?c \<and> only_once k (callBlockListeners ?c)"
      using due_fold [of "blockListeners s" ?d k "Some (seenBlock s)"] by (simp add: callBlockListeners_def Let_def)
    with Some CallBlockListeners due_clearTimeout [of k i s] show ?thesis by (simp add: fireTimer_def)
  next
    case (CallListener j p)
    have "due k (?c\<lparr>calls := calls s @ [(j, p)]\<rparr>) \<le> due k s"
    proof (cases "j = k")
      case True
      with filter_removes_one [OF map_of_SomeD [OF Some], of "\<lambda>(_, t). is_call_of k t"] CallListener show ?thesis
        by (simp add: due_def calls_of_def pending_calls_def hasListener_def clearTimeout_def del: filter_filter)
    next
      case False
      with due_clearTimeout [of k i s] show ?thesis
        by (simp add: due_def calls_of_def pending_calls_def hasListener_def)
    qed
    with Some CallListener assms(2) show ?thesis by (simp add: fireTimer_def)
  qed
qed (use assms in \<open>simp add: fireTimer_def\<close>)

lemma ws_step_due:
  assumes "ws_inv em s" and "ws_enabled em ev s" and "only_once k s" and "\<forall>x. ev \<noteq> OnEvent x k"
  shows "due k (ws_step em h ev s) \<le> due k s + of_bool (registers_once h k ev) \<and> only_once k (ws_step em h ev s)"
proof (cases ev)
  case (OnEvent x j)
  with assms(4) have j: "j \<noteq> k" by auto
  let ?w = "PassReceipt (event_name x)"
  let ?t = "run_wrapped j ?w None s"
  have t: "due k ?t = due k s" "only_once k ?t"
    using due_run_wrapped [OF assms(3), of j ?w None] j by blast+
  with addBlockListener_due(1) [of k em j ?w ?t] addBlockListener_due(2) [of k ?t j ?w em]
    addBlockListener_due(1) [of k em j Pass s] addBlockListener_due(2) [of k s j Pass em] assms(3) OnEvent j
  show ?thesis by (auto simp: ws_on_def Let_def simp del: run_wrapped.simps)
next
  case (OnceEvent x j)
  let ?w = "PassReceiptOnce (event_name x)"
  let ?t = "run_wrapped j ?w None s"
  have t: "due k ?t = due k s" "only_once k ?t"
    using assms(3) by (auto simp: only_once_def)
  with addBlockListener_due(1) [of k em j ?w ?t] addBlockListener_due(2) [of k ?t j ?w em]
    addBlockListener_due(1) [of k em j PassOnce s] addBlockListener_due(2) [of k s j PassOnce em] assms(3) OnceEvent
  show ?thesis by (auto simp: ws_once_def Let_def)
next
  case (OffEvent x j)
  with assms(3) show ?thesis by (simp add: ws_off_def removeBlockListener_due)
next
  case (TimerEvent i)
  with fireTimer_due [OF assms(1,3)] show ?thesis by simp
next
  case (FetchedEvent i r)
  with finishFetch_due [OF assms(3), of i r] assms(2) show ?thesis by simp
qed (use assms(3) in \<open>simp_all add: onWebSocketClose_due closeWebSocket_due onBlock_def Let_def\<close>)

text \<open>
  C18. A listener given to \<^verbatim>\<open>once\<close> is called at most once for every time it was given, also if several receipts of its transaction are being
  fetched at the same time, blocks arrive in between or the connection is lost: a function that was never given to \<^verbatim>\<open>on\<close> has been called no more often
  than it was registered.
\<close>

theorem once_is_at_most_once:
  assumes "emitter_calls em" and "ws_history em h evs s" and "\<forall>x. OnEvent x k \<notin> set evs"
  shows "length (filter (\<lambda>(j, _). j = k) (calls s)) \<le> length (filter (registers_once h k) evs)"
proof -
  have "due k s \<le> length (filter (registers_once h k) evs) \<and> only_once k s"
    using assms(2,3)
  proof (induction rule: ws_history.induct)
    case start
    show ?case by (simp add: due_def calls_of_def pending_calls_def hasListener_def only_once_def new_ws_provider_def)
  next
    case (step evs s ev)
    then have "due k s \<le> length (filter (registers_once h k) evs)" "only_once k s" "\<forall>x. ev \<noteq> OnEvent x k" by auto
    with ws_step_due [OF ws_history_inv [OF step.hyps(1) assms(1)] step.hyps(2), of k h] show ?case by auto
  qed
  then show ?thesis by (simp add: due_def calls_of_def)
qed

definition once_events :: "ws_event list" where
  "once_events = [OnceEvent (NamedEvent ''block'') 4, BaseBlock 7, TimerEvent 0, TimerEvent 1]"

definition once_ws :: "nat ws_provider" where
  "once_ws = fold (ws_step counting_emitter no_hash) once_events (new_ws_provider counting_emitter)"

lemmas once_eval = ws_eval once_events_def once_ws_def fireTimer_def callBlockListeners_def clearTimeout_def defer_call_def deleteListener_def

theorem once_is_at_most_once_witness:
  "calls once_ws = [(4, BlockPayload (Some 7))] \<and> length (filter (\<lambda>(j, _). j = 4) (calls once_ws)) \<le> Suc 0"
proof -
  have "ws_history counting_emitter no_hash once_events once_ws"
    unfolding once_ws_def by (rule possible_history) (simp add: once_eval)
  from once_is_at_most_once [OF counting_emitter_calls this, of 4] show ?thesis by (simp add: once_eval)
qed

text \<open>
  A listener given to \<^verbatim>\<open>once\<close> takes itself out of the map without stopping the block events, so after the last of them was called the
  provider still listens to blocks (and the next listener registers the class's own listener a second time).
\<close>

theorem once_keeps_block_events:
  assumes "emitter_calls em" and "ws_history em h evs s" and "blockListeners s = [(k, PassOnce)]" and "block_timers s = [i]"
  shows "blockListeners (fireTimer em i s) = [] \<and> fed em (fireTimer em i s)"
proof -
  from ws_history_inv [OF assms(2,1)] have inv: "listeners_inv em s" "timers_inv s" by (simp_all add: ws_inv_def)
  from inv(2) assms(4) have "blockListenerScheduled s" by (auto simp: timers_inv_def split: if_split_asm)
  with block_timer_unique [OF inv(2)] assms(4) have "map_of (timers s) i = Some CallBlockListeners" by auto
  with assms(3) inv(1) show ?thesis
    by (simp add: fireTimer_def callBlockListeners_def Let_def defer_call_def listeners_inv_def fed_def)
qed

text \<open>
  Listeners are told apart by the function alone. If a function is registered for a second transaction while it waits for a first one, the second
  registration is dropped: no later block makes the provider look for the second transaction.
\<close>

theorem second_hash_is_dropped:
  assumes "hasListener k s"
  shows "blockListeners (ws_on em h ev k s) = blockListeners s" "blockListeners (ws_once em h ev k s) = blockListeners s"
  using assms by (simp_all add: ws_on_def ws_once_def Let_def addBlockListener_def hasListener_def)

section \<open>Answers of nodes that lag behind\<close>

definition glitch :: "(nat \<Rightarrow> 'a result) \<Rightarrow> (nat \<Rightarrow> nat) \<Rightarrow> nat \<Rightarrow> nat \<Rightarrow> bool" where
  "glitch perform seen startingBlock n \<longleftrightarrow> (\<exists>e. perform n = Inl e \<and> isHeaderNotFoundError e) \<and> seen (Suc n) = startingBlock"

lemma retry_unfold: "retrySeenBlock perform seen b n =
    (if glitch perform seen b n then retrySeenBlock perform seen b (n + 2) else Some (Suc n, perform n))"
  by (subst retrySeenBlock.simps) (auto simp: glitch_def split: sum.split)

lemma retry_settled: "\<not> glitch perform seen b n \<Longrightarrow> retrySeenBlock perform seen b n = Some (Suc n, perform n)"
  by (subst retry_unfold) simp

lemma retry_after_glitches:
  "\<forall>i < j. glitch perform seen b (n + 2 * i) \<Longrightarrow> retrySeenBlock perform seen b n = retrySeenBlock perform seen b (n + 2 * j)"
proof (induction j)
  case (Suc j)
  then have "retrySeenBlock perform seen b n = retrySeenBlock perform seen b (n + 2 * j)" by simp
  also have "\<dots> = retrySeenBlock perform seen b (n + 2 * Suc j)" using Suc.prems by (subst retry_unfold) simp
  finally show ?case .
qed simp

lemma retry_returned:
  "retrySeenBlock perform seen b n = Some y \<Longrightarrow> \<exists>j. \<not> glitch perform seen b (n + 2 * j) \<and> (\<forall>i < j. glitch perform seen b (n + 2 * i))"
proof (induction rule: retrySeenBlock.raw_induct [rotated 1, consumes 1])
  case (1 f perform seen b n y)
  show ?case
  proof (cases "glitch perform seen b n")
    case True
    with 1(2) have "f perform seen b (Suc (Suc n)) = Some y" by (auto simp: glitch_def)
    from 1(1) [OF this] obtain j where "\<not> glitch perform seen b (n + 2 * Suc j)" "\<forall>i < j. glitch perform seen b (n + 2 * Suc i)" by auto
    with True have "\<not> glitch perform seen b (n + 2 * Suc j) \<and> (\<forall>i < Suc j. glitch perform seen b (n + 2 * i))"
      by (auto simp: less_Suc_eq_0_disj)
    then show ?thesis by blast
  next
    case False
    then show ?thesis by (intro exI [of _ 0]) simp
  qed
qed

text \<open>
  A request about the latest block is repeated while a node answers that it does not know the block: it returns exactly if some attempt succeeds, fails for
  another reason or finds that the provider has seen a newer block, and returns the outcome of the first such attempt.
\<close>

theorem retrySeenBlock_outcome:
  "retrySeenBlock perform seen b n = Some (m, r) \<longleftrightarrow>
     (\<exists>j. m = Suc (n + 2 * j) \<and> r = perform (n + 2 * j) \<and> \<not> glitch perform seen b (n + 2 * j) \<and> (\<forall>i < j. glitch perform seen b (n + 2 * i)))"
proof
  assume r: "retrySeenBlock perform seen b n = Some (m, r)"
  from retry_returned [OF this] obtain j where j: "\<not> glitch perform seen b (n + 2 * j)" "\<forall>i < j. glitch perform seen b (n + 2 * i)" by blast
  have "retrySeenBlock perform seen b n = Some (Suc (n + 2 * j), perform (n + 2 * j))"
    using retry_after_glitches [OF j(2)] retry_settled [OF j(1)] by simp
  with r j show "\<exists>j. m = Suc (n + 2 * j) \<and> r = perform (n + 2 * j) \<and> \<not> glitch perform seen b (n + 2 * j) \<and> (\<forall>i < j. glitch perform seen b (n + 2 * i))"
    by auto
next
  assume "\<exists>j. m = Suc (n + 2 * j) \<and> r = perform (n + 2 * j) \<and> \<not> glitch perform seen b (n + 2 * j) \<and> (\<forall>i < j. glitch perform seen b (n + 2 * i))"
  then obtain j where "m = Suc (n + 2 * j)" "r = perform (n + 2 * j)" "\<not> glitch perform seen b (n + 2 * j)" and j: "\<forall>i < j. glitch perform seen b (n + 2 * i)"
    by blast
  then show "retrySeenBlock perform seen b n = Some (m, r)" by (simp add: retry_after_glitches [OF j] retry_settled)
qed

text \<open>A transaction that either knows is found, whichever answers first.\<close>

lemma ws_getTransaction_finds:
  assumes "base_answer = Inr a" and "socket_answer = None \<or> socket_answer = Some (Inr b)" and "a = Some t \<or> socket_answer = Some (Inr (Some t))"
  shows "\<exists>u. ws_getTransaction base_answer socket_answer socketFirst = Inr (Some u)"
  using assms by (auto simp: ws_getTransaction_def Let_def split: option.split)

section \<open>Receipts\<close>

lemma receipt_unfold: "getTransactionReceiptFromLatest node h latest n = (case node_receipt node n h of
      Inl e \<Rightarrow> Some (Suc n, Inl e)
    | Inr None \<Rightarrow> (case latest of None \<Rightarrow> Some (Suc n, Inr None)
        | Some b \<Rightarrow> Option.bind (blockContainsTx node b h (Suc n)) (\<lambda>(m, c). case c of
                  Inl e \<Rightarrow> Some (m, Inl e)
                | Inr found \<Rightarrow> (if found then getTransactionReceiptFromLatest node h latest (Suc m) else Some (m, Inr None))))
    | Inr (Some r) \<Rightarrow> (if \<forall>b. latest = Some b \<longrightarrow> receipt_covers r b then Some (Suc n, Inr (Some r))
                        else getTransactionReceiptFromLatest node h latest (Suc (Suc n))))"
  by (subst getTransactionReceiptFromLatest.simps) (auto split: sum.split option.split)

text \<open>A receipt is not older than the block that prompted the request.\<close>

lemma receipt_is_current:
  "getTransactionReceiptFromLatest node h latest n = Some (m, res) \<Longrightarrow> res = Inr (Some r) \<Longrightarrow> latest = Some b \<Longrightarrow> receipt_covers r b"
proof (induction "(m, res)" arbitrary: m res rule: getTransactionReceiptFromLatest.raw_induct [rotated 1, consumes 1])
  case (1 f node h latest n)
  from 1(2-4) show ?case
    by (auto split: sum.split_asm option.split_asm if_split_asm bind_split_asm dest: 1(1) [OF _ refl])
qed

text \<open>
  A node that works: it knows every block it announced after a while, never fails, and from some time on has the transaction's receipt with enough confirmations.
\<close>

definition working_node :: "ws_node \<Rightarrow> string \<Rightarrow> nat option \<Rightarrow> nat \<Rightarrow> bool" where
  "working_node node h confirmations N \<longleftrightarrow>
     (\<forall>n. \<exists>x. node_receipt node n h = Inr x)
     \<and> (\<forall>k n. \<exists>x. node_block node n (next_block node k) = Inr x)
     \<and> (\<forall>k. \<exists>M. \<forall>n \<ge> M. node_block node n (next_block node k) \<noteq> Inr None)
     \<and> (\<forall>n \<ge> N. \<exists>r. node_receipt node n h = Inr (Some r) \<and> confirmed confirmations r \<and> (\<forall>k < n. receipt_covers r (next_block node k)))"

lemma block_found:
  assumes "\<forall>n. \<exists>x. node_block node n b = Inr x" and "\<forall>n \<ge> M. node_block node n b \<noteq> Inr None"
  shows "\<exists>m c. n < m \<and> blockContainsTx node b h n = Some (m, Inr c)"
proof (induction "M - n" arbitrary: n rule: less_induct)
  case less
  from assms(1) obtain x where x: "node_block node (Suc n) b = Inr x" by blast
  show ?case
  proof (cases x)
    case None
    with x assms(2) have "M - Suc (Suc n) < M - n" by (metis diff_less_mono2 lessI not_less_eq_eq not_le less_SucI linorder_not_le)
    from less [OF this] obtain m c where "Suc (Suc n) < m" "blockContainsTx node b h (Suc (Suc n)) = Some (m, Inr c)" by blast
    with x None show ?thesis by (subst blockContainsTx.simps) (auto intro: Suc_lessD)
  next
    case (Some txs)
    with x show ?thesis by (subst blockContainsTx.simps) auto
  qed
qed

lemma receipt_returns:
  assumes "working_node node h confirmations N" and "latest = None \<or> (\<exists>k < n. latest = Some (next_block node k))"
  shows "\<exists>m x. n < m \<and> getTransactionReceiptFromLatest node h latest n = Some (m, Inr x) \<and> (N \<le> n \<longrightarrow> (\<exists>r. x = Some r \<and> confirmed confirmations r))"
  using assms(2)
proof (induction "N - n" arbitrary: n rule: less_induct)
  case less
  have later: "\<exists>m x. n < m \<and> getTransactionReceiptFromLatest node h latest i = Some (m, Inr x)" if "n < i" "n < N" for i
  proof -
    have "N - i < N - n" "latest = None \<or> (\<exists>k < i. latest = Some (next_block node k))" using that less.prems by (auto intro: less_trans)
    from less.hyps [OF this] show ?thesis using that(1) by (blast intro: less_trans)
  qed
  from assms(1) obtain x where x: "node_receipt node n h = Inr x" unfolding working_node_def by blast
  show ?case
  proof (cases "N \<le> n")
    case True
    with assms(1) obtain r where "node_receipt node n h = Inr (Some r)" "confirmed confirmations r" "\<forall>k < n. receipt_covers r (next_block node k)"
      unfolding working_node_def by blast
    with less.prems show ?thesis by (subst receipt_unfold) auto
  next
    case False
    then have n: "n < N" by simp
    have "\<exists>m x. n < m \<and> getTransactionReceiptFromLatest node h latest n = Some (m, Inr x)"
    proof (cases x)
      case (Some r)
      with x later [OF _ n, of "Suc (Suc n)"] show ?thesis by (subst receipt_unfold) auto
    next
      case None
      show ?thesis
      proof (cases latest)
        case (Some b)
        with less.prems obtain k where "b = next_block node k" by auto
        then have known: "\<forall>n. \<exists>x. node_block node n b = Inr x" and "\<exists>M. \<forall>n \<ge> M. node_block node n b \<noteq> Inr None"
          using assms(1) by (simp_all add: working_node_def)
        then obtain M where "\<forall>n \<ge> M. node_block node n b \<noteq> Inr None" by blast
        from block_found [OF known this, of "Suc n" h] obtain m c where m: "Suc n < m" "blockContainsTx node b h (Suc n) = Some (m, Inr c)" by blast
        with later [OF _ n, of "Suc m"] x None Some show ?thesis by (subst receipt_unfold) auto
      qed (use x None in \<open>subst receipt_unfold, auto\<close>)
    qed
    with False show ?thesis by auto
  qed
qed

lemma wait_returns:
  assumes "working_node node h confirmations N" and "latest = None \<or> (\<exists>k < n. latest = Some (next_block node k))"
  shows "\<exists>m r. wait_for_transaction node h confirmations latest n = Some (m, Inr r) \<and> confirmed confirmations r"
  using assms(2)
proof (induction "N - n" arbitrary: n latest rule: less_induct)
  case less
  from receipt_returns [OF assms(1) less.prems] obtain m x where m: "n < m" "getTransactionReceiptFromLatest node h latest n = Some (m, Inr x)"
    and last: "N \<le> n \<Longrightarrow> \<exists>r. x = Some r \<and> confirmed confirmations r" by blast
  show ?case
  proof (cases "\<exists>r. x = Some r \<and> confirmed confirmations r")
    case True
    then obtain r where "x = Some r" "confirmed confirmations r" by blast
    with m(2) show ?thesis by (subst wait_for_transaction.simps) simp
  next
    case False
    with last m(1) have "N - Suc m < N - n" by fastforce
    from less.hyps [OF this, of "Some (next_block node m)"] m False show ?thesis
      by (subst wait_for_transaction.simps) (auto split: option.split)
  qed
qed

text \<open>
  C19. Waiting for a transaction ends. If the nodes do not fail, know every block they announced after a while, and from some time on have the transaction's
  receipt with enough confirmations and up to date, then \<^verbatim>\<open>waitForTransaction\<close> (without a timeout) returns a receipt that has them, whatever stale
  answers it gets before.
\<close>

theorem waitForTransaction_returns:
  assumes "working_node node h confirmations N"
  shows "\<exists>m r. ws_waitForTransaction base_wait node h confirmations None = Some (m, Inr r) \<and> confirmed confirmations r"
  using wait_returns [OF assms, of None 0] by (simp add: ws_waitForTransaction_def)

definition lagging_node :: ws_node where
  "lagging_node = \<lparr>node_receipt = (\<lambda>n h. Inr (if n < 5 then None else Some \<lparr>rc_transactionHash = h, rc_blockNumber = 3, rc_confirmations = n + 6\<rparr>)),
     node_block = (\<lambda>n b. Inr (if n < 3 then None else Some [''0x1''])), next_block = (\<lambda>n. n + 3)\<rparr>"

theorem waitForTransaction_returns_witness:
  "\<exists>m r. ws_waitForTransaction (\<lambda>_ _ _. None) lagging_node ''0x1'' (Some 2) None = Some (m, Inr r) \<and> 2 \<le> rc_confirmations r"
proof -
  have "working_node lagging_node ''0x1'' (Some 2) 5"
    by (auto simp: working_node_def lagging_node_def confirmed_def receipt_covers_def intro: exI [of _ 3])
  from waitForTransaction_returns [OF this] show ?thesis unfolding confirmed_def option.case .
qed

end
