(* ===== verification/React_Hooks.thy ===== *)
theory React_Hooks
  imports JS_Prelude
begin

text \<open>
  Between the store and the components: the hooks of \<^verbatim>\<open>packages/lib-react/src\<close> (\<^verbatim>\<open>utils/equals.ts\<close>, \<^verbatim>\<open>hooks/useLiquitySelector.ts\<close>, \<^verbatim>\<open>hooks/useLiquityReducer.ts\<close>,
  \<^verbatim>\<open>hooks/useLiquityStore.ts\<close>, \<^verbatim>\<open>components/LiquityStoreProvider.tsx\<close>), and hooks of the application that keep state themselves
  (\<^verbatim>\<open>packages/dev-frontend/src\<close>: \<^verbatim>\<open>hooks/useEqualValue.ts\<close>, \<^verbatim>\<open>hooks/usePrevious.ts\<close>, \<^verbatim>\<open>hooks/AsyncValue.ts\<close>, \<^verbatim>\<open>components/Snackbar.tsx\<close>).

  A component is rendered with its state, its effects run after it was rendered, and a new state that is set takes effect at the next rendering. So rendering, running
  effects and what happens outside are separate steps here, and a function made in a rendering keeps the values of that rendering.
\<close>

section \<open>Equality\<close>

text \<open>
  What \<^verbatim>\<open>Object.is\<close> compares: primitive values by value, objects by identity. An object has its own properties as a list without repeated names.
\<close>

datatype 'p js_ref = PrimitiveRef 'p | ObjectRef nat

datatype 'p js_val = JsPrimitive 'p | JsObject nat "(string \<times> 'p js_ref) list"

fun object_is :: "'p js_val \<Rightarrow> 'p js_val \<Rightarrow> bool" where
  "object_is (JsPrimitive a) (JsPrimitive b) \<longleftrightarrow> a = b"
| "object_is (JsObject i _) (JsObject j _) \<longleftrightarrow> i = j"
| "object_is _ _ \<longleftrightarrow> False"

definition hasOwnProperty :: "(string \<times> 'v) list \<Rightarrow> string \<Rightarrow> bool" where
  "hasOwnProperty ob key \<longleftrightarrow> key \<in> fst ` set ob"

definition shallowEquals :: "(string \<times> 'v) list \<Rightarrow> (string \<times> 'v) list \<Rightarrow> bool" where
  "shallowEquals a b \<longleftrightarrow> length (map fst a) = length (map fst b)
     \<and> (\<forall>key \<in> set (map fst a). hasOwnProperty b key \<and> map_of a key = map_of b key)"

fun js_equals :: "'p js_val \<Rightarrow> 'p js_val \<Rightarrow> bool" where
  "js_equals (JsObject _ a) (JsObject _ b) \<longleftrightarrow> shallowEquals a b"
| "js_equals a b \<longleftrightarrow> object_is a b"

section \<open>Selecting from the store\<close>

text \<open>
  The hook's state is the store's state it shows, a state set for the next rendering, and the state that the function subscribed to the store compares with
  (\<open>None\<close> as long as nothing is subscribed). States are compared with \<open>eq\<close>.
\<close>

record 's selector_hook =
  sh_storeState :: 's
  sh_queued :: "'s option"
  sh_subscriber :: "'s option"

definition mount_selector :: "'s \<Rightarrow> 's selector_hook" where
  "mount_selector storeState = \<lparr>sh_storeState = storeState, sh_queued = None, sh_subscriber = None\<rparr>"

definition selector_notified :: "('s \<Rightarrow> 's \<Rightarrow> bool) \<Rightarrow> 's \<Rightarrow> 's selector_hook \<Rightarrow> 's selector_hook" where
  "selector_notified eq newState h = (case sh_subscriber h of
      None \<Rightarrow> h
    | Some captured \<Rightarrow> (if eq newState captured then h else h\<lparr>sh_queued := Some newState\<rparr>))"

definition selector_render :: "'s selector_hook \<Rightarrow> 's selector_hook" where
  "selector_render h = (case sh_queued h of None \<Rightarrow> h | Some s \<Rightarrow> h\<lparr>sh_storeState := s, sh_queued := None\<rparr>)"

definition selector_effect :: "'s selector_hook \<Rightarrow> 's selector_hook" where
  "selector_effect h = h\<lparr>sh_subscriber := Some (sh_storeState h)\<rparr>"

definition useLiquitySelector :: "('s \<Rightarrow> 'a) \<Rightarrow> 's selector_hook \<Rightarrow> 'a" where
  "useLiquitySelector select h = select (sh_storeState h)"

definition useLiquityStore :: "'a option \<Rightarrow> 'a result" where
  "useLiquityStore context' = (case context' of Some s \<Rightarrow> Inr s | None \<Rightarrow> Inl (Error ''You must provide a LiquityStore via LiquityStoreProvider''))"

section \<open>Reducing with the store\<close>

record 'st reducer_hook =
  rh_state :: 'st
  rh_oldStore :: nat
  rh_rerenders :: nat

definition mount_reducer :: "('s \<Rightarrow> 'st) \<Rightarrow> nat \<Rightarrow> 's \<Rightarrow> 'st reducer_hook" where
  "mount_reducer init store storeState = \<lparr>rh_state = init storeState, rh_oldStore = store, rh_rerenders = 0\<rparr>"

definition reducer_dispatch ::
  "('st \<Rightarrow> 'st \<Rightarrow> bool) \<Rightarrow> ('st \<Rightarrow> 'action \<Rightarrow> 'st) \<Rightarrow> 'action \<Rightarrow> 'st reducer_hook \<Rightarrow> 'st reducer_hook" where
  "reducer_dispatch eq reduce action h =
     (let newState = reduce (rh_state h) action
      in if eq newState (rh_state h) then h else h\<lparr>rh_state := newState, rh_rerenders := Suc (rh_rerenders h)\<rparr>)"

definition reducer_render :: "('s \<Rightarrow> 'st) \<Rightarrow> nat \<Rightarrow> 's \<Rightarrow> 'st reducer_hook \<Rightarrow> 'st reducer_hook" where
  "reducer_render init store storeState h =
     (if rh_oldStore h \<noteq> store then h\<lparr>rh_state := init storeState, rh_oldStore := store\<rparr> else h)"

section \<open>Loading a store\<close>

text \<open>
  The provider gets a store as a property. Its effect gives the store a handler for having been loaded and refreshes it; \<open>lp_handler\<close> is the store that has the
  handler.
\<close>

record store_provider =
  lp_store :: nat
  lp_isStoreLoaded :: bool
  lp_storeError :: "js_error option"
  lp_handler :: "nat option"
  lp_refreshing :: "nat list"

datatype rendered = ShowLoader | ShowError js_error | ShowChildren nat

definition mount_store_provider :: "nat \<Rightarrow> store_provider" where
  "mount_store_provider store = \<lparr>lp_store = store, lp_isStoreLoaded = False, lp_storeError = None, lp_handler = None, lp_refreshing = []\<rparr>"

definition provider_props :: "nat \<Rightarrow> store_provider \<Rightarrow> store_provider" where
  "provider_props store p = p\<lparr>lp_store := store\<rparr>"

text \<open>The effect runs when the store has changed (or for the first time), after the clean-up of its last run.\<close>

definition provider_effect :: "store_provider \<Rightarrow> store_provider" where
  "provider_effect p = (if lp_handler p = Some (lp_store p) then p
     else (if lp_handler p = None then p else p\<lparr>lp_isStoreLoaded := False\<rparr>)\<lparr>lp_handler := Some (lp_store p), lp_refreshing := lp_refreshing p @ [lp_store p]\<rparr>)"

definition provider_loaded :: "nat \<Rightarrow> store_provider \<Rightarrow> store_provider" where
  "provider_loaded store p = (if lp_handler p = Some store then p\<lparr>lp_isStoreLoaded := True\<rparr> else p)"

definition provider_failed :: "nat \<Rightarrow> js_error \<Rightarrow> store_provider \<Rightarrow> store_provider" where
  "provider_failed store e p = (if store \<in> set (lp_refreshing p) then p\<lparr>lp_storeError := Some e\<rparr> else p)"

definition LiquityStoreProvider :: "store_provider \<Rightarrow> rendered" where
  "LiquityStoreProvider p = (case lp_storeError p of
      Some e \<Rightarrow> ShowError e
    | None \<Rightarrow> (if lp_isStoreLoaded p then ShowChildren (lp_store p) else ShowLoader))"

section \<open>Values with an equality of their own\<close>

definition equal_value_effect :: "('a \<Rightarrow> 'a \<Rightarrow> bool) \<Rightarrow> 'a \<Rightarrow> 'a \<Rightarrow> 'a" where
  "equal_value_effect isEqual changingValue equalValue = (if isEqual equalValue changingValue then equalValue else changingValue)"

text \<open>\<^verbatim>\<open>usePrevious\<close>: the new value of the reference, and what is returned.\<close>

definition usePrevious :: "'a \<Rightarrow> 'a \<Rightarrow> 'a \<times> 'a" where
  "usePrevious ref_current v = (v, ref_current)"

section \<open>Messages\<close>

text \<open>
  A message is told apart by a number. The functions for adding and removing belong to a rendering and keep its list: \<open>seen\<close> is the list of the rendering they were
  made in. A message that is added with a delay is removed later by the function of the same rendering.
\<close>

record snackbar =
  sb_snacks :: "nat list"
  sb_timers :: "(nat \<times> nat list) list"

definition removeSnack :: "nat list \<Rightarrow> nat \<Rightarrow> snackbar \<Rightarrow> snackbar" where
  "removeSnack seen snack s = s\<lparr>sb_snacks := filter (\<lambda>x. x \<noteq> snack) seen\<rparr>"

definition addSnack :: "nat list \<Rightarrow> nat \<Rightarrow> bool \<Rightarrow> snackbar \<Rightarrow> snackbar" where
  "addSnack seen snack automaticallyRemove s =
     s\<lparr>sb_snacks := seen @ [snack], sb_timers := (if automaticallyRemove then sb_timers s @ [(snack, seen)] else sb_timers s)\<rparr>"

definition snack_timeout :: "nat \<Rightarrow> snackbar \<Rightarrow> snackbar" where
  "snack_timeout i s = (if i < length (sb_timers s)
     then removeSnack (snd (sb_timers s ! i)) (fst (sb_timers s ! i)) (s\<lparr>sb_timers := take i (sb_timers s) @ drop (Suc i) (sb_timers s)\<rparr>)
     else s)"

section \<open>Values that arrive later\<close>

text \<open>One run of the effect of \<^verbatim>\<open>useAsyncValue\<close>; \<open>None\<close> in \<open>av_state\<close> is a value that is not loaded.\<close>

record 'v async_value =
  av_state :: "'v option"
  av_previousValue :: "'v option"
  av_mounted :: bool

definition async_start :: "'v async_value" where
  "async_start = \<lparr>av_state = None, av_previousValue = None, av_mounted = True\<rparr>"

definition async_fetched :: "'v \<Rightarrow> 'v async_value \<Rightarrow> 'v async_value" where
  "async_fetched v a = (if av_mounted a \<and> av_previousValue a = None then a\<lparr>av_state := Some v, av_previousValue := Some v\<rparr> else a)"

definition async_changed :: "('v \<Rightarrow> 'v \<Rightarrow> 'v) option \<Rightarrow> 'v \<Rightarrow> 'v async_value \<Rightarrow> 'v async_value" where
  "async_changed reduceValues v a =
     (if av_mounted a
      then let v1 = (case (av_previousValue a, reduceValues) of (Some p, Some r) \<Rightarrow> r p v | _ \<Rightarrow> v)
           in a\<lparr>av_state := Some v1, av_previousValue := Some v1\<rparr>
      else a)"

definition async_stop :: "'v async_value \<Rightarrow> 'v async_value" where
  "async_stop a = a\<lparr>av_mounted := False\<rparr>"

definition useAsyncStore :: "(string \<times> 'v option) list \<Rightarrow> (string \<times> 'v) list option" where
  "useAsyncStore store = (if \<exists>(_, v) \<in> set store. v = None then None else Some (map (\<lambda>(k, v). (k, the v)) store))"

section \<open>Equality is an equivalence\<close>

lemma distinct_keys_length: "distinct (map fst a) \<Longrightarrow> length a = card (dom (map_of a))"
  by (metis distinct_card dom_map_of_conv_image_fst length_map list.set_map)

lemma shallowEquals_iff:
  assumes "distinct (map fst a)" and "distinct (map fst b)"
  shows "shallowEquals a b \<longleftrightarrow> map_of a = map_of b"
proof
  assume e: "shallowEquals a b"
  then have sub: "fst ` set a \<subseteq> fst ` set b" and l: "length a = length b" by (auto simp: shallowEquals_def hasOwnProperty_def)
  have "fst ` set a = fst ` set b"
    using sub l assms by (intro card_subset_eq) (simp_all add: distinct_keys_length dom_map_of_conv_image_fst)
  then have "map_of a key = map_of b key" for key
    using e by (cases "key \<in> fst ` set a") (auto simp: shallowEquals_def map_of_eq_None_iff [THEN iffD2])
  then show "map_of a = map_of b" by blast
next
  assume m: "map_of a = map_of b"
  then have "fst ` set a = fst ` set b" by (metis dom_map_of_conv_image_fst)
  moreover have "length a = length b" using m assms by (simp add: distinct_keys_length)
  ultimately show "shallowEquals a b" using m by (auto simp: shallowEquals_def hasOwnProperty_def)
qed

text \<open>What the hooks need of the comparison, on the values that occur.\<close>

locale state_equality =
  fixes eq :: "'s \<Rightarrow> 's \<Rightarrow> bool" and wf :: "'s \<Rightarrow> bool"
  assumes eq_refl: "wf a \<Longrightarrow> eq a a"
    and eq_sym: "wf a \<Longrightarrow> wf b \<Longrightarrow> eq a b \<Longrightarrow> eq b a"
    and eq_trans: "wf a \<Longrightarrow> wf b \<Longrightarrow> wf c \<Longrightarrow> eq a b \<Longrightarrow> eq b c \<Longrightarrow> eq a c"
begin

lemma notified_queue:
  assumes "sh_subscriber h = Some c"
  shows "fold (selector_notified eq) xs h =
    (case filter (\<lambda>x. \<not> eq x c) xs of [] \<Rightarrow> h | y # ys \<Rightarrow> h\<lparr>sh_queued := Some (last (y # ys))\<rparr>)"
  using assms
proof (induction xs rule: rev_induct)
  case (snoc x xs)
  then show ?case by (cases "filter (\<lambda>x. \<not> eq x c) xs") (simp_all add: selector_notified_def)
qed simp

lemma rendered_after:
  assumes "sh_subscriber h = Some (sh_storeState h)" and "sh_queued h = None"
  shows "sh_storeState (selector_render (fold (selector_notified eq) xs h)) =
    last (sh_storeState h # filter (\<lambda>x. \<not> eq x (sh_storeState h)) xs)"
  using assms notified_queue [OF assms(1), of xs]
  by (cases "filter (\<lambda>x. \<not> eq x (sh_storeState h)) xs") (simp_all add: selector_render_def)

lemma up_to_date_iff:
  assumes "sh_subscriber h = Some (sh_storeState h)" "sh_queued h = None" and "wf (sh_storeState h)" "\<forall>x \<in> set xs. wf x" "xs \<noteq> []"
  shows "eq (last xs) (sh_storeState (selector_render (fold (selector_notified eq) xs h)))
    \<longleftrightarrow> \<not> eq (last xs) (sh_storeState h) \<or> (\<forall>x \<in> set xs. eq x (sh_storeState h))"
proof -
  let ?c = "sh_storeState h" and ?ys = "filter (\<lambda>x. \<not> eq x (sh_storeState h)) xs"
  have wl: "wf (last xs)" using assms(4,5) by simp
  consider (differs) "\<not> eq (last xs) ?c" | (same) "\<forall>x \<in> set xs. eq x ?c" | (reverted) "eq (last xs) ?c" "?ys \<noteq> []"
    by (auto simp: filter_empty_conv)
  then show ?thesis
  proof cases
    case differs
    then have "last ?ys = last xs" using assms(5) by (cases xs rule: rev_cases) auto
    moreover have "?ys \<noteq> []" using differs assms(5) by (auto simp: filter_empty_conv)
    ultimately show ?thesis using differs wl by (simp add: rendered_after [OF assms(1,2)] eq_refl)
  next
    case same
    then have "?ys = []" by (simp add: filter_empty_conv)
    with same assms(5) show ?thesis by (simp add: rendered_after [OF assms(1,2)])
  next
    case reverted
    have "last ?ys \<in> set ?ys" by (rule last_in_set [OF reverted(2)])
    then have y: "\<not> eq (last ?ys) ?c" "wf (last ?ys)" "\<exists>x \<in> set xs. \<not> eq x ?c" using assms(4) by auto
    have "\<not> eq (last xs) (last ?ys)" using y reverted(1) wl assms(3) eq_sym eq_trans by blast
    with reverted y show ?thesis by (simp add: rendered_after [OF assms(1,2)])
  qed
qed

lemma dispatched_state:
  assumes "\<And>s a. wf s \<Longrightarrow> wf (reduce s a)" and "\<And>s t a. wf s \<Longrightarrow> wf t \<Longrightarrow> eq s t \<Longrightarrow> eq (reduce s a) (reduce t a)"
    and "wf (rh_state h)" "wf s" "eq (rh_state h) s"
  shows "wf (rh_state (fold (reducer_dispatch eq reduce) as h)) \<and> eq (rh_state (fold (reducer_dispatch eq reduce) as h)) (fold (\<lambda>a s. reduce s a) as s)"
  using assms(3-5)
proof (induction as arbitrary: h s)
  case (Cons a as)
  let ?h = "reducer_dispatch eq reduce a h"
  have r: "eq (reduce (rh_state h) a) (reduce s a)" "wf (reduce (rh_state h) a)" "wf (reduce s a)"
    using assms(1,2) Cons.prems by blast+
  have "wf (rh_state ?h) \<and> eq (rh_state ?h) (reduce s a)"
  proof (cases "eq (reduce (rh_state h) a) (rh_state h)")
    case True
    then have "eq (rh_state h) (reduce s a)" using eq_trans [OF Cons.prems(1) r(2,3) eq_sym [OF r(2) Cons.prems(1)] r(1)] by simp
    with True Cons.prems(1) show ?thesis by (simp add: reducer_dispatch_def)
  next
    case False
    with r show ?thesis by (simp add: reducer_dispatch_def Let_def)
  qed
  with Cons.IH [of ?h "reduce s a"] r(3) show ?case by simp
qed simp

end

fun js_wf :: "'p js_val \<Rightarrow> bool" where
  "js_wf (JsPrimitive _) \<longleftrightarrow> True"
| "js_wf (JsObject _ a) \<longleftrightarrow> distinct (map fst a)"

interpretation js: state_equality js_equals js_wf
proof
  fix a b c :: "'a js_val"
  show "js_wf a \<Longrightarrow> js_equals a a" by (cases a) (simp_all add: shallowEquals_iff)
  show "js_wf a \<Longrightarrow> js_wf b \<Longrightarrow> js_equals a b \<Longrightarrow> js_equals b a" by (cases a; cases b) (simp_all add: shallowEquals_iff)
  show "js_wf a \<Longrightarrow> js_wf b \<Longrightarrow> js_wf c \<Longrightarrow> js_equals a b \<Longrightarrow> js_equals b c \<Longrightarrow> js_equals a c"
    by (cases a; cases b; cases c) (simp_all add: shallowEquals_iff)
qed

section \<open>What components show\<close>

text \<open>
  C35. What a component shows of the store. If the store changes several times between two renderings of a component that has settled, the component
  shows the store's last state afterwards, unless the last change restored the state shown before: then it shows an earlier state than the store has, and
  keeps it until the next change.
\<close>

theorem selector_up_to_date_iff:
  assumes "sh_subscriber h = Some (sh_storeState h)" "sh_queued h = None" and "js_wf (sh_storeState h)" "\<forall>x \<in> set xs. js_wf x" "xs \<noteq> []"
  shows "js_equals (last xs) (sh_storeState (selector_render (fold (selector_notified js_equals) xs h)))
    \<longleftrightarrow> \<not> js_equals (last xs) (sh_storeState h) \<or> (\<forall>x \<in> set xs. js_equals x (sh_storeState h))"
  using assms by (rule js.up_to_date_iff)

definition sample_state :: "nat \<Rightarrow> nat js_val" where
  "sample_state n = JsObject n [(''price'', ObjectRef 7), (''numberOfTroves'', PrimitiveRef n)]"

definition sample_hook :: "nat js_val selector_hook" where
  "sample_hook = selector_effect (mount_selector (sample_state 1))"

theorem selector_up_to_date_iff_witness:
  "sh_storeState (selector_render (fold (selector_notified js_equals) [sample_state 2, sample_state 1] sample_hook)) = sample_state 2
   \<and> \<not> js_equals (sample_state 1) (sh_storeState (selector_render (fold (selector_notified js_equals) [sample_state 2, sample_state 1] sample_hook)))"
proof -
  have e: "js_equals (sample_state m) (sample_state n) \<longleftrightarrow> m = n" and w: "js_wf (sample_state n)" for m n
    by (auto simp: sample_state_def shallowEquals_def hasOwnProperty_def)
  have h: "sh_subscriber sample_hook = Some (sh_storeState sample_hook)" "sh_queued sample_hook = None" "sh_storeState sample_hook = sample_state 1"
    by (simp_all add: sample_hook_def selector_effect_def mount_selector_def)
  have "\<not> js_equals (sample_state 1) (sh_storeState (selector_render (fold (selector_notified js_equals) [sample_state 2, sample_state 1] sample_hook)))"
    using selector_up_to_date_iff [OF h(1,2), of "[sample_state 2, sample_state 1]"] by (simp add: h e w)
  moreover have "sh_storeState (selector_render (fold (selector_notified js_equals) [sample_state 2, sample_state 1] sample_hook)) = sample_state 2"
    using js.rendered_after [OF h(1,2), of "[sample_state 2, sample_state 1]"] by (simp add: h e)
  ultimately show ?thesis by simp
qed

text \<open>A change between the first rendering and the effect that subscribes is missed.\<close>

lemma early_change_is_missed: "selector_render (selector_effect (selector_notified eq s (mount_selector r))) = selector_effect (mount_selector r)"
  by (simp add: selector_render_def selector_effect_def selector_notified_def mount_selector_def)

text \<open>The state of the reducing hook is what its actions make of the first state, up to the comparison, however many of them are dispatched before it is rendered again.\<close>

lemma reducer_state:
  assumes "\<And>s a. js_wf s \<Longrightarrow> js_wf (reduce s a)" and "\<And>s t a. js_wf s \<Longrightarrow> js_wf t \<Longrightarrow> js_equals s t \<Longrightarrow> js_equals (reduce s a) (reduce t a)"
    and "js_wf (init storeState)"
  shows "js_equals (rh_state (fold (reducer_dispatch js_equals reduce) as (mount_reducer init store storeState))) (fold (\<lambda>a s. reduce s a) as (init storeState))"
proof -
  have "rh_state (mount_reducer init store storeState) = init storeState" by (simp add: mount_reducer_def)
  with assms js.eq_refl show ?thesis by (intro js.dispatched_state [THEN conjunct2]) simp_all
qed

section \<open>The store that is shown\<close>

datatype provider_step = Props nat | Effect | Loaded nat | Failed nat js_error

fun provider_run :: "provider_step \<Rightarrow> store_provider \<Rightarrow> store_provider" where
  "provider_run (Props i) p = provider_props i p"
| "provider_run Effect p = provider_effect p"
| "provider_run (Loaded i) p = provider_loaded i p"
| "provider_run (Failed i e) p = provider_failed i e p"

text \<open>
  C36. The provider shows its children only with a store that has been loaded, once its effects have run after the last rendering with another store: in
  every history of new stores, effects, loaded and failed stores.
\<close>

theorem children_have_loaded_store:
  assumes "LiquityStoreProvider (fold provider_run xs (mount_store_provider store)) = ShowChildren i"
    and "provider_effect (fold provider_run xs (mount_store_provider store)) = fold provider_run xs (mount_store_provider store)"
  shows "Loaded i \<in> set xs"
proof -
  let ?p = "fold provider_run xs (mount_store_provider store)"
  have inv: "lp_isStoreLoaded ?p \<longrightarrow> (\<exists>h. lp_handler ?p = Some h \<and> Loaded h \<in> set xs)"
  proof (induction xs rule: rev_induct)
    case (snoc x xs)
    then show ?case
      by (cases x) (auto simp: provider_props_def provider_effect_def provider_loaded_def provider_failed_def)
  qed (simp add: mount_store_provider_def)
  from assms(1) have shown: "lp_isStoreLoaded ?p" "lp_store ?p = i" by (simp_all add: LiquityStoreProvider_def split: option.split_asm if_split_asm)
  from arg_cong [OF assms(2), of lp_handler] have "lp_handler ?p = Some (lp_store ?p)"
    by (simp add: provider_effect_def split: if_split_asm)
  with inv shown show ?thesis by auto
qed

theorem children_have_loaded_store_witness:
  "LiquityStoreProvider (fold provider_run [Effect, Loaded 1] (mount_store_provider 1)) = ShowChildren 1 \<and> Loaded 1 \<in> set [Effect, Loaded 1]"
proof -
  have "LiquityStoreProvider (fold provider_run [Effect, Loaded 1] (mount_store_provider 1)) = ShowChildren 1"
    "provider_effect (fold provider_run [Effect, Loaded 1] (mount_store_provider 1)) = fold provider_run [Effect, Loaded 1] (mount_store_provider 1)"
    by (simp_all add: mount_store_provider_def provider_effect_def provider_loaded_def LiquityStoreProvider_def)
  with children_have_loaded_store [OF this] show ?thesis by simp
qed

text \<open>
  When the store changes, the children are rendered once with the new store before it is loaded; and an error of any store that was refreshed stays, even if
  another store has been loaded since.
\<close>

theorem new_store_shown_unloaded:
  assumes "LiquityStoreProvider p = ShowChildren i"
  shows "LiquityStoreProvider (provider_props j p) = ShowChildren j"
  using assms by (simp add: LiquityStoreProvider_def provider_props_def split: option.split_asm if_split_asm)

theorem error_outlives_store:
  assumes "i \<in> set (lp_refreshing p)"
  shows "LiquityStoreProvider (provider_loaded j (provider_effect (provider_props j (provider_failed i e p)))) = ShowError e"
  using assms by (simp add: LiquityStoreProvider_def provider_props_def provider_failed_def provider_effect_def provider_loaded_def)

section \<open>Messages that vanish\<close>

text \<open>
  The timer of a message sets the list that was shown before the message was added: messages that were added since vanish with it, and those removed since come back.
\<close>

theorem timeout_restores_old_messages:
  assumes "i < length (sb_timers s)" and "sb_timers s ! i = (snack, seen)"
  shows "sb_snacks (snack_timeout i s) = filter (\<lambda>x. x \<noteq> snack) seen"
  using assms by (simp add: snack_timeout_def removeSnack_def)

text \<open>A value that is watched is not replaced by the one that was requested first but arrives later, and nothing changes after the effect was cleaned up.\<close>

lemma late_fetch_ignored: "async_fetched v (async_changed r w a) = async_changed r w a"
  by (simp add: async_fetched_def async_changed_def Let_def)

lemma stopped_async_value: "async_fetched v (async_stop a) = async_stop a" "async_changed r v (async_stop a) = async_stop a"
  by (simp_all add: async_fetched_def async_changed_def async_stop_def)

end
