(* ===== verification/Frontend_Session.thy ===== *)
theory Frontend_Session
  imports Frontend_Transactions Constants
begin

text \<open>
  What the application decides before it shows anything: whether the visitor may enter (\<^verbatim>\<open>packages/dev-frontend/src/authentication.tsx\<close>), which ledger is
  selected (\<^verbatim>\<open>configuration/chains.ts\<close>, \<^verbatim>\<open>configuration/deployments.ts\<close>, \<^verbatim>\<open>components/chain_context.tsx\<close>, \<^verbatim>\<open>hooks/chains.ts\<close>,
  \<^verbatim>\<open>hooks/deployments.ts\<close>, \<^verbatim>\<open>hooks/constants.ts\<close>), which wallet is connected (\<^verbatim>\<open>multi_wallet.tsx\<close>,
  \<^verbatim>\<open>components/HederaDappConnectorProvider.tsx\<close>), and which client is used for it (\<^verbatim>\<open>hooks/LiquityContext.tsx\<close>).

  The browser's cookies are a list of names and values; \<^verbatim>\<open>document.cookie\<close> reads as \<open>name=value\<close> pairs joined by a semicolon and a blank, and an
  assignment replaces or adds one of them. Long texts of errors are abbreviated. A reload of the page starts from the cookies. Characters of texts are bytes here.
\<close>

section \<open>Texts\<close>

text \<open>\<^verbatim>\<open>s.split(sep)\<close> for a separator that is not empty.\<close>

function split_on :: "string \<Rightarrow> string \<Rightarrow> string list" where
  "split_on sep [] = [[]]"
| "split_on sep (c # s) =
     (if sep \<noteq> [] \<and> take (length sep) (c # s) = sep then [] # split_on sep (drop (length sep) (c # s))
      else (case split_on sep s of w # ws \<Rightarrow> (c # w) # ws | [] \<Rightarrow> [[c]]))"
  by pat_completeness auto
termination
  by (relation "measure (\<lambda>(sep, s). length s)") (auto simp: Suc_le_eq)

definition startsWith :: "string \<Rightarrow> string \<Rightarrow> bool" where
  "startsWith s prefix \<longleftrightarrow> take (length prefix) s = prefix"

definition shortenAddress :: "string \<Rightarrow> string" where
  "shortenAddress address = take 6 address @ ''...'' @ drop (length address - 4) address"

text \<open>\<^verbatim>\<open>parseInt(s, 10)\<close>; \<open>None\<close> is \<^verbatim>\<open>NaN\<close>. Without a radix a text that starts with \<open>0x\<close> is read as hexadecimal.\<close>

definition is_blank :: "char \<Rightarrow> bool" where
  "is_blank c \<longleftrightarrow> of_char c \<in> {9, 10, 11, 12, 13, 32, 160 :: nat}"

definition parseInt10 :: "string \<Rightarrow> int option" where
  "parseInt10 s =
     (let t = dropWhile is_blank s;
          negative = (t \<noteq> [] \<and> hd t = CHR ''-'');
          u = (if t \<noteq> [] \<and> hd t \<in> {CHR ''-'', CHR ''+''} then tl t else t);
          ds = takeWhile is_digit u
      in if ds = [] then None else Some (if negative then - int (digits_value ds) else int (digits_value ds)))"

definition hex_value :: "char \<Rightarrow> nat option" where
  "hex_value c = (let n = of_char c :: nat in
     if 48 \<le> n \<and> n \<le> 57 then Some (n - 48) else if 97 \<le> n \<and> n \<le> 102 then Some (n - 87)
     else if 65 \<le> n \<and> n \<le> 70 then Some (n - 55) else None)"

definition parseInt :: "string \<Rightarrow> int option" where
  "parseInt s =
     (let t = dropWhile is_blank s;
          negative = (t \<noteq> [] \<and> hd t = CHR ''-'');
          u = (if t \<noteq> [] \<and> hd t \<in> {CHR ''-'', CHR ''+''} then tl t else t)
      in if take 2 u = ''0x'' \<or> take 2 u = ''0X''
         then let hs = takeWhile (\<lambda>c. hex_value c \<noteq> None) (drop 2 u); n = int (foldl (\<lambda>a c. 16 * a + the (hex_value c)) 0 hs)
              in if hs = [] then None else Some (if negative then - n else n)
         else parseInt10 s)"

section \<open>Cookies\<close>

type_synonym cookies = "(string \<times> string) list"

definition cookie_string :: "cookies \<Rightarrow> string" where
  "cookie_string jar = join ''; '' (map (\<lambda>(n, v). n @ ''='' @ v) jar)"

definition set_cookie :: "string \<Rightarrow> string \<Rightarrow> cookies \<Rightarrow> cookies" where
  "set_cookie name v jar = (if name \<in> fst ` set jar then map (\<lambda>(n, w). (n, if n = name then v else w)) jar else jar @ [(name, v)])"

text \<open>What both readers of cookies do: the first row that starts with the name and an equals sign, and of it what stands between the first two equals signs.\<close>

definition cookie_value :: "string \<Rightarrow> string \<Rightarrow> string option" where
  "cookie_value name cookieString =
     (case find (\<lambda>row. startsWith row (name @ ''='')) (split_on ''; '' cookieString) of
        None \<Rightarrow> None
      | Some row \<Rightarrow> (let parts = split_on ''='' row in if 1 < length parts then Some (parts ! 1) else None))"

section \<open>Authentication\<close>

text \<open>\<^verbatim>\<open>btoa\<close>: base 64 with padding.\<close>

definition base64_alphabet :: string where
  "base64_alphabet = ''ABCDEFGHIJKLMNOPQRSTUVWXYZabcdefghijklmnopqrstuvwxyz0123456789+/''"

definition base64_digit :: "nat \<Rightarrow> char" where
  "base64_digit n = base64_alphabet ! (n mod 64)"

fun base64 :: "nat list \<Rightarrow> string" where
  "base64 [] = []"
| "base64 [a] = [base64_digit (a div 4), base64_digit (a mod 4 * 16), CHR ''='', CHR ''='']"
| "base64 [a, b] = [base64_digit (a div 4), base64_digit (a mod 4 * 16 + b div 16), base64_digit (b mod 16 * 4), CHR ''='']"
| "base64 (a # b # c # rest) =
     [base64_digit (a div 4), base64_digit (a mod 4 * 16 + b div 16), base64_digit (b mod 16 * 4 + c div 64), base64_digit (c mod 64)] @ base64 rest"

definition btoa :: "string \<Rightarrow> string" where
  "btoa s = base64 (map of_char s)"

definition getPasswordCookieValue :: "string \<Rightarrow> string option" where
  "getPasswordCookieValue = cookie_value ''hliquity_password''"

text \<open>The state is the encoded password; \<open>env\<close> is the configured one, where an empty text counts as none.\<close>

definition authenticated :: "string option \<Rightarrow> string option \<Rightarrow> bool" where
  "authenticated env encodedPassword \<longleftrightarrow> env = None \<or> env = Some [] \<or> encodedPassword = env"

definition open_page :: "cookies \<Rightarrow> string option" where
  "open_page jar = getPasswordCookieValue (cookie_string jar)"

definition logIn :: "string option \<Rightarrow> string \<Rightarrow> cookies \<Rightarrow> (cookies \<times> string option) result" where
  "logIn env password jar =
     (let encodedPassword = btoa password
      in if Some encodedPassword \<noteq> env then Inl (ExternalError ''wrong password'')
         else Inr (set_cookie ''hliquity_password'' encodedPassword jar, Some encodedPassword))"

section \<open>Ledgers\<close>

text \<open>The three ids that the SDK has as constants, compared by identity, and any other object.\<close>

datatype ledger_id = LedgerMainnet | LedgerTestnet | LedgerPreviewnet | OtherLedger string

fun ledger_name :: "ledger_id \<Rightarrow> string" where
  "ledger_name LedgerMainnet = ''mainnet''"
| "ledger_name LedgerTestnet = ''testnet''"
| "ledger_name LedgerPreviewnet = ''previewnet''"
| "ledger_name (OtherLedger t) = t"

record native_currency =
  nc_name :: string
  nc_symbol :: string
  nc_decimals :: nat

record rpc_urls =
  ru_http :: "string list"
  ru_webSocket :: "string list"

record hedera_chain =
  chain_id :: int
  ledgerId :: ledger_id
  chain_name :: string
  nativeCurrency :: native_currency
  network :: string
  rpcUrls_default :: rpc_urls
  rpcUrls_public :: rpc_urls
  chain_testnet :: bool
  chain_apiBaseUrl :: string
  hashscanBaseUrl :: string
  chain_color :: string

abbreviation HBAR_currency :: native_currency where
  "HBAR_currency \<equiv> \<lparr>nc_name = ''HBAR'', nc_symbol = ''HBAR'', nc_decimals = 18\<rparr>"

abbreviation arkhia_urls :: "string \<Rightarrow> rpc_urls" where
  "arkhia_urls net \<equiv> \<lparr>ru_http = [''https://growth.arkhia.io/hedera/'' @ net @ ''/json-rpc/v1/7542b249WGllfVd4Gf7l8bf18V1G8fWW''],
     ru_webSocket = [''wss://growth.arkhia.io/hedera/'' @ net @ ''/watchtower/v1/7542b249WGllfVd4Gf7l8bf18V1G8fWW'']\<rparr>"

definition testnet :: hedera_chain where
  "testnet = \<lparr>chain_id = 296, ledgerId = LedgerTestnet, chain_name = ''Hedera Testnet'', nativeCurrency = HBAR_currency, network = ''hederaTestnet'',
     rpcUrls_default = arkhia_urls ''testnet'', rpcUrls_public = arkhia_urls ''testnet'', chain_testnet = True,
     chain_apiBaseUrl = ''https://testnet.mirrornode.hedera.com/api/v1'', hashscanBaseUrl = ''https://hashscan.io/testnet'', chain_color = ''#e302ab''\<rparr>"

definition previewnet :: hedera_chain where
  "previewnet = \<lparr>chain_id = 297, ledgerId = LedgerPreviewnet, chain_name = ''Hedera Previewnet'', nativeCurrency = HBAR_currency, network = ''hederaPreviewnet'',
     rpcUrls_default = \<lparr>ru_http = [''https://previewnet.hashio.io/api''], ru_webSocket = [''wss://previewnet.hashio.io/ws'']\<rparr>,
     rpcUrls_public = \<lparr>ru_http = [''https://previewnet.hashio.io/api''], ru_webSocket = [''wss://previewnet.hashio.io/ws'']\<rparr>, chain_testnet = True,
     chain_apiBaseUrl = ''https://previewnet.mirrornode.hedera.com/api/v1'', hashscanBaseUrl = ''https://hashscan.io/previewnet'', chain_color = ''#e47a2e''\<rparr>"

definition mainnet :: hedera_chain where
  "mainnet = \<lparr>chain_id = 295, ledgerId = LedgerMainnet, chain_name = ''Hedera Mainnet'', nativeCurrency = HBAR_currency, network = ''hedera'',
     rpcUrls_default = arkhia_urls ''mainnet'', rpcUrls_public = arkhia_urls ''mainnet'', chain_testnet = True,
     chain_apiBaseUrl = ''https://mainnet-public.mirrornode.hedera.com/api/v1'', hashscanBaseUrl = ''https://hashscan.io/mainnet'', chain_color = ''#1896b2''\<rparr>"

definition chains :: "hedera_chain list" where
  "chains = [mainnet, previewnet, testnet]"

text \<open>The environment of the build, \<^verbatim>\<open>import.meta.env\<close>.\<close>

type_synonym environment = "string \<Rightarrow> string option"

definition parseEnabledChainIdsFromEnv :: "environment \<Rightarrow> int list" where
  "parseEnabledChainIdsFromEnv env = (case env ''VITE_ENABLED_CHAINS'' of
      None \<Rightarrow> []
    | Some enabledChainsString \<Rightarrow>
       (if enabledChainsString = [] then [] else List.map_filter parseInt10 (filter (\<lambda>s. s \<noteq> []) (split_on '','' enabledChainsString))))"

definition enabledChains :: "environment \<Rightarrow> hedera_chain list" where
  "enabledChains env = filter (\<lambda>c. chain_id c \<in> set (parseEnabledChainIdsFromEnv env)) chains"

definition getChainFromId :: "int \<Rightarrow> hedera_chain result" where
  "getChainFromId chainId = (case find (\<lambda>c. chain_id c = chainId) chains of
      Some c \<Rightarrow> Inr c
    | None \<Rightarrow> Inl (Error (''chain id '' @ (if chainId < 0 then ''-'' else '''') @ show_nat (nat \<bar>chainId\<bar>) @ '' does not belong to a hedera chain. pass one of ''
        @ join '', '' (map (\<lambda>c. show_nat (nat (chain_id c)) @ '' ('' @ chain_name c @ '')'') chains) @ ''.'')))"

fun getChainFromLedgerId :: "ledger_id \<Rightarrow> hedera_chain" where
  "getChainFromLedgerId LedgerTestnet = testnet"
| "getChainFromLedgerId LedgerPreviewnet = previewnet"
| "getChainFromLedgerId _ = mainnet"

text \<open>
  A deployment, of which the number of the ledger and the date matter here; dates are milliseconds. Reading its JSON text is an argument; one that cannot be read is
  ignored.
\<close>

record deployment_definition =
  dd_chainId :: int
  dd_addresses :: "string \<Rightarrow> string option"
  dd_deploymentDate :: int
  dd_totalStabilityPoolHLQTReward :: string
  dd_frontendTag :: string

definition parseDeploymentsFromEnv :: "(string \<Rightarrow> deployment_definition result) \<Rightarrow> environment \<Rightarrow> deployment_definition list" where
  "parseDeploymentsFromEnv parse env = List.map_filter (\<lambda>chainId.
     (case env (''VITE_CHAIN_'' @ show_nat chainId @ ''_DEPLOYMENT'') of
        None \<Rightarrow> None
      | Some t \<Rightarrow> (if t = [] then None else (case parse t of Inr d \<Rightarrow> Some d | Inl _ \<Rightarrow> None)))) [295, 296, 297]"

definition chainsWithDeployment :: "environment \<Rightarrow> deployment_definition list \<Rightarrow> hedera_chain list" where
  "chainsWithDeployment env deployments = filter (\<lambda>c. chain_id c \<in> dd_chainId ` set deployments) (enabledChains env)"

definition enabledDeployments :: "environment \<Rightarrow> deployment_definition list \<Rightarrow> deployment_definition list" where
  "enabledDeployments env deployments = filter (\<lambda>d. dd_chainId d \<in> set (parseEnabledChainIdsFromEnv env)) deployments"

definition useDeployment :: "environment \<Rightarrow> deployment_definition list \<Rightarrow> hedera_chain option \<Rightarrow> deployment_definition option" where
  "useDeployment env deployments chain = (case chain of
      None \<Rightarrow> None
    | Some c \<Rightarrow> find (\<lambda>d. dd_chainId d = chain_id c) (enabledDeployments env deployments))"

definition useTimebasedFeatures :: "deployment_definition option \<Rightarrow> int \<Rightarrow> bool \<times> bool" where
  "useTimebasedFeatures d now = (case d of
      None \<Rightarrow> (False, False)
    | Some d \<Rightarrow> (dd_deploymentDate d + 1209600000 < now, now < dd_deploymentDate d + 9676800000))"

section \<open>The selected ledger\<close>

definition getSelectedChainIdCookieValue :: "string \<Rightarrow> int option" where
  "getSelectedChainIdCookieValue cookieString = (case cookie_value ''hliquity_selected_chain_id'' cookieString of
      None \<Rightarrow> None
    | Some v \<Rightarrow> (if v = [] then None else parseInt v))"

text \<open>The ledger that is selected when the page is opened, \<open>None\<close> if none has a deployment.\<close>

definition initiallySelectedChain :: "hedera_chain list \<Rightarrow> cookies \<Rightarrow> hedera_chain option" where
  "initiallySelectedChain available jar =
     (let cookieId = getSelectedChainIdCookieValue (cookie_string jar)
      in case find (\<lambda>c. Some (chain_id c) = cookieId) available of
           Some c \<Rightarrow> Some c
         | None \<Rightarrow> (case available of c # _ \<Rightarrow> Some c | [] \<Rightarrow> None))"

definition setChain :: "hedera_chain \<Rightarrow> cookies \<Rightarrow> cookies \<times> hedera_chain" where
  "setChain c jar = (set_cookie ''hliquity_selected_chain_id'' (show_nat (nat (chain_id c))) jar, c)"

text \<open>The selector: an option that is not available changes nothing.\<close>

definition ChainSelector_input :: "hedera_chain list \<Rightarrow> string \<Rightarrow> cookies \<times> hedera_chain \<Rightarrow> cookies \<times> hedera_chain" where
  "ChainSelector_input available v s = (case find (\<lambda>c. Some (chain_id c) = parseInt v) available of
      None \<Rightarrow> s
    | Some c \<Rightarrow> setChain c (fst s))"

text \<open>The ledgers offered to the wallet, the selected one first, and how they are listed for a visitor on another one.\<close>

definition wagmi_chains :: "hedera_chain list \<Rightarrow> hedera_chain \<Rightarrow> hedera_chain list" where
  "wagmi_chains available selected = selected # filter (\<lambda>c. chain_id c \<noteq> chain_id selected) available"

definition getChainNameListString :: "hedera_chain list \<Rightarrow> string" where
  "getChainNameListString cs = (if length cs = 1 then chain_name (hd cs)
     else join '', '' (map chain_name (butlast cs)) @ '' or '' @ chain_name (last cs))"

section \<open>Wallets of the Hedera ledger\<close>

datatype hedera_chain_id = HederaMainnet | HederaTestnet | HederaPreviewnet | HederaDevnet

definition getHederaChainId :: "int \<Rightarrow> hedera_chain_id" where
  "getHederaChainId chainId =
     (if chainId = 296 then HederaMainnet else if chainId = 297 then HederaPreviewnet else if chainId = 298 then HederaDevnet else HederaMainnet)"

record hedera_session =
  hs_accountId :: string
  hs_evmAddress :: string
  hs_ledgerId :: ledger_id

text \<open>The request of the account's address from the mirror node; a failed one counts as unknown.\<close>

definition getAccountEvmAddress :: "(string \<Rightarrow> string option result) \<Rightarrow> string \<Rightarrow> hedera_chain \<Rightarrow> string option" where
  "getAccountEvmAddress fetch accountIdString chain =
     (case fetch (chain_apiBaseUrl chain @ ''/accounts/'' @ accountIdString) of Inl _ \<Rightarrow> None | Inr a \<Rightarrow> a)"

text \<open>
  The session is described by the first account of the wallet, a text like \<open>hedera:testnet:0.0.5\<close>. Reading the account's number is a function of the SDK; it may throw.
\<close>

definition getSessionFromStruct ::
  "(string \<Rightarrow> string option result) \<Rightarrow> (string \<Rightarrow> string result) \<Rightarrow> string option \<Rightarrow> hedera_session option result" where
  "getSessionFromStruct fetch accountIdFromString sessionAccount = (case sessionAccount of
      None \<Rightarrow> Inr None
    | Some account \<Rightarrow> (if account = [] then Inr None else
       (let sessionParts = split_on '':'' account; userAccountIdString = last sessionParts; rest = butlast sessionParts
        in if userAccountIdString = [] \<or> rest = [] \<or> last rest = [] then Inr None
           else (case find (\<lambda>c. ledger_name (ledgerId c) = last rest) chains of
                   None \<Rightarrow> Inr None
                 | Some chain \<Rightarrow> (case getAccountEvmAddress fetch userAccountIdString chain of
                       None \<Rightarrow> Inr None
                     | Some a \<Rightarrow> (if a = [] then Inr None else
                         rbind (accountIdFromString userAccountIdString) (\<lambda>i.
                           Inr (Some \<lparr>hs_accountId = i, hs_evmAddress = a, hs_ledgerId = ledgerId chain\<rparr>))))))))"

text \<open>The session a wallet still has when a connector has been set up: its first signer.\<close>

definition existing_session :: "(string \<Rightarrow> string option result) \<Rightarrow> (string \<times> ledger_id) list \<Rightarrow> hedera_session option" where
  "existing_session fetch signers = (case signers of
      [] \<Rightarrow> None
    | (accountId, ledger) # _ \<Rightarrow> (case getAccountEvmAddress fetch accountId (getChainFromLedgerId ledger) of
          None \<Rightarrow> None
        | Some a \<Rightarrow> (if a = [] then None else Some \<lparr>hs_accountId = accountId, hs_evmAddress = a, hs_ledgerId = ledger\<rparr>)))"

text \<open>
  The provider's state. Every run of its effect has a number; an initialisation is pending until its promise settles, and only then can the run be destroyed.
\<close>

record connector_state =
  cs_connector :: "(nat \<times> hedera_chain) option"
  cs_session :: "hedera_session option"
  cs_error :: bool
  cs_selected :: hedera_chain
  cs_effect :: nat
  cs_pending :: "(nat \<times> hedera_chain) list"
  cs_destroyable :: "nat list"

definition open_connector :: "hedera_chain \<Rightarrow> connector_state" where
  "open_connector c = \<lparr>cs_connector = None, cs_session = None, cs_error = False, cs_selected = c, cs_effect = 0, cs_pending = [(0, c)], cs_destroyable = []\<rparr>"

definition cleanup_connector :: "connector_state \<Rightarrow> connector_state" where
  "cleanup_connector s = (if cs_effect s \<in> set (cs_destroyable s) then s\<lparr>cs_connector := None, cs_session := None, cs_error := False\<rparr> else s)"

definition select_connector_chain :: "hedera_chain \<Rightarrow> connector_state \<Rightarrow> connector_state" where
  "select_connector_chain c s =
     (let s1 = cleanup_connector s
      in s1\<lparr>cs_selected := c, cs_effect := Suc (cs_effect s1), cs_pending := cs_pending s1 @ [(Suc (cs_effect s1), c)]\<rparr>)"

text \<open>An initialisation that succeeds may find a session the wallet still has.\<close>

definition connector_ready :: "nat \<Rightarrow> hedera_session option \<Rightarrow> connector_state \<Rightarrow> connector_state" where
  "connector_ready i found s = (case map_of (cs_pending s) i of
      None \<Rightarrow> s
    | Some c \<Rightarrow> s\<lparr>cs_pending := filter (\<lambda>(j, _). j \<noteq> i) (cs_pending s), cs_connector := Some (i, c), cs_destroyable := i # cs_destroyable s,
        cs_session := (if found = None then cs_session s else found)\<rparr>)"

definition connector_failed :: "nat \<Rightarrow> connector_state \<Rightarrow> connector_state" where
  "connector_failed i s = (case map_of (cs_pending s) i of
      None \<Rightarrow> s
    | Some c \<Rightarrow> s\<lparr>cs_pending := filter (\<lambda>(j, _). j \<noteq> i) (cs_pending s), cs_connector := None, cs_error := True\<rparr>)"

text \<open>Connecting, also with an extension or in a frame, sets the session; disconnecting and a session deleted by the wallet reset it.\<close>

definition set_session :: "hedera_session option \<Rightarrow> connector_state \<Rightarrow> connector_state" where
  "set_session x s = s\<lparr>cs_session := x\<rparr>"

section \<open>Contexts that may be empty\<close>

definition getHook :: "string option \<Rightarrow> 'a option \<Rightarrow> 'a result" where
  "getHook errorMessage context' = (case context' of
      Some x \<Rightarrow> Inr x
    | None \<Rightarrow> Inl (Error (case errorMessage of Some m \<Rightarrow> m
        | None \<Rightarrow> ''the context hasn't been set. make sure you have a <*Provider> and <*Loader> as ancestors of the component you call use*() in.'')))"

definition getConsumer :: "string option \<Rightarrow> 'a option \<Rightarrow> ('a \<Rightarrow> 'node) \<Rightarrow> 'node result" where
  "getConsumer errorMessage context' children = (case context' of
      Some x \<Rightarrow> Inr (children x)
    | None \<Rightarrow> Inl (Error (case errorMessage of Some m \<Rightarrow> m
        | None \<Rightarrow> ''the context hasn't been set. make sure you have a <*Provider> and <*Loader> as ancestors of this <*Consumer>.'')))"

definition getLoader :: "'a option \<Rightarrow> 'node \<Rightarrow> 'node \<Rightarrow> 'node" where
  "getLoader context' loader children = (case context' of None \<Rightarrow> loader | Some _ \<Rightarrow> children)"

section \<open>The connected wallet\<close>

record wagmi_state =
  wg_address :: "string option"
  wg_provider :: bool
  wg_signer :: bool
  wg_chainId :: int

definition wagmi_address :: "wagmi_state \<Rightarrow> string option" where
  "wagmi_address w = (if wg_address w = Some [] then None else wg_address w)"

definition hasWagmi :: "wagmi_state \<Rightarrow> bool" where
  "hasWagmi w \<longleftrightarrow> wagmi_address w \<noteq> None \<and> wg_provider w \<and> wg_signer w \<and> wg_chainId w \<noteq> 0"

record multi_wallet =
  mw_hasWagmi :: bool
  mw_hasHederaDappConnector :: bool
  mw_hasConnection :: bool
  mw_addressDisplayText :: "string option"
  mw_chain :: hedera_chain

definition MultiWalletProvider :: "wagmi_state \<Rightarrow> hedera_session option \<Rightarrow> hedera_chain \<Rightarrow> multi_wallet result" where
  "MultiWalletProvider w session selectedChain =
     (let hasHedera = session \<noteq> None;
          addressDisplayText = (case wagmi_address w of Some a \<Rightarrow> Some (shortenAddress a) | None \<Rightarrow> map_option hs_accountId session)
      in rbind (if hasWagmi w then getChainFromId (wg_chainId w) else Inr selectedChain) (\<lambda>chain.
           Inr \<lparr>mw_hasWagmi = hasWagmi w, mw_hasHederaDappConnector = hasHedera, mw_hasConnection = hasWagmi w \<or> hasHedera,
             mw_addressDisplayText = addressDisplayText, mw_chain = chain\<rparr>))"

datatype wallet = WagmiWallet | HederaWallet

definition multi_disconnect :: "multi_wallet \<Rightarrow> wallet option" where
  "multi_disconnect m = (if mw_hasWagmi m then Some WagmiWallet else if mw_hasHederaDappConnector m then Some HederaWallet else None)"

text \<open>The dialog for connecting is closed when a connection comes up.\<close>

definition connection_dialog_effect :: "bool \<Rightarrow> bool \<Rightarrow> bool \<Rightarrow> bool" where
  "connection_dialog_effect previously now displayed = (if previously \<noteq> now \<and> now then False else displayed)"

section \<open>The client that is used\<close>

datatype provided =
    UnsupportedNetwork
  | HashgraphClient hedera_session hedera_chain deployment_definition
  | EthersClient string hedera_chain deployment_definition
  | PlaceholderClient hedera_chain deployment_definition

definition LiquityProvider ::
  "environment \<Rightarrow> deployment_definition list \<Rightarrow> wagmi_state \<Rightarrow> hedera_session option \<Rightarrow> hedera_chain \<Rightarrow> provided result" where
  "LiquityProvider env deployments w session selectedChain =
     rbind (MultiWalletProvider w session selectedChain) (\<lambda>m.
     rbind (getChainFromId (wg_chainId w)) (\<lambda>ethersChain.
     case useDeployment env deployments (Some (mw_chain m)) of
       None \<Rightarrow> Inr UnsupportedNetwork
     | Some deployment \<Rightarrow>
        (if mw_hasHederaDappConnector m then
           rbind (getHook None session) (\<lambda>s. Inr (HashgraphClient s selectedChain deployment))
         else if mw_hasWagmi m then
           (case wagmi_address w of
              Some a \<Rightarrow> (if wg_provider w \<and> wg_signer w then Inr (EthersClient a ethersChain deployment)
                 else Inl (Error ''wagmi's useProvider(), useSigner().data or useAccount().address are falsy.''))
            | None \<Rightarrow> Inl (Error ''wagmi's useProvider(), useSigner().data or useAccount().address are falsy.''))
         else Inr (PlaceholderClient (mw_chain m) deployment))))"

definition useLiquity :: "'a option \<Rightarrow> 'a result" where
  "useLiquity context' = (case context' of Some l \<Rightarrow> Inr l | None \<Rightarrow> Inl (Error ''You must provide a LiquityContext via LiquityProvider''))"

text \<open>The constants of a ledger; \<^verbatim>\<open>JSON.parse\<close> is the argument \<open>parse\<close>.\<close>

definition useConstants :: "(string \<Rightarrow> (string \<rightharpoonup> string) option) \<Rightarrow> environment \<Rightarrow> hedera_chain option \<Rightarrow> constants result" where
  "useConstants parse env chain = (case chain of
      None \<Rightarrow> Inl (Error ''i need a chain to get a deployment. useMultiWallet() returned undefined'')
    | Some c \<Rightarrow> getConstantsFromJsonObjectString parse (env (''VITE_CHAIN_'' @ show_nat (nat (chain_id c)) @ ''_CONSTANTS'')))"

section \<open>What is read back from cookies\<close>

lemma split_on_whole: "c \<notin> set s \<Longrightarrow> split_on (c # r) s = [s]"
  by (induction s) auto

lemma split_on_first: "c \<notin> set w \<Longrightarrow> split_on (c # r) (w @ (c # r) @ s) = w # split_on (c # r) s"
  by (induction w) auto

lemma split_on_join: "xs \<noteq> [] \<Longrightarrow> \<forall>x \<in> set xs. c \<notin> set x \<Longrightarrow> split_on (c # r) (join (c # r) xs) = xs"
proof (induction xs rule: induct_list012)
  case (3 x y zs)
  then show ?case using split_on_first [of c x r "join (c # r) (y # zs)"] by simp
qed (simp_all add: split_on_whole)

lemma split_on_single: "\<exists>ws. split_on [c] s = takeWhile (\<lambda>x. x \<noteq> c) s # ws"
  by (induction s) auto

definition cookies_wf :: "cookies \<Rightarrow> bool" where
  "cookies_wf jar \<longleftrightarrow> (\<forall>(n, v) \<in> set jar. CHR ''='' \<notin> set n \<and> CHR '';'' \<notin> set n \<and> CHR '';'' \<notin> set v)"

lemma startsWith_name:
  assumes "CHR ''='' \<notin> set n" "CHR ''='' \<notin> set name"
  shows "startsWith (n @ ''='' @ v) (name @ ''='') \<longleftrightarrow> n = name"
proof
  assume "startsWith (n @ ''='' @ v) (name @ ''='')"
  then have "(name @ ''='') @ drop (length (name @ ''='')) (n @ ''='' @ v) = n @ ''='' @ v"
    unfolding startsWith_def by (metis append_take_drop_id)
  then obtain t where "n @ CHR ''='' # v = name @ CHR ''='' # t" by (metis append.assoc append_Cons append_Nil)
  then have "takeWhile (\<lambda>c. c \<noteq> CHR ''='') (n @ CHR ''='' # v) = takeWhile (\<lambda>c. c \<noteq> CHR ''='') (name @ CHR ''='' # t)" by simp
  with assms show "n = name" by (subst (asm) (1 2) takeWhile_append2) auto
qed (simp add: startsWith_def)

lemma find_map: "find P (map f xs) = map_option f (find (P \<circ> f) xs)"
  by (induction xs) auto

lemma find_key: "find (\<lambda>(n, v). n = name) jar = map_option (Pair name) (map_of jar name)"
  by (induction jar) auto

text \<open>A cookie is read up to the first equals sign in its value.\<close>

lemma cookie_value_read:
  assumes "cookies_wf jar" and "CHR ''='' \<notin> set name"
  shows "cookie_value name (cookie_string jar) = map_option (takeWhile (\<lambda>c. c \<noteq> CHR ''='')) (map_of jar name)"
proof (cases "jar = []")
  case True
  then show ?thesis by (simp add: cookie_value_def cookie_string_def startsWith_def)
next
  case False
  let ?row = "\<lambda>(n, v). n @ ''='' @ v"
  have "\<forall>x \<in> set (map ?row jar). CHR '';'' \<notin> set x" using assms(1) by (fastforce simp: cookies_wf_def)
  with False have rows: "split_on ''; '' (cookie_string jar) = map ?row jar"
    unfolding cookie_string_def by (intro split_on_join) simp_all
  have "find (\<lambda>row. startsWith row (name @ ''='')) (map ?row jar) = map_option ?row (find (\<lambda>(n, v). n = name) jar)"
    unfolding find_map using assms by (intro arg_cong [where f = "map_option ?row"] find_cong)
      (auto simp: cookies_wf_def startsWith_name simp del: append_Cons append_Nil)
  with rows have "cookie_value name (cookie_string jar) =
      (case map_of jar name of None \<Rightarrow> None | Some v \<Rightarrow> (let parts = split_on ''='' (name @ ''='' @ v) in if 1 < length parts then Some (parts ! 1) else None))"
    by (simp add: cookie_value_def find_key split: option.split)
  moreover have parts: "\<exists>ws. split_on ''='' (name @ ''='' @ v) = name # takeWhile (\<lambda>c. c \<noteq> CHR ''='') v # ws" for v
    using split_on_first [OF assms(2), of "[]" v] split_on_single [of "CHR ''=''" v] by auto
  moreover have "(let parts = split_on ''='' (name @ ''='' @ v) in if 1 < length parts then Some (parts ! 1) else None)
      = Some (takeWhile (\<lambda>c. c \<noteq> CHR ''='') v)" for v
  proof -
    from parts [of v] obtain ws where "split_on ''='' (name @ ''='' @ v) = name # takeWhile (\<lambda>c. c \<noteq> CHR ''='') v # ws" by blast
    then show ?thesis unfolding Let_def by simp
  qed
  ultimately show ?thesis by (cases "map_of jar name") simp_all
qed

lemma set_cookie_read: "map_of (set_cookie name v jar) name = Some v"
proof -
  have "name \<in> fst ` set jar \<Longrightarrow> map_of (map (\<lambda>(n, w). (n, if n = name then v else w)) jar) name = Some v"
    by (induction jar) auto
  moreover have "name \<notin> fst ` set jar \<Longrightarrow> map_of (jar @ [(name, v)]) name = Some v"
    by (induction jar) auto
  ultimately show ?thesis by (simp add: set_cookie_def)
qed

lemma set_cookie_wf:
  "cookies_wf jar \<Longrightarrow> CHR ''='' \<notin> set name \<Longrightarrow> CHR '';'' \<notin> set name \<Longrightarrow> CHR '';'' \<notin> set v \<Longrightarrow> cookies_wf (set_cookie name v jar)"
  unfolding cookies_wf_def set_cookie_def by (simp add: image_iff) (auto split: prod.split)

lemma base64_digit_in: "base64_digit n \<in> set base64_alphabet"
proof -
  have "length base64_alphabet = 64" by (simp add: base64_alphabet_def)
  then show ?thesis by (simp add: base64_digit_def)
qed

lemma base64_digit_plain: "base64_digit n \<noteq> CHR ''=''" "base64_digit n \<noteq> CHR '';''"
  using base64_digit_in [of n] by (auto simp: base64_alphabet_def)

lemma base64_padding: "CHR ''='' \<in> set (base64 bs) \<longleftrightarrow> length bs mod 3 \<noteq> 0"
proof (induction bs rule: base64.induct)
  case (4 a b c rest)
  have "Suc (Suc (Suc n)) mod 3 = n mod 3" for n :: nat by presburger
  then have "length (a # b # c # rest) mod 3 = length rest mod 3" by simp
  with 4 show ?case by (simp add: base64_digit_plain [symmetric])
qed simp_all

lemma base64_no_semicolon: "CHR '';'' \<notin> set (base64 bs)"
  by (induction bs rule: base64.induct) (simp_all add: base64_digit_plain [symmetric])

lemma takeWhile_id: "takeWhile (\<lambda>x. x \<noteq> c) s = s \<longleftrightarrow> c \<notin> set s"
  by (induction s) auto

text \<open>
  C37. A visitor who has logged in is let in again after a reload exactly if the length of the password is a multiple of three: otherwise base 64 pads the
  encoded password with equals signs, and the cookie is read only up to the first of them. So does every later visit within the year the cookie lasts.
\<close>

theorem login_survives_reload_iff:
  assumes "cookies_wf jar" and "env \<noteq> Some []" and "logIn env password jar = Inr (jar', entered)"
  shows "authenticated env entered \<and> (authenticated env (open_page jar') \<longleftrightarrow> length password mod 3 = 0)"
proof -
  let ?e = "btoa password" and ?name = "''hliquity_password''"
  have s: "env = Some ?e" "jar' = set_cookie ?name ?e jar" "entered = Some ?e"
    using assms(3) by (auto simp: logIn_def Let_def split: if_split_asm)
  have "cookies_wf jar'" unfolding s by (rule set_cookie_wf [OF assms(1)]) (simp_all add: btoa_def base64_no_semicolon)
  then have "open_page jar' = Some (takeWhile (\<lambda>c. c \<noteq> CHR ''='') ?e)"
    unfolding open_page_def getPasswordCookieValue_def by (subst cookie_value_read) (simp_all add: s set_cookie_read)
  with s assms(2) have "authenticated env (open_page jar') \<longleftrightarrow> CHR ''='' \<notin> set ?e"
    by (auto simp: authenticated_def takeWhile_id)
  with s show ?thesis by (simp add: authenticated_def btoa_def base64_padding)
qed

theorem login_survives_reload_iff_witness:
  "(\<exists>jar. logIn (Some ''cGFzcw=='') ''pass'' [(''a'', ''1'')] = Inr (jar, Some ''cGFzcw=='') \<and> \<not> authenticated (Some ''cGFzcw=='') (open_page jar))
   \<and> (\<exists>jar. logIn (Some ''c2VjcmV0'') ''secret'' [] = Inr (jar, Some ''c2VjcmV0'') \<and> authenticated (Some ''c2VjcmV0'') (open_page jar))"
proof -
  have e: "btoa ''pass'' = ''cGFzcw==''" "btoa ''secret'' = ''c2VjcmV0''"
    by (simp_all add: btoa_def base64_digit_def base64_alphabet_def)
  have l: "logIn (Some ''cGFzcw=='') ''pass'' [(''a'', ''1'')] = Inr (set_cookie ''hliquity_password'' ''cGFzcw=='' [(''a'', ''1'')], Some ''cGFzcw=='')"
    "logIn (Some ''c2VjcmV0'') ''secret'' [] = Inr (set_cookie ''hliquity_password'' ''c2VjcmV0'' [], Some ''c2VjcmV0'')"
    by (simp_all add: logIn_def e Let_def)
  have "cookies_wf [(''a'', ''1'')]" "cookies_wf []" by (simp_all add: cookies_wf_def)
  from this(1) [THEN login_survives_reload_iff, OF _ l(1)] this(2) [THEN login_survives_reload_iff, OF _ l(2)] l
  show ?thesis by simp
qed

text \<open>Numbers are read back as they were printed.\<close>

lemma parseInt10_show: "parseInt10 (show_nat n) = Some (int n)"
proof -
  obtain c s where c: "show_nat n = c # s" using show_nat_not_Nil [of n] by (cases "show_nat n") auto
  have d: "\<forall>x \<in> set (show_nat n). is_digit x" using show_nat_digits [of n] by (simp add: list_all_iff)
  with c have "is_digit c" by simp
  then have "\<not> is_blank c" "c \<noteq> CHR ''-''" "c \<noteq> CHR ''+''" by (auto simp: is_digit_def is_blank_def)
  then have "parseInt10 (show_nat n) = Some (int (digits_value (takeWhile is_digit (show_nat n))))"
    using c d by (simp add: parseInt10_def Let_def)
  also have "takeWhile is_digit (show_nat n) = show_nat n" using d by simp
  finally show ?thesis by (simp add: digits_value_show_nat)
qed

lemma parseInt_show: "parseInt (show_nat n) = Some (int n)"
proof -
  have d: "\<forall>x \<in> set (show_nat n). is_digit x" using show_nat_digits [of n] by (simp add: list_all_iff)
  obtain c s where c: "show_nat n = c # s" using show_nat_not_Nil [of n] by (cases "show_nat n") auto
  with d have "is_digit c" by simp
  then have "\<not> is_blank c" "c \<noteq> CHR ''-''" "c \<noteq> CHR ''+''" by (auto simp: is_digit_def is_blank_def)
  moreover have "CHR ''x'' \<notin> set (show_nat n)" "CHR ''X'' \<notin> set (show_nat n)" using d by (auto simp: is_digit_def)
  then have "take 2 (show_nat n) \<noteq> ''0x''" "take 2 (show_nat n) \<noteq> ''0X''"
    by (metis in_set_takeD list.set_intros(1) list.set_intros(2))+
  ultimately show ?thesis using c parseInt10_show [of n] by (auto simp: parseInt_def Let_def)
qed

lemma chain_ids [simp]: "chain_id mainnet = 295" "chain_id testnet = 296" "chain_id previewnet = 297"
  by (simp_all add: mainnet_def testnet_def previewnet_def)

lemma distinct_chain_ids: "c \<in> set chains \<Longrightarrow> d \<in> set chains \<Longrightarrow> chain_id c = chain_id d \<Longrightarrow> c = d"
  unfolding chains_def by auto

lemma chain_id_positive: "c \<in> set chains \<Longrightarrow> 0 < chain_id c"
  unfolding chains_def by auto

lemma available_chains: "set (chainsWithDeployment env deployments) \<subseteq> set chains"
  by (auto simp: chainsWithDeployment_def enabledChains_def)

lemma find_unique: "x \<in> set xs \<Longrightarrow> P x \<Longrightarrow> \<forall>y \<in> set xs. P y \<longrightarrow> y = x \<Longrightarrow> find P xs = Some x"
proof (induction xs)
  case (Cons a xs)
  show ?case
  proof (cases "P a")
    case True
    with Cons.prems(3) have "a = x" by simp
    with True show ?thesis by simp
  next
    case False
    with Cons.prems(1,2) have "x \<in> set xs" by (metis set_ConsD)
    moreover have "\<forall>y \<in> set xs. P y \<longrightarrow> y = x" using Cons.prems(3) by (metis list.set_intros(2))
    ultimately have "find P xs = Some x" using Cons.IH Cons.prems(2) by blast
    with False show ?thesis by simp
  qed
qed simp

text \<open>
  The selected ledger is remembered. If a ledger that is offered is selected, a page that is opened later with the same configuration and cookies starts with that
  ledger, whatever other cookies there are and whichever ledger was selected before.
\<close>

theorem selected_chain_survives_reload:
  assumes "cookies_wf jar" and "c \<in> set (chainsWithDeployment env deployments)"
    and "ChainSelector_input (chainsWithDeployment env deployments) (show_nat (nat (chain_id c))) (jar, old) = (jar', new)"
  shows "new = c \<and> initiallySelectedChain (chainsWithDeployment env deployments) jar' = Some c"
proof -
  let ?av = "chainsWithDeployment env deployments" and ?name = "''hliquity_selected_chain_id''" and ?v = "show_nat (nat (chain_id c))"
  have c: "c \<in> set chains" "0 < chain_id c" using assms(2) available_chains chain_id_positive by blast+
  then have v: "parseInt ?v = Some (chain_id c)" by (simp add: parseInt_show)
  have unique: "\<forall>y \<in> set ?av. chain_id y = chain_id c \<longrightarrow> y = c" using c(1) available_chains distinct_chain_ids by blast
  have "find (\<lambda>x. Some (chain_id x) = Some (chain_id c)) ?av = Some c" using assms(2) unique by (intro find_unique) auto
  note found = this
  with assms(3) v have s: "new = c" "jar' = set_cookie ?name ?v jar" by (auto simp: ChainSelector_input_def setChain_def)
  have d: "\<forall>x \<in> set ?v. is_digit x" using show_nat_digits by (simp add: list_all_iff)
  then have plain: "CHR ''='' \<notin> set ?v" "CHR '';'' \<notin> set ?v" by (auto simp: is_digit_def)
  have "cookies_wf jar'" unfolding s by (rule set_cookie_wf [OF assms(1)]) (simp_all add: plain)
  then have "cookie_value ?name (cookie_string jar') = Some ?v"
    using plain(1) takeWhile_id [of "CHR ''=''" ?v] by (subst cookie_value_read) (simp_all add: s set_cookie_read)
  then have "getSelectedChainIdCookieValue (cookie_string jar') = Some (chain_id c)"
    by (simp add: getSelectedChainIdCookieValue_def v show_nat_not_Nil)
  with found s show ?thesis by (simp add: initiallySelectedChain_def)
qed

definition sample_environment :: environment where
  "sample_environment name = (if name = ''VITE_ENABLED_CHAINS'' then Some ''295,296'' else None)"

definition sample_deployments :: "deployment_definition list" where
  "sample_deployments = map (\<lambda>i. \<lparr>dd_chainId = i, dd_addresses = (\<lambda>_. None), dd_deploymentDate = 0, dd_totalStabilityPoolHLQTReward = ''1'', dd_frontendTag = ''0x0''\<rparr>) [295, 296]"

lemma sample_available: "chainsWithDeployment sample_environment sample_deployments = [mainnet, testnet]"
proof -
  have "parseEnabledChainIdsFromEnv sample_environment = [295, 296]"
    by (simp add: parseEnabledChainIdsFromEnv_def sample_environment_def List.map_filter_def parseInt10_def is_blank_def is_digit_def digits_value_def digit_value_def)
  then show ?thesis
    by (simp add: chainsWithDeployment_def enabledChains_def sample_deployments_def chains_def)
qed

theorem selected_chain_survives_reload_witness:
  "\<exists>jar. ChainSelector_input (chainsWithDeployment sample_environment sample_deployments) ''296'' ([(''theme'', ''dark'')], mainnet) = (jar, testnet)
     \<and> initiallySelectedChain (chainsWithDeployment sample_environment sample_deployments) jar = Some testnet"
proof -
  have "cookies_wf [(''theme'', ''dark'')]" by (simp add: cookies_wf_def)
  moreover have "testnet \<in> set (chainsWithDeployment sample_environment sample_deployments)" by (simp add: sample_available)
  moreover have t: "show_nat (nat (chain_id testnet)) = ''296''" by (simp, code_simp)
  ultimately show ?thesis
    using selected_chain_survives_reload [of "[(''theme'', ''dark'')]" testnet sample_environment sample_deployments mainnet]
    by (cases "ChainSelector_input (chainsWithDeployment sample_environment sample_deployments) ''296'' ([(''theme'', ''dark'')], mainnet)") simp
qed

section \<open>The client belongs to the wallet\<close>

definition used_wallet :: "provided \<Rightarrow> wallet option" where
  "used_wallet p = (case p of HashgraphClient s c d \<Rightarrow> Some HederaWallet | EthersClient a c d \<Rightarrow> Some WagmiWallet | _ \<Rightarrow> None)"

definition used_account :: "provided \<Rightarrow> string option" where
  "used_account p = (case p of HashgraphClient s c d \<Rightarrow> Some (hs_accountId s) | EthersClient a c d \<Rightarrow> Some (shortenAddress a) | _ \<Rightarrow> None)"

text \<open>The ledger a client talks to and the deployment whose contracts it calls there.\<close>

fun used_ledger :: "provided \<Rightarrow> (hedera_chain \<times> deployment_definition) option" where
  "used_ledger UnsupportedNetwork = None"
| "used_ledger (HashgraphClient s c d) = Some (c, d)"
| "used_ledger (EthersClient a c d) = Some (c, d)"
| "used_ledger (PlaceholderClient c d) = Some (c, d)"

text \<open>Only one of the wallets is there, and a wallet with an address is ready to sign.\<close>

definition one_wallet :: "wagmi_state \<Rightarrow> hedera_session option \<Rightarrow> bool" where
  "one_wallet w session \<longleftrightarrow> (wagmi_address w \<noteq> None \<longrightarrow> hasWagmi w \<and> session = None)"

lemma getChainFromId_id: "getChainFromId i = Inr c \<Longrightarrow> chain_id c = i"
  by (auto simp: getChainFromId_def find_Some_iff split: option.split_asm)

lemma useDeployment_id: "useDeployment env deployments (Some c) = Some d \<Longrightarrow> dd_chainId d = chain_id c"
  by (auto simp: useDeployment_def find_Some_iff)

text \<open>
  While a visitor has at most one wallet connected, the application is about that wallet: the address that is shown is that of the account the client sends
  with, disconnecting drops that wallet, and the client calls the contracts that are deployed on the ledger it talks to.
\<close>

theorem client_belongs_to_wallet:
  assumes "one_wallet w session" and "MultiWalletProvider w session selected = Inr m" and "LiquityProvider env deployments w session selected = Inr p"
    and "p \<noteq> UnsupportedNetwork"
  shows "mw_addressDisplayText m = used_account p \<and> multi_disconnect m = used_wallet p
    \<and> (\<exists>c d. used_ledger p = Some (c, d) \<and> dd_chainId d = chain_id c)"
proof -
  obtain e d where e: "getChainFromId (wg_chainId w) = Inr e" and d: "useDeployment env deployments (Some (mw_chain m)) = Some d"
    using assms(2-4) by (auto simp: LiquityProvider_def rbind_eq_Inr_iff split: option.split_asm)
  have m: "mw_chain m = (if hasWagmi w then e else selected)"
    using assms(2) e by (auto simp: MultiWalletProvider_def rbind_eq_Inr_iff Let_def)
  note id = useDeployment_id [OF d]
  show ?thesis
  proof (cases session)
    case (Some s)
    with assms(1) have "wagmi_address w = None" by (auto simp: one_wallet_def)
    with assms(2,3) Some e d m id show ?thesis
      by (auto simp: LiquityProvider_def MultiWalletProvider_def Let_def getHook_def hasWagmi_def rbind_eq_Inr_iff
          used_account_def used_wallet_def multi_disconnect_def)
  next
    case None
    show ?thesis
    proof (cases "wagmi_address w")
      case (Some a)
      with assms(1) have "hasWagmi w" by (auto simp: one_wallet_def)
      with assms(2,3) None Some e d m id show ?thesis
        by (auto simp: LiquityProvider_def MultiWalletProvider_def Let_def hasWagmi_def rbind_eq_Inr_iff
            used_account_def used_wallet_def multi_disconnect_def)
    next
      case no_address: None
      with assms(2,3) None e d m id show ?thesis
        by (auto simp: LiquityProvider_def MultiWalletProvider_def Let_def hasWagmi_def rbind_eq_Inr_iff
            used_account_def used_wallet_def multi_disconnect_def)
    qed
  qed
qed

text \<open>
  With both connected the application mixes them up: it sends with the account of the Hedera wallet, shows the address of the other one and disconnects
  the other one; and the client talks to the selected ledger about the contracts that are deployed on the other wallet's ledger.
\<close>

theorem two_wallets_are_mixed_up:
  assumes "hasWagmi w" and "MultiWalletProvider w (Some s) selected = Inr m" and "LiquityProvider env deployments w (Some s) selected = Inr p"
    and "p \<noteq> UnsupportedNetwork"
  shows "used_wallet p = Some HederaWallet \<and> used_account p = Some (hs_accountId s)
    \<and> multi_disconnect m = Some WagmiWallet \<and> mw_addressDisplayText m = map_option shortenAddress (wagmi_address w)
    \<and> (\<exists>d. used_ledger p = Some (selected, d) \<and> dd_chainId d = wg_chainId w)"
proof -
  obtain e d where e: "getChainFromId (wg_chainId w) = Inr e" and d: "useDeployment env deployments (Some (mw_chain m)) = Some d"
    using assms(2-4) by (auto simp: LiquityProvider_def rbind_eq_Inr_iff split: option.split_asm)
  have "mw_chain m = e" using assms(1,2) e by (auto simp: MultiWalletProvider_def rbind_eq_Inr_iff Let_def)
  with useDeployment_id [OF d] getChainFromId_id [OF e] have "dd_chainId d = wg_chainId w" by simp
  moreover obtain a where "wagmi_address w = Some a" using assms(1) by (auto simp: hasWagmi_def)
  ultimately show ?thesis
    using assms(1-3) e d
    by (auto simp: LiquityProvider_def MultiWalletProvider_def Let_def getHook_def rbind_eq_Inr_iff used_account_def used_wallet_def multi_disconnect_def)
qed

definition sample_wagmi :: wagmi_state where
  "sample_wagmi = \<lparr>wg_address = Some ''0x1234567890'', wg_provider = True, wg_signer = True, wg_chainId = 296\<rparr>"

lemma sample_wallet:
  "one_wallet sample_wagmi None" "\<exists>m. MultiWalletProvider sample_wagmi None mainnet = Inr m \<and> mw_addressDisplayText m = Some ''0x1234...7890''"
  "\<exists>p. LiquityProvider sample_environment sample_deployments sample_wagmi None mainnet = Inr p \<and> p \<noteq> UnsupportedNetwork"
proof -
  have w: "hasWagmi sample_wagmi" "wagmi_address sample_wagmi = Some ''0x1234567890''" "wg_chainId sample_wagmi = 296" "wg_provider sample_wagmi" "wg_signer sample_wagmi"
    by (simp_all add: hasWagmi_def wagmi_address_def sample_wagmi_def)
  have c: "getChainFromId 296 = Inr testnet" by (simp add: getChainFromId_def chains_def)
  have "parseEnabledChainIdsFromEnv sample_environment = [295, 296]"
    by (simp add: parseEnabledChainIdsFromEnv_def sample_environment_def List.map_filter_def parseInt10_def is_blank_def is_digit_def digits_value_def digit_value_def)
  then have d: "\<exists>d. useDeployment sample_environment sample_deployments (Some testnet) = Some d"
    by (simp add: useDeployment_def enabledDeployments_def sample_deployments_def)
  show "one_wallet sample_wagmi None" by (simp add: one_wallet_def w)
  show "\<exists>m. MultiWalletProvider sample_wagmi None mainnet = Inr m \<and> mw_addressDisplayText m = Some ''0x1234...7890''"
    by (simp add: MultiWalletProvider_def Let_def w c shortenAddress_def)
  show "\<exists>p. LiquityProvider sample_environment sample_deployments sample_wagmi None mainnet = Inr p \<and> p \<noteq> UnsupportedNetwork"
    using d by (auto simp: LiquityProvider_def MultiWalletProvider_def Let_def w c)
qed

theorem client_belongs_to_wallet_witness:
  "\<exists>p. LiquityProvider sample_environment sample_deployments sample_wagmi None mainnet = Inr p \<and> used_account p = Some ''0x1234...7890''"
proof -
  obtain m p where "MultiWalletProvider sample_wagmi None mainnet = Inr m" "mw_addressDisplayText m = Some ''0x1234...7890''"
    "LiquityProvider sample_environment sample_deployments sample_wagmi None mainnet = Inr p" "p \<noteq> UnsupportedNetwork"
    using sample_wallet(2,3) by blast
  with client_belongs_to_wallet [OF sample_wallet(1)] show ?thesis by auto
qed

section \<open>Connecting to the Hedera wallet\<close>

text \<open>No ledger's number is translated to the test ledger: the one of the test ledger becomes the main one.\<close>

theorem testnet_is_never_requested: "getHederaChainId (chain_id testnet) = HederaMainnet \<and> getHederaChainId i \<noteq> HederaTestnet"
  by (simp add: getHederaChainId_def)

text \<open>A session is only made for a ledger that the application knows, and with an address.\<close>

lemma session_known:
  assumes "getSessionFromStruct fetch parse account = Inr (Some s)"
  shows "hs_evmAddress s \<noteq> [] \<and> (\<exists>c \<in> set chains. hs_ledgerId s = ledgerId c)"
  using assms by (auto simp: getSessionFromStruct_def Let_def rbind_eq_Inr_iff find_Some_iff split: option.split_asm if_split_asm)

text \<open>If no ledger is selected while a connector is being set up, the connector that is used is one for the selected ledger.\<close>

inductive connector_history :: "connector_state \<Rightarrow> bool" where
  connector_open: "connector_history (open_connector c)"
| connector_select: "connector_history s \<Longrightarrow> cs_pending s = [] \<Longrightarrow> connector_history (select_connector_chain c s)"
| connector_ready: "connector_history s \<Longrightarrow> connector_history (connector_ready i x s)"
| connector_failed: "connector_history s \<Longrightarrow> connector_history (connector_failed i s)"
| connector_session: "connector_history s \<Longrightarrow> connector_history (set_session x s)"

lemma connector_for_selected:
  assumes "connector_history s"
  shows "(\<forall>i c. cs_connector s = Some (i, c) \<longrightarrow> c = cs_selected s \<and> i = cs_effect s \<and> cs_effect s \<in> set (cs_destroyable s))
    \<and> cs_pending s \<in> {[], [(cs_effect s, cs_selected s)]}"
  using assms
proof (induction rule: connector_history.induct)
  case (connector_select s c)
  then show ?case by (auto simp: select_connector_chain_def cleanup_connector_def Let_def split: if_split_asm)
next
  case (connector_ready s i x)
  then show ?case by (auto simp: connector_ready_def split: option.split if_split_asm)
next
  case (connector_failed s i)
  then show ?case by (auto simp: connector_failed_def split: option.split if_split_asm)
qed (auto simp: open_connector_def set_session_def)

text \<open>But if the ledger changes while a connector is being set up, the one for the old ledger can replace the one for the new ledger.\<close>

theorem stale_connector_wins:
  assumes "c \<noteq> d" and "s = connector_ready 0 None (connector_ready 1 None (select_connector_chain d (open_connector c)))"
  shows "cs_selected s = d \<and> cs_connector s = Some (0, c)"
  unfolding assms(2) by (simp add: connector_ready_def select_connector_chain_def cleanup_connector_def open_connector_def Let_def)

end
