(* ===== verification/Frontend_Lists.thy ===== *)
theory Frontend_Lists
  imports Hashgraph_Transactions Frontend_Session
begin

text \<open>
  Components of the application around the trove forms (\<^verbatim>\<open>packages/dev-frontend/src/components\<close>): the list of risky troves (\<^verbatim>\<open>RiskyTroves.tsx\<close>), liquidating several at
  once (\<^verbatim>\<open>LiquidationManager.tsx\<close>), the input for amounts (\<^verbatim>\<open>DecimalInput.tsx\<close>) and the warning about expensive changes
  (\<^verbatim>\<open>Trove/ExpensiveTroveChangeWarning.tsx\<close>).
\<close>

section \<open>Which troves can be liquidated\<close>

definition liquidatableInNormalMode :: "'x trove_scheme \<Rightarrow> decimal \<Rightarrow> bool \<times> string" where
  "liquidatableInNormalMode t p = (Trove_collateralRatioIsBelowMinimum t p, ''Collateral ratio not low enough'')"

definition liquidatableInRecoveryMode :: "'x trove_scheme \<Rightarrow> decimal \<Rightarrow> decimal \<Rightarrow> decimal \<Rightarrow> constants \<Rightarrow> bool \<times> string" where
  "liquidatableInRecoveryMode t p totalCollateralRatio hchfInPool c =
     (let ratio = Trove_collateralRatio t p
      in if Decimal_gte ratio (MINIMUM_COLLATERAL_RATIO c) \<and> Decimal_lt ratio totalCollateralRatio
         then (Decimal_lte (debt t) hchfInPool, ''There's not enough HCHF in the Stability pool to cover the debt'')
         else liquidatableInNormalMode t p)"

record risky_selection =
  rs_numberOfTroves :: nat
  rs_price :: decimal
  rs_recoveryMode :: bool
  rs_totalCollateralRatio :: decimal
  rs_hchfInStabilityPool :: decimal

definition RiskyTroves_select :: "nat \<Rightarrow> decimal \<Rightarrow> 'x trove_scheme \<Rightarrow> decimal \<Rightarrow> risky_selection" where
  "RiskyTroves_select n p total' hchfInPool = \<lparr>rs_numberOfTroves = n, rs_price = p, rs_recoveryMode = Trove_collateralRatioIsBelowCritical total' p,
     rs_totalCollateralRatio = Trove_collateralRatio total' p, rs_hchfInStabilityPool = hchfInPool\<rparr>"

definition liquidation_requires :: "risky_selection \<Rightarrow> constants \<Rightarrow> 'x trove_scheme \<Rightarrow> bool \<times> string" where
  "liquidation_requires s c t = (if rs_recoveryMode s
     then liquidatableInRecoveryMode t (rs_price s) (rs_totalCollateralRatio s) (rs_hchfInStabilityPool s) c
     else liquidatableInNormalMode t (rs_price s))"

section \<open>Pages\<close>

text \<open>\<^verbatim>\<open>Math.ceil(numberOfTroves / pageSize) || 1\<close>\<close>

definition numberOfPages :: "nat \<Rightarrow> nat \<Rightarrow> nat" where
  "numberOfPages n pageSize = (let k = (n + pageSize - 1) div pageSize in if k = 0 then 1 else k)"

definition clampedPage :: "nat \<Rightarrow> nat \<Rightarrow> nat \<Rightarrow> nat" where
  "clampedPage n pageSize page = min page (numberOfPages n pageSize - 1)"

definition nextPage :: "nat \<Rightarrow> nat \<Rightarrow> nat \<Rightarrow> nat" where
  "nextPage n pageSize page =
     (let c = clampedPage n pageSize page in if c < numberOfPages n pageSize - 1 then c + 1 else page)"

definition previousPage :: "nat \<Rightarrow> nat \<Rightarrow> nat \<Rightarrow> nat" where
  "previousPage n pageSize page = (let c = clampedPage n pageSize page in if 0 < c then c - 1 else page)"

definition clamp_effect :: "nat \<Rightarrow> nat \<Rightarrow> nat \<Rightarrow> nat" where
  "clamp_effect n pageSize page =
     (let c = clampedPage n pageSize page in if page \<noteq> c then c else page)"

definition page_query :: "nat \<Rightarrow> nat \<Rightarrow> listing_params" where
  "page_query pageSize clamped = \<lparr>listing_first = int pageSize, listing_sortedBy = AscendingCollateralRatio,
     listing_startingAt = Some (int (clamped * pageSize)), listing_before = False\<rparr>"

text \<open>The line above the table, for example 11-20 of 25.\<close>

definition shown_range :: "nat \<Rightarrow> nat \<Rightarrow> nat \<Rightarrow> nat \<times> nat" where
  "shown_range n pageSize clamped = (clamped * pageSize + 1, min ((clamped + 1) * pageSize) n)"

definition shown_rows :: "user_trove list \<Rightarrow> user_trove list" where
  "shown_rows troves = filter (\<lambda>t. \<not> Trove_isEmpty t) troves"

text \<open>
  Loading. Every run of the effect has a number, and its answer counts only as long as no later run has started. A request that fails is not handled.
\<close>

record risky_list =
  rl_loading :: bool
  rl_troves :: "user_trove list option"
  rl_run :: nat
  rl_requested :: listing_params

definition open_risky_list :: "listing_params \<Rightarrow> risky_list" where
  "open_risky_list q = \<lparr>rl_loading = True, rl_troves = None, rl_run = 0, rl_requested = q\<rparr>"

definition load_page :: "listing_params \<Rightarrow> risky_list \<Rightarrow> risky_list" where
  "load_page q s = s\<lparr>rl_loading := True, rl_run := Suc (rl_run s), rl_requested := q\<rparr>"

definition page_arrived :: "nat \<Rightarrow> user_trove list result \<Rightarrow> risky_list \<Rightarrow> risky_list" where
  "page_arrived run answer s = (case answer of
      Inr troves \<Rightarrow> (if run = rl_run s then s\<lparr>rl_troves := Some troves, rl_loading := False\<rparr> else s)
    | Inl _ \<Rightarrow> s)"

text \<open>Liquidating several: the text of the input; \<open>None\<close> is \<^verbatim>\<open>NaN\<close>.\<close>

definition liquidate_up_to :: "string \<Rightarrow> int option result" where
  "liquidate_up_to input = (if input = [] then Inl (Error ''Invalid number'') else Inr (parseInt10 input))"

section \<open>Amounts\<close>

datatype amount_event = SetShare string | SetMax | TypeAmount string | Decrease | Increase

text \<open>What \<^verbatim>\<open>DecimalInput\<close> passes to its caller. The buttons for shares exist only with a maximum.\<close>

definition DecimalInput :: "decimal option \<Rightarrow> decimal \<Rightarrow> amount_event \<Rightarrow> decimal result" where
  "DecimalInput max' v e = (case e of
      SetShare share \<Rightarrow> (case max' of Some m \<Rightarrow> rbind (Decimal_from (Number share)) (\<lambda>s. Inr (Decimal_mul m s)) | None \<Rightarrow> Inr v)
    | SetMax \<Rightarrow> Inr (case max' of Some m \<Rightarrow> m | None \<Rightarrow> v)
    | TypeAmount t \<Rightarrow> Inr (case Decimal_fromString t of Inr d \<Rightarrow> d | Inl _ \<Rightarrow> Decimal_ZERO)
    | Decrease \<Rightarrow> (if Decimal_gt v Decimal_ONE then Decimal_sub v Decimal_ONE else Inr Decimal_ZERO)
    | Increase \<Rightarrow>
       (let new = Decimal_add v Decimal_ONE
        in Inr (case max' of Some m \<Rightarrow> (if Decimal_gt new m then m else new) | None \<Rightarrow> new)))"

section \<open>The warning about expensive changes\<close>

datatype gas_estimation = EstimationIdle | EstimationInProgress | EstimationComplete populated_transaction

text \<open>
  The effect runs for a new change; its timer, after a third of a second, builds the transaction, and the result counts unless the effect was cleaned up. A run is
  known by the action it would send.
\<close>

record expensive_warning =
  ew_state :: gas_estimation
  ew_run :: nat
  ew_change :: "liquity_action option"

definition warning_effect :: "liquity_action option \<Rightarrow> expensive_warning \<Rightarrow> expensive_warning" where
  "warning_effect change s = s\<lparr>ew_run := Suc (ew_run s), ew_change := change,
     ew_state := (case change of Some (Action_openTrove _ _) \<Rightarrow> EstimationInProgress | Some (Action_adjustTrove _ _) \<Rightarrow> EstimationInProgress | _ \<Rightarrow> EstimationIdle)\<rparr>"

definition warning_populated :: "nat \<Rightarrow> populated_transaction result \<Rightarrow> expensive_warning \<Rightarrow> expensive_warning" where
  "warning_populated run answer s = (case answer of
      Inr tx \<Rightarrow> (if run = ew_run s then s\<lparr>ew_state := EstimationComplete tx\<rparr> else s)
    | Inl _ \<Rightarrow> s)"

definition ExpensiveTroveChangeWarning :: "expensive_warning \<Rightarrow> bool" where
  "ExpensiveTroveChangeWarning s \<longleftrightarrow> ew_change s \<noteq> None
     \<and> (case ew_state s of EstimationComplete tx \<Rightarrow> 200000 \<le> gasHeadroom tx | _ \<Rightarrow> False)"

section \<open>The pages\<close>

lemma concat_chunks: "concat (map (\<lambda>i. take p (drop (i * p) xs)) [0..<k]) = take (k * p) xs"
proof (induction k)
  case (Suc k)
  have "take (k * p) xs @ take p (drop (k * p) xs) = take (k * p + p) xs" by (simp add: take_add)
  with Suc show ?case by (simp add: add.commute)
qed simp

lemma pages_cover: "0 < pageSize \<Longrightarrow> n \<le> numberOfPages n pageSize * pageSize"
proof -
  assume p: "0 < pageSize"
  have "(n + pageSize - 1) div pageSize * pageSize + (n + pageSize - 1) mod pageSize = n + pageSize - 1" by simp
  moreover have "(n + pageSize - 1) mod pageSize \<le> pageSize - 1" using p by (simp add: Suc_le_lessD less_Suc_eq_le [symmetric])
  ultimately have "n \<le> (n + pageSize - 1) div pageSize * pageSize" using p by linarith
  then show ?thesis by (auto simp: numberOfPages_def Let_def)
qed

lemma clampedPage_valid: "clampedPage n pageSize page < numberOfPages n pageSize"
  by (auto simp: clampedPage_def numberOfPages_def Let_def)

lemma page_read:
  assumes "lists_troves k None troves" and "Hashgraph_getTotalRedistributed this k None = Inr total'"
  shows "Hashgraph_getTroves this k (page_query pageSize i) None =
    Inr (Current (map (\<lambda>c. applyRedistribution (listed_trove this c) total') (take pageSize (drop (i * pageSize) (rev troves)))))"
proof -
  have "multiTroveGetter_getMultipleSortedTroves k (- (int (i * pageSize) + 1)) (int pageSize) None = Inr (take pageSize (drop (i * pageSize) (rev troves)))"
    using assms(1) unfolding lists_troves_def by (simp del: of_nat_mult)
  then show ?thesis
    by (simp add: Hashgraph_getTroves_def page_query_def expectPositiveInt_def Let_def assms(2) mapM_Inr o_def del: of_nat_mult)
qed

text \<open>
  What the ledger documents of its list (\<^verbatim>\<open>README.md\<close>, \<^verbatim>\<open>Keeping a sorted list of Troves ordered by ICR\<close>): with pending redistributions, every trove in it has a debt,
  and collateral per debt does not increase from the head to the tail. Ratios are compared exactly, without a price and without rounding.
\<close>

definition descending_by_ratio :: "'x trove_scheme list \<Rightarrow> bool" where
  "descending_by_ratio ts \<longleftrightarrow> (\<forall>t\<in>set ts. 0 < bigNumber (debt t))
     \<and> sorted_wrt (\<lambda>a b. bigNumber (collateral b) * bigNumber (debt a) \<le> bigNumber (collateral a) * bigNumber (debt b)) ts"

lemma div_le_from_cross:
  fixes a b c d p :: nat
  assumes "c * b \<le> a * d" and "0 < b" and "0 < d"
  shows "c * p div d \<le> a * p div b"
proof -
  have "c * p div d * b * d \<le> c * p * b" by (metis div_times_less_eq_dividend mult.assoc mult.commute mult_le_mono1)
  also have "\<dots> \<le> a * p * d" using mult_le_mono1 [OF assms(1), of p] by (simp add: ac_simps)
  finally have "c * p div d * b \<le> a * p" using assms(3) by simp
  then show ?thesis using assms(2) by (simp add: less_eq_div_iff_mult_less_eq)
qed

lemma descending_by_ratio_shown:
  assumes "descending_by_ratio ts"
  shows "sorted (map (\<lambda>t. Trove_collateralRatio t p) (rev ts))"
proof -
  have "sorted_wrt (\<lambda>a b. Trove_collateralRatio b p \<le> Trove_collateralRatio a p) ts"
    using assms
    by (induction ts)
      (auto simp: descending_by_ratio_def Trove_collateralRatio_def Decimal_mulDiv_def Decimal_isZero_def Decimal_ZERO_def
        less_eq_decimal_def div_le_from_cross)
  then show ?thesis by (simp add: sorted_wrt_map sorted_wrt_rev)
qed

text \<open>
  C34. The list of risky troves misses none: with the number of troves that the store has fetched, the pages the visitor can turn, each requested from the client as the
  component does, make up all troves that the ledger lists, with their current amounts, each once; and as the ledger keeps its list sorted, they come in ascending order of the
  collateral ratio, at whatever price it is computed. Whatever page is asked for, one of these pages is shown. All requests are answered from the same state of the ledger.
\<close>

theorem pages_list_every_trove:
  assumes "lists_troves k None troves" and "troveManager_getTroveOwnersCount k None = Inr (length troves)"
    and "fetchStoreValues this k m ids None = Inr (b, e)" and "0 < pageSize"
    and "descending_by_ratio (map (\<lambda>c. applyRedistribution (listed_trove this c) (content (totalRedistributed b))) troves)"
  shows "(\<exists>pages. mapM (\<lambda>i. Hashgraph_getTroves this k (page_query pageSize i) None) [0..<numberOfPages (nat (numberOfTroves b)) pageSize]
          = Inr (map Current pages)
      \<and> concat pages = map (\<lambda>c. applyRedistribution (listed_trove this c) (content (totalRedistributed b))) (rev troves)
      \<and> sorted (map (\<lambda>t. Trove_collateralRatio t p) (concat pages)))
    \<and> clampedPage (nat (numberOfTroves b)) pageSize page < numberOfPages (nat (numberOfTroves b)) pageSize"
proof -
  let ?f = "\<lambda>c. applyRedistribution (listed_trove this c) (content (totalRedistributed b))"
  let ?k = "numberOfPages (length troves) pageSize"
  let ?pages = "map (\<lambda>i. map ?f (take pageSize (drop (i * pageSize) (rev troves)))) [0..<?k]"
  have n: "nat (numberOfTroves b) = length troves"
    using fetchStoreValues_reads(6) [OF assms(3)] assms(2) by (simp add: Hashgraph_getNumberOfTroves_def)
  have "mapM (\<lambda>i. Hashgraph_getTroves this k (page_query pageSize i) None) [0..<?k] = Inr (map Current ?pages)"
    by (simp add: page_read [OF assms(1) fetchStoreValues_reads(3) [OF assms(3)]] mapM_Inr o_def)
  moreover have "concat ?pages = map ?f (concat (map (\<lambda>i. take pageSize (drop (i * pageSize) (rev troves))) [0..<?k]))"
    by (simp add: map_concat o_def)
  then have "concat ?pages = map ?f (rev troves)"
    using pages_cover [OF assms(4), of "length troves"] by (simp add: concat_chunks)
  ultimately show ?thesis
    using clampedPage_valid descending_by_ratio_shown [OF assms(5), of p] unfolding n rev_map by metis
qed

theorem pages_list_every_trove_witness:
  "\<exists>b e pages. fetchStoreValues sample_client sample_contracts sample_mirror no_identity None = Inr (b, e)
     \<and> mapM (\<lambda>i. Hashgraph_getTroves sample_client sample_contracts (page_query 1 i) None) [0..<2] = Inr (map Current pages)
     \<and> length (concat pages) = 2 \<and> sorted (map (\<lambda>t. Trove_collateralRatio t (Decimal 5000000)) (concat pages))"
proof -
  have s: "lists_troves sample_contracts None sample_listing" by (simp add: lists_troves_def sample_contracts_def)
  have l: "length sample_listing = 2" by (simp add: sample_listing_def)
  have c: "troveManager_getTroveOwnersCount sample_contracts None = Inr (length sample_listing)"
    by (simp add: l) (simp add: sample_contracts_def)
  obtain b e where f: "fetchStoreValues sample_client sample_contracts sample_mirror no_identity None = Inr (b, e)"
    using sample_fetch [of sample_mirror no_identity] by (auto simp: sample_mirror_def)
  have "Hashgraph_getTotalRedistributed sample_client sample_contracts None = Inr (new_Trove defaults Decimal_ZERO Decimal_ZERO)"
    by (simp add: Hashgraph_getTotalRedistributed_def sample_contracts_def sample_client_def read_decimal_def Decimal_ZERO_def Let_def)
  then have r: "content (totalRedistributed b) = new_Trove defaults Decimal_ZERO Decimal_ZERO"
    using fetchStoreValues_reads(3) [OF f] by simp
  have d: "descending_by_ratio (map (\<lambda>c. applyRedistribution (listed_trove sample_client c) (content (totalRedistributed b))) sample_listing)"
    by (simp add: r descending_by_ratio_def sample_listing_def listed_trove_def applyRedistribution_def new_UserTrove_def trove_ops
        sample_client_def trove.defs new_PendingTrove_def new_Trove_def sub_or_zero_eq Decimal_ZERO_def Decimal_add_def Decimal_mul_def Let_def)
  have "nat (numberOfTroves b) = 2"
    using fetchStoreValues_reads(6) [OF f] c l by (simp add: Hashgraph_getNumberOfTroves_def)
  with pages_list_every_trove [OF s c f _ d, of 1 "Decimal 5000000" 0] f l show ?thesis
    by (auto simp: numberOfPages_def)
qed

text \<open>Once the list is not loading, it shows the answer to the request of the present page, however late the answers of others arrive.\<close>

inductive list_history :: "(nat \<Rightarrow> user_trove list result) \<Rightarrow> risky_list \<Rightarrow> bool" for answer where
  list_open: "list_history answer (open_risky_list q)"
| list_load: "list_history answer s \<Longrightarrow> list_history answer (load_page q s)"
| list_arrived: "list_history answer s \<Longrightarrow> list_history answer (page_arrived run (answer run) s)"

theorem loaded_page_is_current:
  assumes "list_history answer s" and "\<not> rl_loading s"
  shows "\<exists>troves. rl_troves s = Some troves \<and> answer (rl_run s) = Inr troves"
  using assms by (induction rule: list_history.induct) (auto simp: open_risky_list_def load_page_def page_arrived_def split: sum.split_asm if_split_asm)

section \<open>Liquidations, amounts and warnings\<close>

text \<open>
  When a liquidation is offered: below the minimum ratio always, and in recovery mode also below the ratio of the whole system if the pool covers the debt.
\<close>

theorem liquidation_offered_iff:
  assumes "trove_constants t = c"
  shows "fst (liquidation_requires (RiskyTroves_select n p total' hchfInPool) c t) \<longleftrightarrow>
    Trove_collateralRatio t p < MINIMUM_COLLATERAL_RATIO c
    \<or> Trove_collateralRatio total' p < CRITICAL_COLLATERAL_RATIO (trove_constants total') \<and> Trove_collateralRatio t p < Trove_collateralRatio total' p
      \<and> debt t \<le> hchfInPool"
  using assms
  by (auto simp: liquidation_requires_def RiskyTroves_select_def liquidatableInRecoveryMode_def liquidatableInNormalMode_def Let_def
      Trove_collateralRatioIsBelowMinimum_def Trove_collateralRatioIsBelowCritical_def)

text \<open>No button of the input for amounts leads over the maximum, and none throws.\<close>

theorem amount_buttons_keep_maximum:
  assumes "v \<le> m" and "e \<in> {SetShare ''0.25'', SetShare ''0.5'', SetShare ''0.75'', SetMax, Decrease, Increase}"
  shows "\<exists>r. DecimalInput (Some m) v e = Inr r \<and> r \<le> m"
proof -
  have shares: "Decimal_from (Number ''0.25'') = Inr (Decimal 25000000)" "Decimal_from (Number ''0.5'') = Inr (Decimal 50000000)"
    "Decimal_from (Number ''0.75'') = Inr (Decimal 75000000)"
    by (simp_all add: Decimal_from_def parse_eval)
  have "Decimal_mul m (Decimal s) \<le> m" if "s \<le> 100000000" for s
    using that by (intro Decimal_mul_le) (simp add: less_eq_decimal_def decimal_unfold)
  moreover have "Decimal_mul m Decimal_HALF \<le> m"
    by (intro Decimal_mul_le) (simp add: less_eq_decimal_def decimal_unfold)
  moreover have "\<exists>r. Decimal_sub v Decimal_ONE = Inr r \<and> r \<le> m" if "Decimal_ONE < v"
    using Decimal_sub_ok [OF less_imp_le [OF that]] assms(1) by (simp add: less_eq_decimal_def)
  ultimately show ?thesis
    using assms by (auto simp: DecimalInput_def shares Let_def)
qed

text \<open>
  The warning is never shown with this client: its transactions have no headroom. Any number of changes, built transactions and their answers may come in any order.
\<close>

inductive warning_history :: "population \<Rightarrow> 'x store \<Rightarrow> expensive_warning \<Rightarrow> bool" for p st where
  warning_start: "warning_history p st \<lparr>ew_state = EstimationIdle, ew_run = 0, ew_change = None\<rparr>"
| warning_change: "warning_history p st s \<Longrightarrow> warning_history p st (warning_effect change s)"
| warning_opening: "warning_history p st s \<Longrightarrow> warning_history p st (warning_populated run (populateOpenTrove p params m) s)"
| warning_adjusting: "warning_history p st s \<Longrightarrow> warning_history p st (warning_populated run (populateAdjustTrove p params m a) s)"

theorem expensive_warning_never_shown:
  assumes "warning_history p st s"
  shows "\<not> ExpensiveTroveChangeWarning s"
proof -
  have "\<forall>tx. ew_state s = EstimationComplete tx \<longrightarrow> gasHeadroom tx = 0"
    using assms
    by (induction rule: warning_history.induct)
      (auto simp: warning_effect_def warning_populated_def fitting_def split: sum.split option.split liquity_action.split if_split_asm
        dest!: populateOpenTrove_fitting populateAdjustTrove_fitting)
  then show ?thesis by (auto simp: ExpensiveTroveChangeWarning_def split: gas_estimation.split)
qed

end
