(* ===== verification/Frontend_Pages.thy ===== *)
theory Frontend_Pages
  imports Redemption_Page Frontend_Lists "HOL-Library.AList"
begin

text \<open>
  Pages and figures of the application (\<^verbatim>\<open>packages/dev-frontend/src\<close>): turning the pages of the history of redemptions (\<^verbatim>\<open>pages/RedemptionsPage.tsx\<close>), the price of
  HLQT and the yield computed with it (\<^verbatim>\<open>components/Stability/context/fetchHlqtPrice.ts\<close>, \<^verbatim>\<open>components/Stability/Yield.tsx\<close>), how a collateral ratio is shown
  (\<^verbatim>\<open>components/Trove/CollateralRatio.tsx\<close>, \<^verbatim>\<open>components/RiskyTroves.tsx\<close>), and the page that generates the description of a deployment
  (\<^verbatim>\<open>pages/DeploymentEnvironmentGenerator.tsx\<close>).
\<close>

section \<open>Pages of the history\<close>

text \<open>\<^verbatim>\<open>parseFloat\<close> is a number: after blanks and a sign there is a digit, a point with a digit, or infinity.\<close>

definition parses_as_float :: "string \<Rightarrow> bool" where
  "parses_as_float s =
     (let t = dropWhile is_blank s; u = (case t of c # r \<Rightarrow> (if c = CHR ''+'' \<or> c = CHR ''-'' then r else t) | [] \<Rightarrow> [])
      in (case u of
            [] \<Rightarrow> False
          | c # r \<Rightarrow> is_digit c \<or> (c = CHR ''.'' \<and> r \<noteq> [] \<and> is_digit (hd r)) \<or> take 8 u = ''Infinity''))"

definition is_word_char :: "char \<Rightarrow> bool" where
  "is_word_char c \<longleftrightarrow> is_digit c \<or> c = CHR ''_'' \<or> of_char c \<in> {65..90 :: nat} \<or> of_char c \<in> {97..122 :: nat}"

text \<open>\<^verbatim>\<open>replace(/^\w+:/g, "")\<close>\<close>

definition without_operator :: "string \<Rightarrow> string" where
  "without_operator s =
     (let w = takeWhile is_word_char s; r = dropWhile is_word_char s
      in if w \<noteq> [] \<and> r \<noteq> [] \<and> hd r = CHR '':'' then tl r else s)"

text \<open>An address is given by its parameter \<^verbatim>\<open>timestamp\<close>, if it has one.\<close>

definition getTimestampFromHref :: "string option \<Rightarrow> string option" where
  "getTimestampFromHref timestampParam = (case timestampParam of
      None \<Rightarrow> None
    | Some p \<Rightarrow>
        if p = [] then None
        else let timestampString = without_operator p in if parses_as_float timestampString then Some timestampString else None)"

text \<open>
  What the mirror node answers: an error with or without a message, or results with the parameter of the link to the next ones.
\<close>

record 'r results_response =
  rr_error :: "string option option"
  rr_results :: "'r list option"
  rr_next :: "string option"

datatype page_target = FirstPage | PageUntil string

text \<open>The state of the page; no redemptions (\<^verbatim>\<open>null\<close>) means that they are still being loaded.\<close>

record 'r redemptions_view =
  rv_redemptions :: "'r list result option"
  rv_next :: "page_target option"
  rv_previous :: "page_target option"

definition history_query :: "string \<Rightarrow> string" where
  "history_query timestamp = ''lte:'' @ timestamp"

definition newer_query :: "string \<Rightarrow> string" where
  "newer_query timestamp = ''gt:'' @ timestamp"

definition next_target :: "'r results_response \<Rightarrow> page_target option" where
  "next_target resultsResponse = map_option PageUntil (getTimestampFromHref (rr_next resultsResponse))"

definition previous_target :: "string option \<Rightarrow> 'r results_response \<Rightarrow> page_target option" where
  "previous_target urlTimestamp previousResponse = (case getTimestampFromHref (rr_next previousResponse) of
      Some t \<Rightarrow> Some (PageUntil t)
    | None \<Rightarrow> (if urlTimestamp \<noteq> None then Some FirstPage else None))"

text \<open>
  The effect that loads a page, up to the state that it sets last. \<open>get\<close> asks the mirror node with a query on timestamps, and \<open>redemptions\<close> makes redemptions of results; a request that
  fails in either rejects the effect, and the page keeps on loading.
\<close>

definition loading_view :: "'d redemptions_view" where
  "loading_view = \<lparr>rv_redemptions = None, rv_next = None, rv_previous = None\<rparr>"

definition load_redemptions ::
  "bool \<Rightarrow> (string \<Rightarrow> 'r results_response result) \<Rightarrow> ('r list \<Rightarrow> 'd list result) \<Rightarrow> string option \<Rightarrow> string \<Rightarrow> 'd redemptions_view" where
  "load_redemptions configured get redemptions urlTimestamp now =
     (if \<not> configured
      then \<lparr>rv_redemptions = Some (Inl (Error ''The frontend is misconfigured. This should never happen, please contact support.'')), rv_next = None, rv_previous = None\<rparr>
      else
        let timestamp = (case urlTimestamp of Some t \<Rightarrow> t | None \<Rightarrow> now)
        in (case rbind (get (history_query timestamp)) (\<lambda>resultsResponse. case rr_results resultsResponse of
                None \<Rightarrow> Inr \<lparr>rv_redemptions = Some (Inr []), rv_next = None, rv_previous = None\<rparr>
              | Some results \<Rightarrow> rbind (redemptions results) (\<lambda>shown. rbind (get (newer_query timestamp)) (\<lambda>previousResponse.
                  Inr \<lparr>rv_redemptions = Some (Inr shown),
                    rv_next = next_target resultsResponse,
                    rv_previous = previous_target urlTimestamp previousResponse\<rparr>))) of
              Inr view \<Rightarrow> view | Inl _ \<Rightarrow> loading_view))"

section \<open>The price of HLQT\<close>

text \<open>
  Parsed JSON; the names of an object are distinct. The names that are asked for are not those of a method that every object has.
\<close>

datatype json = JNull | JBool bool | JNumber string | JText string | JArray "json list" | JObject "(string \<times> json) list"

fun json_fields :: "json \<Rightarrow> (string \<times> json) list option" where
  "json_fields (JObject fs) = Some fs"
| "json_fields (JArray _) = Some []"
| "json_fields _ = None"

fun check_currencies :: "string \<Rightarrow> (string \<times> json) list \<Rightarrow> string list \<Rightarrow> unit result" where
  "check_currencies coinId prices [] = Inr ()"
| "check_currencies coinId prices (c # cs) =
     (case map_of prices c of
        None \<Rightarrow> Inl (Error (''currency '' @ [CHR 34] @ c @ [CHR 34] @ '' missing from CoinGecko response''))
      | Some (JNumber _) \<Rightarrow> check_currencies coinId prices cs
      | Some _ \<Rightarrow> Inl (Error (''price of coin '' @ [CHR 34] @ coinId @ [CHR 34] @ '' in currency '' @ [CHR 34] @ c @ [CHR 34] @ '' is not a number'')))"

fun check_coins :: "(string \<times> json) list \<Rightarrow> string list \<Rightarrow> string list \<Rightarrow> unit result" where
  "check_coins coins currencies [] = Inr ()"
| "check_coins coins currencies (coinId # ids) =
     (case map_of coins coinId of
        None \<Rightarrow> Inl (Error (''coin '' @ [CHR 34] @ coinId @ [CHR 34] @ '' missing from CoinGecko response''))
      | Some p \<Rightarrow> (case json_fields p of
          None \<Rightarrow> Inl (Error ''unexpected response from CoinGecko'')
        | Some prices \<Rightarrow> rbind (check_currencies coinId prices currencies) (\<lambda>_. check_coins coins currencies ids)))"

definition validateCoinGeckoSimplePriceResponse :: "string list \<Rightarrow> string list \<Rightarrow> json \<Rightarrow> json result" where
  "validateCoinGeckoSimplePriceResponse expectedCoinIds expectedCurrencies body = (case json_fields body of
      None \<Rightarrow> Inl (Error ''unexpected response from CoinGecko'')
    | Some coins \<Rightarrow> rbind (check_coins coins expectedCurrencies expectedCoinIds) (\<lambda>_. Inr body))"

text \<open>A response has its status and its body, which may fail to parse; \<^verbatim>\<open>ok\<close> is a status of 200 to 299.\<close>

definition fetchCoinGeckoSimplePrice :: "(string list \<Rightarrow> string list \<Rightarrow> (nat \<times> json result) result) \<Rightarrow> string list \<Rightarrow> string list \<Rightarrow> json result" where
  "fetchCoinGeckoSimplePrice fetch coinIds vsCurrencies =
     rbind (fetch coinIds vsCurrencies) (\<lambda>(status, body).
       if status < 200 \<or> 299 < status then Inl (Error (''couldn't fetch price from CoinGecko: got status '' @ show_nat status))
       else rbind body (validateCoinGeckoSimplePriceResponse coinIds vsCurrencies))"

definition fetchHlqtPrice :: "(string list \<Rightarrow> string list \<Rightarrow> (nat \<times> json result) result) \<Rightarrow> decimal result" where
  "fetchHlqtPrice fetch =
     rbind (fetchCoinGeckoSimplePrice fetch [''hedera-liquity''] [''chf'']) (\<lambda>response.
       case json_fields response of
         Some coins \<Rightarrow> (case map_of coins ''hedera-liquity'' of
             Some coin \<Rightarrow> (case json_fields coin of
                 Some prices \<Rightarrow> (case map_of prices ''chf'' of Some (JNumber t) \<Rightarrow> Decimal_from (Number t) | _ \<Rightarrow> Decimal_from OtherType)
               | None \<Rightarrow> Decimal_from OtherType)
           | None \<Rightarrow> Decimal_from OtherType)
       | None \<Rightarrow> Decimal_from OtherType)"

section \<open>The yield of the stability pool\<close>

text \<open>The double that \<^verbatim>\<open>1 - 0.5 ** (1 / 365)\<close> is, as it is printed.\<close>

definition dailyIssuanceFraction :: "decimal result" where
  "dailyIssuanceFraction = Decimal_from (Number ''0.0018972313484053593'')"

text \<open>What is shown: the yearly percentage and the value of the remaining reward, or nothing.\<close>

definition Yield :: "decimal \<Rightarrow> decimal \<Rightarrow> decimal option \<Rightarrow> (decimal \<times> decimal) option result" where
  "Yield hchfInPool remaining hlqtPrice =
     (case hlqtPrice of
        None \<Rightarrow> Inr None
      | Some p \<Rightarrow>
          if Decimal_isZero remaining \<or> Decimal_isZero hchfInPool then Inr None
          else rbind dailyIssuanceFraction (\<lambda>daily.
               rbind (Decimal_from (Number ''36500'')) (\<lambda>year.
               let oneDay = Decimal_mul remaining daily; inCHF = Decimal_mul oneDay p; apr = Decimal_mulDiv inCHF year hchfInPool
               in Inr (if Decimal_isZero apr then None else Some (apr, Decimal_mul remaining p)))))"

section \<open>Showing a collateral ratio\<close>

definition CollateralRatio_color :: "constants \<Rightarrow> decimal option \<Rightarrow> string result" where
  "CollateralRatio_color cs ratio = (case ratio of
      None \<Rightarrow> Inr ''muted''
    | Some v \<Rightarrow>
        if Decimal_gt v (CRITICAL_COLLATERAL_RATIO cs) then Inr ''success''
        else rbind (Decimal_from (Number ''1.2'')) (\<lambda>b.
          Inr (if Decimal_gt v b then ''warning'' else if Decimal_lte v b then ''danger'' else ''muted'')))"

definition RiskyTroves_color :: "constants \<Rightarrow> decimal \<Rightarrow> string result" where
  "RiskyTroves_color cs v =
     (if Decimal_gt v (CRITICAL_COLLATERAL_RATIO cs) then Inr ''success''
      else rbind (Decimal_from (Number ''1.2'')) (\<lambda>b. Inr (if Decimal_gt v b then ''warning'' else ''danger'')))"

definition CollateralRatio_pendingAmount :: "difference option \<Rightarrow> string option result" where
  "CollateralRatio_pendingAmount change =
     rbind (Decimal_from (Number ''10'')) (\<lambda>ten.
       let beyond = (\<lambda>d. case d of Some d' \<Rightarrow> (case Difference_absoluteValue d' of Some v \<Rightarrow> Decimal_gt v ten | None \<Rightarrow> False) | None \<Rightarrow> False)
       in (case change of
             None \<Rightarrow> Inr None
           | Some c \<Rightarrow>
               if beyond (Difference_positive c) then Inr (Some ''++'')
               else if beyond (Difference_negative c) then Inr (Some ''--'')
               else rbind (Percent_nonZeroish (new_Percent (DifferenceRatio c)) 2) (\<lambda>p. case p of
                   None \<Rightarrow> Inr None | Some q \<Rightarrow> rbind (Percent_prettify q) (\<lambda>s. Inr (Some s)))))"

section \<open>Describing a deployment\<close>

text \<open>
  The object that is read from the pasted text is kept as long as the text does not change; the description shares its list of addresses. An input is
  empty or missing at first.
\<close>

record pasted_deployment =
  pd_chainId :: nat
  pd_addresses :: "(string \<times> string) list"

record generator_input =
  gi_hchf :: "string option"
  gi_hlqt :: "string option"
  gi_tag :: "string option"
  gi_uni :: "string option"

definition given :: "string option \<Rightarrow> bool" where
  "given v \<longleftrightarrow> v \<notin> {None, Some []}"

text \<open>The object afterwards, and the description: its addresses with the three other inputs, or an error.\<close>

definition generate_deployment ::
  "generator_input \<Rightarrow> pasted_deployment \<Rightarrow> pasted_deployment \<times> (pasted_deployment \<times> string \<times> string \<times> string) result" where
  "generate_deployment i ob =
     (if \<not> given (gi_hchf i) then (ob, Inl (Error ''enter the hchf token address''))
      else if \<not> given (gi_hlqt i) then (ob, Inl (Error ''enter the hlqt token address''))
      else if \<not> given (gi_tag i) then (ob, Inl (Error ''set the frontend tag''))
      else let ob' = (if given (gi_uni i) then ob\<lparr>pd_addresses := AList.update ''uniToken'' (the (gi_uni i)) (pd_addresses ob)\<rparr> else ob)
           in (ob', Inr (ob', the (gi_hchf i), the (gi_hlqt i), the (gi_tag i))))"

section \<open>Turning the pages of the history\<close>

text \<open>The text of a timestamp, seconds and nine digits of nanoseconds, and the timestamps that have one.\<close>

definition timestamp_text :: "timestamp \<Rightarrow> string" where
  "timestamp_text t = show_nat (seconds t) @ ''.'' @ padStart 9 (CHR ''0'') (show_nat (nanoseconds t))"

definition valid_timestamp :: "timestamp \<Rightarrow> bool" where
  "valid_timestamp t \<longleftrightarrow> nanoseconds t < 10 ^ 9"

definition result_nanos :: "contract_result \<Rightarrow> nat" where
  "result_nanos r = nanos (the (cr_timestamp r))"

text \<open>
  What the mirror node documents of the results \<open>rs\<close> of a contract: each has a timestamp, no two the same, latest first; asked for those up to a timestamp, it answers with the latest of them,
  at most as many as its limit, and if there are that many with a link that asks for those before the last of them. Here it also answers every other request.
\<close>

definition serves :: "(string \<Rightarrow> contract_result results_response result) \<Rightarrow> nat \<Rightarrow> contract_result list \<Rightarrow> bool" where
  "serves get limit rs \<longleftrightarrow> (\<forall>r\<in>set rs. \<exists>t. cr_timestamp r = Some t \<and> valid_timestamp t)
     \<and> sorted_wrt (\<lambda>r r'. result_nanos r' < result_nanos r) rs
     \<and> (\<forall>q. \<exists>response. get q = Inr response)
     \<and> (\<forall>t. valid_timestamp t \<longrightarrow> (let page = take limit (filter (\<lambda>r. result_nanos r \<le> nanos t) rs)
        in get (''lte:'' @ timestamp_text t) = Inr \<lparr>rr_error = None, rr_results = Some page,
             rr_next = (if length page = limit then Some (''lt:'' @ timestamp_text (the (cr_timestamp (last page)))) else None)\<rparr>))"

text \<open>The page that is opened for a time, with the conversion of results to redemptions, and the one that is reached by going on a number of times.\<close>

definition page_until ::
  "history_client \<Rightarrow> string \<Rightarrow> string \<Rightarrow> (string \<Rightarrow> contract_result results_response result) \<Rightarrow> string \<Rightarrow> shown_redemption redemptions_view" where
  "page_until m troveManager token get t = load_redemptions True get (redemptionsFromResults m troveManager token) (Some t) t"

primrec page_after ::
  "history_client \<Rightarrow> string \<Rightarrow> string \<Rightarrow> (string \<Rightarrow> contract_result results_response result) \<Rightarrow> nat \<Rightarrow> string \<Rightarrow> string option" where
  "page_after m troveManager token get 0 t = Some t"
| "page_after m troveManager token get (Suc k) t = (case page_after m troveManager token get k t of
      None \<Rightarrow> None
    | Some u \<Rightarrow> (case rv_next (page_until m troveManager token get u) of Some (PageUntil v) \<Rightarrow> Some v | _ \<Rightarrow> None))"

lemma timestamp_from_link: "getTimestampFromHref (Some (''lt:'' @ timestamp_text t)) = Some (timestamp_text t)"
proof -
  obtain c s where c: "timestamp_text t = c # s" "is_digit c"
    using show_nat_not_Nil [of "seconds t"] show_nat_digits [of "seconds t"] by (cases "show_nat (seconds t)") (auto simp: timestamp_text_def)
  then have "\<not> is_blank c" "c \<noteq> CHR ''-''" "c \<noteq> CHR ''+''" by (auto simp: is_digit_def is_blank_def)
  with c have "parses_as_float (timestamp_text t)" by (simp add: parses_as_float_def Let_def)
  moreover have "is_word_char CHR ''l''" "is_word_char CHR ''t''" "\<not> is_word_char CHR '':''" by (simp_all add: is_word_char_def is_digit_def)
  ultimately show ?thesis by (simp add: getTimestampFromHref_def without_operator_def Let_def)
qed

lemma filter_le_nth:
  fixes key :: "'a \<Rightarrow> nat"
  assumes "sorted_wrt (\<lambda>x y. key y < key x) xs" and "i < length xs"
  shows "filter (\<lambda>x. key x \<le> key (xs ! i)) xs = drop i xs"
proof -
  have "key (xs ! i) < key x" if "x \<in> set (take i xs)" for x
    using that assms sorted_wrt_nth_less [OF assms(1)] by (auto simp: in_set_conv_nth)
  then have newer: "filter (\<lambda>x. key x \<le> key (xs ! i)) (take i xs) = []" by (simp add: filter_empty_conv not_le)
  have "key x \<le> key (xs ! i)" if "x \<in> set (drop i xs)" for x
  proof -
    from that obtain j where "j < length xs - i" "x = xs ! (i + j)" by (auto simp: in_set_conv_nth)
    then have "x = xs ! (i + j)" "i + j < length xs" by simp_all
    then show ?thesis using sorted_wrt_nth_less [OF assms(1), of i "i + j"] by (cases "j = 0") simp_all
  qed
  then have "filter (\<lambda>x. key x \<le> key (xs ! i)) (drop i xs) = drop i xs" by (simp add: filter_id_conv)
  with newer have "filter (\<lambda>x. key x \<le> key (xs ! i)) (take i xs @ drop i xs) = drop i xs" by (simp only: filter_append append_Nil)
  then show ?thesis by simp
qed

lemma redemptionsFromResults_readable:
  assumes "\<forall>r\<in>set rs. \<exists>d. redemptionFromResult m troveManager token r = Inr d" and "set xs \<subseteq> set rs"
  shows "\<exists>rows. redemptionsFromResults m troveManager token xs = Inr rows"
proof -
  obtain f where "\<forall>r\<in>set rs. redemptionFromResult m troveManager token r = Inr (f r)" using assms(1) by metis
  then have "mapM (redemptionFromResult m troveManager token) ys = Inr (map f ys)" if "set ys \<subseteq> set rs" for ys
    using that by (induction ys) auto
  moreover have "set (filter isRedeemCollateralResult xs) \<subseteq> set rs" using assms(2) by auto
  ultimately show ?thesis by (simp add: redemptionsFromResults_def)
qed

lemma page_read_until:
  assumes "serves get limit rs" and "valid_timestamp v" and "\<forall>r\<in>set rs. \<exists>d. redemptionFromResult m troveManager token r = Inr d"
  defines "page \<equiv> take limit (filter (\<lambda>r. result_nanos r \<le> nanos v) rs)"
  shows "\<exists>rows. redemptionsFromResults m troveManager token page = Inr rows
      \<and> rv_redemptions (page_until m troveManager token get (timestamp_text v)) = Some (Inr rows)"
    and "rv_next (page_until m troveManager token get (timestamp_text v)) =
      (if length page = limit then Some (PageUntil (timestamp_text (the (cr_timestamp (last page))))) else None)"
proof -
  have get: "get (''lte:'' @ timestamp_text v) = Inr \<lparr>rr_error = None, rr_results = Some page,
      rr_next = (if length page = limit then Some (''lt:'' @ timestamp_text (the (cr_timestamp (last page)))) else None)\<rparr>"
    using assms(1,2) unfolding serves_def page_def by (auto simp: Let_def)
  obtain newer where newer: "get (newer_query (timestamp_text v)) = Inr newer" using assms(1) unfolding serves_def by blast
  have "set page \<subseteq> set rs" by (auto simp: page_def dest: in_set_takeD)
  then obtain rows where rows: "redemptionsFromResults m troveManager token page = Inr rows"
    using redemptionsFromResults_readable [OF assms(3)] by blast
  show "\<exists>rows. redemptionsFromResults m troveManager token page = Inr rows
      \<and> rv_redemptions (page_until m troveManager token get (timestamp_text v)) = Some (Inr rows)"
    using get by (simp add: page_until_def load_redemptions_def history_query_def newer rows)
  show "rv_next (page_until m troveManager token get (timestamp_text v)) =
      (if length page = limit then Some (PageUntil (timestamp_text (the (cr_timestamp (last page))))) else None)"
    using timestamp_from_link get
    by (simp add: page_until_def load_redemptions_def history_query_def newer rows next_target_def getTimestampFromHref_def [of None])
qed

lemma page_after_show:
  assumes "serves get limit rs" and "\<forall>r\<in>set rs. \<exists>d. redemptionFromResult m troveManager token r = Inr d" and "valid_timestamp t" and "2 \<le> limit"
    and "k * (limit - 1) < length (filter (\<lambda>r. result_nanos r \<le> nanos t) rs)"
  shows "\<exists>v. valid_timestamp v \<and> page_after m troveManager token get k (timestamp_text t) = Some (timestamp_text v)
    \<and> filter (\<lambda>r. result_nanos r \<le> nanos v) rs = drop (k * (limit - 1)) (filter (\<lambda>r. result_nanos r \<le> nanos t) rs)"
  using assms(5)
proof (induction k)
  case (Suc k)
  let ?xs = "filter (\<lambda>r. result_nanos r \<le> nanos t) rs" and ?i = "Suc k * (limit - 1)"
  let ?page = "take limit (drop (k * (limit - 1)) ?xs)" and ?v = "the (cr_timestamp (?xs ! ?i))"
  from Suc obtain v where v: "valid_timestamp v" "page_after m troveManager token get k (timestamp_text t) = Some (timestamp_text v)"
    "filter (\<lambda>r. result_nanos r \<le> nanos v) rs = drop (k * (limit - 1)) ?xs"
    by fastforce
  have i: "?i = k * (limit - 1) + (limit - 1)" "?i < length ?xs" using Suc.prems by simp_all
  have l: "length ?page = limit" using i assms(4) by simp
  have "last ?page = ?page ! (limit - 1)" using l assms(4) by (metis last_conv_nth length_0_conv not_numeral_le_zero)
  also have "\<dots> = ?xs ! ?i" using i assms(4) by (simp add: add.commute)
  finally have la: "last ?page = ?xs ! ?i" .
  have mem: "?xs ! ?i \<in> set ?xs" using i(2) by (rule nth_mem)
  then have le: "result_nanos (?xs ! ?i) \<le> nanos t" and valid: "valid_timestamp ?v" using assms(1) by (auto simp: serves_def)
  have "filter (\<lambda>r. result_nanos r \<le> nanos ?v) rs = filter (\<lambda>r. result_nanos r \<le> result_nanos (?xs ! ?i)) ?xs"
    using le by (auto simp: filter_filter result_nanos_def intro!: filter_cong)
  also have "\<dots> = drop ?i ?xs"
    using filter_le_nth [of result_nanos ?xs ?i] i(2) assms(1) by (simp add: serves_def sorted_wrt_filter)
  finally have "filter (\<lambda>r. result_nanos r \<le> nanos ?v) rs = drop ?i ?xs" .
  moreover have "page_after m troveManager token get (Suc k) (timestamp_text t) = Some (timestamp_text ?v)"
    using v(2) l la by (simp add: page_read_until(2) [OF assms(1) v(1) assms(2)] v(3))
  ultimately show ?case using valid by blast
qed (use assms(3) in auto)

text \<open>
  C38. Going through the history of redemptions misses nothing, and overlaps by one result at every turn. If the mirror node serves results as documented and the details of each can be read, the
  page after \<open>k\<close> turns shows the redemptions among the results from the \<open>k * (limit - 1)\<close>-th to the \<open>(k * (limit - 1) + limit - 1)\<close>-th, counted from the time at which it started: the link asks for the
  results before the last one of a page, the application for those up to it. A redemption that is the last result of a page is shown again on the next one.
\<close>

theorem history_pages_overlap:
  assumes "serves get limit rs" and "\<forall>r\<in>set rs. \<exists>d. redemptionFromResult m troveManager token r = Inr d" and "valid_timestamp t" and "2 \<le> limit"
    and "k * (limit - 1) < length (filter (\<lambda>r. result_nanos r \<le> nanos t) rs)"
  shows "\<exists>u rows. page_after m troveManager token get k (timestamp_text t) = Some u
    \<and> redemptionsFromResults m troveManager token (take limit (drop (k * (limit - 1)) (filter (\<lambda>r. result_nanos r \<le> nanos t) rs))) = Inr rows
    \<and> rv_redemptions (page_until m troveManager token get u) = Some (Inr rows)"
proof -
  obtain v where "valid_timestamp v" "page_after m troveManager token get k (timestamp_text t) = Some (timestamp_text v)"
    "filter (\<lambda>r. result_nanos r \<le> nanos v) rs = drop (k * (limit - 1)) (filter (\<lambda>r. result_nanos r \<le> nanos t) rs)"
    using page_after_show [OF assms] by blast
  with page_read_until(1) [OF assms(1) _ assms(2)] show ?thesis by metis
qed

text \<open>A history of four redemptions, served two at a time, and a client that finds the transfers of each.\<close>

definition sample_result :: "nat \<Rightarrow> contract_result" where
  "sample_result n = \<lparr>cr_timestamp = Some \<lparr>seconds = n, nanoseconds = 5\<rparr>, function_parameters = Some (redeemCollateralFunctionParametersStart @ ''00''), cr_from = Some ''0xA''\<rparr>"

definition sample_history_client :: history_client where
  "sample_history_client = \<lparr>parseLog = (\<lambda>_ _. Inr OtherLog), troveUpdatedTopic = ''0xT'', getLogs = (\<lambda>_. Inr None), getAccount = (\<lambda>_. Inr None),
     accountIdFromEvmAddress = (\<lambda>_. Inr ''0.0.1''), transactionIdsAt = (\<lambda>_. Inr (Some [''0.0.1-1''])),
     transactionsById = (\<lambda>_. Inr (Some
       [\<lparr>tx_result = ''SUCCESS'', tx_name = ''CONTRACTCALL'', transfers = Some [(''0.0.1'', 700)], token_transfers = None, charged_tx_fee = None\<rparr>,
        \<lparr>tx_result = ''SUCCESS'', tx_name = ''CRYPTOTRANSFER'', transfers = None, token_transfers = Some [(''0.0.9'', ''0.0.1'', -35)], charged_tx_fee = None\<rparr>]))\<rparr>"

lemma sample_row: "\<exists>d. redemptionFromResult sample_history_client ''0xM'' ''0.0.9'' (sample_result n) = Inr (Some d)"
proof -
  have "Decimal_fromBigNumberStringWithPrecision 35 8 = Inr (Decimal 35)" "Decimal_fromBigNumberStringWithPrecision 700 8 = Inr (Decimal 700)"
    using fromBigNumber_eight [of 35] fromBigNumber_eight [of 700] by simp_all
  then show ?thesis
    by (simp add: redemptionFromResult_def sample_result_def sample_history_client_def has_token_transfers_def network_fee_def)
qed

text \<open>The mirror node of the sample reads the timestamp of a query.\<close>

definition query_nanos :: "string \<Rightarrow> nat" where
  "query_nanos q = digits_value (takeWhile is_digit q) * 10 ^ 9 + digits_value (drop 1 (dropWhile is_digit q))"

definition sample_history :: "nat \<Rightarrow> contract_result list \<Rightarrow> string \<Rightarrow> contract_result results_response result" where
  "sample_history limit rs q =
     (let page = take limit (filter (\<lambda>r. result_nanos r \<le> query_nanos (drop 4 q)) rs)
      in Inr \<lparr>rr_error = None, rr_results = Some page,
           rr_next = (if length page = limit then Some (''lt:'' @ timestamp_text (the (cr_timestamp (last page)))) else None)\<rparr>)"

lemma query_nanos_text: "query_nanos (timestamp_text t) = nanos t"
proof -
  have "takeWhile is_digit (timestamp_text t) = show_nat (seconds t)" "dropWhile is_digit (timestamp_text t) = ''.'' @ padStart 9 (CHR ''0'') (show_nat (nanoseconds t))"
    using show_nat_digits [of "seconds t"]
    by (simp_all add: timestamp_text_def takeWhile_append2 dropWhile_append2 list_all_iff is_digit_def)
  then show ?thesis by (simp add: query_nanos_def nanos_def)
qed

lemma sample_history_serves: "serves (sample_history 2 (map sample_result [9, 7, 4, 1])) 2 (map sample_result [9, 7, 4, 1])"
proof -
  have "sorted_wrt (\<lambda>r r'. result_nanos r' < result_nanos r) (map sample_result [9, 7, 4, 1])"
    by (simp add: sample_result_def result_nanos_def nanos_def)
  moreover have "\<forall>r\<in>set (map sample_result [9, 7, 4, 1]). \<exists>t. cr_timestamp r = Some t \<and> valid_timestamp t"
    by (simp add: sample_result_def valid_timestamp_def)
  ultimately show ?thesis unfolding serves_def by (auto simp: sample_history_def query_nanos_text Let_def)
qed

lemma sample_rows: "\<exists>d d'. redemptionsFromResults sample_history_client ''0xM'' ''0.0.9'' [sample_result n, sample_result k] = Inr [d, d']"
proof -
  have "isRedeemCollateralResult (sample_result i)" for i
    by (simp add: isRedeemCollateralResult_def sample_result_def redeemCollateralFunctionParametersStart_def)
  with sample_row [of n] sample_row [of k] show ?thesis by (auto simp: redemptionsFromResults_def map_filter_simps)
qed

theorem history_pages_overlap_witness:
  "\<exists>u d d'. page_after sample_history_client ''0xM'' ''0.0.9'' (sample_history 2 (map sample_result [9, 7, 4, 1])) 1 (timestamp_text \<lparr>seconds = 8, nanoseconds = 0\<rparr>) = Some u
     \<and> redemptionsFromResults sample_history_client ''0xM'' ''0.0.9'' [sample_result 4, sample_result 1] = Inr [d, d']
     \<and> rv_redemptions (page_until sample_history_client ''0xM'' ''0.0.9'' (sample_history 2 (map sample_result [9, 7, 4, 1])) u) = Some (Inr [d, d'])"
proof -
  let ?rs = "map sample_result [9, 7, 4, 1]" and ?t = "\<lparr>seconds = 8, nanoseconds = 0\<rparr>"
  have f: "filter (\<lambda>r. result_nanos r \<le> nanos ?t) ?rs = map sample_result [7, 4, 1]"
    by (simp add: sample_result_def result_nanos_def nanos_def)
  have readable: "\<forall>r\<in>set ?rs. \<exists>d. redemptionFromResult sample_history_client ''0xM'' ''0.0.9'' r = Inr d" using sample_row by auto
  have "valid_timestamp ?t" by (simp add: valid_timestamp_def)
  from history_pages_overlap [OF sample_history_serves readable this, of 1] f sample_rows [of 4 1] show ?thesis by auto
qed

text \<open>If the mirror node answers with an error, the page shows an empty history: the error is set, but replaced at once.\<close>

theorem history_error_hidden:
  assumes "get (history_query (case urlTimestamp of Some t \<Rightarrow> t | None \<Rightarrow> now)) = Inr \<lparr>rr_error = Some e, rr_results = None, rr_next = n\<rparr>"
  shows "rv_redemptions (load_redemptions True get redemptions urlTimestamp now) = Some (Inr [])"
  using assms by (simp add: load_redemptions_def Let_def)

section \<open>Figures\<close>

lemma validated_price:
  "validateCoinGeckoSimplePriceResponse [coinId] [currency] body = Inr r \<longleftrightarrow> r = body \<and> (\<exists>coins coin prices t. json_fields body = Some coins
     \<and> map_of coins coinId = Some coin \<and> json_fields coin = Some prices \<and> map_of prices currency = Some (JNumber t))"
  by (auto simp: validateCoinGeckoSimplePriceResponse_def split: option.split json.split)

text \<open>A price is accepted exactly if the answer has it as a number that the application can read.\<close>

theorem fetchHlqtPrice_iff:
  "fetchHlqtPrice fetch = Inr d \<longleftrightarrow> (\<exists>status body coins coin prices t. fetch [''hedera-liquity''] [''chf''] = Inr (status, Inr body)
     \<and> 200 \<le> status \<and> status \<le> 299 \<and> json_fields body = Some coins \<and> map_of coins ''hedera-liquity'' = Some coin
     \<and> json_fields coin = Some prices \<and> map_of prices ''chf'' = Some (JNumber t) \<and> Decimal_from (Number t) = Inr d)"
  (is "_ \<longleftrightarrow> ?r")
proof
  assume f: "fetchHlqtPrice fetch = Inr d"
  then obtain response where r: "fetchCoinGeckoSimplePrice fetch [''hedera-liquity''] [''chf''] = Inr response"
    by (auto simp: fetchHlqtPrice_def rbind_eq_Inr_iff)
  then obtain status body where b: "fetch [''hedera-liquity''] [''chf''] = Inr (status, Inr body)" "200 \<le> status" "status \<le> 299"
    and v: "validateCoinGeckoSimplePriceResponse [''hedera-liquity''] [''chf''] body = Inr response"
    by (auto simp: fetchCoinGeckoSimplePrice_def rbind_eq_Inr_iff simp del: One_nat_def split: if_split_asm)
  from v obtain coins coin prices t where "response = body" "json_fields body = Some coins" "map_of coins ''hedera-liquity'' = Some coin"
    "json_fields coin = Some prices" "map_of prices ''chf'' = Some (JNumber t)"
    by (auto simp: validated_price)
  moreover from this f r have "Decimal_from (Number t) = Inr d"
    by (simp add: fetchHlqtPrice_def)
  ultimately show ?r using b by blast
next
  assume ?r
  then obtain status body coins coin prices t where r: "fetch [''hedera-liquity''] [''chf''] = Inr (status, Inr body)" "200 \<le> status" "status \<le> 299"
    "json_fields body = Some coins" "map_of coins ''hedera-liquity'' = Some coin" "json_fields coin = Some prices" "map_of prices ''chf'' = Some (JNumber t)"
    "Decimal_from (Number t) = Inr d" by blast
  then have "validateCoinGeckoSimplePriceResponse [''hedera-liquity''] [''chf''] body = Inr body" by (simp add: validated_price)
  with r show "fetchHlqtPrice fetch = Inr d" by (simp add: fetchHlqtPrice_def fetchCoinGeckoSimplePrice_def)
qed

lemma dailyIssuanceFraction_eval: "dailyIssuanceFraction = Inr (Decimal 189723)"
  by (simp add: dailyIssuanceFraction_def Decimal_from_def parse_eval)

text \<open>
  The yield is never overstated: it is at most the exact one, computed with the rounded daily share; and nothing is shown for an empty pool.
\<close>

theorem Yield_not_overstated:
  assumes "Yield hchfInPool remaining hlqtPrice = Inr (Some (apr, v))"
  shows "\<exists>p. hlqtPrice = Some p \<and> 0 < bigNumber hchfInPool
    \<and> bigNumber apr * bigNumber hchfInPool * DIGITS \<le> bigNumber remaining * 189723 * bigNumber p * 36500"
proof -
  have y: "Decimal_from (Number ''36500'') = Inr (Decimal (36500 * DIGITS))" by (simp add: Decimal_from_def parse_eval decimal_unfold)
  obtain p where p: "hlqtPrice = Some p" and z: "\<not> Decimal_isZero hchfInPool"
    and apr: "apr = Decimal_mulDiv (Decimal_mul (Decimal_mul remaining (Decimal 189723)) p) (Decimal (36500 * DIGITS)) hchfInPool"
    using assms by (auto simp: Yield_def y dailyIssuanceFraction_eval Let_def split: option.split_asm if_split_asm)
  then have h: "0 < bigNumber hchfInPool" by (cases hchfInPool) (simp add: Decimal_ZERO_def)
  let ?d = "bigNumber remaining * 189723 div DIGITS" let ?c = "?d * bigNumber p div DIGITS"
  have "bigNumber apr * bigNumber hchfInPool \<le> ?c * (36500 * DIGITS)"
    using z by (simp add: apr Decimal_mulDiv_def Decimal_mul_def)
  also have "\<dots> = ?c * DIGITS * 36500" by simp
  also have "\<dots> \<le> ?d * bigNumber p * 36500" by (intro mult_le_mono1) simp
  finally have "bigNumber apr * bigNumber hchfInPool * DIGITS \<le> ?d * DIGITS * (bigNumber p * 36500)" by (simp add: ac_simps)
  also have "\<dots> \<le> bigNumber remaining * 189723 * (bigNumber p * 36500)" by (intro mult_le_mono1) simp
  finally show ?thesis using p h by (simp add: ac_simps)
qed

text \<open>The editor and the list of troves show a ratio in the same colour.\<close>

lemma ratio_colors_agree: "CollateralRatio_color cs (Some v) = RiskyTroves_color cs v"
  by (simp add: CollateralRatio_color_def RiskyTroves_color_def not_less [symmetric] cong: if_cong)

section \<open>The description of a deployment\<close>

text \<open>The address of the liquidity token that was entered stays in the description when it is removed from the input: it was written into the pasted object.\<close>

theorem removed_token_stays:
  assumes "given (gi_hchf i)" "given (gi_hlqt i)" "given (gi_tag i)" and "generate_deployment (i\<lparr>gi_uni := Some u\<rparr>) ob = (ob', r)" and "u \<noteq> []"
  shows "\<exists>d. snd (generate_deployment (i\<lparr>gi_uni := Some []\<rparr>) ob') = Inr (d, the (gi_hchf i), the (gi_hlqt i), the (gi_tag i))
    \<and> map_of (pd_addresses d) ''uniToken'' = Some u"
  using assms by (auto simp: generate_deployment_def given_def update_conv' Let_def)

end
