(* ===== verification/Deploy.thy ===== *)
theory Deploy
  imports Ethers_Read "HOL-Library.AList"
begin

text \<open>
  The script that deploys the contracts (\<^verbatim>\<open>packages/lib-ethers/utils/deploy.ts\<close>, \<^verbatim>\<open>packages/lib-ethers/utils/UniswapV2Factory.ts\<close>, and \<^verbatim>\<open>_connectToContracts\<close> of
  \<^verbatim>\<open>packages/lib-ethers/src/contracts.ts\<close>): it deploys one contract after the other, and then tells each of them the addresses of the others.

  The node is a parameter; what it answers may depend on everything that was done before. So an action is a function from the log of what was done to its result and
  the longer log, which stays when an error is thrown. What the script prints is left out.
\<close>

section \<open>Actions on the node\<close>

text \<open>
  The last argument of a transaction is an object of options: the caller's (\<open>'o\<close>), the limit of gas, a value, and a nonce.
\<close>

datatype 'o tx_arg = TextArg string | NumberArg int | OptionsArg "'o option" "nat option" "nat option" "nat option"

datatype 'o node_action =
    Deployed string "'o tx_arg list" "string result"
  | Called string string "'o tx_arg list" "unit result"
  | Associated string

type_synonym 'o node_log = "'o node_action list"

type_synonym ('o, 'a) script = "'o node_log \<Rightarrow> 'a result \<times> 'o node_log"

definition returning :: "'a \<Rightarrow> ('o, 'a) script" where
  "returning x s = (Inr x, s)"

definition throwing :: "js_error \<Rightarrow> ('o, 'a) script" where
  "throwing e s = (Inl e, s)"

definition from_result :: "'a result \<Rightarrow> ('o, 'a) script" where
  "from_result r s = (r, s)"

definition andThen :: "('o, 'a) script \<Rightarrow> ('a \<Rightarrow> ('o, 'b) script) \<Rightarrow> ('o, 'b) script" where
  "andThen m f s = (case m s of (Inl e, s') \<Rightarrow> (Inl e, s') | (Inr x, s') \<Rightarrow> f x s')"

record 'o deploy_node =
  nd_deploy :: "'o node_log \<Rightarrow> string \<Rightarrow> 'o tx_arg list \<Rightarrow> string result"
  nd_send :: "'o node_log \<Rightarrow> string \<Rightarrow> string \<Rightarrow> 'o tx_arg list \<Rightarrow> unit result"
  nd_read :: "'o node_log \<Rightarrow> string \<Rightarrow> string \<Rightarrow> nat result"
  nd_tokenAddress :: "'o node_log \<Rightarrow> string \<Rightarrow> string result"
  nd_transactionCount :: "'o node_log \<Rightarrow> string \<Rightarrow> nat result"
  nd_pairsCreated :: "'o node_log \<Rightarrow> string list"
  nd_parseAccount :: "string \<Rightarrow> string \<Rightarrow> unit result"
  nd_associate :: "'o node_log \<Rightarrow> string \<Rightarrow> unit result"
  nd_chainId :: "'o node_log \<Rightarrow> nat result"
  nd_hasProvider :: bool
  nd_deployer :: "'o node_log \<Rightarrow> string result"
  nd_twentyEther :: nat

text \<open>\<^verbatim>\<open>deployer.getChainId()\<close> and \<^verbatim>\<open>deployer.getAddress()\<close> ask the signer, and may fail.\<close>

definition getChainId :: "'o deploy_node \<Rightarrow> ('o, nat) script" where
  "getChainId nd s = (nd_chainId nd s, s)"

definition getAddress :: "'o deploy_node \<Rightarrow> ('o, string) script" where
  "getAddress nd s = (nd_deployer nd s, s)"

section \<open>Deploying\<close>

definition deployContract :: "'o deploy_node \<Rightarrow> string \<Rightarrow> 'o tx_arg list \<Rightarrow> ('o, string) script" where
  "deployContract nd contractName args s = (let r = nd_deploy nd s contractName args in (r, s @ [Deployed contractName args r]))"

text \<open>An object literal of names: a name that is bound nowhere is a \<^verbatim>\<open>ReferenceError\<close>.\<close>

definition object_literal :: "(string \<times> string option) list \<Rightarrow> (string \<times> string) list result" where
  "object_literal fs = mapM (\<lambda>(name, v). case v of Some x \<Rightarrow> Inr (name, x) | None \<Rightarrow> Inl (ExternalError ''ReferenceError'')) fs"

definition deployContracts :: "'o deploy_node \<Rightarrow> bool \<Rightarrow> 'o option \<Rightarrow> ('o, (string \<times> string) list) script" where
  "deployContracts nd priceFeedIsTestnet overrides =
     (let gas = OptionsArg overrides (Some 3000000) None None; ether = OptionsArg overrides (Some 3000000) (Some (nd_twentyEther nd)) None
      in andThen (deployContract nd ''ActivePool'' [gas]) (\<lambda>activePool.
         andThen (deployContract nd ''BorrowerOperations'' [gas]) (\<lambda>borrowerOperations.
         andThen (deployContract nd ''TroveManager'' [gas]) (\<lambda>troveManager.
         andThen (deployContract nd ''CollSurplusPool'' [gas]) (\<lambda>collSurplusPool.
         andThen (deployContract nd ''CommunityIssuance'' [gas]) (\<lambda>communityIssuance.
         andThen (deployContract nd ''DefaultPool'' [gas]) (\<lambda>defaultPool.
         andThen (deployContract nd ''HintHelpers'' [gas]) (\<lambda>hintHelpers.
         andThen (deployContract nd ''LockupContractFactory'' [gas]) (\<lambda>lockupContractFactory.
         andThen (deployContract nd ''HLQTStaking'' [gas]) (\<lambda>hlqtStaking.
         andThen (deployContract nd (if priceFeedIsTestnet then ''PriceFeedTestnet'' else ''PriceFeed'') [gas]) (\<lambda>priceFeed.
         andThen (deployContract nd ''SortedTroves'' [gas]) (\<lambda>sortedTroves.
         andThen (deployContract nd ''StabilityPool'' [gas]) (\<lambda>stabilityPool.
         andThen (deployContract nd ''HCHFToken'' [TextArg troveManager, TextArg stabilityPool, TextArg borrowerOperations, ether]) (\<lambda>hchfToken.
         andThen (getAddress nd) (\<lambda>multisig.
         andThen (deployContract nd ''HLQTToken''
             [TextArg communityIssuance, TextArg hlqtStaking, TextArg lockupContractFactory, TextArg multisig, ether]) (\<lambda>hlqtToken.
         andThen (deployContract nd ''saucerSwapPool'' [TextArg hlqtToken, gas]) (\<lambda>saucerSwapPool.
         andThen (deployContract nd ''GasPool'' [TextArg hchfToken, TextArg troveManager, TextArg borrowerOperations, gas]) (\<lambda>gasPool.
         andThen (deployContract nd ''MultiTroveGetter'' [TextArg troveManager, TextArg sortedTroves, gas]) (\<lambda>multiTroveGetter.
         from_result (object_literal
           [(''activePool'', Some activePool), (''borrowerOperations'', Some borrowerOperations), (''troveManager'', Some troveManager),
            (''collSurplusPool'', Some collSurplusPool), (''defaultPool'', Some defaultPool), (''communityIssuance'', Some communityIssuance),
            (''hintHelpers'', Some hintHelpers), (''lockupContractFactory'', Some lockupContractFactory), (''hlqtStaking'', Some hlqtStaking),
            (''priceFeed'', Some priceFeed), (''sortedTroves'', Some sortedTroves), (''stabilityPool'', Some stabilityPool),
            (''saucerSwapPool'', Some saucerSwapPool), (''hchfToken'', Some hchfToken), (''hlqtToken'', Some hlqtToken), (''uniToken'', None),
            (''multiTroveGetter'', Some multiTroveGetter), (''gasPool'', Some gasPool)]))))))))))))))))))))"

definition deployTellorCaller :: "'o deploy_node \<Rightarrow> string \<Rightarrow> 'o option \<Rightarrow> ('o, string) script" where
  "deployTellorCaller nd tellorAddress overrides =
     deployContract nd ''TellorCaller'' [TextArg tellorAddress, OptionsArg overrides (Some 3000000) None None]"

text \<open>The account that the mock token starts with is a random one, a parameter here.\<close>

definition deployMockUniToken :: "'o deploy_node \<Rightarrow> string \<Rightarrow> 'o option \<Rightarrow> ('o, string) script" where
  "deployMockUniToken nd initialAccount overrides =
     deployContract nd ''ERC20Mock''
       [TextArg ''Mock Uniswap V2'', TextArg ''UNI-V2'', TextArg initialAccount, NumberArg 0, OptionsArg overrides (Some 3000000) None None]"

section \<open>Sending\<close>

definition send_call :: "'o deploy_node \<Rightarrow> string \<Rightarrow> string \<Rightarrow> 'o tx_arg list \<Rightarrow> ('o, unit) script" where
  "send_call nd address f args s = (let r = nd_send nd s address f args in (r, s @ [Called address f args r]))"

definition hasFactory :: "nat \<Rightarrow> bool" where
  "hasFactory chainId \<longleftrightarrow> chainId \<in> set [1, 3, 4, 5, 42]"

definition factoryAddress :: string where
  "factoryAddress = ''0x5C69bEe701ef814a2B6a3EDD4B1652CB9cc5aA6f''"

definition createUniswapV2Pair :: "'o deploy_node \<Rightarrow> string \<Rightarrow> string \<Rightarrow> 'o option \<Rightarrow> ('o, string) script" where
  "createUniswapV2Pair nd tokenA tokenB overrides =
     andThen (getChainId nd) (\<lambda>chainId.
      if \<not> hasFactory chainId
      then throwing (Error (''UniswapV2Factory is not deployed on this network (chainId = '' @ show_nat chainId @ '')''))
      else andThen (send_call nd factoryAddress ''createPair'' [TextArg tokenA, TextArg tokenB, OptionsArg overrides None None None]) (\<lambda>_ s.
        (case nd_pairsCreated nd s of [pair] \<Rightarrow> (Inr pair, s) | _ \<Rightarrow> (Inl AssertionError, s))))"

definition MAX_RETRIES :: nat where
  "MAX_RETRIES = 10"

text \<open>\<open>connect\<close> sends the transaction with a nonce and waits for it.\<close>

definition attempt :: "'o deploy_node \<Rightarrow> (nat \<Rightarrow> ('o, unit) script) \<Rightarrow> ('o, unit) script" where
  "attempt nd connect = andThen (getAddress nd) (\<lambda>address. andThen (\<lambda>s. (nd_transactionCount nd s address, s)) connect)"

function sendTransaction :: "'o deploy_node \<Rightarrow> (nat \<Rightarrow> ('o, unit) script) \<Rightarrow> nat \<Rightarrow> ('o, unit) script" where
  "sendTransaction nd connect retryCount s =
     (case attempt nd connect s of
        (Inr _, s') \<Rightarrow> (Inr (), s')
      | (Inl e, s') \<Rightarrow>
          if e = ExternalError ''NONCE_EXPIRED'' \<and> retryCount < MAX_RETRIES then sendTransaction nd connect (retryCount + 1) s' else (Inl e, s'))"
  by pat_completeness auto
termination by (relation "measure (\<lambda>(_, _, n, _). MAX_RETRIES - n)") auto

declare sendTransaction.simps [simp del]

section \<open>Interfaces\<close>

text \<open>The functions for setting addresses, with the names of their parameters, as the interfaces of the contracts declare them (\<^verbatim>\<open>packages/lib-ethers/types/index.ts\<close>).\<close>

definition ActivePool_setAddresses :: "string list" where
  "ActivePool_setAddresses = [''_borrowerOperationsAddress'', ''_troveManagerAddress'', ''_stabilityPoolAddress'', ''_defaultPoolAddress'']"

definition BorrowerOperations_setAddresses :: "string list" where
  "BorrowerOperations_setAddresses = [''_troveManagerAddress'', ''_activePoolAddress'', ''_defaultPoolAddress'', ''_stabilityPoolAddress'', ''_gasPoolAddress'',
     ''_collSurplusPoolAddress'', ''_priceFeedAddress'', ''_sortedTrovesAddress'', ''_hchfTokenAddress'', ''_hlqtStakingAddress'']"

definition CollSurplusPool_setAddresses :: "string list" where
  "CollSurplusPool_setAddresses = [''_borrowerOperationsAddress'', ''_troveManagerAddress'', ''_activePoolAddress'']"

definition CommunityIssuance_setAddresses :: "string list" where
  "CommunityIssuance_setAddresses = [''_hlqtTokenAddress'', ''_stabilityPoolAddress'']"

definition DefaultPool_setAddresses :: "string list" where
  "DefaultPool_setAddresses = [''_troveManagerAddress'', ''_activePoolAddress'']"

definition HintHelpers_setAddresses :: "string list" where
  "HintHelpers_setAddresses = [''_sortedTrovesAddress'', ''_troveManagerAddress'']"

definition LockupContractFactory_setHLQTTokenAddress :: "string list" where
  "LockupContractFactory_setHLQTTokenAddress = [''_hlqtTokenAddress'']"

definition HLQTStaking_setAddresses :: "string list" where
  "HLQTStaking_setAddresses = [''_hlqtTokenAddress'', ''_hchfTokenAddress'', ''_troveManagerAddress'', ''_borrowerOperationsAddress'', ''_activePoolAddress'']"

definition HLQTToken_initialize :: "string list" where
  "HLQTToken_initialize = [''_bountyAddress'', ''_lpRewardsAddress'']"

definition PriceFeed_setAddresses :: "string list" where
  "PriceFeed_setAddresses = [''_pythCallerAddress'', ''_supraCallerAddress'']"

definition SortedTroves_setParams :: "string list" where
  "SortedTroves_setParams = [''_size'', ''_troveManagerAddress'', ''_borrowerOperationsAddress'']"

definition StabilityPool_setAddresses :: "string list" where
  "StabilityPool_setAddresses = [''_borrowerOperationsAddress'', ''_troveManagerAddress'', ''_activePoolAddress'', ''_hchfTokenAddress'', ''_sortedTrovesAddress'',
     ''_priceFeedAddress'', ''_communityIssuanceAddress'']"

definition TroveManager_setAddresses :: "string list" where
  "TroveManager_setAddresses = [''_borrowerOperationsAddress'', ''_activePoolAddress'', ''_defaultPoolAddress'', ''_stabilityPoolAddress'', ''_gasPoolAddress'',
     ''_collSurplusPoolAddress'', ''_priceFeedAddress'', ''_hchfTokenAddress'', ''_sortedTrovesAddress'', ''_hlqtTokenAddress'', ''_hlqtStakingAddress'']"

definition Unipool_setParams :: "string list" where
  "Unipool_setParams = [''_uniTokenAddress'', ''_duration'']"

text \<open>Of each interface only these functions; the script uses no others for transactions.\<close>

type_synonym setters = "(string \<times> string list) list"

definition getAbi :: "bool \<Rightarrow> (string \<times> setters) list" where
  "getAbi priceFeedIsTestnet =
     (let price_abi = (if priceFeedIsTestnet then [] else [(''setAddresses'', PriceFeed_setAddresses)])
      in [(''activePool'', [(''setAddresses'', ActivePool_setAddresses)]),
          (''borrowerOperations'', [(''setAddresses'', BorrowerOperations_setAddresses)]),
          (''troveManager'', [(''setAddresses'', TroveManager_setAddresses)]),
          (''hchfToken'', []),
          (''communityIssuance'', [(''setAddresses'', CommunityIssuance_setAddresses)]),
          (''defaultPool'', [(''setAddresses'', DefaultPool_setAddresses)]),
          (''hlqtToken'', [(''initialize'', HLQTToken_initialize)]),
          (''hintHelpers'', [(''setAddresses'', HintHelpers_setAddresses)]),
          (''lockupContractFactory'', [(''setHLQTTokenAddress'', LockupContractFactory_setHLQTTokenAddress)]),
          (''hlqtStaking'', [(''setAddresses'', HLQTStaking_setAddresses)]),
          (''multiTroveGetter'', []),
          (''priceFeed'', price_abi),
          (''sortedTroves'', [(''setParams'', SortedTroves_setParams)]),
          (''stabilityPool'', [(''setAddresses'', StabilityPool_setAddresses)]),
          (''gasPool'', []),
          (''collSurplusPool'', [(''setAddresses'', CollSurplusPool_setAddresses)]),
          (''saucerSwapPool'', [(''setParams'', Unipool_setParams)]),
          (''pythCaller'', price_abi),
          (''supraCaller'', price_abi),
          (''uniToken'', [])])"

text \<open>An address with its interface; a name without an interface is \<^verbatim>\<open>undefined\<close>.\<close>

type_synonym contract_handles = "(string \<times> (string \<times> setters) option) list"

definition connectToContracts :: "bool \<Rightarrow> (string \<times> string) list \<Rightarrow> contract_handles" where
  "connectToContracts priceFeedIsTestnet addresses =
     map (\<lambda>(key, address). (key, map_option (\<lambda>abi. (address, abi)) (map_of (getAbi priceFeedIsTestnet) key))) addresses"

definition handle :: "contract_handles \<Rightarrow> string \<Rightarrow> (string \<times> setters) result" where
  "handle contracts key = (case map_of contracts key of Some (Some h) \<Rightarrow> Inr h | _ \<Rightarrow> Inl (ExternalError ''TypeError''))"

section \<open>Connecting\<close>

datatype role_arg = AddressOf string | DeployerAddress | Constant int

definition connections :: "(string \<times> string \<times> role_arg list) list" where
  "connections =
    [(''sortedTroves'', ''setParams'', [Constant 1000000, AddressOf ''troveManager'', AddressOf ''borrowerOperations'']),
     (''troveManager'', ''setAddresses'', [AddressOf ''borrowerOperations'', AddressOf ''activePool'', AddressOf ''defaultPool'', AddressOf ''stabilityPool'',
        AddressOf ''gasPool'', AddressOf ''collSurplusPool'', AddressOf ''priceFeed'', AddressOf ''hchfToken'', AddressOf ''sortedTroves'', AddressOf ''hlqtToken'',
        AddressOf ''hlqtStaking'']),
     (''borrowerOperations'', ''setAddresses'', [AddressOf ''troveManager'', AddressOf ''activePool'', AddressOf ''defaultPool'', AddressOf ''stabilityPool'',
        AddressOf ''gasPool'', AddressOf ''collSurplusPool'', AddressOf ''priceFeed'', AddressOf ''sortedTroves'', AddressOf ''hchfToken'', AddressOf ''hlqtStaking'']),
     (''stabilityPool'', ''setAddresses'', [AddressOf ''borrowerOperations'', AddressOf ''troveManager'', AddressOf ''activePool'', AddressOf ''hchfToken'',
        AddressOf ''sortedTroves'', AddressOf ''priceFeed'', AddressOf ''communityIssuance'']),
     (''activePool'', ''setAddresses'', [AddressOf ''borrowerOperations'', AddressOf ''troveManager'', AddressOf ''stabilityPool'', AddressOf ''defaultPool'']),
     (''defaultPool'', ''setAddresses'', [AddressOf ''troveManager'', AddressOf ''activePool'']),
     (''collSurplusPool'', ''setAddresses'', [AddressOf ''borrowerOperations'', AddressOf ''troveManager'', AddressOf ''activePool'']),
     (''hintHelpers'', ''setAddresses'', [AddressOf ''sortedTroves'', AddressOf ''troveManager'']),
     (''hlqtStaking'', ''setAddresses'', [AddressOf ''hlqtToken'', AddressOf ''hchfToken'', AddressOf ''troveManager'', AddressOf ''borrowerOperations'',
        AddressOf ''activePool'']),
     (''lockupContractFactory'', ''setHLQTTokenAddress'', [AddressOf ''hlqtToken'']),
     (''lockupContractFactory'', ''setUniTokenAddress'', [AddressOf ''uniToken'']),
     (''communityIssuance'', ''setAddresses'', [AddressOf ''hlqtToken'', AddressOf ''stabilityPool'']),
     (''hlqtToken'', ''initialize'', [DeployerAddress, AddressOf ''saucerSwapPool'']),
     (''saucerSwapPool'', ''setParams'', [AddressOf ''uniToken'', Constant (2 * 30 * 24 * 60 * 60)])]"

fun role_value :: "contract_handles \<Rightarrow> string \<Rightarrow> role_arg \<Rightarrow> 'o tx_arg result" where
  "role_value contracts deployer (AddressOf key) = rbind (handle contracts key) (\<lambda>h. Inr (TextArg (fst h)))"
| "role_value contracts deployer DeployerAddress = Inr (TextArg deployer)"
| "role_value contracts deployer (Constant n) = Inr (NumberArg n)"

text \<open>
  One of the functions in the list. The one that passes the deployer's address asks for it before anything else. A method that the interface does not have is \<^verbatim>\<open>undefined\<close>, and calling it throws.
\<close>

fun connect_one :: "'o deploy_node \<Rightarrow> contract_handles \<Rightarrow> 'o option \<Rightarrow> string \<times> string \<times> role_arg list \<Rightarrow> nat \<Rightarrow> ('o, unit) script" where
  "connect_one nd contracts overrides (key, f, args) nonce =
     andThen (if DeployerAddress \<in> set args then getAddress nd else returning []) (\<lambda>deployer.
     andThen (from_result (handle contracts key)) (\<lambda>(address, abi).
     andThen (from_result (mapM (role_value contracts deployer) args)) (\<lambda>vs.
     if map_of abi f = None then throwing (ExternalError ''TypeError'')
     else send_call nd address f (vs @ [OptionsArg overrides (Some 3000000) None (Some nonce)]))))"

fun connect_all :: "'o deploy_node \<Rightarrow> contract_handles \<Rightarrow> 'o option \<Rightarrow> (string \<times> string \<times> role_arg list) list \<Rightarrow> ('o, unit) script" where
  "connect_all nd contracts overrides [] = returning ()"
| "connect_all nd contracts overrides (c # cs) =
     andThen (sendTransaction nd (connect_one nd contracts overrides c) 0) (\<lambda>_. connect_all nd contracts overrides cs)"

record deploy_env =
  ACCOUNT_ID :: "string option"
  ACCOUNT_PRIVATE_KEY :: "string option"

definition associate_token :: "'o deploy_node \<Rightarrow> string \<Rightarrow> ('o, unit) script" where
  "associate_token nd tokenId s = (nd_associate nd s tokenId, s @ [Associated tokenId])"

definition connectContracts :: "'o deploy_node \<Rightarrow> deploy_env \<Rightarrow> contract_handles \<Rightarrow> 'o option \<Rightarrow> ('o, unit) script" where
  "connectContracts nd env contracts overrides =
     (if \<not> nd_hasProvider nd then throwing (Error ''Signer must have a provider.'')
      else if ACCOUNT_ID env \<in> {None, Some []} \<or> ACCOUNT_PRIVATE_KEY env \<in> {None, Some []} then throwing (Error ''Please set required keys in .env file.'')
      else andThen (from_result (nd_parseAccount nd (the (ACCOUNT_ID env)) (the (ACCOUNT_PRIVATE_KEY env)))) (\<lambda>_.
           andThen (from_result (handle contracts ''hlqtToken'')) (\<lambda>(address, _).
           andThen (\<lambda>s. (nd_tokenAddress nd s address, s)) (\<lambda>tokenId.
           andThen (associate_token nd tokenId) (\<lambda>_. connect_all nd contracts overrides connections)))))"

section \<open>The whole deployment\<close>

record setup_deployment =
  sd_chainId :: nat
  sd_version :: string
  sd_deploymentDate :: nat
  sd_bootstrapPeriod :: nat
  sd_totalStabilityPoolHLQTReward :: string
  sd_liquidityMiningHLQTRewardRate :: string
  sd_priceFeedIsTestnet :: bool
  sd_uniTokenIsMock :: bool
  sd_isDev :: bool
  sd_addresses :: "(string \<times> string) list"

definition read_number :: "'o deploy_node \<Rightarrow> contract_handles \<Rightarrow> string \<Rightarrow> string \<Rightarrow> ('o, nat) script" where
  "read_number nd contracts key f s = (rbind (handle contracts key) (\<lambda>h. nd_read nd s (fst h) f), s)"

definition deployAndSetupContracts ::
  "'o deploy_node \<Rightarrow> deploy_env \<Rightarrow> bool \<Rightarrow> bool \<Rightarrow> string option \<Rightarrow> string \<Rightarrow> nat \<Rightarrow> 'o option \<Rightarrow> ('o, setup_deployment) script" where
  "deployAndSetupContracts nd env priceFeedIsTestnet isDev wethAddress randomAccount now overrides =
     (if \<not> nd_hasProvider nd then throwing (Error ''Signer must have a provider.'')
      else andThen (getChainId nd) (\<lambda>chainId.
           andThen (deployContracts nd priceFeedIsTestnet overrides) (\<lambda>addresses.
           andThen (case wethAddress of
               Some (c # w) \<Rightarrow> createUniswapV2Pair nd (c # w) (the (map_of addresses ''hchfToken'')) overrides
             | _ \<Rightarrow> deployMockUniToken nd randomAccount overrides) (\<lambda>uniToken.
           let deployment = \<lparr>sd_chainId = chainId, sd_version = ''unknown'', sd_deploymentDate = now, sd_bootstrapPeriod = 0,
                 sd_totalStabilityPoolHLQTReward = ''0'', sd_liquidityMiningHLQTRewardRate = ''0'', sd_priceFeedIsTestnet = priceFeedIsTestnet,
                 sd_uniTokenIsMock = wethAddress \<in> {None, Some []}, sd_isDev = isDev, sd_addresses = AList.update ''uniToken'' uniToken addresses\<rparr>;
               contracts = connectToContracts priceFeedIsTestnet (sd_addresses deployment)
           in andThen (connectContracts nd env contracts overrides) (\<lambda>_.
              andThen (read_number nd contracts ''hlqtToken'' ''getDeploymentStartTime'') (\<lambda>time.
              andThen (read_number nd contracts ''troveManager'' ''BOOTSTRAP_PERIOD'') (\<lambda>period.
              andThen (read_number nd contracts ''communityIssuance'' ''HLQTSupplyCap'') (\<lambda>cap.
              andThen (read_number nd contracts ''saucerSwapPool'' ''rewardRate'') (\<lambda>rate.
              from_result (rbind (numberify time) (\<lambda>t. rbind (numberify period) (\<lambda>p.
                rbind (rbind (decimalify cap) (\<lambda>d. Decimal_toString d None)) (\<lambda>c. rbind (rbind (decimalify rate) (\<lambda>d. Decimal_toString d None)) (\<lambda>r.
                Inr (deployment\<lparr>sd_deploymentDate := t * 1000, sd_bootstrapPeriod := p,
                  sd_totalStabilityPoolHLQTReward := c, sd_liquidityMiningHLQTRewardRate := r\<rparr>)))))))))))))))"

section \<open>A deployment that cannot succeed\<close>

definition deployment_order :: "bool \<Rightarrow> string list" where
  "deployment_order priceFeedIsTestnet = [''ActivePool'', ''BorrowerOperations'', ''TroveManager'', ''CollSurplusPool'', ''CommunityIssuance'', ''DefaultPool'',
     ''HintHelpers'', ''LockupContractFactory'', ''HLQTStaking'', if priceFeedIsTestnet then ''PriceFeedTestnet'' else ''PriceFeed'', ''SortedTroves'',
     ''StabilityPool'', ''HCHFToken'', ''HLQTToken'', ''saucerSwapPool'', ''GasPool'', ''MultiTroveGetter'']"

fun deployed_name :: "'o node_action \<Rightarrow> string option" where
  "deployed_name (Deployed n _ _) = Some n"
| "deployed_name _ = None"

text \<open>
  A script that deploys the contracts of a list one after the other, until one of the deployments fails, the deployer's address cannot be had or, after all of them, the error \<open>e\<close> is thrown.
\<close>

definition deploys_then_throws :: "'o deploy_node \<Rightarrow> js_error \<Rightarrow> string list \<Rightarrow> ('o, 'a) script \<Rightarrow> bool" where
  "deploys_then_throws nd e names m \<longleftrightarrow> (\<forall>s. \<exists>t d k. m s = (Inl d, s @ t) \<and> map deployed_name t = map Some (take k names)
     \<and> (k = length names \<and> d = e \<or> nd_deployer nd (s @ t) = Inl d \<or> (\<exists>n a. t \<noteq> [] \<and> last t = Deployed n a (Inl d))))"

lemma throws_at_once: "deploys_then_throws nd e [] (from_result (Inl e))"
  by (simp add: deploys_then_throws_def from_result_def)

lemma asks_address:
  assumes "\<And>x. deploys_then_throws nd e names (f x)"
  shows "deploys_then_throws nd e names (andThen (getAddress nd) f)"
  unfolding deploys_then_throws_def
proof
  fix s
  show "\<exists>t d k. andThen (getAddress nd) f s = (Inl d, s @ t) \<and> map deployed_name t = map Some (take k names)
     \<and> (k = length names \<and> d = e \<or> nd_deployer nd (s @ t) = Inl d \<or> (\<exists>n a. t \<noteq> [] \<and> last t = Deployed n a (Inl d)))"
  proof (cases "nd_deployer nd s")
    case (Inl d)
    then show ?thesis by (intro exI [of _ "[]"] exI [of _ d] exI [of _ 0]) (simp add: andThen_def getAddress_def)
  next
    case (Inr x)
    then show ?thesis using assms [of x] unfolding deploys_then_throws_def by (simp add: andThen_def getAddress_def)
  qed
qed

lemma deploys_one_more:
  assumes "\<And>x. deploys_then_throws nd e names (f x)"
  shows "deploys_then_throws nd e (n # names) (andThen (deployContract nd n args) f)"
  unfolding deploys_then_throws_def
proof
  fix s
  show "\<exists>t d k. andThen (deployContract nd n args) f s = (Inl d, s @ t) \<and> map deployed_name t = map Some (take k (n # names))
     \<and> (k = length (n # names) \<and> d = e \<or> nd_deployer nd (s @ t) = Inl d \<or> (\<exists>n a. t \<noteq> [] \<and> last t = Deployed n a (Inl d)))"
  proof (cases "nd_deploy nd s n args")
    case (Inl d)
    then show ?thesis
      by (intro exI [of _ "[Deployed n args (Inl d)]"] exI [of _ d] exI [of _ 1]) (simp add: andThen_def deployContract_def Let_def)
  next
    case (Inr x)
    obtain t d k where t: "f x (s @ [Deployed n args (Inr x)]) = (Inl d, (s @ [Deployed n args (Inr x)]) @ t)" "map deployed_name t = map Some (take k names)"
      and e: "k = length names \<and> d = e \<or> nd_deployer nd ((s @ [Deployed n args (Inr x)]) @ t) = Inl d \<or> (\<exists>n a. t \<noteq> [] \<and> last t = Deployed n a (Inl d))"
      using assms [of x] unfolding deploys_then_throws_def by metis
    show ?thesis
      using Inr t e by (intro exI [of _ "Deployed n args (Inr x) # t"] exI [of _ d] exI [of _ "Suc k"]) (auto simp: andThen_def deployContract_def Let_def)
  qed
qed

lemma deployContracts_throws: "deploys_then_throws nd (ExternalError ''ReferenceError'') (deployment_order b) (deployContracts nd b overrides)"
  unfolding deployContracts_def deployment_order_def Let_def
  by (intro deploys_one_more asks_address) (simp add: object_literal_def throws_at_once)

text \<open>
  No deployment is ever completed. Whatever the node answers, the script throws: for want of a provider or of the chain's number before it has done anything, because a contract could
  not be deployed or the deployer's address not be had, or, after all seventeen contracts were deployed, because it refers to a variable that does not exist. Until then it has deployed contracts
  in their order and has not connected any of them.
\<close>

theorem deployment_never_completes:
  "\<exists>e log k. deployAndSetupContracts nd env b isDev wethAddress randomAccount now overrides [] = (Inl e, log)
     \<and> map deployed_name log = map Some (take k (deployment_order b))
     \<and> (\<not> nd_hasProvider nd \<and> e = Error ''Signer must have a provider.'' \<and> log = []
        \<or> nd_chainId nd [] = Inl e \<and> log = [] \<or> nd_deployer nd log = Inl e
        \<or> k = 17 \<and> e = ExternalError ''ReferenceError'' \<or> (\<exists>n a. log \<noteq> [] \<and> last log = Deployed n a (Inl e)))"
proof -
  obtain t d k where t: "deployContracts nd b overrides [] = (Inl d, t)" "map deployed_name t = map Some (take k (deployment_order b))"
    and e: "k = length (deployment_order b) \<and> d = ExternalError ''ReferenceError'' \<or> nd_deployer nd t = Inl d \<or> (\<exists>n a. t \<noteq> [] \<and> last t = Deployed n a (Inl d))"
    using deployContracts_throws [of nd b overrides] unfolding deploys_then_throws_def by (metis append_Nil)
  have l: "length (deployment_order b) = 17" by (simp add: deployment_order_def)
  consider "\<not> nd_hasProvider nd" | d' where "nd_hasProvider nd" "nd_chainId nd [] = Inl d'" | i where "nd_hasProvider nd" "nd_chainId nd [] = Inr i"
    by (cases "nd_chainId nd []") auto
  then show ?thesis
  proof cases
    case 1
    then show ?thesis
      by (intro exI [of _ "Error ''Signer must have a provider.''"] exI [of _ "[]"] exI [of _ 0]) (simp add: deployAndSetupContracts_def throwing_def)
  next
    case 2
    then show ?thesis
      by (intro exI [of _ d'] exI [of _ "[]"] exI [of _ 0]) (simp add: deployAndSetupContracts_def andThen_def getChainId_def)
  next
    case 3
    with t e l show ?thesis
      by (intro exI [of _ d] exI [of _ t] exI [of _ k]) (auto simp: deployAndSetupContracts_def andThen_def getChainId_def)
  qed
qed

section \<open>Retrying\<close>

primrec nth_attempt :: "('o, 'a) script \<Rightarrow> nat \<Rightarrow> ('o, 'a) script" where
  "nth_attempt m 0 s = m s"
| "nth_attempt m (Suc n) s = nth_attempt m n (snd (m s))"

definition nonce_expired :: "'a result \<Rightarrow> bool" where
  "nonce_expired r \<longleftrightarrow> r = Inl (ExternalError ''NONCE_EXPIRED'')"

lemma sendTransaction_cases:
  "sendTransaction nd connect n s =
    (if nonce_expired (fst (attempt nd connect s)) \<and> n < MAX_RETRIES then sendTransaction nd connect (Suc n) (snd (attempt nd connect s)) else attempt nd connect s)"
  by (subst sendTransaction.simps) (auto simp: nonce_expired_def split: prod.split sum.split)

text \<open>
  Retrying ends, and only an outdated nonce is retried: the outcome is that of one of the first eleven attempts, all attempts before it failed because of their
  nonce, and the last one did so only if it is the eleventh. Each attempt is made after the ones before, with the node's count of transactions at that time.
\<close>

theorem sendTransaction_retries:
  "\<exists>n \<le> MAX_RETRIES. sendTransaction nd connect 0 s = nth_attempt (attempt nd connect) n s
     \<and> list_all (\<lambda>k. nonce_expired (fst (nth_attempt (attempt nd connect) k s))) [0..<n]
     \<and> (nonce_expired (fst (sendTransaction nd connect 0 s)) \<longleftrightarrow> n = MAX_RETRIES \<and> nonce_expired (fst (nth_attempt (attempt nd connect) n s)))"
proof -
  let ?m = "attempt nd connect"
  have "\<exists>n. n + i \<le> MAX_RETRIES \<and> sendTransaction nd connect i s = nth_attempt ?m n s \<and> (\<forall>k < n. nonce_expired (fst (nth_attempt ?m k s)))
      \<and> (nonce_expired (fst (nth_attempt ?m n s)) \<longrightarrow> n + i = MAX_RETRIES)" if "i \<le> MAX_RETRIES" for i s
    using that
  proof (induction "MAX_RETRIES - i" arbitrary: i s)
    case 0
    then have "i = MAX_RETRIES" by simp
    then show ?case using sendTransaction_cases [of nd connect i s] by (intro exI [of _ 0]) simp
  next
    case (Suc d)
    show ?case
    proof (cases "nonce_expired (fst (?m s))")
      case True
      have "Suc i \<le> MAX_RETRIES" "d = MAX_RETRIES - Suc i" using Suc.hyps(2) by simp_all
      from Suc.hyps(1) [OF this(2,1), of "snd (?m s)"] obtain n where n: "n + Suc i \<le> MAX_RETRIES"
        "sendTransaction nd connect (Suc i) (snd (?m s)) = nth_attempt ?m (Suc n) s" "\<forall>k < n. nonce_expired (fst (nth_attempt ?m (Suc k) s))"
        "nonce_expired (fst (nth_attempt ?m (Suc n) s)) \<longrightarrow> n + Suc i = MAX_RETRIES"
        by auto
      have "\<forall>k < Suc n. nonce_expired (fst (nth_attempt ?m k s))"
        using n(3) True by (auto simp: less_Suc_eq_0_disj)
      moreover have "sendTransaction nd connect i s = nth_attempt ?m (Suc n) s"
        using sendTransaction_cases [of nd connect i s] True n(1,2) by simp
      ultimately show ?thesis using n(1,4) by (intro exI [of _ "Suc n"]) simp
    next
      case False
      then show ?thesis using sendTransaction_cases [of nd connect i s] Suc.prems by (intro exI [of _ 0]) simp
    qed
  qed
  from this [of 0 s] show ?thesis by (auto simp: list_all_iff)
qed

section \<open>The connections\<close>

text \<open>An address goes to the parameter that is named after its contract; the pool's rewards are those of liquidity providers.\<close>

fun argument_for :: "role_arg \<Rightarrow> string \<Rightarrow> bool" where
  "argument_for (AddressOf key) p \<longleftrightarrow> p = ''_'' @ key @ ''Address'' \<or> key = ''saucerSwapPool'' \<and> p = ''_lpRewardsAddress''"
| "argument_for DeployerAddress p \<longleftrightarrow> p = ''_bountyAddress''"
| "argument_for (Constant _) p \<longleftrightarrow> p \<in> set [''_size'', ''_duration'']"

definition connection_fits :: "bool \<Rightarrow> string \<times> string \<times> role_arg list \<Rightarrow> bool" where
  "connection_fits b = (\<lambda>(key, f, args). case map_of (getAbi b) key of
      None \<Rightarrow> False
    | Some abi \<Rightarrow> (case map_of abi f of None \<Rightarrow> False | Some params \<Rightarrow> list_all2 argument_for args params))"

lemmas setter_defs = ActivePool_setAddresses_def BorrowerOperations_setAddresses_def CollSurplusPool_setAddresses_def CommunityIssuance_setAddresses_def
  DefaultPool_setAddresses_def HintHelpers_setAddresses_def LockupContractFactory_setHLQTTokenAddress_def HLQTStaking_setAddresses_def HLQTToken_initialize_def
  PriceFeed_setAddresses_def SortedTroves_setParams_def StabilityPool_setAddresses_def TroveManager_setAddresses_def Unipool_setParams_def

text \<open>Every address is told to the parameter meant for it, except in one call: the contract does not have that function.\<close>

theorem connections_fit:
  "filter (\<lambda>c. \<not> connection_fits b c) connections = [(''lockupContractFactory'', ''setUniTokenAddress'', [AddressOf ''uniToken''])]"
  by (simp add: connections_def connection_fits_def getAbi_def Let_def setter_defs)

lemma andThen_throws_first:
  assumes "\<And>s. \<exists>e. fst (m s) = Inl e"
  shows "\<exists>e. fst (andThen m f s) = Inl e"
  using assms [of s] by (cases "m s") (auto simp: andThen_def)

lemma andThen_throws_second:
  assumes "\<And>x s. \<exists>e. fst (f x s) = Inl e"
  shows "\<exists>e. fst (andThen m f s) = Inl e"
proof (cases "m s")
  case (Pair r s')
  then show ?thesis using assms [of "projr r" s'] by (cases r) (simp_all add: andThen_def)
qed

lemma sendTransaction_throws:
  assumes "\<And>n s. \<exists>e. fst (connect n s) = Inl e"
  shows "\<exists>e. fst (sendTransaction nd connect 0 s) = Inl e"
proof -
  have a: "\<exists>e. fst (attempt nd connect s) = Inl e" for s
    unfolding attempt_def by (intro andThen_throws_second assms)
  have "\<exists>e. fst (sendTransaction nd connect (MAX_RETRIES - d) s) = Inl e" for d s
  proof (induction d arbitrary: s)
    case 0
    show ?case using a sendTransaction_cases [of nd connect MAX_RETRIES s] by simp
  next
    case (Suc d)
    show ?case
    proof (cases "Suc d \<le> MAX_RETRIES")
      case True
      then have "Suc (MAX_RETRIES - Suc d) = MAX_RETRIES - d" by simp
      with Suc.IH [of "snd (attempt nd connect s)"] a [of s] show ?thesis by (subst sendTransaction_cases) auto
    next
      case False
      with Suc.IH show ?thesis by simp
    qed
  qed
  from this [of MAX_RETRIES] show ?thesis by simp
qed

lemma andThen_from_result [simp]: "andThen (from_result (Inr x)) f = f x" "andThen (from_result (Inl e)) f = throwing e"
  by (simp_all add: fun_eq_iff andThen_def from_result_def throwing_def)

lemma map_of_handles:
  "map_of (connectToContracts b addresses) key = map_option (\<lambda>a. map_option (\<lambda>abi. (a, abi)) (map_of (getAbi b) key)) (map_of addresses key)"
  by (induction addresses) (auto simp: connectToContracts_def)

lemma lockup_without_setter:
  assumes "handle (connectToContracts b addresses) ''lockupContractFactory'' = Inr h"
  shows "map_of (snd h) ''setUniTokenAddress'' = None"
proof -
  have "map_of (getAbi b) ''lockupContractFactory'' = Some [(''setHLQTTokenAddress'', LockupContractFactory_setHLQTTokenAddress)]"
    by (simp add: getAbi_def Let_def)
  with assms show ?thesis by (auto simp: handle_def map_of_handles split: option.split_asm)
qed

text \<open>So even with contracts that were deployed by other means, connecting them throws.\<close>

theorem connecting_never_completes: "\<exists>e. fst (connectContracts nd env (connectToContracts b addresses) overrides s) = Inl e"
proof -
  let ?h = "connectToContracts b addresses"
  have c: "\<exists>e. fst (connect_one nd ?h overrides (''lockupContractFactory'', ''setUniTokenAddress'', args) n s) = Inl e" for args n s
    unfolding connect_one.simps
  proof (rule andThen_throws_second)
    fix d s
    show "\<exists>e. fst (andThen (from_result (handle ?h ''lockupContractFactory'')) (\<lambda>(address, abi). andThen (from_result (mapM (role_value ?h d) args)) (\<lambda>vs.
        if map_of abi ''setUniTokenAddress'' = None then throwing (ExternalError ''TypeError'')
        else send_call nd address ''setUniTokenAddress'' (vs @ [OptionsArg overrides (Some 3000000) None (Some n)]))) s) = Inl e"
    proof (cases "handle ?h ''lockupContractFactory''")
      case (Inr h)
      have "\<exists>e. fst (andThen (from_result (mapM (role_value ?h d) args)) (\<lambda>vs. throwing (ExternalError ''TypeError'')) s) = Inl e"
        by (rule andThen_throws_second) (simp add: throwing_def)
      with Inr lockup_without_setter [OF Inr] show ?thesis by (simp add: split_def)
    qed (simp add: throwing_def)
  qed
  have "\<exists>e. fst (connect_all nd ?h overrides ((''lockupContractFactory'', ''setUniTokenAddress'', args) # cs) s) = Inl e" for args cs s
    unfolding connect_all.simps by (intro andThen_throws_first sendTransaction_throws c)
  moreover have "\<exists>e. fst (connect_all nd ?h overrides (xs @ cs) s) = Inl e" if "\<And>s. \<exists>e. fst (connect_all nd ?h overrides cs s) = Inl e" for xs cs s
    by (induction xs arbitrary: s) (use that in \<open>auto intro: andThen_throws_second\<close>)
  moreover have "\<exists>args. connections = take 10 connections @ (''lockupContractFactory'', ''setUniTokenAddress'', args) # drop 11 connections"
    by (simp add: connections_def)
  ultimately have "\<exists>e. fst (connect_all nd ?h overrides connections s) = Inl e" for s by metis
  then show ?thesis
    unfolding connectContracts_def by (auto simp: throwing_def split_def intro!: andThen_throws_second)
qed

end
