(* ===== verification/Spec2Isabelle.thy ===== *)
theory Spec2Isabelle
  imports Decimal_Accuracy Trove_Transactions Redemption Store_Lifecycle Cached_Readable Hashgraph_Ledger Hashgraph_Send
    Frontend_Views Frontend_Transactions Frontend_Actions Redemption_Page Placeholder_Client Ethers_Send Ethers_Observe Web_Socket
    React_Hooks Frontend_Pages Deploy
begin

text \<open>
  Verification of HLiquity, the TypeScript client of a borrowing protocol on the Hedera ledger. A user locks HBAR as
  collateral in a \<^emph>\<open>trove\<close> and borrows the stable coin HCHF; HCHF can be deposited in a stability pool, HLQT staked, and
  HCHF redeemed for collateral. The amounts, ratios and fees shown to the user, the data that is read from the
  ledger, the transactions that are sent, and the panels of the front end are all computed by the code modelled here.

  \<^bold>\<open>Parts of the program, and how they interact.\<close> All paths are relative to \<^verbatim>\<open>src/packages\<close>.

  \<^item> \<^verbatim>\<open>lib-base/src\<close> is the library of values: decimals, constants, fees, troves, deposits, stakes, the redemption
    preview, the store of the data read from the ledger, and a caching reader.
  \<^item> \<^verbatim>\<open>lib-hashgraph/src\<close> is the client: \<^verbatim>\<open>HashgraphLiquity\<close> reads the contracts, fills the store, builds transactions
    (\<^verbatim>\<open>populate...\<close>), sends them through the wallet and waits for their receipts. It asks the mirror node
    (\<^verbatim>\<open>mirror-node/src\<close>) which tokens the account is associated with.
  \<^item> \<^verbatim>\<open>dev-frontend/src\<close> is the React application: it subscribes to the store, lets the user edit a trove, deposit or stake,
    validates the change, sends it through the client, and watches the transaction.
  \<^item> \<^verbatim>\<open>lib-ethers/src\<close> is the client for ledgers that speak Ethereum's protocol, with \<^verbatim>\<open>providers/src\<close> between it and the node, and
    \<^verbatim>\<open>lib-placeholder/src\<close> is the client that the application shows before a wallet is connected.

  \<^bold>\<open>Conventions.\<close> A thrown error is a value: \<^typ>\<open>'a result\<close> is a sum with the error on the left, and \<^const>\<open>rbind\<close> is the
  sequencing of \<^verbatim>\<open>await\<close> and of statements (theory \<^verbatim>\<open>JS_Prelude\<close>, with the other functions of the language that several
  components use). Classes are records or datatypes, methods are functions whose first argument is \<^verbatim>\<open>this\<close> and whose name is
  prefixed by the class. A \<^verbatim>\<open>BigNumber\<close> is unbounded, so a \<^verbatim>\<open>Decimal\<close> is a natural number of units of the last of 8
  digits. A JavaScript number is an integer where the code only counts with it, the text that it prints as where it is turned
  into a decimal, and is rounded to 53 bits where that matters (random seeds). Objects compared by reference carry an
  identity (\<^verbatim>\<open>'a object\<close>), and code that creates objects takes the identities of the new ones as an argument. Dates are milliseconds.

  \<^bold>\<open>What is a parameter.\<close> The smart contracts (record \<^verbatim>\<open>contracts\<close>, the hint contracts, \<^verbatim>\<open>sendTransaction\<close>), the
  Hedera SDK's conversions, the HTTP requests to the mirror node, \<^verbatim>\<open>JSON.parse\<close>, the clock and the locale-dependent formats are
  arguments. What a theorem relies on is a named hypothesis (\<^verbatim>\<open>lists_troves\<close>, \<^verbatim>\<open>sorted_troves\<close>, \<^verbatim>\<open>reads_hbars\<close>, ...), with a
  concrete instance for which the witnesses check it. During one method of the client the contracts are read at one state of the ledger.

  \<^bold>\<open>Theories.\<close>

  \<^item> \<^verbatim>\<open>Decimal\<close>, \<^verbatim>\<open>Decimal_Text\<close>, \<^verbatim>\<open>Decimal_Accuracy\<close> (\<^verbatim>\<open>lib-base/src/Decimal.ts\<close>): \<^verbatim>\<open>Decimal\<close>, \<^verbatim>\<open>Difference\<close> and
    \<^verbatim>\<open>Percent\<close>. Which texts are read and what they denote; printing and reading are inverse; the accuracy of printing with fewer
    digits and of powers; orders and monotonicity of the rounded operations.
  \<^item> \<^verbatim>\<open>Constants\<close> (\<^verbatim>\<open>constants.ts\<close>) and \<^verbatim>\<open>Fees\<close> (\<^verbatim>\<open>Fees.ts\<close>): the bounds of the borrowing and redemption rates and the decay
    of the base rate. Powers are computed for exponents below \<open>2\<^sup>3\<^sup>2\<close>, beyond which the code throws.
  \<^item> \<^verbatim>\<open>Trove\<close>, \<^verbatim>\<open>Trove_Transactions\<close> (\<^verbatim>\<open>Trove.ts\<close>): troves, changes between troves and their parameters. Applying a computed
    change reaches the trove that it was computed for; fees are removed and charged tightly; normalised parameters
    satisfy their type; thresholds on the collateral ratio.
  \<^item> \<^verbatim>\<open>Deposits\<close> (\<^verbatim>\<open>StabilityDeposit.ts\<close>, \<^verbatim>\<open>HLQTStake.ts\<close>): the locale \<^verbatim>\<open>adjustable_amount\<close> is the contract of both classes.
  \<^item> \<^verbatim>\<open>Redemption\<close> (\<^verbatim>\<open>redemptionDetails.ts\<close>): the preview redeems as much as is asked for and available.
  \<^item> \<^verbatim>\<open>Store\<close>, \<^verbatim>\<open>Store_Lifecycle\<close> (\<^verbatim>\<open>HLiquityStore.ts\<close>): state, reducers, derived state, loading, updating, listeners. The
    reducer refines an overlay of maps; derived state follows the base state; listeners hear exactly of the fields that their comparisons find changed; an
    invariant of all reachable stores. The locales \<^verbatim>\<open>change_detection\<close> and \<^verbatim>\<open>equal_content\<close> state what each comparison
    of old and new fields promises and are interpreted on the comparison of every field.
  \<^item> \<^verbatim>\<open>Cached_Readable\<close> (\<^verbatim>\<open>_CachedReadableLiquity.ts\<close>): with a cache that tells the truth, the caching reader is the
    reader (locale \<^verbatim>\<open>consistent_reader\<close>, interpreted on the readers of the Hashgraph client).
  \<^item> \<^verbatim>\<open>Mirror_Node\<close> (\<^verbatim>\<open>mirror_node.ts\<close>): the request, and polling for a token state. The loop has as fuel the number of polls;
    if the answer is right at the \<open>n\<close>-th poll, \<open>n + 1\<close> are enough.
  \<^item> \<^verbatim>\<open>Hashgraph_Read\<close>, \<^verbatim>\<open>Hashgraph_Ledger\<close> (\<^verbatim>\<open>HashgraphLiquity.ts\<close>, \<^verbatim>\<open>trove_status.ts\<close>): readers, the snapshot for the store
    and the refresh of the store; listings, rewards, and what a refreshed store shows.
  \<^item> \<^verbatim>\<open>Hashgraph_Hints\<close> (\<^verbatim>\<open>hints.ts\<close>): the search for the position of a trove; it ends after a number of trials that is computed,
    and its result is a valid position. The square root that the code takes is the exact one, which agrees with
    double precision up to \<open>2\<^sup>4\<^sup>0\<close> troves.
  \<^item> \<^verbatim>\<open>Hashgraph_Populate\<close>, \<^verbatim>\<open>Hashgraph_Transactions\<close> (\<^verbatim>\<open>HashgraphLiquity.ts\<close>, \<^verbatim>\<open>populatable.ts\<close>, \<^verbatim>\<open>contract_functions.ts\<close>, \<^verbatim>\<open>gas.ts\<close>,
    \<^verbatim>\<open>lib-hashgraph/abi\<close>): all transactions. Their calls fit the interfaces of the contracts, and those for opening and
    adjusting carry the amounts of the trove that the client previews. What the contracts do with a call is not modelled.
  \<^item> \<^verbatim>\<open>Hashgraph_Send\<close> (\<^verbatim>\<open>HashgraphLiquity.ts\<close>, \<^verbatim>\<open>sendable.ts\<close>, \<^verbatim>\<open>transactions.ts\<close>): sending, receipts and their details, token
    associations and allowances (locale \<^verbatim>\<open>approval\<close>, interpreted on the three approvals).
  \<^item> \<^verbatim>\<open>Frontend_Views\<close> (\<^verbatim>\<open>dev-frontend/src/components\<close>, directories \<^verbatim>\<open>Trove/context\<close>, \<^verbatim>\<open>Stability/context\<close>, \<^verbatim>\<open>Mine/context\<close>): the
    state machines of the panels inside their React providers. A rendering takes over the scheduled state, then runs
    the effects whose dependencies changed, children first. The locale \<^verbatim>\<open>view_machine\<close> says when the panels fit the store.
  \<^item> \<^verbatim>\<open>Frontend_Editors\<close> (\<^verbatim>\<open>TroveManager.tsx\<close>, \<^verbatim>\<open>StabilityDepositManager.tsx\<close>, \<^verbatim>\<open>StakingManager.tsx\<close>, \<^verbatim>\<open>StakingViewProvider.tsx\<close>): the
    reducers that hold unsaved edits, and how store updates rebase them.
  \<^item> \<^verbatim>\<open>Frontend_Validation\<close> (\<^verbatim>\<open>validateTroveChange.tsx\<close>, \<^verbatim>\<open>validateStabilityDepositChange.tsx\<close>, \<^verbatim>\<open>useValidationState.ts\<close>, ...):
    validation lets through exactly what the rules permit, and what it lets through is safe.
  \<^item> \<^verbatim>\<open>Frontend_Forms\<close> (\<^verbatim>\<open>Opening.tsx\<close>, \<^verbatim>\<open>Adjusting.tsx\<close>, \<^verbatim>\<open>hooks\<close>): the forms for troves, their limits and their automatic adjustment.
  \<^item> \<^verbatim>\<open>Frontend_Transactions\<close> (\<^verbatim>\<open>Transaction.tsx\<close>, \<^verbatim>\<open>loading_state.ts\<close>, \<^verbatim>\<open>Steps.tsx\<close>, \<^verbatim>\<open>errors.tsx\<close>): the life of a transaction in the
    front end, as the reachable states of its monitor, and what happens to it when the store is replaced.
  \<^item> \<^verbatim>\<open>Frontend_Actions\<close> (\<^verbatim>\<open>TroveAction.tsx\<close>, \<^verbatim>\<open>useTroveTransactionFunction.ts\<close>, ...): the calls that the buttons make.
  \<^item> \<^verbatim>\<open>Redemption_History\<close>, \<^verbatim>\<open>Redemption_Page\<close> (\<^verbatim>\<open>dev-frontend/src/utils/redemption-page\<close>, \<^verbatim>\<open>RedemptionsPage.tsx\<close>, \<^verbatim>\<open>RedeemHchf.tsx\<close>): the
    history of redemptions, reconstructed from logs of the mirror node. The search for a trove's earlier state goes back in
    windows of seven days and ends at a fixed date, so it terminates; what is shown of a redemption adds up; the preview of the form
    is right about the troves that it lists.
  \<^item> \<^verbatim>\<open>Frontend_Session\<close> (\<^verbatim>\<open>authentication.tsx\<close>, \<^verbatim>\<open>configuration\<close>, \<^verbatim>\<open>chain_context.tsx\<close>, \<^verbatim>\<open>multi_wallet.tsx\<close>,
    \<^verbatim>\<open>HederaDappConnectorProvider.tsx\<close>, \<^verbatim>\<open>LiquityContext.tsx\<close>): the login, the selected ledger, the wallets and the client that is used. Which
    logins survive a reload, and that the client belongs to the wallet as long as only one is connected.
  \<^item> \<^verbatim>\<open>Frontend_Lists\<close> (\<^verbatim>\<open>RiskyTroves.tsx\<close>, \<^verbatim>\<open>LiquidationManager.tsx\<close>, \<^verbatim>\<open>DecimalInput.tsx\<close>, \<^verbatim>\<open>ExpensiveTroveChangeWarning.tsx\<close>): the list of
    risky troves and its pages, which miss no trove and show them by ascending ratio; when a liquidation is offered; the input for amounts.
  \<^item> \<^verbatim>\<open>Frontend_Pages\<close> (\<^verbatim>\<open>RedemptionsPage.tsx\<close>, \<^verbatim>\<open>fetchHlqtPrice.ts\<close>, \<^verbatim>\<open>Yield.tsx\<close>, \<^verbatim>\<open>CollateralRatio.tsx\<close>,
    \<^verbatim>\<open>DeploymentEnvironmentGenerator.tsx\<close>): turning the pages of the history, which overlap by one result, the price and the yield, and the description of a deployment, which
    shares a list with the object it was made of.
  \<^item> \<^verbatim>\<open>React_Hooks\<close> (\<^verbatim>\<open>lib-react/src\<close>, \<^verbatim>\<open>dev-frontend/src/hooks\<close>, \<^verbatim>\<open>Snackbar.tsx\<close>): between store and components. Rendering, effects and events are
    separate steps. The locale \<^verbatim>\<open>state_equality\<close> is what the hooks need of the comparison of states, interpreted on \<^verbatim>\<open>equals.ts\<close>.
  \<^item> \<^verbatim>\<open>Placeholder_Client\<close> (\<^verbatim>\<open>lib-placeholder/src\<close>): the client for visitors without a wallet.
  \<^item> \<^verbatim>\<open>Batching\<close> (\<^verbatim>\<open>providers/src/BatchedProvider.ts\<close>, \<^verbatim>\<open>dev-frontend/src/providers/BatchingProvider.ts\<close>): calls that are sent together. The
    locale \<^verbatim>\<open>batching_class\<close> is what the two classes have in common; both interpret it, and batching cannot be noticed in either.
  \<^item> \<^verbatim>\<open>Ethers_Read\<close>, \<^verbatim>\<open>Ethers_Store\<close> (\<^verbatim>\<open>lib-ethers/src\<close>: \<^verbatim>\<open>ReadableEthersLiquity.ts\<close>, \<^verbatim>\<open>BlockPolledLiquityStore.ts\<close>,
    \<^verbatim>\<open>EthersLiquityConnection.ts\<close>): the reading half of the Ethereum client, its store and the client that answers from it. It reads what
    the Hashgraph client reads but for the default of two allowances; and which of its reads the store fixes at a block.
  \<^item> \<^verbatim>\<open>Ethers_Populate\<close> (\<^verbatim>\<open>PopulatableEthersLiquity.ts\<close>, \<^verbatim>\<open>contracts.ts\<close>): the transactions that client builds. For every action the
    two clients share, they call the same function with the same arguments, but for two counts that the Hashgraph client sends \<open>10\<^sup>8\<close> times larger.
  \<^item> \<^verbatim>\<open>Ethers_Send\<close> (\<^verbatim>\<open>SendableEthersLiquity.ts\<close>, \<^verbatim>\<open>EthersLiquity.ts\<close>, \<^verbatim>\<open>consentable.ts\<close>, \<^verbatim>\<open>parseLogs.ts\<close>): sending them, receipts,
    consent and the text of logs. The locale \<^verbatim>\<open>ethers_approval\<close> is what the three approvals have in common.
  \<^item> \<^verbatim>\<open>Ethers_Observe\<close> (\<^verbatim>\<open>ObservableEthersLiquity.ts\<close>): watching values by events of contracts. A watch that has come to rest has reported the
    value at the highest block it heard of.
  \<^item> \<^verbatim>\<open>Web_Socket\<close> (\<^verbatim>\<open>providers/src/WebSocketAugmentedProvider.ts\<close>): the provider that takes blocks from a web socket while it has one. Its
    listeners hear every block whatever becomes of the socket, those for one event are called once, and its loops over nodes that lag behind, which are
    partial functions, end when the nodes catch up.
  \<^item> \<^verbatim>\<open>Deploy\<close> (\<^verbatim>\<open>lib-ethers/utils\<close>, \<^verbatim>\<open>_connectToContracts\<close> of \<^verbatim>\<open>contracts.ts\<close>): the script that deploys and connects the contracts, as actions on a
    node with the log of what was done. Retrying ends after eleven attempts; each address goes to the parameter meant for it; and no deployment can be completed.
  \<^item> This theory has the properties that span components: the refreshed store agrees with the readers, and a form that is
    accepted is sent as a transaction that asks for the trove it shows.

  \<^bold>\<open>Not modelled.\<close> The Solidity contracts (other language, reached by remote calls), generated interfaces beyond the entries that
  the client calls, markup and styling, what the wallet libraries do and their dialogues, logging, the tests, and scripts other than the one for deployment.
\<close>

text \<open>
  C6. After a successful refresh the state and the readers agree: the trove in the store's derived state compares
  equal with the one \<^verbatim>\<open>getTrove\<close> reads for the user, and its fees with those of \<^verbatim>\<open>getFees\<close>, recovery mode included,
  although the one path reduces, keeps old objects and derives, and the other reads directly.
\<close>

theorem refreshed_state_matches_readers:
  assumes "fetchStoreValues this k m ids None = Inr (b, e)" and "userAccountAddress this \<noteq> []"
    and "store_snapshot ids call onLoaded (b, e) s = (s', Inr r)"
    and "\<forall>x. baseState s' = Some x \<longrightarrow> trove_constants (content (total x)) = client_constants this"
  shows "\<exists>d t f. derivedState s' = Some d \<and> Hashgraph_getTrove this k None = Inr t
    \<and> UserTrove_equals (content (trove d)) t \<and> Hashgraph_getFees this k None = Inr f
    \<and> Fees_equals (content (fees d)) f"
  using assms by (rule snapshot_matches_readers)

theorem refreshed_state_matches_readers_witness:
  "\<exists>b e s r d t f. fetchStoreValues sample_client sample_contracts sample_mirror no_identity None = Inr (b, e)
     \<and> store_snapshot no_identity silent None (b, e) (new_Store defaults) = (s, Inr r)
     \<and> derivedState s = Some d \<and> Hashgraph_getTrove sample_client sample_contracts None = Inr t
     \<and> UserTrove_equals (content (trove d)) t \<and> Hashgraph_getFees sample_client sample_contracts None = Inr f
     \<and> Fees_equals (content (fees d)) f"
proof -
  obtain b e s r where f: "fetchStoreValues sample_client sample_contracts sample_mirror no_identity None = Inr (b, e)"
    and snap: "store_snapshot no_identity silent None (b, e) (new_Store defaults) = (s, Inr r)"
    and b: "baseState s = Some b"
    using sample_snapshot by metis
  have "\<forall>x. baseState s = Some x \<longrightarrow> trove_constants (content (total x)) = client_constants sample_client"
    using b getTotal_constants [OF fetchStoreValues_reads(2) [OF f]] by simp
  moreover have "userAccountAddress sample_client \<noteq> []"
    by (simp add: sample_client_def)
  ultimately show ?thesis
    using refreshed_state_matches_readers [OF f _ snap] f snap by blast
qed

text \<open>
  C7. A form that is accepted can be sent, and asks for what it shows. If the form for opening a trove accepts its input, and the
  client reads the borrowing rate that the form was shown with, the button's action is a call that the client turns into a
  transaction: a call of \<^verbatim>\<open>openTrove\<close> that sends the collateral of the trove shown, asks for an amount of which the reserve, the amount
  and its fee at that rate make up exactly the debt shown, accepts rates up to half a percent more, and carries a valid position
  in the sorted list for the trove shown.
\<close>

theorem opening_form_opens_shown_trove:
  fixes store :: "'e store"
  assumes "Opening_validation ctx s st isConnected = Inr (Some c, d)" and "form_collateral s \<noteq> Decimal_INFINITY"
    and "fc_constants ctx = client_constants (pop_client p)"
    and "Hashgraph_getFees (pop_client p) (pop_contracts p) None = Inr f" and "Fees_borrowingRate f None = Inr (fc_borrowingRate ctx)"
    and "sorted_troves (pop_contracts p) (pop_hints p) troves" and "reads_hbars p"
  shows "\<exists>a tx amount. TroveAction c (maxBorrowingRate (fc_borrowingRate ctx)) = Some a \<and> asPopulatable p store a = Inr tx
    \<and> opening_call (rawPopulatedTransaction tx) = Some (bigNumber (maxBorrowingRate (fc_borrowingRate ctx)), amount, bigNumber (collateral (Opening_trove ctx s)))
    \<and> debt (Opening_trove ctx s) = Decimal_add (HCHF_LIQUIDATION_RESERVE (fc_constants ctx)) (applyFee (fc_borrowingRate ctx) (Decimal amount))
    \<and> valid_insert_position troves (bigNumber (Trove_nominalCollateralRatio (Opening_trove ctx s)))
        (position_hints (the (functionParameters (rawPopulatedTransaction tx))))"
proof -
  let ?m = "maxBorrowingRate (fc_borrowingRate ctx)"
  obtain b where c: "c = Creation \<lparr>create_depositCollateral = form_collateral s, create_borrowHCHF = b\<rparr>" (is "_ = Creation ?n")
    and shown: "Trove_apply (empty_Trove (fc_constants ctx)) (Some c) (Some (fc_borrowingRate ctx)) = Inr (Opening_trove ctx s)"
    using Opening_accepted [OF assms(1)] by blast
  obtain tx where tx: "populateOpenTrove p (creation_entries ?n) (Some (DecimalObject ?m)) = Inr tx"
    using populateOpenTrove_exists [of "creation_entries ?n" ?n p f "fc_borrowingRate ctx" troves "Some (DecimalObject ?m)" ?m] assms(2,4-7)
    by auto
  have "create_depositCollateral ?n \<noteq> Decimal_INFINITY" using assms(2) by simp
  note call = populateOpenTrove_with_maximum [OF tx assms(7) this assms(4-6) shown [unfolded c assms(3)]]
  show ?thesis
    using c tx call assms(3)
    by (intro exI [of _ "Action_openTrove (creation_entries ?n) (Some (DecimalObject ?m))"] exI [of _ tx] exI [of _ "bigNumber b"]) simp
qed

theorem opening_form_opens_shown_trove_witness:
  "\<exists>a tx amount. TroveAction (Creation \<lparr>create_depositCollateral = Decimal 4000000000000, create_borrowHCHF = Decimal 180000000000\<rparr>)
       (Decimal 1000000) = Some a
     \<and> asPopulatable sample_normal_mode (new_Store defaults :: unit store) a = Inr tx
     \<and> opening_call (rawPopulatedTransaction tx) = Some (1000000, amount, bigNumber (collateral (Opening_trove sample_form_context sample_entered)))
     \<and> debt (Opening_trove sample_form_context sample_entered) =
         Decimal_add (HCHF_LIQUIDATION_RESERVE defaults) (applyFee (Decimal 500000) (Decimal amount))
     \<and> valid_insert_position sample_sorted (bigNumber (Trove_nominalCollateralRatio (Opening_trove sample_form_context sample_entered)))
         (position_hints (the (functionParameters (rawPopulatedTransaction tx))))"
proof -
  obtain d where v: "Opening_validation sample_form_context sample_entered sample_opening_state True =
     Inr (Some (Creation \<lparr>create_depositCollateral = Decimal 4000000000000, create_borrowHCHF = Decimal 180000000000\<rparr>), d)"
    using sample_opening_validated by blast
  obtain f where f: "Hashgraph_getFees (pop_client sample_normal_mode) (pop_contracts sample_normal_mode) None = Inr f"
    "Fees_borrowingRate f None = Inr (fc_borrowingRate sample_form_context)"
    using sample_normal_mode_rate by (auto simp: sample_form_context_def)
  have m: "form_collateral sample_entered \<noteq> Decimal_INFINITY" "fc_constants sample_form_context = client_constants (pop_client sample_normal_mode)"
    "maxBorrowingRate (fc_borrowingRate sample_form_context) = Decimal 1000000"
    by (simp_all add: sample_entered_def sample_form_context_def maxBorrowingRate_def Decimal_add_def Decimal_INFINITY_def MAX_UINT_256_def)
  from opening_form_opens_shown_trove [OF v m(1,2) f, of sample_sorted "new_Store defaults :: unit store"]
  show ?thesis
    using sample_normal_mode_sorted sample_normal_mode_hbars m(3) by (simp add: sample_form_context_def)
qed

end
